(* ===== verification/Prelude.thy ===== *)
theory Prelude
  imports Main "HOL-Library.List_Lexorder" "HOL-Library.Char_ord"
begin

text \<open>Shared vocabulary of the development: the types of identifiers and times, the
collections of simplification rules the component theories fill, and the generic facts about
lists that the models of database tables, queues and event traces use.\<close>

section \<open>Types\<close>

text \<open>A \<open>uuid.UUID\<close> is represented by its canonical text, the form in which every table stores
it; two values are equal exactly when their canonical texts are.  A \<open>time.Time\<close> is a number of
nanoseconds counted from Go's zero time, which is therefore 0.\<close>

type_synonym uuid = string
type_synonym time = int

definition nil_uuid :: uuid where
  "nil_uuid = ''00000000-0000-0000-0000-000000000000''"

definition zero_time :: time where
  "zero_time = 0"

definition second :: time where "second = 1000000000"
definition minute :: time where "minute = 60 * second"
definition hour :: time where "hour = 60 * minute"

named_theorems store_simps \<open>projections of table operations\<close>
named_theorems frame_intros \<open>what an operation leaves unchanged\<close>

section \<open>Keyed rows in a list\<close>

definition update_where :: "('r \<Rightarrow> bool) \<Rightarrow> ('r \<Rightarrow> 'r) \<Rightarrow> 'r list \<Rightarrow> 'r list" where
  "update_where P f rs = map (\<lambda>r. if P r then f r else r) rs"

definition delete_where :: "('r \<Rightarrow> bool) \<Rightarrow> 'r list \<Rightarrow> 'r list" where
  "delete_where P rs = filter (\<lambda>r. \<not> P r) rs"

definition count_where :: "('r \<Rightarrow> bool) \<Rightarrow> 'r list \<Rightarrow> nat" where
  "count_where P rs = length (filter P rs)"

text \<open>\<open>LIMIT l OFFSET o\<close>: a negative limit is no limit, a negative offset is no offset.\<close>

definition sql_page :: "int \<Rightarrow> int \<Rightarrow> 'r list \<Rightarrow> 'r list" where
  "sql_page l off rs =
     (let rest = drop (nat off) rs in if l < 0 then rest else take (nat l) rest)"

lemma update_where_simps [simp]:
  "update_where P f [] = []"
  "update_where P f (r # rs) = (if P r then f r else r) # update_where P f rs"
  by (simp_all add: update_where_def)

lemma update_where_append [simp]:
  "update_where P f (xs @ ys) = update_where P f xs @ update_where P f ys"
  by (simp add: update_where_def)

lemma length_update_where [simp]: "length (update_where P f rs) = length rs"
  by (simp add: update_where_def)

lemma set_update_where:
  "set (update_where P f rs) = f ` {r \<in> set rs. P r} \<union> {r \<in> set rs. \<not> P r}"
  by (auto simp: update_where_def)

lemma update_where_none:
  "(\<And>r. r \<in> set rs \<Longrightarrow> \<not> P r) \<Longrightarrow> update_where P f rs = rs"
  by (induction rs) auto

lemma map_update_where:
  "(\<And>r. g (f r) = g r) \<Longrightarrow> map g (update_where P f rs) = map g rs"
  by (induction rs) auto

lemma filter_update_where_disj:
  "(\<And>r. P r \<Longrightarrow> Q r \<Longrightarrow> False) \<Longrightarrow> (\<And>r. P r \<Longrightarrow> Q (f r) \<Longrightarrow> False)
   \<Longrightarrow> filter Q (update_where P f rs) = filter Q rs"
  by (induction rs) auto

lemma delete_where_simps [simp]:
  "delete_where P [] = []"
  "delete_where P (r # rs) = (if P r then delete_where P rs else r # delete_where P rs)"
  by (simp_all add: delete_where_def)

lemma set_delete_where [simp]: "set (delete_where P rs) = {r \<in> set rs. \<not> P r}"
  by (auto simp: delete_where_def)

lemma count_where_simps [simp]:
  "count_where P [] = 0"
  "count_where P (r # rs) = (if P r then Suc (count_where P rs) else count_where P rs)"
  by (simp_all add: count_where_def)

lemma count_where_0 [simp]: "count_where P rs = 0 \<longleftrightarrow> (\<forall>r\<in>set rs. \<not> P r)"
  by (induction rs) auto

lemma count_where_pos [simp]: "0 < count_where P rs \<longleftrightarrow> (\<exists>r\<in>set rs. P r)"
  by (induction rs) auto

lemma distinct_map_delete_where [intro]:
  "distinct (map g rs) \<Longrightarrow> distinct (map g (delete_where P rs))"
  by (induction rs) auto

lemma sql_page_subset: "set (sql_page l off rs) \<subseteq> set rs"
proof
  fix x assume "x \<in> set (sql_page l off rs)"
  then have "x \<in> set (drop (nat off) rs)"
    by (auto simp: sql_page_def Let_def split: if_splits dest: in_set_takeD)
  then show "x \<in> set rs" by (rule in_set_dropD)
qed

lemma length_sql_page: "0 \<le> l \<Longrightarrow> length (sql_page l off rs) \<le> nat l"
  by (simp add: sql_page_def Let_def)

lemma filter_key_unique:
  "distinct (map g rs) \<Longrightarrow> r \<in> set rs \<Longrightarrow> filter (\<lambda>x. g x = g r) rs = [r]"
proof (induction rs)
  case (Cons a rs)
  show ?case
  proof (cases "r = a")
    case True
    have "g a \<notin> g ` set rs" using Cons.prems by simp
    then have "filter (\<lambda>x. g x = g a) rs = []"
      unfolding filter_empty_conv by (metis imageI)
    with True show ?thesis by simp
  next
    case False
    then have "r \<in> set rs" "g a \<noteq> g r" using Cons.prems by auto
    with Cons show ?thesis by simp
  qed
qed simp

lemma distinct_key_eq:
  "distinct (map g rs) \<Longrightarrow> r \<in> set rs \<Longrightarrow> q \<in> set rs \<Longrightarrow> g r = g q \<Longrightarrow> r = q"
  by (auto simp: distinct_map inj_on_def)

section \<open>Text\<close>

fun starts_with :: "string \<Rightarrow> string \<Rightarrow> bool" where
  "starts_with [] s = True"
| "starts_with (p # ps) [] = False"
| "starts_with (p # ps) (c # cs) = (p = c \<and> starts_with ps cs)"

lemma starts_with_iff: "starts_with p s \<longleftrightarrow> (\<exists>t. s = p @ t)"
  by (induction p s rule: starts_with.induct) auto

lemma starts_with_append [simp]: "starts_with p (p @ t)"
  by (simp add: starts_with_iff)

definition ends_with :: "string \<Rightarrow> string \<Rightarrow> bool" where
  "ends_with p s = starts_with (rev p) (rev s)"

lemma ends_with_iff: "ends_with p s \<longleftrightarrow> (\<exists>t. s = t @ p)"
  unfolding ends_with_def starts_with_iff by (metis rev_append rev_rev_ident)

fun str_contains :: "string \<Rightarrow> string \<Rightarrow> bool" where
  "str_contains p [] = (p = [])"
| "str_contains p (c # cs) = (starts_with p (c # cs) \<or> str_contains p cs)"

lemma str_contains_iff: "str_contains p s \<longleftrightarrow> (\<exists>a b. s = a @ p @ b)"
proof (induction s)
  case (Cons c cs)
  show ?case
  proof
    assume "str_contains p (c # cs)"
    then consider "starts_with p (c # cs)" | "str_contains p cs" by auto
    then show "\<exists>a b. c # cs = a @ p @ b"
    proof cases
      case 1 then show ?thesis by (metis append_Nil starts_with_iff)
    next
      case 2 then show ?thesis using Cons.IH by (metis append_Cons)
    qed
  next
    assume "\<exists>a b. c # cs = a @ p @ b"
    then obtain a b where ab: "c # cs = a @ p @ b" by blast
    show "str_contains p (c # cs)"
    proof (cases a)
      case Nil
      then have "starts_with p (c # cs)" using ab by (auto simp: starts_with_iff)
      then show ?thesis by simp
    next
      case (Cons d ds) then show ?thesis using ab Cons.IH by auto
    qed
  qed
qed auto

text \<open>\<open>strings.Split\<close> on one character, \<open>strings.Join\<close>, and \<open>strings.TrimSpace\<close> on ASCII white
space.\<close>

fun split_on :: "char \<Rightarrow> string \<Rightarrow> string list" where
  "split_on d [] = [[]]"
| "split_on d (c # cs) =
     (if c = d then [] # split_on d cs
      else (case split_on d cs of [] \<Rightarrow> [[c]] | w # ws \<Rightarrow> (c # w) # ws))"

fun join_with :: "string \<Rightarrow> string list \<Rightarrow> string" where
  "join_with sep [] = []"
| "join_with sep [w] = w"
| "join_with sep (w # v # ws) = w @ sep @ join_with sep (v # ws)"

lemma split_on_nonempty [simp]: "split_on d s \<noteq> []"
  by (cases s) (auto split: list.split)

lemma join_split_on: "join_with [d] (split_on d s) = s"
proof (induction s)
  case (Cons c cs)
  obtain w ws where "split_on d cs = w # ws" by (cases "split_on d cs") auto
  with Cons show ?case by (cases ws) auto
qed simp

lemma split_on_no_sep: "d \<notin> set s \<Longrightarrow> split_on d s = [s]"
  by (induction s) auto

lemma split_on_parts: "w \<in> set (split_on d s) \<Longrightarrow> d \<notin> set w"
proof (induction s arbitrary: w)
  case (Cons c cs)
  obtain v ws where "split_on d cs = v # ws" by (cases "split_on d cs") auto
  with Cons show ?case by (auto split: if_splits)
qed simp

lemma split_on_append:
  "split_on d (a @ d # b) = split_on d a @ split_on d b"
proof (induction a)
  case (Cons c a)
  obtain w ws where "split_on d a = w # ws" by (cases "split_on d a") auto
  with Cons show ?case by simp
qed simp

lemma split_join_with:
  "xs \<noteq> [] \<Longrightarrow> list_all (\<lambda>x. d \<notin> set x) xs \<Longrightarrow> split_on d (join_with [d] xs) = xs"
proof (induction xs)
  case (Cons x xs)
  then show ?case by (cases xs) (auto simp: split_on_append split_on_no_sep)
qed simp

definition is_space :: "char \<Rightarrow> bool" where
  "is_space c = (let n = (of_char c :: nat) in n = 32 \<or> (9 \<le> n \<and> n \<le> 13))"

definition trim_space :: "string \<Rightarrow> string" where
  "trim_space s = rev (dropWhile is_space (rev (dropWhile is_space s)))"

section \<open>Decimal text\<close>

definition digit :: "nat \<Rightarrow> char" where
  "digit n = char_of (48 + n)"

fun nat_text :: "nat \<Rightarrow> string" where
  "nat_text n = (if n < 10 then [digit n] else nat_text (n div 10) @ [digit (n mod 10)])"

declare nat_text.simps [simp del]

definition int_text :: "int \<Rightarrow> string" where
  "int_text i = (if i < 0 then CHR ''-'' # nat_text (nat (- i)) else nat_text (nat i))"

definition is_digit :: "char \<Rightarrow> bool" where
  "is_digit c = (48 \<le> (of_char c :: nat) \<and> (of_char c :: nat) \<le> 57)"

definition digits_val :: "string \<Rightarrow> nat" where
  "digits_val s = foldl (\<lambda>a c. 10 * a + (of_char c - 48)) 0 s"

lemma of_char_digit [simp]: "n < 10 \<Longrightarrow> (of_char (digit n) :: nat) = 48 + n"
  by (simp add: digit_def)

lemma is_digit_digit [simp]: "n < 10 \<Longrightarrow> is_digit (digit n)"
  by (simp add: is_digit_def)

lemma nat_text_digits: "list_all is_digit (nat_text n)"
  by (induction n rule: nat_text.induct) (simp add: nat_text.simps)

lemma nat_text_nonempty [simp]: "nat_text n \<noteq> []"
  by (subst nat_text.simps) simp

lemma digits_val_nat_text [simp]: "digits_val (nat_text n) = n"
proof (induction n rule: nat_text.induct)
  case (1 n)
  show ?case
  proof (cases "n < 10")
    case True
    then show ?thesis by (simp add: nat_text.simps[of n] digits_val_def)
  next
    case False
    then have "digits_val (nat_text (n div 10)) = n div 10" using 1 by simp
    with False show ?thesis
      by (simp add: nat_text.simps[of n] digits_val_def)
  qed
qed

lemma nat_text_no_leading_zero: "0 < n \<Longrightarrow> hd (nat_text n) \<noteq> CHR ''0''"
proof (induction n rule: nat_text.induct)
  case (1 n)
  show ?case
  proof (cases "n < 10")
    case True
    have "(of_char (digit n) :: nat) \<noteq> of_char (CHR ''0'')" using True 1 by simp
    then have "digit n \<noteq> CHR ''0''" by metis
    with True show ?thesis by (simp add: nat_text.simps[of n])
  next
    case False
    then have "0 < n div 10" by simp
    with False 1 show ?thesis by (simp add: nat_text.simps[of n])
  qed
qed

text \<open>\<open>net.SplitHostPort\<close>, of which only the host is used.\<close>

definition split_host :: "string \<Rightarrow> string option" where
  "split_host hp =
     (case dropWhile (\<lambda>c. c \<noteq> CHR '':'') (rev hp) of
        [] \<Rightarrow> None
      | _ # before_rev \<Rightarrow>
          (let before = rev before_rev; port = rev (takeWhile (\<lambda>c. c \<noteq> CHR '':'') (rev hp));
               plain = (\<lambda>t. CHR ''['' \<notin> set t \<and> CHR '']'' \<notin> set t) in
           case hp of
             [] \<Rightarrow> None
           | h # _ \<Rightarrow>
               if h = CHR ''[''
               then (case before of
                       _ # b \<Rightarrow> if b \<noteq> [] \<and> last b = CHR '']'' \<and> plain (butlast b) \<and> plain port
                                then Some (butlast b) else None
                     | [] \<Rightarrow> None)
               else if CHR '':'' \<notin> set before \<and> plain before \<and> plain port then Some before else None))"

end
