(* ===== verification/GoMap.thy ===== *)
theory GoMap
  imports Prelude
begin

text \<open>Go maps with string keys, as association lists with one entry per key.  The locale states what
a client relies on; the model's maps interpret it.\<close>

fun map_put :: "'k \<Rightarrow> 'a \<Rightarrow> ('k \<times> 'a) list \<Rightarrow> ('k \<times> 'a) list" where
  "map_put k v [] = [(k, v)]"
| "map_put k v ((k', v') # kvs) =
     (if k' = k then (k, v) # kvs else (k', v') # map_put k v kvs)"

definition map_del :: "'k \<Rightarrow> ('k \<times> 'a) list \<Rightarrow> ('k \<times> 'a) list" where
  "map_del k m = filter (\<lambda>(k', _). k' \<noteq> k) m"

definition map_keep :: "('a \<Rightarrow> bool) \<Rightarrow> ('k \<times> 'a) list \<Rightarrow> ('k \<times> 'a) list" where
  "map_keep P m = filter (\<lambda>(_, v). P v) m"

definition map_ok :: "('k \<times> 'a) list \<Rightarrow> bool" where
  "map_ok m = distinct (map fst m)"

lemma map_of_put [simp]: "map_of (map_put k v m) = (map_of m)(k \<mapsto> v)"
  by (induction k v m rule: map_put.induct) (auto simp: fun_eq_iff)

lemma keys_map_put: "fst ` set (map_put k v m) = insert k (fst ` set m)"
  by (induction k v m rule: map_put.induct) (simp_all add: insert_commute)

lemma distinct_map_put: "distinct (map fst m) \<Longrightarrow> distinct (map fst (map_put k v m))"
  by (induction k v m rule: map_put.induct) (auto simp: keys_map_put)

lemma map_of_del [simp]: "map_of (map_del k m) = (map_of m)(k := None)"
  by (induction m) (auto simp: map_del_def fun_eq_iff)

lemma distinct_map_filter': "distinct (map fst m) \<Longrightarrow> distinct (map fst (filter P m))"
  by (rule distinct_map_filter)

lemma map_of_keep:
  "distinct (map fst m) \<Longrightarrow>
   map_of (map_keep P m) k = (case map_of m k of Some v \<Rightarrow> if P v then Some v else None | None \<Rightarrow> None)"
proof (induction m)
  case (Cons e m)
  obtain k' v where e: "e = (k', v)" by (cases e)
  have "map_of m k = None" if "k = k'"
    using that Cons.prems e by (auto simp: map_of_eq_None_iff)
  with Cons e show ?case by (auto simp: map_keep_def)
qed (simp add: map_keep_def)

lemma map_put_new: "k \<notin> fst ` set m \<Longrightarrow> map_put k v m = m @ [(k, v)]"
  by (induction m) auto

locale go_map =
  fixes empty :: 'm
    and put :: "'k \<Rightarrow> 'a \<Rightarrow> 'm \<Rightarrow> 'm"
    and del :: "'k \<Rightarrow> 'm \<Rightarrow> 'm"
    and keep :: "('a \<Rightarrow> bool) \<Rightarrow> 'm \<Rightarrow> 'm"
    and get :: "'m \<Rightarrow> 'k \<Rightarrow> 'a option"
    and ok :: "'m \<Rightarrow> bool"
  assumes get_empty: "get empty = Map.empty"
    and get_put: "ok m \<Longrightarrow> get (put k v m) = (get m)(k \<mapsto> v)"
    and get_del: "ok m \<Longrightarrow> get (del k m) = (get m)(k := None)"
    and get_keep: "ok m \<Longrightarrow> get (keep P m) k =
          (case get m k of Some v \<Rightarrow> if P v then Some v else None | None \<Rightarrow> None)"
    and ok_empty: "ok empty"
    and ok_put: "ok m \<Longrightarrow> ok (put k v m)"
    and ok_del: "ok m \<Longrightarrow> ok (del k m)"
    and ok_keep: "ok m \<Longrightarrow> ok (keep P m)"
begin

lemmas ok_simps = ok_empty ok_put ok_del ok_keep

lemma put_del: "ok m \<Longrightarrow> get m k = None \<Longrightarrow> get (del k (put k v m)) = get m"
  by (simp add: get_del get_put ok_put fun_upd_idem)

text \<open>Dropping the entries a client ignores is not seen by it: every lookup that is filtered by \<open>P\<close>
gives the same before and after a sweep that keeps the entries with \<open>Q\<close>, when \<open>P\<close> implies
\<open>Q\<close>.\<close>

definition seen :: "('a \<Rightarrow> bool) \<Rightarrow> 'm \<Rightarrow> 'k \<Rightarrow> 'a option" where
  "seen P m k = (case get m k of Some v \<Rightarrow> if P v then Some v else None | None \<Rightarrow> None)"

lemma seen_keep:
  "ok m \<Longrightarrow> (\<And>v. P v \<Longrightarrow> Q v) \<Longrightarrow> seen P (keep Q m) k = seen P m k"
  by (auto simp: seen_def get_keep split: option.split)

end

interpretation amap: go_map "[]" map_put map_del map_keep map_of map_ok
proof (unfold_locales, goal_cases)
  case (4 m P k)
  then show ?case by (simp add: map_ok_def map_of_keep)
next
  case (6 m k v)
  then show ?case by (simp add: map_ok_def distinct_map_put)
next
  case (7 m k)
  then show ?case by (simp add: map_ok_def map_del_def distinct_map_filter)
next
  case (8 m P)
  then show ?case by (simp add: map_ok_def map_keep_def distinct_map_filter)
qed (simp_all add: map_ok_def)

end
