(* ===== verification/Json.thy ===== *)
theory Json
  imports GoMap
begin

text \<open>The part of Go's \<open>encoding/json\<close> the program relies on: the text \<open>json.Marshal\<close> writes, the
documents \<open>json.Unmarshal\<close> accepts, and how a document is decoded into the fields of a struct
(names compared without case, later duplicates win, \<open>null\<close> leaves a field as it was, a value of
the wrong kind is an error).  A string is its UTF-8 bytes; texts are taken to be valid UTF-8
without the code points U+2028 and U+2029, and the nesting limit of 10000 is not modelled.
A number is kept as its literal, as the scanner does.\<close>

datatype json =
    JNull
  | JBool bool
  | JNum string
  | JStr string
  | JArr "json list"
  | JObj "(string \<times> json) list"

section \<open>Writing\<close>

definition hexdigit :: "nat \<Rightarrow> char" where
  "hexdigit n = char_of (if n < 10 then 48 + n else 87 + n)"

definition json_esc :: "char \<Rightarrow> string" where
  "json_esc c =
     (let n = (of_char c :: nat) in
      if n = 92 \<or> n = 34 then [CHR 0x5C, c]
      else if n = 8 then [CHR 0x5C, CHR ''b'']
      else if n = 12 then [CHR 0x5C, CHR ''f'']
      else if n = 10 then [CHR 0x5C, CHR ''n'']
      else if n = 13 then [CHR 0x5C, CHR ''r'']
      else if n = 9 then [CHR 0x5C, CHR ''t'']
      else if n < 32 \<or> n = 60 \<or> n = 62 \<or> n = 38
        then [CHR 0x5C, CHR ''u'', CHR ''0'', CHR ''0'', hexdigit (n div 16), hexdigit (n mod 16)]
      else [c])"

definition json_quote :: "string \<Rightarrow> string" where
  "json_quote s = CHR 0x22 # concat (map json_esc s) @ [CHR 0x22]"

fun json_text :: "json \<Rightarrow> string"
  and json_elems :: "json list \<Rightarrow> string"
  and json_members :: "(string \<times> json) list \<Rightarrow> string" where
  "json_text JNull = ''null''"
| "json_text (JBool b) = (if b then ''true'' else ''false'')"
| "json_text (JNum l) = l"
| "json_text (JStr s) = json_quote s"
| "json_text (JArr vs) = CHR ''['' # json_elems vs @ '']''"
| "json_text (JObj kvs) = CHR ''{'' # json_members kvs @ ''}''"
| "json_elems [] = []"
| "json_elems [v] = json_text v"
| "json_elems (v # w # vs) = json_text v @ CHR '','' # json_elems (w # vs)"
| "json_members [] = []"
| "json_members [(k, v)] = json_quote k @ CHR '':'' # json_text v"
| "json_members ((k, v) # m # ms) =
     json_quote k @ CHR '':'' # json_text v @ CHR '','' # json_members (m # ms)"

section \<open>Reading\<close>

definition is_ws :: "char \<Rightarrow> bool" where
  "is_ws c = (c = CHR '' '' \<or> c = CHR 0x09 \<or> c = CHR 0x0A \<or> c = CHR 0x0D)"

fun skip_ws :: "string \<Rightarrow> string" where
  "skip_ws [] = []"
| "skip_ws (c # cs) = (if is_ws c then skip_ws cs else c # cs)"

definition hexval :: "char \<Rightarrow> nat option" where
  "hexval c =
     (let n = (of_char c :: nat) in
      if 48 \<le> n \<and> n \<le> 57 then Some (n - 48)
      else if 97 \<le> n \<and> n \<le> 102 then Some (n - 87)
      else if 65 \<le> n \<and> n \<le> 70 then Some (n - 55)
      else None)"

fun hex4 :: "string \<Rightarrow> (nat \<times> string) option" where
  "hex4 (a # b # c # d # r) =
     (case (hexval a, hexval b, hexval c, hexval d) of
        (Some w, Some x, Some y, Some z) \<Rightarrow> Some (4096 * w + 256 * x + 16 * y + z, r)
      | _ \<Rightarrow> None)"
| "hex4 _ = None"

definition utf8 :: "nat \<Rightarrow> string" where
  "utf8 n =
     (if n < 128 then [char_of n]
      else if n < 2048 then [char_of (192 + n div 64), char_of (128 + n mod 64)]
      else if n < 65536
        then [char_of (224 + n div 4096), char_of (128 + n div 64 mod 64), char_of (128 + n mod 64)]
      else [char_of (240 + n div 262144), char_of (128 + n div 4096 mod 64),
            char_of (128 + n div 64 mod 64), char_of (128 + n mod 64)])"

definition low_surrogate :: "string \<Rightarrow> (nat \<times> string) option" where
  "low_surrogate r =
     (case r of
        a # b # r' \<Rightarrow>
          if a = CHR 0x5C \<and> b = CHR ''u''
          then (case hex4 r' of
                  Some (m, r'') \<Rightarrow> if 56320 \<le> m \<and> m < 57344 then Some (m, r'') else None
                | None \<Rightarrow> None)
          else None
      | _ \<Rightarrow> None)"

definition json_unicode :: "string \<Rightarrow> (string \<times> string) option" where
  "json_unicode r =
     (case hex4 r of
        None \<Rightarrow> None
      | Some (n, r1) \<Rightarrow>
          if 55296 \<le> n \<and> n < 57344
          then (case (if n < 56320 then low_surrogate r1 else None) of
                  Some (m, r2) \<Rightarrow> Some (utf8 (65536 + (n - 55296) * 1024 + (m - 56320)), r2)
                | None \<Rightarrow> Some (utf8 65533, r1))
          else Some (utf8 n, r1))"

definition json_escape :: "string \<Rightarrow> (string \<times> string) option" where
  "json_escape r =
     (case r of
        [] \<Rightarrow> None
      | e # r1 \<Rightarrow>
          if e = CHR 0x22 \<or> e = CHR 0x5C \<or> e = CHR ''/'' then Some ([e], r1)
          else if e = CHR ''b'' then Some ([CHR 0x08], r1)
          else if e = CHR ''f'' then Some ([CHR 0x0C], r1)
          else if e = CHR ''n'' then Some ([CHR 0x0A], r1)
          else if e = CHR ''r'' then Some ([CHR 0x0D], r1)
          else if e = CHR ''t'' then Some ([CHR 0x09], r1)
          else if e = CHR ''u'' then json_unicode r1
          else None)"

lemma hex4_length: "hex4 r = Some (n, r') \<Longrightarrow> length r' < length r"
  by (induction r rule: hex4.induct) (auto split: option.splits)

lemma low_surrogate_length: "low_surrogate r = Some (n, r') \<Longrightarrow> length r' < length r"
  by (auto simp: low_surrogate_def split: list.splits if_splits option.splits
      dest!: hex4_length)

lemma json_unicode_length: "json_unicode r = Some (t, r') \<Longrightarrow> length r' < length r"
  by (auto simp: json_unicode_def split: if_splits option.splits
      dest!: hex4_length low_surrogate_length)

lemma json_escape_length: "json_escape r = Some (t, r') \<Longrightarrow> length r' < length r"
  by (auto simp: json_escape_def split: list.splits if_splits dest!: json_unicode_length)

function (sequential) json_str :: "string \<Rightarrow> (string \<times> string) option" where
  "json_str [] = None"
| "json_str (c # cs) =
     (if c = CHR 0x22 then Some ([], cs)
      else if c = CHR 0x5C
      then (case json_escape cs of
              None \<Rightarrow> None
            | Some (t, r) \<Rightarrow>
                (case json_str r of None \<Rightarrow> None | Some (u, r') \<Rightarrow> Some (t @ u, r')))
      else if (of_char c :: nat) < 32 then None
      else (case json_str cs of None \<Rightarrow> None | Some (u, r') \<Rightarrow> Some (c # u, r')))"
  by pat_completeness auto
termination
  by (relation "measure length") (auto dest: json_escape_length)

definition num_char :: "char \<Rightarrow> bool" where
  "num_char c = (is_digit c \<or> c = CHR ''-'' \<or> c = CHR ''+'' \<or> c = CHR ''.'' \<or>
                 c = CHR ''e'' \<or> c = CHR ''E'')"

text \<open>The grammar of a number after its optional minus sign.\<close>

definition num_exp :: "string \<Rightarrow> bool" where
  "num_exp s = (case s of
       [] \<Rightarrow> True
     | e # r \<Rightarrow> (e = CHR ''e'' \<or> e = CHR ''E'') \<and>
         (let d = (case r of
                     [] \<Rightarrow> []
                   | g # r' \<Rightarrow> if g = CHR ''+'' \<or> g = CHR ''-'' then r' else r) in
          d \<noteq> [] \<and> list_all is_digit d))"

definition num_frac :: "string \<Rightarrow> bool" where
  "num_frac s = (case s of
       [] \<Rightarrow> True
     | c # r \<Rightarrow>
         if c = CHR ''.'' then takeWhile is_digit r \<noteq> [] \<and> num_exp (dropWhile is_digit r)
         else num_exp s)"

definition num_int :: "string \<Rightarrow> bool" where
  "num_int s = (case s of
       [] \<Rightarrow> False
     | c # r \<Rightarrow> if c = CHR ''0'' then num_frac r
               else is_digit c \<and> num_frac (dropWhile is_digit r))"

definition num_ok :: "string \<Rightarrow> bool" where
  "num_ok s = (case s of
       [] \<Rightarrow> False
     | c # r \<Rightarrow> if c = CHR ''-'' then num_int r else num_int s)"

definition json_num :: "string \<Rightarrow> (json \<times> string) option" where
  "json_num s =
     (let l = takeWhile num_char s in
      if num_ok l then Some (JNum l, dropWhile num_char s) else None)"

definition json_lit :: "string \<Rightarrow> json \<Rightarrow> string \<Rightarrow> (json \<times> string) option" where
  "json_lit w v s = (if starts_with w s then Some (v, drop (length w) s) else None)"

text \<open>The scanner.  The fuel is spent one unit per call; \<open>json_parse\<close> gives it two units per
character, and every second call consumes a character.\<close>

fun json_value :: "nat \<Rightarrow> string \<Rightarrow> (json \<times> string) option"
  and json_array :: "nat \<Rightarrow> string \<Rightarrow> (json list \<times> string) option"
  and json_object :: "nat \<Rightarrow> string \<Rightarrow> ((string \<times> json) list \<times> string) option" where
  "json_value 0 s = None"
| "json_value (Suc n) s =
     (case skip_ws s of
        [] \<Rightarrow> None
      | c # cs \<Rightarrow>
          if c = CHR ''{''
          then (case skip_ws cs of
                  [] \<Rightarrow> None
                | d # ds \<Rightarrow>
                    if d = CHR ''}'' then Some (JObj [], ds)
                    else (case json_object n (d # ds) of
                            None \<Rightarrow> None | Some (kvs, r) \<Rightarrow> Some (JObj kvs, r)))
          else if c = CHR ''[''
          then (case skip_ws cs of
                  [] \<Rightarrow> None
                | d # ds \<Rightarrow>
                    if d = CHR '']'' then Some (JArr [], ds)
                    else (case json_array n (d # ds) of
                            None \<Rightarrow> None | Some (vs, r) \<Rightarrow> Some (JArr vs, r)))
          else if c = CHR 0x22
          then (case json_str cs of None \<Rightarrow> None | Some (t, r) \<Rightarrow> Some (JStr t, r))
          else if c = CHR ''n'' then json_lit ''null'' JNull (c # cs)
          else if c = CHR ''t'' then json_lit ''true'' (JBool True) (c # cs)
          else if c = CHR ''f'' then json_lit ''false'' (JBool False) (c # cs)
          else json_num (c # cs))"
| "json_array 0 s = None"
| "json_array (Suc n) s =
     (case json_value n s of
        None \<Rightarrow> None
      | Some (v, r) \<Rightarrow>
          (case skip_ws r of
             [] \<Rightarrow> None
           | c # cs \<Rightarrow>
               if c = CHR '']'' then Some ([v], cs)
               else if c = CHR '',''
               then (case json_array n cs of
                       None \<Rightarrow> None | Some (vs, r') \<Rightarrow> Some (v # vs, r'))
               else None))"
| "json_object 0 s = None"
| "json_object (Suc n) s =
     (case skip_ws s of
        [] \<Rightarrow> None
      | q # qs \<Rightarrow>
          if q \<noteq> CHR 0x22 then None
          else (case json_str qs of
                  None \<Rightarrow> None
                | Some (k, r) \<Rightarrow>
                    (case skip_ws r of
                       [] \<Rightarrow> None
                     | c # cs \<Rightarrow>
                         if c \<noteq> CHR '':'' then None
                         else (case json_value n cs of
                                 None \<Rightarrow> None
                               | Some (v, r2) \<Rightarrow>
                                   (case skip_ws r2 of
                                      [] \<Rightarrow> None
                                    | e # es \<Rightarrow>
                                        if e = CHR ''}'' then Some ([(k, v)], es)
                                        else if e = CHR '',''
                                        then (case json_object n es of
                                                None \<Rightarrow> None
                                              | Some (kvs, r') \<Rightarrow> Some ((k, v) # kvs, r'))
                                        else None)))))"

definition json_parse :: "string \<Rightarrow> json option" where
  "json_parse s =
     (case json_value (2 * length s + 2) s of
        None \<Rightarrow> None
      | Some (v, r) \<Rightarrow> if skip_ws r = [] then Some v else None)"

section \<open>Decoding into struct fields\<close>

definition fold_char :: "char \<Rightarrow> char" where
  "fold_char c = (let n = (of_char c :: nat) in
     if 65 \<le> n \<and> n \<le> 90 then char_of (n + 32) else c)"

definition fold_key :: "string \<Rightarrow> string" where
  "fold_key s = map fold_char s"

text \<open>A field named \<open>k\<close> takes the value of every member whose name matches, in document order,
starting from the field's present value \<open>d\<close>; \<open>None\<close> is a decoding error.\<close>

fun json_field :: "(json \<Rightarrow> 'a \<Rightarrow> 'a option) \<Rightarrow> string \<Rightarrow> 'a \<Rightarrow> (string \<times> json) list \<Rightarrow> 'a option" where
  "json_field dec k d [] = Some d"
| "json_field dec k d ((k', v) # kvs) =
     (if fold_key k' = fold_key k
      then (case dec v d of None \<Rightarrow> None | Some d' \<Rightarrow> json_field dec k d' kvs)
      else json_field dec k d kvs)"

definition dec_string :: "json \<Rightarrow> string \<Rightarrow> string option" where
  "dec_string v d = (case v of JStr s \<Rightarrow> Some s | JNull \<Rightarrow> Some d | _ \<Rightarrow> None)"

definition dec_bool :: "json \<Rightarrow> bool \<Rightarrow> bool option" where
  "dec_bool v d = (case v of JBool b \<Rightarrow> Some b | JNull \<Rightarrow> Some d | _ \<Rightarrow> None)"

definition int64_ok :: "int \<Rightarrow> bool" where
  "int64_ok i = (- (2 ^ 63) \<le> i \<and> i < 2 ^ 63)"

definition parse_int :: "string \<Rightarrow> int option" where
  "parse_int l =
     (case l of
        [] \<Rightarrow> None
      | c # r \<Rightarrow>
          (let neg = (c = CHR ''-''); ds = (if neg then r else l);
               i = (if neg then - int (digits_val ds) else int (digits_val ds)) in
           if ds \<noteq> [] \<and> list_all is_digit ds \<and> int64_ok i then Some i else None))"

definition dec_int :: "json \<Rightarrow> int \<Rightarrow> int option" where
  "dec_int v d = (case v of JNum l \<Rightarrow> parse_int l | JNull \<Rightarrow> Some d | _ \<Rightarrow> None)"

fun dec_all :: "(json \<Rightarrow> 'a \<Rightarrow> 'a option) \<Rightarrow> 'a \<Rightarrow> json list \<Rightarrow> 'a list option" where
  "dec_all dec z [] = Some []"
| "dec_all dec z (v # vs) =
     (case dec v z of
        None \<Rightarrow> None
      | Some a \<Rightarrow> (case dec_all dec z vs of None \<Rightarrow> None | Some as \<Rightarrow> Some (a # as)))"

definition dec_list :: "(json \<Rightarrow> 'a \<Rightarrow> 'a option) \<Rightarrow> 'a \<Rightarrow> json \<Rightarrow> 'a list \<Rightarrow> 'a list option" where
  "dec_list dec z v d = (case v of JArr vs \<Rightarrow> dec_all dec z vs | JNull \<Rightarrow> Some [] | _ \<Rightarrow> None)"

fun dec_map_entries :: "(string \<times> json) list \<Rightarrow> (string \<times> string) list \<Rightarrow> (string \<times> string) list option" where
  "dec_map_entries [] m = Some m"
| "dec_map_entries ((k, v) # kvs) m =
     (case dec_string v [] of
        None \<Rightarrow> None
      | Some t \<Rightarrow> dec_map_entries kvs (map_put k t m))"

definition dec_map :: "json \<Rightarrow> (string \<times> string) list \<Rightarrow> (string \<times> string) list option" where
  "dec_map v d = (case v of JObj kvs \<Rightarrow> dec_map_entries kvs d | JNull \<Rightarrow> Some [] | _ \<Rightarrow> None)"

text \<open>\<open>json.Unmarshal\<close> of a text into a struct: \<open>null\<close> decodes to the zero struct.\<close>

definition unmarshal_struct :: "((string \<times> json) list \<Rightarrow> 'a option) \<Rightarrow> string \<Rightarrow> 'a option" where
  "unmarshal_struct dec text =
     (case json_parse text of
        Some (JObj kvs) \<Rightarrow> dec kvs
      | Some JNull \<Rightarrow> dec []
      | _ \<Rightarrow> None)"

text \<open>\<open>Decoder.Decode\<close> into a struct reads the first value of the stream and leaves the rest.\<close>

definition decode_struct :: "((string \<times> json) list \<Rightarrow> 'a option) \<Rightarrow> string \<Rightarrow> 'a option" where
  "decode_struct dec text =
     (case json_value (2 * length text + 2) text of
        Some (JObj kvs, _) \<Rightarrow> dec kvs
      | Some (JNull, _) \<Rightarrow> dec []
      | _ \<Rightarrow> None)"

text \<open>A struct as an element of a slice.\<close>

definition dec_struct :: "((string \<times> json) list \<Rightarrow> 'a option) \<Rightarrow> json \<Rightarrow> 'a \<Rightarrow> 'a option" where
  "dec_struct dec v d = (case v of JObj kvs \<Rightarrow> dec kvs | JNull \<Rightarrow> Some d | _ \<Rightarrow> None)"

definition jint :: "int \<Rightarrow> json" where
  "jint i = JNum (int_text i)"

definition jmap :: "(string \<times> string) list \<Rightarrow> json" where
  "jmap m = JObj (map (\<lambda>(k, v). (k, JStr v)) (sort_key fst m))"

end
