(* ===== verification/Hub.thy ===== *)
theory Hub
  imports Json
begin

text \<open>The publish/subscribe hub of the WebSocket layer (\<open>server/internal/websocket\<close>: \<open>hub.go\<close>,
\<open>message.go\<close>, the channel side of \<open>client.go\<close>).  A client is a pointer into a heap that holds
its topics, its bounded send channel and whether that channel is closed.  The event loop, the
publishers and the pumps of the clients are steps of one transition relation; the two channels
into the loop are bounded queues, and the loop may take from either of them, as \<open>select\<close> does.\<close>

section \<open>State\<close>

record message =
  m_type :: string
  m_topic :: string
  m_payload :: json

text \<open>Where a client is in \<open>Client.Run\<close>: not yet subscribed, its pumps running, or past
\<open>Unsubscribe\<close>.\<close>

datatype pump = Unborn | Pumping | Left

record ws_client =
  c_topics :: "string list"
  c_send :: "message list"
  c_closed :: bool
  c_pump :: pump

record hub =
  hub_clients :: "nat list"
  hub_topics :: "string \<Rightarrow> nat list"
  hub_register :: "nat list"
  hub_unregister :: "nat list"
  hub_heap :: "nat \<Rightarrow> ws_client"
  hub_running :: bool
  hub_panicked :: bool

definition sendBufferSize :: nat where "sendBufferSize = 32"
definition chanSize :: nat where "chanSize = 16"

definition new_client :: "string list \<Rightarrow> ws_client" where
  "new_client ts = \<lparr>c_topics = ts, c_send = [], c_closed = False, c_pump = Unborn\<rparr>"

text \<open>The hub before any client: the topics each future client asks for are fixed by its
request.\<close>

definition NewHub :: "(nat \<Rightarrow> string list) \<Rightarrow> hub" where
  "NewHub ts = \<lparr>hub_clients = [], hub_topics = (\<lambda>_. []), hub_register = [], hub_unregister = [],
     hub_heap = (\<lambda>c. new_client (ts c)), hub_running = True, hub_panicked = False\<rparr>"

definition set_client :: "nat \<Rightarrow> (ws_client \<Rightarrow> ws_client) \<Rightarrow> hub \<Rightarrow> hub" where
  "set_client c f h = h\<lparr>hub_heap := (hub_heap h)(c := f (hub_heap h c))\<rparr>"

text \<open>\<open>close(ch)\<close> panics on a closed channel.\<close>

definition close_send :: "nat \<Rightarrow> hub \<Rightarrow> hub" where
  "close_send c h =
     (if c_closed (hub_heap h c) then h\<lparr>hub_panicked := True\<rparr>
      else set_client c (\<lambda>k. k\<lparr>c_closed := True\<rparr>) h)"

section \<open>The event loop\<close>

definition add_topic :: "nat \<Rightarrow> string \<Rightarrow> (string \<Rightarrow> nat list) \<Rightarrow> string \<Rightarrow> nat list" where
  "add_topic c t m = m(t := List.insert c (m t))"

definition drop_topic :: "nat \<Rightarrow> string \<Rightarrow> (string \<Rightarrow> nat list) \<Rightarrow> string \<Rightarrow> nat list" where
  "drop_topic c t m = m(t := removeAll c (m t))"

definition loop_register :: "nat \<Rightarrow> hub \<Rightarrow> hub" where
  "loop_register c h = h\<lparr>
     hub_clients := List.insert c (hub_clients h),
     hub_topics := fold (add_topic c) (c_topics (hub_heap h c)) (hub_topics h)\<rparr>"

definition loop_unregister :: "nat \<Rightarrow> hub \<Rightarrow> hub" where
  "loop_unregister c h =
     (if c \<in> set (hub_clients h)
      then close_send c (h\<lparr>
             hub_clients := removeAll c (hub_clients h),
             hub_topics := fold (drop_topic c) (c_topics (hub_heap h c)) (hub_topics h)\<rparr>)
      else h)"

definition loop_shutdown :: "hub \<Rightarrow> hub" where
  "loop_shutdown h =
     (fold close_send (hub_clients h) h)\<lparr>
        hub_clients := [], hub_topics := (\<lambda>_. []), hub_running := False\<rparr>"

section \<open>Publishing\<close>

definition trySend :: "nat \<Rightarrow> message \<Rightarrow> hub \<Rightarrow> bool \<times> hub" where
  "trySend c msg h =
     (let k = hub_heap h c in
      if c_closed k \<or> sendBufferSize \<le> length (c_send k) then (False, h)
      else (True, set_client c (\<lambda>k. k\<lparr>c_send := c_send k @ [msg]\<rparr>) h))"

definition publish_to :: "message \<Rightarrow> nat \<Rightarrow> hub \<Rightarrow> hub" where
  "publish_to msg c h =
     (case trySend c msg h of
        (True, h') \<Rightarrow> h'
      | (False, h') \<Rightarrow>
          if length (hub_unregister h') < chanSize
          then h'\<lparr>hub_unregister := hub_unregister h' @ [c]\<rparr> else h')"

definition Publish :: "string \<Rightarrow> message \<Rightarrow> hub \<Rightarrow> hub" where
  "Publish topic msg h =
     (let msg' = msg\<lparr>m_topic := topic\<rparr> in fold (publish_to msg') (hub_topics h topic) h)"

definition ConnectedCount :: "hub \<Rightarrow> nat" where
  "ConnectedCount h = length (hub_clients h)"

section \<open>Steps\<close>

text \<open>\<open>Subscribe\<close> and \<open>Unsubscribe\<close> block while their channel is full; the write pump takes the
oldest message.\<close>

inductive hub_step :: "hub \<Rightarrow> hub \<Rightarrow> bool" where
  subscribe: "c_pump (hub_heap h c) = Unborn \<Longrightarrow> length (hub_register h) < chanSize \<Longrightarrow>
    hub_step h (set_client c (\<lambda>k. k\<lparr>c_pump := Pumping\<rparr>)
                 (h\<lparr>hub_register := hub_register h @ [c]\<rparr>))"
| unsubscribe: "c_pump (hub_heap h c) = Pumping \<Longrightarrow> length (hub_unregister h) < chanSize \<Longrightarrow>
    hub_step h (set_client c (\<lambda>k. k\<lparr>c_pump := Left\<rparr>)
                 (h\<lparr>hub_unregister := hub_unregister h @ [c]\<rparr>))"
| register: "hub_running h \<Longrightarrow> hub_register h = c # cs \<Longrightarrow>
    hub_step h (loop_register c (h\<lparr>hub_register := cs\<rparr>))"
| unregister: "hub_running h \<Longrightarrow> hub_unregister h = c # cs \<Longrightarrow>
    hub_step h (loop_unregister c (h\<lparr>hub_unregister := cs\<rparr>))"
| shutdown: "hub_running h \<Longrightarrow> hub_step h (loop_shutdown h)"
| publish: "hub_step h (Publish t msg h)"
| write_pump: "c_send (hub_heap h c) = msg # msgs \<Longrightarrow>
    hub_step h (set_client c (\<lambda>k. k\<lparr>c_send := msgs\<rparr>) h)"

inductive hub_reach :: "(nat \<Rightarrow> string list) \<Rightarrow> hub \<Rightarrow> bool" for ts where
  hub_init: "hub_reach ts (NewHub ts)"
| hub_next: "hub_reach ts h \<Longrightarrow> hub_step h h' \<Longrightarrow> hub_reach ts h'"

inductive_cases hub_stepE: "hub_step h h'"

section \<open>Delivery\<close>

text \<open>The messages waiting for a client.\<close>

definition inbox :: "hub \<Rightarrow> nat \<Rightarrow> message list" where
  "inbox h c = c_send (hub_heap h c)"

definition accepts :: "hub \<Rightarrow> nat \<Rightarrow> bool" where
  "accepts h c = (\<not> c_closed (hub_heap h c) \<and> length (inbox h c) < sendBufferSize)"

definition subscribed :: "hub \<Rightarrow> string \<Rightarrow> nat \<Rightarrow> bool" where
  "subscribed h t c = (c \<in> set (hub_topics h t))"

lemma set_client_simps [simp]:
  "hub_clients (set_client c f h) = hub_clients h"
  "hub_topics (set_client c f h) = hub_topics h"
  "hub_register (set_client c f h) = hub_register h"
  "hub_unregister (set_client c f h) = hub_unregister h"
  "hub_running (set_client c f h) = hub_running h"
  "hub_panicked (set_client c f h) = hub_panicked h"
  "hub_heap (set_client c f h) d = (if d = c then f (hub_heap h c) else hub_heap h d)"
  by (simp_all add: set_client_def)

lemma publish_to_simps [simp]:
  "hub_clients (publish_to m c h) = hub_clients h"
  "hub_topics (publish_to m c h) = hub_topics h"
  "hub_register (publish_to m c h) = hub_register h"
  "hub_running (publish_to m c h) = hub_running h"
  "hub_panicked (publish_to m c h) = hub_panicked h"
  by (auto simp: publish_to_def trySend_def Let_def split: prod.split bool.split)

lemma publish_to_heap:
  "hub_heap (publish_to m c h) d =
     (if d = c \<and> accepts h c then (hub_heap h c)\<lparr>c_send := c_send (hub_heap h c) @ [m]\<rparr>
      else hub_heap h d)"
  by (auto simp: publish_to_def trySend_def accepts_def inbox_def Let_def)

lemma fold_publish_simps [simp]:
  "hub_clients (fold (publish_to m) cs h) = hub_clients h"
  "hub_topics (fold (publish_to m) cs h) = hub_topics h"
  "hub_register (fold (publish_to m) cs h) = hub_register h"
  "hub_running (fold (publish_to m) cs h) = hub_running h"
  "hub_panicked (fold (publish_to m) cs h) = hub_panicked h"
  by (induction cs arbitrary: h) simp_all

lemma fold_publish_other:
  "d \<notin> set cs \<Longrightarrow> hub_heap (fold (publish_to m) cs h) d = hub_heap h d"
  by (induction cs arbitrary: h) (auto simp: publish_to_heap)

lemma fold_publish_heap:
  "distinct cs \<Longrightarrow> hub_heap (fold (publish_to m) cs h) d =
     (if d \<in> set cs \<and> accepts h d then (hub_heap h d)\<lparr>c_send := c_send (hub_heap h d) @ [m]\<rparr>
      else hub_heap h d)"
proof (induction cs arbitrary: h)
  case (Cons c cs)
  show ?case
  proof (cases "d = c")
    case True
    with Cons.prems have "d \<notin> set cs" by simp
    with True show ?thesis by (simp add: fold_publish_other publish_to_heap)
  next
    case False
    then have "accepts (publish_to m c h) d = accepts h d"
      and "hub_heap (publish_to m c h) d = hub_heap h d"
      by (simp_all add: accepts_def inbox_def publish_to_heap)
    with Cons False show ?thesis by simp
  qed
qed simp

lemma Publish_simps [simp]:
  "hub_clients (Publish t m h) = hub_clients h"
  "hub_topics (Publish t m h) = hub_topics h"
  "hub_register (Publish t m h) = hub_register h"
  "hub_running (Publish t m h) = hub_running h"
  "hub_panicked (Publish t m h) = hub_panicked h"
  by (simp_all add: Publish_def Let_def)

lemma publish_to_meta [simp]:
  "c_topics (hub_heap (publish_to m c h) d) = c_topics (hub_heap h d)"
  "c_closed (hub_heap (publish_to m c h) d) = c_closed (hub_heap h d)"
  "c_pump (hub_heap (publish_to m c h) d) = c_pump (hub_heap h d)"
  by (simp_all add: publish_to_heap split: if_split)

lemma fold_publish_meta [simp]:
  "c_topics (hub_heap (fold (publish_to m) cs h) d) = c_topics (hub_heap h d)"
  "c_closed (hub_heap (fold (publish_to m) cs h) d) = c_closed (hub_heap h d)"
  "c_pump (hub_heap (fold (publish_to m) cs h) d) = c_pump (hub_heap h d)"
  by (induction cs arbitrary: h) simp_all

lemma publish_to_inbox_prefix: "\<exists>ms. inbox (publish_to m c h) d = inbox h d @ ms"
  by (cases "d = c \<and> accepts h c") (simp_all add: publish_to_heap inbox_def)

lemma fold_publish_inbox_prefix: "\<exists>ms. inbox (fold (publish_to m) cs h) d = inbox h d @ ms"
proof (induction cs arbitrary: h)
  case (Cons c cs)
  from Cons[of "publish_to m c h"] publish_to_inbox_prefix[of m c h d]
  show ?case by fastforce
qed (simp add: inbox_def)

section \<open>The hub as a broker\<close>

text \<open>What the publishers rely on: a publication reaches nobody outside its topic, takes nothing
back from anybody, and does not change who listens.\<close>

locale broker =
  fixes publish :: "string \<Rightarrow> 'm \<Rightarrow> 'h \<Rightarrow> 'h"
    and waiting :: "'h \<Rightarrow> 'c \<Rightarrow> 'm list"
    and listens :: "'h \<Rightarrow> string \<Rightarrow> 'c \<Rightarrow> bool"
  assumes publish_outside: "\<not> listens h t c \<Longrightarrow> waiting (publish t m h) c = waiting h c"
    and publish_appends: "\<exists>ms. waiting (publish t m h) c = waiting h c @ ms"
    and publish_listens: "listens (publish t m h) t' c = listens h t' c"
begin

text \<open>A run of publications, as the handlers make them.\<close>

lemma run_listens:
  "listens (fold (\<lambda>(t, m). publish t m) es h) t' c = listens h t' c"
proof (induction es arbitrary: h)
  case (Cons e es)
  obtain t m where e: "e = (t, m)" by (cases e)
  have "listens (fold (\<lambda>(t, m). publish t m) es (publish t m h)) t' c = listens (publish t m h) t' c"
    by (rule Cons.IH)
  with e show ?case by (simp add: publish_listens)
qed simp

lemma run_outside:
  "(\<And>t m. (t, m) \<in> set es \<Longrightarrow> \<not> listens h t c) \<Longrightarrow>
     waiting (fold (\<lambda>(t, m). publish t m) es h) c = waiting h c"
proof (induction es arbitrary: h)
  case (Cons e es)
  obtain t m where e: "e = (t, m)" by (cases e)
  have "\<not> listens h t c" using Cons.prems e by auto
  then have "waiting (publish t m h) c = waiting h c" by (rule publish_outside)
  moreover have "waiting (fold (\<lambda>(t, m). publish t m) es (publish t m h)) c
                   = waiting (publish t m h) c"
    by (rule Cons.IH) (use Cons.prems in \<open>auto simp: publish_listens\<close>)
  ultimately show ?case using e by simp
qed simp

lemma run_appends: "\<exists>ms. waiting (fold (\<lambda>(t, m). publish t m) es h) c = waiting h c @ ms"
proof (induction es arbitrary: h)
  case (Cons e es)
  obtain t m where e: "e = (t, m)" by (cases e)
  obtain ms where "waiting (publish t m h) c = waiting h c @ ms"
    using publish_appends by blast
  moreover obtain ns where
    "waiting (fold (\<lambda>(t, m). publish t m) es (publish t m h)) c = waiting (publish t m h) c @ ns"
    using Cons.IH by blast
  ultimately show ?case using e by simp
qed simp

end

interpretation ws: broker Publish inbox subscribed
proof unfold_locales
  show "inbox (Publish t m h) c = inbox h c" if "\<not> subscribed h t c" for h t c m
    using that by (simp add: Publish_def Let_def inbox_def subscribed_def fold_publish_other)
  show "\<exists>ms. inbox (Publish t m h) c = inbox h c @ ms" for h t c m
    unfolding Publish_def Let_def by (rule fold_publish_inbox_prefix)
  show "subscribed (Publish t m h) t' c = subscribed h t' c" for h t t' c m
    by (simp add: subscribed_def)
qed

end
