(* ===== verification/HubInvariant.thy ===== *)
theory HubInvariant
  imports Hub
begin

text \<open>The invariant of the hub: the two indexes of the registry agree, every bound holds, and no
send channel is ever closed twice.  One preservation lemma per step, then rule induction over the
reachable hubs.\<close>

definition hub_index_ok :: "hub \<Rightarrow> bool" where
  "hub_index_ok h = (\<forall>c t. c \<in> set (hub_topics h t) \<longleftrightarrow>
     c \<in> set (hub_clients h) \<and> t \<in> set (c_topics (hub_heap h c)))"

definition hub_distinct :: "hub \<Rightarrow> bool" where
  "hub_distinct h = (distinct (hub_clients h) \<and> distinct (hub_register h) \<and>
     (\<forall>t. distinct (hub_topics h t)))"

definition hub_open :: "hub \<Rightarrow> bool" where
  "hub_open h = ((\<forall>c \<in> set (hub_clients h) \<union> set (hub_register h).
                    \<not> c_closed (hub_heap h c) \<and> c_pump (hub_heap h c) \<noteq> Unborn) \<and>
                 set (hub_clients h) \<inter> set (hub_register h) = {} \<and>
                 (\<forall>c. c_pump (hub_heap h c) = Unborn \<longrightarrow> \<not> c_closed (hub_heap h c)))"

definition hub_bounded :: "hub \<Rightarrow> bool" where
  "hub_bounded h = (length (hub_register h) \<le> chanSize \<and> length (hub_unregister h) \<le> chanSize \<and>
     (\<forall>c. length (inbox h c) \<le> sendBufferSize))"

definition hub_inv :: "hub \<Rightarrow> bool" where
  "hub_inv h = (hub_index_ok h \<and> hub_distinct h \<and> hub_open h \<and> hub_bounded h \<and> \<not> hub_panicked h)"

lemmas hub_inv_defs = hub_inv_def hub_index_ok_def hub_distinct_def hub_open_def hub_bounded_def
  inbox_def

section \<open>The folds over topics and clients\<close>

lemma set_fold_add_topic:
  "d \<in> set (fold (add_topic c) ts m t) \<longleftrightarrow> d \<in> set (m t) \<or> (d = c \<and> t \<in> set ts)"
  by (induction ts arbitrary: m) (auto simp: add_topic_def)

lemma set_fold_drop_topic:
  "d \<in> set (fold (drop_topic c) ts m t) \<longleftrightarrow> d \<in> set (m t) \<and> \<not> (d = c \<and> t \<in> set ts)"
  by (induction ts arbitrary: m) (auto simp: drop_topic_def)

lemma distinct_fold_add_topic:
  "(\<And>t. distinct (m t)) \<Longrightarrow> distinct (fold (add_topic c) ts m t)"
  by (induction ts arbitrary: m) (auto simp: add_topic_def)

lemma distinct_removeAll': "distinct xs \<Longrightarrow> distinct (removeAll c xs)"
  by (simp add: distinct_removeAll)

lemma distinct_fold_drop_topic:
  "(\<And>t. distinct (m t)) \<Longrightarrow> distinct (fold (drop_topic c) ts m t)"
  by (induction ts arbitrary: m) (auto simp: drop_topic_def distinct_removeAll')

lemma close_send_simps [simp]:
  "hub_clients (close_send c h) = hub_clients h"
  "hub_topics (close_send c h) = hub_topics h"
  "hub_register (close_send c h) = hub_register h"
  "hub_unregister (close_send c h) = hub_unregister h"
  "hub_running (close_send c h) = hub_running h"
  "c_topics (hub_heap (close_send c h) d) = c_topics (hub_heap h d)"
  "c_pump (hub_heap (close_send c h) d) = c_pump (hub_heap h d)"
  "c_send (hub_heap (close_send c h) d) = c_send (hub_heap h d)"
  "c_closed (hub_heap (close_send c h) d) = (c_closed (hub_heap h d) \<or> d = c)"
  "hub_panicked (close_send c h) = (hub_panicked h \<or> c_closed (hub_heap h c))"
  by (auto simp: close_send_def)

lemma fold_close_simps [simp]:
  "hub_register (fold close_send cs h) = hub_register h"
  "hub_unregister (fold close_send cs h) = hub_unregister h"
  "c_topics (hub_heap (fold close_send cs h) d) = c_topics (hub_heap h d)"
  "c_pump (hub_heap (fold close_send cs h) d) = c_pump (hub_heap h d)"
  "c_send (hub_heap (fold close_send cs h) d) = c_send (hub_heap h d)"
  "c_closed (hub_heap (fold close_send cs h) d) = (c_closed (hub_heap h d) \<or> d \<in> set cs)"
  by (induction cs arbitrary: h) auto

lemma fold_close_panic:
  "distinct cs \<Longrightarrow> (\<And>c. c \<in> set cs \<Longrightarrow> \<not> c_closed (hub_heap h c)) \<Longrightarrow>
     hub_panicked (fold close_send cs h) = hub_panicked h"
proof (induction cs arbitrary: h)
  case (Cons c cs)
  have "hub_panicked (fold close_send cs (close_send c h)) = hub_panicked (close_send c h)"
    by (rule Cons.IH) (use Cons.prems in auto)
  with Cons.prems show ?case by simp
qed simp

section \<open>Preservation\<close>

lemma inv_subscribe:
  assumes "hub_inv h" "c_pump (hub_heap h c) = Unborn" "length (hub_register h) < chanSize"
  shows "hub_inv (set_client c (\<lambda>k. k\<lparr>c_pump := Pumping\<rparr>)
                 (h\<lparr>hub_register := hub_register h @ [c]\<rparr>))"
proof -
  have "c \<notin> set (hub_clients h)" "c \<notin> set (hub_register h)" "\<not> c_closed (hub_heap h c)"
    using assms(1,2) by (auto simp: hub_inv_def hub_open_def)
  with assms show ?thesis by (auto simp: hub_inv_defs)
qed

lemma inv_unsubscribe:
  assumes "hub_inv h" "c_pump (hub_heap h c) = Pumping" "length (hub_unregister h) < chanSize"
  shows "hub_inv (set_client c (\<lambda>k. k\<lparr>c_pump := Left\<rparr>)
                 (h\<lparr>hub_unregister := hub_unregister h @ [c]\<rparr>))"
  using assms by (auto simp: hub_inv_defs)

lemma inv_register:
  assumes "hub_inv h" "hub_register h = c # cs"
  shows "hub_inv (loop_register c (h\<lparr>hub_register := cs\<rparr>))"
  using assms
  by (auto simp: hub_inv_defs loop_register_def set_fold_add_topic distinct_fold_add_topic)

lemma inv_unregister:
  assumes "hub_inv h" "hub_unregister h = c # cs"
  shows "hub_inv (loop_unregister c (h\<lparr>hub_unregister := cs\<rparr>))"
proof (cases "c \<in> set (hub_clients h)")
  case True
  then have "c \<notin> set (hub_register h)" "\<not> c_closed (hub_heap h c)" "c_pump (hub_heap h c) \<noteq> Unborn"
    using assms(1) by (auto simp: hub_inv_def hub_open_def)
  then show ?thesis
    using assms True
    by (auto simp: hub_inv_defs loop_unregister_def set_fold_drop_topic distinct_fold_drop_topic
        distinct_removeAll')
next
  case False
  with assms show ?thesis by (auto simp: hub_inv_defs loop_unregister_def)
qed

lemma inv_shutdown:
  assumes "hub_inv h" shows "hub_inv (loop_shutdown h)"
proof -
  have "hub_panicked (fold close_send (hub_clients h) h) = hub_panicked h"
    by (rule fold_close_panic) (use assms in \<open>auto simp: hub_inv_defs\<close>)
  with assms show ?thesis by (auto simp: hub_inv_defs loop_shutdown_def)
qed

lemma publish_to_bounded:
  "hub_bounded h \<Longrightarrow> hub_bounded (publish_to m c h)"
  by (auto simp: hub_bounded_def publish_to_def trySend_def inbox_def Let_def
      split: prod.split bool.split)

lemma fold_publish_bounded: "hub_bounded h \<Longrightarrow> hub_bounded (fold (publish_to m) cs h)"
  by (induction cs arbitrary: h) (simp_all add: publish_to_bounded)

lemma inv_publish:
  assumes "hub_inv h" shows "hub_inv (Publish t m h)"
proof -
  have b: "hub_bounded (Publish t m h)"
    using assms by (simp add: hub_inv_def Publish_def Let_def fold_publish_bounded)
  have meta: "c_topics (hub_heap (Publish t m h) c) = c_topics (hub_heap h c)"
    "c_closed (hub_heap (Publish t m h) c) = c_closed (hub_heap h c)"
    "c_pump (hub_heap (Publish t m h) c) = c_pump (hub_heap h c)" for c
    by (simp_all add: Publish_def Let_def)
  show ?thesis using assms b
    by (simp add: hub_inv_def hub_index_ok_def hub_distinct_def hub_open_def meta)
qed

lemma inv_write_pump:
  assumes "hub_inv h" "c_send (hub_heap h c) = msg # msgs"
  shows "hub_inv (set_client c (\<lambda>k. k\<lparr>c_send := msgs\<rparr>) h)"
proof -
  have "length msgs \<le> sendBufferSize"
    using assms(1)[unfolded hub_inv_def hub_bounded_def inbox_def] assms(2)
    by (metis length_Cons Suc_leD)
  with assms show ?thesis by (auto simp: hub_inv_defs)
qed

theorem hub_step_inv: "hub_step h h' \<Longrightarrow> hub_inv h \<Longrightarrow> hub_inv h'"
  by (induction rule: hub_step.induct)
    (auto intro: inv_subscribe inv_unsubscribe inv_register inv_unregister inv_shutdown
      inv_publish inv_write_pump)

lemma hub_init_inv: "hub_inv (NewHub ts)"
  by (simp add: hub_inv_defs NewHub_def new_client_def)

theorem hub_reach_inv: "hub_reach ts h \<Longrightarrow> hub_inv h"
  by (induction rule: hub_reach.induct) (auto intro: hub_init_inv hub_step_inv)

section \<open>Properties\<close>

text \<open>C8: in every reachable hub no send channel has been closed twice (the close would panic), the
topic index lists exactly the registered clients that asked for the topic, and every channel is
within its capacity.\<close>

theorem hub_reachable_safe:
  assumes "hub_reach ts h"
  shows "\<not> hub_panicked h \<and> hub_index_ok h \<and> hub_bounded h"
  using hub_reach_inv[OF assms] by (simp add: hub_inv_def)

theorem hub_reachable_safe_witness:
  "\<not> hub_panicked (NewHub (\<lambda>_. [''job:1''])) \<and> hub_index_ok (NewHub (\<lambda>_. [''job:1''])) \<and>
   hub_bounded (NewHub (\<lambda>_. [''job:1'']))"
  by (rule hub_reachable_safe[OF hub_init])

text \<open>C18: a publication appends one message, stamped with its topic, to the channel of every
subscriber that is open and has room, and changes no other channel.\<close>

theorem publish_delivers:
  assumes "hub_reach ts h"
  shows "inbox (Publish t m h) c =
           (if subscribed h t c \<and> accepts h c then inbox h c @ [m\<lparr>m_topic := t\<rparr>] else inbox h c)"
proof -
  have "distinct (hub_topics h t)"
    using hub_reach_inv[OF assms] by (simp add: hub_inv_def hub_distinct_def)
  then show ?thesis
    by (simp add: Publish_def Let_def inbox_def subscribed_def fold_publish_heap)
qed

definition demo_hub :: hub where
  "demo_hub = loop_register 0
     ((set_client 0 (\<lambda>k. k\<lparr>c_pump := Pumping\<rparr>)
        ((NewHub (\<lambda>_. [''job:1'']))\<lparr>hub_register := [] @ [0]\<rparr>))\<lparr>hub_register := []\<rparr>)"

lemma demo_hub_reach: "hub_reach (\<lambda>_. [''job:1'']) demo_hub"
proof -
  let ?h0 = "NewHub (\<lambda>_. [''job:1''])"
  let ?h1 = "set_client 0 (\<lambda>k. k\<lparr>c_pump := Pumping\<rparr>) (?h0\<lparr>hub_register := hub_register ?h0 @ [0]\<rparr>)"
  have "hub_step ?h0 ?h1"
    by (rule hub_step.subscribe) (simp_all add: NewHub_def new_client_def chanSize_def)
  then have r1: "hub_reach (\<lambda>_. [''job:1'']) ?h1" by (rule hub_next[OF hub_init])
  have "hub_step ?h1 (loop_register 0 (?h1\<lparr>hub_register := []\<rparr>))"
    by (rule hub_step.register) (simp_all add: NewHub_def)
  then have "hub_reach (\<lambda>_. [''job:1'']) (loop_register 0 (?h1\<lparr>hub_register := []\<rparr>))"
    by (rule hub_next[OF r1])
  then show ?thesis by (simp add: demo_hub_def NewHub_def)
qed

theorem publish_delivers_witness:
  "inbox (Publish ''job:1'' \<lparr>m_type = ''job.status'', m_topic = [], m_payload = JNull\<rparr> demo_hub) 0 =
     [\<lparr>m_type = ''job.status'', m_topic = ''job:1'', m_payload = JNull\<rparr>]"
  by (simp add: publish_delivers[OF demo_hub_reach])
    (simp add: demo_hub_def subscribed_def accepts_def inbox_def loop_register_def add_topic_def
      NewHub_def new_client_def sendBufferSize_def)

text \<open>The loop may take a client's unregistration before its registration, and the client that
has already left then stays registered with no step pending that would remove it.\<close>

theorem departed_client_registered:
  "\<exists>h. hub_reach (\<lambda>_. ts) h \<and> c_pump (hub_heap h c) = Left \<and> c \<in> set (hub_clients h) \<and>
       hub_register h = [] \<and> hub_unregister h = [] \<and> (\<forall>t\<in>set ts. subscribed h t c)"
proof -
  let ?h0 = "NewHub (\<lambda>_. ts)"
  let ?h1 = "set_client c (\<lambda>k. k\<lparr>c_pump := Pumping\<rparr>) (?h0\<lparr>hub_register := hub_register ?h0 @ [c]\<rparr>)"
  let ?h2 = "set_client c (\<lambda>k. k\<lparr>c_pump := Left\<rparr>) (?h1\<lparr>hub_unregister := hub_unregister ?h1 @ [c]\<rparr>)"
  let ?h3 = "loop_unregister c (?h2\<lparr>hub_unregister := []\<rparr>)"
  let ?h4 = "loop_register c (?h3\<lparr>hub_register := []\<rparr>)"
  note defs = NewHub_def new_client_def chanSize_def loop_unregister_def
  have "hub_step ?h0 ?h1" by (rule hub_step.subscribe) (simp_all add: defs)
  then have 1: "hub_reach (\<lambda>_. ts) ?h1" by (rule hub_next[OF hub_init])
  have "hub_step ?h1 ?h2" by (rule hub_step.unsubscribe) (simp_all add: defs)
  then have 2: "hub_reach (\<lambda>_. ts) ?h2" by (rule hub_next[OF 1])
  have "hub_step ?h2 ?h3" by (rule hub_step.unregister) (simp_all add: defs)
  then have 3: "hub_reach (\<lambda>_. ts) ?h3" by (rule hub_next[OF 2])
  have "hub_step ?h3 ?h4" by (rule hub_step.register) (simp_all add: defs)
  then have 4: "hub_reach (\<lambda>_. ts) ?h4" by (rule hub_next[OF 3])
  have "c \<in> set (hub_topics ?h4 t)" if "t \<in> set ts" for t
    using that by (simp add: defs loop_register_def set_fold_add_topic)
  with 4 show ?thesis
    by (intro exI[of _ ?h4]) (simp add: defs loop_register_def subscribed_def)
qed

theorem departed_client_registered_witness:
  "\<exists>h. hub_reach (\<lambda>_. [''job:1'']) h \<and> c_pump (hub_heap h 7) = Left \<and> 7 \<in> set (hub_clients h) \<and>
       hub_register h = [] \<and> hub_unregister h = [] \<and> subscribed h ''job:1'' 7"
  using departed_client_registered[of "[''job:1'']" 7] by simp

end
