(* ===== verification/Models.thy ===== *)
theory Models
  imports Prelude
begin

text \<open>The rows of the tables (\<open>server/internal/db/models.go\<close>): one record per Go struct, with the
embedded \<open>Base\<close> and \<open>SoftDelete\<close> structs as the records the others extend.  The association
fields tagged \<open>gorm:"-"\<close> are not columns and are not part of a row.  An \<open>EncryptedString\<close>
column is kept as its plaintext, which is what the program sees on both sides of the driver
hooks.\<close>

record base =
  ID :: uuid
  CreatedAt :: time
  UpdatedAt :: time

record soft_delete = base +
  DeletedAt :: "time option"

section \<open>Users, sessions and identity providers\<close>

record user = base +
  usr_email :: string
  usr_password :: string
  usr_display_name :: string
  usr_role :: string
  usr_is_active :: bool
  usr_oidc_provider :: string
  usr_oidc_sub :: string
  usr_last_login_at :: "time option"

record refresh_token = base +
  rt_user_id :: uuid
  rt_token_hash :: string
  rt_expires_at :: time
  rt_revoked_at :: "time option"
  rt_user_agent :: string
  rt_ip_address :: string

record oidc_provider = base +
  op_name :: string
  op_issuer :: string
  op_client_id :: string
  op_client_secret :: string
  op_scopes :: string
  op_enabled :: bool

section \<open>Agents, destinations and policies\<close>

record agent = soft_delete +
  ag_name :: string
  ag_hostname :: string
  ag_ip_address :: string
  ag_os :: string
  ag_arch :: string
  ag_version :: string
  ag_status :: string
  ag_last_seen_at :: "time option"
  ag_labels :: string
  ag_docker_available :: bool

record destination = base +
  dst_name :: string
  dst_type :: string
  dst_credentials :: string
  dst_config :: string
  dst_enabled :: bool

record policy = soft_delete +
  pol_name :: string
  pol_agent_id :: uuid
  pol_schedule :: string
  pol_enabled :: bool
  pol_sources :: string
  pol_retention_daily :: int
  pol_retention_weekly :: int
  pol_retention_monthly :: int
  pol_retention_yearly :: int
  pol_repo_password :: string
  pol_hook_pre :: string
  pol_hook_post :: string
  pol_last_run_at :: "time option"
  pol_next_run_at :: "time option"

record policy_destination = base +
  pd_policy_id :: uuid
  pd_destination_id :: uuid
  pd_priority :: int

section \<open>Jobs\<close>

record job = base +
  job_policy_id :: uuid
  job_agent_id :: uuid
  job_type :: string
  job_status :: string
  job_started_at :: "time option"
  job_ended_at :: "time option"
  job_error :: string

record job_destination = base +
  jd_job_id :: uuid
  jd_destination_id :: uuid
  jd_status :: string
  jd_snapshot_id :: string
  jd_size_bytes :: int
  jd_started_at :: "time option"
  jd_ended_at :: "time option"
  jd_error :: string

record job_log = base +
  jl_job_id :: uuid
  jl_level :: string
  jl_message :: string
  jl_timestamp :: time

record snapshot = base +
  snap_policy_id :: uuid
  snap_destination_id :: uuid
  snap_job_id :: uuid
  snap_snapshot_id :: string
  snap_size_bytes :: int
  snap_file_count :: int
  snap_tags :: string
  snap_at :: time

section \<open>Notifications, audit log and settings\<close>

record notif = base +
  ntf_user_id :: uuid
  ntf_type :: string
  ntf_title :: string
  ntf_body :: string
  ntf_read_at :: "time option"
  ntf_payload :: string

record delivery = base +
  ndl_notification_id :: uuid
  ndl_type :: string
  ndl_status :: string
  ndl_attempts :: int
  ndl_last_error :: string
  ndl_next_retry_at :: "time option"

record audit_log =
  aud_id :: uuid
  aud_created_at :: time
  aud_user_id :: uuid
  aud_user_email :: string
  aud_action :: string
  aud_resource_type :: string
  aud_resource_id :: string
  aud_details :: string
  aud_ip_address :: string

record setting =
  set_key :: string
  set_value :: string
  set_updated_at :: time

section \<open>The store\<close>

text \<open>The database a repository works on.  \<open>faults\<close> is the run of the engine: every SQL
statement consumes one element, and \<open>True\<close> is a statement that fails (lost connection, expired
context, locked file); past the end of the list no statement fails.  \<open>ids\<close> are the values the
calls of \<open>uuid.NewV7\<close> return, in order; past its end the call fails.  \<open>fk_on\<close> says whether the
engine enforces foreign keys, and \<open>unique_msg\<close> whether its message for a violated unique index
contains \<open>UNIQUE constraint failed\<close> (SQLite's does, PostgreSQL's does not).\<close>

record store =
  users :: "user list"
  refresh_tokens :: "refresh_token list"
  oidc_providers :: "oidc_provider list"
  agents :: "agent list"
  destinations :: "destination list"
  policies :: "policy list"
  policy_destinations :: "policy_destination list"
  jobs :: "job list"
  job_destinations :: "job_destination list"
  job_logs :: "job_log list"
  snapshots :: "snapshot list"
  notifications :: "notif list"
  deliveries :: "delivery list"
  audit_logs :: "audit_log list"
  settings :: "setting list"
  faults :: "bool list"
  ids :: "uuid list"
  fk_on :: bool
  unique_msg :: bool

definition empty_store :: store where
  "empty_store = \<lparr>users = [], refresh_tokens = [], oidc_providers = [], agents = [],
     destinations = [], policies = [], policy_destinations = [], jobs = [],
     job_destinations = [], job_logs = [], snapshots = [], notifications = [],
     deliveries = [], audit_logs = [], settings = [], faults = [], ids = [], fk_on = True, unique_msg = True\<rparr>"

text \<open>The sentinel errors of \<open>repositories/errors.go\<close>, and any other error of the database.\<close>

datatype dberr = ErrNotFound | ErrConflict | ErrDB

type_synonym 'a dbop = "store \<Rightarrow> (dberr + 'a) \<times> store"

record list_options =
  lo_limit :: int
  lo_offset :: int

end
