(* ===== verification/JsonRoundtrip.thy ===== *)
theory JsonRoundtrip
  imports Json
begin

text \<open>What \<open>json.Marshal\<close> writes, \<open>json.Unmarshal\<close> reads back: the scanner inverts the writer on
every value, whatever the strings in it contain, and decoding inverts the encoding of integers
and of string maps.\<close>

section \<open>What is written reads back\<close>

lemma hexval_hexdigit: "k < 16 \<Longrightarrow> hexval (hexdigit k) = Some k"
  by (auto simp: hexval_def hexdigit_def)

lemma char_of_char [simp]: "char_of (of_char c :: nat) = c"
  by simp

lemma char_eq_code: "c = d \<longleftrightarrow> (of_char c :: nat) = of_char d"
  by auto

lemma of_char_less: "(of_char c :: nat) < 256"
  by simp

lemma json_escape_unicode:
  assumes "(of_char c :: nat) < 128"
  shows "json_escape ([CHR ''u'', CHR ''0'', CHR ''0'', hexdigit (of_char c div 16),
            hexdigit (of_char c mod 16)] @ r) = Some ([c], r)"
proof -
  let ?n = "of_char c :: nat"
  have "hexval (CHR ''0'') = Some 0" by (simp add: hexval_def)
  moreover have "hexval (hexdigit (?n div 16)) = Some (?n div 16)"
    using assms by (intro hexval_hexdigit) simp
  moreover have "hexval (hexdigit (?n mod 16)) = Some (?n mod 16)"
    by (intro hexval_hexdigit) simp
  moreover have "16 * (?n div 16) + ?n mod 16 = ?n" by simp
  ultimately have "hex4 ([CHR ''0'', CHR ''0'', hexdigit (?n div 16), hexdigit (?n mod 16)] @ r)
                     = Some (?n, r)" by simp
  then have "json_unicode ([CHR ''0'', CHR ''0'', hexdigit (?n div 16), hexdigit (?n mod 16)] @ r)
                     = Some ([c], r)"
    using assms by (simp add: json_unicode_def utf8_def)
  then show ?thesis by (simp add: json_escape_def)
qed

lemma json_str_esc:
  "json_str (json_esc c @ r) =
     (case json_str r of None \<Rightarrow> None | Some (u, r') \<Rightarrow> Some (c # u, r'))"
proof -
  let ?n = "of_char c :: nat"
  have ch: "c = char_of ?n" by simp
  consider "?n = 92" | "?n = 34" | "?n = 8" | "?n = 12" | "?n = 10" | "?n = 13" | "?n = 9"
    | (u) "?n \<notin> {92, 34, 8, 12, 10, 13, 9}" "?n < 32 \<or> ?n = 60 \<or> ?n = 62 \<or> ?n = 38"
    | (plain) "?n \<notin> {92, 34, 8, 12, 10, 13, 9}" "\<not> (?n < 32 \<or> ?n = 60 \<or> ?n = 62 \<or> ?n = 38)"
    by blast
  then show ?thesis
  proof cases
    case u
    then have "?n < 128" by auto
    note esc = json_escape_unicode[OF this, of r]
    from u have "json_esc c @ r = CHR 0x5C # ([CHR ''u'', CHR ''0'', CHR ''0'',
        hexdigit (?n div 16), hexdigit (?n mod 16)] @ r)"
      by (auto simp: json_esc_def Let_def)
    then show ?thesis using esc by (simp split: option.split)
  next
    case plain
    then have "json_esc c = [c]" by (simp add: json_esc_def Let_def)
    moreover have "c \<noteq> CHR 0x22" "c \<noteq> CHR 0x5C" using plain by (auto simp: char_eq_code)
    ultimately show ?thesis using plain by simp
  qed (simp_all add: json_esc_def json_escape_def char_eq_code split: option.split)
qed

lemma json_str_quoted: "json_str (concat (map json_esc s) @ CHR 0x22 # r) = Some (s, r)"
  by (induction s) (simp_all add: json_str_esc)

fun json_wf :: "json \<Rightarrow> bool" where
  "json_wf (JNum l) = (num_ok l \<and> list_all num_char l)"
| "json_wf (JArr vs) = list_all json_wf vs"
| "json_wf (JObj kvs) = list_all (\<lambda>kv. json_wf (snd kv)) kvs"
| "json_wf _ = True"

definition num_stop :: "string \<Rightarrow> bool" where
  "num_stop r = (case r of [] \<Rightarrow> True | c # _ \<Rightarrow> \<not> num_char c)"

lemma num_stop_simps [simp]:
  "num_stop []" "num_stop (CHR '','' # r)" "num_stop (CHR '']'' # r)" "num_stop (CHR ''}'' # r)"
  by (simp_all add: num_stop_def num_char_def is_digit_def)

lemma json_num_read:
  assumes "num_ok l" "list_all num_char l" "num_stop r"
  shows "json_num (l @ r) = Some (JNum l, r)"
proof -
  have all: "\<And>c. c \<in> set l \<Longrightarrow> num_char c" using assms(2) by (simp add: list_all_iff)
  have "takeWhile num_char (l @ r) = l" "dropWhile num_char (l @ r) = r"
    using assms(3) all by (auto simp: num_stop_def takeWhile_append dropWhile_append split: list.splits)
  with assms(1) show ?thesis by (simp add: json_num_def)
qed

lemma num_head:
  assumes "num_ok l"
  obtains c cs where "l = c # cs" "c = CHR ''-'' \<or> is_digit c"
  using assms by (auto simp: num_ok_def num_int_def split: list.splits if_splits
      simp: is_digit_def)

lemma json_text_head:
  assumes "json_wf v"
  obtains c cs where "json_text v = c # cs" "\<not> is_ws c" "c \<noteq> CHR '']''" "c \<noteq> CHR ''}''"
proof (cases v)
  case (JNum l)
  with assms have "num_ok l" by simp
  then show thesis
  proof (rule num_head)
    fix c cs assume "l = c # cs" "c = CHR ''-'' \<or> is_digit c"
    then show thesis using JNum
      by (intro that[of c cs]) (auto simp: is_ws_def is_digit_def)
  qed
next
  case (JBool b)
  then show thesis by (cases b) (auto simp: is_ws_def intro: that)
qed (auto simp: json_quote_def is_ws_def intro: that)

lemma skip_ws_head [simp]: "\<not> is_ws c \<Longrightarrow> skip_ws (c # cs) = c # cs"
  by simp

lemma json_elems_head:
  assumes "list_all json_wf vs" "vs \<noteq> []"
  obtains c cs where "json_elems vs = c # cs" "\<not> is_ws c" "c \<noteq> CHR '']''"
proof (cases vs)
  case (Cons v ws)
  with assms have "json_wf v" by simp
  then obtain c cs where "json_text v = c # cs" "\<not> is_ws c" "c \<noteq> CHR '']''"
    by (rule json_text_head)
  with Cons show thesis by (cases ws) (auto intro: that)
qed (use assms in simp)

lemma json_members_head:
  "kvs \<noteq> [] \<Longrightarrow> \<exists>cs. json_members kvs = CHR 0x22 # cs"
  by (cases kvs rule: json_members.cases) (auto simp: json_quote_def)

lemma length_json_text_pos:
  assumes "json_wf v" shows "1 \<le> length (json_text v)"
proof -
  obtain c cs where "json_text v = c # cs" using assms by (rule json_text_head)
  then show ?thesis by simp
qed

theorem json_read_written:
  "json_wf v \<Longrightarrow> num_stop r \<Longrightarrow> 2 * length (json_text v) \<le> n \<Longrightarrow>
     json_value n (json_text v @ r) = Some (v, r)"
  "list_all json_wf vs \<Longrightarrow> vs \<noteq> [] \<Longrightarrow> 2 * length (json_elems vs) + 1 \<le> n \<Longrightarrow>
     json_array n (json_elems vs @ CHR '']'' # r) = Some (vs, r)"
  "list_all (\<lambda>kv. json_wf (snd kv)) kvs \<Longrightarrow> kvs \<noteq> [] \<Longrightarrow> 2 * length (json_members kvs) + 1 \<le> n \<Longrightarrow>
     json_object n (json_members kvs @ CHR ''}'' # r) = Some (kvs, r)"
proof (induction v and vs and kvs arbitrary: n r and n r and n r
    rule: json_text_json_elems_json_members.induct)
  case 1
  then obtain m where "n = Suc m" by (cases n) auto
  then show ?case by (simp add: json_lit_def is_ws_def)
next
  case (2 b)
  then obtain m where "n = Suc m" by (cases n; cases b) auto
  then show ?case by (simp add: json_lit_def is_ws_def)
next
  case (3 l)
  then have ok: "num_ok l" "list_all num_char l" by simp_all
  obtain c cs where l: "l = c # cs" "c = CHR ''-'' \<or> is_digit c"
    using ok(1) by (rule num_head)
  then obtain m where n: "n = Suc m" using 3 by (cases n) auto
  have "json_num (l @ r) = Some (JNum l, r)" using ok 3(2) by (rule json_num_read)
  moreover have "\<not> is_ws c" "c \<noteq> CHR ''{''" "c \<noteq> CHR ''[''" "c \<noteq> CHR 0x22" "c \<noteq> CHR ''n''"
    "c \<noteq> CHR ''t''" "c \<noteq> CHR ''f''"
    using l(2) by (auto simp: is_ws_def is_digit_def)
  ultimately show ?case using l n by simp
next
  case (4 s)
  then obtain m where "n = Suc m" by (cases n) (auto simp: json_quote_def)
  then show ?case by (simp add: json_quote_def is_ws_def json_str_quoted)
next
  case (5 vs)
  then obtain m where n: "n = Suc m" by (cases n) auto
  show ?case
  proof (cases "vs = []")
    case True
    then show ?thesis using n by (simp add: is_ws_def)
  next
    case False
    obtain c cs where h: "json_elems vs = c # cs" "\<not> is_ws c" "c \<noteq> CHR '']''"
      using 5(2) False by (auto elim: json_elems_head)
    have "json_array m (json_elems vs @ CHR '']'' # r) = Some (vs, r)"
      using 5 False n by simp
    then show ?thesis using h n by (simp add: is_ws_def)
  qed
next
  case (6 kvs)
  then obtain m where n: "n = Suc m" by (cases n) auto
  show ?case
  proof (cases "kvs = []")
    case True
    then show ?thesis using n by (simp add: is_ws_def)
  next
    case False
    then obtain cs where h: "json_members kvs = CHR 0x22 # cs" using json_members_head by blast
    have "json_object m (json_members kvs @ CHR ''}'' # r) = Some (kvs, r)"
      using 6 False n by simp
    then show ?thesis using h n by (simp add: is_ws_def)
  qed
next
  case 7
  then show ?case by simp
next
  case (8 v)
  then obtain m where n: "n = Suc m" by (cases n) auto
  then have "json_value m (json_text v @ CHR '']'' # r) = Some (v, CHR '']'' # r)"
    using 8 by simp
  then show ?case using n by (simp add: is_ws_def)
next
  case (9 v w vs)
  then obtain m where n: "n = Suc m" by (cases n) auto
  have "json_value m (json_text v @ CHR '','' # json_elems (w # vs) @ CHR '']'' # r)
          = Some (v, CHR '','' # json_elems (w # vs) @ CHR '']'' # r)"
    using 9 n by simp
  moreover have "json_array m (json_elems (w # vs) @ CHR '']'' # r) = Some (w # vs, r)"
    using 9(2)[of m r] 9(3,5) n by simp
  ultimately show ?case using n by (simp add: is_ws_def)
next
  case 10
  then show ?case by simp
next
  case (11 k v)
  then obtain m where n: "n = Suc m" by (cases n) auto
  have "json_value m (json_text v @ CHR ''}'' # r) = Some (v, CHR ''}'' # r)"
    using 11 n by (simp add: json_quote_def)
  then show ?case using n by (simp add: json_quote_def is_ws_def json_str_quoted)
next
  case (12 k v mb ms)
  then obtain m where n: "n = Suc m" by (cases n) auto
  have "json_value m (json_text v @ CHR '','' # json_members (mb # ms) @ CHR ''}'' # r)
          = Some (v, CHR '','' # json_members (mb # ms) @ CHR ''}'' # r)"
    using 12 n by (simp add: json_quote_def)
  moreover have "json_object m (json_members (mb # ms) @ CHR ''}'' # r) = Some (mb # ms, r)"
    using 12(2)[of m r] 12(3,5) n by (simp add: json_quote_def)
  ultimately show ?case using n by (simp add: json_quote_def is_ws_def json_str_quoted)
qed

theorem json_parse_text: "json_wf v \<Longrightarrow> json_parse (json_text v) = Some v"
  using json_read_written(1)[of v "[]" "2 * length (json_text v) + 2"]
  by (simp add: json_parse_def)

lemma num_digits_frac: "list_all is_digit ds \<Longrightarrow> dropWhile is_digit ds = []"
  by (induction ds) auto

lemma num_int_nat_text: "num_int (nat_text n)"
proof (cases "n = 0")
  case True
  moreover have "digit 0 = CHR ''0''" by (simp add: char_eq_code)
  ultimately show ?thesis
    by (simp add: nat_text.simps num_int_def num_frac_def num_exp_def)
next
  case False
  then have nz: "hd (nat_text n) \<noteq> CHR ''0''" by (intro nat_text_no_leading_zero) simp
  obtain c r where t: "nat_text n = c # r" by (cases "nat_text n") auto
  then have "is_digit c" "list_all is_digit r" using nat_text_digits[of n] by simp_all
  with t nz show ?thesis
    by (simp add: num_int_def num_digits_frac num_frac_def)
qed

lemma nat_text_head: "\<exists>c r. nat_text n = c # r \<and> is_digit c"
  using nat_text_digits[of n] by (cases "nat_text n") auto

lemma jint_wf: "json_wf (jint i)"
proof -
  have dig: "list_all num_char (nat_text n)" for n
    using nat_text_digits[of n] by (auto simp: list_all_iff num_char_def)
  obtain c r where t: "nat_text (nat i) = c # r" "is_digit c"
    using nat_text_head by blast
  have "c \<noteq> CHR ''-''" using t(2) by (auto simp: is_digit_def)
  then have "num_ok (nat_text (nat i))"
    using t num_int_nat_text[of "nat i"] by (simp add: num_ok_def)
  moreover have "num_ok (CHR ''-'' # nat_text (nat (- i)))"
    using num_int_nat_text[of "nat (- i)"] by (simp add: num_ok_def)
  ultimately show ?thesis using dig by (simp add: jint_def int_text_def num_char_def)
qed

lemma parse_int_text: "int64_ok i \<Longrightarrow> parse_int (int_text i) = Some i"
proof (cases "i < 0")
  case True
  moreover assume "int64_ok i"
  ultimately show ?thesis
    using nat_text_digits[of "nat (- i)"] by (simp add: parse_int_def int_text_def Let_def)
next
  case False
  moreover assume "int64_ok i"
  moreover obtain c r where t: "nat_text (nat i) = c # r" "is_digit c"
    using nat_text_head by blast
  moreover have "c \<noteq> CHR ''-''" using t(2) by (auto simp: is_digit_def)
  moreover have "digits_val (c # r) = nat i" using digits_val_nat_text[of "nat i"] t by simp
  ultimately show ?thesis
    using nat_text_digits[of "nat i"] by (simp add: parse_int_def int_text_def Let_def)
qed

lemma dec_int_jint: "int64_ok i \<Longrightarrow> dec_int (jint i) d = Some i"
  by (simp add: dec_int_def jint_def parse_int_text)

lemma dec_map_entries_new:
  "distinct (map fst (m @ es)) \<Longrightarrow>
   dec_map_entries (map (\<lambda>(k, v). (k, JStr v)) es) m = Some (m @ es)"
proof (induction es arbitrary: m)
  case (Cons e es)
  obtain k v where e: "e = (k, v)" by (cases e)
  then have "k \<notin> fst ` set m" using Cons.prems by auto
  moreover have "distinct (map fst ((m @ [(k, v)]) @ es))" using Cons.prems e by auto
  ultimately show ?case using Cons.IH[of "m @ [(k, v)]"] e
    by (simp add: dec_string_def map_put_new)
qed simp

lemma distinct_map_sort_key_fst [simp]: "distinct (map fst (sort_key fst m)) = distinct (map fst m)"
  by (simp add: distinct_map inj_on_def distinct_sort)

lemma dec_map_jmap: "distinct (map fst m) \<Longrightarrow> dec_map (jmap m) [] = Some (sort_key fst m)"
  by (simp add: dec_map_def jmap_def dec_map_entries_new del: map_append)

lemma jmap_wf: "json_wf (jmap m)"
  by (auto simp: jmap_def list_all_iff)

end
