(* ===== verification/DestUtil.thy ===== *)
theory DestUtil
  imports Models JsonRoundtrip
begin

text \<open>Repository URLs and backend environments of destinations
(\<open>server/internal/destutil/destutil.go\<close>).  The anonymous configuration structs are decoded
field by field; a document that does not decode gives the empty URL or the empty environment.\<close>

record cfg_s3 =
  cs_bucket :: string
  cs_endpoint :: string
  cs_path :: string

record cfg_sftp =
  cf_host :: string
  cf_user :: string
  cf_path :: string
  cf_port :: int

definition dec_cfg1 :: "string \<Rightarrow> (string \<times> json) list \<Rightarrow> string option" where
  "dec_cfg1 k kvs = json_field dec_string k [] kvs"

definition dec_cfg_s3 :: "(string \<times> json) list \<Rightarrow> cfg_s3 option" where
  "dec_cfg_s3 kvs =
     (case (json_field dec_string ''bucket'' [] kvs, json_field dec_string ''endpoint'' [] kvs,
            json_field dec_string ''path'' [] kvs) of
        (Some b, Some e, Some p) \<Rightarrow> Some \<lparr>cs_bucket = b, cs_endpoint = e, cs_path = p\<rparr>
      | _ \<Rightarrow> None)"

definition dec_cfg_sftp :: "(string \<times> json) list \<Rightarrow> cfg_sftp option" where
  "dec_cfg_sftp kvs =
     (case (json_field dec_string ''host'' [] kvs, json_field dec_string ''user'' [] kvs,
            json_field dec_string ''path'' [] kvs, json_field dec_int ''port'' 0 kvs) of
        (Some h, Some u, Some p, Some n) \<Rightarrow>
          Some \<lparr>cf_host = h, cf_user = u, cf_path = p, cf_port = n\<rparr>
      | _ \<Rightarrow> None)"

definition url_s3 :: "cfg_s3 \<Rightarrow> string" where
  "url_s3 c = ''s3:'' @ (if cs_endpoint c = [] then ''s3.amazonaws.com'' else cs_endpoint c)
     @ ''/'' @ cs_bucket c @ (if cs_path c = [] then ''/'' else cs_path c)"

definition url_sftp :: "cfg_sftp \<Rightarrow> string" where
  "url_sftp c = ''sftp:'' @ (if cf_user c = [] then [] else cf_user c @ ''@'') @ cf_host c
     @ (if cf_port c \<noteq> 0 \<and> cf_port c \<noteq> 22 then CHR '':'' # int_text (cf_port c) else [])
     @ CHR '':'' # cf_path c"

definition BuildRepoURL :: "destination \<Rightarrow> string" where
  "BuildRepoURL dest =
     (if dst_type dest = ''local''
      then (case unmarshal_struct (dec_cfg1 ''path'') (dst_config dest) of
              Some p \<Rightarrow> p | None \<Rightarrow> [])
      else if dst_type dest = ''s3''
      then (case unmarshal_struct dec_cfg_s3 (dst_config dest) of
              Some c \<Rightarrow> if cs_bucket c \<noteq> [] then url_s3 c else []
            | None \<Rightarrow> [])
      else if dst_type dest = ''sftp''
      then (case unmarshal_struct dec_cfg_sftp (dst_config dest) of
              Some c \<Rightarrow> if cf_host c \<noteq> [] then url_sftp c else []
            | None \<Rightarrow> [])
      else if dst_type dest = ''rest''
      then (case unmarshal_struct (dec_cfg1 ''url'') (dst_config dest) of
              Some u \<Rightarrow> if u \<noteq> [] then ''rest:'' @ u else []
            | None \<Rightarrow> [])
      else if dst_type dest = ''rclone''
      then (case unmarshal_struct (dec_cfg1 ''remote'') (dst_config dest) of
              Some r \<Rightarrow> if r \<noteq> [] then ''rclone:'' @ r else []
            | None \<Rightarrow> [])
      else [])"

definition put_nonempty :: "string \<Rightarrow> string \<Rightarrow> (string \<times> string) list \<Rightarrow> (string \<times> string) list" where
  "put_nonempty k v env = (if v = [] then env else map_put k v env)"

definition BuildEnv :: "destination \<Rightarrow> (string \<times> string) list" where
  "BuildEnv dest =
     (if dst_credentials dest = [] then []
      else if dst_type dest = ''s3''
      then (case unmarshal_struct
                   (\<lambda>kvs. case (json_field dec_string ''access_key_id'' [] kvs,
                                json_field dec_string ''secret_access_key'' [] kvs,
                                json_field dec_string ''region'' [] kvs) of
                            (Some a, Some k, Some r) \<Rightarrow> Some (a, k, r) | _ \<Rightarrow> None)
                   (dst_credentials dest) of
              Some (a, k, r) \<Rightarrow>
                put_nonempty ''AWS_DEFAULT_REGION'' r
                  (put_nonempty ''AWS_SECRET_ACCESS_KEY'' k
                    (put_nonempty ''AWS_ACCESS_KEY_ID'' a []))
            | None \<Rightarrow> [])
      else if dst_type dest = ''rclone''
      then (case json_parse (dst_credentials dest) of
              Some v \<Rightarrow> (case dec_map v [] of Some m \<Rightarrow> m | None \<Rightarrow> [])
            | None \<Rightarrow> [])
      else [])"

section \<open>Environments are maps\<close>

lemma dec_map_entries_distinct:
  "dec_map_entries kvs m = Some m' \<Longrightarrow> distinct (map fst m) \<Longrightarrow> distinct (map fst m')"
  by (induction kvs m rule: dec_map_entries.induct)
    (auto split: option.splits simp: distinct_map_put)

lemma BuildEnv_keys: "distinct (map fst (BuildEnv dest))"
proof -
  have "distinct (map fst m)" if "dec_map v [] = Some m" for v m
    using that dec_map_entries_distinct
    by (fastforce simp: dec_map_def split: json.splits)
  moreover have "distinct (map fst (put_nonempty k v m))" if "distinct (map fst m)" for k v m
    using that by (simp add: put_nonempty_def distinct_map_put)
  ultimately show ?thesis
    by (simp add: BuildEnv_def split: option.split)
qed

section \<open>URLs\<close>

text \<open>The scheme a non-empty URL of each type carries.\<close>

definition url_scheme :: "string \<Rightarrow> string" where
  "url_scheme t = (if t = ''s3'' then ''s3:'' else if t = ''sftp'' then ''sftp:''
     else if t = ''rest'' then ''rest:'' else if t = ''rclone'' then ''rclone:'' else [])"

lemma BuildRepoURL_scheme:
  assumes "BuildRepoURL dest \<noteq> []"
  shows "starts_with (url_scheme (dst_type dest)) (BuildRepoURL dest)"
proof -
  consider "dst_type dest = ''s3''" | "dst_type dest = ''sftp''" | "dst_type dest = ''rest''"
    | "dst_type dest = ''rclone''"
    | "dst_type dest \<noteq> ''s3''" "dst_type dest \<noteq> ''sftp''" "dst_type dest \<noteq> ''rest''"
      "dst_type dest \<noteq> ''rclone''"
    by blast
  then show ?thesis
    using assms
    by cases (auto simp: url_scheme_def BuildRepoURL_def url_s3_def url_sftp_def
        split: option.splits if_split_asm)
qed

lemma BuildRepoURL_undecodable:
  assumes "json_parse (dst_config dest) = None"
  shows "BuildRepoURL dest = []"
  using assms by (simp add: BuildRepoURL_def unmarshal_struct_def)

end
