(* ===== verification/Restic.thy ===== *)
theory Restic
  imports DestUtil
begin

text \<open>The restic wrapper (\<open>agent/internal/restic/wrapper.go\<close>).  What an agent does to the outside world
is the trace of its events; the processes it starts are answered by the parameter \<open>proc\<close>, which
sees the whole trace so far, so the same command may be answered differently each time.  The
rendering of a floating-point number by \<open>encoding/json\<close> and the environment of the agent itself are the
fields \<open>wr_float\<close> and \<open>wr_environ\<close> of the wrapper.\<close>

section \<open>Events and processes\<close>

record command =
  cm_bin :: string
  cm_args :: "string list"
  cm_env :: "(string \<times> string) list"

datatype agent_event =
    Exec command
  | SendLog string string
  | ReportStatus string string
  | ReportDestinationResult string string string time int string
  | MkdirAll string
  | RunHook "string list" int

type_synonym trace = "agent_event list"

text \<open>What became of a started process: an error before it ran, its outputs, and the error of its exit
(\<open>None\<close> is exit status 0).  \<open>pr_combined\<close> is the interleaving of both outputs.\<close>

record process =
  pr_pipe_error :: "string option"
  pr_start_error :: "string option"
  pr_stdout :: string
  pr_stderr :: string
  pr_combined :: string
  pr_exit :: "string option"

record restic_dest =
  rd_type :: string
  rd_repo_url :: string
  rd_password :: string
  rd_env :: "(string \<times> string) list"

record backup_options =
  bo_sources :: "string list"
  bo_tags :: "string list"
  bo_excludes :: "string list"

record retention_policy =
  ret_daily :: int
  ret_weekly :: int
  ret_monthly :: int
  ret_yearly :: int

record progress_event =
  pe_message_type :: string
  pe_percent_done :: string
  pe_files_new :: int
  pe_files_done :: int
  pe_bytes_done :: int
  pe_total_files :: int
  pe_total_bytes :: int
  pe_snapshot_id :: string
  pe_total_bytes_processed :: int
  pe_data_added :: int
  pe_raw :: string

record backup_result =
  br_snapshot_id :: string
  br_total_bytes_processed :: int
  br_data_added :: int

record wrapper =
  wr_restic_bin :: string
  wr_rclone_bin :: string
  wr_environ :: "(string \<times> string) list"
  wr_float :: "string \<Rightarrow> string option"

type_synonym procs = "trace \<Rightarrow> command \<Rightarrow> process"

section \<open>Commands\<close>

definition buildCmd :: "wrapper \<Rightarrow> restic_dest \<Rightarrow> string list \<Rightarrow> command" where
  "buildCmd w dest args = \<lparr>
     cm_bin = wr_restic_bin w, cm_args = args,
     cm_env = wr_environ w @ [(''RESTIC_REPOSITORY'', rd_repo_url dest), (''RESTIC_PASSWORD'', rd_password dest)]
       @ (if rd_type dest = ''rclone'' then [(''RCLONE_BINARY'', wr_rclone_bin w)] else [])
       @ rd_env dest\<rparr>"

text \<open>A child sees the last of several values of a variable.\<close>

definition cmd_getenv :: "command \<Rightarrow> string \<Rightarrow> string option" where
  "cmd_getenv c k = map_of (rev (cm_env c)) k"

definition newline :: string where "newline = [CHR 0x0A]"

definition run :: "wrapper \<Rightarrow> procs \<Rightarrow> restic_dest \<Rightarrow> string list \<Rightarrow> trace \<Rightarrow> (string + unit) \<times> trace" where
  "run w proc dest args t =
     (let c = buildCmd w dest args; p = proc t c in
      (case pr_start_error p of
         Some e \<Rightarrow> Inl (''restic: command failed: '' @ e @ newline)
       | None \<Rightarrow>
           (case pr_exit p of
              Some e \<Rightarrow> Inl (''restic: command failed: '' @ e @ newline @ trim_space (pr_combined p))
            | None \<Rightarrow> Inr ()),
       t @ [Exec c]))"

definition run_output :: "wrapper \<Rightarrow> procs \<Rightarrow> restic_dest \<Rightarrow> string list \<Rightarrow> trace \<Rightarrow> (string + string) \<times> trace" where
  "run_output w proc dest args t =
     (let c = buildCmd w dest args; p = proc t c in
      (case pr_start_error p of
         Some e \<Rightarrow> Inl (''restic: command failed: '' @ e @ newline)
       | None \<Rightarrow>
           (case pr_exit p of
              Some e \<Rightarrow> Inl (''restic: command failed: '' @ e @ newline @ trim_space (pr_stderr p))
            | None \<Rightarrow> Inr (pr_stdout p)),
       t @ [Exec c]))"

section \<open>Progress\<close>

text \<open>\<open>bufio.Scanner\<close>: the lines, without their end (and a carriage return before it), up to the first
that does not fit its buffer of 64 KiB.\<close>

definition drop_cr :: "string \<Rightarrow> string" where
  "drop_cr l = (if l \<noteq> [] \<and> last l = CHR 0x0D then butlast l else l)"

definition raw_lines :: "string \<Rightarrow> string list" where
  "raw_lines s =
     (let ls = split_on CHR 0x0A s in if last ls = [] then butlast ls else ls)"

definition scan_lines :: "string \<Rightarrow> string list" where
  "scan_lines s = map drop_cr (takeWhile (\<lambda>l. length l < 65536) (raw_lines s))"

definition dec_uint :: "json \<Rightarrow> int \<Rightarrow> int option" where
  "dec_uint v d = (case v of
       JNum l \<Rightarrow> if l \<noteq> [] \<and> list_all is_digit l \<and> digits_val l < 2 ^ 64
                 then Some (int (digits_val l)) else None
     | JNull \<Rightarrow> Some d | _ \<Rightarrow> None)"

definition dec_float :: "wrapper \<Rightarrow> json \<Rightarrow> string \<Rightarrow> string option" where
  "dec_float w v d = (case v of JNum l \<Rightarrow> wr_float w l | JNull \<Rightarrow> Some d | _ \<Rightarrow> None)"

definition dec_event :: "wrapper \<Rightarrow> (string \<times> json) list \<Rightarrow> progress_event option" where
  "dec_event w kvs =
     (case (json_field dec_string ''message_type'' [] kvs,
            json_field (dec_float w) ''percent_done'' ''0'' kvs,
            json_field dec_uint ''files_new'' 0 kvs, json_field dec_uint ''files_done'' 0 kvs,
            json_field dec_uint ''bytes_done'' 0 kvs, json_field dec_uint ''total_files'' 0 kvs,
            json_field dec_uint ''total_bytes'' 0 kvs, json_field dec_string ''snapshot_id'' [] kvs,
            json_field dec_uint ''total_bytes_processed'' 0 kvs,
            json_field dec_uint ''data_added'' 0 kvs) of
        (Some mt, Some pd, Some fn, Some fd, Some bd, Some tf, Some tb, Some sid, Some tbp, Some da) \<Rightarrow>
          Some \<lparr>pe_message_type = mt, pe_percent_done = pd, pe_files_new = fn, pe_files_done = fd,
                pe_bytes_done = bd, pe_total_files = tf, pe_total_bytes = tb, pe_snapshot_id = sid,
                pe_total_bytes_processed = tbp, pe_data_added = da, pe_raw = []\<rparr>
      | _ \<Rightarrow> None)"

definition event_json :: "progress_event \<Rightarrow> json" where
  "event_json ev = JObj
     [(''message_type'', JStr (pe_message_type ev)), (''percent_done'', JNum (pe_percent_done ev)),
      (''files_new'', jint (pe_files_new ev)), (''files_done'', jint (pe_files_done ev)),
      (''bytes_done'', jint (pe_bytes_done ev)), (''total_files'', jint (pe_total_files ev)),
      (''total_bytes'', jint (pe_total_bytes ev)), (''snapshot_id'', JStr (pe_snapshot_id ev)),
      (''total_bytes_processed'', jint (pe_total_bytes_processed ev)),
      (''data_added'', jint (pe_data_added ev))]"

text \<open>The read loop over the lines of the child, with a state the callback threads; a line that is not an
event is skipped, and an error of the callback ends the loop.\<close>

fun read_events ::
  "wrapper \<Rightarrow> (progress_event \<Rightarrow> 's \<Rightarrow> string option \<times> 's) \<Rightarrow> string list \<Rightarrow> 's \<Rightarrow> string option \<times> 's" where
  "read_events w f [] s = (None, s)"
| "read_events w f (l # ls) s =
     (if l = [] then read_events w f ls s
      else (case unmarshal_struct (dec_event w) l of
              None \<Rightarrow> read_events w f ls s
            | Some ev \<Rightarrow>
                (case f (ev\<lparr>pe_raw := l\<rparr>) s of
                   (Some e, s1) \<Rightarrow> (Some e, s1)
                 | (None, s1) \<Rightarrow> read_events w f ls s1)))"

definition runWithProgress ::
  "wrapper \<Rightarrow> procs \<Rightarrow> restic_dest \<Rightarrow> string list \<Rightarrow>
   (progress_event \<Rightarrow> 'r \<times> trace \<Rightarrow> string option \<times> ('r \<times> trace)) \<Rightarrow> 'r \<Rightarrow> trace \<Rightarrow>
   (string + unit) \<times> ('r \<times> trace)" where
  "runWithProgress w proc dest args f r t =
     (let c = buildCmd w dest args; p = proc t c in
      case pr_pipe_error p of
        Some e \<Rightarrow> (Inl (''restic: failed to open stdout pipe: '' @ e), (r, t))
      | None \<Rightarrow>
          (case pr_start_error p of
             Some e \<Rightarrow> (Inl (''restic: failed to start: '' @ e), (r, t @ [Exec c]))
           | None \<Rightarrow>
               (case read_events w f (scan_lines (pr_stdout p)) (r, t @ [Exec c]) of
                  (Some e, s1) \<Rightarrow> (Inl (''restic: progress callback cancelled: '' @ e), s1)
                | (None, s1) \<Rightarrow>
                    ((case pr_exit p of
                        Some e \<Rightarrow> Inl (''restic: command failed: '' @ e @ newline
                                         @ trim_space (pr_stderr p))
                      | None \<Rightarrow> Inr ()), s1))))"

section \<open>Operations\<close>

definition Init :: "wrapper \<Rightarrow> procs \<Rightarrow> restic_dest \<Rightarrow> trace \<Rightarrow> (string + unit) \<times> trace" where
  "Init w proc dest t =
     (case run w proc dest [''init''] t of
        (Inl e, t1) \<Rightarrow> if str_contains ''already'' e then (Inr (), t1) else (Inl e, t1)
      | (Inr _, t1) \<Rightarrow> (Inr (), t1))"

definition flag_args :: "string \<Rightarrow> string list \<Rightarrow> string list" where
  "flag_args flag vs = concat (map (\<lambda>v. [flag, v]) vs)"

definition backup_args :: "backup_options \<Rightarrow> string list" where
  "backup_args opts = [''backup'', ''--json''] @ flag_args ''--tag'' (bo_tags opts)
     @ flag_args ''--exclude'' (bo_excludes opts) @ bo_sources opts"

text \<open>The callback of \<open>Backup\<close>: a summary overwrites the result, then the caller's callback runs.\<close>

definition intercepted ::
  "(progress_event \<Rightarrow> trace \<Rightarrow> string option \<times> trace) \<Rightarrow> progress_event \<Rightarrow>
   backup_result \<times> trace \<Rightarrow> string option \<times> (backup_result \<times> trace)" where
  "intercepted onProgress ev rt =
     (let r = (if pe_message_type ev = ''summary''
               then \<lparr>br_snapshot_id = pe_snapshot_id ev,
                     br_total_bytes_processed = pe_total_bytes_processed ev,
                     br_data_added = pe_data_added ev\<rparr>
               else fst rt) in
      case onProgress ev (snd rt) of (e, t1) \<Rightarrow> (e, (r, t1)))"

definition zero_result :: backup_result where
  "zero_result = \<lparr>br_snapshot_id = [], br_total_bytes_processed = 0, br_data_added = 0\<rparr>"

definition Backup ::
  "wrapper \<Rightarrow> procs \<Rightarrow> restic_dest \<Rightarrow> backup_options \<Rightarrow>
   (progress_event \<Rightarrow> trace \<Rightarrow> string option \<times> trace) \<Rightarrow> trace \<Rightarrow> (string + backup_result) \<times> trace" where
  "Backup w proc dest opts onProgress t =
     (case Init w proc dest t of
        (Inl e, t1) \<Rightarrow> (Inl (''restic: failed to init repository: '' @ e), t1)
      | (Inr _, t1) \<Rightarrow>
          (case runWithProgress w proc dest (backup_args opts) (intercepted onProgress) zero_result t1 of
             (Inl e, (r, t2)) \<Rightarrow> (Inl e, t2)
           | (Inr _, (r, t2)) \<Rightarrow> (Inr r, t2)))"

definition forget_args :: "retention_policy \<Rightarrow> string list" where
  "forget_args p = [''forget'', ''--prune'', ''--json'',
     ''--keep-daily'', int_text (ret_daily p), ''--keep-weekly'', int_text (ret_weekly p),
     ''--keep-monthly'', int_text (ret_monthly p), ''--keep-yearly'', int_text (ret_yearly p)]"

definition Forget ::
  "wrapper \<Rightarrow> procs \<Rightarrow> restic_dest \<Rightarrow> retention_policy \<Rightarrow> trace \<Rightarrow> (string + unit) \<times> trace" where
  "Forget w proc dest p t = run w proc dest (forget_args p) t"

definition Check ::
  "wrapper \<Rightarrow> procs \<Rightarrow> restic_dest \<Rightarrow> (progress_event \<Rightarrow> trace \<Rightarrow> string option \<times> trace) \<Rightarrow> trace \<Rightarrow>
   (string + unit) \<times> trace" where
  "Check w proc dest onProgress t =
     (case runWithProgress w proc dest [''check'', ''--json'']
             (\<lambda>ev rt. case onProgress ev (snd rt) of (e, t1) \<Rightarrow> (e, ((), t1))) () t of
        (r, (_, t1)) \<Rightarrow> (r, t1))"

record snapshot_info =
  si_id :: string
  si_time :: string
  si_paths :: "string list"
  si_tags :: "string list"
  si_hostname :: string
  si_username :: string
  si_short_id :: string

definition dec_snapshot_info :: "(string \<times> json) list \<Rightarrow> snapshot_info option" where
  "dec_snapshot_info kvs =
     (case (json_field dec_string ''id'' [] kvs, json_field dec_string ''time'' [] kvs,
            json_field (dec_list dec_string []) ''paths'' [] kvs,
            json_field (dec_list dec_string []) ''tags'' [] kvs,
            json_field dec_string ''hostname'' [] kvs, json_field dec_string ''username'' [] kvs,
            json_field dec_string ''short_id'' [] kvs) of
        (Some i, Some tm, Some ps, Some ts, Some h, Some u, Some sh) \<Rightarrow>
          Some \<lparr>si_id = i, si_time = tm, si_paths = ps, si_tags = ts, si_hostname = h,
                si_username = u, si_short_id = sh\<rparr>
      | _ \<Rightarrow> None)"

text \<open>(The text of the decoding error, which \<open>Snapshots\<close> appends to its message, is left out.)\<close>

definition Snapshots ::
  "wrapper \<Rightarrow> procs \<Rightarrow> restic_dest \<Rightarrow> trace \<Rightarrow> (string + snapshot_info list) \<times> trace" where
  "Snapshots w proc dest t =
     (case run_output w proc dest [''snapshots'', ''--json'', ''--no-lock''] t of
        (Inl e, t1) \<Rightarrow> (Inl e, t1)
      | (Inr out, t1) \<Rightarrow>
          (case (case json_parse out of
                   None \<Rightarrow> None
                 | Some v \<Rightarrow> dec_list (dec_struct dec_snapshot_info)
                     \<lparr>si_id = [], si_time = [], si_paths = [], si_tags = [], si_hostname = [],
                      si_username = [], si_short_id = []\<rparr> v []) of
             None \<Rightarrow> (Inl ''restic: failed to parse snapshots output: '', t1)
           | Some xs \<Rightarrow> (Inr xs, t1)))"

section \<open>Restore\<close>

text \<open>What one line of the error output says: nothing of interest, a tolerable \<open>lchown\<close> failure below
the host root, or a real error.\<close>

datatype verdict = Skip | Tolerated | Real

definition dec_message :: "json \<Rightarrow> string \<Rightarrow> string option" where
  "dec_message v d = (case v of
       JObj kvs \<Rightarrow> json_field dec_string ''message'' d kvs | JNull \<Rightarrow> Some d | _ \<Rightarrow> None)"

definition dec_error_line :: "(string \<times> json) list \<Rightarrow> (string \<times> string \<times> string) option" where
  "dec_error_line kvs =
     (case (json_field dec_string ''message_type'' [] kvs,
            json_field dec_message ''error'' [] kvs,
            json_field dec_string ''item'' [] kvs) of
        (Some mt, Some msg, Some item) \<Rightarrow> Some (mt, msg, item) | _ \<Rightarrow> None)"

definition lchown_denied :: "string \<Rightarrow> bool" where
  "lchown_denied msg = (str_contains ''lchown'' msg \<and> str_contains ''permission denied'' msg)"

definition plain_verdict :: "string \<Rightarrow> string \<Rightarrow> verdict" where
  "plain_verdict hostRoot line =
     (if starts_with ''ignoring error for '' line
      then (if lchown_denied line \<and> str_contains hostRoot line then Tolerated else Real)
      else if starts_with ''Fatal: There were '' line \<and> ends_with ''errors'' line then Skip
      else if starts_with ''Fatal:'' line \<or> starts_with ''Error:'' line then Real
      else Skip)"

definition line_verdict :: "string \<Rightarrow> string \<Rightarrow> verdict" where
  "line_verdict hostRoot raw =
     (let line = trim_space raw in
      if line = [] then Skip
      else (case (if starts_with ''{'' line then unmarshal_struct dec_error_line line else None) of
              Some (mt, msg, item) \<Rightarrow>
                (if mt = ''error''
                 then (if lchown_denied msg \<and> starts_with hostRoot item then Tolerated else Real)
                 else Skip)
            | None \<Rightarrow> plain_verdict hostRoot line))"

fun scan_verdicts :: "string \<Rightarrow> string list \<Rightarrow> bool \<Rightarrow> bool" where
  "scan_verdicts hostRoot [] found = found"
| "scan_verdicts hostRoot (l # ls) found =
     (case line_verdict hostRoot l of
        Skip \<Rightarrow> scan_verdicts hostRoot ls found
      | Tolerated \<Rightarrow> scan_verdicts hostRoot ls True
      | Real \<Rightarrow> False)"

definition isOnlyHostRootLchownErrors :: "string \<Rightarrow> string \<Rightarrow> bool" where
  "isOnlyHostRootLchownErrors stderr hostRoot =
     scan_verdicts hostRoot (split_on CHR 0x0A stderr) False"

definition runRestoreJSON ::
  "wrapper \<Rightarrow> procs \<Rightarrow> restic_dest \<Rightarrow> string list \<Rightarrow> string \<Rightarrow> trace \<Rightarrow> (string + unit) \<times> trace" where
  "runRestoreJSON w proc dest args hostRoot t =
     (let c = buildCmd w dest args; p = proc t c in
      case pr_pipe_error p of
        Some e \<Rightarrow> (Inl (''restic: failed to open stdout pipe: '' @ e), t)
      | None \<Rightarrow>
          ((case pr_start_error p of
              Some e \<Rightarrow> Inl (''restic: failed to start: '' @ e)
            | None \<Rightarrow>
                (case pr_exit p of
                   None \<Rightarrow> Inr ()
                 | Some e \<Rightarrow>
                     (let stderr = trim_space (pr_stderr p) in
                      if hostRoot \<noteq> [] \<and> isOnlyHostRootLchownErrors stderr hostRoot then Inr ()
                      else Inl (''restic: command failed: '' @ e @ newline @ stderr)))),
           t @ [Exec c]))"

definition restore_args :: "string \<Rightarrow> string \<Rightarrow> string \<Rightarrow> string list \<Rightarrow> string list" where
  "restore_args snapshotID targetDir includePath excludes =
     [''restore'', snapshotID, ''--target'', targetDir, ''--json'']
     @ (if includePath \<noteq> [] then [''--include'', includePath] else [])
     @ flag_args ''--exclude'' excludes"

definition Restore ::
  "wrapper \<Rightarrow> procs \<Rightarrow> restic_dest \<Rightarrow> string \<Rightarrow> string \<Rightarrow> string \<Rightarrow> string list \<Rightarrow> string \<Rightarrow> trace \<Rightarrow>
   (string + unit) \<times> trace" where
  "Restore w proc dest snapshotID targetDir includePath excludes hostRoot t =
     runRestoreJSON w proc dest (restore_args snapshotID targetDir includePath excludes) hostRoot t"

end
