(* ===== verification/PathTranslate.thy ===== *)
theory PathTranslate
  imports Json
begin

text \<open>\<open>translateLocalPath\<close> of \<open>agent/internal/executor/executor.go\<close>, with the parts of
\<open>path/filepath\<close> it uses as they are on Unix (the host root is empty on every other platform, and
the function then returns its argument before it reaches them).\<close>

section \<open>Paths\<close>

definition path_sep :: char where "path_sep = CHR ''/''"

text \<open>One element of a path read by \<open>filepath.Clean\<close>, on the elements kept so far.\<close>

definition clean_step :: "bool \<Rightarrow> string \<Rightarrow> string list \<Rightarrow> string list" where
  "clean_step rooted e out =
     (if e = [] \<or> e = ''.'' then out
      else if e = ''..''
      then (if out \<noteq> [] \<and> last out \<noteq> ''..'' then butlast out
            else if rooted then out else out @ [e])
      else out @ [e])"

definition clean_parts :: "bool \<Rightarrow> string list \<Rightarrow> string list" where
  "clean_parts rooted es = fold (clean_step rooted) es []"

definition path_rooted :: "string \<Rightarrow> bool" where
  "path_rooted p = starts_with ''/'' p"

definition filepath_Clean :: "string \<Rightarrow> string" where
  "filepath_Clean p =
     (if p = [] then ''.''
      else (let s = join_with ''/'' (clean_parts (path_rooted p) (split_on path_sep p)) in
            if path_rooted p then path_sep # s else if s = [] then ''.'' else s))"

text \<open>\<open>filepath.Join\<close> of two elements: the first of them is left out when it is empty.\<close>

definition filepath_Join :: "string \<Rightarrow> string \<Rightarrow> string" where
  "filepath_Join a b =
     (if a \<noteq> [] then filepath_Clean (a @ path_sep # b)
      else if b \<noteq> [] then filepath_Clean b else [])"

section \<open>The translation\<close>

text \<open>\<open>strings.ToLower(string(b))\<close> of a byte: the conversion reads the byte as a code point.\<close>

definition lower_byte :: "char \<Rightarrow> string" where
  "lower_byte c = (let n = (of_char c :: nat) in
     if n < 128 then [fold_char c]
     else if 192 \<le> n \<and> n \<le> 222 \<and> n \<noteq> 215 then utf8 (n + 32)
     else utf8 n)"

definition translateLocalPath :: "string \<Rightarrow> string \<Rightarrow> string" where
  "translateLocalPath path hostRoot =
     (if hostRoot = [] then path
      else if starts_with (hostRoot @ ''/'') path then path
      else if 2 \<le> length path \<and> path ! 1 = CHR '':''
      then (let rest = map (\<lambda>c. if c = CHR 0x5C then path_sep else c) (drop 2 path);
                rest' = (if starts_with ''/'' rest then rest else path_sep # rest) in
            filepath_Join hostRoot (lower_byte (path ! 0) @ rest'))
      else if starts_with ''/'' path then filepath_Join hostRoot path
      else path)"

section \<open>Cleaning\<close>

lemma clean_parts_Nil [simp]: "clean_parts r [] = []"
  by (simp add: clean_parts_def)

text \<open>Elements that \<open>Clean\<close> keeps as they are.\<close>

definition plain :: "string \<Rightarrow> bool" where
  "plain e = (e \<noteq> [] \<and> e \<noteq> ''.'' \<and> e \<noteq> ''..'')"

lemma clean_step_plain: "plain e \<Longrightarrow> clean_step r e out = out @ [e]"
  by (simp add: clean_step_def plain_def)

lemma fold_clean_plain:
  "list_all plain es \<Longrightarrow> fold (clean_step r) es out = out @ es"
  by (induction es arbitrary: out) (simp_all add: clean_step_plain)

lemma fold_clean_no_up:
  "''..'' \<notin> set es \<Longrightarrow> fold (clean_step r) es out = out @ filter plain es"
  by (induction es arbitrary: out) (auto simp: clean_step_def plain_def)

lemma clean_step_subset: "set (clean_step r e out) \<subseteq> insert e (set out)"
  by (auto simp: clean_step_def dest: in_set_butlastD)

lemma join_with_append:
  "as \<noteq> [] \<Longrightarrow> bs \<noteq> [] \<Longrightarrow> join_with sep (as @ bs) = join_with sep as @ sep @ join_with sep bs"
proof (induction as)
  case (Cons a as)
  show ?case
  proof (cases as)
    case Nil
    with Cons.prems show ?thesis by (cases bs) simp_all
  next
    case (Cons b cs)
    with Cons.IH Cons.prems show ?thesis by simp
  qed
qed simp

text \<open>Joining a plain name to a directory appends it.\<close>

lemma Clean_plain:
  assumes "plain x" "path_sep \<notin> set x"
  shows "filepath_Clean x = x"
proof -
  have "\<not> path_rooted x" "x \<noteq> []" using assms by (cases x; auto simp: path_rooted_def path_sep_def plain_def)+
  then show ?thesis using assms
    by (simp add: filepath_Clean_def Let_def split_on_no_sep clean_parts_def clean_step_plain)
qed

lemma Join_plain: "\<exists>pre. \<forall>x. plain x \<and> path_sep \<notin> set x \<longrightarrow> filepath_Join dir x = pre @ x"
proof (cases "dir = []")
  case True
  then have "\<forall>x. plain x \<and> path_sep \<notin> set x \<longrightarrow> filepath_Join dir x = [] @ x"
    by (simp add: filepath_Join_def Clean_plain plain_def)
  then show ?thesis by (rule exI)
next
  case False
  let ?r = "path_rooted dir" let ?P = "clean_parts ?r (split_on path_sep dir)"
  let ?pre = "(if ?r then [path_sep] else []) @ (if ?P = [] then [] else join_with ''/'' ?P @ ''/'')"
  have "filepath_Join dir x = ?pre @ x" if "plain x" "path_sep \<notin> set x" for x
  proof -
    have rooted: "path_rooted (dir @ path_sep # x) = ?r"
      using False by (cases dir) (simp_all add: path_rooted_def)
    have "clean_parts ?r (split_on path_sep (dir @ path_sep # x)) = ?P @ [x]"
      using that by (simp add: split_on_append split_on_no_sep clean_parts_def clean_step_plain)
    moreover have "x \<noteq> []" using that(1) by (simp add: plain_def)
    ultimately show ?thesis
      using False rooted by (simp add: filepath_Join_def filepath_Clean_def Let_def join_with_append)
  qed
  then show ?thesis by blast
qed

lemma Join_plain_inj:
  assumes "plain x" "path_sep \<notin> set x" "plain y" "path_sep \<notin> set y"
  shows "filepath_Join dir x = filepath_Join dir y \<longleftrightarrow> x = y"
proof -
  obtain pre where "\<forall>x. plain x \<and> path_sep \<notin> set x \<longrightarrow> filepath_Join dir x = pre @ x" using Join_plain by blast
  with assms show ?thesis by simp
qed

text \<open>A host root as the agent is configured with it: absolute, without redundant elements.\<close>

definition clean_root :: "string list \<Rightarrow> bool" where
  "clean_root rs = (rs \<noteq> [] \<and> list_all (\<lambda>e. plain e \<and> path_sep \<notin> set e) rs)"

definition root_path :: "string list \<Rightarrow> string" where
  "root_path rs = path_sep # join_with ''/'' rs"

lemma split_root_path:
  "clean_root rs \<Longrightarrow> split_on path_sep (root_path rs) = [] # rs"
  using split_join_with[of rs path_sep] by (auto simp: root_path_def clean_root_def list_all_iff path_sep_def)

text \<open>Joining a path without \<open>..\<close> below a clean root stays below it.\<close>

lemma Join_below:
  assumes "clean_root rs" "''..'' \<notin> set (split_on path_sep p)"
  shows "filepath_Join (root_path rs) p =
           root_path (rs @ filter plain (split_on path_sep p))"
proof -
  let ?p = "split_on path_sep p"
  have "path_rooted (root_path rs @ path_sep # p)"
    by (simp add: path_rooted_def root_path_def path_sep_def)
  moreover have "clean_parts True (split_on path_sep (root_path rs @ path_sep # p)) = rs @ filter plain ?p"
    using assms fold_clean_plain[of rs True "[]"] fold_clean_no_up[of ?p True rs]
    by (simp add: clean_parts_def split_on_append split_root_path clean_step_def clean_root_def
        list_all_iff)
  ultimately show ?thesis
    using assms(1) by (simp add: filepath_Join_def filepath_Clean_def root_path_def)
qed

lemma below_root:
  assumes "clean_root rs"
  shows "root_path (rs @ qs) = root_path rs \<or> starts_with (root_path rs @ ''/'') (root_path (rs @ qs))"
proof (cases qs)
  case (Cons q qs')
  then have "root_path (rs @ qs) = root_path rs @ ''/'' @ join_with ''/'' qs"
    using assms join_with_append[of rs qs "''/''"] by (simp add: root_path_def clean_root_def)
  then show ?thesis by (simp add: starts_with_iff)
qed simp

section \<open>Confinement\<close>

text \<open>What is placed below the host root: the path itself, or the drive followed by the rest.\<close>

definition drive_like :: "string \<Rightarrow> bool" where
  "drive_like p = (2 \<le> length p \<and> p ! 1 = CHR '':'')"

definition host_part :: "string \<Rightarrow> string" where
  "host_part p =
     (if drive_like p
      then (let rest = map (\<lambda>c. if c = CHR 0x5C then path_sep else c) (drop 2 p) in
            lower_byte (p ! 0) @ (if starts_with ''/'' rest then rest else path_sep # rest))
      else p)"

lemma translate_joins:
  assumes "hostRoot \<noteq> []" "\<not> starts_with (hostRoot @ ''/'') p" "drive_like p \<or> starts_with ''/'' p"
  shows "translateLocalPath p hostRoot = filepath_Join hostRoot (host_part p)"
  using assms by (auto simp: translateLocalPath_def host_part_def drive_like_def Let_def)

text \<open>With a host root in its clean form, an absolute or drive path whose translated elements contain no
\<open>..\<close> is translated to the root itself or to a path below it, and translating that result again
changes nothing.\<close>

theorem translate_confined:
  assumes "clean_root rs" "drive_like p \<or> starts_with ''/'' p"
    and "''..'' \<notin> set (split_on path_sep (host_part p))"
  shows "translateLocalPath p (root_path rs) = root_path rs \<or>
     starts_with (root_path rs @ ''/'') (translateLocalPath p (root_path rs)) \<and>
     translateLocalPath (translateLocalPath p (root_path rs)) (root_path rs) =
       translateLocalPath p (root_path rs)"
proof (cases "starts_with (root_path rs @ ''/'') p")
  case True
  then have "translateLocalPath p (root_path rs) = p"
    by (simp add: translateLocalPath_def)
  with True show ?thesis by simp
next
  case False
  have "translateLocalPath p (root_path rs) = root_path (rs @ filter plain (split_on path_sep (host_part p)))"
    using translate_joins[OF _ False assms(2)] Join_below[OF assms(1,3)] by (simp add: root_path_def)
  moreover have "translateLocalPath q (root_path rs) = q" if "starts_with (root_path rs @ ''/'') q" for q
    using that by (simp add: translateLocalPath_def)
  ultimately show ?thesis
    using below_root[OF assms(1), of "filter plain (split_on path_sep (host_part p))"] by auto
qed

definition demo_path :: string where
  "demo_path = CHR ''C'' # CHR '':'' # CHR 0x5C # ''Users''"

theorem translate_confined_witness:
  "translateLocalPath demo_path (root_path [''hostfs'']) = root_path [''hostfs''] \<or>
   starts_with (root_path [''hostfs''] @ ''/'') (translateLocalPath demo_path (root_path [''hostfs'']))"
proof -
  have "clean_root [''hostfs'']" by code_simp
  moreover have "drive_like demo_path \<or> starts_with ''/'' demo_path" by code_simp
  moreover have "''..'' \<notin> set (split_on path_sep (host_part demo_path))" by code_simp
  ultimately show ?thesis using translate_confined by blast
qed

text \<open>An absolute path with \<open>..\<close> elements leaves the host root, and the host root itself is not
recognised as translated and gets nested in itself.\<close>

theorem translate_escapes:
  "translateLocalPath ''/../etc/shadow'' ''/hostfs'' = ''/etc/shadow'' \<and>
   translateLocalPath ''/hostfs'' ''/hostfs'' = ''/hostfs/hostfs''"
  by (simp add: translateLocalPath_def filepath_Join_def filepath_Clean_def path_rooted_def
      path_sep_def clean_parts_def clean_step_def Let_def)

end
