(* ===== verification/AgentManager.thy ===== *)
theory AgentManager
  imports GoMap
begin

text \<open>The in-memory registry of connected agents (\<open>server/internal/agentmanager/manager.go\<close>).  A
job stream is named by a number; \<open>mgr_sent\<close> records, oldest first, what has been sent on the
streams, and the outcome of \<open>stream.Send\<close>, decided by the transport, is the argument
\<open>send_ok\<close>.  A response channel of capacity 1 is the list of the results waiting in it.\<close>

section \<open>State\<close>

datatype job_kind = KindUnspecified | KindBackup | KindVerify | KindRestore | KindForget | KindListVolumes

record assignment =
  as_job_id :: string
  as_policy_id :: string
  as_type :: job_kind
  as_payload :: string
  as_scheduled_at :: time

record connected_agent =
  ca_id :: string
  ca_hostname :: string
  ca_connected_at :: time
  ca_docker :: bool
  ca_stream :: nat

record volume_info =
  vi_name :: string
  vi_mountpoint :: string
  vi_driver :: string

record volume_result =
  vr_volumes :: "volume_info list"
  vr_err :: string

record volume_report =
  vp_agent_id :: string
  vp_correlation_id :: string
  vp_volumes :: "volume_info list"
  vp_error :: string

record manager =
  mgr_agents :: "(string \<times> connected_agent) list"
  mgr_pending :: "(string \<times> volume_result list) list"
  mgr_sent :: "(nat \<times> assignment) list"

datatype mgr_error = AgentNotConnected | SendFailed | VolumeListTimeout | CtxDone

definition mgr_New :: manager where
  "mgr_New = \<lparr>mgr_agents = [], mgr_pending = [], mgr_sent = []\<rparr>"

section \<open>Registry\<close>

definition mgr_Register :: "time \<Rightarrow> string \<Rightarrow> string \<Rightarrow> bool \<Rightarrow> nat \<Rightarrow> manager \<Rightarrow> manager" where
  "mgr_Register now agentID hostname docker stream m =
     m\<lparr>mgr_agents := map_put agentID
        \<lparr>ca_id = agentID, ca_hostname = hostname, ca_connected_at = now, ca_docker = docker,
         ca_stream = stream\<rparr> (mgr_agents m)\<rparr>"

definition mgr_Deregister :: "string \<Rightarrow> manager \<Rightarrow> manager" where
  "mgr_Deregister agentID m =
     (case map_of (mgr_agents m) agentID of
        None \<Rightarrow> m
      | Some _ \<Rightarrow> m\<lparr>mgr_agents := map_del agentID (mgr_agents m)\<rparr>)"

definition mgr_send :: "nat \<Rightarrow> assignment \<Rightarrow> manager \<Rightarrow> manager" where
  "mgr_send stream a m = m\<lparr>mgr_sent := mgr_sent m @ [(stream, a)]\<rparr>"

definition mgr_Dispatch ::
  "(nat \<Rightarrow> assignment \<Rightarrow> bool) \<Rightarrow> string \<Rightarrow> assignment \<Rightarrow> manager \<Rightarrow> (mgr_error + unit) \<times> manager" where
  "mgr_Dispatch send_ok agentID a m =
     (case map_of (mgr_agents m) agentID of
        None \<Rightarrow> (Inl AgentNotConnected, m)
      | Some ag \<Rightarrow>
          if send_ok (ca_stream ag) a then (Inr (), mgr_send (ca_stream ag) a m)
          else (Inl SendFailed, m))"

definition mgr_IsConnected :: "string \<Rightarrow> manager \<Rightarrow> bool" where
  "mgr_IsConnected agentID m = (map_of (mgr_agents m) agentID \<noteq> None)"

definition mgr_DockerAvailable :: "string \<Rightarrow> manager \<Rightarrow> bool" where
  "mgr_DockerAvailable agentID m =
     (case map_of (mgr_agents m) agentID of None \<Rightarrow> False | Some a \<Rightarrow> ca_docker a)"

definition mgr_ConnectedAgentsCount :: "manager \<Rightarrow> nat" where
  "mgr_ConnectedAgentsCount m = length (mgr_agents m)"

definition mgr_ConnectedAgents :: "manager \<Rightarrow> connected_agent list" where
  "mgr_ConnectedAgents m = map snd (mgr_agents m)"

text \<open>\<open>WaitForAgent\<close> polls; the list holds, for every poll, the registry it sees and whether the
context was done by the end of the wait that follows.\<close>

fun mgr_WaitForAgent :: "string \<Rightarrow> (manager \<times> bool) list \<Rightarrow> (mgr_error + unit) option" where
  "mgr_WaitForAgent agentID [] = None"
| "mgr_WaitForAgent agentID ((m, cancelled) # polls) =
     (if mgr_IsConnected agentID m then Some (Inr ())
      else if cancelled then Some (Inl CtxDone)
      else mgr_WaitForAgent agentID polls)"

section \<open>Volume listings\<close>

text \<open>\<open>RequestVolumeList\<close> up to the point where it blocks, and from the event that wakes it; the
deferred function removes the channel on every path.\<close>

datatype wake = Answered | TimedOut | Cancelled

definition mgr_RequestVolumeList_send ::
  "(nat \<Rightarrow> assignment \<Rightarrow> bool) \<Rightarrow> time \<Rightarrow> string \<Rightarrow> string \<Rightarrow> manager \<Rightarrow> (mgr_error + unit) \<times> manager" where
  "mgr_RequestVolumeList_send send_ok now agentID corr m =
     (case map_of (mgr_agents m) agentID of
        None \<Rightarrow> (Inl AgentNotConnected, m)
      | Some ag \<Rightarrow>
          (let m1 = m\<lparr>mgr_pending := map_put corr [] (mgr_pending m)\<rparr>;
               a = \<lparr>as_job_id = corr, as_policy_id = [], as_type = KindListVolumes, as_payload = [],
                    as_scheduled_at = zero_time\<rparr> in
           if send_ok (ca_stream ag) a then (Inr (), mgr_send (ca_stream ag) a m1)
           else (Inl SendFailed, m1\<lparr>mgr_pending := map_del corr (mgr_pending m1)\<rparr>)))"

definition mgr_RequestVolumeList_wake ::
  "wake \<Rightarrow> string \<Rightarrow> manager \<Rightarrow> (mgr_error + volume_result) option \<times> manager" where
  "mgr_RequestVolumeList_wake w corr m =
     (let m' = m\<lparr>mgr_pending := map_del corr (mgr_pending m)\<rparr> in
      case w of
        Answered \<Rightarrow>
          (case map_of (mgr_pending m) corr of
             Some (r # _) \<Rightarrow> (Some (Inr r), m')
           | _ \<Rightarrow> (None, m))
      | TimedOut \<Rightarrow> (Some (Inl VolumeListTimeout), m')
      | Cancelled \<Rightarrow> (Some (Inl CtxDone), m'))"

text \<open>\<open>None\<close> is a delivery that blocks on the full channel.\<close>

definition mgr_DeliverVolumeList :: "volume_report \<Rightarrow> manager \<Rightarrow> manager option" where
  "mgr_DeliverVolumeList rep m =
     (case map_of (mgr_pending m) (vp_correlation_id rep) of
        None \<Rightarrow> Some m
      | Some [] \<Rightarrow> Some (m\<lparr>mgr_pending := map_put (vp_correlation_id rep)
            [\<lparr>vr_volumes = vp_volumes rep, vr_err = vp_error rep\<rparr>] (mgr_pending m)\<rparr>)
      | Some _ \<Rightarrow> None)"

section \<open>The registry as an interface\<close>

definition mgr_ok :: "manager \<Rightarrow> bool" where
  "mgr_ok m = (map_ok (mgr_agents m) \<and> map_ok (mgr_pending m))"

text \<open>The stream an agent is reached on.\<close>

definition mgr_route :: "manager \<Rightarrow> string \<Rightarrow> nat option" where
  "mgr_route m a = map_option ca_stream (map_of (mgr_agents m) a)"

locale registry =
  fixes register :: "'a \<Rightarrow> nat \<Rightarrow> 'r \<Rightarrow> 'r"
    and deregister :: "'a \<Rightarrow> 'r \<Rightarrow> 'r"
    and route :: "'r \<Rightarrow> 'a \<Rightarrow> nat option"
  assumes route_register: "route (register a st r) = (route r)(a \<mapsto> st)"
    and route_deregister: "route (deregister a r) = (route r)(a := None)"
begin

text \<open>Only the agents that occur in a run of registrations and removals are affected by it.\<close>

lemma run_route:
  "a \<notin> fst ` set es \<Longrightarrow>
   route (fold (\<lambda>(b, ev). case ev of Some st \<Rightarrow> register b st | None \<Rightarrow> deregister b) es r) a
     = route r a"
proof (induction es arbitrary: r)
  case (Cons e es)
  obtain b ev where e: "e = (b, ev)" by (cases e)
  with Cons.prems have "b \<noteq> a" "a \<notin> fst ` set es" by auto
  with Cons.IH e show ?case
    by (cases ev) (simp_all add: route_register route_deregister)
qed simp

text \<open>The removal an old stream makes when it closes removes the stream that replaced it.\<close>

lemma close_after_replace:
  "route (deregister a (register a new (register a old r))) a = None"
  by (simp add: route_deregister)

end

interpretation mgr: registry "\<lambda>a st m. mgr_Register now a host docker st m" mgr_Deregister mgr_route
proof unfold_locales
  show "mgr_route (mgr_Register now a host docker st m) = (mgr_route m)(a \<mapsto> st)" for a st m
    by (simp add: mgr_route_def mgr_Register_def fun_eq_iff)
  show "mgr_route (mgr_Deregister a m) = (mgr_route m)(a := None)" for a m
    by (auto simp: mgr_route_def mgr_Deregister_def fun_eq_iff split: option.split)
qed

lemma mgr_IsConnected_route: "mgr_IsConnected a m \<longleftrightarrow> mgr_route m a \<noteq> None"
  by (simp add: mgr_IsConnected_def mgr_route_def)

lemma mgr_ok_ops:
  "mgr_ok mgr_New"
  "mgr_ok m \<Longrightarrow> mgr_ok (mgr_Register now a h d st m)"
  "mgr_ok m \<Longrightarrow> mgr_ok (mgr_Deregister a m)"
  "mgr_ok m \<Longrightarrow> mgr_ok (mgr_send st x m)"
  by (auto simp: mgr_ok_def mgr_New_def mgr_Register_def mgr_Deregister_def mgr_send_def
      amap.ok_simps split: option.split)

lemma dispatch_none:
  "mgr_route m a = None \<Longrightarrow> mgr_Dispatch send_ok a job m = (Inl AgentNotConnected, m)"
  by (simp add: mgr_Dispatch_def mgr_route_def)

section \<open>Properties\<close>

text \<open>A dispatch succeeds exactly when the agent is registered and its stream takes the message;
it then sends exactly that assignment on exactly the agent's stream, and otherwise nothing.\<close>

theorem dispatch_exact:
  "mgr_Dispatch send_ok a job m =
     (case mgr_route m a of
        None \<Rightarrow> (Inl AgentNotConnected, m)
      | Some st \<Rightarrow> if send_ok st job then (Inr (), m\<lparr>mgr_sent := mgr_sent m @ [(st, job)]\<rparr>)
                   else (Inl SendFailed, m))"
  by (auto simp: mgr_Dispatch_def mgr_route_def mgr_send_def split: option.split)

text \<open>When an agent has reconnected and the server then cleans up the stream it replaced, the agent
counts as disconnected although its new stream is open, and no job can be dispatched to it.\<close>

theorem stale_close_disconnects:
  "let m = mgr_Deregister a (mgr_Register t2 a h2 d2 s2 (mgr_Register t1 a h1 d1 s1 m0)) in
   \<not> mgr_IsConnected a m \<and> mgr_Dispatch send_ok a job m = (Inl AgentNotConnected, m)"
proof -
  let ?m = "mgr_Deregister a (mgr_Register t2 a h2 d2 s2 (mgr_Register t1 a h1 d1 s1 m0))"
  have "mgr_route ?m a = None"
    by (simp add: mgr.route_deregister)
  then show ?thesis
    by (simp add: Let_def mgr_IsConnected_route dispatch_none)
qed

end
