(* ===== verification/Store.thy ===== *)
theory Store
  imports Models
begin

text \<open>The statements the repositories issue, read by the relational semantics of SQL on the tables
of the store: \<open>INSERT\<close>, \<open>SELECT\<close> with \<open>WHERE\<close>, \<open>ORDER BY\<close>, \<open>LIMIT\<close> and \<open>OFFSET\<close>, \<open>UPDATE\<close>,
\<open>DELETE\<close>, and \<open>Save\<close> (an \<open>UPDATE\<close> of every column, followed by an upsert when no row was hit).
An operation takes the table it works on as its projection \<open>rows\<close> and its update \<open>upd\<close>; the
locale \<open>table\<close> states what a table is and proves the facts of the operations once, and every
table of the store interprets it.\<close>

section \<open>Statements\<close>

definition sql :: "'a dbop \<Rightarrow> 'a dbop" where
  "sql f s = (case faults s of
       [] \<Rightarrow> f s
     | b # bs \<Rightarrow> if b then (Inl ErrDB, s\<lparr>faults := bs\<rparr>) else f (s\<lparr>faults := bs\<rparr>))"

text \<open>\<open>Base.BeforeCreate\<close>: a row without an id gets the next \<open>uuid.NewV7\<close>.\<close>

definition before_create :: "'z base_scheme \<Rightarrow> store \<Rightarrow> 'z base_scheme option \<times> store" where
  "before_create r s =
     (if ID r = nil_uuid
      then (case ids s of
              [] \<Rightarrow> (None, s)
            | u # us \<Rightarrow> (Some (r\<lparr>ID := u\<rparr>), s\<lparr>ids := us\<rparr>))
      else (Some r, s))"

definition stamp_new :: "time \<Rightarrow> 'z base_scheme \<Rightarrow> 'z base_scheme" where
  "stamp_new now r = r\<lparr>
     CreatedAt := (if CreatedAt r = zero_time then now else CreatedAt r),
     UpdatedAt := (if UpdatedAt r = zero_time then now else UpdatedAt r)\<rparr>"

definition insert_row ::
  "(store \<Rightarrow> 'z base_scheme list) \<Rightarrow>
   (('z base_scheme list \<Rightarrow> 'z base_scheme list) \<Rightarrow> store \<Rightarrow> store) \<Rightarrow>
   (store \<Rightarrow> 'z base_scheme \<Rightarrow> dberr option) \<Rightarrow> 'z base_scheme \<Rightarrow> 'z base_scheme dbop" where
  "insert_row rows upd chk r s =
     (if ID r \<in> set (map ID (rows s)) then (Inl ErrConflict, s)
      else (case chk s r of
              Some e \<Rightarrow> (Inl e, s)
            | None \<Rightarrow> (Inr r, upd (\<lambda>rs. rs @ [r]) s)))"

definition db_create ::
  "(store \<Rightarrow> 'z base_scheme list) \<Rightarrow>
   (('z base_scheme list \<Rightarrow> 'z base_scheme list) \<Rightarrow> store \<Rightarrow> store) \<Rightarrow>
   (store \<Rightarrow> 'z base_scheme \<Rightarrow> dberr option) \<Rightarrow> time \<Rightarrow> 'z base_scheme \<Rightarrow> 'z base_scheme dbop" where
  "db_create rows upd chk now r s =
     (case before_create r s of
        (None, s1) \<Rightarrow> (Inl ErrDB, s1)
      | (Some r1, s1) \<Rightarrow> sql (insert_row rows upd chk (stamp_new now r1)) s1)"

text \<open>\<open>Create\<close> of a slice: the hook runs for every element, then one \<open>INSERT\<close> writes all rows or
none.\<close>

fun before_create_all :: "'z base_scheme list \<Rightarrow> store \<Rightarrow> 'z base_scheme list option \<times> store" where
  "before_create_all [] s = (Some [], s)"
| "before_create_all (r # rs) s =
     (case before_create r s of
        (None, s1) \<Rightarrow> (None, s1)
      | (Some r1, s1) \<Rightarrow>
          (case before_create_all rs s1 of
             (None, s2) \<Rightarrow> (None, s2)
           | (Some rs1, s2) \<Rightarrow> (Some (r1 # rs1), s2)))"

definition db_create_all ::
  "(store \<Rightarrow> 'z base_scheme list) \<Rightarrow>
   (('z base_scheme list \<Rightarrow> 'z base_scheme list) \<Rightarrow> store \<Rightarrow> store) \<Rightarrow>
   (store \<Rightarrow> 'z base_scheme \<Rightarrow> dberr option) \<Rightarrow> time \<Rightarrow> 'z base_scheme list \<Rightarrow>
   'z base_scheme list dbop" where
  "db_create_all rows upd chk now rs s =
     (case before_create_all rs s of
        (None, s1) \<Rightarrow> (Inl ErrDB, s1)
      | (Some rs1, s1) \<Rightarrow>
          sql (\<lambda>s2. let new = map (stamp_new now) rs1 in
            if \<not> distinct (map ID (rows s2 @ new)) \<or> list_ex (\<lambda>r. chk s2 r \<noteq> None) new
            then (Inl ErrDB, s2)
            else (Inr new, upd (\<lambda>old. old @ new) s2)) s1)"

text \<open>\<open>First\<close> orders by primary key and takes one row.\<close>

definition db_first ::
  "(store \<Rightarrow> 'z base_scheme list) \<Rightarrow> ('z base_scheme \<Rightarrow> bool) \<Rightarrow> 'z base_scheme dbop" where
  "db_first rows P =
     sql (\<lambda>s. case sort_key ID (filter P (rows s)) of
                [] \<Rightarrow> (Inl ErrNotFound, s)
              | r # _ \<Rightarrow> (Inr r, s))"

definition db_find :: "(store \<Rightarrow> 'r list) \<Rightarrow> ('r \<Rightarrow> bool) \<Rightarrow> ('r list \<Rightarrow> 'r list) \<Rightarrow> 'r list dbop" where
  "db_find rows P arrange = sql (\<lambda>s. (Inr (arrange (filter P (rows s))), s))"

definition db_count :: "(store \<Rightarrow> 'r list) \<Rightarrow> ('r \<Rightarrow> bool) \<Rightarrow> nat dbop" where
  "db_count rows P = sql (\<lambda>s. (Inr (count_where P (rows s)), s))"

definition touch :: "time \<Rightarrow> ('z base_scheme \<Rightarrow> 'z base_scheme) \<Rightarrow> 'z base_scheme \<Rightarrow> 'z base_scheme" where
  "touch now f r = (f r)\<lparr>UpdatedAt := now\<rparr>"

definition db_update ::
  "(store \<Rightarrow> 'z base_scheme list) \<Rightarrow>
   (('z base_scheme list \<Rightarrow> 'z base_scheme list) \<Rightarrow> store \<Rightarrow> store) \<Rightarrow>
   (store \<Rightarrow> 'z base_scheme \<Rightarrow> dberr option) \<Rightarrow> time \<Rightarrow>
   ('z base_scheme \<Rightarrow> bool) \<Rightarrow> ('z base_scheme \<Rightarrow> 'z base_scheme) \<Rightarrow> nat dbop" where
  "db_update rows upd chk now P f =
     sql (\<lambda>s. if list_ex (\<lambda>r. P r \<and> chk s (touch now f r) \<noteq> None) (rows s)
              then (Inl ErrDB, s)
              else (Inr (count_where P (rows s)), upd (update_where P (touch now f)) s))"

text \<open>\<open>restrict\<close> are the references that refuse the deletion of a row, \<open>cascade\<close> what goes with the
deleted rows.\<close>

definition db_delete ::
  "(store \<Rightarrow> 'r list) \<Rightarrow> (('r list \<Rightarrow> 'r list) \<Rightarrow> store \<Rightarrow> store) \<Rightarrow>
   (store \<Rightarrow> 'r \<Rightarrow> bool) \<Rightarrow> ('r list \<Rightarrow> store \<Rightarrow> store) \<Rightarrow> ('r \<Rightarrow> bool) \<Rightarrow> nat dbop" where
  "db_delete rows upd restrict cascade P =
     sql (\<lambda>s. if fk_on s \<and> list_ex (\<lambda>r. P r \<and> restrict s r) (rows s) then (Inl ErrDB, s)
              else (Inr (count_where P (rows s)),
                    (let s' = upd (delete_where P) s in
                     if fk_on s then cascade (filter P (rows s)) s' else s')))"

definition no_restrict :: "store \<Rightarrow> 'r \<Rightarrow> bool" where
  "no_restrict s r = False"

definition no_cascade :: "'r list \<Rightarrow> store \<Rightarrow> store" where
  "no_cascade rs s = s"

definition no_check :: "store \<Rightarrow> 'r \<Rightarrow> dberr option" where
  "no_check s r = None"

text \<open>Errors a repository wraps with \<open>fmt.Errorf\<close>, and the test of \<open>RowsAffected\<close>.\<close>

definition wrapped :: "'a dbop \<Rightarrow> 'a dbop" where
  "wrapped m s = (case m s of (Inl e, s1) \<Rightarrow> (Inl ErrDB, s1) | (Inr a, s1) \<Rightarrow> (Inr a, s1))"

definition rows_affected :: "nat dbop \<Rightarrow> unit dbop" where
  "rows_affected m s =
     (case m s of
        (Inl e, s1) \<Rightarrow> (Inl ErrDB, s1)
      | (Inr n, s1) \<Rightarrow> if n = 0 then (Inl ErrNotFound, s1) else (Inr (), s1))"

definition ignoring_rows :: "nat dbop \<Rightarrow> unit dbop" where
  "ignoring_rows m s = (case m s of (Inl e, s1) \<Rightarrow> (Inl ErrDB, s1) | (Inr n, s1) \<Rightarrow> (Inr (), s1))"

text \<open>\<open>Save\<close>: every column of the row with this id is written; if the \<open>UPDATE\<close> hits no visible row,
the row is inserted with the defaults of its zero-valued columns, and an invisible (soft-deleted)
row with the id is overwritten.\<close>

definition write_row ::
  "(store \<Rightarrow> 'z base_scheme list) \<Rightarrow>
   (('z base_scheme list \<Rightarrow> 'z base_scheme list) \<Rightarrow> store \<Rightarrow> store) \<Rightarrow>
   (store \<Rightarrow> 'z base_scheme \<Rightarrow> dberr option) \<Rightarrow>
   ('z base_scheme \<Rightarrow> bool) \<Rightarrow> 'z base_scheme \<Rightarrow> nat dbop" where
  "write_row rows upd chk P r s =
     (case (if list_ex P (rows s) then chk s r else None) of
        Some e \<Rightarrow> (Inl e, s)
      | None \<Rightarrow> (Inr (count_where P (rows s)), upd (update_where P (\<lambda>_. r)) s))"

definition upsert_row ::
  "(store \<Rightarrow> 'z base_scheme list) \<Rightarrow>
   (('z base_scheme list \<Rightarrow> 'z base_scheme list) \<Rightarrow> store \<Rightarrow> store) \<Rightarrow>
   (store \<Rightarrow> 'z base_scheme \<Rightarrow> dberr option) \<Rightarrow> 'z base_scheme \<Rightarrow> nat dbop" where
  "upsert_row rows upd chk r s =
     (if list_ex (\<lambda>q. ID q = ID r) (rows s)
      then write_row rows upd chk (\<lambda>q. ID q = ID r) r s
      else (case chk s r of
              Some e \<Rightarrow> (Inl e, s)
            | None \<Rightarrow> (Inr 1, upd (\<lambda>rs. rs @ [r]) s)))"

definition db_save ::
  "(store \<Rightarrow> 'z base_scheme list) \<Rightarrow>
   (('z base_scheme list \<Rightarrow> 'z base_scheme list) \<Rightarrow> store \<Rightarrow> store) \<Rightarrow>
   ('z base_scheme \<Rightarrow> bool) \<Rightarrow> ('z base_scheme \<Rightarrow> 'z base_scheme) \<Rightarrow>
   (store \<Rightarrow> 'z base_scheme \<Rightarrow> dberr option) \<Rightarrow> time \<Rightarrow> 'z base_scheme \<Rightarrow> nat dbop" where
  "db_save rows upd visible defaults chk now r s =
     (let r' = r\<lparr>UpdatedAt := now\<rparr> in
      case sql (write_row rows upd chk (\<lambda>q. ID q = ID r \<and> visible q) r') s of
        (Inl e, s1) \<Rightarrow> (Inl e, s1)
      | (Inr n, s1) \<Rightarrow>
          if 0 < n then (Inr n, s1)
          else sql (upsert_row rows upd chk (defaults r')) s1)"

section \<open>Soft deletion\<close>

definition live :: "'z soft_delete_scheme \<Rightarrow> bool" where
  "live r = (DeletedAt r = None)"

definition db_soft_delete ::
  "(store \<Rightarrow> 'z soft_delete_scheme list) \<Rightarrow>
   (('z soft_delete_scheme list \<Rightarrow> 'z soft_delete_scheme list) \<Rightarrow> store \<Rightarrow> store) \<Rightarrow>
   time \<Rightarrow> ('z soft_delete_scheme \<Rightarrow> bool) \<Rightarrow> nat dbop" where
  "db_soft_delete rows upd now P =
     sql (\<lambda>s. let hit = (\<lambda>r. P r \<and> live r) in
              (Inr (count_where hit (rows s)),
               upd (update_where hit (\<lambda>r. r\<lparr>DeletedAt := Some now\<rparr>)) s))"

section \<open>The engine\<close>

lemma sql_no_faults [simp]: "faults s = [] \<Longrightarrow> sql f s = f s"
  by (simp add: sql_def)

lemma sql_rule:
  assumes fault: "\<And>bs. P (Inl ErrDB, s\<lparr>faults := bs\<rparr>)"
    and run: "\<And>bs. P (f (s\<lparr>faults := bs\<rparr>))"
  shows "P (sql f s)"
proof (cases "faults s")
  case Nil
  have same: "s\<lparr>faults := faults s\<rparr> = s" by simp
  have "P (f (s\<lparr>faults := faults s\<rparr>))" by (rule run)
  then have "P (f s)" unfolding same .
  with Nil show ?thesis by simp
next
  case (Cons b bs)
  then show ?thesis using fault run by (simp add: sql_def)
qed

lemma snd_wrapped [simp]: "snd (wrapped m s) = snd (m s)"
  by (simp add: wrapped_def split: sum.split prod.split)

lemma snd_rows_affected [simp]: "snd (rows_affected m s) = snd (m s)"
  by (simp add: rows_affected_def split: sum.split prod.split)

lemma snd_ignoring_rows [simp]: "snd (ignoring_rows m s) = snd (m s)"
  by (simp add: ignoring_rows_def split: sum.split prod.split)

lemma wrapped_Inr: "wrapped m s = (Inr a, s') \<longleftrightarrow> m s = (Inr a, s')"
  by (auto simp: wrapped_def split: sum.split prod.split)

lemma wrapped_ErrNotFound [simp]: "wrapped m s \<noteq> (Inl ErrNotFound, s')"
  by (simp add: wrapped_def split: sum.split prod.split)

lemma rows_affected_Inr:
  "rows_affected m s = (Inr u, s') \<longleftrightarrow> (\<exists>n. m s = (Inr n, s') \<and> n \<noteq> 0)"
  by (auto simp: rows_affected_def split: sum.split prod.split)

lemma ID_touch: "(\<And>r. ID (f r) = ID r) \<Longrightarrow> ID (touch now f r) = ID r"
  by (simp add: touch_def)

lemma before_create_rule:
  assumes "P (None, s)"
    and "\<And>u us. ID r = nil_uuid \<Longrightarrow> ids s = u # us \<Longrightarrow> P (Some (r\<lparr>ID := u\<rparr>), s\<lparr>ids := us\<rparr>)"
    and "ID r \<noteq> nil_uuid \<Longrightarrow> P (Some r, s)"
  shows "P (before_create r s)"
  using assms by (simp add: before_create_def split: list.split)

section \<open>What a statement leaves alone\<close>

text \<open>A part \<open>p\<close> of the store that is neither bookkeeping of the engine nor written by \<open>upd\<close>.\<close>

definition engine_free :: "(store \<Rightarrow> 'p) \<Rightarrow> bool" where
  "engine_free p = (\<forall>s bs us. p (s\<lparr>faults := bs\<rparr>) = p s \<and> p (s\<lparr>ids := us\<rparr>) = p s)"

lemma engine_free_simps:
  "engine_free p \<Longrightarrow> p (s\<lparr>faults := bs\<rparr>) = p s"
  "engine_free p \<Longrightarrow> p (s\<lparr>ids := us\<rparr>) = p s"
  by (simp_all add: engine_free_def)

lemma sql_frame:
  assumes "engine_free p" "\<And>s. p (snd (f s)) = p s"
  shows "p (snd (sql f s)) = p s"
  by (rule sql_rule) (simp_all add: assms engine_free_simps)

lemma before_create_frame:
  "engine_free p \<Longrightarrow> p (snd (before_create r s)) = p s"
  by (rule before_create_rule) (simp_all add: engine_free_simps)

lemma insert_row_frame:
  "(\<And>f s. p (upd f s) = p s) \<Longrightarrow> p (snd (insert_row rows upd chk r s)) = p s"
  by (simp add: insert_row_def split: option.split)

lemma db_create_frame:
  assumes "engine_free p" "\<And>f s. p (upd f s) = p s"
  shows "p (snd (db_create rows upd chk now r s)) = p s"
proof -
  have "p (snd (insert_row rows upd chk x t)) = p t" for x t
    by (rule insert_row_frame) (rule assms(2))
  then have "p (snd (sql (insert_row rows upd chk x) t)) = p t" for x t
    by (rule sql_frame[OF assms(1)])
  with before_create_frame[OF assms(1), of r s] show ?thesis
    by (auto simp: db_create_def split: prod.split option.split)
qed

lemma before_create_all_frame:
  "engine_free p \<Longrightarrow> p (snd (before_create_all rs s)) = p s"
proof (induction rs arbitrary: s)
  case (Cons r rs)
  have "p (snd (before_create r s)) = p s" using Cons.prems by (rule before_create_frame)
  with Cons show ?case by (auto split: prod.splits option.splits) (metis snd_conv)+
qed simp

lemma db_create_all_frame:
  assumes "engine_free p" "\<And>f s. p (upd f s) = p s"
  shows "p (snd (db_create_all rows upd chk now rs s)) = p s"
proof -
  let ?ins = "\<lambda>rs1 s2. let new = map (stamp_new now) rs1 in
            if \<not> distinct (map ID (rows s2 @ new)) \<or> list_ex (\<lambda>r. chk s2 r \<noteq> None) new
            then (Inl ErrDB, s2) else (Inr new, upd (\<lambda>old. old @ new) s2)"
  have "p (snd (sql (?ins rs1) t)) = p t" for rs1 t
    by (rule sql_frame[OF assms(1)]) (simp add: Let_def assms(2))
  with before_create_all_frame[OF assms(1), of rs s] show ?thesis
    by (auto simp: db_create_all_def split: prod.split option.split)
qed

lemma db_first_frame: "engine_free p \<Longrightarrow> p (snd (db_first rows P s)) = p s"
  unfolding db_first_def by (rule sql_frame) (auto split: list.split)

lemma db_find_frame: "engine_free p \<Longrightarrow> p (snd (db_find rows P g s)) = p s"
  unfolding db_find_def by (rule sql_frame) auto

lemma db_count_frame: "engine_free p \<Longrightarrow> p (snd (db_count rows P s)) = p s"
  unfolding db_count_def by (rule sql_frame) auto

lemma db_update_frame:
  "engine_free p \<Longrightarrow> (\<And>f s. p (upd f s) = p s) \<Longrightarrow>
   p (snd (db_update rows upd chk now P f s)) = p s"
  unfolding db_update_def by (rule sql_frame) auto

lemma db_soft_delete_frame:
  "engine_free p \<Longrightarrow> (\<And>f s. p (upd f s) = p s) \<Longrightarrow>
   p (snd (db_soft_delete rows upd now P s)) = p s"
  unfolding db_soft_delete_def by (rule sql_frame) (auto simp: Let_def)

lemma db_save_frame:
  assumes "engine_free p" "\<And>f s. p (upd f s) = p s"
  shows "p (snd (db_save rows upd vis dflt chk now r s)) = p s"
proof -
  have w: "p (snd (write_row rows upd chk P x t)) = p t" for P x t
    by (simp add: write_row_def assms(2) split: option.split)
  have "p (snd (sql (write_row rows upd chk P x) t)) = p t" for P x t
    by (rule sql_frame[OF assms(1)]) (rule w)
  moreover have "p (snd (upsert_row rows upd chk x t)) = p t" for x t
    by (simp add: upsert_row_def w assms(2) split: option.split)
  then have "p (snd (sql (upsert_row rows upd chk x) t)) = p t" for x t
    by (rule sql_frame[OF assms(1)])
  ultimately show ?thesis
    by (auto simp: db_save_def Let_def split: prod.split sum.split) (metis snd_conv)+
qed

lemmas db_frames = db_create_frame db_create_all_frame db_first_frame db_find_frame db_count_frame
  db_update_frame db_soft_delete_frame db_save_frame

lemma engine_free_tables [simp]:
  "engine_free users" "engine_free refresh_tokens" "engine_free oidc_providers"
  "engine_free agents" "engine_free destinations" "engine_free policies"
  "engine_free policy_destinations" "engine_free jobs" "engine_free job_destinations"
  "engine_free job_logs" "engine_free snapshots" "engine_free notifications"
  "engine_free deliveries" "engine_free audit_logs" "engine_free settings"
  "engine_free fk_on" "engine_free unique_msg"
  by (simp_all add: engine_free_def)

section \<open>What a table is\<close>

text \<open>The interface between a repository and its table: an update writes its own rows, and the
bookkeeping of the engine is not a row.\<close>

locale table =
  fixes rows :: "store \<Rightarrow> 'z base_scheme list"
    and upd :: "('z base_scheme list \<Rightarrow> 'z base_scheme list) \<Rightarrow> store \<Rightarrow> store"
  assumes rows_upd: "rows (upd f s) = f (rows s)"
    and rows_faults: "rows (s\<lparr>faults := bs\<rparr>) = rows s"
    and rows_ids: "rows (s\<lparr>ids := us\<rparr>) = rows s"
begin

lemmas rows_simps = rows_upd rows_faults rows_ids

lemma insert_cases:
  assumes "rows s = rs"
  shows "case sql (insert_row rows upd chk r) s of
     (Inl e, s') \<Rightarrow> rows s' = rs
   | (Inr r', s') \<Rightarrow> r' = r \<and> rows s' = rs @ [r] \<and> ID r \<notin> set (map ID rs)"
  by (rule sql_rule) (auto simp: insert_row_def rows_simps assms split: option.split)

lemma create_cases:
  "case db_create rows upd chk now r s of
     (Inl e, s') \<Rightarrow> rows s' = rows s
   | (Inr r', s') \<Rightarrow> rows s' = rows s @ [r'] \<and> ID r' \<notin> set (map ID (rows s)) \<and>
       (\<exists>u. r' = stamp_new now (r\<lparr>ID := u\<rparr>))"
proof (cases "ID r = nil_uuid")
  case True
  show ?thesis
  proof (cases "ids s")
    case Nil
    with True show ?thesis by (simp add: db_create_def before_create_def)
  next
    case (Cons u us)
    show ?thesis
      using True Cons
        insert_cases[where s = "s\<lparr>ids := us\<rparr>" and rs = "rows s" and chk = chk
          and r = "stamp_new now (r\<lparr>ID := u\<rparr>)"]
      by (auto simp: db_create_def before_create_def rows_ids split: prod.splits sum.splits)
  qed
next
  case False
  have same: "\<exists>u. stamp_new now r = stamp_new now (r\<lparr>ID := u\<rparr>)"
    by (rule exI[of _ "ID r"]) simp
  show ?thesis
    using False insert_cases[where s = s and rs = "rows s" and chk = chk and r = "stamp_new now r"] same
    by (auto simp: db_create_def before_create_def split: prod.splits sum.splits)
qed

lemma create_Inr:
  assumes "db_create rows upd chk now r s = (Inr r', s')"
  shows "rows s' = rows s @ [r']" "ID r' \<notin> set (map ID (rows s))"
    "\<exists>u. r' = stamp_new now (r\<lparr>ID := u\<rparr>)"
  using create_cases[where chk = chk and now = now and r = r and s = s] by (auto simp: assms)

lemma create_Inl:
  "db_create rows upd chk now r s = (Inl e, s') \<Longrightarrow> rows s' = rows s"
  using create_cases[where chk = chk and now = now and r = r and s = s] by simp

lemma create_distinct:
  assumes "distinct (map ID (rows s))"
  shows "distinct (map ID (rows (snd (db_create rows upd chk now r s))))"
  using assms create_cases[where chk = chk and now = now and r = r and s = s]
  by (auto split: prod.splits sum.splits)

lemma first_rows: "rows (snd (db_first rows P s)) = rows s"
  unfolding db_first_def
  by (rule sql_rule) (auto simp: rows_simps split: list.split)

lemma first_Inr:
  assumes "db_first rows P s = (Inr r, s')"
  shows "r \<in> set (rows s)" "P r"
proof -
  have least: "q \<in> set (filter P rs)" if "sort_key ID (filter P rs) = q # qs" for q qs rs
    using that by (metis list.set_intros(1) set_sort)
  have "fst (db_first rows P s) = Inr r \<longrightarrow> r \<in> set (filter P (rows s))"
    unfolding db_first_def
    by (rule sql_rule) (auto simp: rows_simps split: list.split dest: least)
  then show "r \<in> set (rows s)" "P r" by (simp_all add: assms)
qed

lemma first_by_id:
  assumes "faults s = []" "distinct (map ID (rows s))" "r \<in> set (rows s)" "Q r"
  shows "db_first rows (\<lambda>q. ID q = ID r \<and> Q q) s = (Inr r, s)"
proof -
  have "filter (\<lambda>q. ID q = ID r \<and> Q q) (rows s) = filter Q (filter (\<lambda>q. ID q = ID r) (rows s))"
    by (simp add: conj_commute)
  also have "\<dots> = [r]" using assms by (simp add: filter_key_unique)
  finally show ?thesis using assms(1) by (simp add: db_first_def)
qed

lemma first_absent:
  assumes "faults s = []" "\<And>r. r \<in> set (rows s) \<Longrightarrow> \<not> P r"
  shows "db_first rows P s = (Inl ErrNotFound, s)"
proof -
  have "filter P (rows s) = []" using assms(2) by (simp add: filter_empty_conv)
  with assms(1) show ?thesis by (simp add: db_first_def)
qed

lemma find_rows: "rows (snd (db_find any P g s)) = rows s"
  unfolding db_find_def by (rule sql_rule) (simp_all add: rows_simps)

lemma update_cases:
  "case db_update rows upd chk now P f s of
     (Inl e, s') \<Rightarrow> rows s' = rows s
   | (Inr n, s') \<Rightarrow> rows s' = update_where P (touch now f) (rows s) \<and> n = count_where P (rows s)"
  unfolding db_update_def by (rule sql_rule) (auto simp: rows_simps)

lemma update_distinct:
  assumes "\<And>r. ID (f r) = ID r" "distinct (map ID (rows s))"
  shows "distinct (map ID (rows (snd (db_update rows upd chk now P f s))))"
proof -
  have "map ID (update_where P (touch now f) (rows s)) = map ID (rows s)"
    by (rule map_update_where) (simp add: touch_def assms(1))
  with update_cases[where chk = chk and now = now and P = P and f = f and s = s] assms(2)
  show ?thesis
    by (auto split: prod.splits sum.splits)
qed

lemma update_ok:
  assumes "faults s = []" "\<And>r. r \<in> set (rows s) \<Longrightarrow> P r \<Longrightarrow> chk s (touch now f r) = None"
  shows "db_update rows upd chk now P f s =
           (Inr (count_where P (rows s)), upd (update_where P (touch now f)) s)"
  using assms by (auto simp: db_update_def list_ex_iff)

end

interpretation users_tbl: table users users_update
  by unfold_locales simp_all

interpretation refresh_tokens_tbl: table refresh_tokens refresh_tokens_update
  by unfold_locales simp_all

interpretation oidc_tbl: table oidc_providers oidc_providers_update
  by unfold_locales simp_all

interpretation agents_tbl: table agents agents_update
  by unfold_locales simp_all

interpretation destinations_tbl: table destinations destinations_update
  by unfold_locales simp_all

interpretation policies_tbl: table policies policies_update
  by unfold_locales simp_all

interpretation policy_dests_tbl: table policy_destinations policy_destinations_update
  by unfold_locales simp_all

interpretation jobs_tbl: table jobs jobs_update
  by unfold_locales simp_all

interpretation job_dests_tbl: table job_destinations job_destinations_update
  by unfold_locales simp_all

interpretation job_logs_tbl: table job_logs job_logs_update
  by unfold_locales simp_all

interpretation snapshots_tbl: table snapshots snapshots_update
  by unfold_locales simp_all

interpretation notifications_tbl: table notifications notifications_update
  by unfold_locales simp_all

interpretation deliveries_tbl: table deliveries deliveries_update
  by unfold_locales simp_all

end
