(* ===== verification/JobRepository.thy ===== *)
theory JobRepository
  imports Store
begin

text \<open>\<open>server/internal/repositories/job.go\<close>: jobs, their per-destination results and their logs.
The checks are the constraints of the migrations on these tables.\<close>

definition job_statuses :: "string list" where
  "job_statuses = [''pending'', ''running'', ''succeeded'', ''failed'']"

definition has_id :: "uuid \<Rightarrow> 'z base_scheme list \<Rightarrow> bool" where
  "has_id u rs = list_ex (\<lambda>r. ID r = u) rs"

text \<open>The CHECK of a row, and the full check of a row whose references are written too.\<close>

definition job_row_check :: "store \<Rightarrow> job \<Rightarrow> dberr option" where
  "job_row_check s j = (if job_status j \<notin> set job_statuses then Some ErrDB else None)"

definition job_check :: "store \<Rightarrow> job \<Rightarrow> dberr option" where
  "job_check s j =
     (if job_row_check s j \<noteq> None then job_row_check s j
      else if fk_on s \<and> \<not> (has_id (job_policy_id j) (policies s) \<and> has_id (job_agent_id j) (agents s))
      then Some ErrDB else None)"

definition job_destination_row_check :: "store \<Rightarrow> job_destination \<Rightarrow> dberr option" where
  "job_destination_row_check s d = (if jd_status d \<notin> set job_statuses then Some ErrDB else None)"

definition job_destination_check :: "store \<Rightarrow> job_destination \<Rightarrow> dberr option" where
  "job_destination_check s d =
     (if job_destination_row_check s d \<noteq> None then job_destination_row_check s d
      else if fk_on s \<and> \<not> (has_id (jd_job_id d) (jobs s) \<and> has_id (jd_destination_id d) (destinations s))
      then Some ErrDB else None)"

definition job_log_check :: "store \<Rightarrow> job_log \<Rightarrow> dberr option" where
  "job_log_check s l =
     (if jl_level l \<notin> {''info'', ''warn'', ''error''} then Some ErrDB
      else if fk_on s \<and> \<not> has_id (jl_job_id l) (jobs s) then Some ErrDB else None)"

text \<open>Columns with a default take it when the struct has the zero value.\<close>

definition job_defaults :: "job \<Rightarrow> job" where
  "job_defaults j = j\<lparr>
     job_type := (if job_type j = [] then ''backup'' else job_type j),
     job_status := (if job_status j = [] then ''pending'' else job_status j)\<rparr>"

definition job_destination_defaults :: "job_destination \<Rightarrow> job_destination" where
  "job_destination_defaults d = d\<lparr>
     jd_status := (if jd_status d = [] then ''pending'' else jd_status d)\<rparr>"

section \<open>Jobs\<close>

definition jobs_Create :: "time \<Rightarrow> job \<Rightarrow> job dbop" where
  "jobs_Create now j = wrapped (db_create jobs jobs_update job_check now (job_defaults j))"

definition jobs_GetByID :: "uuid \<Rightarrow> job dbop" where
  "jobs_GetByID u = db_first jobs (\<lambda>j. ID j = u)"

record job_with_names =
  jwn_job :: job
  jwn_policy_name :: string
  jwn_agent_name :: string

record job_destination_with_name =
  jdn_dest :: job_destination
  jdn_name :: string

definition joined_name :: "('r \<Rightarrow> string) \<Rightarrow> ('r \<Rightarrow> bool) \<Rightarrow> 'r list \<Rightarrow> string" where
  "joined_name name on_clause rs =
     (case find on_clause rs of None \<Rightarrow> [] | Some r \<Rightarrow> name r)"

definition listJobsJoin :: "store \<Rightarrow> job \<Rightarrow> job_with_names" where
  "listJobsJoin s j = \<lparr>jwn_job = j,
     jwn_policy_name = joined_name pol_name (\<lambda>p. ID p = job_policy_id j \<and> live p) (policies s),
     jwn_agent_name = joined_name ag_name (\<lambda>a. ID a = job_agent_id j \<and> live a) (agents s)\<rparr>"

definition listDestinationsJoin :: "store \<Rightarrow> job_destination \<Rightarrow> job_destination_with_name" where
  "listDestinationsJoin s d = \<lparr>jdn_dest = d,
     jdn_name = joined_name dst_name (\<lambda>x. ID x = jd_destination_id d) (destinations s)\<rparr>"

definition jobs_ListDestinationsByJob :: "uuid \<Rightarrow> job_destination_with_name list dbop" where
  "jobs_ListDestinationsByJob u =
     sql (\<lambda>s. (Inr (map (listDestinationsJoin s)
                 (filter (\<lambda>d. jd_job_id d = u) (job_destinations s))), s))"

definition jobs_GetLogs :: "uuid \<Rightarrow> job_log list dbop" where
  "jobs_GetLogs u = db_find job_logs (\<lambda>l. jl_job_id l = u) (sort_key jl_timestamp)"

definition jobs_GetByIDWithDetails ::
  "uuid \<Rightarrow> (job_with_names \<times> job_destination_with_name list \<times> job_log list) dbop" where
  "jobs_GetByIDWithDetails u s =
     (case sql (\<lambda>s. (Inr (map (listJobsJoin s) (filter (\<lambda>j. ID j = u) (jobs s))), s)) s of
        (Inl e, s1) \<Rightarrow> (Inl ErrDB, s1)
      | (Inr rows, s1) \<Rightarrow>
          (case rows of
             [] \<Rightarrow> (Inl ErrNotFound, s1)
           | _ \<Rightarrow>
             (let row = last rows in
              if ID (jwn_job row) = nil_uuid then (Inl ErrNotFound, s1)
              else (case jobs_ListDestinationsByJob u s1 of
                      (Inl e, s2) \<Rightarrow> (Inl ErrDB, s2)
                    | (Inr ds, s2) \<Rightarrow>
                        (case jobs_GetLogs u s2 of
                           (Inl e, s3) \<Rightarrow> (Inl ErrDB, s3)
                         | (Inr ls, s3) \<Rightarrow> (Inr (row, ds, ls), s3))))))"

definition jobs_Update :: "time \<Rightarrow> job \<Rightarrow> unit dbop" where
  "jobs_Update now j = rows_affected (db_save jobs jobs_update (\<lambda>_. True) job_defaults job_check now j)"

definition set_job_status ::
  "string \<Rightarrow> time option \<Rightarrow> time option \<Rightarrow> string \<Rightarrow> job \<Rightarrow> job" where
  "set_job_status st started ended msg j = j\<lparr>
     job_status := st, job_error := msg,
     job_started_at := (case started of None \<Rightarrow> job_started_at j | Some t \<Rightarrow> Some t),
     job_ended_at := (case ended of None \<Rightarrow> job_ended_at j | Some t \<Rightarrow> Some t)\<rparr>"

definition jobs_UpdateStatus ::
  "time \<Rightarrow> uuid \<Rightarrow> string \<Rightarrow> time option \<Rightarrow> time option \<Rightarrow> string \<Rightarrow> unit dbop" where
  "jobs_UpdateStatus now u st started ended msg =
     rows_affected (db_update jobs jobs_update job_row_check now (\<lambda>j. ID j = u)
       (set_job_status st started ended msg))"

definition jobs_FailRunningJobsForAgent :: "time \<Rightarrow> uuid \<Rightarrow> string \<Rightarrow> nat dbop" where
  "jobs_FailRunningJobsForAgent now a msg =
     wrapped (db_update jobs jobs_update job_row_check now
       (\<lambda>j. job_agent_id j = a \<and> job_status j = ''running'')
       (\<lambda>j. j\<lparr>job_status := ''failed'', job_ended_at := Some now, job_error := msg\<rparr>))"

text \<open>The four listings differ in their \<open>WHERE\<close> clause; each counts, then reads a page, newest
first.\<close>

definition jobs_listing :: "(job \<Rightarrow> bool) \<Rightarrow> list_options \<Rightarrow> (job_with_names list \<times> nat) dbop" where
  "jobs_listing P opts s =
     (case db_count jobs P s of
        (Inl e, s1) \<Rightarrow> (Inl e, s1)
      | (Inr n, s1) \<Rightarrow>
          (case sql (\<lambda>s. (Inr (map (listJobsJoin s) (sql_page (lo_limit opts) (lo_offset opts)
                         (sort_key (\<lambda>j. - CreatedAt j) (filter P (jobs s))))), s)) s1 of
             (Inl e, s2) \<Rightarrow> (Inl e, s2)
           | (Inr rows, s2) \<Rightarrow> (Inr (rows, n), s2)))"

definition jobs_List :: "list_options \<Rightarrow> (job_with_names list \<times> nat) dbop" where
  "jobs_List = jobs_listing (\<lambda>_. True)"

definition jobs_ListByPolicy :: "uuid \<Rightarrow> list_options \<Rightarrow> (job_with_names list \<times> nat) dbop" where
  "jobs_ListByPolicy u = jobs_listing (\<lambda>j. job_policy_id j = u)"

definition jobs_ListByAgent :: "uuid \<Rightarrow> list_options \<Rightarrow> (job_with_names list \<times> nat) dbop" where
  "jobs_ListByAgent u = jobs_listing (\<lambda>j. job_agent_id j = u)"

definition jobs_ListByType :: "string \<Rightarrow> list_options \<Rightarrow> (job_with_names list \<times> nat) dbop" where
  "jobs_ListByType t = jobs_listing (\<lambda>j. job_type j = t)"

section \<open>Destinations and logs of a job\<close>

definition jobs_CreateDestination :: "time \<Rightarrow> job_destination \<Rightarrow> job_destination dbop" where
  "jobs_CreateDestination now d =
     wrapped (db_create job_destinations job_destinations_update job_destination_check now
       (job_destination_defaults d))"

definition jobs_UpdateDestinationStatus ::
  "time \<Rightarrow> uuid \<Rightarrow> string \<Rightarrow> time option \<Rightarrow> time option \<Rightarrow> string \<Rightarrow> int \<Rightarrow> string \<Rightarrow> unit dbop" where
  "jobs_UpdateDestinationStatus now u st started ended snap sz msg =
     rows_affected (db_update job_destinations job_destinations_update job_destination_row_check now
       (\<lambda>d. ID d = u)
       (\<lambda>d. d\<lparr>jd_status := st, jd_started_at := started, jd_ended_at := ended,
             jd_snapshot_id := snap, jd_size_bytes := sz, jd_error := msg\<rparr>))"

definition jobs_BulkCreateLogs :: "time \<Rightarrow> job_log list \<Rightarrow> unit dbop" where
  "jobs_BulkCreateLogs now ls s =
     (if ls = [] then (Inr (), s)
      else (case db_create_all job_logs job_logs_update job_log_check now ls s of
              (Inl e, s1) \<Rightarrow> (Inl ErrDB, s1)
            | (Inr _, s1) \<Rightarrow> (Inr (), s1)))"

section \<open>The status constraint\<close>

text \<open>What the CHECK constraint promises of the table.\<close>

definition jobs_valid :: "store \<Rightarrow> bool" where
  "jobs_valid s = list_all (\<lambda>j. job_status j \<in> set job_statuses) (jobs s)"

lemma job_check_status: "job_row_check s j = None \<Longrightarrow> job_status j \<in> set job_statuses"
  by (simp add: job_row_check_def split: if_splits)

lemma db_update_jobs_valid:
  assumes "jobs_valid s"
  shows "jobs_valid (snd (db_update jobs jobs_update job_row_check now P f s))"
proof -
  have one: "list_all (\<lambda>j. job_status j \<in> set job_statuses) (update_where P (touch now f) js)"
    if "list_all (\<lambda>j. job_status j \<in> set job_statuses) js"
       "\<not> list_ex (\<lambda>j. P j \<and> job_row_check t (touch now f j) \<noteq> None) js" for js t
    using that by (induction js) (auto dest: job_check_status)
  show ?thesis unfolding db_update_def
    by (rule sql_rule) (use assms one in \<open>auto simp: jobs_valid_def\<close>)
qed

lemma jobs_UpdateStatus_valid:
  "jobs_valid s \<Longrightarrow> jobs_valid (snd (jobs_UpdateStatus now u st started ended msg s))"
  by (simp add: jobs_UpdateStatus_def db_update_jobs_valid)

lemma jobs_FailRunning_valid:
  "jobs_valid s \<Longrightarrow> jobs_valid (snd (jobs_FailRunningJobsForAgent now a msg s))"
  by (simp add: jobs_FailRunningJobsForAgent_def db_update_jobs_valid)

text \<open>A status the constraint does not list is refused and nothing is written.\<close>

lemma jobs_UpdateStatus_refused:
  assumes "st \<notin> set job_statuses" "faults s = []" "j \<in> set (jobs s)" "ID j = u"
  shows "jobs_UpdateStatus now u st started ended msg s = (Inl ErrDB, s)"
proof -
  have "job_row_check s (touch now (set_job_status st started ended msg) j) \<noteq> None"
    using assms(1) by (simp add: job_row_check_def touch_def set_job_status_def)
  then have "list_ex (\<lambda>j. ID j = u \<and>
      job_row_check s (touch now (set_job_status st started ended msg) j) \<noteq> None) (jobs s)"
    using assms(3,4) by (auto simp: list_ex_iff)
  with assms(2) show ?thesis
    by (simp add: jobs_UpdateStatus_def rows_affected_def db_update_def)
qed

text \<open>A listed status is always accepted.\<close>

lemma db_update_jobs_accepted:
  assumes "faults s = []" "\<And>j. job_status (f j) \<in> set job_statuses"
  shows "db_update jobs jobs_update job_row_check now P f s =
           (Inr (count_where P (jobs s)), s\<lparr>jobs := update_where P (touch now f) (jobs s)\<rparr>)"
proof -
  have "job_row_check s (touch now f j) = None" for j
    using assms(2) by (simp add: job_row_check_def touch_def)
  then show ?thesis using assms(1) by (simp add: jobs_tbl.update_ok)
qed

lemma jobs_UpdateStatus_accepted:
  assumes "st \<in> set job_statuses" "faults s = []" "has_id u (jobs s)"
  shows "jobs_UpdateStatus now u st started ended msg s =
           (Inr (), s\<lparr>jobs := update_where (\<lambda>j. ID j = u)
               (touch now (set_job_status st started ended msg)) (jobs s)\<rparr>)"
proof -
  have "count_where (\<lambda>j. ID j = u) (jobs s) \<noteq> 0"
    using assms(3) by (auto simp: has_id_def list_ex_iff)
  then show ?thesis
    using assms(1,2)
    by (simp add: jobs_UpdateStatus_def rows_affected_def db_update_jobs_accepted
        set_job_status_def)
qed

lemma jobs_FailRunning_accepted:
  assumes "faults s = []"
  shows "jobs_FailRunningJobsForAgent now a msg s =
     (Inr (count_where (\<lambda>j. job_agent_id j = a \<and> job_status j = ''running'') (jobs s)),
      s\<lparr>jobs := update_where (\<lambda>j. job_agent_id j = a \<and> job_status j = ''running'')
         (touch now (\<lambda>j. j\<lparr>job_status := ''failed'', job_ended_at := Some now, job_error := msg\<rparr>))
         (jobs s)\<rparr>)"
  using assms
  by (simp add: jobs_FailRunningJobsForAgent_def wrapped_def db_update_jobs_accepted
      job_statuses_def)

text \<open>What a status update does to the table, in every execution.\<close>

lemma jobs_UpdateStatus_cases:
  "case jobs_UpdateStatus now u st started ended msg s of
     (Inl e, s') \<Rightarrow> jobs s' = jobs s
   | (Inr _, s') \<Rightarrow> jobs s' = update_where (\<lambda>j. ID j = u)
         (touch now (set_job_status st started ended msg)) (jobs s) \<and> has_id u (jobs s) \<and>
       st \<in> set job_statuses"
proof -
  let ?f = "set_job_status st started ended msg"
  have ok: "st \<in> set job_statuses"
    if "\<not> list_ex (\<lambda>j. ID j = u \<and> job_row_check t (touch now ?f j) \<noteq> None) js"
       "count_where (\<lambda>j. ID j = u) js \<noteq> 0" for t js
    using that by (auto simp: list_ex_iff job_row_check_def touch_def set_job_status_def
        split: if_splits)
  have "case db_update jobs jobs_update job_row_check now (\<lambda>j. ID j = u) ?f s of
     (Inl e, s') \<Rightarrow> jobs s' = jobs s
   | (Inr n, s') \<Rightarrow> jobs s' = (update_where (\<lambda>j. ID j = u) (touch now ?f) (jobs s)) \<and>
       n = count_where (\<lambda>j. ID j = u) (jobs s) \<and> (n \<noteq> 0 \<longrightarrow> st \<in> set job_statuses)"
    unfolding db_update_def by (rule sql_rule) (use ok in auto)
  moreover have "update_where (\<lambda>j. ID j = u) (touch now ?f) (jobs s) = jobs s"
    if "count_where (\<lambda>j. ID j = u) (jobs s) = 0"
    using that by (intro update_where_none) simp
  ultimately show ?thesis
    by (auto simp: jobs_UpdateStatus_def rows_affected_def has_id_def list_ex_iff
        split: prod.splits sum.splits)
qed

end
