(* ===== verification/ResourceRepositories.thy ===== *)
theory ResourceRepositories
  imports JobRepository
begin

text \<open>The repositories of agents (\<open>agent.go\<close>), destinations (\<open>destination.go\<close>), policies
(\<open>policy.go\<close>) and snapshots (\<open>snapshot.go\<close>).  Agents and policies are soft-deleted: every
query on them sees live rows only.\<close>

section \<open>Agents\<close>

definition agent_check :: "store \<Rightarrow> agent \<Rightarrow> dberr option" where
  "agent_check s a =
     (if ag_status a \<notin> {''online'', ''offline'', ''error''} then Some ErrDB else None)"

definition agent_defaults :: "agent \<Rightarrow> agent" where
  "agent_defaults a = a\<lparr>
     ag_status := (if ag_status a = [] then ''offline'' else ag_status a),
     ag_labels := (if ag_labels a = [] then ''{}'' else ag_labels a)\<rparr>"

definition agents_Create :: "time \<Rightarrow> agent \<Rightarrow> agent dbop" where
  "agents_Create now a = wrapped (db_create agents agents_update agent_check now (agent_defaults a))"

definition agents_GetByID :: "uuid \<Rightarrow> agent dbop" where
  "agents_GetByID u = db_first agents (\<lambda>a. ID a = u \<and> live a)"

definition agents_Update :: "time \<Rightarrow> agent \<Rightarrow> unit dbop" where
  "agents_Update now a =
     rows_affected (db_save agents agents_update live agent_defaults agent_check now a)"

definition agents_UpdateStatus :: "time \<Rightarrow> uuid \<Rightarrow> string \<Rightarrow> time \<Rightarrow> unit dbop" where
  "agents_UpdateStatus now u st seen =
     rows_affected (db_update agents agents_update agent_check now (\<lambda>a. ID a = u \<and> live a)
       (\<lambda>a. a\<lparr>ag_status := st, ag_last_seen_at := Some seen\<rparr>))"

definition agents_Delete :: "time \<Rightarrow> uuid \<Rightarrow> unit dbop" where
  "agents_Delete now u = rows_affected (db_soft_delete agents agents_update now (\<lambda>a. ID a = u))"

definition page_of ::
  "(store \<Rightarrow> 'r list) \<Rightarrow> ('r \<Rightarrow> bool) \<Rightarrow> ('r list \<Rightarrow> 'r list) \<Rightarrow> list_options \<Rightarrow> ('r list \<times> nat) dbop" where
  "page_of rows P order opts s =
     (case db_count rows P s of
        (Inl e, s1) \<Rightarrow> (Inl e, s1)
      | (Inr n, s1) \<Rightarrow>
          (case db_find rows P (sql_page (lo_limit opts) (lo_offset opts) \<circ> order) s1 of
             (Inl e, s2) \<Rightarrow> (Inl e, s2)
           | (Inr rs, s2) \<Rightarrow> (Inr (rs, n), s2)))"

definition count_or_zero :: "nat dbop \<Rightarrow> store \<Rightarrow> nat \<times> store" where
  "count_or_zero m s = (case m s of (Inl e, s1) \<Rightarrow> (0, s1) | (Inr n, s1) \<Rightarrow> (n, s1))"

definition agents_List :: "list_options \<Rightarrow> (agent list \<times> nat) dbop" where
  "agents_List = page_of agents live (sort_key CreatedAt)"

definition agents_TotalCount :: "store \<Rightarrow> nat \<times> store" where
  "agents_TotalCount = count_or_zero (db_count agents live)"

definition agents_GetByHostname :: "string \<Rightarrow> agent dbop" where
  "agents_GetByHostname h = db_first agents (\<lambda>a. ag_hostname a = h \<and> live a)"

section \<open>Destinations\<close>

definition destination_check :: "store \<Rightarrow> destination \<Rightarrow> dberr option" where
  "destination_check s d =
     (if dst_type d \<notin> {''local'', ''s3'', ''sftp'', ''rest'', ''rclone''} then Some ErrDB else None)"

definition destination_defaults :: "destination \<Rightarrow> destination" where
  "destination_defaults d = d\<lparr>
     dst_config := (if dst_config d = [] then ''{}'' else dst_config d),
     dst_enabled := True\<rparr>"

definition destination_in_use :: "store \<Rightarrow> destination \<Rightarrow> bool" where
  "destination_in_use s d =
     (list_ex (\<lambda>p. pd_destination_id p = ID d) (policy_destinations s) \<or>
      list_ex (\<lambda>j. jd_destination_id j = ID d) (job_destinations s) \<or>
      list_ex (\<lambda>n. snap_destination_id n = ID d) (snapshots s))"

definition destinations_Create :: "time \<Rightarrow> destination \<Rightarrow> destination dbop" where
  "destinations_Create now d =
     wrapped (db_create destinations destinations_update destination_check now
       (destination_defaults d))"

definition destinations_GetByID :: "uuid \<Rightarrow> destination dbop" where
  "destinations_GetByID u = db_first destinations (\<lambda>d. ID d = u)"

definition destinations_Update :: "time \<Rightarrow> destination \<Rightarrow> unit dbop" where
  "destinations_Update now d =
     rows_affected (db_save destinations destinations_update (\<lambda>_. True) destination_defaults
       destination_check now d)"

definition destinations_Delete :: "uuid \<Rightarrow> unit dbop" where
  "destinations_Delete u =
     rows_affected (db_delete destinations destinations_update destination_in_use no_cascade
       (\<lambda>d. ID d = u))"

definition destinations_List :: "list_options \<Rightarrow> (destination list \<times> nat) dbop" where
  "destinations_List = page_of destinations (\<lambda>_. True) (sort_key CreatedAt)"

section \<open>Policies\<close>

definition policy_check :: "store \<Rightarrow> policy \<Rightarrow> dberr option" where
  "policy_check s p = (if fk_on s \<and> \<not> has_id (pol_agent_id p) (agents s) then Some ErrDB else None)"

text \<open>The zero value of every column with a default is replaced on insertion, a retention of 0 and
\<open>Enabled = false\<close> included.\<close>

definition policy_defaults :: "policy \<Rightarrow> policy" where
  "policy_defaults p = p\<lparr>
     pol_enabled := True,
     pol_retention_daily := (if pol_retention_daily p = 0 then 7 else pol_retention_daily p),
     pol_retention_weekly := (if pol_retention_weekly p = 0 then 4 else pol_retention_weekly p),
     pol_retention_monthly := (if pol_retention_monthly p = 0 then 6 else pol_retention_monthly p),
     pol_retention_yearly := (if pol_retention_yearly p = 0 then 1 else pol_retention_yearly p)\<rparr>"

definition policy_destination_check :: "store \<Rightarrow> policy_destination \<Rightarrow> dberr option" where
  "policy_destination_check s d =
     (if fk_on s \<and> \<not> (has_id (pd_policy_id d) (policies s) \<and>
                      has_id (pd_destination_id d) (destinations s))
      then Some ErrDB else None)"

definition policies_Create :: "time \<Rightarrow> policy \<Rightarrow> policy dbop" where
  "policies_Create now p =
     wrapped (db_create policies policies_update policy_check now (policy_defaults p))"

definition policies_GetByID :: "uuid \<Rightarrow> policy dbop" where
  "policies_GetByID u = db_first policies (\<lambda>p. ID p = u \<and> live p)"

definition policies_GetByIDWithDestinations ::
  "uuid \<Rightarrow> (policy \<times> policy_destination list) dbop" where
  "policies_GetByIDWithDestinations u s =
     (case db_first policies (\<lambda>p. ID p = u \<and> live p) s of
        (Inl e, s1) \<Rightarrow> (Inl e, s1)
      | (Inr p, s1) \<Rightarrow>
          (case db_find policy_destinations (\<lambda>d. pd_policy_id d = u) (sort_key pd_priority) s1 of
             (Inl e, s2) \<Rightarrow> (Inl ErrDB, s2)
           | (Inr ds, s2) \<Rightarrow> (Inr (p, ds), s2)))"

definition policies_Update :: "time \<Rightarrow> policy \<Rightarrow> unit dbop" where
  "policies_Update now p =
     rows_affected (db_save policies policies_update live policy_defaults policy_check now p)"

definition policies_Delete :: "time \<Rightarrow> uuid \<Rightarrow> unit dbop" where
  "policies_Delete now u =
     rows_affected (db_soft_delete policies policies_update now (\<lambda>p. ID p = u))"

definition policies_List :: "list_options \<Rightarrow> (policy list \<times> nat) dbop" where
  "policies_List = page_of policies live (sort_key CreatedAt)"

definition policies_ListByAgent :: "uuid \<Rightarrow> policy list dbop" where
  "policies_ListByAgent a =
     db_find policies (\<lambda>p. pol_agent_id p = a \<and> live p) (sort_key CreatedAt)"

definition policies_ActiveCount :: "store \<Rightarrow> nat \<times> store" where
  "policies_ActiveCount = count_or_zero (db_count policies (\<lambda>p. pol_enabled p \<and> live p))"

definition policies_ListEnabled :: "policy list dbop" where
  "policies_ListEnabled = db_find policies (\<lambda>p. pol_enabled p \<and> live p) (sort_key CreatedAt)"

definition policies_UpdateSchedule :: "time \<Rightarrow> uuid \<Rightarrow> time \<Rightarrow> time \<Rightarrow> unit dbop" where
  "policies_UpdateSchedule now u lst nxt =
     rows_affected (db_update policies policies_update no_check now
       (\<lambda>p. ID p = u \<and> live p)
       (\<lambda>p. p\<lparr>pol_last_run_at := Some lst, pol_next_run_at := Some nxt\<rparr>))"

definition policies_AddDestination :: "time \<Rightarrow> policy_destination \<Rightarrow> policy_destination dbop" where
  "policies_AddDestination now d =
     wrapped (db_create policy_destinations policy_destinations_update policy_destination_check
       now d)"

definition policies_RemoveDestination :: "uuid \<Rightarrow> uuid \<Rightarrow> unit dbop" where
  "policies_RemoveDestination p d =
     rows_affected (db_delete policy_destinations policy_destinations_update no_restrict no_cascade
       (\<lambda>x. pd_policy_id x = p \<and> pd_destination_id x = d))"

definition policies_UpdateDestinationPriority :: "time \<Rightarrow> uuid \<Rightarrow> uuid \<Rightarrow> int \<Rightarrow> unit dbop" where
  "policies_UpdateDestinationPriority now p d prio =
     rows_affected (db_update policy_destinations policy_destinations_update no_check now
       (\<lambda>x. pd_policy_id x = p \<and> pd_destination_id x = d)
       (\<lambda>x. x\<lparr>pd_priority := prio\<rparr>))"

section \<open>Snapshots\<close>

definition snapshot_check :: "store \<Rightarrow> snapshot \<Rightarrow> dberr option" where
  "snapshot_check s n =
     (if fk_on s \<and> \<not> (has_id (snap_policy_id n) (policies s) \<and>
          has_id (snap_destination_id n) (destinations s) \<and> has_id (snap_job_id n) (jobs s))
      then Some ErrDB else None)"

definition snapshot_defaults :: "snapshot \<Rightarrow> snapshot" where
  "snapshot_defaults n = n\<lparr>snap_tags := (if snap_tags n = [] then ''[]'' else snap_tags n)\<rparr>"

record snapshot_with_names =
  swn_snapshot :: snapshot
  swn_policy_name :: string
  swn_destination_name :: string

definition snapshots_Create :: "time \<Rightarrow> snapshot \<Rightarrow> snapshot dbop" where
  "snapshots_Create now n =
     wrapped (db_create snapshots snapshots_update snapshot_check now (snapshot_defaults n))"

definition snapshots_GetByID :: "uuid \<Rightarrow> snapshot dbop" where
  "snapshots_GetByID u = db_first snapshots (\<lambda>n. ID n = u)"

definition snapshots_Delete :: "uuid \<Rightarrow> unit dbop" where
  "snapshots_Delete u =
     rows_affected (db_delete snapshots snapshots_update no_restrict no_cascade (\<lambda>n. ID n = u))"

definition listWithNames :: "store \<Rightarrow> snapshot \<Rightarrow> snapshot_with_names" where
  "listWithNames s n = \<lparr>swn_snapshot = n,
     swn_policy_name = joined_name pol_name (\<lambda>p. ID p = snap_policy_id n) (policies s),
     swn_destination_name =
       joined_name dst_name (\<lambda>d. ID d = snap_destination_id n) (destinations s)\<rparr>"

definition snapshots_listing ::
  "(snapshot \<Rightarrow> bool) \<Rightarrow> list_options \<Rightarrow> (snapshot_with_names list \<times> nat) dbop" where
  "snapshots_listing P opts s =
     (case db_count snapshots P s of
        (Inl e, s1) \<Rightarrow> (Inl e, s1)
      | (Inr n, s1) \<Rightarrow>
          (case sql (\<lambda>s. (Inr (map (listWithNames s) (sql_page (lo_limit opts) (lo_offset opts)
                         (sort_key (\<lambda>r. - snap_at r) (filter P (snapshots s))))), s)) s1 of
             (Inl e, s2) \<Rightarrow> (Inl e, s2)
           | (Inr rs, s2) \<Rightarrow> (Inr (rs, n), s2)))"

definition snapshots_List :: "list_options \<Rightarrow> (snapshot_with_names list \<times> nat) dbop" where
  "snapshots_List = snapshots_listing (\<lambda>_. True)"

definition snapshots_ListByPolicy ::
  "uuid \<Rightarrow> list_options \<Rightarrow> (snapshot_with_names list \<times> nat) dbop" where
  "snapshots_ListByPolicy u = snapshots_listing (\<lambda>n. snap_policy_id n = u)"

definition snapshots_ListByDestination ::
  "uuid \<Rightarrow> list_options \<Rightarrow> (snapshot_with_names list \<times> nat) dbop" where
  "snapshots_ListByDestination u = snapshots_listing (\<lambda>n. snap_destination_id n = u)"

definition snapshots_DeleteBySnapshotID :: "string \<Rightarrow> unit dbop" where
  "snapshots_DeleteBySnapshotID i =
     rows_affected (db_delete snapshots snapshots_update no_restrict no_cascade
       (\<lambda>n. snap_snapshot_id n = i))"

end
