(* ===== verification/AccountRepositories.thy ===== *)
theory AccountRepositories
  imports ResourceRepositories
begin

text \<open>The repositories of users and refresh tokens (\<open>user.go\<close>), identity providers
(\<open>oidc_provider.go\<close>), notifications and their deliveries (\<open>notification.go\<close>), settings
(\<open>settings.go\<close>) and the audit log (\<open>audit.go\<close>).\<close>

section \<open>Users\<close>

definition user_check :: "store \<Rightarrow> user \<Rightarrow> dberr option" where
  "user_check s u =
     (if usr_role u \<notin> {''admin'', ''user''} then Some ErrDB
      else if list_ex (\<lambda>v. usr_email v = usr_email u \<and> ID v \<noteq> ID u) (users s)
      then Some ErrConflict else None)"

definition user_defaults :: "user \<Rightarrow> user" where
  "user_defaults u = u\<lparr>
     usr_role := (if usr_role u = [] then ''user'' else usr_role u),
     usr_is_active := True\<rparr>"

definition users_Create :: "time \<Rightarrow> user \<Rightarrow> user dbop" where
  "users_Create now u s =
     (case db_create users users_update user_check now (user_defaults u) s of
        (Inl e, s1) \<Rightarrow> (Inl (if e = ErrConflict \<and> unique_msg s1 then ErrConflict else ErrDB), s1)
      | (Inr v, s1) \<Rightarrow> (Inr v, s1))"

definition users_GetByID :: "uuid \<Rightarrow> user dbop" where
  "users_GetByID i = db_first users (\<lambda>u. ID u = i)"

definition users_GetByEmail :: "string \<Rightarrow> user dbop" where
  "users_GetByEmail email = db_first users (\<lambda>u. usr_email u = email)"

definition users_GetByOIDC :: "string \<Rightarrow> string \<Rightarrow> user dbop" where
  "users_GetByOIDC provider sub =
     db_first users (\<lambda>u. usr_oidc_provider u = provider \<and> usr_oidc_sub u = sub)"

definition users_Update :: "time \<Rightarrow> user \<Rightarrow> unit dbop" where
  "users_Update now u =
     rows_affected (db_save users users_update (\<lambda>_. True) user_defaults user_check now u)"

text \<open>Deleting a user takes the sessions, the notifications and their deliveries with it.\<close>

definition user_cascade :: "user list \<Rightarrow> store \<Rightarrow> store" where
  "user_cascade gone s =
     (let dead = filter (\<lambda>n. has_id (ntf_user_id n) gone) (notifications s) in
      s\<lparr>refresh_tokens := delete_where (\<lambda>t. has_id (rt_user_id t) gone) (refresh_tokens s),
        notifications := delete_where (\<lambda>n. has_id (ntf_user_id n) gone) (notifications s),
        deliveries := delete_where (\<lambda>d. has_id (ndl_notification_id d) dead) (deliveries s)\<rparr>)"

definition users_Delete :: "uuid \<Rightarrow> unit dbop" where
  "users_Delete i =
     rows_affected (db_delete users users_update no_restrict user_cascade (\<lambda>u. ID u = i))"

definition users_List :: "list_options \<Rightarrow> (user list \<times> nat) dbop" where
  "users_List = page_of users (\<lambda>_. True) (sort_key CreatedAt)"

section \<open>Refresh tokens\<close>

definition token_check :: "store \<Rightarrow> refresh_token \<Rightarrow> dberr option" where
  "token_check s t =
     (if list_ex (\<lambda>r. rt_token_hash r = rt_token_hash t \<and> ID r \<noteq> ID t) (refresh_tokens s)
      then Some ErrConflict
      else if fk_on s \<and> \<not> has_id (rt_user_id t) (users s) then Some ErrDB else None)"

definition tokens_Create :: "time \<Rightarrow> refresh_token \<Rightarrow> refresh_token dbop" where
  "tokens_Create now t = wrapped (db_create refresh_tokens refresh_tokens_update token_check now t)"

definition tokens_GetByHash :: "string \<Rightarrow> refresh_token dbop" where
  "tokens_GetByHash h = db_first refresh_tokens (\<lambda>t. rt_token_hash t = h)"

definition tokens_Revoke :: "time \<Rightarrow> uuid \<Rightarrow> unit dbop" where
  "tokens_Revoke now i =
     rows_affected (db_update refresh_tokens refresh_tokens_update no_check now
       (\<lambda>t. ID t = i) (\<lambda>t. t\<lparr>rt_revoked_at := Some now\<rparr>))"

definition tokens_RevokeAllForUser :: "time \<Rightarrow> uuid \<Rightarrow> unit dbop" where
  "tokens_RevokeAllForUser now u =
     ignoring_rows (db_update refresh_tokens refresh_tokens_update no_check now
       (\<lambda>t. rt_user_id t = u \<and> rt_revoked_at t = None) (\<lambda>t. t\<lparr>rt_revoked_at := Some now\<rparr>))"

definition tokens_DeleteExpired :: "time \<Rightarrow> unit dbop" where
  "tokens_DeleteExpired now =
     ignoring_rows (db_delete refresh_tokens refresh_tokens_update no_restrict no_cascade
       (\<lambda>t. rt_expires_at t < now))"

definition tokens_DeleteByHash :: "string \<Rightarrow> unit dbop" where
  "tokens_DeleteByHash h =
     ignoring_rows (db_delete refresh_tokens refresh_tokens_update no_restrict no_cascade
       (\<lambda>t. rt_token_hash t = h))"

section \<open>Identity providers\<close>

definition oidc_defaults :: "oidc_provider \<Rightarrow> oidc_provider" where
  "oidc_defaults p = p\<lparr>
     op_scopes := (if op_scopes p = [] then ''openid email profile'' else op_scopes p)\<rparr>"

definition oidc_Create :: "time \<Rightarrow> oidc_provider \<Rightarrow> oidc_provider dbop" where
  "oidc_Create now p =
     wrapped (db_create oidc_providers oidc_providers_update no_check now (oidc_defaults p))"

definition oidc_GetByID :: "uuid \<Rightarrow> oidc_provider dbop" where
  "oidc_GetByID i = db_first oidc_providers (\<lambda>p. ID p = i)"

definition oidc_List :: "oidc_provider list dbop" where
  "oidc_List = db_find oidc_providers (\<lambda>_. True) (sort_key CreatedAt)"

definition oidc_ListEnabled :: "oidc_provider list dbop" where
  "oidc_ListEnabled = db_find oidc_providers op_enabled (sort_key CreatedAt)"

definition oidc_Update :: "time \<Rightarrow> oidc_provider \<Rightarrow> unit dbop" where
  "oidc_Update now p =
     rows_affected (db_save oidc_providers oidc_providers_update (\<lambda>_. True) oidc_defaults no_check
       now p)"

definition oidc_Delete :: "uuid \<Rightarrow> unit dbop" where
  "oidc_Delete i =
     rows_affected (db_delete oidc_providers oidc_providers_update no_restrict no_cascade
       (\<lambda>p. ID p = i))"

section \<open>Notifications\<close>

definition notif_check :: "store \<Rightarrow> notif \<Rightarrow> dberr option" where
  "notif_check s n = (if fk_on s \<and> \<not> has_id (ntf_user_id n) (users s) then Some ErrDB else None)"

definition notif_defaults :: "notif \<Rightarrow> notif" where
  "notif_defaults n = n\<lparr>ntf_payload := (if ntf_payload n = [] then ''{}'' else ntf_payload n)\<rparr>"

definition delivery_check :: "store \<Rightarrow> delivery \<Rightarrow> dberr option" where
  "delivery_check s d =
     (if ndl_type d \<notin> {''email'', ''webhook''} \<or> ndl_status d \<notin> {''pending'', ''sent'', ''exhausted''}
      then Some ErrDB
      else if fk_on s \<and> \<not> has_id (ndl_notification_id d) (notifications s) then Some ErrDB
      else None)"

definition delivery_defaults :: "delivery \<Rightarrow> delivery" where
  "delivery_defaults d = d\<lparr>
     ndl_status := (if ndl_status d = [] then ''pending'' else ndl_status d)\<rparr>"

definition notif_cascade :: "notif list \<Rightarrow> store \<Rightarrow> store" where
  "notif_cascade gone s =
     s\<lparr>deliveries := delete_where (\<lambda>d. has_id (ndl_notification_id d) gone) (deliveries s)\<rparr>"

definition notif_Create :: "time \<Rightarrow> notif \<Rightarrow> notif dbop" where
  "notif_Create now n =
     wrapped (db_create notifications notifications_update notif_check now (notif_defaults n))"

definition notif_GetByID :: "uuid \<Rightarrow> notif dbop" where
  "notif_GetByID i = db_first notifications (\<lambda>n. ID n = i)"

definition notif_MarkAsRead :: "time \<Rightarrow> uuid \<Rightarrow> unit dbop" where
  "notif_MarkAsRead now i =
     rows_affected (db_update notifications notifications_update no_check now
       (\<lambda>n. ID n = i \<and> ntf_read_at n = None) (\<lambda>n. n\<lparr>ntf_read_at := Some now\<rparr>))"

definition notif_MarkAllAsRead :: "time \<Rightarrow> uuid \<Rightarrow> unit dbop" where
  "notif_MarkAllAsRead now u =
     ignoring_rows (db_update notifications notifications_update no_check now
       (\<lambda>n. ntf_user_id n = u \<and> ntf_read_at n = None) (\<lambda>n. n\<lparr>ntf_read_at := Some now\<rparr>))"

definition notif_Delete :: "uuid \<Rightarrow> unit dbop" where
  "notif_Delete i =
     rows_affected (db_delete notifications notifications_update no_restrict notif_cascade
       (\<lambda>n. ID n = i))"

definition notif_ListByUser :: "uuid \<Rightarrow> list_options \<Rightarrow> (notif list \<times> nat) dbop" where
  "notif_ListByUser u =
     page_of notifications (\<lambda>n. ntf_user_id n = u) (sort_key (\<lambda>n. - CreatedAt n))"

definition notif_DeleteReadOlderThan :: "time \<Rightarrow> unit dbop" where
  "notif_DeleteReadOlderThan t =
     ignoring_rows (db_delete notifications notifications_update no_restrict notif_cascade
       (\<lambda>n. case ntf_read_at n of None \<Rightarrow> False | Some r \<Rightarrow> r < t))"

definition notif_CreateDelivery :: "time \<Rightarrow> delivery \<Rightarrow> delivery dbop" where
  "notif_CreateDelivery now d =
     wrapped (db_create deliveries deliveries_update delivery_check now (delivery_defaults d))"

definition notif_UpdateDelivery :: "time \<Rightarrow> delivery \<Rightarrow> unit dbop" where
  "notif_UpdateDelivery now d =
     ignoring_rows (db_save deliveries deliveries_update (\<lambda>_. True) delivery_defaults delivery_check
       now d)"

definition delivery_due :: "time \<Rightarrow> delivery \<Rightarrow> bool" where
  "delivery_due before d =
     (ndl_status d = ''pending'' \<and>
      (case ndl_next_retry_at d of None \<Rightarrow> True | Some t \<Rightarrow> t \<le> before))"

definition notif_ListPendingDeliveries :: "time \<Rightarrow> int \<Rightarrow> delivery list dbop" where
  "notif_ListPendingDeliveries before limit =
     db_find deliveries (delivery_due before) (sql_page limit 0 \<circ> sort_key CreatedAt)"

definition notif_ListDeliveriesByStatus :: "string \<Rightarrow> list_options \<Rightarrow> (delivery list \<times> nat) dbop" where
  "notif_ListDeliveriesByStatus st =
     page_of deliveries (\<lambda>d. ndl_status d = st) (sort_key (\<lambda>d. - CreatedAt d))"

section \<open>Settings\<close>

definition settings_Get :: "string \<Rightarrow> setting dbop" where
  "settings_Get k =
     sql (\<lambda>s. case find (\<lambda>x. set_key x = k) (settings s) of
                None \<Rightarrow> (Inl ErrNotFound, s) | Some x \<Rightarrow> (Inr x, s))"

definition settings_Set :: "time \<Rightarrow> string \<Rightarrow> string \<Rightarrow> unit dbop" where
  "settings_Set now k v s =
     (let x = \<lparr>set_key = k, set_value = v, set_updated_at = now\<rparr> in
      case sql (\<lambda>s. (Inr (count_where (\<lambda>y. set_key y = k) (settings s)),
               s\<lparr>settings := update_where (\<lambda>y. set_key y = k) (\<lambda>_. x) (settings s)\<rparr>)) s of
        (Inl e, s1) \<Rightarrow> (Inl e, s1)
      | (Inr n, s1) \<Rightarrow>
          if 0 < n then (Inr (), s1)
          else sql (\<lambda>s. (Inr (), s\<lparr>settings := settings s @ [x]\<rparr>)) s1)"

definition settings_GetMany :: "string \<Rightarrow> setting list dbop" where
  "settings_GetMany prefix = db_find settings (\<lambda>x. starts_with prefix (set_key x)) id"

definition settings_Delete :: "string \<Rightarrow> unit dbop" where
  "settings_Delete k =
     ignoring_rows (db_delete settings settings_update no_restrict no_cascade (\<lambda>x. set_key x = k))"

section \<open>Audit log\<close>

record audit_filter =
  af_user_id :: "uuid option"
  af_action :: string
  af_resource_type :: string
  af_from :: "time option"
  af_to :: "time option"

definition audit_Create :: "time \<Rightarrow> audit_log \<Rightarrow> audit_log dbop" where
  "audit_Create now e s =
     (case (if aud_id e = nil_uuid
            then (case ids s of [] \<Rightarrow> (None, s) | u # us \<Rightarrow> (Some u, s\<lparr>ids := us\<rparr>))
            else (Some (aud_id e), s)) of
        (None, s1) \<Rightarrow> (Inl ErrDB, s1)
      | (Some u, s1) \<Rightarrow>
          sql (\<lambda>s2.
            if list_ex (\<lambda>x. aud_id x = u) (audit_logs s2) then (Inl ErrDB, s2)
            else (let e' = e\<lparr>aud_id := u,
                     aud_created_at := (if aud_created_at e = zero_time then now else aud_created_at e),
                     aud_details := (if aud_details e = [] then ''{}'' else aud_details e)\<rparr> in
                  (Inr e', s2\<lparr>audit_logs := audit_logs s2 @ [e']\<rparr>))) s1)"

definition audit_matches :: "audit_filter \<Rightarrow> audit_log \<Rightarrow> bool" where
  "audit_matches f e =
     ((case af_user_id f of None \<Rightarrow> True | Some u \<Rightarrow> aud_user_id e = u) \<and>
      starts_with (af_action f) (aud_action e) \<and>
      (af_resource_type f = [] \<or> aud_resource_type e = af_resource_type f) \<and>
      (case af_from f of None \<Rightarrow> True | Some t \<Rightarrow> t \<le> aud_created_at e) \<and>
      (case af_to f of None \<Rightarrow> True | Some t \<Rightarrow> aud_created_at e \<le> t))"

definition audit_List :: "audit_filter \<Rightarrow> list_options \<Rightarrow> (audit_log list \<times> nat) dbop" where
  "audit_List f = page_of audit_logs (audit_matches f) (sort_key (\<lambda>e. - aud_created_at e))"

end
