(* ===== verification/Scheduler.thy ===== *)
theory Scheduler
  imports AgentManager DestUtil AccountRepositories
begin

text \<open>\<open>server/internal/scheduler/scheduler.go\<close>: policies become gocron jobs, a tick or a manual
trigger becomes a job row with its destination rows, and a job becomes an assignment with the
full backup payload on the agent's stream.  gocron is the list of the registered entries and the
predicate \<open>cron_ok\<close>, whether \<open>NewJob\<close> accepts a schedule; every clock reading of a call is its
argument \<open>now\<close>.\<close>

section \<open>The payload\<close>

record destinationPayload =
  dp_destination_id :: string
  dp_type :: string
  dp_repo_url :: string
  dp_credentials :: string
  dp_config :: string
  dp_env :: "(string \<times> string) list"
  dp_priority :: int

record retentionPayload =
  rp_daily :: int
  rp_weekly :: int
  rp_monthly :: int
  rp_yearly :: int

record backupPayload =
  bp_sources :: string
  bp_repo_password :: string
  bp_destinations :: "destinationPayload list"
  bp_retention :: retentionPayload
  bp_hook_pre :: string
  bp_hook_post :: string
  bp_tags :: "string list"

definition dest_json :: "destinationPayload \<Rightarrow> json" where
  "dest_json d = JObj
     [(''destination_id'', JStr (dp_destination_id d)), (''type'', JStr (dp_type d)),
      (''repo_url'', JStr (dp_repo_url d)), (''credentials'', JStr (dp_credentials d)),
      (''config'', JStr (dp_config d)), (''env'', jmap (dp_env d)),
      (''priority'', jint (dp_priority d))]"

definition retention_json :: "retentionPayload \<Rightarrow> json" where
  "retention_json r = JObj
     [(''daily'', jint (rp_daily r)), (''weekly'', jint (rp_weekly r)),
      (''monthly'', jint (rp_monthly r)), (''yearly'', jint (rp_yearly r))]"

definition payload_json :: "backupPayload \<Rightarrow> json" where
  "payload_json p = JObj
     [(''sources'', JStr (bp_sources p)), (''repo_password'', JStr (bp_repo_password p)),
      (''destinations'', JArr (map dest_json (bp_destinations p))),
      (''retention'', retention_json (bp_retention p)),
      (''hook_pre_backup'', JStr (bp_hook_pre p)), (''hook_post_backup'', JStr (bp_hook_post p)),
      (''tags'', JArr (map JStr (bp_tags p)))]"

definition dec_source :: "(string \<times> json) list \<Rightarrow> (string \<times> string) option" where
  "dec_source kvs =
     (case (json_field dec_string ''type'' [] kvs, json_field dec_string ''path'' [] kvs) of
        (Some t, Some p) \<Rightarrow> Some (t, p) | _ \<Rightarrow> None)"

definition source_path :: "string \<times> string \<Rightarrow> string" where
  "source_path tp = (if fst tp = ''docker-volume'' then ''docker-volume://'' @ snd tp else snd tp)"

definition buildSourcesList :: "string \<Rightarrow> string option" where
  "buildSourcesList sourcesJSON =
     (case json_parse sourcesJSON of
        None \<Rightarrow> None
      | Some v \<Rightarrow>
          (case dec_list (dec_struct dec_source) ([], []) v [] of
             None \<Rightarrow> None
           | Some srcs \<Rightarrow> Some (json_text (JArr (map (JStr \<circ> source_path) srcs)))))"

section \<open>Dispatch\<close>

datatype sched_error = ErrPolicyDisabled | ErrStore dberr | ErrSources | ErrDispatch mgr_error

text \<open>The loop that loads the destinations: one that cannot be loaded is skipped.\<close>

fun load_destinations :: "policy_destination list \<Rightarrow> store \<Rightarrow> destinationPayload list \<times> store" where
  "load_destinations [] s = ([], s)"
| "load_destinations (pd # pds) s =
     (case destinations_GetByID (pd_destination_id pd) s of
        (Inl e, s1) \<Rightarrow> load_destinations pds s1
      | (Inr d, s1) \<Rightarrow>
          (case load_destinations pds s1 of
             (ps, s2) \<Rightarrow>
               (\<lparr>dp_destination_id = ID d, dp_type = dst_type d, dp_repo_url = BuildRepoURL d,
                 dp_credentials = dst_credentials d, dp_config = dst_config d,
                 dp_env = BuildEnv d, dp_priority = pd_priority pd\<rparr> # ps, s2)))"

definition policy_payload :: "policy \<Rightarrow> string \<Rightarrow> destinationPayload list \<Rightarrow> backupPayload" where
  "policy_payload p sources ds = \<lparr>
     bp_sources = sources, bp_repo_password = pol_repo_password p, bp_destinations = ds,
     bp_retention = \<lparr>rp_daily = pol_retention_daily p, rp_weekly = pol_retention_weekly p,
        rp_monthly = pol_retention_monthly p, rp_yearly = pol_retention_yearly p\<rparr>,
     bp_hook_pre = pol_hook_pre p, bp_hook_post = pol_hook_post p,
     bp_tags = [''policy:'' @ ID p]\<rparr>"

definition dispatch ::
  "(nat \<Rightarrow> assignment \<Rightarrow> bool) \<Rightarrow> time \<Rightarrow> job \<Rightarrow> policy \<Rightarrow> policy_destination list \<Rightarrow>
   store \<times> manager \<Rightarrow> (sched_error + unit) \<times> (store \<times> manager)" where
  "dispatch send_ok now j p pds sm =
     (case load_destinations pds (fst sm) of
        (ds, s1) \<Rightarrow>
          (case buildSourcesList (pol_sources p) of
             None \<Rightarrow> (Inl ErrSources, (s1, snd sm))
           | Some sources \<Rightarrow>
               (case mgr_Dispatch send_ok (job_agent_id j)
                       \<lparr>as_job_id = ID j, as_policy_id = job_policy_id j, as_type = KindBackup,
                        as_payload = json_text (payload_json (policy_payload p sources ds)),
                        as_scheduled_at = now\<rparr> (snd sm) of
                  (Inl e, m1) \<Rightarrow> (Inl (ErrDispatch e), (s1, m1))
                | (Inr _, m1) \<Rightarrow> (Inr (), (s1, m1)))))"

section \<open>Running a policy\<close>

definition new_job :: "policy \<Rightarrow> job" where
  "new_job p = \<lparr>ID = nil_uuid, CreatedAt = zero_time, UpdatedAt = zero_time,
     job_policy_id = ID p, job_agent_id = pol_agent_id p, job_type = [], job_status = ''pending'',
     job_started_at = None, job_ended_at = None, job_error = []\<rparr>"

definition new_job_destination :: "uuid \<Rightarrow> policy_destination \<Rightarrow> job_destination" where
  "new_job_destination jobID pd = \<lparr>ID = nil_uuid, CreatedAt = zero_time, UpdatedAt = zero_time,
     jd_job_id = jobID, jd_destination_id = pd_destination_id pd, jd_status = ''pending'',
     jd_snapshot_id = [], jd_size_bytes = 0, jd_started_at = None, jd_ended_at = None,
     jd_error = []\<rparr>"

fun create_job_destinations :: "time \<Rightarrow> uuid \<Rightarrow> policy_destination list \<Rightarrow> store \<Rightarrow> store" where
  "create_job_destinations now jobID [] s = s"
| "create_job_destinations now jobID (pd # pds) s =
     create_job_destinations now jobID pds
       (snd (jobs_CreateDestination now (new_job_destination jobID pd) s))"

definition runJob ::
  "(nat \<Rightarrow> assignment \<Rightarrow> bool) \<Rightarrow> time \<Rightarrow> policy \<Rightarrow> policy_destination list \<Rightarrow>
   store \<times> manager \<Rightarrow> (sched_error + job) \<times> (store \<times> manager)" where
  "runJob send_ok now p pds sm =
     (if \<not> pol_enabled p then (Inl ErrPolicyDisabled, sm)
      else (case jobs_Create now (new_job p) (fst sm) of
              (Inl e, s1) \<Rightarrow> (Inl (ErrStore e), (s1, snd sm))
            | (Inr j, s1) \<Rightarrow>
                (let s2 = create_job_destinations now (ID j) pds s1;
                     s3 = snd (policies_UpdateSchedule now (ID p) now now s2) in
                 (Inr j, snd (dispatch send_ok now j p pds (s3, snd sm))))))"

definition TriggerNow ::
  "(nat \<Rightarrow> assignment \<Rightarrow> bool) \<Rightarrow> time \<Rightarrow> uuid \<Rightarrow> store \<times> manager \<Rightarrow>
   (sched_error + job) \<times> (store \<times> manager)" where
  "TriggerNow send_ok now policyID sm =
     (case policies_GetByIDWithDestinations policyID (fst sm) of
        (Inl e, s1) \<Rightarrow> (Inl (ErrStore e), (s1, snd sm))
      | (Inr (p, pds), s1) \<Rightarrow> runJob send_ok now p pds (s1, snd sm))"

text \<open>The task gocron runs at a tick, with the policy captured when it was scheduled.\<close>

definition tick ::
  "(nat \<Rightarrow> assignment \<Rightarrow> bool) \<Rightarrow> time \<Rightarrow> policy \<Rightarrow> store \<times> manager \<Rightarrow> store \<times> manager" where
  "tick send_ok now p sm =
     (case policies_GetByIDWithDestinations (ID p) (fst sm) of
        (Inl e, s1) \<Rightarrow> (s1, snd sm)
      | (Inr (_, pds), s1) \<Rightarrow> snd (runJob send_ok now p pds (s1, snd sm)))"

fun dispatch_jobs ::
  "(nat \<Rightarrow> assignment \<Rightarrow> bool) \<Rightarrow> time \<Rightarrow> job list \<Rightarrow> store \<times> manager \<Rightarrow> store \<times> manager" where
  "dispatch_jobs send_ok now [] sm = sm"
| "dispatch_jobs send_ok now (j # js) sm =
     (if job_status j \<noteq> ''pending'' then dispatch_jobs send_ok now js sm
      else (case policies_GetByIDWithDestinations (job_policy_id j) (fst sm) of
              (Inl e, s1) \<Rightarrow> dispatch_jobs send_ok now js (s1, snd sm)
            | (Inr (p, pds), s1) \<Rightarrow>
                dispatch_jobs send_ok now js (snd (dispatch send_ok now j p pds (s1, snd sm)))))"

definition DispatchPending ::
  "(nat \<Rightarrow> assignment \<Rightarrow> bool) \<Rightarrow> time \<Rightarrow> uuid \<Rightarrow> store \<times> manager \<Rightarrow> store \<times> manager" where
  "DispatchPending send_ok now agentID sm =
     (case jobs_ListByAgent agentID \<lparr>lo_limit = 100, lo_offset = 0\<rparr> (fst sm) of
        (Inl e, s1) \<Rightarrow> (s1, snd sm)
      | (Inr (rows, _), s1) \<Rightarrow>
          dispatch_jobs send_ok now (map jwn_job rows) (s1, snd sm))"

section \<open>The cron table\<close>

record scheduler =
  sch_cron :: "policy list"
  sch_running :: bool

definition addJob :: "(string \<Rightarrow> bool) \<Rightarrow> policy \<Rightarrow> scheduler \<Rightarrow> bool \<times> scheduler" where
  "addJob cron_ok p c =
     (if cron_ok (pol_schedule p) then (True, c\<lparr>sch_cron := sch_cron c @ [p]\<rparr>) else (False, c))"

definition AddPolicy :: "(string \<Rightarrow> bool) \<Rightarrow> policy \<Rightarrow> scheduler \<Rightarrow> bool \<times> scheduler" where
  "AddPolicy cron_ok p c = addJob cron_ok p c"

definition RemovePolicy :: "uuid \<Rightarrow> scheduler \<Rightarrow> scheduler" where
  "RemovePolicy u c = c\<lparr>sch_cron := filter (\<lambda>p. ID p \<noteq> u) (sch_cron c)\<rparr>"

definition UpdatePolicy :: "(string \<Rightarrow> bool) \<Rightarrow> policy \<Rightarrow> scheduler \<Rightarrow> bool \<times> scheduler" where
  "UpdatePolicy cron_ok p c =
     (let c' = RemovePolicy (ID p) c in
      if \<not> pol_enabled p then (True, c') else AddPolicy cron_ok p c')"

definition Start :: "(string \<Rightarrow> bool) \<Rightarrow> store \<Rightarrow> scheduler \<Rightarrow> (dberr + unit) \<times> store \<times> scheduler" where
  "Start cron_ok s c =
     (case policies_ListEnabled s of
        (Inl e, s1) \<Rightarrow> (Inl e, s1, c)
      | (Inr ps, s1) \<Rightarrow>
          (Inr (), s1, (fold (\<lambda>p c. snd (addJob cron_ok p c)) ps c)\<lparr>sch_running := True\<rparr>))"

definition Stop :: "bool \<Rightarrow> scheduler \<Rightarrow> bool \<times> scheduler" where
  "Stop shutdown_ok c = (if shutdown_ok then (True, c\<lparr>sch_running := False\<rparr>) else (False, c))"

end
