(* ===== verification/Executor.thy ===== *)
theory Executor
  imports Restic PathTranslate Scheduler
begin

text \<open>The agent's executor (\<open>agent/internal/executor/executor.go\<close>) with the hooks it runs
(\<open>agent/internal/hooks/runner.go\<close>).  A job handler is a function on the trace of events; what the host
answers (processes, Docker, the file system, the clock, the cancellation of the context) are the
fields of \<open>exec_env\<close>, which see the trace so far; the text of a decoding error is a function of the Go
type and the document.  Log lines go to the \<open>LogSink\<close> only; the agent's own
log is left out.\<close>

section \<open>The host\<close>

datatype run_error = ExitError int | OtherError

record hook_process =
  hp_output :: string
  hp_error :: "run_error option"
  hp_ctx :: "string option"

record docker =
  dk_inspect :: "trace \<Rightarrow> string \<Rightarrow> string + string"
  dk_running :: "trace \<Rightarrow> string + (string \<times> string list) list"

record exec_env =
  xe_wrapper :: wrapper
  xe_proc :: procs
  xe_host_root :: string
  xe_docker :: "docker option"
  xe_windows :: bool
  xe_hook_timeout :: time
  xe_hook :: "trace \<Rightarrow> string list \<Rightarrow> time \<Rightarrow> hook_process"
  xe_stat :: "trace \<Rightarrow> string \<Rightarrow> bool"
  xe_create_temp :: "trace \<Rightarrow> string \<Rightarrow> bool"
  xe_mkdir :: "trace \<Rightarrow> string \<Rightarrow> string option"
  xe_cancelled :: "trace \<Rightarrow> bool"
  xe_clock :: "trace \<Rightarrow> time"
  xe_json_error :: "string \<Rightarrow> string \<Rightarrow> string"

text \<open>64-bit arithmetic wraps around.\<close>

definition wrap64 :: "int \<Rightarrow> int" where
  "wrap64 i = (i + 2 ^ 63) mod 2 ^ 64 - 2 ^ 63"

definition em_dash :: string where "em_dash = [CHR 0xE2, CHR 0x80, CHR 0x94]"
definition arrow :: string where "arrow = [CHR 0xE2, CHR 0x86, CHR 0x92]"

text \<open>The verb \<open>%q\<close>; text beyond ASCII is taken to be printable.\<close>

definition quote_char :: "char \<Rightarrow> string" where
  "quote_char c =
     (let n = (of_char c :: nat) in
      if n = 92 \<or> n = 34 then [CHR 0x5C, c]
      else if n = 7 then [CHR 0x5C, CHR ''a''] else if n = 8 then [CHR 0x5C, CHR ''b'']
      else if n = 12 then [CHR 0x5C, CHR ''f''] else if n = 10 then [CHR 0x5C, CHR ''n'']
      else if n = 13 then [CHR 0x5C, CHR ''r''] else if n = 9 then [CHR 0x5C, CHR ''t'']
      else if n = 11 then [CHR 0x5C, CHR ''v'']
      else if n < 32 \<or> n = 127 then [CHR 0x5C, CHR ''x'', hexdigit (n div 16), hexdigit (n mod 16)]
      else [c])"

definition go_quote :: "string \<Rightarrow> string" where
  "go_quote s = CHR 0x22 # concat (map quote_char s) @ [CHR 0x22]"

section \<open>Hooks\<close>

record hook_result =
  hr_output :: string
  hr_exit_code :: int

definition buildShellCmd :: "bool \<Rightarrow> string \<Rightarrow> string list \<Rightarrow> string list" where
  "buildShellCmd windows command args =
     (if windows
      then [''cmd'', ''/C'', if args \<noteq> [] then command @ '' '' @ join_with '' '' args else command]
      else [''/bin/sh'', ''-c'', command, ''--''] @ args)"

definition hooks_Run ::
  "exec_env \<Rightarrow> string \<Rightarrow> string list \<Rightarrow> time \<Rightarrow> trace \<Rightarrow> (hook_result \<times> string option) \<times> trace" where
  "hooks_Run env command args timeout t =
     (if command = [] then ((\<lparr>hr_output = [], hr_exit_code = 0\<rparr>, None), t)
      else (let argv = buildShellCmd (xe_windows env) command args;
                limit = (if 0 < timeout then timeout else xe_hook_timeout env);
                p = xe_hook env t argv limit;
                t1 = t @ [RunHook argv limit] in
            case hp_error p of
              None \<Rightarrow> ((\<lparr>hr_output = hp_output p, hr_exit_code = 0\<rparr>, None), t1)
            | Some e \<Rightarrow>
                (let exitCode = (case e of ExitError c \<Rightarrow> c | OtherError \<Rightarrow> 1) in
                 ((\<lparr>hr_output = hp_output p, hr_exit_code = exitCode\<rparr>,
                   Some (case hp_ctx p of
                           Some c \<Rightarrow> ''hook: command failed: '' @ c
                         | None \<Rightarrow> ''hook: command failed: exit code '' @ int_text exitCode)), t1))))"

section \<open>Payloads\<close>

record hookPayload =
  hk_name :: string
  hk_command :: string
  hk_args :: "string list"
  hk_timeout_secs :: int

record restorePayload =
  rs_snapshot_id :: string
  rs_repo_password :: string
  rs_target_path :: string
  rs_destination :: destinationPayload

record executor_job =
  ej_job_id :: string
  ej_policy_id :: string
  ej_type :: job_kind
  ej_payload :: string

definition zero_dest :: destinationPayload where
  "zero_dest = \<lparr>dp_destination_id = [], dp_type = [], dp_repo_url = [], dp_credentials = [],
     dp_config = [], dp_env = [], dp_priority = 0\<rparr>"

definition dec_dest_from :: "destinationPayload \<Rightarrow> (string \<times> json) list \<Rightarrow> destinationPayload option" where
  "dec_dest_from z kvs =
     (case (json_field dec_string ''destination_id'' (dp_destination_id z) kvs,
            json_field dec_string ''type'' (dp_type z) kvs,
            json_field dec_string ''repo_url'' (dp_repo_url z) kvs,
            json_field dec_string ''credentials'' (dp_credentials z) kvs,
            json_field dec_string ''config'' (dp_config z) kvs,
            json_field dec_map ''env'' (dp_env z) kvs,
            json_field dec_int ''priority'' (dp_priority z) kvs) of
        (Some i, Some ty, Some u, Some c, Some cf, Some e, Some p) \<Rightarrow>
          Some \<lparr>dp_destination_id = i, dp_type = ty, dp_repo_url = u, dp_credentials = c,
                dp_config = cf, dp_env = e, dp_priority = p\<rparr>
      | _ \<Rightarrow> None)"

definition dec_dest :: "json \<Rightarrow> destinationPayload \<Rightarrow> destinationPayload option" where
  "dec_dest v z = (case v of JObj kvs \<Rightarrow> dec_dest_from z kvs | JNull \<Rightarrow> Some z | _ \<Rightarrow> None)"

definition dec_retention :: "json \<Rightarrow> retentionPayload \<Rightarrow> retentionPayload option" where
  "dec_retention v z = (case v of
       JObj kvs \<Rightarrow>
         (case (json_field dec_int ''daily'' (rp_daily z) kvs,
                json_field dec_int ''weekly'' (rp_weekly z) kvs,
                json_field dec_int ''monthly'' (rp_monthly z) kvs,
                json_field dec_int ''yearly'' (rp_yearly z) kvs) of
            (Some d, Some w, Some m, Some y) \<Rightarrow>
              Some \<lparr>rp_daily = d, rp_weekly = w, rp_monthly = m, rp_yearly = y\<rparr>
          | _ \<Rightarrow> None)
     | JNull \<Rightarrow> Some z
     | _ \<Rightarrow> None)"

definition dec_backup :: "(string \<times> json) list \<Rightarrow> backupPayload option" where
  "dec_backup kvs =
     (case (json_field dec_string ''sources'' [] kvs, json_field dec_string ''repo_password'' [] kvs,
            json_field (dec_list dec_dest zero_dest) ''destinations'' [] kvs,
            json_field dec_retention ''retention''
              \<lparr>rp_daily = 0, rp_weekly = 0, rp_monthly = 0, rp_yearly = 0\<rparr> kvs,
            json_field dec_string ''hook_pre_backup'' [] kvs,
            json_field dec_string ''hook_post_backup'' [] kvs,
            json_field (dec_list dec_string []) ''tags'' [] kvs) of
        (Some s, Some pw, Some ds, Some r, Some pre, Some post, Some ts) \<Rightarrow>
          Some \<lparr>bp_sources = s, bp_repo_password = pw, bp_destinations = ds, bp_retention = r,
                bp_hook_pre = pre, bp_hook_post = post, bp_tags = ts\<rparr>
      | _ \<Rightarrow> None)"

definition dec_restore :: "(string \<times> json) list \<Rightarrow> restorePayload option" where
  "dec_restore kvs =
     (case (json_field dec_string ''restic_snapshot_id'' [] kvs,
            json_field dec_string ''repo_password'' [] kvs,
            json_field dec_string ''target_path'' [] kvs,
            json_field dec_dest ''destination'' zero_dest kvs) of
        (Some i, Some pw, Some tp, Some d) \<Rightarrow>
          Some \<lparr>rs_snapshot_id = i, rs_repo_password = pw, rs_target_path = tp, rs_destination = d\<rparr>
      | _ \<Rightarrow> None)"

definition dec_hook :: "(string \<times> json) list \<Rightarrow> hookPayload option" where
  "dec_hook kvs =
     (case (json_field dec_string ''name'' [] kvs, json_field dec_string ''command'' [] kvs,
            json_field (dec_list dec_string []) ''args'' [] kvs,
            json_field dec_int ''timeout_secs'' 0 kvs) of
        (Some n, Some c, Some as, Some ts) \<Rightarrow>
          Some \<lparr>hk_name = n, hk_command = c, hk_args = as, hk_timeout_secs = ts\<rparr>
      | _ \<Rightarrow> None)"

definition resolveHook :: "exec_env \<Rightarrow> string \<Rightarrow> string + hookPayload" where
  "resolveHook env text =
     (case unmarshal_struct dec_hook text of
        None \<Rightarrow> Inl (''invalid hook JSON: '' @ xe_json_error env ''hookPayload'' text)
      | Some h \<Rightarrow> Inr h)"

section \<open>Sources\<close>

definition log :: "string \<Rightarrow> string \<Rightarrow> trace \<Rightarrow> trace" where
  "log level msg t = t @ [SendLog level msg]"

definition fail :: "string \<Rightarrow> trace \<Rightarrow> trace" where
  "fail msg t = log ''error'' msg t @ [ReportStatus ''failed'' msg]"

definition docker_scheme :: string where "docker_scheme = ''docker-volume://''"

text \<open>The loop over the sources; \<open>acc\<close> is what has been resolved.\<close>

fun resolve_loop :: "exec_env \<Rightarrow> string list \<Rightarrow> string list \<Rightarrow> trace \<Rightarrow> (string + string list) \<times> trace" where
  "resolve_loop env [] acc t = (Inr acc, t)"
| "resolve_loop env (src # srcs) acc t =
     (if \<not> starts_with docker_scheme src
      then resolve_loop env srcs (acc @ [translateLocalPath src (xe_host_root env)]) t
      else (let volume = drop (length docker_scheme) src in
            case xe_docker env of
              None \<Rightarrow> (Inl (''source '' @ go_quote src
                          @ '' requires Docker but Docker is unavailable on this host''), t)
            | Some d \<Rightarrow>
                (case dk_inspect d t volume of
                   Inl e \<Rightarrow> (Inl (''failed to inspect Docker volume '' @ go_quote volume @ '': '' @ e), t)
                 | Inr mp \<Rightarrow>
                     (let t1 = log ''info'' (''resolved docker-volume://'' @ volume @ '' '' @ arrow
                                  @ '' '' @ mp) t in
                      if \<not> xe_stat env t1 mp
                      then resolve_loop env srcs acc
                             (log ''error'' (''docker-volume://'' @ volume @ '' resolved to ''
                                @ go_quote mp @ '' but that path is not accessible on this host '' @ em_dash
                                @ '' skipping source. If running in Docker, add a read-only bind mount: - ''
                                @ mp @ '':'' @ mp @ '':ro'') t1)
                      else resolve_loop env srcs (acc @ [mp]) t1))))"

definition resolveSources :: "exec_env \<Rightarrow> string \<Rightarrow> trace \<Rightarrow> (string + string list) \<times> trace" where
  "resolveSources env sourcesJSON t =
     (case (case json_parse sourcesJSON of None \<Rightarrow> None | Some v \<Rightarrow> dec_list dec_string [] v []) of
        None \<Rightarrow> (Inl (''invalid sources JSON: '' @ xe_json_error env ''[]string'' sourcesJSON), t)
      | Some raw \<Rightarrow> resolve_loop env raw [] t)"

section \<open>Backup\<close>

definition progress_log :: "progress_event \<Rightarrow> trace \<Rightarrow> string option \<times> trace" where
  "progress_log ev t = (None, t @ [SendLog ''info'' (json_text (event_json ev))])"

definition mkdir_error :: "exec_env \<Rightarrow> string \<Rightarrow> string \<Rightarrow> string \<Rightarrow> string" where
  "mkdir_error env original url e =
     (if xe_host_root env = []
      then ''local path '' @ go_quote url @ '' is not writable: '' @ e @ '' '' @ em_dash
        @ '' running without ARKEEP_DOCKER_HOST_ROOT: if this agent is inside Docker, ''
        @ ''set ARKEEP_DOCKER_HOST_ROOT=/hostfs and mount the backup share ''
        @ ''(e.g. -v /mnt/user:/hostfs/mnt/user:rw), or mount the full host root ''
        @ ''(-v /:/hostfs:ro on Linux); or set PUID/PGID to match the directory owner''
      else ''local path '' @ go_quote url @ '' is not writable (translated from '' @ go_quote original
        @ '' via ARKEEP_DOCKER_HOST_ROOT='' @ go_quote (xe_host_root env) @ ''): '' @ e @ '' '' @ em_dash
        @ '' verify the share is mounted at the expected container path and is writable, ''
        @ ''or set PUID/PGID to match the directory owner'')"

definition restic_dest_of :: "backupPayload \<Rightarrow> destinationPayload \<Rightarrow> string \<Rightarrow> restic_dest" where
  "restic_dest_of payload dest url = \<lparr>rd_type = dp_type dest, rd_repo_url = url,
     rd_password = bp_repo_password payload, rd_env = dp_env dest\<rparr>"

definition retention_of :: "backupPayload \<Rightarrow> retention_policy" where
  "retention_of payload = \<lparr>ret_daily = rp_daily (bp_retention payload),
     ret_weekly = rp_weekly (bp_retention payload), ret_monthly = rp_monthly (bp_retention payload),
     ret_yearly = rp_yearly (bp_retention payload)\<rparr>"

text \<open>The part of the loop body after the URL is known: backup, report, retention.  The result is whether
the backup failed.\<close>

definition run_backup ::
  "exec_env \<Rightarrow> backupPayload \<Rightarrow> string list \<Rightarrow> destinationPayload \<Rightarrow> string \<Rightarrow> time \<Rightarrow> trace \<Rightarrow> bool \<times> trace" where
  "run_backup env payload sources dest url started t =
     (let d = restic_dest_of payload dest url in
      case Backup (xe_wrapper env) (xe_proc env) d
             \<lparr>bo_sources = sources, bo_tags = bp_tags payload, bo_excludes = []\<rparr> progress_log t of
        (Inl e, t1) \<Rightarrow>
          (True, log ''error'' (''backup to destination '' @ dp_destination_id dest @ '' failed: '' @ e) t1
                 @ [ReportDestinationResult (dp_destination_id dest) ''failed'' [] started 0 e])
      | (Inr r, t1) \<Rightarrow>
          (let t2 = log ''info'' (''backup to destination '' @ dp_destination_id dest
                      @ '' completed (snapshot: '' @ br_snapshot_id r @ '', size: ''
                      @ int_text (br_total_bytes_processed r) @ '' bytes)'') t1
                    @ [ReportDestinationResult (dp_destination_id dest) ''succeeded'' (br_snapshot_id r)
                         started (wrap64 (br_total_bytes_processed r)) []] in
           case Forget (xe_wrapper env) (xe_proc env) d (retention_of payload) t2 of
             (Inl e, t3) \<Rightarrow>
               (False, log ''warn'' (''retention policy failed for destination ''
                          @ dp_destination_id dest @ '': '' @ e) t3)
           | (Inr _, t3) \<Rightarrow> (False, t3)))"

text \<open>A local destination: the translated path is logged, and its directory is made before restic runs.\<close>

definition log_translated :: "exec_env \<Rightarrow> string \<Rightarrow> string \<Rightarrow> trace \<Rightarrow> trace" where
  "log_translated env original url t =
     (if url \<noteq> original
      then log ''debug'' (''translated local path '' @ go_quote original @ '' '' @ arrow
             @ '' '' @ go_quote url @ '' (ARKEEP_DOCKER_HOST_ROOT=''
             @ go_quote (xe_host_root env) @ '')'') t
      else t)"

definition backup_local ::
  "exec_env \<Rightarrow> backupPayload \<Rightarrow> string list \<Rightarrow> destinationPayload \<Rightarrow> time \<Rightarrow> trace \<Rightarrow> bool \<times> trace" where
  "backup_local env payload sources dest started t =
     (let original = dp_repo_url dest;
          url = translateLocalPath original (xe_host_root env);
          t2 = log_translated env original url t;
          t3 = t2 @ [MkdirAll url] in
      case xe_mkdir env t2 url of
        Some e \<Rightarrow>
          (let msg = mkdir_error env original url e in
           (True, log ''error'' (''backup to destination '' @ dp_destination_id dest
                    @ '' failed: '' @ msg) t3
                  @ [ReportDestinationResult (dp_destination_id dest) ''failed'' [] started 0 msg]))
      | None \<Rightarrow> run_backup env payload sources dest url started t3)"

definition backup_one ::
  "exec_env \<Rightarrow> backupPayload \<Rightarrow> string list \<Rightarrow> destinationPayload \<Rightarrow> trace \<Rightarrow> bool \<times> trace" where
  "backup_one env payload sources dest t =
     (let t1 = log ''info'' (''backing up to destination '' @ dp_destination_id dest
                 @ '' (type: '' @ dp_type dest @ '')'') t;
          started = xe_clock env t1 in
      if dp_type dest = ''local'' then backup_local env payload sources dest started t1
      else run_backup env payload sources dest (dp_repo_url dest) started t1)"

fun backup_loop ::
  "exec_env \<Rightarrow> backupPayload \<Rightarrow> string list \<Rightarrow> destinationPayload list \<Rightarrow> bool \<Rightarrow> trace \<Rightarrow> bool \<times> trace" where
  "backup_loop env payload sources [] failed t = (failed, t)"
| "backup_loop env payload sources (dest # dests) failed t =
     (if xe_cancelled env t then (failed, t)
      else if dp_repo_url dest = []
      then backup_loop env payload sources dests failed
             (log ''warn'' (''destination '' @ dp_destination_id dest @ '' has empty repo_url, skipping'') t)
      else (case backup_one env payload sources dest t of
              (f, t1) \<Rightarrow> backup_loop env payload sources dests (failed \<or> f) t1))"

text \<open>A hook of the payload: its text is logged, resolved and run.  The result is the reason a pre-backup
hook aborts the job with.\<close>

definition hook_duration :: "hookPayload \<Rightarrow> time" where
  "hook_duration h = wrap64 (hk_timeout_secs h * second)"

definition pre_hook :: "exec_env \<Rightarrow> string \<Rightarrow> trace \<Rightarrow> string option \<times> trace" where
  "pre_hook env text t =
     (if text = [] then (None, t)
      else (let t1 = log ''info'' (''running pre-backup hook: '' @ text) t in
            case resolveHook env text of
              Inl e \<Rightarrow> (Some (''failed to resolve pre-backup hook: '' @ e), t1)
            | Inr h \<Rightarrow>
                (case hooks_Run env (hk_command h) (hk_args h) (hook_duration h) t1 of
                   ((r, err), t2) \<Rightarrow>
                     (let t3 = (if hr_output r \<noteq> []
                                then log ''info'' (''pre-backup hook output: '' @ hr_output r) t2 else t2) in
                      case err of
                        Some e \<Rightarrow> (Some (''pre-backup hook failed (exit '' @ int_text (hr_exit_code r)
                                      @ ''): '' @ e), t3)
                      | None \<Rightarrow> (None, t3)))))"

definition post_hook :: "exec_env \<Rightarrow> string \<Rightarrow> trace \<Rightarrow> trace" where
  "post_hook env text t =
     (if text = [] then t
      else (let t1 = log ''info'' (''running post-backup hook: '' @ text) t in
            case resolveHook env text of
              Inl e \<Rightarrow> log ''warn'' (''failed to resolve post-backup hook: '' @ e) t1
            | Inr h \<Rightarrow>
                (case hooks_Run env (hk_command h) (hk_args h) (hook_duration h) t1 of
                   ((r, _), t2) \<Rightarrow>
                     if hr_output r \<noteq> []
                     then log ''info'' (''post-backup hook output: '' @ hr_output r) t2 else t2)))"

definition no_sources_error :: string where
  "no_sources_error =
     ''no accessible backup sources: all docker-volume mountpoints are unreachable on this host. ''
     @ ''If running a native agent on Windows, Docker volume paths are not directly accessible. ''
     @ ''Use the Docker-based agent deployment to back up Docker volumes.''"

definition finish_backup :: "exec_env \<Rightarrow> backupPayload \<Rightarrow> bool \<Rightarrow> trace \<Rightarrow> trace" where
  "finish_backup env payload failed t =
     (if xe_cancelled env t
      then log ''warn'' ''backup cancelled: agent shutting down'' t
             @ [ReportStatus ''cancelled'' ''agent shutting down'']
      else (let t1 = post_hook env (bp_hook_post payload) t in
            if failed then fail ''one or more destinations failed'' t1
            else log ''info'' ''backup completed successfully'' t1
                   @ [ReportStatus ''success'' ''backup completed'']))"

definition executeBackup :: "exec_env \<Rightarrow> executor_job \<Rightarrow> trace \<Rightarrow> trace" where
  "executeBackup env job t =
     (case unmarshal_struct dec_backup (ej_payload job) of
        None \<Rightarrow> fail (''failed to deserialize job payload: ''
                     @ xe_json_error env ''backupPayload'' (ej_payload job)) t
      | Some payload \<Rightarrow>
          (let t1 = log ''info'' ''backup started'' (t @ [ReportStatus ''running'' ''starting backup'']) in
           case resolveSources env (bp_sources payload) t1 of
             (Inl e, t2) \<Rightarrow> fail (''failed to resolve backup sources: '' @ e) t2
           | (Inr sources, t2) \<Rightarrow>
               if sources = [] then fail no_sources_error t2
               else (let t3 = log ''info'' (''resolved '' @ int_text (int (length sources))
                                @ '' source(s)'') t2 in
                     case pre_hook env (bp_hook_pre payload) t3 of
                       (Some e, t4) \<Rightarrow> fail e t4
                     | (None, t4) \<Rightarrow>
                         (case backup_loop env payload sources (bp_destinations payload) False t4 of
                            (failed, t5) \<Rightarrow> finish_backup env payload failed t5))))"

section \<open>Restore\<close>

definition docker_vol_root :: string where "docker_vol_root = ''/var/lib/docker/volumes''"

text \<open>The two loops over the running containers and their volumes, as one list.\<close>

definition skip_warning :: "string \<times> string \<Rightarrow> agent_event" where
  "skip_warning cp = SendLog ''warn'' (''skipping volume '' @ go_quote (snd cp)
     @ '' for in-place restore: container '' @ go_quote (fst cp)
     @ '' is running. Stop it first to restore this volume.'')"

definition container_paths :: "(string \<times> string list) list \<Rightarrow> (string \<times> string) list" where
  "container_paths cs = concat (map (\<lambda>(c, ps). map (Pair c) ps) cs)"

definition buildInPlaceExcludes :: "exec_env \<Rightarrow> trace \<Rightarrow> string list \<times> trace" where
  "buildInPlaceExcludes env t =
     (if \<not> xe_stat env t docker_vol_root then ([], t)
      else if \<not> xe_create_temp env t docker_vol_root
      then ([docker_vol_root],
            log ''warn'' (''docker volume paths excluded from in-place restore: '' @ docker_vol_root
              @ '' is mounted read-only. Change :ro to :rw in the docker-compose volume entry to enable ''
              @ ''in-place restore of Docker volumes (stop affected containers first).'') t)
      else (case xe_docker env of
              None \<Rightarrow> ([], t)
            | Some d \<Rightarrow>
                (case dk_running d t of
                   Inl e \<Rightarrow> ([], log ''warn'' (''could not list running containers for in-place restore: ''
                                  @ e @ '' '' @ em_dash @ '' proceeding without exclusions'') t)
                 | Inr cs \<Rightarrow> (map snd (container_paths cs),
                              t @ map skip_warning (container_paths cs)))))"

text \<open>The target as restic gets it (the root directory stands for an in-place restore), the repository, and
the end of the handler.\<close>

definition restore_target :: "exec_env \<Rightarrow> restorePayload \<Rightarrow> string" where
  "restore_target env p =
     (if rs_target_path p \<noteq> ''/'' then translateLocalPath (rs_target_path p) (xe_host_root env)
      else rs_target_path p)"

definition restore_dest :: "exec_env \<Rightarrow> restorePayload \<Rightarrow> restic_dest" where
  "restore_dest env p =
     (let dest = rs_destination p in
      \<lparr>rd_type = dp_type dest,
       rd_repo_url = (if dp_type dest = ''local''
                      then translateLocalPath (dp_repo_url dest) (xe_host_root env)
                      else dp_repo_url dest),
       rd_password = rs_repo_password p, rd_env = dp_env dest\<rparr>)"

definition restored :: "string \<Rightarrow> trace \<Rightarrow> trace" where
  "restored target t =
     log ''info'' (''restore completed successfully: files written to '' @ target) t
     @ [ReportStatus ''success'' ''restore completed'']"

definition finish_restore :: "exec_env \<Rightarrow> string \<Rightarrow> (string + unit) \<Rightarrow> trace \<Rightarrow> trace" where
  "finish_restore env target r t =
     (case r of
        Inr _ \<Rightarrow> restored target t
      | Inl e \<Rightarrow>
          if xe_cancelled env t
          then log ''warn'' ''restore cancelled: agent shutting down'' t
                 @ [ReportStatus ''cancelled'' ''agent shutting down'']
          else if str_contains ''Access is denied'' e
          then restored target
                 (log ''warn'' (''files were restored successfully '' @ em_dash
                     @ '' check the target path to verify'')
                    (log ''warn'' (''restore completed with warnings: some file metadata ''
                        @ ''could not be set (Windows permission restriction)'') t))
          else fail (''restore failed: '' @ e) t)"

definition executeRestore :: "exec_env \<Rightarrow> executor_job \<Rightarrow> trace \<Rightarrow> trace" where
  "executeRestore env job t =
     (case unmarshal_struct dec_restore (ej_payload job) of
        None \<Rightarrow> fail (''failed to deserialize restore payload: ''
                     @ xe_json_error env ''restorePayload'' (ej_payload job)) t
      | Some p \<Rightarrow>
          if rs_snapshot_id p = [] then fail ''restore payload missing restic_snapshot_id'' t
          else if rs_target_path p = [] then fail ''restore payload missing target_path'' t
          else if dp_repo_url (rs_destination p) = []
          then fail ''restore payload missing destination repo_url'' t
          else
            (let target = restore_target env p;
                 t1 = t @ [ReportStatus ''running'' ''starting restore''];
                 t2 = log ''info'' (''restore started: snapshot '' @ rs_snapshot_id p @ '' '' @ arrow
                        @ '' '' @ target) t1 in
             case (if rs_target_path p = ''/'' then buildInPlaceExcludes env t2 else ([], t2)) of
               (excludes, t3) \<Rightarrow>
                 (case Restore (xe_wrapper env) (xe_proc env) (restore_dest env p) (rs_snapshot_id p)
                         target [] excludes (xe_host_root env) t3 of
                    (r, t4) \<Rightarrow> finish_restore env target r t4)))"

section \<open>The queue\<close>

definition queueSize :: nat where "queueSize = 16"

definition Enqueue :: "executor_job \<Rightarrow> executor_job list \<Rightarrow> (string + unit) \<times> executor_job list" where
  "Enqueue job q =
     (if length q < queueSize then (Inr (), q @ [job])
      else (Inl (''executor: job queue full, rejecting job '' @ ej_job_id job), q))"

definition execute :: "exec_env \<Rightarrow> executor_job \<Rightarrow> trace \<Rightarrow> trace" where
  "execute env job t = (case ej_type job of
       KindRestore \<Rightarrow> executeRestore env job t
     | _ \<Rightarrow> executeBackup env job t)"

text \<open>The worker takes the oldest job of the queue and runs it to its end before the next, on whatever
the host answers then; assignments may be enqueued at any moment.  The state is the queue, the
accepted jobs in the order of their acceptance, and the traces of the jobs in the order they ran.\<close>

record executor =
  ex_queue :: "executor_job list"
  ex_accepted :: "executor_job list"
  ex_done :: "(executor_job \<times> trace) list"

definition executor_New :: executor where
  "executor_New = \<lparr>ex_queue = [], ex_accepted = [], ex_done = []\<rparr>"

definition executor_receive :: "executor_job \<Rightarrow> executor \<Rightarrow> executor" where
  "executor_receive job x =
     (case Enqueue job (ex_queue x) of
        (Inl e, q) \<Rightarrow> x\<lparr>ex_queue := q\<rparr>
      | (Inr _, q) \<Rightarrow> x\<lparr>ex_queue := q, ex_accepted := ex_accepted x @ [job]\<rparr>)"

inductive executor_step :: "executor \<Rightarrow> executor \<Rightarrow> bool" where
  receive: "executor_step x (executor_receive job x)"
| work: "ex_queue x = job # q \<Longrightarrow>
    executor_step x (x\<lparr>ex_queue := q, ex_done := ex_done x @ [(job, execute env job [])]\<rparr>)"

inductive executor_reach :: "executor \<Rightarrow> bool" where
  executor_start: "executor_reach executor_New"
| executor_next: "executor_reach x \<Longrightarrow> executor_step x y \<Longrightarrow> executor_reach y"

inductive_cases executor_stepE: "executor_step x y"

end
