(* ===== verification/Proto.thy ===== *)
theory Proto
  imports AgentManager
begin

text \<open>The messages agents and server exchange (\<open>shared/proto/agent.proto\<close>, generated into
\<open>agent.pb.go\<close>) as far as the handlers read them.  A message field that may be absent is an
option; an enum value outside the declared ones is treated by every handler like the unspecified
one.\<close>

datatype job_status_enum = StUnspecified | StRunning | StCompleted | StFailed | StCancelled

datatype log_level = LvUnspecified | LvDebug | LvInfo | LvWarn | LvError

record register_request =
  rq_agent_id :: string
  rq_hostname :: string
  rq_version :: string
  rq_os :: string
  rq_arch :: string
  rq_docker :: "bool option"

record register_response =
  rr_agent_id :: string
  rr_agent_name :: string

record system_metrics =
  sm_cpu :: string
  sm_mem :: string
  sm_disk :: string

record heartbeat_request =
  hb_agent_id :: string
  hb_metrics :: "system_metrics option"

record job_status_report =
  jr_job_id :: string
  jr_agent_id :: string
  jr_status :: job_status_enum
  jr_message :: string

record destination_status_report =
  dr_job_id :: string
  dr_agent_id :: string
  dr_destination_id :: string
  dr_status :: string
  dr_snapshot_id :: string
  dr_size_bytes :: int
  dr_error :: string
  dr_started_at :: "time option"

record log_entry =
  le_job_id :: string
  le_agent_id :: string
  le_level :: log_level
  le_message :: string
  le_timestamp :: "time option"

text \<open>The status codes the handlers return.\<close>

datatype code = InvalidArgument | Internal | NotFound | Unauthenticated

type_synonym rpc_error = "code \<times> string"

end
