(* ===== verification/Notification.thy ===== *)
theory Notification
  imports Hub AccountRepositories JsonRoundtrip
begin

text \<open>The notification service (\<open>server/internal/notification\<close>): one row per active administrator,
a publication to each of them, one email and one webhook delivery per event with an optimistic
first attempt, and the background retrier.  The network and the parts of the standard library
that are not modelled are the fields of \<open>notif_env\<close>: the answer of the SMTP and HTTP peers, the
HMAC, and the rendering of a time.\<close>

section \<open>Configuration (\<open>config.go\<close>)\<close>

datatype cfg_error = CfgNotFound | CfgInvalid string | CfgDB

record smtp_config =
  sc_host :: string
  sc_port :: int
  sc_username :: string
  sc_password :: string
  sc_from :: string
  sc_tls :: bool

record webhook_config =
  wc_url :: string
  wc_secret :: string
  wc_enabled :: bool

definition settingsIndex :: "setting list \<Rightarrow> string \<Rightarrow> string" where
  "settingsIndex xs k =
     (case find (\<lambda>x. set_key x = k) (rev xs) of None \<Rightarrow> [] | Some x \<Rightarrow> set_value x)"

definition atoi :: "string \<Rightarrow> int option" where
  "atoi s = (case s of
       [] \<Rightarrow> None
     | c # r \<Rightarrow> if c = CHR ''+'' then (case r of [] \<Rightarrow> None
                  | d # _ \<Rightarrow> if d = CHR ''-'' then None else parse_int r)
               else parse_int s)"

definition smtp_config_of :: "(string \<Rightarrow> string) \<Rightarrow> cfg_error + smtp_config" where
  "smtp_config_of idx =
     (if idx ''smtp.host'' = [] then Inl (CfgInvalid ''smtp.host is required'')
      else if idx ''smtp.port'' = [] then Inl (CfgInvalid ''smtp.port is required'')
      else (case atoi (idx ''smtp.port'') of
              None \<Rightarrow> Inl (CfgInvalid ''smtp.port must be a valid port number'')
            | Some port \<Rightarrow>
                if port < 1 \<or> port > 65535
                then Inl (CfgInvalid ''smtp.port must be a valid port number'')
                else if idx ''smtp.from'' = [] then Inl (CfgInvalid ''smtp.from is required'')
                else Inr \<lparr>sc_host = idx ''smtp.host'', sc_port = port,
                          sc_username = idx ''smtp.username'', sc_password = idx ''smtp.password'',
                          sc_from = idx ''smtp.from'', sc_tls = (idx ''smtp.tls'' = ''true'')\<rparr>))"

definition loadSMTPConfig :: "store \<Rightarrow> (cfg_error + smtp_config) \<times> store" where
  "loadSMTPConfig s =
     (case settings_GetMany ''smtp.'' s of
        (Inl e, s1) \<Rightarrow> (Inl CfgDB, s1)
      | (Inr xs, s1) \<Rightarrow>
          if xs = [] then (Inl CfgNotFound, s1) else (smtp_config_of (settingsIndex xs), s1))"

definition loadWebhookConfig :: "store \<Rightarrow> (cfg_error + webhook_config) \<times> store" where
  "loadWebhookConfig s =
     (case settings_GetMany ''webhook.'' s of
        (Inl e, s1) \<Rightarrow> (Inl CfgDB, s1)
      | (Inr xs, s1) \<Rightarrow>
          if xs = [] then (Inl CfgNotFound, s1)
          else (let idx = settingsIndex xs in
                if idx ''webhook.url'' = [] then (Inl (CfgInvalid ''webhook.url is required''), s1)
                else (Inr \<lparr>wc_url = idx ''webhook.url'', wc_secret = idx ''webhook.secret'',
                           wc_enabled = (idx ''webhook.enabled'' = ''true'')\<rparr>, s1)))"

section \<open>Senders (\<open>sender_email.go\<close>, \<open>sender_webhook.go\<close>)\<close>

datatype smtp_cmd =
    Dial string int bool
  | NewClient
  | StartTLS
  | Auth string string
  | MailFrom string
  | RcptTo string
  | Data
  | WriteBody string
  | CloseData
  | Quit

datatype net_event = Smtp smtp_cmd | Http string string string

datatype http_answer = HttpError string | HttpStatus int

record notif_env =
  ne_smtp :: "smtp_cmd \<Rightarrow> string option"
  ne_starttls :: bool
  ne_http :: "string \<Rightarrow> string \<Rightarrow> string \<Rightarrow> http_answer"
  ne_hmac :: "string \<Rightarrow> string \<Rightarrow> string"
  ne_rfc3339 :: "time \<Rightarrow> string"
  ne_rfc1123 :: "time \<Rightarrow> string"
  ne_dberr :: string

definition ErrSendFailed :: string where
  "ErrSendFailed = ''notification: send failed''"

definition cfg_error_text :: "notif_env \<Rightarrow> cfg_error \<Rightarrow> string" where
  "cfg_error_text env e = (case e of
       CfgNotFound \<Rightarrow> ''notification: configuration not found''
     | CfgInvalid m \<Rightarrow> ''notification: invalid configuration: '' @ m
     | CfgDB \<Rightarrow> ne_dberr env)"

definition smtp_label :: "smtp_cmd \<Rightarrow> string" where
  "smtp_label c = (case c of
       Dial _ _ tls \<Rightarrow> if tls then '': tls.Dial: '' else '': dial: ''
     | NewClient \<Rightarrow> '': smtp.NewClient: ''
     | StartTLS \<Rightarrow> '': STARTTLS: ''
     | Auth _ _ \<Rightarrow> '': smtp auth: ''
     | MailFrom _ \<Rightarrow> '': MAIL FROM: ''
     | RcptTo r \<Rightarrow> '': RCPT TO '' @ r @ '': ''
     | Data \<Rightarrow> '': DATA: ''
     | WriteBody _ \<Rightarrow> '': write body: ''
     | CloseData \<Rightarrow> '': close DATA: ''
     | Quit \<Rightarrow> [])"

text \<open>The dialogue stops at the first command that fails; an error of \<open>Quit\<close> is returned as it is.\<close>

fun smtp_dialogue :: "notif_env \<Rightarrow> smtp_cmd list \<Rightarrow> (string + unit) \<times> net_event list" where
  "smtp_dialogue env [] = (Inr (), [])"
| "smtp_dialogue env (c # cs) =
     (case ne_smtp env c of
        Some e \<Rightarrow> (Inl (if c = Quit then e else ErrSendFailed @ smtp_label c @ e), [Smtp c])
      | None \<Rightarrow> (case smtp_dialogue env cs of (r, evs) \<Rightarrow> (r, Smtp c # evs)))"

definition smtp_commands :: "smtp_config \<Rightarrow> bool \<Rightarrow> string list \<Rightarrow> string \<Rightarrow> smtp_cmd list" where
  "smtp_commands cfg starttls recipients msg =
     [Dial (sc_host cfg) (sc_port cfg) (sc_tls cfg), NewClient]
     @ (if \<not> sc_tls cfg \<and> starttls then [StartTLS] else [])
     @ (if sc_username cfg \<noteq> [] then [Auth (sc_username cfg) (sc_password cfg)] else [])
     @ [MailFrom (sc_from cfg)] @ map RcptTo recipients @ [Data, WriteBody msg, CloseData, Quit]"

definition crlf :: string where
  "crlf = [CHR 0x0D, CHR 0x0A]"

definition buildEmail :: "notif_env \<Rightarrow> time \<Rightarrow> string \<Rightarrow> string list \<Rightarrow> string \<Rightarrow> string \<Rightarrow> string" where
  "buildEmail env now sender recipients subject body =
     ''From: '' @ sender @ crlf @ ''To: '' @ join_with '', '' recipients @ crlf
     @ ''Subject: '' @ subject @ crlf @ ''Date: '' @ ne_rfc1123 env now @ crlf
     @ ''MIME-Version: 1.0'' @ crlf @ ''Content-Type: text/plain; charset=UTF-8'' @ crlf
     @ crlf @ body"

record nstate =
  ns_store :: store
  ns_hub :: hub
  ns_out :: "net_event list"

definition email_Send ::
  "notif_env \<Rightarrow> time \<Rightarrow> string list \<Rightarrow> string \<Rightarrow> string \<Rightarrow> nstate \<Rightarrow> (string + unit) \<times> nstate" where
  "email_Send env now recipients subject body n =
     (if recipients = [] then (Inr (), n)
      else (case loadSMTPConfig (ns_store n) of
              (Inl e, s1) \<Rightarrow>
                (if e = CfgNotFound then Inr ()
                 else Inl (ErrSendFailed @ '': failed to load smtp config: '' @ cfg_error_text env e),
                 n\<lparr>ns_store := s1\<rparr>)
            | (Inr cfg, s1) \<Rightarrow>
                (case smtp_dialogue env (smtp_commands cfg (ne_starttls env) recipients
                        (buildEmail env now (sc_from cfg) recipients subject body)) of
                   (r, evs) \<Rightarrow> (r, n\<lparr>ns_store := s1, ns_out := ns_out n @ evs\<rparr>))))"

definition webhook_json ::
  "notif_env \<Rightarrow> time \<Rightarrow> string \<Rightarrow> string \<Rightarrow> string \<Rightarrow> (string \<times> json) list \<Rightarrow> json" where
  "webhook_json env now typ title body payload = JObj
     ([(''type'', JStr typ), (''title'', JStr title), (''text'', JStr body)]
      @ (if payload = [] then [] else [(''payload'', JObj (sort_key fst payload))])
      @ [(''timestamp'', JStr (ne_rfc3339 env now))])"

definition webhook_Send ::
  "notif_env \<Rightarrow> time \<Rightarrow> string \<Rightarrow> string \<Rightarrow> string \<Rightarrow> (string \<times> json) list \<Rightarrow> nstate \<Rightarrow>
   (string + unit) \<times> nstate" where
  "webhook_Send env now typ title body payload n =
     (case loadWebhookConfig (ns_store n) of
        (Inl e, s1) \<Rightarrow>
          (if e = CfgNotFound then Inr ()
           else Inl (ErrSendFailed @ '': failed to load webhook config: '' @ cfg_error_text env e),
           n\<lparr>ns_store := s1\<rparr>)
      | (Inr cfg, s1) \<Rightarrow>
          if \<not> wc_enabled cfg then (Inr (), n\<lparr>ns_store := s1\<rparr>)
          else (let data = json_text (webhook_json env now typ title body payload);
                    sig = (if wc_secret cfg = [] then []
                           else ''sha256='' @ ne_hmac env data (wc_secret cfg));
                    n1 = n\<lparr>ns_store := s1, ns_out := ns_out n @ [Http (wc_url cfg) data sig]\<rparr> in
                case ne_http env (wc_url cfg) data sig of
                  HttpError e \<Rightarrow> (Inl (ErrSendFailed @ '': webhook request failed: '' @ e), n1)
                | HttpStatus c \<Rightarrow>
                    if c < 200 \<or> 300 \<le> c
                    then (Inl (ErrSendFailed @ '': webhook returned non-2xx status '' @ int_text c), n1)
                    else (Inr (), n1)))"

section \<open>The service (\<open>service.go\<close>)\<close>

definition truncateError :: "string \<Rightarrow> string" where
  "truncateError msg = take 500 msg"

definition configuredRecipients :: "store \<Rightarrow> string list \<times> store" where
  "configuredRecipients s =
     (case settings_GetMany ''notification.'' s of
        (Inl e, s1) \<Rightarrow> ([], s1)
      | (Inr xs, s1) \<Rightarrow>
          (if xs = [] then []
           else (let raw = settingsIndex xs ''notification.recipients'' in
                 if raw = [] then []
                 else filter (\<lambda>r. r \<noteq> []) (map trim_space (split_on CHR '','' raw))), s1))"

record event =
  ev_type :: string
  ev_title :: string
  ev_body :: string
  ev_payload :: "(string \<times> string) list"

definition new_delivery :: "uuid \<Rightarrow> string \<Rightarrow> delivery" where
  "new_delivery notifID typ = \<lparr>ID = nil_uuid, CreatedAt = zero_time, UpdatedAt = zero_time,
     ndl_notification_id = notifID, ndl_type = typ, ndl_status = ''pending'', ndl_attempts = 0,
     ndl_last_error = [], ndl_next_retry_at = None\<rparr>"

definition enqueueAndSend ::
  "time \<Rightarrow> uuid \<Rightarrow> string \<Rightarrow> (nstate \<Rightarrow> (string + unit) \<times> nstate) \<Rightarrow> nstate \<Rightarrow> nstate" where
  "enqueueAndSend now notifID typ send n =
     (case notif_CreateDelivery now (new_delivery notifID typ) (ns_store n) of
        (Inl e, s1) \<Rightarrow> n\<lparr>ns_store := s1\<rparr>
      | (Inr d, s1) \<Rightarrow>
          (case send (n\<lparr>ns_store := s1\<rparr>) of
             (Inl e, n1) \<Rightarrow>
               n1\<lparr>ns_store := snd (notif_UpdateDelivery now (d\<lparr>ndl_last_error := truncateError e\<rparr>)
                                   (ns_store n1))\<rparr>
           | (Inr _, n1) \<Rightarrow>
               n1\<lparr>ns_store := snd (notif_UpdateDelivery now (d\<lparr>ndl_status := ''sent''\<rparr>)
                                   (ns_store n1))\<rparr>))"

definition new_notif :: "event \<Rightarrow> uuid \<Rightarrow> notif" where
  "new_notif ev u = \<lparr>ID = nil_uuid, CreatedAt = zero_time, UpdatedAt = zero_time,
     ntf_user_id = u, ntf_type = ev_type ev, ntf_title = ev_title ev, ntf_body = ev_body ev,
     ntf_read_at = None, ntf_payload = json_text (jmap (ev_payload ev))\<rparr>"

definition notif_message :: "notif_env \<Rightarrow> event \<Rightarrow> notif \<Rightarrow> message" where
  "notif_message env ev x = \<lparr>m_type = ''notification'',
     m_topic = ''notifications:'' @ ntf_user_id x,
     m_payload = JObj [(''id'', JStr (ID x)), (''type'', JStr (ntf_type x)),
        (''title'', JStr (ntf_title x)), (''body'', JStr (ntf_body x)),
        (''payload'', jmap (ev_payload ev)),
        (''created_at'', JStr (ne_rfc3339 env (CreatedAt x)))]\<rparr>"

text \<open>The loop over the users: for every active administrator a row and a publication.  The result is
what has been persisted, with the address of its recipient.\<close>

fun notify_users ::
  "notif_env \<Rightarrow> time \<Rightarrow> event \<Rightarrow> user list \<Rightarrow> nstate \<Rightarrow> (notif \<times> string) list \<times> nstate" where
  "notify_users env now ev [] n = ([], n)"
| "notify_users env now ev (u # us) n =
     (if usr_role u \<noteq> ''admin'' \<or> \<not> usr_is_active u then notify_users env now ev us n
      else (case notif_Create now (new_notif ev (ID u)) (ns_store n) of
              (Inl e, s1) \<Rightarrow> notify_users env now ev us (n\<lparr>ns_store := s1\<rparr>)
            | (Inr x, s1) \<Rightarrow>
                (case notify_users env now ev us
                        (n\<lparr>ns_store := s1,
                           ns_hub := Publish (''notifications:'' @ ID u) (notif_message env ev x)
                                       (ns_hub n)\<rparr>) of
                   (xs, n1) \<Rightarrow> ((x, usr_email u) # xs, n1))))"

definition notify :: "notif_env \<Rightarrow> time \<Rightarrow> event \<Rightarrow> nstate \<Rightarrow> (dberr + unit) \<times> nstate" where
  "notify env now ev n =
     (case users_List \<lparr>lo_limit = 100, lo_offset = 0\<rparr> (ns_store n) of
        (Inl e, s1) \<Rightarrow> (Inl e, n\<lparr>ns_store := s1\<rparr>)
      | (Inr (us, _), s1) \<Rightarrow>
          (case notify_users env now ev us (n\<lparr>ns_store := s1\<rparr>) of
             ([], n1) \<Rightarrow> (Inr (), n1)
           | ((x, e) # xs, n1) \<Rightarrow>
               (case configuredRecipients (ns_store n1) of
                  (configured, s2) \<Rightarrow>
                    (let emailTo = (if configured = [] then map snd ((x, e) # xs) else configured);
                         n2 = enqueueAndSend now (ID x) ''email''
                                (email_Send env now emailTo (ev_title ev) (ev_body ev))
                                (n1\<lparr>ns_store := s2\<rparr>);
                         n3 = enqueueAndSend now (ID x) ''webhook''
                                (webhook_Send env now (ev_type ev) (ev_title ev) (ev_body ev)
                                   (map (\<lambda>(k, v). (k, JStr v)) (ev_payload ev))) n2 in
                     (Inr (), n3)))))"

definition NotifyJobSucceeded ::
  "notif_env \<Rightarrow> time \<Rightarrow> uuid \<Rightarrow> uuid \<Rightarrow> string \<Rightarrow> nstate \<Rightarrow> (dberr + unit) \<times> nstate" where
  "NotifyJobSucceeded env now jobID policyID policyName =
     notify env now \<lparr>ev_type = ''job_success'', ev_title = ''Backup completed: '' @ policyName,
       ev_body = ''Policy \"'' @ policyName @ ''\" completed successfully at ''
                   @ ne_rfc3339 env now @ ''.'',
       ev_payload = [(''job_id'', jobID), (''policy_id'', policyID), (''policy_name'', policyName)]\<rparr>"

definition NotifyJobFailed ::
  "notif_env \<Rightarrow> time \<Rightarrow> uuid \<Rightarrow> uuid \<Rightarrow> string \<Rightarrow> string \<Rightarrow> nstate \<Rightarrow> (dberr + unit) \<times> nstate" where
  "NotifyJobFailed env now jobID policyID policyName errMsg =
     notify env now \<lparr>ev_type = ''job_failure'', ev_title = ''Backup failed: '' @ policyName,
       ev_body = ''Policy \"'' @ policyName @ ''\" failed at '' @ ne_rfc3339 env now @ '': '' @ errMsg,
       ev_payload = [(''job_id'', jobID), (''policy_id'', policyID), (''policy_name'', policyName),
                     (''error'', errMsg)]\<rparr>"

definition NotifyAgentOffline ::
  "notif_env \<Rightarrow> time \<Rightarrow> uuid \<Rightarrow> string \<Rightarrow> nstate \<Rightarrow> (dberr + unit) \<times> nstate" where
  "NotifyAgentOffline env now agentID agentName =
     notify env now \<lparr>ev_type = ''agent_offline'', ev_title = ''Agent offline: '' @ agentName,
       ev_body = ''Agent \"'' @ agentName @ ''\" stopped responding at '' @ ne_rfc3339 env now @ ''.'',
       ev_payload = [(''agent_id'', agentID), (''agent_name'', agentName)]\<rparr>"

section \<open>The retrier\<close>

definition maxRetryAttempts :: int where "maxRetryAttempts = 3"

definition retryBackoff :: "time \<Rightarrow> int \<Rightarrow> time" where
  "retryBackoff now attempt = (if attempt = 0 then now + 5 * minute else now + 30 * minute)"

definition retry_send ::
  "notif_env \<Rightarrow> time \<Rightarrow> delivery \<Rightarrow> notif \<Rightarrow> nstate \<Rightarrow> (string + unit) option \<times> nstate" where
  "retry_send env now d x n =
     (if ndl_type d = ''email''
      then (case configuredRecipients (ns_store n) of
              (recipients, s1) \<Rightarrow>
                (case email_Send env now recipients (ntf_title x) (ntf_body x) (n\<lparr>ns_store := s1\<rparr>) of
                   (r, n1) \<Rightarrow> (Some r, n1)))
      else if ndl_type d = ''webhook''
      then (let payload = (case json_parse (ntf_payload x) of
                             Some (JObj kvs) \<Rightarrow> foldl (\<lambda>m (k, v). map_put k v m) [] kvs
                           | _ \<Rightarrow> []) in
            case webhook_Send env now (ntf_type x) (ntf_title x) (ntf_body x) payload n of
              (r, n1) \<Rightarrow> (Some r, n1))
      else (None, n))"

definition retry_outcome :: "time \<Rightarrow> (string + unit) \<Rightarrow> delivery \<Rightarrow> delivery" where
  "retry_outcome now r d =
     (let d1 = d\<lparr>ndl_attempts := ndl_attempts d + 1\<rparr> in
      case r of
        Inr _ \<Rightarrow> d1\<lparr>ndl_status := ''sent'', ndl_last_error := []\<rparr>
      | Inl e \<Rightarrow>
          (let d2 = d1\<lparr>ndl_last_error := truncateError e\<rparr> in
           if maxRetryAttempts \<le> ndl_attempts d2 then d2\<lparr>ndl_status := ''exhausted''\<rparr>
           else d2\<lparr>ndl_next_retry_at := Some (retryBackoff now (ndl_attempts d2))\<rparr>))"

definition retryDelivery :: "notif_env \<Rightarrow> time \<Rightarrow> delivery \<Rightarrow> nstate \<Rightarrow> nstate" where
  "retryDelivery env now d n =
     (case notif_GetByID (ndl_notification_id d) (ns_store n) of
        (Inl e, s1) \<Rightarrow> n\<lparr>ns_store := s1\<rparr>
      | (Inr x, s1) \<Rightarrow>
          (case retry_send env now d x (n\<lparr>ns_store := s1\<rparr>) of
             (None, n1) \<Rightarrow> n1
           | (Some r, n1) \<Rightarrow>
               n1\<lparr>ns_store := snd (notif_UpdateDelivery now (retry_outcome now r d) (ns_store n1))\<rparr>))"

definition processDeliveries :: "notif_env \<Rightarrow> time \<Rightarrow> nstate \<Rightarrow> nstate" where
  "processDeliveries env now n =
     (case notif_ListPendingDeliveries now 100 (ns_store n) of
        (Inl e, s1) \<Rightarrow> n\<lparr>ns_store := s1\<rparr>
      | (Inr ds, s1) \<Rightarrow> fold (retryDelivery env now) ds (n\<lparr>ns_store := s1\<rparr>))"

end
