(* ===== verification/GrpcServer.thy ===== *)
theory GrpcServer
  imports Proto Notification
begin

text \<open>The gRPC service of the server (\<open>server/internal/grpc/server.go\<close>).  A handler is a function of
the server's state; a handler that blocks is split where it does (\<open>StreamJobs\<close>), and a goroutine it
starts is an entry of \<open>gs_tasks\<close> that a later step runs.  Parsing of a UUID is the parameter
\<open>parse\<close> (the canonical text of the value, or nothing); every clock reading of a handler is its
argument \<open>now\<close>.\<close>

section \<open>State\<close>

record grpc_config =
  gc_secret :: string
  gc_auto_certs :: bool
  gc_notifications :: bool
  gc_metrics :: bool

datatype task =
    NotifyTerminal uuid job_status_enum string
  | NotifyOffline uuid string
  | RecordMetrics uuid string

record job_metric =
  jm_status :: string
  jm_type :: string
  jm_started :: time
  jm_ended :: time

record grpc_server =
  gs_n :: nstate
  gs_mgr :: manager
  gs_caps :: "(string \<times> bool) list"
  gs_tasks :: "task list"
  gs_metrics :: "job_metric list"

definition gs_store :: "grpc_server \<Rightarrow> store" where
  "gs_store g = ns_store (gs_n g)"

definition with_store :: "store \<Rightarrow> grpc_server \<Rightarrow> grpc_server" where
  "with_store s g = g\<lparr>gs_n := (gs_n g)\<lparr>ns_store := s\<rparr>\<rparr>"

definition gs_publish :: "string \<Rightarrow> string \<Rightarrow> json \<Rightarrow> grpc_server \<Rightarrow> grpc_server" where
  "gs_publish topic typ payload g = g\<lparr>gs_n := (gs_n g)\<lparr>ns_hub :=
     Publish topic \<lparr>m_type = typ, m_topic = [], m_payload = payload\<rparr> (ns_hub (gs_n g))\<rparr>\<rparr>"

definition spawn :: "task \<Rightarrow> grpc_server \<Rightarrow> grpc_server" where
  "spawn t g = g\<lparr>gs_tasks := gs_tasks g @ [t]\<rparr>"

section \<open>Authentication\<close>

text \<open>The incoming metadata: absent, or the values of each (lower-case) key.\<close>

definition validateToken :: "grpc_config \<Rightarrow> (string \<times> string list) list option \<Rightarrow> rpc_error option" where
  "validateToken cfg md =
     (if gc_auto_certs cfg then None
      else if gc_secret cfg = [] then None
      else (case md of
              None \<Rightarrow> Some (Unauthenticated, ''missing metadata'')
            | Some kvs \<Rightarrow>
                (case map_of kvs ''agent-secret'' of
                   Some (v # _) \<Rightarrow>
                     if v \<noteq> gc_secret cfg then Some (Unauthenticated, ''invalid agent secret'') else None
                 | _ \<Rightarrow> Some (Unauthenticated, ''invalid agent secret''))))"

definition authInterceptor ::
  "grpc_config \<Rightarrow> (string \<times> string list) list option \<Rightarrow>
   ('s \<Rightarrow> (rpc_error + 'a) \<times> 's) \<Rightarrow> 's \<Rightarrow> (rpc_error + 'a) \<times> 's" where
  "authInterceptor cfg md handler g =
     (case validateToken cfg md of Some e \<Rightarrow> (Inl e, g) | None \<Rightarrow> handler g)"

section \<open>Registration\<close>

definition cacheCapabilities :: "string \<Rightarrow> bool option \<Rightarrow> grpc_server \<Rightarrow> grpc_server" where
  "cacheCapabilities agentID caps g =
     g\<lparr>gs_caps := map_put agentID (caps = Some True) (gs_caps g)\<rparr>"

definition dockerAvailable :: "string \<Rightarrow> grpc_server \<Rightarrow> bool" where
  "dockerAvailable agentID g = (map_of (gs_caps g) agentID = Some True)"

definition register_new :: "time \<Rightarrow> register_request \<Rightarrow> grpc_server \<Rightarrow>
    (rpc_error + register_response) \<times> grpc_server" where
  "register_new now req g =
     (let a = \<lparr>ID = nil_uuid, CreatedAt = zero_time, UpdatedAt = zero_time, DeletedAt = None,
               ag_name = rq_hostname req, ag_hostname = rq_hostname req, ag_ip_address = [],
               ag_os = rq_os req, ag_arch = rq_arch req, ag_version = rq_version req,
               ag_status = ''offline'', ag_last_seen_at = None, ag_labels = [],
               ag_docker_available = (rq_docker req = Some True)\<rparr> in
      case agents_Create now a (gs_store g) of
        (Inl e, s1) \<Rightarrow> (Inl (Internal, ''registration failed''), with_store s1 g)
      | (Inr a', s1) \<Rightarrow>
          (Inr \<lparr>rr_agent_id = ID a', rr_agent_name = ag_name a'\<rparr>,
           cacheCapabilities (ID a') (rq_docker req) (with_store s1 g)))"

definition Register ::
  "(string \<Rightarrow> uuid option) \<Rightarrow> time \<Rightarrow> register_request \<Rightarrow> grpc_server \<Rightarrow>
   (rpc_error + register_response) \<times> grpc_server" where
  "Register parse now req g =
     (if rq_agent_id req \<noteq> []
      then (case parse (rq_agent_id req) of
              None \<Rightarrow> (Inl (InvalidArgument, ''invalid agent_id''), g)
            | Some agentID \<Rightarrow>
                (case agents_GetByID agentID (gs_store g) of
                   (Inr a, s1) \<Rightarrow>
                     (let a' = a\<lparr>ag_hostname := rq_hostname req, ag_version := rq_version req,
                                 ag_os := rq_os req, ag_arch := rq_arch req,
                                 ag_docker_available := (rq_docker req = Some True)\<rparr> in
                      case agents_Update now a' s1 of
                        (Inl e, s2) \<Rightarrow> (Inl (Internal, ''registration failed''), with_store s2 g)
                      | (Inr _, s2) \<Rightarrow>
                          (Inr \<lparr>rr_agent_id = ID a', rr_agent_name = ag_name a'\<rparr>,
                           cacheCapabilities (ID a') (rq_docker req) (with_store s2 g)))
                 | (Inl e, s1) \<Rightarrow>
                     if e \<noteq> ErrNotFound
                     then (Inl (Internal, ''registration failed''), with_store s1 g)
                     else register_new now req (with_store s1 g)))
      else register_new now req g)"

section \<open>Liveness\<close>

definition Heartbeat ::
  "(string \<Rightarrow> uuid option) \<Rightarrow> time \<Rightarrow> heartbeat_request \<Rightarrow> grpc_server \<Rightarrow>
   (rpc_error + bool) \<times> grpc_server" where
  "Heartbeat parse now req g =
     (case parse (hb_agent_id req) of
        None \<Rightarrow> (Inl (InvalidArgument, ''invalid agent_id''), g)
      | Some agentID \<Rightarrow>
          (let g1 = with_store (snd (agents_UpdateStatus now agentID ''online'' now (gs_store g))) g;
               g2 = (case hb_metrics req of
                       None \<Rightarrow> g1
                     | Some m \<Rightarrow>
                         gs_publish (''agent:'' @ hb_agent_id req) ''agent.metrics''
                           (JObj [(''cpu_percent'', JNum (sm_cpu m)),
                                  (''mem_percent'', JNum (sm_mem m)),
                                  (''disk_percent'', JNum (sm_disk m))]) g1) in
           (Inr False, g2)))"

text \<open>\<open>StreamJobs\<close> up to \<open><-ctx.Done()\<close>, and from there; the opened stream keeps the parsed id and the
agent row for its cleanup.\<close>

record open_stream =
  os_raw_id :: string
  os_agent_id :: uuid
  os_hostname :: string

definition StreamJobs_open ::
  "(string \<Rightarrow> uuid option) \<Rightarrow> time \<Rightarrow> string \<Rightarrow> nat \<Rightarrow> grpc_server \<Rightarrow>
   (rpc_error + open_stream) \<times> grpc_server" where
  "StreamJobs_open parse now rawID stream g =
     (case parse rawID of
        None \<Rightarrow> (Inl (InvalidArgument, ''invalid agent_id''), g)
      | Some agentID \<Rightarrow>
          (case agents_GetByID agentID (gs_store g) of
             (Inl e, s1) \<Rightarrow>
               (Inl (NotFound, ''agent not found '' @ [CHR 0xE2, CHR 0x80, CHR 0x94] @ '' call Register first''),
                with_store s1 g)
           | (Inr a, s1) \<Rightarrow>
               (let s2 = snd (agents_UpdateStatus now agentID ''online'' now s1);
                    g2 = with_store s2 g in
                (Inr \<lparr>os_raw_id = rawID, os_agent_id = agentID, os_hostname = ag_hostname a\<rparr>,
                 g2\<lparr>gs_mgr := mgr_Register now rawID (ag_hostname a) (dockerAvailable rawID g2)
                                stream (gs_mgr g2)\<rparr>))))"

definition StreamJobs_close ::
  "grpc_config \<Rightarrow> time \<Rightarrow> open_stream \<Rightarrow> grpc_server \<Rightarrow> grpc_server" where
  "StreamJobs_close cfg now os g =
     (let g1 = g\<lparr>gs_mgr := mgr_Deregister (os_raw_id os) (gs_mgr g)\<rparr>;
          s2 = snd (agents_UpdateStatus now (os_agent_id os) ''offline'' now (gs_store g1));
          s3 = snd (jobs_FailRunningJobsForAgent now (os_agent_id os) ''agent disconnected'' s2);
          g3 = with_store s3 g1 in
      if gc_notifications cfg then spawn (NotifyOffline (os_agent_id os) (os_hostname os)) g3
      else g3)"

section \<open>Job status\<close>

text \<open>What a reported status writes: the column value, whether the start or the end is set, and
whether the message is kept.\<close>

definition status_update ::
  "job_status_enum \<Rightarrow> time \<Rightarrow> string \<Rightarrow> (string \<times> time option \<times> time option \<times> string) option" where
  "status_update st now msg = (case st of
       StRunning \<Rightarrow> Some (''running'', Some now, None, [])
     | StCompleted \<Rightarrow> Some (''succeeded'', None, Some now, [])
     | StFailed \<Rightarrow> Some (''failed'', None, Some now, msg)
     | StCancelled \<Rightarrow> Some (''cancelled'', None, Some now, msg)
     | StUnspecified \<Rightarrow> None)"

definition status_payload :: "(time \<Rightarrow> string) \<Rightarrow> string \<Rightarrow> string \<Rightarrow> string \<Rightarrow> time \<Rightarrow> json" where
  "status_payload rfc jobID dbStatus msg now = JObj
     ([(''job_id'', JStr jobID), (''status'', JStr dbStatus), (''message'', JStr msg)]
      @ (if dbStatus \<in> {''succeeded'', ''failed'', ''cancelled''}
         then [(''finished_at'', JStr (rfc now))] else []))"

definition ReportJobStatus ::
  "(string \<Rightarrow> uuid option) \<Rightarrow> (time \<Rightarrow> string) \<Rightarrow> grpc_config \<Rightarrow> time \<Rightarrow> job_status_report \<Rightarrow>
   grpc_server \<Rightarrow> (rpc_error + bool) \<times> grpc_server" where
  "ReportJobStatus parse rfc cfg now req g =
     (case parse (jr_job_id req) of
        None \<Rightarrow> (Inl (InvalidArgument, ''invalid job_id''), g)
      | Some jobID \<Rightarrow>
          (case status_update (jr_status req) now (jr_message req) of
             None \<Rightarrow> (Inl (InvalidArgument, ''unknown job status''), g)
           | Some (dbStatus, started, ended, msg) \<Rightarrow>
               (case jobs_UpdateStatus now jobID dbStatus started ended msg (gs_store g) of
                  (Inl e, s1) \<Rightarrow> (Inl (Internal, ''failed to update job status''), with_store s1 g)
                | (Inr _, s1) \<Rightarrow>
                    (let g1 = gs_publish (''job:'' @ jr_job_id req) ''job.status''
                                (status_payload rfc (jr_job_id req) dbStatus (jr_message req) now)
                                (with_store s1 g);
                         g2 = (if gc_notifications cfg \<and> jr_status req \<in> {StCompleted, StFailed}
                               then spawn (NotifyTerminal jobID (jr_status req) (jr_message req)) g1
                               else g1);
                         g3 = (if gc_metrics cfg \<and> dbStatus \<noteq> ''running''
                               then spawn (RecordMetrics jobID dbStatus) g2 else g2) in
                     (Inr True, g3)))))"

section \<open>Goroutines\<close>

definition notifyJobTerminal ::
  "notif_env \<Rightarrow> time \<Rightarrow> uuid \<Rightarrow> job_status_enum \<Rightarrow> string \<Rightarrow> grpc_server \<Rightarrow> grpc_server" where
  "notifyJobTerminal env now jobID st errMsg g =
     (case jobs_GetByIDWithDetails jobID (gs_store g) of
        (Inl e, s1) \<Rightarrow> with_store s1 g
      | (Inr (row, _, _), s1) \<Rightarrow>
          (let g1 = with_store s1 g; policyID = job_policy_id (jwn_job row);
               name = jwn_policy_name row in
           if st = StCompleted
           then g1\<lparr>gs_n := snd (NotifyJobSucceeded env now jobID policyID name (gs_n g1))\<rparr>
           else if st = StFailed
           then g1\<lparr>gs_n := snd (NotifyJobFailed env now jobID policyID name errMsg (gs_n g1))\<rparr>
           else g1))"

definition recordJobMetrics :: "uuid \<Rightarrow> string \<Rightarrow> grpc_server \<Rightarrow> grpc_server" where
  "recordJobMetrics jobID dbStatus g =
     (case jobs_GetByID jobID (gs_store g) of
        (Inl e, s1) \<Rightarrow> with_store s1 g
      | (Inr j, s1) \<Rightarrow>
          (with_store s1 g)\<lparr>gs_metrics := gs_metrics g @
             [\<lparr>jm_status = dbStatus, jm_type = job_type j,
               jm_started = (case job_started_at j of None \<Rightarrow> zero_time | Some t \<Rightarrow> t),
               jm_ended = (case job_ended_at j of None \<Rightarrow> zero_time | Some t \<Rightarrow> t)\<rparr>]\<rparr>)"

fun run_task :: "notif_env \<Rightarrow> time \<Rightarrow> task \<Rightarrow> grpc_server \<Rightarrow> grpc_server" where
  "run_task env now (NotifyTerminal u st msg) g = notifyJobTerminal env now u st msg g"
| "run_task env now (NotifyOffline u host) g =
     g\<lparr>gs_n := snd (NotifyAgentOffline env now u host (gs_n g))\<rparr>"
| "run_task env now (RecordMetrics u st) g = recordJobMetrics u st g"

section \<open>Logs\<close>

definition logFlushBatchSize :: nat where "logFlushBatchSize = 50"

definition protoLevelToString :: "log_level \<Rightarrow> string" where
  "protoLevelToString l = (case l of LvWarn \<Rightarrow> ''warn'' | LvError \<Rightarrow> ''error'' | _ \<Rightarrow> ''info'')"

definition log_row :: "uuid \<Rightarrow> log_entry \<Rightarrow> job_log" where
  "log_row jobID e = \<lparr>ID = nil_uuid, CreatedAt = zero_time, UpdatedAt = zero_time,
     jl_job_id = jobID, jl_level = protoLevelToString (le_level e), jl_message = le_message e,
     jl_timestamp = (case le_timestamp e of None \<Rightarrow> zero_time | Some t \<Rightarrow> t)\<rparr>"

datatype recv = Entry log_entry | Eof | RecvError string

text \<open>The local variables of the handler.\<close>

record log_stream =
  ls_entries :: "log_entry list"
  ls_job :: "uuid option"
  ls_flushed :: nat

definition flushBatch :: "time \<Rightarrow> log_stream \<Rightarrow> store \<Rightarrow> log_stream \<times> store" where
  "flushBatch now l s =
     (let batch = drop (ls_flushed l) (ls_entries l) in
      case ls_job l of
        None \<Rightarrow> (l, s)
      | Some u \<Rightarrow>
          if batch = [] then (l, s)
          else (l\<lparr>ls_flushed := length (ls_entries l)\<rparr>,
                snd (jobs_BulkCreateLogs now (map (log_row u) batch) s)))"

definition log_payload :: "(time \<Rightarrow> string) \<Rightarrow> time \<Rightarrow> log_entry \<Rightarrow> json" where
  "log_payload rfc now e = JObj
     [(''job_id'', JStr (le_job_id e)), (''level'', JStr (protoLevelToString (le_level e))),
      (''message'', JStr (le_message e)),
      (''timestamp'', JStr (rfc (case le_timestamp e of None \<Rightarrow> now | Some t \<Rightarrow> t)))]"

text \<open>The receive loop over what the stream yields; \<open>None\<close> is a handler that still waits.\<close>

fun StreamLogs_loop ::
  "(string \<Rightarrow> uuid option) \<Rightarrow> (time \<Rightarrow> string) \<Rightarrow> time \<Rightarrow> recv list \<Rightarrow> log_stream \<Rightarrow> grpc_server \<Rightarrow>
   (rpc_error + nat) option \<times> grpc_server" where
  "StreamLogs_loop parse rfc now [] l g = (None, g)"
| "StreamLogs_loop parse rfc now (Eof # rs) l g =
     (case flushBatch now l (gs_store g) of
        (l1, s1) \<Rightarrow> (Some (Inr (length (ls_entries l1) mod 2 ^ 32)), with_store s1 g))"
| "StreamLogs_loop parse rfc now (RecvError m # rs) l g =
     (Some (Inl (Internal, ''recv error: '' @ m)), g)"
| "StreamLogs_loop parse rfc now (Entry e # rs) l g =
     (case (case ls_job l of Some u \<Rightarrow> Some u | None \<Rightarrow> parse (le_job_id e)) of
        None \<Rightarrow> (Some (Inl (InvalidArgument, ''invalid job_id in log entries'')), g)
      | Some u \<Rightarrow>
          (let l1 = l\<lparr>ls_job := Some u, ls_entries := ls_entries l @ [e]\<rparr>;
               g1 = gs_publish (''job:'' @ le_job_id e) ''job.log'' (log_payload rfc now e) g in
           if logFlushBatchSize \<le> length (ls_entries l1) - ls_flushed l1
           then (case flushBatch now l1 (gs_store g1) of
                   (l2, s2) \<Rightarrow> StreamLogs_loop parse rfc now rs l2 (with_store s2 g1))
           else StreamLogs_loop parse rfc now rs l1 g1))"

definition StreamLogs ::
  "(string \<Rightarrow> uuid option) \<Rightarrow> (time \<Rightarrow> string) \<Rightarrow> time \<Rightarrow> recv list \<Rightarrow> grpc_server \<Rightarrow>
   (rpc_error + nat) option \<times> grpc_server" where
  "StreamLogs parse rfc now rs g =
     StreamLogs_loop parse rfc now rs \<lparr>ls_entries = [], ls_job = None, ls_flushed = 0\<rparr> g"

section \<open>Destination results\<close>

definition find_job_destination :: "uuid \<Rightarrow> job_destination_with_name list \<Rightarrow> uuid" where
  "find_job_destination destID ds =
     (case find (\<lambda>d. jd_destination_id (jdn_dest d) = destID) ds of
        None \<Rightarrow> nil_uuid | Some d \<Rightarrow> ID (jdn_dest d))"

definition record_snapshot ::
  "time \<Rightarrow> uuid \<Rightarrow> uuid \<Rightarrow> destination_status_report \<Rightarrow> store \<Rightarrow> store" where
  "record_snapshot now jobID destID req s =
     (case jobs_GetByID jobID s of
        (Inl e, s1) \<Rightarrow> s1
      | (Inr j, s1) \<Rightarrow>
          snd (snapshots_Create now
            \<lparr>ID = nil_uuid, CreatedAt = zero_time, UpdatedAt = zero_time,
             snap_policy_id = job_policy_id j, snap_destination_id = destID, snap_job_id = jobID,
             snap_snapshot_id = dr_snapshot_id req, snap_size_bytes = dr_size_bytes req,
             snap_file_count = 0, snap_tags = ''[]'', snap_at = now\<rparr> s1))"

definition ReportDestinationStatus ::
  "(string \<Rightarrow> uuid option) \<Rightarrow> time \<Rightarrow> destination_status_report \<Rightarrow> grpc_server \<Rightarrow>
   (rpc_error + bool) \<times> grpc_server" where
  "ReportDestinationStatus parse now req g =
     (case parse (dr_job_id req) of
        None \<Rightarrow> (Inl (InvalidArgument, ''invalid job_id''), g)
      | Some jobID \<Rightarrow>
     (case parse (dr_destination_id req) of
        None \<Rightarrow> (Inl (InvalidArgument, ''invalid destination_id''), g)
      | Some destID \<Rightarrow>
     (case jobs_ListDestinationsByJob jobID (gs_store g) of
        (Inl e, s1) \<Rightarrow> (Inl (Internal, ''failed to look up job destinations''), with_store s1 g)
      | (Inr ds, s1) \<Rightarrow>
          (let jobDestID = find_job_destination destID ds in
           if jobDestID = nil_uuid
           then (Inl (NotFound, ''job destination not found''), with_store s1 g)
           else (let started = (case dr_started_at req of None \<Rightarrow> now | Some t \<Rightarrow> t) in
                 case jobs_UpdateDestinationStatus now jobDestID (dr_status req) (Some started)
                        (Some now) (dr_snapshot_id req) (dr_size_bytes req) (dr_error req) s1 of
                   (Inl e, s2) \<Rightarrow>
                     (Inl (Internal, ''failed to update destination status''), with_store s2 g)
                 | (Inr _, s2) \<Rightarrow>
                     (let s3 = (if dr_status req = ''succeeded'' \<and> dr_snapshot_id req \<noteq> []
                                then record_snapshot now jobID destID req s2 else s2) in
                      (Inr True, with_store s3 g)))))))"

definition ReportVolumeList :: "volume_report \<Rightarrow> grpc_server \<Rightarrow> grpc_server option" where
  "ReportVolumeList req g = map_option (\<lambda>m. g\<lparr>gs_mgr := m\<rparr>) (mgr_DeliverVolumeList req (gs_mgr g))"

end
