(* ===== verification/Files.thy ===== *)
theory Files
  imports GoMap
begin

text \<open>Files as the agent and the server write them: the state and the certificates of an agent, the embedded
binaries, and the server's key pairs.\<close>

text \<open>A file system is a map from paths to contents; \<open>fe_error\<close> says which of the operations the code calls
fail, and with what error.  What a failing write leaves in its file is \<open>fe_partial\<close>, the name
\<open>os.CreateTemp\<close> chooses is \<open>fe_temp\<close>.\<close>

datatype file_op =
    ReadFile string
  | MakeDirs string
  | CreateTemp string
  | WriteTemp
  | CloseTemp
  | RemoveTemp
  | Rename string
  | WriteFile string
  | StatFile string
  | ChmodTemp

type_synonym files = "(string \<times> string) list"

record file_env =
  fe_error :: "file_op \<Rightarrow> string option"
  fe_temp :: string
  fe_partial :: string
  fe_json_error :: "string \<Rightarrow> string"

text \<open>The deferred removal of the temporary file.\<close>

definition discard_temp :: "file_env \<Rightarrow> files \<Rightarrow> files" where
  "discard_temp fe fs = (if fe_error fe RemoveTemp = None then map_del (fe_temp fe) fs else fs)"

definition write_file :: "file_env \<Rightarrow> string \<Rightarrow> string \<Rightarrow> files \<Rightarrow> (string + unit) \<times> files" where
  "write_file fe path text fs =
     (case fe_error fe (WriteFile path) of
        Some e \<Rightarrow> (Inl e, map_put path (fe_partial fe) fs)
      | None \<Rightarrow> (Inr (), map_put path text fs))"

lemma discard_temp_other: "p \<noteq> fe_temp fe \<Longrightarrow> map_of (discard_temp fe fs) p = map_of fs p"
  by (simp add: discard_temp_def)

end
