(* ===== verification/Connection.thy ===== *)
theory Connection
  imports Executor GrpcServer Files
begin

text \<open>The agent's connection manager (\<open>agent/internal/connection/manager.go\<close>): the persisted identity,
enrollment, the choice of transport credentials, the reconnection loop, registration, the job stream, and the
log and status calls the executor makes.  Every RPC is an entry of \<open>cn_calls\<close>; what the network answers is
the parameter \<open>ce_net\<close>, which sees the calls so far (\<open>None\<close> is success).  A client is named by a number,
one for every connection; a log stream is named by the position of the call that opened it.\<close>

section \<open>The state file\<close>

definition stateFilePath :: "string \<Rightarrow> string" where
  "stateFilePath stateDir = filepath_Join stateDir ''agent-state.json''"

definition dec_state :: "(string \<times> json) list \<Rightarrow> string option" where
  "dec_state kvs = json_field dec_string ''agent_id'' [] kvs"

definition loadState :: "file_env \<Rightarrow> string \<Rightarrow> files \<Rightarrow> string + string" where
  "loadState fe stateDir fs =
     (case fe_error fe (ReadFile (stateFilePath stateDir)) of
        Some e \<Rightarrow> Inl (''connection: failed to read state file: '' @ e)
      | None \<Rightarrow>
          (case map_of fs (stateFilePath stateDir) of
             None \<Rightarrow> Inr []
           | Some text \<Rightarrow>
               (case unmarshal_struct dec_state text of
                  None \<Rightarrow> Inl (''connection: corrupted state file: '' @ fe_json_error fe text)
                | Some agentID \<Rightarrow> Inr agentID)))"

definition state_json :: "string \<Rightarrow> json" where
  "state_json agentID = JObj [(''agent_id'', JStr agentID)]"

definition saveState :: "file_env \<Rightarrow> string \<Rightarrow> string \<Rightarrow> files \<Rightarrow> (string + unit) \<times> files" where
  "saveState fe stateDir agentID fs =
     (case fe_error fe (MakeDirs stateDir) of
        Some e \<Rightarrow> (Inl (''connection: failed to create state dir: '' @ e), fs)
      | None \<Rightarrow>
     (case fe_error fe (CreateTemp stateDir) of
        Some e \<Rightarrow> (Inl (''connection: failed to create temp state file: '' @ e), fs)
      | None \<Rightarrow>
     (case fe_error fe WriteTemp of
        Some e \<Rightarrow> (Inl (''connection: failed to write state: '' @ e),
                    discard_temp fe (map_put (fe_temp fe) (fe_partial fe) fs))
      | None \<Rightarrow>
          (let text = json_text (state_json agentID);
               fs1 = map_put (fe_temp fe) text fs in
           case fe_error fe CloseTemp of
             Some e \<Rightarrow> (Inl (''connection: failed to close temp state file: '' @ e), discard_temp fe fs1)
           | None \<Rightarrow>
          (case fe_error fe (Rename (stateFilePath stateDir)) of
             Some e \<Rightarrow> (Inl (''connection: failed to rename state file: '' @ e), discard_temp fe fs1)
           | None \<Rightarrow> (Inr (), map_put (stateFilePath stateDir) text (map_del (fe_temp fe) fs1)))))))"

section \<open>Enrollment and credentials\<close>

record conn_config =
  cc_secret :: string
  cc_state_dir :: string
  cc_version :: string
  cc_docker :: bool
  cc_tls_ca :: string
  cc_client_cert :: string
  cc_client_key :: string
  cc_http_addr :: string
  cc_insecure :: bool

text \<open>The answer to the enrollment request: the status code and text, and the body or the error of reading
it.\<close>

record http_answer =
  ha_code :: int
  ha_status :: string
  ha_body :: "string + string"

definition dec_certs :: "(string \<times> json) list \<Rightarrow> (string \<times> string \<times> string) option" where
  "dec_certs kvs =
     (case (json_field dec_string ''ca_cert'' [] kvs, json_field dec_string ''client_cert'' [] kvs,
            json_field dec_string ''client_key'' [] kvs) of
        (Some ca, Some cert, Some key) \<Rightarrow> Some (ca, cert, key)
      | _ \<Rightarrow> None)"

definition decode_certs :: "file_env \<Rightarrow> string + string \<Rightarrow> string + (string \<times> string \<times> string)" where
  "decode_certs fe body = (case body of
       Inl e \<Rightarrow> Inl e
     | Inr text \<Rightarrow> (case decode_struct dec_certs text of
                     None \<Rightarrow> Inl (fe_json_error fe text) | Some certs \<Rightarrow> Inr certs))"

definition store_certs ::
  "file_env \<Rightarrow> string \<times> string \<times> string \<Rightarrow> conn_config \<times> files \<Rightarrow> (string + unit) \<times> (conn_config \<times> files)" where
  "store_certs fe certs cf =
     (case (certs, cf) of ((ca, cert, key), (cfg, fs)) \<Rightarrow>
        (let caFile = filepath_Join (cc_state_dir cfg) ''grpc-ca.crt'';
             certFile = filepath_Join (cc_state_dir cfg) ''grpc-client.crt'';
             keyFile = filepath_Join (cc_state_dir cfg) ''grpc-client.key'' in
         case write_file fe caFile ca fs of
           (Inl e, fs1) \<Rightarrow> (Inl (''enroll: failed to write CA cert: '' @ e), (cfg, fs1))
         | (Inr _, fs1) \<Rightarrow>
         (case write_file fe certFile cert fs1 of
           (Inl e, fs2) \<Rightarrow> (Inl (''enroll: failed to write client cert: '' @ e), (cfg, fs2))
         | (Inr _, fs2) \<Rightarrow>
         (case write_file fe keyFile key fs2 of
           (Inl e, fs3) \<Rightarrow> (Inl (''enroll: failed to write client key: '' @ e), (cfg, fs3))
         | (Inr _, fs3) \<Rightarrow>
             (Inr (), (cfg\<lparr>cc_tls_ca := caFile, cc_client_cert := certFile, cc_client_key := keyFile\<rparr>,
                       fs3))))))"

definition Enroll ::
  "file_env \<Rightarrow> (string \<Rightarrow> string \<Rightarrow> string + http_answer) \<Rightarrow> conn_config \<times> files \<Rightarrow>
   (string + unit) \<times> (conn_config \<times> files)" where
  "Enroll fe post cf =
     (let cfg = fst cf in
      if cc_http_addr cfg = [] then (Inl ''enrollment required but --server-http-addr is not set'', cf)
      else (case post (cc_http_addr cfg @ ''/api/v1/agents/enroll'')
                      (json_text (JObj [(''agent_secret'', JStr (cc_secret cfg))])) of
              Inl e \<Rightarrow> (Inl (''enroll: HTTP request failed: '' @ e), cf)
            | Inr resp \<Rightarrow>
                if ha_code resp \<noteq> 200 then (Inl (''enroll: server returned '' @ ha_status resp), cf)
                else (case decode_certs fe (ha_body resp) of
                        Inl e \<Rightarrow> (Inl (''enroll: failed to decode response: '' @ e), cf)
                      | Inr certs \<Rightarrow>
                          (case fe_error fe (MakeDirs (cc_state_dir cfg)) of
                             Some e \<Rightarrow> (Inl (''enroll: failed to create state dir: '' @ e), cf)
                           | None \<Rightarrow> store_certs fe certs cf))))"

text \<open>The kinds of transport: the client certificate with the CA that verifies the server, a CA alone, or the
system's pool.  Loading a key pair and reading and parsing a CA are parameters.\<close>

datatype transport =
    Plaintext
  | MutualTLS string string "string option"
  | CustomCA string
  | SystemPool

record tls_env =
  te_key_pair :: "string \<Rightarrow> string \<Rightarrow> string option"
  te_read_ca :: "string \<Rightarrow> string option"
  te_parse_ca :: "string \<Rightarrow> bool"
  te_client_ca :: "string \<Rightarrow> string option"

definition grpcServerName :: string where "grpcServerName = ''arkeep-grpc''"

definition buildTransportCredentials :: "tls_env \<Rightarrow> conn_config \<Rightarrow> string + transport" where
  "buildTransportCredentials te cfg =
     (if cc_insecure cfg then Inr Plaintext
      else if cc_client_cert cfg \<noteq> [] \<and> cc_client_key cfg \<noteq> []
      then (case te_key_pair te (cc_client_cert cfg) (cc_client_key cfg) of
              Some e \<Rightarrow> Inl (''failed to load client certificate: '' @ e)
            | None \<Rightarrow>
                if cc_tls_ca cfg = [] then Inr (MutualTLS (cc_client_cert cfg) grpcServerName None)
                else (case te_read_ca te (cc_tls_ca cfg) of
                        Some e \<Rightarrow> Inl (''failed to read CA certificate '' @ go_quote (cc_tls_ca cfg)
                                        @ '': '' @ e)
                      | None \<Rightarrow>
                          if \<not> te_parse_ca te (cc_tls_ca cfg)
                          then Inl (''failed to parse CA certificate '' @ go_quote (cc_tls_ca cfg))
                          else Inr (MutualTLS (cc_client_cert cfg) grpcServerName
                                      (Some (cc_tls_ca cfg)))))
      else if cc_tls_ca cfg \<noteq> []
      then (case te_client_ca te (cc_tls_ca cfg) of
              Some e \<Rightarrow> Inl (''failed to load CA certificate '' @ go_quote (cc_tls_ca cfg) @ '': '' @ e)
            | None \<Rightarrow> Inr (CustomCA (cc_tls_ca cfg)))
      else Inr SystemPool)"

section \<open>Calls\<close>

datatype rpc =
    RpcRegister nat register_request
  | RpcHeartbeat nat heartbeat_request
  | RpcStreamJobs nat string
  | RpcOpenLogs nat nat
  | RpcLog nat log_entry
  | RpcCloseLogs nat
  | RpcJobStatus nat job_status_report
  | RpcDestination nat destination_status_report
  | RpcVolumes nat volume_report

record conn =
  cn_client :: "nat option"
  cn_agent_id :: string
  cn_streams :: "(string \<times> nat) list"
  cn_calls :: "rpc list"

record conn_env =
  ce_net :: "rpc list \<Rightarrow> rpc \<Rightarrow> string option"
  ce_register :: "rpc list \<Rightarrow> register_request \<Rightarrow> string + register_response"
  ce_clock :: "rpc list \<Rightarrow> time"
  ce_volumes :: "(rpc list \<Rightarrow> string + volume_info list) option"
  ce_hostname :: "string option"
  ce_os :: string
  ce_arch :: string
  ce_dial :: "string option"

definition conn_New :: conn where
  "conn_New = \<lparr>cn_client = None, cn_agent_id = [], cn_streams = [], cn_calls = []\<rparr>"

definition call :: "rpc \<Rightarrow> conn \<Rightarrow> conn" where
  "call r c = c\<lparr>cn_calls := cn_calls c @ [r]\<rparr>"

definition levelToProto :: "string \<Rightarrow> log_level" where
  "levelToProto level =
     (if level = ''debug'' then LvDebug else if level = ''warn'' then LvWarn
      else if level = ''error'' then LvError else LvInfo)"

definition statusToProto :: "string \<Rightarrow> job_status_enum" where
  "statusToProto status =
     (if status = ''running'' then StRunning else if status = ''success'' then StCompleted
      else if status = ''failed'' then StFailed else StUnspecified)"

definition conn_SendLog :: "conn_env \<Rightarrow> string \<Rightarrow> string \<Rightarrow> string \<Rightarrow> conn \<Rightarrow> conn" where
  "conn_SendLog env jobID level message c =
     (case map_of (cn_streams c) jobID of
        None \<Rightarrow> c
      | Some stream \<Rightarrow>
          call (RpcLog stream \<lparr>le_job_id = jobID, le_agent_id = cn_agent_id c,
                  le_level = levelToProto level, le_message = message,
                  le_timestamp = Some (ce_clock env (cn_calls c))\<rparr>) c)"

definition openLogStream :: "conn_env \<Rightarrow> string \<Rightarrow> conn \<Rightarrow> conn" where
  "openLogStream env jobID c =
     (case cn_client c of
        None \<Rightarrow> c
      | Some client \<Rightarrow>
          (let stream = length (cn_calls c); r = RpcOpenLogs client stream; c1 = call r c in
           case ce_net env (cn_calls c) r of
             Some e \<Rightarrow> c1
           | None \<Rightarrow> c1\<lparr>cn_streams := map_put jobID stream (cn_streams c1)\<rparr>))"

definition closeLogStream :: "string \<Rightarrow> conn \<Rightarrow> conn" where
  "closeLogStream jobID c =
     (let c1 = c\<lparr>cn_streams := map_del jobID (cn_streams c)\<rparr> in
      case map_of (cn_streams c) jobID of None \<Rightarrow> c1 | Some stream \<Rightarrow> call (RpcCloseLogs stream) c1)"

definition conn_ReportStatus :: "conn_env \<Rightarrow> string \<Rightarrow> string \<Rightarrow> string \<Rightarrow> conn \<Rightarrow> conn" where
  "conn_ReportStatus env jobID status message c =
     (let c1 = (if status = ''running'' then openLogStream env jobID c else c);
          c2 = (case cn_client c1 of
                  None \<Rightarrow> c1
                | Some client \<Rightarrow>
                    call (RpcJobStatus client \<lparr>jr_job_id = jobID, jr_agent_id = cn_agent_id c1,
                            jr_status = statusToProto status, jr_message = message\<rparr>) c1) in
      if status = ''success'' \<or> status = ''failed'' \<or> status = ''cancelled''
      then closeLogStream jobID c2 else c2)"

definition conn_ReportDestinationResult ::
  "string \<Rightarrow> string \<Rightarrow> string \<Rightarrow> string \<Rightarrow> time \<Rightarrow> int \<Rightarrow> string \<Rightarrow> conn \<Rightarrow> conn" where
  "conn_ReportDestinationResult jobID destinationID status snapshotID startedAt sizeBytes errMsg c =
     (case cn_client c of
        None \<Rightarrow> c
      | Some client \<Rightarrow>
          call (RpcDestination client \<lparr>dr_job_id = jobID, dr_agent_id = cn_agent_id c,
                  dr_destination_id = destinationID, dr_status = status, dr_snapshot_id = snapshotID,
                  dr_size_bytes = sizeBytes, dr_error = errMsg, dr_started_at = Some startedAt\<rparr>) c)"

text \<open>What the executor does to the connection while it runs a job.\<close>

fun conn_event :: "conn_env \<Rightarrow> string \<Rightarrow> agent_event \<Rightarrow> conn \<Rightarrow> conn" where
  "conn_event env job (SendLog level msg) c = conn_SendLog env job level msg c"
| "conn_event env job (ReportStatus st msg) c = conn_ReportStatus env job st msg c"
| "conn_event env job (ReportDestinationResult d st snap tm sz e) c =
     conn_ReportDestinationResult job d st snap tm sz e c"
| "conn_event env job _ c = c"

definition conn_trace :: "conn_env \<Rightarrow> string \<Rightarrow> trace \<Rightarrow> conn \<Rightarrow> conn" where
  "conn_trace env job t c = fold (conn_event env job) t c"

section \<open>Volumes\<close>

definition handleVolumeListRequest :: "conn_env \<Rightarrow> string \<Rightarrow> string \<Rightarrow> conn \<Rightarrow> conn" where
  "handleVolumeListRequest env correlationID agentID c =
     (case cn_client c of
        None \<Rightarrow> c
      | Some client \<Rightarrow>
          (let (vols, err) = (case ce_volumes env of
                  None \<Rightarrow> ([], ''Docker is unavailable on this agent'')
                | Some list_volumes \<Rightarrow>
                    (case list_volumes (cn_calls c) of Inl e \<Rightarrow> ([], e) | Inr vs \<Rightarrow> (vs, []))) in
           call (RpcVolumes client \<lparr>vp_agent_id = agentID, vp_correlation_id = correlationID,
                   vp_volumes = vols, vp_error = err\<rparr>) c))"

section \<open>The job stream\<close>

text \<open>(The error is only logged.)\<close>

definition protoToJob :: "assignment \<Rightarrow> string + executor_job" where
  "protoToJob p =
     (if as_job_id p = [] then Inl ''job assignment missing job_id''
      else if as_type p = KindBackup \<or> as_type p = KindRestore
      then Inr \<lparr>ej_job_id = as_job_id p, ej_policy_id = as_policy_id p, ej_type = as_type p,
                ej_payload = as_payload p\<rparr>
      else Inl ''unsupported job type'')"

text \<open>One message of the stream, on the connection and the executor.\<close>

definition job_stream_recv :: "conn_env \<Rightarrow> string \<Rightarrow> assignment \<Rightarrow> conn \<times> executor \<Rightarrow> conn \<times> executor" where
  "job_stream_recv env agentID a cx =
     (if as_type a = KindListVolumes
      then (handleVolumeListRequest env (as_job_id a) agentID (fst cx), snd cx)
      else (case protoToJob a of
              Inl e \<Rightarrow> cx
            | Inr job \<Rightarrow> (fst cx, executor_receive job (snd cx))))"

text \<open>The loop: the messages the stream yields, then the error its end is.\<close>

definition jobStreamLoop ::
  "conn_env \<Rightarrow> nat \<Rightarrow> string \<Rightarrow> assignment list \<Rightarrow> string \<Rightarrow> conn \<times> executor \<Rightarrow> string \<times> (conn \<times> executor)" where
  "jobStreamLoop env client agentID as end cx =
     (let r = RpcStreamJobs client agentID; cx1 = (call r (fst cx), snd cx) in
      case ce_net env (cn_calls (fst cx)) r of
        Some e \<Rightarrow> (''StreamJobs open failed: '' @ e, cx1)
      | None \<Rightarrow> (''StreamJobs recv: '' @ end, fold (job_stream_recv env agentID) as cx1))"

text \<open>The heartbeat loop over its ticks; \<open>None\<close> is a loop that still waits for its next tick.\<close>

fun heartbeatLoop :: "conn_env \<Rightarrow> nat \<Rightarrow> string \<Rightarrow> system_metrics list \<Rightarrow> conn \<Rightarrow> string option \<times> conn" where
  "heartbeatLoop env client agentID [] c = (None, c)"
| "heartbeatLoop env client agentID (m # ms) c =
     (let r = RpcHeartbeat client \<lparr>hb_agent_id = agentID, hb_metrics = Some m\<rparr>; c1 = call r c in
      case ce_net env (cn_calls c) r of
        Some e \<Rightarrow> (Some (''heartbeat failed: '' @ e), c1)
      | None \<Rightarrow> heartbeatLoop env client agentID ms c1)"

section \<open>Sessions\<close>

definition conn_register ::
  "conn_env \<Rightarrow> file_env \<Rightarrow> conn_config \<Rightarrow> nat \<Rightarrow> conn \<times> files \<Rightarrow> (string + register_response) \<times> (conn \<times> files)" where
  "conn_register env fe cfg client cf =
     (let state = (case loadState fe (cc_state_dir cfg) (snd cf) of Inl e \<Rightarrow> [] | Inr i \<Rightarrow> i);
          req = \<lparr>rq_agent_id = state,
                 rq_hostname = (case ce_hostname env of None \<Rightarrow> ''unknown'' | Some h \<Rightarrow> h),
                 rq_version = cc_version cfg, rq_os = ce_os env, rq_arch = ce_arch env,
                 rq_docker = Some (cc_docker cfg)\<rparr>;
          c1 = call (RpcRegister client req) (fst cf) in
      case ce_register env (cn_calls (fst cf)) req of
        Inl e \<Rightarrow> (Inl (''register RPC failed: '' @ e), (c1, snd cf))
      | Inr resp \<Rightarrow>
          (Inr resp, (c1, if rr_agent_id resp \<noteq> state
                          then snd (saveState fe (cc_state_dir cfg) (rr_agent_id resp) (snd cf))
                          else snd cf)))"

text \<open>\<open>connect\<close> up to the start of its two loops.\<close>

definition connect_start ::
  "conn_env \<Rightarrow> tls_env \<Rightarrow> file_env \<Rightarrow> conn_config \<Rightarrow> nat \<Rightarrow> conn \<times> files \<Rightarrow>
   (string + string) \<times> (conn \<times> files)" where
  "connect_start env te fe cfg client cf =
     (case buildTransportCredentials te cfg of
        Inl e \<Rightarrow> (Inl (''failed to build transport credentials: '' @ e), cf)
      | Inr creds \<Rightarrow>
          (case ce_dial env of
             Some e \<Rightarrow> (Inl (''dial failed: '' @ e), cf)
           | None \<Rightarrow>
               (case conn_register env fe cfg client ((fst cf)\<lparr>cn_client := Some client\<rparr>, snd cf) of
                  (Inl e, cf1) \<Rightarrow> (Inl (''registration failed: '' @ e), cf1)
                | (Inr resp, (c1, fs1)) \<Rightarrow>
                    (Inr (rr_agent_id resp), (c1\<lparr>cn_agent_id := rr_agent_id resp\<rparr>, fs1)))))"

text \<open>How \<open>connect\<close> returns: an error of its start, or, once its loops run, the first value one of
them yields (the heartbeat loop yields no error only when the context is done) and whether the context is
done then.\<close>

datatype session =
    NotStarted string
  | LoopEnded "string option" bool

definition session_possible :: "session \<Rightarrow> bool" where
  "session_possible s = (case s of LoopEnded None cancelled \<Rightarrow> cancelled | _ \<Rightarrow> True)"

definition connect_result :: "session \<Rightarrow> string option" where
  "connect_result s = (case s of
       NotStarted e \<Rightarrow> Some e
     | LoopEnded err cancelled \<Rightarrow> if cancelled then None else err)"

definition session_cancelled :: "session \<Rightarrow> bool" where
  "session_cancelled s = (case s of LoopEnded err cancelled \<Rightarrow> cancelled | _ \<Rightarrow> False)"

section \<open>Reconnection\<close>

definition backoffInitial :: time where "backoffInitial = second"
definition backoffMax :: time where "backoffMax = 60 * second"

text \<open>Doubling a whole number of nanoseconds is exact in \<open>float64\<close> below 2 ^ 52.\<close>

definition nextBackoff :: "time \<Rightarrow> time" where
  "nextBackoff current = (let next = current * 2 in if next > backoffMax then backoffMax else next)"

text \<open>The jitter of 20%: \<open>rand.Float64\<close> is \<open>num / den\<close> with \<open>0 \<le> num < den\<close>; the conversion of the
result truncates, and rounding of \<open>float64\<close> below a nanosecond is left out.\<close>

definition jitter :: "nat \<times> nat \<Rightarrow> time \<Rightarrow> time" where
  "jitter r d = (let (num, den) = r in (d * (4 * int den + 2 * int num)) div (5 * int den))"

text \<open>The loop of \<open>Run\<close> over what happens in its iterations: how the session ends, whether the context is
done while it waits, and the random number of its jitter.  The result are the waits, and whether the
loop has ended.\<close>

record attempt =
  at_session :: session
  at_cancelled :: bool
  at_random :: "nat \<times> nat"

fun Run_loop :: "attempt list \<Rightarrow> time \<Rightarrow> time list \<times> bool" where
  "Run_loop [] backoff = ([], False)"
| "Run_loop (a # as) backoff =
     (case connect_result (at_session a) of
        Some e \<Rightarrow>
          if at_cancelled a then ([], True)
          else (case Run_loop as (nextBackoff backoff) of
                  (waits, ended) \<Rightarrow> (jitter (at_random a) backoff # waits, ended))
      | None \<Rightarrow>
          if session_cancelled (at_session a) then ([], True) else Run_loop as backoffInitial)"

end
