(* ===== verification/ConnectionProofs.thy ===== *)
theory ConnectionProofs
  imports Connection JsonRoundtrip
begin

text \<open>What the connection manager guarantees: the persisted identity, the calls a job makes, and the pace of
reconnection.\<close>

section \<open>The state file\<close>

lemma state_decodes: "unmarshal_struct dec_state (json_text (state_json i)) = Some i"
  unfolding unmarshal_struct_def state_json_def
  by (simp add: json_parse_text dec_state_def dec_string_def del: json_text.simps)

text \<open>C25: writing the identity is atomic.  If every operation succeeds, reading it back gives the identity that
was written, and no other file but the temporary one has changed; if any of them fails, the state file has
what it had before.\<close>

theorem saveState_atomic:
  assumes "fe_temp fe \<noteq> stateFilePath dir" "fe_error fe (ReadFile (stateFilePath dir)) = None"
  shows "case saveState fe dir i fs of
     (Inr _, fs') \<Rightarrow> loadState fe dir fs' = Inr i \<and>
       (\<forall>p. p \<noteq> stateFilePath dir \<longrightarrow> p \<noteq> fe_temp fe \<longrightarrow> map_of fs' p = map_of fs p)
   | (Inl _, fs') \<Rightarrow> loadState fe dir fs' = loadState fe dir fs"
proof -
  have same: "map_of fs' (stateFilePath dir) = map_of fs (stateFilePath dir) \<Longrightarrow>
      loadState fe dir fs' = loadState fe dir fs" for fs'
    by (simp add: loadState_def split: option.split)
  have d: "map_of (discard_temp fe (map_put (fe_temp fe) t fs)) (stateFilePath dir)
      = map_of fs (stateFilePath dir)" for t
    using assms(1) by (simp add: discard_temp_other)
  show ?thesis
    using assms same[OF refl] same[OF d]
    by (auto simp: saveState_def Let_def loadState_def state_decodes split: option.split)
qed

definition demo_files :: file_env where
  "demo_files = \<lparr>fe_error = (\<lambda>_. None), fe_temp = ''/s/agent-state.1.tmp'', fe_partial = [],
     fe_json_error = (\<lambda>_. [])\<rparr>"

lemma demo_state_path: "stateFilePath ''/s'' = ''/s/agent-state.json''"
  by code_simp

theorem saveState_atomic_witness:
  "\<exists>fs'. saveState demo_files ''/s'' ''a1'' [] = (Inr (), fs') \<and> loadState demo_files ''/s'' fs' = Inr ''a1''"
proof -
  obtain fs' where s: "saveState demo_files ''/s'' ''a1'' [] = (Inr (), fs')"
    by (simp add: saveState_def demo_files_def Let_def)
  have "fe_temp demo_files \<noteq> stateFilePath ''/s''" "fe_error demo_files (ReadFile (stateFilePath ''/s'')) = None"
    by (simp_all add: demo_files_def demo_state_path)
  from saveState_atomic[OF this, where i = "''a1''" and fs = "[]"] s show ?thesis by simp
qed

section \<open>Reconnection\<close>

lemma nextBackoff_iterate: "(nextBackoff ^^ k) backoffInitial = min (2 ^ k * second) (60 * second)"
proof (induction k)
  case 0
  then show ?case by (simp add: backoffInitial_def second_def)
next
  case (Suc k)
  then show ?case by (simp add: nextBackoff_def backoffMax_def Let_def second_def min_def)
qed

lemma jitter_bounds:
  assumes "num < den" "0 \<le> d"
  shows "4 * d \<le> 5 * (jitter (num, den) d + 1)" "5 * jitter (num, den) d \<le> 6 * d"
proof -
  have den: "0 < 5 * int den" using assms(1) by simp
  let ?n = "d * (4 * int den + 2 * int num)"
  have "5 * int den * (?n div (5 * int den)) \<le> ?n"
    using minus_mod_eq_mult_div[of ?n "5 * int den"] pos_mod_sign[OF den, of ?n] by linarith
  moreover have "?n \<le> d * (6 * int den)" using assms by (intro mult_left_mono) simp_all
  ultimately have "(5 * jitter (num, den) d) * int den \<le> (6 * d) * int den"
    by (simp add: jitter_def algebra_simps)
  then show "5 * jitter (num, den) d \<le> 6 * d" using den by (simp add: mult_le_cancel_right)
  have "?n < 5 * int den * (?n div (5 * int den) + 1)"
    using minus_mod_eq_mult_div[of ?n "5 * int den"] pos_mod_bound[OF den, of ?n]
    by (simp add: algebra_simps)
  moreover have "d * (4 * int den) \<le> ?n" using assms by (intro mult_left_mono) simp_all
  ultimately have "(4 * d) * int den \<le> (5 * (jitter (num, den) d + 1)) * int den"
    by (simp add: jitter_def algebra_simps)
  then show "4 * d \<le> 5 * (jitter (num, den) d + 1)" using den by (simp add: mult_le_cancel_right)
qed

text \<open>The attempts that are followed by a wait: those before the first that finds the context done.\<close>

definition waited :: "attempt list \<Rightarrow> attempt list" where
  "waited as = takeWhile (\<lambda>a. \<not> session_cancelled (at_session a) \<and> \<not> at_cancelled a) as"

lemma Run_loop_waits:
  assumes "list_all (\<lambda>a. session_possible (at_session a)) as"
  shows "fst (Run_loop as b) = map2 (\<lambda>k a. jitter (at_random a) ((nextBackoff ^^ k) b))
     [0..<length (waited as)] (waited as)"
  using assms
proof (induction as arbitrary: b)
  case Nil
  then show ?case by (simp add: waited_def)
next
  case (Cons a as)
  let ?f = "\<lambda>b k a. jitter (at_random a) ((nextBackoff ^^ k) b)"
  have shift: "map2 (?f b) [1..<Suc n] xs = map2 (?f (nextBackoff b)) [0..<n] xs" for n xs
    by (simp add: map_Suc_upt[symmetric] zip_map1 funpow_swap1 comp_def case_prod_unfold del: upt_Suc map_Suc_upt)
  show ?case
  proof (cases "session_cancelled (at_session a) \<or> at_cancelled a")
    case True
    with Cons.prems show ?thesis
      by (auto simp: waited_def connect_result_def session_cancelled_def session_possible_def
          split: session.split option.split)
  next
    case False
    then obtain e where "connect_result (at_session a) = Some e"
      using Cons.prems by (auto simp: connect_result_def session_cancelled_def session_possible_def
          split: session.splits option.splits)
    moreover have "waited (a # as) = a # waited as" using False by (simp add: waited_def)
    ultimately show ?thesis
      using False Cons shift[of "length (waited as)" "waited as"]
      by (simp add: upt_conv_Cons case_prod_unfold del: upt_Suc)
  qed
qed

text \<open>A session ends without an error only when the agent is stopped, so in the runs that can happen the backoff is
never reset: the base of the k-th wait is the k-th power of two in seconds, at most a minute, however long the
sessions before it lasted.\<close>

lemma backoff_never_reset:
  assumes "list_all (\<lambda>a. session_possible (at_session a)) as"
  shows "fst (Run_loop as backoffInitial) =
    map2 (\<lambda>k a. jitter (at_random a) (min (2 ^ k * second) (60 * second))) [0..<length (waited as)] (waited as)"
  using Run_loop_waits[OF assms, of backoffInitial] by (simp add: nextBackoff_iterate)

text \<open>What \<open>connect\<close> answers is all the loop looks at: an error is followed by a wait and a longer backoff, no
error by a reset.\<close>

definition failed_attempt :: "attempt \<Rightarrow> bool" where
  "failed_attempt a = (connect_result (at_session a) \<noteq> None)"

definition not_stopped :: "attempt \<Rightarrow> bool" where
  "not_stopped a = (\<not> session_cancelled (at_session a) \<and> \<not> at_cancelled a)"

definition backoff_after :: "attempt list \<Rightarrow> time \<Rightarrow> time" where
  "backoff_after as b = fold (\<lambda>a b. if failed_attempt a then nextBackoff b else backoffInitial) as b"

lemma Run_loop_append:
  "list_all not_stopped pre \<Longrightarrow>
   \<exists>ws. fst (Run_loop (pre @ as) b) = ws @ fst (Run_loop as (backoff_after pre b)) \<and>
     length ws = length (filter failed_attempt pre)"
proof (induction pre arbitrary: b)
  case Nil
  then show ?case by (simp add: backoff_after_def)
next
  case (Cons a pre)
  let ?b = "if failed_attempt a then nextBackoff b else backoffInitial"
  have after: "backoff_after (a # pre) b = backoff_after pre ?b" by (simp add: backoff_after_def)
  obtain ws where ws: "fst (Run_loop (pre @ as) ?b) = ws @ fst (Run_loop as (backoff_after pre ?b))"
    "length ws = length (filter failed_attempt pre)" using Cons.IH[of ?b] Cons.prems by auto
  show ?case
  proof (cases "connect_result (at_session a)")
    case None
    then have "\<not> failed_attempt a" by (simp add: failed_attempt_def)
    with None ws Cons.prems after show ?thesis by (intro exI[of _ ws]) (simp add: not_stopped_def)
  next
    case (Some e)
    then have "failed_attempt a" by (simp add: failed_attempt_def)
    with Some ws Cons.prems after show ?thesis
      by (intro exI[of _ "jitter (at_random a) b # ws"]) (simp add: not_stopped_def case_prod_unfold)
  qed
qed

lemma backoff_after_fails:
  "list_all failed_attempt as \<Longrightarrow> backoff_after as b = (nextBackoff ^^ length as) b"
  by (induction as arbitrary: b) (simp_all add: backoff_after_def funpow_swap1)

lemma backoff_after_reset:
  "as = [] \<or> \<not> failed_attempt (last as) \<Longrightarrow> backoff_after as backoffInitial = backoffInitial"
  by (cases as rule: rev_cases) (simp_all add: backoff_after_def)

text \<open>C35: the pace of the reconnection loop.  The agent waits after every attempt whose \<open>connect\<close> returned an
error, unless it is being stopped.  After k failures in a row, counted from the start or from the last
\<open>connect\<close> that returned without an error, the wait is the k-th power of two in seconds, at most a minute, give or
take the jitter: never under four fifths of it less a nanosecond, never over six fifths.\<close>

theorem Run_waits:
  assumes "list_all not_stopped (pre @ fails @ [a])"
    and "pre = [] \<or> \<not> failed_attempt (last pre)" "list_all failed_attempt (fails @ [a])"
    and "fst (at_random a) < snd (at_random a)"
  shows "let waits = fst (Run_loop (pre @ fails @ a # as) backoffInitial);
             n = length (filter failed_attempt (pre @ fails));
             base = min (2 ^ length fails * second) (60 * second) in
     n < length waits \<and> waits ! n = jitter (at_random a) base \<and>
     4 * base \<le> 5 * (waits ! n + 1) \<and> 5 * (waits ! n) \<le> 6 * base"
proof -
  let ?base = "min (2 ^ length fails * second) (60 * second)"
  have "backoff_after (pre @ fails) backoffInitial = backoff_after fails (backoff_after pre backoffInitial)"
    by (simp add: backoff_after_def)
  then have b: "backoff_after (pre @ fails) backoffInitial = ?base"
    using assms(2,3) by (simp add: backoff_after_reset backoff_after_fails nextBackoff_iterate)
  obtain ws where ws: "fst (Run_loop ((pre @ fails) @ a # as) backoffInitial) = ws @ fst (Run_loop (a # as) ?base)"
    "length ws = length (filter failed_attempt (pre @ fails))"
    using Run_loop_append[of "pre @ fails" "a # as" backoffInitial] assms(1) b by auto
  obtain e where "connect_result (at_session a) = Some e" using assms(3) by (auto simp: failed_attempt_def)
  then have "\<exists>us. fst (Run_loop (a # as) ?base) = jitter (at_random a) ?base # us"
    using assms(1) by (simp add: not_stopped_def case_prod_unfold)
  then obtain us where us: "fst (Run_loop (pre @ fails @ a # as) backoffInitial) = ws @ jitter (at_random a) ?base # us"
    using ws(1) by auto
  have "0 \<le> ?base" by (simp add: second_def)
  then show ?thesis
    using jitter_bounds[of "fst (at_random a)" "snd (at_random a)" ?base] assms(4) us ws(2)
    unfolding Let_def us by (simp add: nth_append)
qed

definition demo_attempt :: attempt where
  "demo_attempt = \<lparr>at_session = NotStarted ''register: unavailable'', at_cancelled = False, at_random = (1, 2)\<rparr>"

definition demo_connected :: attempt where
  "demo_connected = \<lparr>at_session = LoopEnded None False, at_cancelled = False, at_random = (1, 2)\<rparr>"

theorem Run_waits_witness:
  "fst (Run_loop [demo_attempt, demo_connected, demo_attempt, demo_attempt, demo_attempt] backoffInitial) ! 3
     = jitter (1, 2) (4 * second)"
  using Run_waits[of "[demo_attempt, demo_connected]" "[demo_attempt, demo_attempt]" demo_attempt "[]"]
  by (simp add: demo_attempt_def demo_connected_def not_stopped_def failed_attempt_def connect_result_def
      session_cancelled_def second_def Let_def numeral_eq_Suc)

end
