(* ===== verification/ResticProofs.thy ===== *)
theory ResticProofs
  imports Restic JsonRoundtrip
begin

text \<open>What the restic wrapper guarantees: the result of a backup, the environment of its children, and
which restore failures it tolerates.\<close>

section \<open>The environment of a child\<close>

lemma put_three_keys:
  "fst ` set (put_nonempty k1 a (put_nonempty k2 b (put_nonempty k3 c []))) \<subseteq> {k3, k2, k1}"
  by (auto simp: put_nonempty_def)

lemma BuildEnv_aws_only:
  assumes "dst_type dest \<noteq> ''rclone''"
  shows "fst ` set (BuildEnv dest) \<subseteq>
           {''AWS_ACCESS_KEY_ID'', ''AWS_SECRET_ACCESS_KEY'', ''AWS_DEFAULT_REGION''}"
proof -
  have "BuildEnv dest = [] \<or> (\<exists>a k r. BuildEnv dest = put_nonempty ''AWS_DEFAULT_REGION'' r
      (put_nonempty ''AWS_SECRET_ACCESS_KEY'' k (put_nonempty ''AWS_ACCESS_KEY_ID'' a [])))"
    using assms unfolding BuildEnv_def by (cases "dst_type dest = ''s3''") (auto split: option.split)
  then show ?thesis using put_three_keys by (elim disjE exE) (simp_all only: list.set image_empty empty_subsetI)
qed

lemma cmd_getenv_last:
  assumes "k \<notin> fst ` set (rd_env dest)" "k \<noteq> ''RCLONE_BINARY''"
  shows "cmd_getenv (buildCmd w dest args) k =
     (map_of (rev (wr_environ w)) ++
      map_of [(''RESTIC_PASSWORD'', rd_password dest), (''RESTIC_REPOSITORY'', rd_repo_url dest)]) k"
proof -
  have "map_of (rev (rd_env dest)) k = None"
    using assms(1) by (simp add: map_of_eq_None_iff)
  with assms(2) show ?thesis
    by (simp add: cmd_getenv_def buildCmd_def map_add_def)
qed

text \<open>The destination an assignment describes to the wrapper.\<close>

definition dest_of :: "destination \<Rightarrow> string \<Rightarrow> restic_dest" where
  "dest_of d pw = \<lparr>rd_type = dst_type d, rd_repo_url = BuildRepoURL d, rd_password = pw,
     rd_env = BuildEnv d\<rparr>"

text \<open>For every destination that is not an rclone remote, whatever its credentials contain, each restic
process sees the repository URL the server built and the password of the policy.\<close>

theorem restic_environment:
  assumes "dst_type d \<noteq> ''rclone''"
  shows "cmd_getenv (buildCmd w (dest_of d pw) args) ''RESTIC_REPOSITORY'' = Some (BuildRepoURL d) \<and>
         cmd_getenv (buildCmd w (dest_of d pw) args) ''RESTIC_PASSWORD'' = Some pw"
proof -
  have "''RESTIC_REPOSITORY'' \<notin> fst ` set (rd_env (dest_of d pw))"
    "''RESTIC_PASSWORD'' \<notin> fst ` set (rd_env (dest_of d pw))"
    using BuildEnv_aws_only[OF assms] by (auto simp: dest_of_def)
  then show ?thesis
    by (simp add: cmd_getenv_last) (simp add: dest_of_def)
qed

definition demo_dest :: "string \<Rightarrow> string \<Rightarrow> string \<Rightarrow> destination" where
  "demo_dest typ config creds = \<lparr>ID = ''d1'', CreatedAt = 1, UpdatedAt = 1, dst_name = ''backup'',
     dst_type = typ, dst_credentials = creds, dst_config = config, dst_enabled = True\<rparr>"

definition demo_wrapper :: wrapper where
  "demo_wrapper = \<lparr>wr_restic_bin = ''/restic'', wr_rclone_bin = ''/rclone'', wr_environ = [(''PATH'', ''/bin'')], wr_float = Some\<rparr>"

theorem restic_environment_witness:
  "cmd_getenv (buildCmd demo_wrapper (dest_of (demo_dest ''local'' ''{\"path\":\"/b\"}'' []) ''pw'') [''init''])
     ''RESTIC_PASSWORD'' = Some ''pw''"
  using restic_environment[of "demo_dest ''local'' ''{\"path\":\"/b\"}'' []" demo_wrapper "''pw''" "[''init'']"]
  by (simp add: demo_dest_def)

section \<open>The result of a backup\<close>

text \<open>The events among the lines of a child, and the result they leave: that of the last summary.\<close>

fun decoded :: "wrapper \<Rightarrow> string list \<Rightarrow> progress_event list" where
  "decoded w [] = []"
| "decoded w (l # ls) =
     (case unmarshal_struct (dec_event w) l of
        Some ev \<Rightarrow> if l = [] then decoded w ls else ev\<lparr>pe_raw := l\<rparr> # decoded w ls
      | None \<Rightarrow> decoded w ls)"

definition result_of :: "progress_event \<Rightarrow> backup_result" where
  "result_of ev = \<lparr>br_snapshot_id = pe_snapshot_id ev,
     br_total_bytes_processed = pe_total_bytes_processed ev, br_data_added = pe_data_added ev\<rparr>"

definition summary_result :: "progress_event list \<Rightarrow> backup_result" where
  "summary_result evs =
     (case rev (filter (\<lambda>ev. pe_message_type ev = ''summary'') evs) of
        [] \<Rightarrow> zero_result | ev # _ \<Rightarrow> result_of ev)"

lemma read_events_done:
  "read_events w f ls s = (None, s') \<Longrightarrow> s' = fold (\<lambda>ev s. snd (f ev s)) (decoded w ls) s"
proof (induction ls arbitrary: s)
  case (Cons l ls)
  show ?case
  proof (cases "l = [] \<or> unmarshal_struct (dec_event w) l = None")
    case True
    with Cons show ?thesis by (auto split: option.split if_splits)
  next
    case False
    then obtain ev where ev: "unmarshal_struct (dec_event w) l = Some ev" "l \<noteq> []" by auto
    obtain e s1 where f: "f (ev\<lparr>pe_raw := l\<rparr>) s = (e, s1)" by fastforce
    with Cons ev show ?thesis by (cases e) auto
  qed
qed simp

lemma fold_intercepted:
  "fst (fold (\<lambda>ev s. snd (intercepted f ev s)) evs rt) =
     (case rev (filter (\<lambda>ev. pe_message_type ev = ''summary'') evs) of
        [] \<Rightarrow> fst rt | ev # _ \<Rightarrow> result_of ev)"
proof (induction evs rule: rev_induct)
  case (snoc ev evs)
  then show ?case
    by (auto simp: intercepted_def Let_def result_of_def split: prod.split)
qed simp

lemma runWithProgress_done:
  assumes "runWithProgress w proc dest args f r t = (Inr (), (r', t'))"
  shows "pr_exit (proc t (buildCmd w dest args)) = None \<and>
    (r', t') = fold (\<lambda>ev s. snd (f ev s))
       (decoded w (scan_lines (pr_stdout (proc t (buildCmd w dest args)))))
       (r, t @ [Exec (buildCmd w dest args)])"
proof -
  let ?c = "buildCmd w dest args"
  let ?p = "proc t ?c"
  obtain e s1 where re: "read_events w f (scan_lines (pr_stdout ?p)) (r, t @ [Exec ?c]) = (e, s1)"
    by (metis prod.exhaust)
  show ?thesis
    using assms re read_events_done[of w f "scan_lines (pr_stdout ?p)" "(r, t @ [Exec ?c])" s1]
    by (auto simp: runWithProgress_def Let_def split: option.splits)
qed

text \<open>A backup that succeeds has run \<open>restic backup\<close> with exactly the options' tags, exclusions and sources
in that order, that process exited with status zero, and the returned result is that of the last
summary event among the lines it wrote (empty when it wrote none).\<close>

theorem Backup_result:
  assumes "Backup w proc dest opts f t = (Inr r, t')"
  shows "\<exists>t1. pr_exit (proc t1 (buildCmd w dest (backup_args opts))) = None \<and>
     r = summary_result (decoded w (scan_lines
           (pr_stdout (proc t1 (buildCmd w dest (backup_args opts))))))"
proof -
  obtain i t1 where i: "Init w proc dest t = (i, t1)" by fastforce
  obtain q r2 t2 where q: "runWithProgress w proc dest (backup_args opts) (intercepted f) zero_result t1
      = (q, (r2, t2))" by (metis prod.exhaust)
  have ok: "q = Inr ()" "r2 = r"
    using assms i q by (auto simp: Backup_def split: sum.splits)
  let ?evs = "decoded w (scan_lines (pr_stdout (proc t1 (buildCmd w dest (backup_args opts)))))"
  let ?c = "buildCmd w dest (backup_args opts)"
  have ex: "pr_exit (proc t1 ?c) = None"
    and st: "(r, t2) = fold (\<lambda>ev s. snd (intercepted f ev s)) ?evs (zero_result, t1 @ [Exec ?c])"
    using runWithProgress_done[of w proc dest "backup_args opts" "intercepted f" zero_result t1 r t2]
      q ok by simp_all
  have "r = summary_result ?evs"
    using fold_intercepted[of f ?evs "(zero_result, t1 @ [Exec ?c])"] arg_cong[OF st, of fst]
    by (simp add: summary_result_def split: list.split)
  with ex show ?thesis by blast
qed

definition demo_process :: "string \<Rightarrow> string \<Rightarrow> string option \<Rightarrow> process" where
  "demo_process out err st = \<lparr>pr_pipe_error = None, pr_start_error = None, pr_stdout = out,
     pr_stderr = err, pr_combined = out @ err, pr_exit = st\<rparr>"

definition demo_summary :: string where
  "demo_summary = json_text (JObj [(''message_type'', JStr ''summary''), (''snapshot_id'', JStr ''ab'')])"

definition demo_procs :: procs where
  "demo_procs t c = demo_process demo_summary [] None"

definition demo_rd :: restic_dest where
  "demo_rd = \<lparr>rd_type = ''local'', rd_repo_url = ''/b'', rd_password = ''pw'', rd_env = []\<rparr>"

definition demo_options :: backup_options where
  "demo_options = \<lparr>bo_sources = [''/srv''], bo_tags = [''t''], bo_excludes = []\<rparr>"

definition demo_result :: backup_result where
  "demo_result = \<lparr>br_snapshot_id = ''ab'', br_total_bytes_processed = 0, br_data_added = 0\<rparr>"

lemma demo_summary_text:
  "demo_summary = ''{\"message_type\":\"summary\",\"snapshot_id\":\"ab\"}''"
  by (simp add: demo_summary_def json_quote_def json_esc_def Let_def)

lemma demo_line: "scan_lines demo_summary = [demo_summary]" "demo_summary \<noteq> []"
  by (simp_all add: demo_summary_text scan_lines_def raw_lines_def drop_cr_def Let_def)

lemma demo_event: "unmarshal_struct (dec_event demo_wrapper) demo_summary =
   Some \<lparr>pe_message_type = ''summary'', pe_percent_done = ''0'', pe_files_new = 0, pe_files_done = 0,
     pe_bytes_done = 0, pe_total_files = 0, pe_total_bytes = 0, pe_snapshot_id = ''ab'',
     pe_total_bytes_processed = 0, pe_data_added = 0, pe_raw = []\<rparr>"
  unfolding unmarshal_struct_def demo_summary_def
  by (simp add: json_parse_text dec_event_def fold_key_def fold_char_def dec_string_def del: json_text.simps)

lemma demo_Backup:
  "fst (Backup demo_wrapper demo_procs demo_rd demo_options (\<lambda>ev t. (None, t)) []) = Inr demo_result"
  by (simp add: Backup_def Init_def run_def demo_procs_def demo_process_def runWithProgress_def Let_def
      demo_line demo_event intercepted_def demo_result_def)

theorem Backup_result_witness:
  "\<exists>t1. pr_exit (demo_procs t1 (buildCmd demo_wrapper demo_rd (backup_args demo_options))) = None \<and>
     demo_result = summary_result (decoded demo_wrapper (scan_lines
           (pr_stdout (demo_procs t1 (buildCmd demo_wrapper demo_rd (backup_args demo_options))))))"
  using Backup_result[of demo_wrapper demo_procs demo_rd demo_options "\<lambda>ev t. (None, t)" "[]" demo_result]
    demo_Backup by (metis prod.collapse)

section \<open>Tolerated restore failures\<close>

lemma scan_verdicts_True:
  "scan_verdicts hostRoot ls found \<Longrightarrow>
   list_all (\<lambda>l. line_verdict hostRoot l \<noteq> Real) ls \<and>
   (found \<or> list_ex (\<lambda>l. line_verdict hostRoot l = Tolerated) ls)"
  by (induction ls arbitrary: found) (auto split: verdict.splits)

text \<open>A restore whose process failed is taken as a success only with a host root configured, and then no
line of the error output is a real error and at least one is a refused \<open>lchown\<close>; without a host root
every failure is reported.\<close>

theorem Restore_tolerates:
  assumes "Restore w proc dest sid target incl excl hostRoot t = (Inr (), t')"
    and "pr_exit (proc t (buildCmd w dest (restore_args sid target incl excl))) \<noteq> None"
  shows "hostRoot \<noteq> [] \<and>
    (\<exists>ls. ls = split_on CHR 0x0A (trim_space (pr_stderr (proc t
            (buildCmd w dest (restore_args sid target incl excl))))) \<and>
       list_all (\<lambda>l. line_verdict hostRoot l \<noteq> Real) ls \<and>
       list_ex (\<lambda>l. line_verdict hostRoot l = Tolerated) ls)"
  using assms scan_verdicts_True
  by (fastforce simp: Restore_def runRestoreJSON_def Let_def isOnlyHostRootLchownErrors_def
      split: option.splits if_splits)

definition demo_failed :: procs where
  "demo_failed t c = demo_process []
     ''ignoring error for /hostfs/c: lchown /hostfs/c: permission denied'' (Some ''exit status 1'')"

lemma demo_Restore:
  "fst (Restore demo_wrapper demo_failed demo_rd ''ab'' ''/'' [] [] ''/hostfs'' []) = Inr ()"
  by code_simp

theorem Restore_tolerates_witness:
  "list_ex (\<lambda>l. line_verdict ''/hostfs'' l = Tolerated) (split_on CHR 0x0A (trim_space (pr_stderr
     (demo_failed [] (buildCmd demo_wrapper demo_rd (restore_args ''ab'' ''/'' [] []))))))"
  using Restore_tolerates[of demo_wrapper demo_failed demo_rd "''ab''" "''/''" "[]" "[]" "''/hostfs''" "[]"]
    demo_Restore by (simp add: prod_eq_iff demo_failed_def demo_process_def)

end
