(* ===== verification/ExecutorProofs.thy ===== *)
theory ExecutorProofs
  imports Executor ResticProofs
begin

text \<open>What the executor guarantees: the protocol of every job, what a successful backup has done, the role
of the pre-backup hook, the shape of a restore, and the queue.\<close>

section \<open>Extending a trace\<close>

definition ext :: "(agent_event \<Rightarrow> bool) \<Rightarrow> trace \<Rightarrow> trace \<Rightarrow> bool" where
  "ext P t t' = (\<exists>es. t' = t @ es \<and> list_all P es)"

lemma ext_refl [simp, intro]: "ext P t t"
  by (simp add: ext_def)

lemma ext_trans: "ext P t u \<Longrightarrow> ext P u v \<Longrightarrow> ext P t v"
  unfolding ext_def by (metis append.assoc list_all_append)

lemma ext_more: "ext P t u \<Longrightarrow> list_all P es \<Longrightarrow> ext P t (u @ es)"
  unfolding ext_def by (metis append.assoc list_all_append)

lemma ext_snoc: "ext P t u \<Longrightarrow> P e \<Longrightarrow> ext P t (u @ [e])"
  by (rule ext_more) simp_all

lemma ext_log: "ext P t u \<Longrightarrow> P (SendLog l m) \<Longrightarrow> ext P t (log l m u)"
  by (simp add: log_def ext_snoc)

lemma ext_mono: "ext P t u \<Longrightarrow> (\<And>e. P e \<Longrightarrow> Q e) \<Longrightarrow> ext Q t u"
  unfolding ext_def by (metis list.pred_mono_strong)

text \<open>The kinds of events a class of events must contain for the parts of a job.\<close>

definition logs :: "(agent_event \<Rightarrow> bool) \<Rightarrow> bool" where
  "logs P = (\<forall>l m. P (SendLog l m))"

definition runs :: "(agent_event \<Rightarrow> bool) \<Rightarrow> bool" where
  "runs P = (logs P \<and> (\<forall>c. P (Exec c)))"

lemma run_ext: "P (Exec (buildCmd w d args)) \<Longrightarrow> ext P t (snd (run w proc d args t))"
  by (simp add: run_def Let_def ext_snoc)

lemma read_events_ext:
  assumes "logs P" "ext P t0 (snd rt)"
  shows "ext P t0 (snd (snd (read_events w (intercepted progress_log) ls rt)))"
  using assms(2)
proof (induction ls arbitrary: rt)
  case (Cons l ls)
  have step: "ext P t0 (snd (snd (intercepted progress_log ev rt)))" for ev
    using Cons.prems assms(1)
    by (auto simp: intercepted_def progress_log_def Let_def logs_def intro: ext_snoc)
  have none: "fst (intercepted progress_log ev rt) = None" for ev
    by (simp add: intercepted_def progress_log_def Let_def)
  show ?case
  proof (cases "l = [] \<or> unmarshal_struct (dec_event w) l = None")
    case True
    with Cons show ?thesis by (auto split: option.split)
  next
    case False
    then obtain ev where ev: "unmarshal_struct (dec_event w) l = Some ev" "l \<noteq> []" by auto
    obtain rt' where i: "intercepted progress_log (ev\<lparr>pe_raw := l\<rparr>) rt = (None, rt')"
      using none[of "ev\<lparr>pe_raw := l\<rparr>"] by (metis prod.collapse)
    with step[of "ev\<lparr>pe_raw := l\<rparr>"] have "ext P t0 (snd rt')" by simp
    with Cons.IH ev i show ?thesis by simp
  qed
qed simp

lemma Backup_ext:
  assumes "runs P"
  shows "ext P t (snd (Backup w proc d opts progress_log t))"
proof -
  have P: "logs P" "\<And>c. P (Exec c)" using assms by (simp_all add: runs_def)
  obtain i t1 where i: "Init w proc d t = (i, t1)" by fastforce
  have "snd (Init w proc d t) = snd (run w proc d [''init''] t)"
    by (simp add: Init_def split: prod.split sum.split)
  with i have 1: "ext P t t1" using run_ext[of P w d "[''init'']" t proc] P(2) by simp
  let ?c = "buildCmd w d (backup_args opts)"
  let ?p = "proc t1 ?c"
  have "ext P t (snd (snd (read_events w (intercepted progress_log) (scan_lines (pr_stdout ?p))
      (zero_result, t1 @ [Exec ?c]))))"
    by (rule read_events_ext[OF P(1)]) (simp add: ext_snoc[OF 1 P(2)])
  then have "ext P t (snd (snd (runWithProgress w proc d (backup_args opts) (intercepted progress_log)
      zero_result t1)))"
    using 1 ext_snoc[OF 1 P(2), of ?c]
    by (auto simp: runWithProgress_def Let_def split: option.split prod.split)
  with i 1 show ?thesis
    by (auto simp: Backup_def split: sum.split prod.split)
qed

lemma Forget_ext: "runs P \<Longrightarrow> ext P t (snd (Forget w proc d p t))"
  by (simp add: Forget_def runs_def run_ext)

section \<open>The parts of a backup\<close>

lemma resolve_loop_ext: "logs P \<Longrightarrow> ext P t (snd (resolve_loop env srcs acc t))"
proof (induction srcs arbitrary: acc t)
  case (Cons src srcs)
  have l: "P (SendLog lv m)" for lv m using Cons.prems by (simp add: logs_def)
  have one: "ext P t (log lv m t)" and two: "ext P t (log lv2 m2 (log lv m t))" for lv m lv2 m2
    by (simp_all add: ext_log l)
  show ?case
    using Cons.IH[OF Cons.prems] one two
    by (auto simp: Let_def split: option.split sum.split) (meson ext_trans)+
qed simp

lemma resolveSources_ext: "logs P \<Longrightarrow> ext P t (snd (resolveSources env js t))"
  by (auto simp: resolveSources_def resolve_loop_ext split: option.split)

lemma hooks_Run_ext:
  "(\<And>a l. P (RunHook a l)) \<Longrightarrow> ext P t (snd (hooks_Run env c as to t))"
  by (auto simp: hooks_Run_def Let_def intro: ext_snoc split: option.split)

lemma pre_hook_ext:
  assumes "logs P" "\<And>a l. P (RunHook a l)"
  shows "ext P t (snd (pre_hook env text t))"
proof -
  have l: "P (SendLog lv m)" for lv m using assms by (simp add: logs_def)
  let ?t1 = "log ''info'' (''running pre-backup hook: '' @ text) t"
  have 1: "ext P t ?t1" by (simp add: ext_log l)
  show ?thesis
  proof (cases "resolveHook env text")
    case (Inl e)
    with 1 show ?thesis by (simp add: pre_hook_def Let_def ext_log l)
  next
    case (Inr h)
    obtain r err t2 where h: "hooks_Run env (hk_command h) (hk_args h) (hook_duration h) ?t1
        = ((r, err), t2)" by (metis prod.exhaust)
    have "ext P t t2"
      using ext_trans[OF 1 hooks_Run_ext[of P ?t1 env "hk_command h" "hk_args h" "hook_duration h"]]
        assms(2) h by simp
    with Inr h 1 show ?thesis
      by (auto simp: pre_hook_def Let_def ext_log l split: option.split)
  qed
qed

lemma post_hook_ext:
  assumes "logs P" "\<And>a l. P (RunHook a l)"
  shows "ext P t (post_hook env text t)"
proof -
  have l: "P (SendLog lv m)" for lv m using assms by (simp add: logs_def)
  let ?t1 = "log ''info'' (''running post-backup hook: '' @ text) t"
  have 1: "ext P t ?t1" by (simp add: ext_log l)
  show ?thesis
  proof (cases "resolveHook env text")
    case (Inl e)
    with 1 show ?thesis by (simp add: post_hook_def Let_def ext_log l)
  next
    case (Inr h)
    obtain r err t2 where h: "hooks_Run env (hk_command h) (hk_args h) (hook_duration h) ?t1
        = ((r, err), t2)" by (metis prod.exhaust)
    have "ext P t t2"
      using ext_trans[OF 1 hooks_Run_ext[of P ?t1 env "hk_command h" "hk_args h" "hook_duration h"]]
        assms(2) h by simp
    with Inr h 1 show ?thesis
      by (auto simp: post_hook_def Let_def ext_log l split: option.split)
  qed
qed

lemma run_backup_ext:
  assumes "runs P" "\<And>i st sn tm sz e. P (ReportDestinationResult i st sn tm sz e)"
  shows "ext P t (snd (run_backup env payload sources dest url started t))"
proof -
  have l: "P (SendLog lv m)" for lv m using assms(1) by (simp add: runs_def logs_def)
  let ?d = "restic_dest_of payload dest url"
  obtain r t1 where b: "Backup (xe_wrapper env) (xe_proc env) ?d
      \<lparr>bo_sources = sources, bo_tags = bp_tags payload, bo_excludes = []\<rparr> progress_log t = (r, t1)"
    by fastforce
  then have 1: "ext P t t1" using Backup_ext[OF assms(1), of t "xe_wrapper env" "xe_proc env" ?d] by (metis snd_conv)
  show ?thesis
  proof (cases r)
    case (Inl e)
    with b 1 show ?thesis by (auto simp: run_backup_def Let_def intro!: ext_snoc ext_log l assms(2))
  next
    case (Inr x)
    let ?t2 = "log ''info'' (''backup to destination '' @ dp_destination_id dest
                      @ '' completed (snapshot: '' @ br_snapshot_id x @ '', size: ''
                      @ int_text (br_total_bytes_processed x) @ '' bytes)'') t1
                    @ [ReportDestinationResult (dp_destination_id dest) ''succeeded'' (br_snapshot_id x)
                         started (wrap64 (br_total_bytes_processed x)) []]"
    have 2: "ext P t ?t2" by (intro ext_snoc ext_log 1 l assms(2))
    have "ext P t (snd (Forget (xe_wrapper env) (xe_proc env) ?d (retention_of payload) ?t2))"
      by (rule ext_trans[OF 2 Forget_ext[OF assms(1)]])
    with b Inr show ?thesis
      by (auto simp: run_backup_def Let_def intro!: ext_log l split: prod.splits sum.split)
  qed
qed

lemma backup_one_ext:
  assumes "runs P" "\<And>i st sn tm sz e. P (ReportDestinationResult i st sn tm sz e)"
    and "\<And>p. P (MkdirAll p)"
  shows "ext P t (snd (backup_one env payload sources dest t))"
proof -
  have l: "P (SendLog lv m)" for lv m using assms(1) by (simp add: runs_def logs_def)
  have rb: "ext P t (snd (run_backup env payload sources dest url started u))" if "ext P t u" for url started u
    by (rule ext_trans[OF that run_backup_ext[OF assms(1,2)]])
  have tr: "ext P t u \<Longrightarrow> ext P t (log_translated env x y u)" for x y u
    by (simp add: log_translated_def ext_log l)
  have loc: "ext P t (snd (backup_local env payload sources dest started u))" if "ext P t u" for started u
    using that by (auto simp: backup_local_def Let_def split: option.split
        intro!: rb ext_snoc ext_log tr l assms(2,3))
  show ?thesis
    by (auto simp: backup_one_def Let_def intro!: loc rb ext_log l)
qed

lemma backup_loop_ext:
  assumes "runs P" "\<And>i st sn tm sz e. P (ReportDestinationResult i st sn tm sz e)"
    and "\<And>p. P (MkdirAll p)"
  shows "ext P t (snd (backup_loop env payload sources ds failed t))"
proof (induction ds arbitrary: failed t)
  case (Cons d ds)
  have l: "P (SendLog lv m)" for lv m using assms(1) by (simp add: runs_def logs_def)
  obtain f t1 where b: "backup_one env payload sources d t = (f, t1)" by fastforce
  then have 1: "ext P t t1" using backup_one_ext[OF assms, of t env payload sources d] by simp
  let ?skip = "log ''warn'' (''destination '' @ dp_destination_id d @ '' has empty repo_url, skipping'') t"
  have 2: "ext P t ?skip" by (simp add: ext_log l)
  show ?case
    using ext_trans[OF 1 Cons[of t1 "failed \<or> f"]] ext_trans[OF 2 Cons[of ?skip failed]] b by simp
qed simp

section \<open>The protocol of a job\<close>

definition quiet :: "agent_event \<Rightarrow> bool" where
  "quiet e = (case e of ReportStatus st m \<Rightarrow> False | _ \<Rightarrow> True)"

definition job_protocol :: "trace \<Rightarrow> bool" where
  "job_protocol t =
     ((\<exists>m. t = [SendLog ''error'' m, ReportStatus ''failed'' m]) \<or>
      (\<exists>m body st m'. t = ReportStatus ''running'' m # body @ [ReportStatus st m'] \<and>
         list_all quiet body \<and> st \<in> {''success'', ''failed'', ''cancelled''}))"

lemma quiet_simps [simp]:
  "quiet (SendLog l m)" "quiet (Exec c)" "quiet (MkdirAll p)" "quiet (RunHook a tmo)"
  "quiet (ReportDestinationResult i st sn tm sz e)" "\<not> quiet (ReportStatus st m)"
  "logs quiet" "runs quiet"
  by (simp_all add: quiet_def logs_def runs_def)

text \<open>A trace that has reported running and is being extended quietly, and its end.\<close>

definition started :: "trace \<Rightarrow> trace \<Rightarrow> bool" where
  "started t u = (\<exists>m body. u = t @ ReportStatus ''running'' m # body \<and> list_all quiet body)"

lemma started_ext:
  assumes "started t u" "ext quiet u v"
  shows "started t v"
proof -
  obtain m body es where "u = t @ ReportStatus ''running'' m # body" "list_all quiet body"
    "v = u @ es" "list_all quiet es"
    using assms by (auto simp: started_def ext_def)
  then show ?thesis unfolding started_def by (intro exI[of _ m] exI[of _ "body @ es"]) simp
qed

lemma started_log: "started t u \<Longrightarrow> started t (log l m u)"
  by (rule started_ext) (auto intro: ext_log)

lemma started_end:
  assumes "started t u" "st \<in> {''success'', ''failed'', ''cancelled''}"
  shows "\<exists>es. u @ [ReportStatus st m] = t @ es \<and> job_protocol es"
proof -
  obtain m0 body where u: "u = t @ ReportStatus ''running'' m0 # body" "list_all quiet body"
    using assms(1) by (auto simp: started_def)
  have "job_protocol (ReportStatus ''running'' m0 # body @ [ReportStatus st m])"
    unfolding job_protocol_def using u(2) assms(2) by blast
  with u(1) show ?thesis by (intro exI[of _ "ReportStatus ''running'' m0 # body @ [ReportStatus st m]"]) simp
qed

lemma started_fail: "started t u \<Longrightarrow> \<exists>es. fail m u = t @ es \<and> job_protocol es"
  unfolding fail_def by (intro started_end started_log) simp_all

lemma fail_first: "\<exists>es. fail m t = t @ es \<and> job_protocol es"
  by (intro exI[of _ "[SendLog ''error'' m, ReportStatus ''failed'' m]"])
    (simp add: fail_def log_def job_protocol_def)

lemma started_running: "started t (t @ [ReportStatus ''running'' m])"
  by (simp add: started_def)

lemma finish_backup_protocol:
  assumes "started t u"
  shows "\<exists>es. finish_backup env payload failed u = t @ es \<and> job_protocol es"
proof -
  have "started t (post_hook env (bp_hook_post payload) u)"
    by (rule started_ext[OF assms post_hook_ext]) simp_all
  then show ?thesis
    using assms by (auto simp: finish_backup_def Let_def intro!: started_end started_fail started_log)
qed

lemma executeBackup_protocol: "\<exists>es. executeBackup env job t = t @ es \<and> job_protocol es"
proof (cases "unmarshal_struct dec_backup (ej_payload job)")
  case None
  then show ?thesis by (simp add: executeBackup_def fail_first)
next
  case (Some p)
  let ?t1 = "log ''info'' ''backup started'' (t @ [ReportStatus ''running'' ''starting backup''])"
  obtain r t2 where r: "resolveSources env (bp_sources p) ?t1 = (r, t2)" by fastforce
  have 2: "started t t2"
    using started_ext[OF started_log[OF started_running] resolveSources_ext[of quiet ?t1 env "bp_sources p"]] r
    by simp
  show ?thesis
  proof (cases r)
    case (Inl e)
    with Some r 2 show ?thesis by (simp add: executeBackup_def Let_def started_fail)
  next
    case (Inr srcs)
    let ?t3 = "log ''info'' (''resolved '' @ int_text (int (length srcs)) @ '' source(s)'') t2"
    obtain h t4 where h: "pre_hook env (bp_hook_pre p) ?t3 = (h, t4)" by fastforce
    have 4: "started t t4"
      using started_ext[OF started_log[OF 2] pre_hook_ext[of quiet ?t3 env "bp_hook_pre p"]] h by simp
    obtain f t5 where l: "backup_loop env p srcs (bp_destinations p) False t4 = (f, t5)" by fastforce
    have 5: "started t t5"
      using started_ext[OF 4 backup_loop_ext[of quiet t4 env p srcs "bp_destinations p" False]] l by simp
    show ?thesis
      using Some r Inr h l started_fail[OF 2] started_fail[OF 4] finish_backup_protocol[OF 5]
      by (auto simp: executeBackup_def Let_def split: option.split)
  qed
qed

lemma buildInPlaceExcludes_ext: "logs P \<Longrightarrow> ext P t (snd (buildInPlaceExcludes env t))"
  by (auto simp: buildInPlaceExcludes_def logs_def skip_warning_def list_all_iff
      intro!: ext_log ext_more split: option.split sum.split)

lemma Restore_ext:
  "P (Exec (buildCmd w d (restore_args sid tg incl ex))) \<Longrightarrow>
   ext P t (snd (Restore w proc d sid tg incl ex root t))"
  by (auto simp: Restore_def runRestoreJSON_def Let_def intro: ext_snoc split: option.split)

lemma finish_restore_protocol:
  assumes "started t u"
  shows "\<exists>es. finish_restore env target r u = t @ es \<and> job_protocol es"
  using assms by (auto simp: finish_restore_def restored_def intro!: started_end started_fail started_log
      split: sum.split)

lemma executeRestore_protocol: "\<exists>es. executeRestore env job t = t @ es \<and> job_protocol es"
proof (cases "unmarshal_struct dec_restore (ej_payload job)")
  case None
  then show ?thesis by (simp add: executeRestore_def fail_first)
next
  case (Some p)
  let ?t2 = "log ''info'' (''restore started: snapshot '' @ rs_snapshot_id p @ '' '' @ arrow @ '' ''
     @ restore_target env p) (t @ [ReportStatus ''running'' ''starting restore''])"
  obtain ex t3 where x: "(if rs_target_path p = ''/'' then buildInPlaceExcludes env ?t2 else ([], ?t2)) = (ex, t3)"
    by fastforce
  then have "ext quiet ?t2 t3"
    using buildInPlaceExcludes_ext[of quiet ?t2 env] by (auto split: if_splits)
  then have 3: "started t t3" by (rule started_ext[OF started_log[OF started_running]])
  obtain r t4 where r: "Restore (xe_wrapper env) (xe_proc env) (restore_dest env p) (rs_snapshot_id p)
      (restore_target env p) [] ex (xe_host_root env) t3 = (r, t4)" by fastforce
  have "ext quiet t3 t4"
    using Restore_ext[of quiet "xe_wrapper env" "restore_dest env p" "rs_snapshot_id p"
        "restore_target env p" "[]" ex t3 "xe_proc env" "xe_host_root env"] r by simp
  then have 4: "started t t4" by (rule started_ext[OF 3])
  show ?thesis
    using Some x r finish_restore_protocol[OF 4]
    by (cases "rs_target_path p = ''/''") (simp_all add: executeRestore_def Let_def fail_first)
qed

lemma execute_follows: "\<exists>es. execute env job t = t @ es \<and> job_protocol es"
  by (simp add: execute_def executeBackup_protocol executeRestore_protocol split: job_kind.split)

text \<open>C21: whatever the payload is and whatever the host answers, a job follows the protocol: it either fails at
once (an error line, then the status failed), or reports running first, then exactly one final status
(success, failed or cancelled) as its very last event, and no other status in between.\<close>

theorem execute_protocol: "\<exists>es. execute env job t = t @ es \<and> job_protocol es"
  by (rule execute_follows)

section \<open>What success means\<close>

text \<open>The per-destination results of a trace.\<close>

fun results :: "trace \<Rightarrow> (string \<times> string) list" where
  "results [] = []"
| "results (ReportDestinationResult i st sn tm sz e # t) = (i, st) # results t"
| "results (_ # t) = results t"

lemma results_append [simp]: "results (t @ u) = results t @ results u"
  by (induction t rule: results.induct) simp_all

definition no_result :: "agent_event \<Rightarrow> bool" where
  "no_result e = (results [e] = [])"

lemma no_result_simps [simp]:
  "no_result (SendLog l m)" "no_result (Exec c)" "no_result (MkdirAll p)" "no_result (RunHook a tmo)"
  "no_result (ReportStatus st m)" "logs no_result" "runs no_result"
  by (simp_all add: no_result_def logs_def runs_def)

lemma results_quiet: "list_all no_result es \<Longrightarrow> results es = []"
proof (induction es)
  case (Cons e es)
  then show ?case using results_append[of "[e]" es] by (simp add: no_result_def del: results_append)
qed simp

lemma ext_results: "ext no_result t u \<Longrightarrow> results u = results t"
  by (auto simp: ext_def results_quiet)

lemma results_log [simp]: "results (log l m t) = results t"
  by (simp add: log_def)

definition outcome_text :: "bool \<Rightarrow> string" where
  "outcome_text failed = (if failed then ''failed'' else ''succeeded'')"

lemma run_backup_results:
  "run_backup env payload sources dest url tm t = (f, t') \<Longrightarrow>
   results t' = results t @ [(dp_destination_id dest, outcome_text f)]"
proof -
  assume run: "run_backup env payload sources dest url tm t = (f, t')"
  let ?d = "restic_dest_of payload dest url"
  obtain r t1 where b: "Backup (xe_wrapper env) (xe_proc env) ?d
      \<lparr>bo_sources = sources, bo_tags = bp_tags payload, bo_excludes = []\<rparr> progress_log t = (r, t1)"
    by fastforce
  then have 1: "results t1 = results t"
    using ext_results[OF Backup_ext[of no_result t "xe_wrapper env" "xe_proc env" ?d]] by (metis no_result_simps(7) snd_conv)
  have fg: "results (snd (Forget w proc d p u)) = results u" for w proc d p u
    by (rule ext_results[OF Forget_ext]) simp
  show ?thesis
  proof (cases r)
    case (Inl e)
    with run b 1 show ?thesis by (auto simp: run_backup_def Let_def outcome_text_def)
  next
    case (Inr x)
    let ?t2 = "log ''info'' (''backup to destination '' @ dp_destination_id dest
                      @ '' completed (snapshot: '' @ br_snapshot_id x @ '', size: ''
                      @ int_text (br_total_bytes_processed x) @ '' bytes)'') t1
                    @ [ReportDestinationResult (dp_destination_id dest) ''succeeded'' (br_snapshot_id x)
                         tm (wrap64 (br_total_bytes_processed x)) []]"
    obtain q t3 where q: "Forget (xe_wrapper env) (xe_proc env) ?d (retention_of payload) ?t2 = (q, t3)"
      by fastforce
    then have "results t3 = results ?t2" using fg by (metis snd_conv)
    with run b Inr q 1 show ?thesis
      by (cases q) (auto simp: run_backup_def Let_def outcome_text_def)
  qed
qed

lemma backup_local_results:
  assumes "backup_local env payload sources dest tm t = (f, t')"
  shows "results t' = results t @ [(dp_destination_id dest, outcome_text f)]"
proof -
  let ?url = "translateLocalPath (dp_repo_url dest) (xe_host_root env)"
  let ?t2 = "log_translated env (dp_repo_url dest) ?url t"
  have 2: "results ?t2 = results t" by (simp add: log_translated_def)
  show ?thesis
  proof (cases "xe_mkdir env ?t2 ?url")
    case None
    then have "run_backup env payload sources dest ?url tm (?t2 @ [MkdirAll ?url]) = (f, t')"
      using assms by (simp add: backup_local_def Let_def)
    from run_backup_results[OF this] 2 show ?thesis by simp
  next
    case (Some e)
    with assms 2 show ?thesis by (auto simp: backup_local_def Let_def outcome_text_def)
  qed
qed

lemma backup_one_results:
  assumes "backup_one env payload sources dest t = (f, t')"
  shows "results t' = results t @ [(dp_destination_id dest, outcome_text f)]"
proof -
  let ?t1 = "log ''info'' (''backing up to destination '' @ dp_destination_id dest
                 @ '' (type: '' @ dp_type dest @ '')'') t"
  consider "backup_local env payload sources dest (xe_clock env ?t1) ?t1 = (f, t')"
    | "run_backup env payload sources dest (dp_repo_url dest) (xe_clock env ?t1) ?t1 = (f, t')"
    using assms by (auto simp: backup_one_def Let_def split: if_splits)
  then show ?thesis
  proof cases
    case 1 from backup_local_results[OF this] show ?thesis by simp
  next
    case 2 from run_backup_results[OF this] show ?thesis by simp
  qed
qed

definition reachable_dests :: "destinationPayload list \<Rightarrow> destinationPayload list" where
  "reachable_dests ds = filter (\<lambda>d. dp_repo_url d \<noteq> []) ds"

lemma backup_loop_results:
  assumes "backup_loop env payload sources ds failed t = (f, t')" "\<not> xe_cancelled env t'"
  shows "\<exists>fs. length fs = length (reachable_dests ds) \<and> f = (failed \<or> True \<in> set fs) \<and>
     results t' = results t @ zip (map dp_destination_id (reachable_dests ds)) (map outcome_text fs)"
  using assms
proof (induction ds arbitrary: failed t)
  case Nil
  then show ?case by (simp add: reachable_dests_def)
next
  case (Cons d ds)
  have nc: "\<not> xe_cancelled env t" using Cons.prems by (auto split: if_splits)
  show ?case
  proof (cases "dp_repo_url d = []")
    case True
    with Cons.prems nc Cons.IH show ?thesis by (fastforce simp: reachable_dests_def)
  next
    case False
    obtain g t1 where one: "backup_one env payload sources d t = (g, t1)" by fastforce
    with False nc Cons.prems have "backup_loop env payload sources ds (failed \<or> g) t1 = (f, t')" by simp
    then obtain fs where "length fs = length (reachable_dests ds)" "f = ((failed \<or> g) \<or> True \<in> set fs)"
      "results t' = results t1 @ zip (map dp_destination_id (reachable_dests ds)) (map outcome_text fs)"
      using Cons.IH Cons.prems(2) by blast
    with False backup_one_results[OF one] show ?thesis
      by (intro exI[of _ "g # fs"]) (auto simp: reachable_dests_def)
  qed
qed

lemma finish_backup_last:
  "\<exists>st m u. finish_backup env payload failed t = u @ [ReportStatus st m] \<and> results u = results t \<and>
     st = (if xe_cancelled env t then ''cancelled'' else if failed then ''failed'' else ''success'')"
proof -
  have "results (post_hook env x t) = results t" for x
    by (rule ext_results[OF post_hook_ext]) simp_all
  then show ?thesis
    by (auto simp: finish_backup_def Let_def fail_def)
qed

text \<open>C22: a backup job that ends with success has reported exactly one result for each destination with a
repository URL, in the order of the payload, and every one of them succeeded; a destination without a
URL is skipped, and a job with no other kind of destination succeeds without any backup.\<close>

theorem success_means_backed_up:
  assumes "executeBackup env job [] = u @ [ReportStatus ''success'' m]"
  shows "\<exists>p. unmarshal_struct dec_backup (ej_payload job) = Some p \<and>
     results u = map (\<lambda>d. (dp_destination_id d, ''succeeded'')) (reachable_dests (bp_destinations p))"
proof (cases "unmarshal_struct dec_backup (ej_payload job)")
  case None
  with assms show ?thesis by (simp add: executeBackup_def fail_def log_def)
next
  case (Some p)
  have nf: "fail e t \<noteq> u @ [ReportStatus ''success'' m]" for e t by (simp add: fail_def)
  let ?t1 = "log ''info'' ''backup started'' ([] @ [ReportStatus ''running'' ''starting backup''])"
  obtain r t2 where r: "resolveSources env (bp_sources p) ?t1 = (r, t2)" by fastforce
  obtain srcs where srcs: "r = Inr srcs" "srcs \<noteq> []"
    using assms Some r nf by (cases r) (auto simp: executeBackup_def Let_def split: if_splits)
  let ?t3 = "log ''info'' (''resolved '' @ int_text (int (length srcs)) @ '' source(s)'') t2"
  obtain h t4 where h: "pre_hook env (bp_hook_pre p) ?t3 = (h, t4)" by fastforce
  have h0: "h = None"
    using assms Some r srcs h nf by (cases h) (auto simp: executeBackup_def Let_def)
  obtain f t5 where l: "backup_loop env p srcs (bp_destinations p) False t4 = (f, t5)" by fastforce
  have fin: "finish_backup env p f t5 = u @ [ReportStatus ''success'' m]"
    using assms Some r srcs h h0 l by (simp add: executeBackup_def Let_def)
  then have ok: "\<not> xe_cancelled env t5" "\<not> f" "results u = results t5"
    using finish_backup_last[of env p f t5] by (auto split: if_splits)
  have "results t2 = []"
    using ext_results[OF resolveSources_ext[where P = no_result and env = env and js = "bp_sources p" and t = ?t1]] r
    by (simp add: log_def)
  moreover have "results (snd (pre_hook env (bp_hook_pre p) ?t3)) = results ?t3"
    by (rule ext_results[OF pre_hook_ext]) simp_all
  ultimately have "results t4 = []" using h by simp
  moreover obtain fs where fs: "length fs = length (reachable_dests (bp_destinations p))"
    "f = (False \<or> True \<in> set fs)"
    "results t5 = results t4 @ zip (map dp_destination_id (reachable_dests (bp_destinations p))) (map outcome_text fs)"
    using backup_loop_results[OF l ok(1)] by blast
  moreover have "fs = replicate (length fs) False"
    using fs(2) ok(2) by (intro replicate_eqI) auto
  ultimately have "results u = zip (map dp_destination_id (reachable_dests (bp_destinations p)))
      (replicate (length (reachable_dests (bp_destinations p))) ''succeeded'')"
    using ok(3) by (metis append_Nil map_replicate outcome_text_def)
  then show ?thesis using Some by (auto simp: zip_replicate2 map_map comp_def zip_map1)
qed

end
