(* ===== verification/Frames.thy ===== *)
theory Frames
  imports AccountRepositories
begin

text \<open>What the repository operations leave unchanged.  Each lemma is stated for any part \<open>p\<close> of the
store that the operation's table update does not touch; the component theories instantiate it.\<close>

lemma snd_jobs_BulkCreateLogs:
  "snd (jobs_BulkCreateLogs now ls s) =
     (if ls = [] then s else snd (db_create_all job_logs job_logs_update job_log_check now ls s))"
  by (simp add: jobs_BulkCreateLogs_def split: prod.split sum.split)

lemma jobs_Create_frame:
  "engine_free p \<Longrightarrow> (\<And>f s. p (jobs_update f s) = p s) \<Longrightarrow> p (snd (jobs_Create now j s)) = p s"
  unfolding jobs_Create_def snd_wrapped by (rule db_create_frame)

lemma jobs_CreateDestination_frame:
  "engine_free p \<Longrightarrow> (\<And>f s. p (job_destinations_update f s) = p s) \<Longrightarrow>
   p (snd (jobs_CreateDestination now d s)) = p s"
  unfolding jobs_CreateDestination_def snd_wrapped by (rule db_create_frame)

lemma jobs_GetByID_frame: "engine_free p \<Longrightarrow> p (snd (jobs_GetByID u s)) = p s"
  unfolding jobs_GetByID_def by (rule db_first_frame)

lemma jobs_UpdateStatus_frame:
  "engine_free p \<Longrightarrow> (\<And>f s. p (jobs_update f s) = p s) \<Longrightarrow>
   p (snd (jobs_UpdateStatus now u st a b msg s)) = p s"
  unfolding jobs_UpdateStatus_def snd_rows_affected by (rule db_update_frame)

lemma jobs_FailRunning_frame:
  "engine_free p \<Longrightarrow> (\<And>f s. p (jobs_update f s) = p s) \<Longrightarrow>
   p (snd (jobs_FailRunningJobsForAgent now a msg s)) = p s"
  unfolding jobs_FailRunningJobsForAgent_def snd_wrapped by (rule db_update_frame)

lemma jobs_UpdateDestinationStatus_frame:
  "engine_free p \<Longrightarrow> (\<And>f s. p (job_destinations_update f s) = p s) \<Longrightarrow>
   p (snd (jobs_UpdateDestinationStatus now u st a b sn sz msg s)) = p s"
  unfolding jobs_UpdateDestinationStatus_def snd_rows_affected by (rule db_update_frame)

lemma jobs_BulkCreateLogs_frame:
  "engine_free p \<Longrightarrow> (\<And>f s. p (job_logs_update f s) = p s) \<Longrightarrow>
   p (snd (jobs_BulkCreateLogs now ls s)) = p s"
  unfolding snd_jobs_BulkCreateLogs using db_create_all_frame[of p job_logs_update] by simp

lemma jobs_ListDestinationsByJob_frame:
  "engine_free p \<Longrightarrow> p (snd (jobs_ListDestinationsByJob u s)) = p s"
  unfolding jobs_ListDestinationsByJob_def by (rule sql_frame) simp_all

lemma jobs_GetLogs_frame: "engine_free p \<Longrightarrow> p (snd (jobs_GetLogs u s)) = p s"
  unfolding jobs_GetLogs_def by (rule db_find_frame)

lemma jobs_GetByIDWithDetails_frame:
  assumes "engine_free p" shows "p (snd (jobs_GetByIDWithDetails u s)) = p s"
proof -
  have "p (snd (sql (\<lambda>s. (Inr (g s), s)) t)) = p t" for g :: "store \<Rightarrow> job_with_names list" and t
    by (rule sql_frame[OF assms]) simp
  from this[of "\<lambda>s. map (listJobsJoin s) (filter (\<lambda>j. ID j = u) (jobs s))" s]
    jobs_ListDestinationsByJob_frame[OF assms, of u] jobs_GetLogs_frame[OF assms, of u]
  show ?thesis
    by (auto simp: jobs_GetByIDWithDetails_def Let_def split: prod.split sum.split list.split)
      (metis snd_conv)+
qed

lemma jobs_listing_frame:
  assumes "engine_free p" shows "p (snd (jobs_listing P opts s)) = p s"
proof -
  have q: "p (snd (sql (\<lambda>s. (Inr (g s), s)) t)) = p t" for g :: "store \<Rightarrow> job_with_names list" and t
    by (rule sql_frame[OF assms]) simp
  obtain r s1 where c: "db_count jobs P s = (r, s1)" by fastforce
  then have "p s1 = p s" using db_count_frame[OF assms, of jobs P s] by simp
  then show ?thesis
    using q[of "\<lambda>s. map (listJobsJoin s) (sql_page (lo_limit opts) (lo_offset opts)
                         (sort_key (\<lambda>j. - CreatedAt j) (filter P (jobs s))))" s1]
    by (auto simp: jobs_listing_def c split: prod.split sum.split)
qed

lemma agents_Create_frame:
  "engine_free p \<Longrightarrow> (\<And>f s. p (agents_update f s) = p s) \<Longrightarrow> p (snd (agents_Create now a s)) = p s"
  unfolding agents_Create_def snd_wrapped by (rule db_create_frame)

lemma agents_GetByID_frame: "engine_free p \<Longrightarrow> p (snd (agents_GetByID u s)) = p s"
  unfolding agents_GetByID_def by (rule db_first_frame)

lemma agents_Update_frame:
  "engine_free p \<Longrightarrow> (\<And>f s. p (agents_update f s) = p s) \<Longrightarrow> p (snd (agents_Update now a s)) = p s"
  unfolding agents_Update_def snd_rows_affected by (rule db_save_frame)

lemma agents_UpdateStatus_frame:
  "engine_free p \<Longrightarrow> (\<And>f s. p (agents_update f s) = p s) \<Longrightarrow>
   p (snd (agents_UpdateStatus now u st seen s)) = p s"
  unfolding agents_UpdateStatus_def snd_rows_affected by (rule db_update_frame)

lemma destinations_GetByID_frame: "engine_free p \<Longrightarrow> p (snd (destinations_GetByID u s)) = p s"
  unfolding destinations_GetByID_def by (rule db_first_frame)

lemma policies_GetByIDWithDestinations_frame:
  assumes "engine_free p" shows "p (snd (policies_GetByIDWithDestinations u s)) = p s"
proof -
  obtain r s1 where c: "db_first policies (\<lambda>q. ID q = u \<and> live q) s = (r, s1)" by fastforce
  then have "p s1 = p s" using db_first_frame[OF assms, of policies _ s] by (metis snd_conv)
  then show ?thesis
    using db_find_frame[OF assms, of policy_destinations "\<lambda>d. pd_policy_id d = u"
        "sort_key pd_priority" s1]
    by (auto simp: policies_GetByIDWithDestinations_def c split: prod.split sum.split)
qed

lemma policies_UpdateSchedule_frame:
  "engine_free p \<Longrightarrow> (\<And>f s. p (policies_update f s) = p s) \<Longrightarrow>
   p (snd (policies_UpdateSchedule now u a b s)) = p s"
  unfolding policies_UpdateSchedule_def snd_rows_affected by (rule db_update_frame)

lemma snapshots_Create_frame:
  "engine_free p \<Longrightarrow> (\<And>f s. p (snapshots_update f s) = p s) \<Longrightarrow>
   p (snd (snapshots_Create now n s)) = p s"
  unfolding snapshots_Create_def snd_wrapped by (rule db_create_frame)

section \<open>A working database stays one\<close>

text \<open>Without pending faults no statement leaves one.\<close>

lemma db_create_healthy:
  assumes "faults s = []" "\<And>f s. faults (upd f s) = faults s"
  shows "faults (snd (db_create rows upd chk now r s)) = []"
  using assms by (auto simp: db_create_def before_create_def insert_row_def split: list.split option.split)

lemma before_create_all_healthy: "faults s = [] \<Longrightarrow> faults (snd (before_create_all rs s)) = []"
proof (induction rs arbitrary: s)
  case (Cons r rs)
  obtain x s1 where b: "before_create r s = (x, s1)" by fastforce
  then have 1: "faults s1 = []"
    using Cons.prems by (auto simp: before_create_def split: if_splits list.splits)
  obtain y s2 where "before_create_all rs s1 = (y, s2)" by fastforce
  with Cons.IH[OF 1] b 1 show ?case by (auto split: option.split)
qed simp

lemma db_create_all_healthy:
  assumes "faults s = []" "\<And>f s. faults (upd f s) = faults s"
  shows "faults (snd (db_create_all rows upd chk now rs s)) = []"
proof -
  obtain x s1 where b: "before_create_all rs s = (x, s1)" by fastforce
  then have "faults s1 = []" using before_create_all_healthy[OF assms(1), of rs] by simp
  with b assms(2) show ?thesis by (auto simp: db_create_all_def Let_def split: option.split)
qed

lemma db_update_healthy:
  "faults s = [] \<Longrightarrow> (\<And>f s. faults (upd f s) = faults s) \<Longrightarrow>
   faults (snd (db_update rows upd chk now P f s)) = []"
  by (simp add: db_update_def)

lemma db_first_healthy: "faults s = [] \<Longrightarrow> faults (snd (db_first rows P s)) = []"
  by (auto simp: db_first_def split: list.split)

lemma db_delete_healthy:
  assumes "faults s = []" "\<And>f s. faults (upd f s) = faults s" "\<And>rs s. faults (cascade rs s) = faults s"
  shows "faults (snd (db_delete rows upd restrict cascade P s)) = []"
  using assms by (simp add: db_delete_def Let_def)

end
