(* ===== verification/SchedulerProofs.thy ===== *)
theory SchedulerProofs
  imports Scheduler Frames
begin

text \<open>Correctness of the scheduler: what a run writes and sends in every execution, database errors
included, which jobs \<open>DispatchPending\<close> considers, and what the cron table holds.\<close>

section \<open>Frames\<close>

lemma create_job_destinations_frame:
  "engine_free p \<Longrightarrow> (\<And>f s. p (job_destinations_update f s) = p s) \<Longrightarrow>
   p (create_job_destinations now jobID pds s) = p s"
  by (induction pds arbitrary: s) (simp_all add: jobs_CreateDestination_frame)

lemma load_destinations_frame: "engine_free p \<Longrightarrow> p (snd (load_destinations pds s)) = p s"
proof (induction pds arbitrary: s)
  case (Cons pd pds)
  obtain r s1 where g: "destinations_GetByID (pd_destination_id pd) s = (r, s1)" by fastforce
  then have "p s1 = p s"
    using destinations_GetByID_frame[OF Cons.prems, of "pd_destination_id pd" s] by simp
  moreover have "p (snd (load_destinations pds s1)) = p s1" by (rule Cons.IH[OF Cons.prems])
  ultimately show ?case by (simp add: g split: sum.split prod.split) auto
qed simp

lemma dispatch_store_frame:
  assumes "engine_free p"
  shows "p (fst (snd (dispatch send_ok now j pol pds sm))) = p (fst sm)"
  using load_destinations_frame[OF assms, of pds "fst sm"]
  by (auto simp: dispatch_def split: prod.split option.split sum.split)

text \<open>What a dispatch may do to the registry: nothing, or one assignment of this job on the route of
its agent.\<close>

definition sends_only :: "job \<Rightarrow> manager \<Rightarrow> manager \<Rightarrow> bool" where
  "sends_only j m m' = (m' = m \<or>
     (\<exists>st a. mgr_route m (job_agent_id j) = Some st \<and> as_job_id a = ID j \<and>
             as_policy_id a = job_policy_id j \<and> as_type a = KindBackup \<and>
             m' = m\<lparr>mgr_sent := mgr_sent m @ [(st, a)]\<rparr>))"

lemma mgr_Dispatch_sends_only:
  assumes "as_job_id a = ID j" "as_policy_id a = job_policy_id j" "as_type a = KindBackup"
  shows "sends_only j m (snd (mgr_Dispatch send_ok (job_agent_id j) a m))"
proof (cases "map_of (mgr_agents m) (job_agent_id j)")
  case None
  then show ?thesis by (simp add: mgr_Dispatch_def sends_only_def)
next
  case (Some ag)
  show ?thesis
  proof (cases "send_ok (ca_stream ag) a")
    case True
    with Some assms show ?thesis
      unfolding sends_only_def
      by (intro disjI2 exI[of _ "ca_stream ag"] exI[of _ a])
        (simp add: mgr_Dispatch_def mgr_route_def mgr_send_def)
  qed (simp add: Some mgr_Dispatch_def sends_only_def)
qed

lemma sends_only_refl [simp]: "sends_only j m m"
  by (simp add: sends_only_def)

lemma dispatch_sends_only: "sends_only j (snd sm) (snd (snd (dispatch send_ok now j pol pds sm)))"
proof -
  obtain ds s1 where l: "load_destinations pds (fst sm) = (ds, s1)" by fastforce
  show ?thesis
  proof (cases "buildSourcesList (pol_sources pol)")
    case None
    with l show ?thesis by (simp add: dispatch_def)
  next
    case (Some srcs)
    let ?a = "\<lparr>as_job_id = ID j, as_policy_id = job_policy_id j, as_type = KindBackup,
       as_payload = json_text (payload_json (policy_payload pol srcs ds)), as_scheduled_at = now\<rparr>"
    have "sends_only j (snd sm) (snd (mgr_Dispatch send_ok (job_agent_id j) ?a (snd sm)))"
      by (rule mgr_Dispatch_sends_only) simp_all
    with l Some show ?thesis by (auto simp: dispatch_def split: prod.split sum.split)
  qed
qed

section \<open>A run\<close>

definition backup_job_of :: "policy \<Rightarrow> job \<Rightarrow> bool" where
  "backup_job_of p j = (job_policy_id j = ID p \<and> job_agent_id j = pol_agent_id p \<and>
     job_status j = ''pending'' \<and> job_type j = ''backup'' \<and> job_started_at j = None \<and>
     job_ended_at j = None \<and> job_error j = [])"

lemma jobs_Create_new:
  assumes "jobs_Create now (new_job p) s = (Inr j, s')"
  shows "jobs s' = jobs s @ [j]" "ID j \<notin> set (map ID (jobs s))" "backup_job_of p j"
proof -
  have c: "db_create jobs jobs_update job_check now (job_defaults (new_job p)) s = (Inr j, s')"
    using assms by (simp add: jobs_Create_def wrapped_Inr)
  show "jobs s' = jobs s @ [j]" "ID j \<notin> set (map ID (jobs s))"
    using jobs_tbl.create_Inr[OF c] by simp_all
  show "backup_job_of p j"
    using jobs_tbl.create_Inr(3)[OF c]
    by (auto simp: backup_job_of_def job_defaults_def new_job_def stamp_new_def)
qed

text \<open>C1: a run of a policy either fails and leaves the jobs and the registry as they were, because the
policy is disabled or the job could not be inserted, or it appends exactly one new pending backup
job for the policy's agent and sends at most one assignment, of that job, on that agent's
stream.  No database or transport error can produce anything else.\<close>

theorem runJob_one_job:
  "case runJob send_ok now p pds (s, m) of
     (Inl e, (s', m')) \<Rightarrow> jobs s' = jobs s \<and> m' = m \<and> (e = ErrPolicyDisabled \<longleftrightarrow> \<not> pol_enabled p)
   | (Inr j, (s', m')) \<Rightarrow> pol_enabled p \<and> jobs s' = jobs s @ [j] \<and>
       ID j \<notin> set (map ID (jobs s)) \<and> backup_job_of p j \<and> sends_only j m m'"
proof (cases "pol_enabled p")
  case True
  obtain r s1 where c: "jobs_Create now (new_job p) s = (r, s1)" by fastforce
  show ?thesis
  proof (cases r)
    case (Inl e)
    have "jobs s1 = jobs s"
      using jobs_tbl.create_cases[where chk = job_check and now = now and r = "job_defaults (new_job p)"
          and s = s] c Inl
      by (auto simp: jobs_Create_def wrapped_def split: prod.splits sum.splits)
    with True c Inl show ?thesis by (simp add: runJob_def)
  next
    case (Inr j)
    note new = jobs_Create_new[OF c[unfolded Inr]]
    define s2 where "s2 = create_job_destinations now (ID j) pds s1"
    define s3 where "s3 = snd (policies_UpdateSchedule now (ID p) now now s2)"
    have "jobs s3 = jobs s1"
      unfolding s3_def s2_def
      by (simp add: policies_UpdateSchedule_frame[where p = jobs]
          create_job_destinations_frame[where p = jobs])
    moreover have "jobs (fst (snd (dispatch send_ok now j p pds (s3, m)))) = jobs s3"
      using dispatch_store_frame[where p = jobs and sm = "(s3, m)"] by simp
    moreover have "sends_only j m (snd (snd (dispatch send_ok now j p pds (s3, m))))"
      using dispatch_sends_only[where sm = "(s3, m)"] by simp
    moreover have "runJob send_ok now p pds (s, m) =
        (Inr j, snd (dispatch send_ok now j p pds (s3, m)))"
      using True c Inr by (simp add: runJob_def s2_def s3_def)
    ultimately show ?thesis using True new
      by (auto split: prod.split)
  qed
qed (simp add: runJob_def)

section \<open>Pending jobs\<close>

lemma dispatch_jobs_sent:
  "\<exists>xs. mgr_agents (snd (dispatch_jobs send_ok now js sm)) = mgr_agents (snd sm) \<and>
        mgr_sent (snd (dispatch_jobs send_ok now js sm)) = mgr_sent (snd sm) @ xs \<and>
        (\<forall>(st, a)\<in>set xs. \<exists>j\<in>set js. job_status j = ''pending'' \<and> as_job_id a = ID j \<and>
             mgr_route (snd sm) (job_agent_id j) = Some st) \<and>
        length xs \<le> length (filter (\<lambda>j. job_status j = ''pending'') js)"
proof (induction js arbitrary: sm)
  case (Cons j js)
  show ?case
  proof (cases "job_status j = ''pending''")
    case False
    with Cons[of sm] show ?thesis by auto
  next
    case True
    obtain r s1 where g: "policies_GetByIDWithDestinations (job_policy_id j) (fst sm) = (r, s1)"
      by fastforce
    show ?thesis
    proof (cases r)
      case (Inl e)
      with True g Cons[of "(s1, snd sm)"] show ?thesis by (auto simp: le_SucI)
    next
      case (Inr pp)
      obtain p pds where pp: "pp = (p, pds)" by (cases pp)
      let ?sm1 = "snd (dispatch send_ok now j p pds (s1, snd sm))"
      have step: "sends_only j (snd sm) (snd ?sm1)"
        using dispatch_sends_only[where sm = "(s1, snd sm)"] by simp
      then have route: "mgr_route (snd ?sm1) = mgr_route (snd sm)"
        and ags: "mgr_agents (snd ?sm1) = mgr_agents (snd sm)"
        by (auto simp: sends_only_def mgr_route_def fun_eq_iff)
      obtain ys where ys: "mgr_sent (snd ?sm1) = mgr_sent (snd sm) @ ys" "length ys \<le> 1"
        "\<forall>(st, a)\<in>set ys. as_job_id a = ID j \<and> mgr_route (snd sm) (job_agent_id j) = Some st"
        using step by (auto simp: sends_only_def)
      have run: "dispatch_jobs send_ok now (j # js) sm = dispatch_jobs send_ok now js ?sm1"
        using True g Inr pp by simp
      obtain xs where xs:
        "mgr_agents (snd (dispatch_jobs send_ok now js ?sm1)) = mgr_agents (snd ?sm1)"
        "mgr_sent (snd (dispatch_jobs send_ok now js ?sm1)) = mgr_sent (snd ?sm1) @ xs"
        "\<forall>(st, a)\<in>set xs. \<exists>k\<in>set js. job_status k = ''pending'' \<and> as_job_id a = ID k \<and>
           mgr_route (snd ?sm1) (job_agent_id k) = Some st"
        "length xs \<le> length (filter (\<lambda>j. job_status j = ''pending'') js)"
        using Cons[of ?sm1] by blast
      show ?thesis
        unfolding run
        by (rule exI[of _ "ys @ xs"]) (use True xs ys ags in \<open>fastforce simp: route\<close>)
    qed
  qed
qed (rule exI[of _ "[]"], simp)

text \<open>The jobs the query of \<open>DispatchPending\<close> returns.\<close>

definition newest_jobs :: "uuid \<Rightarrow> store \<Rightarrow> job list" where
  "newest_jobs a s = take 100 (sort_key (\<lambda>j. - CreatedAt j)
                       (filter (\<lambda>j. job_agent_id j = a) (jobs s)))"

lemma jobs_ListByAgent_rows:
  assumes "jobs_ListByAgent a \<lparr>lo_limit = 100, lo_offset = 0\<rparr> s = (Inr (rows, n), s1)"
  shows "map jwn_job rows = newest_jobs a s"
proof -
  obtain c t where cnt: "db_count jobs (\<lambda>j. job_agent_id j = a) s = (c, t)" by fastforce
  have jt: "jobs t = jobs s"
    using db_count_frame[of jobs jobs "\<lambda>j. job_agent_id j = a" s] cnt by simp
  have page: "case fst (sql (\<lambda>s. (Inr (map (listJobsJoin s) (sql_page 100 0
                 (sort_key (\<lambda>j. - CreatedAt j) (filter (\<lambda>j. job_agent_id j = a) (jobs s))))), s)) t) of
                 Inl _ \<Rightarrow> True | Inr rs \<Rightarrow> map jwn_job rs = newest_jobs a t"
    by (rule sql_rule) (simp_all add: newest_jobs_def sql_page_def listJobsJoin_def comp_def)
  show ?thesis
    using assms page jt
    by (auto simp: jobs_ListByAgent_def jobs_listing_def cnt newest_jobs_def
        split: sum.splits prod.splits)
qed

text \<open>\<open>DispatchPending\<close> only ever sends assignments of pending jobs that are among the 100 newest
jobs of the agent, on the agent's own stream; a pending job behind 100 newer ones is not
considered.\<close>

theorem DispatchPending_sent:
  "\<exists>xs. mgr_sent (snd (DispatchPending send_ok now a (s, m))) = mgr_sent m @ xs \<and>
     length xs \<le> 100 \<and>
     list_all (\<lambda>(st, x). mgr_route m a = Some st \<and>
        list_ex (\<lambda>j. job_status j = ''pending'' \<and> ID j = as_job_id x) (newest_jobs a s)) xs"
proof -
  obtain r s1 where q: "jobs_ListByAgent a \<lparr>lo_limit = 100, lo_offset = 0\<rparr> s = (r, s1)"
    by fastforce
  show ?thesis
  proof (cases r)
    case (Inl e)
    with q show ?thesis by (intro exI[of _ "[]"]) (simp add: DispatchPending_def)
  next
    case (Inr rn)
    obtain rows n where rn: "rn = (rows, n)" by (cases rn)
    have rows: "map jwn_job rows = newest_jobs a s"
      using q Inr rn by (auto intro: jobs_ListByAgent_rows)
    have agent: "job_agent_id j = a" if "j \<in> set (newest_jobs a s)" for j
      using that by (auto simp: newest_jobs_def dest: in_set_takeD)
    have len: "length (filter (\<lambda>j. job_status j = ''pending'') (newest_jobs a s)) \<le> 100"
      by (rule order_trans[OF length_filter_le]) (simp add: newest_jobs_def)
    obtain xs where xs:
      "mgr_sent (snd (dispatch_jobs send_ok now (newest_jobs a s) (s1, m))) = mgr_sent m @ xs"
      "\<forall>(st, x)\<in>set xs. \<exists>j\<in>set (newest_jobs a s). job_status j = ''pending'' \<and>
          as_job_id x = ID j \<and> mgr_route m (job_agent_id j) = Some st"
      "length xs \<le> length (filter (\<lambda>j. job_status j = ''pending'') (newest_jobs a s))"
      using dispatch_jobs_sent[of send_ok now "newest_jobs a s" "(s1, m)"] by auto
    have "snd (DispatchPending send_ok now a (s, m)) =
          snd (dispatch_jobs send_ok now (newest_jobs a s) (s1, m))"
      using q Inr rn rows by (simp add: DispatchPending_def)
    moreover have "list_all (\<lambda>(st, x). mgr_route m a = Some st \<and>
        list_ex (\<lambda>j. job_status j = ''pending'' \<and> ID j = as_job_id x) (newest_jobs a s)) xs"
      using xs(2) agent by (fastforce simp: list_all_iff list_ex_iff)
    ultimately show ?thesis using xs(1,3) len by (intro exI[of _ xs]) simp
  qed
qed

section \<open>The cron table\<close>

definition scheduled :: "scheduler \<Rightarrow> uuid \<Rightarrow> policy list" where
  "scheduled c u = filter (\<lambda>p. ID p = u) (sch_cron c)"

text \<open>C20: after \<open>UpdatePolicy\<close> the cron table holds exactly one entry for the policy, with its new
contents, when the policy is enabled and its schedule is accepted, and none otherwise; the
entries of every other policy are untouched.\<close>

theorem UpdatePolicy_scheduled:
  "scheduled (snd (UpdatePolicy cron_ok p c)) u =
     (if u = ID p then (if pol_enabled p \<and> cron_ok (pol_schedule p) then [p] else [])
      else scheduled c u)"
  by (auto simp: scheduled_def UpdatePolicy_def RemovePolicy_def AddPolicy_def addJob_def Let_def
      filter_empty_conv intro!: filter_cong)

end
