(* ===== verification/PayloadRoundtrip.thy ===== *)
theory PayloadRoundtrip
  imports ExecutorProofs SchedulerProofs
begin

text \<open>From the scheduler to the executor: what the server writes into an assignment is what the agent
reads out of it.\<close>

section \<open>Fields\<close>

lemma fold_key_simps: "fold_key [] = []" "fold_key (c # cs) = fold_char c # fold_key cs"
  by (simp_all add: fold_key_def)

lemmas field_simps_json = fold_key_simps fold_char_def dec_string_def dec_int_jint

lemma dec_all_map:
  "(\<And>x. x \<in> set xs \<Longrightarrow> dec (f x) z = Some (g x)) \<Longrightarrow> dec_all dec z (map f xs) = Some (map g xs)"
  by (induction xs) auto

lemma dec_list_map:
  "(\<And>x. x \<in> set xs \<Longrightarrow> dec (f x) z = Some (g x)) \<Longrightarrow> dec_list dec z (JArr (map f xs)) d = Some (map g xs)"
  by (simp add: dec_list_def dec_all_map)

lemma dec_strings: "dec_list dec_string [] (JArr (map JStr xs)) d = Some xs"
  using dec_list_map[of xs dec_string JStr "[]" "\<lambda>x. x" d] by (simp add: dec_string_def)

section \<open>Destinations and retention\<close>

text \<open>Go's \<open>int\<close> has 64 bits, and an environment is a map; \<open>json.Marshal\<close> writes its keys in order.\<close>

definition dest_ok :: "destinationPayload \<Rightarrow> bool" where
  "dest_ok d = (int64_ok (dp_priority d) \<and> distinct (map fst (dp_env d)))"

definition sort_env :: "destinationPayload \<Rightarrow> destinationPayload" where
  "sort_env d = d\<lparr>dp_env := sort_key fst (dp_env d)\<rparr>"

definition payload_ok :: "backupPayload \<Rightarrow> bool" where
  "payload_ok p = (list_all dest_ok (bp_destinations p) \<and>
     int64_ok (rp_daily (bp_retention p)) \<and> int64_ok (rp_weekly (bp_retention p)) \<and>
     int64_ok (rp_monthly (bp_retention p)) \<and> int64_ok (rp_yearly (bp_retention p)))"

lemma dec_dest_json: "dest_ok d \<Longrightarrow> dec_dest (dest_json d) zero_dest = Some (sort_env d)"
  by (simp add: dec_dest_def dest_json_def dec_dest_from_def dest_ok_def zero_dest_def sort_env_def
      field_simps_json dec_map_jmap)

lemma dec_retention_json:
  assumes "int64_ok (rp_daily r)" "int64_ok (rp_weekly r)" "int64_ok (rp_monthly r)" "int64_ok (rp_yearly r)"
  shows "dec_retention (retention_json r) z = Some r"
  using assms by (simp add: dec_retention_def retention_json_def field_simps_json)

lemma payload_wf: "json_wf (payload_json p)"
  by (simp add: payload_json_def dest_json_def retention_json_def jint_wf jmap_wf list_all_iff)

lemma payload_members:
  "payload_ok p \<Longrightarrow> \<exists>kvs. payload_json p = JObj kvs \<and>
     dec_backup kvs = Some (p\<lparr>bp_destinations := map sort_env (bp_destinations p)\<rparr>)"
  using dec_list_map[of "bp_destinations p" dec_dest dest_json zero_dest sort_env "[]"]
  by (simp add: payload_json_def dec_backup_def field_simps_json payload_ok_def list_all_iff
      dec_dest_json dec_retention_json dec_strings)

lemma payload_decodes:
  assumes "payload_ok p"
  shows "unmarshal_struct dec_backup (json_text (payload_json p)) =
     Some (p\<lparr>bp_destinations := map sort_env (bp_destinations p)\<rparr>)"
proof -
  obtain kvs where "payload_json p = JObj kvs"
    "dec_backup kvs = Some (p\<lparr>bp_destinations := map sort_env (bp_destinations p)\<rparr>)"
    using payload_members[OF assms] by blast
  then show ?thesis
    using json_parse_text[OF payload_wf, of p] by (simp add: unmarshal_struct_def)
qed

text \<open>The agent decodes the payload the server encodes to the very same payload, field by field, with the
environment of each destination as the same map (its keys in the order in which they are written).\<close>

theorem payload_roundtrip:
  assumes "payload_ok p"
  shows "unmarshal_struct dec_backup (json_text (payload_json p)) =
     Some (p\<lparr>bp_destinations := map sort_env (bp_destinations p)\<rparr>)"
  by (rule payload_decodes[OF assms])

definition demo_payload :: backupPayload where
  "demo_payload = \<lparr>bp_sources = ''[\"/srv\"]'', bp_repo_password = ''pw'',
     bp_destinations = [\<lparr>dp_destination_id = ''d1'', dp_type = ''s3'', dp_repo_url = ''s3:h/b'',
        dp_credentials = ''{}'', dp_config = ''{}'',
        dp_env = [(''B'', ''2''), (''A'', ''1'')], dp_priority = 1\<rparr>],
     bp_retention = \<lparr>rp_daily = 7, rp_weekly = 4, rp_monthly = 6, rp_yearly = 1\<rparr>,
     bp_hook_pre = [], bp_hook_post = [], bp_tags = [''policy:p1'']\<rparr>"

theorem payload_roundtrip_witness:
  "unmarshal_struct dec_backup (json_text (payload_json demo_payload)) =
     Some (demo_payload\<lparr>bp_destinations := map sort_env (bp_destinations demo_payload)\<rparr>)"
  by (rule payload_roundtrip) (simp add: payload_ok_def dest_ok_def demo_payload_def int64_ok_def)

section \<open>From a dispatch to the agent\<close>

definition sources_of :: "string \<Rightarrow> (string \<times> string) list option" where
  "sources_of text =
     (case json_parse text of None \<Rightarrow> None | Some v \<Rightarrow> dec_list (dec_struct dec_source) ([], []) v [])"

text \<open>What the executor reads out of the sources of a payload.\<close>

definition raw_sources :: "string \<Rightarrow> string list option" where
  "raw_sources text =
     (case json_parse text of None \<Rightarrow> None | Some v \<Rightarrow> dec_list dec_string [] v [])"

lemma buildSourcesList_read:
  "buildSourcesList text = Some out \<Longrightarrow>
   \<exists>srcs. sources_of text = Some srcs \<and> raw_sources out = Some (map source_path srcs)"
proof -
  assume b: "buildSourcesList text = Some out"
  then obtain srcs where s: "sources_of text = Some srcs"
    "out = json_text (JArr (map (JStr \<circ> source_path) srcs))"
    by (auto simp: buildSourcesList_def sources_of_def split: option.splits)
  have "json_wf (JArr (map (JStr \<circ> source_path) srcs))" by (simp add: list_all_iff)
  then have "json_parse out = Some (JArr (map JStr (map source_path srcs)))"
    by (simp add: s(2) json_parse_text del: json_text.simps)
  then show ?thesis using s(1) dec_strings[of "map source_path srcs" "[]"]
    by (simp add: raw_sources_def)
qed

lemma load_destinations_ok:
  assumes "list_all (\<lambda>pd. int64_ok (pd_priority pd)) pds"
  shows "list_all dest_ok (fst (load_destinations pds s))"
  using assms
proof (induction pds arbitrary: s)
  case (Cons pd pds)
  obtain r s1 where g: "destinations_GetByID (pd_destination_id pd) s = (r, s1)" by fastforce
  obtain ps s2 where l: "load_destinations pds s1 = (ps, s2)" by fastforce
  with Cons have "list_all dest_ok ps" by (metis fst_conv list.pred_inject(2))
  with g l Cons.prems show ?case
    by (cases r) (simp_all, simp_all add: dest_ok_def BuildEnv_keys)
qed simp

text \<open>The integers of a policy and of its destinations are Go's.\<close>

definition policy_ints :: "policy \<Rightarrow> policy_destination list \<Rightarrow> bool" where
  "policy_ints p pds = (int64_ok (pol_retention_daily p) \<and> int64_ok (pol_retention_weekly p) \<and>
     int64_ok (pol_retention_monthly p) \<and> int64_ok (pol_retention_yearly p) \<and>
     list_all (\<lambda>pd. int64_ok (pd_priority pd)) pds)"

text \<open>C9: when a dispatch succeeds, the one assignment it sends carries a payload that the agent decodes to the
policy's own password, retention, hooks and tag, to exactly the destinations that could be loaded, and to
the sources of the policy, volumes as \<open>docker-volume\<close> references.\<close>

theorem dispatched_job_decodes:
  assumes "dispatch send_ok now j p pds (s, m) = (Inr (), (s', m'))" "policy_ints p pds"
  shows "\<exists>st x q srcs. mgr_sent m' = mgr_sent m @ [(st, x)] \<and> as_job_id x = ID j \<and>
     unmarshal_struct dec_backup (as_payload x) = Some q \<and>
     sources_of (pol_sources p) = Some srcs \<and>
     raw_sources (bp_sources q) = Some (map source_path srcs) \<and>
     bp_destinations q = map sort_env (fst (load_destinations pds s)) \<and>
     bp_repo_password q = pol_repo_password p \<and> bp_retention q = bp_retention (policy_payload p [] []) \<and>
     bp_hook_pre q = pol_hook_pre p \<and> bp_hook_post q = pol_hook_post p \<and> bp_tags q = [''policy:'' @ ID p]"
proof -
  obtain ds s1 where l: "load_destinations pds s = (ds, s1)" by fastforce
  obtain sources where b: "buildSourcesList (pol_sources p) = Some sources"
    using assms(1) l by (cases "buildSourcesList (pol_sources p)") (auto simp: dispatch_def)
  let ?q = "policy_payload p sources ds"
  let ?x = "\<lparr>as_job_id = ID j, as_policy_id = job_policy_id j, as_type = KindBackup,
     as_payload = json_text (payload_json ?q), as_scheduled_at = now\<rparr>"
  obtain r m1 where d: "mgr_Dispatch send_ok (job_agent_id j) ?x m = (r, m1)" by fastforce
  have "r = Inr ()" "m1 = m'"
    using assms(1) l b d by (auto simp: dispatch_def split: sum.splits)
  then obtain st where sent: "mgr_sent m' = mgr_sent m @ [(st, ?x)]"
    using d by (auto simp: mgr_Dispatch_def mgr_send_def split: option.splits if_splits)
  obtain srcs where srcs: "sources_of (pol_sources p) = Some srcs"
    "raw_sources sources = Some (map source_path srcs)"
    using buildSourcesList_read[OF b] by blast
  have "list_all dest_ok ds"
    using load_destinations_ok[of pds s] assms(2) l by (simp add: policy_ints_def)
  then have "payload_ok ?q" using assms(2) by (simp add: payload_ok_def policy_payload_def policy_ints_def)
  note dec = payload_decodes[OF this]
  show ?thesis
    by (intro exI[of _ st] exI[of _ ?x] exI[of _ "?q\<lparr>bp_destinations := map sort_env (bp_destinations ?q)\<rparr>"]
        exI[of _ srcs] conjI)
      (simp_all add: sent dec srcs l, simp_all add: policy_payload_def srcs l)
qed

section \<open>A concrete run\<close>

definition demo_policy :: policy where
  "demo_policy = \<lparr>ID = ''p1'', CreatedAt = 1, UpdatedAt = 1, DeletedAt = None, pol_name = ''nightly'',
     pol_agent_id = ''a1'', pol_schedule = ''0 3 * * *'', pol_enabled = True,
     pol_sources = json_text (JArr [JObj [(''type'', JStr ''directory''), (''path'', JStr ''/srv'')]]),
     pol_retention_daily = 7, pol_retention_weekly = 4, pol_retention_monthly = 6,
     pol_retention_yearly = 1, pol_repo_password = ''pw'', pol_hook_pre = [], pol_hook_post = [],
     pol_last_run_at = None, pol_next_run_at = None\<rparr>"

definition demo_manager :: manager where
  "demo_manager = mgr_Register 1 ''a1'' ''host'' False 7 mgr_New"

lemma demo_sources: "buildSourcesList (pol_sources demo_policy) = Some (json_text (JArr [JStr ''/srv'']))"
  by (simp add: buildSourcesList_def demo_policy_def json_parse_text dec_list_def dec_struct_def
      dec_source_def field_simps_json source_path_def del: json_text.simps)

definition demo_run_job :: job where
  "demo_run_job = \<lparr>ID = ''j1'', CreatedAt = 1, UpdatedAt = 1, job_policy_id = ''p1'', job_agent_id = ''a1'',
     job_type = ''backup'', job_status = ''pending'', job_started_at = None, job_ended_at = None,
     job_error = []\<rparr>"

lemma demo_dispatch:
  "fst (dispatch (\<lambda>_ _. True) 5 demo_run_job demo_policy [] (empty_store, demo_manager)) = Inr ()"
  by (simp add: dispatch_def demo_sources mgr_Dispatch_def mgr_send_def demo_run_job_def demo_manager_def
      mgr_Register_def mgr_New_def split: option.split)

theorem dispatched_job_decodes_witness:
  "\<exists>st x q. mgr_sent (snd (snd (dispatch (\<lambda>_ _. True) 5 demo_run_job demo_policy []
       (empty_store, demo_manager)))) = mgr_sent demo_manager @ [(st, x)] \<and>
     unmarshal_struct dec_backup (as_payload x) = Some q \<and> bp_repo_password q = ''pw''"
proof -
  have "policy_ints demo_policy []"
    by (simp add: policy_ints_def demo_policy_def int64_ok_def)
  with dispatched_job_decodes[of "\<lambda>_ _. True" 5 demo_run_job demo_policy "[]" empty_store demo_manager]
    demo_dispatch
  show ?thesis
    by (cases "dispatch (\<lambda>_ _. True) 5 demo_run_job demo_policy [] (empty_store, demo_manager)")
      (fastforce simp: demo_policy_def)
qed

end
