(* ===== verification/ExecutorOutcomes.thy ===== *)
theory ExecutorOutcomes
  imports PayloadRoundtrip
begin

text \<open>Outcomes of jobs: a failing pre-backup hook, a backup with nothing to back up to, the command of a
restore, and the queue of the executor; with concrete runs.\<close>

section \<open>The pre-backup hook\<close>

definition before_backup :: "agent_event \<Rightarrow> bool" where
  "before_backup e = (case e of
       SendLog l m \<Rightarrow> True | ReportStatus st m \<Rightarrow> True | RunHook a tmo \<Rightarrow> True | _ \<Rightarrow> False)"

lemma before_backup_simps [simp]:
  "before_backup (SendLog l m)" "before_backup (ReportStatus st m)" "before_backup (RunHook a tmo)"
  "\<not> before_backup (Exec c)" "\<not> before_backup (MkdirAll p)"
  "\<not> before_backup (ReportDestinationResult i st sn tm sz e)" "logs before_backup"
  by (simp_all add: before_backup_def logs_def)

lemma ext_fail: "ext P t u \<Longrightarrow> logs P \<Longrightarrow> (\<And>st m. P (ReportStatus st m)) \<Longrightarrow> ext P t (fail m u)"
  by (simp add: fail_def logs_def ext_snoc ext_log)

lemma hooks_Run_failing:
  assumes "command \<noteq> []"
    and "\<And>t lim. hp_error (xe_hook env t (buildShellCmd (xe_windows env) command args) lim) \<noteq> None"
  shows "\<exists>r e t'. hooks_Run env command args limit t = ((r, Some e), t')"
proof -
  let ?lim = "if 0 < limit then limit else xe_hook_timeout env"
  obtain e where "hp_error (xe_hook env t (buildShellCmd (xe_windows env) command args) ?lim) = Some e"
    using assms(2)[of t ?lim] by blast
  with assms(1) show ?thesis by (simp add: hooks_Run_def Let_def)
qed

lemma pre_hook_failing:
  assumes "x \<noteq> []" "resolveHook env x = Inr h" "hk_command h \<noteq> []"
    and "\<And>t lim. hp_error (xe_hook env t (buildShellCmd (xe_windows env) (hk_command h) (hk_args h)) lim) \<noteq> None"
  shows "\<exists>e. fst (pre_hook env x t) = Some e"
proof -
  obtain r e t' where "hooks_Run env (hk_command h) (hk_args h) (hook_duration h)
      (log ''info'' (''running pre-backup hook: '' @ x) t) = ((r, Some e), t')"
    using hooks_Run_failing[OF assms(3,4)] by blast
  with assms(1,2) show ?thesis by (simp add: pre_hook_def Let_def)
qed

text \<open>C39: when the pre-backup hook of a job fails on this host, the backup is aborted before anything else
happens: no restic process is started, no directory is made, no destination result is reported, and the
job ends with the status failed.\<close>

theorem pre_hook_failure_aborts:
  assumes "unmarshal_struct dec_backup (ej_payload job) = Some p"
    and "bp_hook_pre p \<noteq> []" "resolveHook env (bp_hook_pre p) = Inr h" "hk_command h \<noteq> []"
    and "\<And>t lim. hp_error (xe_hook env t (buildShellCmd (xe_windows env) (hk_command h) (hk_args h)) lim) \<noteq> None"
  shows "list_all before_backup (executeBackup env job []) \<and>
    (\<exists>u m. executeBackup env job [] = u @ [ReportStatus ''failed'' m])"
proof -
  let ?t1 = "log ''info'' ''backup started'' ([] @ [ReportStatus ''running'' ''starting backup''])"
  obtain r t2 where r: "resolveSources env (bp_sources p) ?t1 = (r, t2)" by fastforce
  have 1: "ext before_backup [] ?t1" by (intro ext_log ext_snoc) simp_all
  have 2: "ext before_backup [] t2"
    using ext_trans[OF 1 resolveSources_ext[of before_backup ?t1 env "bp_sources p"]] r by simp
  have f: "ext before_backup [] u \<Longrightarrow> list_all before_backup (fail m u)" for u m
    using ext_fail[of before_backup "[]" u m] by (simp add: ext_def)
  have e: "\<exists>u' m'. fail m u = u' @ [ReportStatus ''failed'' m']" for m u by (auto simp: fail_def)
  show ?thesis
  proof (cases r)
    case (Inl x)
    then have "executeBackup env job [] = fail (''failed to resolve backup sources: '' @ x) t2"
      using assms(1) r by (simp add: executeBackup_def Let_def)
    with f[OF 2] e show ?thesis by auto
  next
    case (Inr srcs)
    let ?t3 = "log ''info'' (''resolved '' @ int_text (int (length srcs)) @ '' source(s)'') t2"
    obtain h' t4 where h: "pre_hook env (bp_hook_pre p) ?t3 = (h', t4)" by fastforce
    obtain x where x: "h' = Some x" using pre_hook_failing[OF assms(2-5), of ?t3] h by auto
    have 3: "ext before_backup [] ?t3" by (rule ext_log[OF 2]) simp
    have 4: "ext before_backup [] t4"
      using ext_trans[OF 3 pre_hook_ext[of before_backup ?t3 env "bp_hook_pre p"]] h by simp
    have "executeBackup env job [] = fail no_sources_error t2 \<or> executeBackup env job [] = fail x t4"
      using assms(1) r Inr h x by (simp add: executeBackup_def Let_def)
    with f[OF 2] f[OF 4] e show ?thesis by auto
  qed
qed

section \<open>Nothing to back up to\<close>

lemma backup_loop_unreachable:
  assumes "reachable_dests ds = []" "logs P"
  shows "fst (backup_loop env p srcs ds failed t) = failed \<and> ext P t (snd (backup_loop env p srcs ds failed t))"
  using assms(1)
proof (induction ds arbitrary: t)
  case (Cons d ds)
  let ?skip = "log ''warn'' (''destination '' @ dp_destination_id d @ '' has empty repo_url, skipping'') t"
  have "ext P t ?skip" using assms(2) by (simp add: ext_log logs_def)
  moreover have "reachable_dests ds = []" "dp_repo_url d = []"
    using Cons.prems by (auto simp: reachable_dests_def split: if_splits)
  ultimately show ?case using Cons.IH[of ?skip] ext_trans[of P t ?skip] by auto
qed simp

text \<open>A job without a single reachable destination reports success although it has backed up nothing: its
trace contains no restic process at all.\<close>

theorem empty_backup_succeeds:
  assumes "unmarshal_struct dec_backup (ej_payload job) = Some p"
    and "reachable_dests (bp_destinations p) = []" "bp_hook_pre p = []" "bp_hook_post p = []"
    and "raw_sources (bp_sources p) = Some (src # srcs)"
    and "list_all (\<lambda>s. \<not> starts_with docker_scheme s) (src # srcs)"
    and "\<And>t. \<not> xe_cancelled env t"
  shows "\<exists>u. executeBackup env job [] = u @ [ReportStatus ''success'' ''backup completed''] \<and>
     list_all (\<lambda>e. \<forall>c. e \<noteq> Exec c) u"
proof -
  let ?P = "\<lambda>e. \<forall>c. e \<noteq> Exec c"
  have lg: "logs ?P" by (simp add: logs_def)
  have loop: "resolve_loop env xs acc t = (Inr (acc @ map (\<lambda>s. translateLocalPath s (xe_host_root env)) xs), t)"
    if "list_all (\<lambda>s. \<not> starts_with docker_scheme s) xs" for xs acc t
    using that by (induction xs arbitrary: acc) auto
  let ?t1 = "log ''info'' ''backup started'' ([] @ [ReportStatus ''running'' ''starting backup''])"
  let ?xs = "map (\<lambda>s. translateLocalPath s (xe_host_root env)) (src # srcs)"
  have r: "resolveSources env (bp_sources p) ?t1 = (Inr ?xs, ?t1)"
    using assms(5) loop[OF assms(6), of "[]" ?t1]
    by (simp add: resolveSources_def raw_sources_def split: option.splits)
  let ?t3 = "log ''info'' (''resolved '' @ int_text (int (length ?xs)) @ '' source(s)'') ?t1"
  obtain f t5 where l: "backup_loop env p ?xs (bp_destinations p) False ?t3 = (f, t5)" by fastforce
  then have lf: "\<not> f" "ext ?P ?t3 t5"
    using backup_loop_unreachable[OF assms(2) lg, of env p ?xs False ?t3] by simp_all
  let ?u = "log ''info'' ''backup completed successfully'' t5"
  have "executeBackup env job [] = ?u @ [ReportStatus ''success'' ''backup completed'']"
    using assms(1,3,4,7) r l lf(1)
    by (simp add: executeBackup_def Let_def pre_hook_def finish_backup_def post_hook_def del: list.map)
  moreover have 1: "ext ?P [] ?t1" by (simp add: ext_def log_def)
  have 3: "ext ?P [] ?t3" by (rule ext_log[OF 1]) simp
  have "ext ?P [] ?u" by (rule ext_log[OF ext_trans[OF 3 lf(2)]]) simp
  ultimately show ?thesis by (auto simp: ext_def)
qed

section \<open>The command of a restore\<close>

fun execs :: "trace \<Rightarrow> command list" where
  "execs [] = []"
| "execs (Exec c # t) = c # execs t"
| "execs (_ # t) = execs t"

lemma execs_append [simp]: "execs (t @ u) = execs t @ execs u"
  by (induction t rule: execs.induct) simp_all

lemma execs_log [simp]: "execs (log l m t) = execs t"
  by (simp add: log_def)

lemma execs_fail [simp]: "execs (fail m t) = execs t"
  by (simp add: fail_def)

lemma execs_warnings [simp]: "execs (map skip_warning cs) = []"
  by (induction cs) (simp_all add: skip_warning_def)

lemma execs_excludes: "execs (snd (buildInPlaceExcludes env t)) = execs t"
  by (simp add: buildInPlaceExcludes_def split: option.split sum.split)

lemma execs_finish: "execs (finish_restore env target r t) = execs t"
  by (simp add: finish_restore_def restored_def split: sum.split)

lemma execs_Restore:
  "execs (snd (Restore w proc d sid tg incl ex root t)) \<in>
     {execs t, execs t @ [buildCmd w d (restore_args sid tg incl ex)]}"
  by (simp add: Restore_def runRestoreJSON_def Let_def split: option.split)

text \<open>C36: a restore job starts at most one process, and only when its payload decodes with a snapshot, a target
and a repository URL; the process then is \<open>restic restore\<close> of exactly that snapshot to that target (as
seen from the container) in that repository, and nothing is excluded unless the target is the root
directory.\<close>

theorem restore_command:
  "execs (executeRestore env job []) = [] \<or>
   (\<exists>p ex. unmarshal_struct dec_restore (ej_payload job) = Some p \<and>
      rs_snapshot_id p \<noteq> [] \<and> rs_target_path p \<noteq> [] \<and> dp_repo_url (rs_destination p) \<noteq> [] \<and>
      execs (executeRestore env job []) = [buildCmd (xe_wrapper env) (restore_dest env p)
        (restore_args (rs_snapshot_id p) (restore_target env p) [] ex)] \<and>
      (ex = [] \<or> rs_target_path p = ''/''))"
proof (cases "\<exists>p. unmarshal_struct dec_restore (ej_payload job) = Some p \<and>
    rs_snapshot_id p \<noteq> [] \<and> rs_target_path p \<noteq> [] \<and> dp_repo_url (rs_destination p) \<noteq> []")
  case False
  then show ?thesis by (cases "unmarshal_struct dec_restore (ej_payload job)") (auto simp: executeRestore_def)
next
  case True
  then obtain p where p: "unmarshal_struct dec_restore (ej_payload job) = Some p"
    "rs_snapshot_id p \<noteq> []" "rs_target_path p \<noteq> []" "dp_repo_url (rs_destination p) \<noteq> []" by blast
  let ?t2 = "log ''info'' (''restore started: snapshot '' @ rs_snapshot_id p @ '' '' @ arrow @ '' ''
     @ restore_target env p) [ReportStatus ''running'' ''starting restore'']"
  obtain ex t3 where x: "(if rs_target_path p = ''/'' then buildInPlaceExcludes env ?t2 else ([], ?t2)) = (ex, t3)"
    by fastforce
  have 3: "execs t3 = []" "ex = [] \<or> rs_target_path p = ''/''"
    using x execs_excludes[of env ?t2] by (auto split: if_splits)
  obtain r t4 where r: "Restore (xe_wrapper env) (xe_proc env) (restore_dest env p) (rs_snapshot_id p)
      (restore_target env p) [] ex (xe_host_root env) t3 = (r, t4)" by fastforce
  have "executeRestore env job [] = finish_restore env (restore_target env p) r t4"
    using p x r by (cases "rs_target_path p = ''/''") (simp_all add: executeRestore_def Let_def)
  then have "execs (executeRestore env job []) = execs t4" by (simp only: execs_finish)
  moreover have "execs t4 \<in> {[], [buildCmd (xe_wrapper env) (restore_dest env p)
      (restore_args (rs_snapshot_id p) (restore_target env p) [] ex)]}"
    using execs_Restore[of "xe_wrapper env" "xe_proc env" "restore_dest env p" "rs_snapshot_id p"
        "restore_target env p" "[]" ex "xe_host_root env" t3] r 3 by simp
  ultimately show ?thesis using p 3(2) by auto
qed

section \<open>The queue\<close>

definition executor_ok :: "executor \<Rightarrow> bool" where
  "executor_ok x = (length (ex_queue x) \<le> queueSize \<and> ex_accepted x = map fst (ex_done x) @ ex_queue x \<and>
     list_all (\<lambda>(j, t). job_protocol t) (ex_done x))"

lemma executor_receive_ok: "executor_ok x \<Longrightarrow> executor_ok (executor_receive job x)"
  by (auto simp: executor_ok_def executor_receive_def Enqueue_def queueSize_def)

lemma executor_step_ok: "executor_step x y \<Longrightarrow> executor_ok x \<Longrightarrow> executor_ok y"
proof (induction rule: executor_step.induct)
  case (receive x job)
  then show ?case by (simp add: executor_receive_ok)
next
  case (work x job q env)
  have "job_protocol (execute env job [])" using execute_follows[of env job "[]"] by auto
  with work show ?case by (simp add: executor_ok_def)
qed

lemma executor_reach_ok: "executor_reach x \<Longrightarrow> executor_ok x"
  by (induction rule: executor_reach.induct)
    (simp_all add: executor_step_ok, simp add: executor_ok_def executor_New_def)

text \<open>C24: in every reachable state of the executor the queue holds at most 16 jobs, every accepted job has
either been run or is still queued, exactly once and in the order of acceptance, and every run followed
the job protocol.\<close>

theorem executor_queue:
  assumes "executor_reach x"
  shows "length (ex_queue x) \<le> 16 \<and> ex_accepted x = map fst (ex_done x) @ ex_queue x \<and>
    list_all (\<lambda>(j, t). job_protocol t) (ex_done x)"
  using executor_reach_ok[OF assms] by (simp add: executor_ok_def queueSize_def)

section \<open>A concrete job\<close>

text \<open>A job with the given hook and destinations that backs up one directory.\<close>

definition demo_backup :: "string \<Rightarrow> destinationPayload list \<Rightarrow> backupPayload" where
  "demo_backup pre ds = \<lparr>bp_sources = json_text (JArr [JStr ''/srv'']), bp_repo_password = ''pw'',
     bp_destinations = ds, bp_retention = \<lparr>rp_daily = 7, rp_weekly = 4, rp_monthly = 6, rp_yearly = 1\<rparr>,
     bp_hook_pre = pre, bp_hook_post = [], bp_tags = []\<rparr>"

definition demo_executor_job :: "backupPayload \<Rightarrow> executor_job" where
  "demo_executor_job p = \<lparr>ej_job_id = ''j1'', ej_policy_id = ''p1'', ej_type = KindBackup,
     ej_payload = json_text (payload_json p)\<rparr>"

definition demo_host :: exec_env where
  "demo_host = \<lparr>xe_wrapper = demo_wrapper, xe_proc = demo_procs, xe_host_root = [], xe_docker = None,
     xe_windows = False, xe_hook_timeout = 1, xe_hook = (\<lambda>t argv lim.
       \<lparr>hp_output = [], hp_error = Some (ExitError 1), hp_ctx = None\<rparr>),
     xe_stat = (\<lambda>t p. True), xe_create_temp = (\<lambda>t p. True), xe_mkdir = (\<lambda>t p. None),
     xe_cancelled = (\<lambda>t. False), xe_clock = (\<lambda>t. 0), xe_json_error = (\<lambda>ty s. ''error'')\<rparr>"

definition demo_hook_text :: string where
  "demo_hook_text = json_text (JObj [(''command'', JStr ''false'')])"

definition demo_s3 :: destinationPayload where
  "demo_s3 = \<lparr>dp_destination_id = ''d1'', dp_type = ''s3'', dp_repo_url = ''s3:h/b'', dp_credentials = [],
     dp_config = [], dp_env = [], dp_priority = 1\<rparr>"

lemma demo_backup_simps [simp]:
  "bp_sources (demo_backup pre ds) = json_text (JArr [JStr ''/srv''])"
  "bp_repo_password (demo_backup pre ds) = ''pw''" "bp_destinations (demo_backup pre ds) = ds"
  "bp_hook_pre (demo_backup pre ds) = pre" "bp_hook_post (demo_backup pre ds) = []"
  "bp_retention (demo_backup pre ds) = \<lparr>rp_daily = 7, rp_weekly = 4, rp_monthly = 6, rp_yearly = 1\<rparr>"
  by (simp_all add: demo_backup_def)

lemma demo_host_simps [simp]:
  "xe_host_root demo_host = []" "\<not> xe_cancelled demo_host t" "xe_wrapper demo_host = demo_wrapper"
  "xe_proc demo_host = demo_procs"
  "hp_error (xe_hook demo_host t argv lim) = Some (ExitError 1)"
  by (simp_all add: demo_host_def)

lemma demo_job_decodes:
  "list_all dest_ok ds \<Longrightarrow> map sort_env ds = ds \<Longrightarrow>
   unmarshal_struct dec_backup (ej_payload (demo_executor_job (demo_backup pre ds))) = Some (demo_backup pre ds)"
  using payload_decodes[of "demo_backup pre ds"]
  by (simp add: demo_executor_job_def payload_ok_def int64_ok_def demo_backup_def)

lemma demo_s3_ok: "list_all dest_ok [demo_s3]" "map sort_env [demo_s3] = [demo_s3]"
  by (simp_all add: demo_s3_def dest_ok_def int64_ok_def sort_env_def)

lemma demo_raw: "raw_sources (json_text (JArr [JStr ''/srv''])) = Some [''/srv'']"
  using dec_strings[of "[''/srv'']" "[]"]
  by (simp add: raw_sources_def json_parse_text del: json_text.simps)

lemma demo_hook: "resolveHook demo_host demo_hook_text =
    Inr \<lparr>hk_name = [], hk_command = ''false'', hk_args = [], hk_timeout_secs = 0\<rparr>"
  unfolding resolveHook_def unmarshal_struct_def demo_hook_text_def
  by (simp add: json_parse_text dec_hook_def fold_key_def fold_char_def dec_string_def del: json_text.simps)

theorem pre_hook_failure_aborts_witness:
  "\<exists>u m. executeBackup demo_host (demo_executor_job (demo_backup demo_hook_text [demo_s3])) [] =
     u @ [ReportStatus ''failed'' m]"
proof -
  note dec = demo_job_decodes[OF demo_s3_ok, of demo_hook_text]
  have "demo_hook_text \<noteq> []" by (simp add: demo_hook_text_def)
  then show ?thesis
    using pre_hook_failure_aborts[OF dec, of demo_host, OF _ _ _ , simplified demo_backup_simps, OF _ demo_hook]
    by simp
qed

theorem empty_backup_succeeds_witness:
  "\<exists>u. executeBackup demo_host (demo_executor_job (demo_backup [] [])) [] =
     u @ [ReportStatus ''success'' ''backup completed'']"
proof -
  note dec = demo_job_decodes[of "[]" "[]"]
  show ?thesis
    using empty_backup_succeeds[OF dec, of "''/srv''" "[]" demo_host] demo_raw
    by (auto simp: reachable_dests_def docker_scheme_def simp del: json_text.simps)
qed

section \<open>A backup that succeeds\<close>

lemma demo_Backup_any:
  "\<exists>t'. Backup demo_wrapper demo_procs d opts progress_log t = (Inr demo_result, t')"
  by (simp add: Backup_def Init_def run_def demo_procs_def demo_process_def runWithProgress_def Let_def
      demo_line demo_event intercepted_def progress_log_def demo_result_def)

lemma demo_run_backup: "\<exists>t'. run_backup demo_host p srcs dest url tm t = (False, t')"
proof -
  obtain t1 where "Backup demo_wrapper demo_procs (restic_dest_of p dest url)
      \<lparr>bo_sources = srcs, bo_tags = bp_tags p, bo_excludes = []\<rparr> progress_log t = (Inr demo_result, t1)"
    using demo_Backup_any by blast
  then show ?thesis by (auto simp: run_backup_def Let_def split: prod.split sum.split)
qed

lemma demo_loop: "\<exists>t'. backup_loop demo_host p srcs [demo_s3] False t = (False, t')"
proof -
  have s3: "dp_repo_url demo_s3 \<noteq> []" "dp_type demo_s3 \<noteq> ''local''" by (simp_all add: demo_s3_def)
  let ?t1 = "log ''info'' (''backing up to destination '' @ dp_destination_id demo_s3
                 @ '' (type: '' @ dp_type demo_s3 @ '')'') t"
  obtain t' where "run_backup demo_host p srcs demo_s3 (dp_repo_url demo_s3) (xe_clock demo_host ?t1) ?t1
      = (False, t')" using demo_run_backup by blast
  with s3 show ?thesis by (simp add: backup_one_def Let_def)
qed

lemma demo_success: "\<exists>u m. executeBackup demo_host (demo_executor_job (demo_backup [] [demo_s3])) [] =
   u @ [ReportStatus ''success'' m]"
proof -
  note dec = demo_job_decodes[OF demo_s3_ok, of "[]"]
  let ?t1 = "log ''info'' ''backup started'' ([] @ [ReportStatus ''running'' ''starting backup''])"
  have r: "resolveSources demo_host (json_text (JArr [JStr ''/srv''])) ?t1 = (Inr [''/srv''], ?t1)"
    using demo_raw
    by (simp add: resolveSources_def raw_sources_def docker_scheme_def translateLocalPath_def
        del: json_text.simps split: option.splits)
  let ?t3 = "log ''info'' (''resolved '' @ int_text (int (length [''/srv''])) @ '' source(s)'') ?t1"
  obtain t4 where "backup_loop demo_host (demo_backup [] [demo_s3]) [''/srv''] [demo_s3] False ?t3 = (False, t4)"
    using demo_loop by blast
  then show ?thesis using dec r
    by (simp add: executeBackup_def pre_hook_def finish_backup_def post_hook_def Let_def del: json_text.simps)
qed

theorem success_means_backed_up_witness:
  "\<exists>u m. executeBackup demo_host (demo_executor_job (demo_backup [] [demo_s3])) [] =
     u @ [ReportStatus ''success'' m] \<and> results u = [(''d1'', ''succeeded'')]"
proof -
  obtain u m where u: "executeBackup demo_host (demo_executor_job (demo_backup [] [demo_s3])) [] =
    u @ [ReportStatus ''success'' m]" using demo_success by blast
  from success_means_backed_up[OF u] demo_job_decodes[OF demo_s3_ok, of "[]"]
  have "results u = [(''d1'', ''succeeded'')]" by (simp add: reachable_dests_def demo_s3_def)
  with u show ?thesis by blast
qed

theorem executor_queue_witness:
  "\<exists>x::executor. ex_done x = [(demo_executor_job (demo_backup [] []),
      executeBackup demo_host (demo_executor_job (demo_backup [] [])) [])] \<and>
    ex_accepted x = map fst (ex_done x) @ ex_queue x \<and>
    job_protocol (executeBackup demo_host (demo_executor_job (demo_backup [] [])) [])"
proof -
  let ?job = "demo_executor_job (demo_backup [] [])"
  let ?x = "executor_receive ?job executor_New"
  let ?y = "?x\<lparr>ex_queue := [], ex_done := ex_done ?x @ [(?job, execute demo_host ?job [])]\<rparr>"
  have e: "execute demo_host ?job [] = executeBackup demo_host ?job []"
    by (simp add: execute_def demo_executor_job_def)
  have q: "ex_queue ?x = [?job]" "ex_done ?x = []"
    by (simp_all add: executor_receive_def Enqueue_def queueSize_def executor_New_def)
  have "executor_step ?x ?y" by (rule executor_step.work[OF q(1)])
  then have "executor_reach ?y"
    by (rule executor_next[OF executor_next[OF executor_start executor_step.receive]])
  from executor_queue[OF this] q e show ?thesis by (intro exI[of _ ?y]) simp
qed

end
