(* ===== verification/JobReporting.thy ===== *)
theory JobReporting
  imports ConnectionProofs ExecutorOutcomes
begin

text \<open>A job as the server sees it: the calls the connection manager makes for the events of a job.\<close>

section \<open>The calls of a job\<close>

text \<open>Calls up to the timestamps of log lines.\<close>

definition untimed :: "rpc \<Rightarrow> rpc" where
  "untimed r = (case r of RpcLog n e \<Rightarrow> RpcLog n (e\<lparr>le_timestamp := None\<rparr>) | _ \<Rightarrow> r)"

lemma untimed_simps [simp]:
  "untimed (RpcLog n e) = RpcLog n (e\<lparr>le_timestamp := None\<rparr>)"
  "untimed (RpcOpenLogs k n) = RpcOpenLogs k n" "untimed (RpcCloseLogs n) = RpcCloseLogs n"
  "untimed (RpcJobStatus k jr) = RpcJobStatus k jr" "untimed (RpcDestination k dr) = RpcDestination k dr"
  by (simp_all add: untimed_def)

text \<open>The calls one event stands for, on a given log stream or without one.\<close>

fun event_calls :: "nat \<Rightarrow> string \<Rightarrow> string \<Rightarrow> nat option \<Rightarrow> agent_event \<Rightarrow> rpc list" where
  "event_calls k agentID job stream (SendLog level msg) =
     (case stream of None \<Rightarrow> []
      | Some n \<Rightarrow> [RpcLog n \<lparr>le_job_id = job, le_agent_id = agentID, le_level = levelToProto level,
                     le_message = msg, le_timestamp = None\<rparr>])"
| "event_calls k agentID job stream (ReportStatus st msg) =
     [RpcJobStatus k \<lparr>jr_job_id = job, jr_agent_id = agentID, jr_status = statusToProto st,
        jr_message = msg\<rparr>]"
| "event_calls k agentID job stream (ReportDestinationResult d st snap tm sz e) =
     [RpcDestination k \<lparr>dr_job_id = job, dr_agent_id = agentID, dr_destination_id = d, dr_status = st,
        dr_snapshot_id = snap, dr_size_bytes = sz, dr_error = e, dr_started_at = Some tm\<rparr>]"
| "event_calls k agentID job stream _ = []"

definition trace_calls :: "nat \<Rightarrow> string \<Rightarrow> string \<Rightarrow> nat option \<Rightarrow> trace \<Rightarrow> rpc list" where
  "trace_calls k agentID job stream t = concat (map (event_calls k agentID job stream) t)"

definition starts_running :: "trace \<Rightarrow> bool" where
  "starts_running t = (case t of ReportStatus st m # _ \<Rightarrow> st = ''running'' | _ \<Rightarrow> False)"

text \<open>The calls of a whole job: one stream is opened (its number is \<open>n\<close>; \<open>opened\<close> tells whether the
server accepted it), the events of the job follow, and the stream is closed.\<close>

definition job_calls :: "nat \<Rightarrow> string \<Rightarrow> string \<Rightarrow> nat \<Rightarrow> bool \<Rightarrow> trace \<Rightarrow> rpc list" where
  "job_calls k agentID job n opened t =
     (if starts_running t
      then RpcOpenLogs k n # trace_calls k agentID job (if opened then Some n else None) t
             @ (if opened then [RpcCloseLogs n] else [])
      else trace_calls k agentID job None t)"

definition extends :: "conn \<Rightarrow> rpc list \<Rightarrow> conn \<Rightarrow> bool" where
  "extends c rs c' = (\<exists>xs. c' = c\<lparr>cn_calls := cn_calls c @ xs\<rparr> \<and> map untimed xs = rs)"

lemma extends_refl: "extends c [] c"
  by (simp add: extends_def)

lemma extends_trans: "extends c rs d \<Longrightarrow> extends d ss e \<Longrightarrow> extends c (rs @ ss) e"
  by (fastforce simp: extends_def)

lemma extends_call: "untimed r = r' \<Longrightarrow> extends c [r'] (call r c)"
  by (auto simp: extends_def call_def)

lemma quiet_event:
  assumes "quiet e" "cn_client c = Some k"
  shows "extends c (event_calls k (cn_agent_id c) job (map_of (cn_streams c) job) e) (conn_event env job e c)"
  using assms
  by (cases e) (auto simp: conn_SendLog_def conn_ReportDestinationResult_def quiet_def
      intro!: extends_refl extends_call split: option.split)

lemma quiet_trace:
  assumes "list_all quiet t" "cn_client c = Some k"
  shows "extends c (trace_calls k (cn_agent_id c) job (map_of (cn_streams c) job) t) (conn_trace env job t c)"
  using assms
proof (induction t arbitrary: c)
  case Nil
  then show ?case by (simp add: conn_trace_def trace_calls_def extends_refl)
next
  case (Cons e t)
  let ?d = "conn_event env job e c"
  have 1: "extends c (event_calls k (cn_agent_id c) job (map_of (cn_streams c) job) e) ?d"
    using Cons.prems by (simp add: quiet_event)
  then have same: "cn_client ?d = Some k" "cn_agent_id ?d = cn_agent_id c" "cn_streams ?d = cn_streams c"
    using Cons.prems by (auto simp: extends_def)
  with Cons have "extends ?d (trace_calls k (cn_agent_id c) job (map_of (cn_streams c) job) t)
      (conn_trace env job t ?d)" by (metis list.pred_inject(2))
  from extends_trans[OF 1 this] show ?case by (simp add: conn_trace_def trace_calls_def)
qed

lemma map_del_absent: "map_of m k = None \<Longrightarrow> map_del k m = m"
  by (force simp: map_del_def filter_id_conv map_of_eq_None_iff)

lemma map_del_put_new: "map_of m k = None \<Longrightarrow> map_del k (map_put k v m) = m"
  using map_del_absent[of m k] by (simp add: map_of_eq_None_iff map_put_new) (simp add: map_del_def)

lemma final_event:
  assumes "st \<in> {''success'', ''failed'', ''cancelled''}" "cn_client c = Some k"
  shows "conn_ReportStatus env job st m c = (closeLogStream job
     (call (RpcJobStatus k \<lparr>jr_job_id = job, jr_agent_id = cn_agent_id c, jr_status = statusToProto st,
        jr_message = m\<rparr>) c))"
  using assms by (auto simp: conn_ReportStatus_def Let_def)

text \<open>The state in which the events between the two reports of a job run.\<close>

lemma first_event:
  assumes "cn_client c = Some k"
    and opened: "opened \<longleftrightarrow> ce_net env (cn_calls c) (RpcOpenLogs k (length (cn_calls c))) = None"
  shows "conn_ReportStatus env job ''running'' m c =
     c\<lparr>cn_calls := cn_calls c @ [RpcOpenLogs k (length (cn_calls c)),
         RpcJobStatus k \<lparr>jr_job_id = job, jr_agent_id = cn_agent_id c, jr_status = StRunning,
           jr_message = m\<rparr>],
       cn_streams := (if opened then map_put job (length (cn_calls c)) (cn_streams c) else cn_streams c)\<rparr>"
  using assms
  by (cases "ce_net env (cn_calls c) (RpcOpenLogs k (length (cn_calls c)))")
    (simp_all add: conn_ReportStatus_def openLogStream_def call_def statusToProto_def Let_def)

lemma running_calls:
  assumes c: "cn_client c = Some k" "map_of (cn_streams c) job = None"
    and opened: "opened \<longleftrightarrow> ce_net env (cn_calls c) (RpcOpenLogs k (length (cn_calls c))) = None"
    and t: "t = ReportStatus ''running'' m # body @ [ReportStatus st m']" "list_all quiet body"
      "st \<in> {''success'', ''failed'', ''cancelled''}"
  shows "extends c (job_calls k (cn_agent_id c) job (length (cn_calls c)) opened t) (conn_trace env job t c)"
proof -
  let ?n = "length (cn_calls c)" and ?id = "cn_agent_id c"
  let ?S = "if opened then map_put job ?n (cn_streams c) else cn_streams c"
  let ?stream = "if opened then Some ?n else None"
  define c1 where "c1 = conn_ReportStatus env job ''running'' m c"
  have c1: "c1 = c\<lparr>cn_calls := cn_calls c @ [RpcOpenLogs k ?n, RpcJobStatus k \<lparr>jr_job_id = job,
      jr_agent_id = ?id, jr_status = StRunning, jr_message = m\<rparr>], cn_streams := ?S\<rparr>"
    unfolding c1_def by (rule first_event[OF c(1) opened])
  have s: "map_of ?S job = ?stream" using c(2) by simp
  have "cn_client c1 = Some k" using c(1) by (simp add: c1)
  from quiet_trace[OF t(2) this, of job env] obtain xs where xs:
    "conn_trace env job body c1 = c1\<lparr>cn_calls := cn_calls c1 @ xs\<rparr>"
    "map untimed xs = trace_calls k ?id job ?stream body"
    using s by (auto simp: extends_def c1)
  define r where "r = RpcJobStatus k \<lparr>jr_job_id = job, jr_agent_id = ?id, jr_status = statusToProto st,
      jr_message = m'\<rparr>"
  have "conn_trace env job t c = conn_ReportStatus env job st m' (conn_trace env job body c1)"
    by (simp add: conn_trace_def t(1) c1_def)
  also have "\<dots> = closeLogStream job (call r (c1\<lparr>cn_calls := cn_calls c1 @ xs\<rparr>))"
    unfolding xs(1) using final_event[OF t(3), of "c1\<lparr>cn_calls := cn_calls c1 @ xs\<rparr>" k env job m'] c(1)
    by (simp add: r_def c1)
  also have "\<dots> = c\<lparr>cn_calls := cn_calls c @ ([RpcOpenLogs k ?n, RpcJobStatus k \<lparr>jr_job_id = job,
      jr_agent_id = ?id, jr_status = StRunning, jr_message = m\<rparr>] @ xs @ [r]
      @ (if opened then [RpcCloseLogs ?n] else []))\<rparr>" (is "_ = c\<lparr>cn_calls := cn_calls c @ ?rs\<rparr>")
    using c(2) by (simp add: closeLogStream_def call_def c1 map_del_put_new map_del_absent)
  finally have run: "conn_trace env job t c = c\<lparr>cn_calls := cn_calls c @ ?rs\<rparr>" .
  have "map untimed ?rs = job_calls k ?id job ?n opened t"
    by (simp add: job_calls_def starts_running_def t(1) trace_calls_def r_def xs(2)[unfolded trace_calls_def]
        statusToProto_def)
  with run show ?thesis unfolding extends_def by blast
qed

lemma failing_calls:
  assumes c: "cn_client c = Some k" "map_of (cn_streams c) job = None"
    and t: "t = [SendLog ''error'' m, ReportStatus ''failed'' m]"
  shows "extends c (job_calls k (cn_agent_id c) job n opened t) (conn_trace env job t c)"
proof -
  let ?rs = "[RpcJobStatus k \<lparr>jr_job_id = job, jr_agent_id = cn_agent_id c, jr_status = StFailed,
      jr_message = m\<rparr>]"
  have "conn_trace env job t c = c\<lparr>cn_calls := cn_calls c @ ?rs\<rparr>"
    using c by (simp add: t conn_trace_def conn_SendLog_def conn_ReportStatus_def closeLogStream_def
        call_def map_del_absent statusToProto_def)
  moreover have "map untimed ?rs = job_calls k (cn_agent_id c) job n opened t"
    by (simp add: t job_calls_def starts_running_def trace_calls_def statusToProto_def)
  ultimately show ?thesis unfolding extends_def by blast
qed

lemma protocol_calls:
  assumes "cn_client c = Some k" "map_of (cn_streams c) job = None" "job_protocol t"
    and "opened \<longleftrightarrow> ce_net env (cn_calls c) (RpcOpenLogs k (length (cn_calls c))) = None"
  shows "extends c (job_calls k (cn_agent_id c) job (length (cn_calls c)) opened t) (conn_trace env job t c)"
proof -
  consider m where "t = [SendLog ''error'' m, ReportStatus ''failed'' m]"
    | m body st m' where "t = ReportStatus ''running'' m # body @ [ReportStatus st m']" "list_all quiet body"
        "st \<in> {''success'', ''failed'', ''cancelled''}"
    using assms(3) unfolding job_protocol_def by metis
  then show ?thesis
  proof cases
    case 1
    show ?thesis by (rule failing_calls[OF assms(1,2) 1])
  next
    case 2
    show ?thesis by (rule running_calls[OF assms(1,2,4) 2])
  qed
qed

text \<open>C23: on a connection, the events of any job make exactly these calls, in this order: if the job starts
running, one log stream is opened first, every log line is one message on that very stream, every report is
one call, and the stream is closed last; lines of a job that fails before it starts, or whose stream the server
refuses, are dropped.  The connection is otherwise left as it was.\<close>

theorem job_makes_calls:
  assumes "cn_client c = Some k" "map_of (cn_streams c) (ej_job_id job) = None"
    and "t = execute xe job []"
    and "opened \<longleftrightarrow> ce_net env (cn_calls c) (RpcOpenLogs k (length (cn_calls c))) = None"
  shows "\<exists>rs. conn_trace env (ej_job_id job) t c = c\<lparr>cn_calls := cn_calls c @ rs\<rparr> \<and>
     map untimed rs = job_calls k (cn_agent_id c) (ej_job_id job) (length (cn_calls c)) opened t"
proof -
  have "job_protocol t" using execute_follows[of xe job "[]"] assms(3) by simp
  from protocol_calls[OF assms(1,2) this assms(4)] show ?thesis by (auto simp: extends_def)
qed

definition demo_conn_env :: conn_env where
  "demo_conn_env = \<lparr>ce_net = (\<lambda>_ _. None), ce_register = (\<lambda>_ _. Inl []), ce_clock = (\<lambda>_. 7),
     ce_volumes = None, ce_hostname = Some ''h'', ce_os = ''linux'', ce_arch = ''amd64'', ce_dial = None\<rparr>"

definition demo_conn :: conn where
  "demo_conn = conn_New\<lparr>cn_client := Some 0, cn_agent_id := ''a1''\<rparr>"

theorem job_makes_calls_witness:
  "\<exists>rs. cn_calls (conn_trace demo_conn_env ''j1''
       (execute demo_host (demo_executor_job (demo_backup [] [])) []) demo_conn) = rs \<and>
     map untimed rs = job_calls 0 ''a1'' ''j1'' 0 True (execute demo_host (demo_executor_job (demo_backup [] [])) [])"
proof -
  have "cn_client demo_conn = Some 0" "map_of (cn_streams demo_conn) ''j1'' = None" "cn_agent_id demo_conn = ''a1''"
    "cn_calls demo_conn = []" "ej_job_id (demo_executor_job p) = ''j1''" "ce_net demo_conn_env cs r = None" for p cs r
    by (simp_all add: demo_conn_def conn_New_def demo_executor_job_def demo_conn_env_def)
  note d = this
  show ?thesis
  using job_makes_calls[of demo_conn 0 "demo_executor_job (demo_backup [] [])"
      "execute demo_host (demo_executor_job (demo_backup [] [])) []" demo_host True demo_conn_env, OF _ _ refl]
  by (auto simp: d)
qed

end
