(* ===== verification/GrpcProofs.thy ===== *)
theory GrpcProofs
  imports GrpcServer Frames
begin

text \<open>Correctness of the handlers the agents call: authentication, registration, the job status
protocol, the cleanup of a closed stream and the results of destinations.\<close>

lemma gs_simps [simp]:
  "gs_store (with_store s g) = s"
  "gs_mgr (with_store s g) = gs_mgr g"
  "gs_tasks (with_store s g) = gs_tasks g"
  "gs_caps (with_store s g) = gs_caps g"
  "ns_hub (gs_n (with_store s g)) = ns_hub (gs_n g)"
  "gs_store (gs_publish t ty p g) = gs_store g"
  "gs_mgr (gs_publish t ty p g) = gs_mgr g"
  "gs_tasks (gs_publish t ty p g) = gs_tasks g"
  "ns_hub (gs_n (gs_publish t ty p g)) =
     Publish t \<lparr>m_type = ty, m_topic = [], m_payload = p\<rparr> (ns_hub (gs_n g))"
  "gs_store (spawn k g) = gs_store g"
  "gs_mgr (spawn k g) = gs_mgr g"
  "gs_n (spawn k g) = gs_n g"
  "gs_store (cacheCapabilities a c g) = gs_store g"
  "gs_mgr (cacheCapabilities a c g) = gs_mgr g"
  "gs_store (g\<lparr>gs_mgr := m\<rparr>) = gs_store g"
  by (simp_all add: gs_store_def with_store_def gs_publish_def spawn_def cacheCapabilities_def)

section \<open>Authentication\<close>

text \<open>With a shared secret configured and no mutual TLS, a call is let through exactly when the
first value of its \<open>agent-secret\<close> metadata is the secret, and a handler behind the interceptor
is otherwise not run at all.\<close>

theorem interceptor_requires_secret:
  assumes "gc_secret cfg \<noteq> []" "\<not> gc_auto_certs cfg"
  shows "(if \<exists>kvs vs. md = Some kvs \<and> map_of kvs ''agent-secret'' = Some (gc_secret cfg # vs)
          then authInterceptor cfg md handler g = handler g
          else \<exists>msg. authInterceptor cfg md handler g = (Inl (Unauthenticated, msg), g))"
proof (cases md)
  case None
  with assms show ?thesis by (simp add: authInterceptor_def validateToken_def)
next
  case (Some kvs)
  show ?thesis
  proof (cases "map_of kvs ''agent-secret''")
    case None
    with Some assms show ?thesis by (simp add: authInterceptor_def validateToken_def)
  next
    case vals: (Some vs)
    with Some assms show ?thesis
      by (cases vs) (simp_all add: authInterceptor_def validateToken_def)
  qed
qed

definition demo_config :: grpc_config where
  "demo_config = \<lparr>gc_secret = ''s3cret'', gc_auto_certs = False, gc_notifications = True,
     gc_metrics = True\<rparr>"

theorem interceptor_requires_secret_witness:
  "authInterceptor demo_config (Some [(''agent-secret'', [''s3cret''])]) (\<lambda>n. (Inr (), Suc n)) 0
     = (Inr (), Suc 0)"
  using interceptor_requires_secret[of demo_config "Some [(''agent-secret'', [''s3cret''])]"
      "\<lambda>n. (Inr (), Suc n)" 0]
  by (simp add: demo_config_def)

section \<open>Registration\<close>

lemma agents_Create_agents:
  "case agents_Create now a s of
     (Inl e, s') \<Rightarrow> agents s' = agents s
   | (Inr a', s') \<Rightarrow> agents s' = agents s @ [a'] \<and> ID a' \<notin> set (map ID (agents s)) \<and>
       (\<exists>u. a' = stamp_new now ((agent_defaults a)\<lparr>ID := u\<rparr>))"
  using agents_tbl.create_cases[where chk = agent_check and now = now and r = "agent_defaults a"
      and s = s]
  by (auto simp: agents_Create_def wrapped_def split: prod.splits sum.splits)

lemma sql_write_rows:
  assumes "engine_free (rows :: store \<Rightarrow> 'z base_scheme list)" "\<And>f s. rows (upd f s) = f (rows s)"
  shows "case sql (write_row rows upd chk P r) s of
     (Inl e, s') \<Rightarrow> rows s' = rows s
   | (Inr n, s') \<Rightarrow> rows s' = update_where P (\<lambda>_. r) (rows s) \<and> n = count_where P (rows s)"
  by (rule sql_rule)
    (auto simp: write_row_def assms(2) engine_free_simps[OF assms(1)] split: option.split)

lemma agents_Update_ids:
  assumes "a \<in> set (agents s)" "live a" "ID b = ID a"
  shows "map ID (agents (snd (agents_Update now b s))) = map ID (agents s)"
proof -
  let ?P = "\<lambda>q. ID q = ID b \<and> live q"
  have keep: "map ID (update_where ?P (\<lambda>_. b\<lparr>UpdatedAt := now\<rparr>) xs) = map ID xs" for xs
    by (induction xs) auto
  let ?b = "b\<lparr>UpdatedAt := now\<rparr>"
  have w: "case sql (write_row agents agents_update agent_check ?P ?b) s of
     (Inl e, s') \<Rightarrow> agents s' = agents s
   | (Inr n, s') \<Rightarrow> agents s' = update_where ?P (\<lambda>_. ?b) (agents s) \<and>
       n = count_where ?P (agents s)"
    by (rule sql_write_rows) simp_all
  obtain r s1 where run: "sql (write_row agents agents_update agent_check ?P ?b) s = (r, s1)"
    by fastforce
  show ?thesis
  proof (cases r)
    case (Inl e)
    with w run show ?thesis by (simp add: agents_Update_def db_save_def)
  next
    case (Inr n)
    have "0 < n" using w run Inr assms by auto
    with w run Inr keep[of "agents s"] show ?thesis
      by (simp add: agents_Update_def db_save_def)
  qed
qed

lemma register_new_rows:
  "case register_new now req h of
     (Inl e, g') \<Rightarrow> agents (gs_store g') = agents (gs_store h)
   | (Inr resp, g') \<Rightarrow>
       (\<exists>a. agents (gs_store g') = agents (gs_store h) @ [a] \<and>
          ID a \<notin> set (map ID (agents (gs_store h))) \<and> ag_status a = ''offline'' \<and>
          resp = \<lparr>rr_agent_id = ID a, rr_agent_name = rq_hostname req\<rparr>)"
proof -
  let ?a = "\<lparr>ID = nil_uuid, CreatedAt = zero_time, UpdatedAt = zero_time, DeletedAt = None,
             ag_name = rq_hostname req, ag_hostname = rq_hostname req, ag_ip_address = [],
             ag_os = rq_os req, ag_arch = rq_arch req, ag_version = rq_version req,
             ag_status = ''offline'', ag_last_seen_at = None, ag_labels = [],
             ag_docker_available = (rq_docker req = Some True)\<rparr>"
  obtain r s1 where run: "agents_Create now ?a (gs_store h) = (r, s1)" by fastforce
  have "ag_status (stamp_new now ((agent_defaults ?a)\<lparr>ID := u\<rparr>)) = ''offline''"
    "ag_name (stamp_new now ((agent_defaults ?a)\<lparr>ID := u\<rparr>)) = rq_hostname req" for u
    by (simp_all add: agent_defaults_def stamp_new_def)
  then show ?thesis
    using agents_Create_agents[where now = now and a = ?a and s = "gs_store h"] run
    by (cases r) (auto simp: register_new_def Let_def)
qed

text \<open>C19: a successful registration answers with the id of a row of the agents table.  Either the id the
agent presented names a live row, and then no row is added or removed and the answer carries that
same id and the name an administrator may have given it; or exactly one row is appended, with a
fresh id and status offline.  A failed registration adds and removes no row.\<close>

theorem Register_rows:
  "case Register parse now req g of
     (Inl e, g') \<Rightarrow> map ID (agents (gs_store g')) = map ID (agents (gs_store g))
   | (Inr resp, g') \<Rightarrow>
       (\<exists>a\<in>set (agents (gs_store g)). parse (rq_agent_id req) = Some (ID a) \<and> live a \<and>
          resp = \<lparr>rr_agent_id = ID a, rr_agent_name = ag_name a\<rparr> \<and>
          map ID (agents (gs_store g')) = map ID (agents (gs_store g))) \<or>
       (\<exists>a. agents (gs_store g') = agents (gs_store g) @ [a] \<and>
          ID a \<notin> set (map ID (agents (gs_store g))) \<and> ag_status a = ''offline'' \<and>
          resp = \<lparr>rr_agent_id = ID a, rr_agent_name = rq_hostname req\<rparr>)"
proof (cases "rq_agent_id req = []")
  case True
  with register_new_rows[where now = now and req = req and h = g] show ?thesis by (auto simp: Register_def split: prod.splits sum.splits)
next
  case False
  show ?thesis
  proof (cases "parse (rq_agent_id req)")
    case None
    with False show ?thesis by (simp add: Register_def)
  next
    case (Some u)
    obtain r s1 where get: "agents_GetByID u (gs_store g) = (r, s1)" by fastforce
    then have ags: "agents s1 = agents (gs_store g)"
      using agents_GetByID_frame[of agents u "gs_store g"] by simp
    show ?thesis
    proof (cases r)
      case (Inl e)
      with False Some get ags register_new_rows[where now = now and req = req and h = "with_store s1 g"] show ?thesis
        by (auto simp: Register_def split: prod.splits sum.splits)
    next
      case (Inr a)
      then have a: "a \<in> set (agents (gs_store g))" "ID a = u" "live a"
        using agents_tbl.first_Inr[of _ "gs_store g" a s1] get
        by (auto simp: agents_GetByID_def)
      let ?b = "a\<lparr>ag_hostname := rq_hostname req, ag_version := rq_version req,
                  ag_os := rq_os req, ag_arch := rq_arch req,
                  ag_docker_available := (rq_docker req = Some True)\<rparr>"
      have "map ID (agents (snd (agents_Update now ?b s1))) = map ID (agents s1)"
        by (rule agents_Update_ids[of a]) (use a ags in simp_all)
      with False Some get Inr a ags show ?thesis
        by (auto simp: Register_def Let_def split: prod.splits sum.splits)
    qed
  qed
qed

section \<open>Job status\<close>

text \<open>C4: a status report either is refused and changes no job, publishes nothing and starts no
goroutine, or it rewrites exactly the rows with the reported id as the status demands (start time
on running, end time and message on a terminal status), publishes once on the topic of the job, and
leaves every other row as it is.\<close>

theorem ReportJobStatus_effect:
  "case ReportJobStatus parse rfc cfg now req g of
     (Inl e, g') \<Rightarrow> jobs (gs_store g') = jobs (gs_store g) \<and>
       ns_hub (gs_n g') = ns_hub (gs_n g) \<and> gs_tasks g' = gs_tasks g
   | (Inr ok, g') \<Rightarrow>
       \<exists>u st started ended msg. parse (jr_job_id req) = Some u \<and>
         status_update (jr_status req) now (jr_message req) = Some (st, started, ended, msg) \<and>
         has_id u (jobs (gs_store g)) \<and>
         jobs (gs_store g') = update_where (\<lambda>j. ID j = u)
            (touch now (set_job_status st started ended msg)) (jobs (gs_store g)) \<and>
         ns_hub (gs_n g') = Publish (''job:'' @ jr_job_id req)
            \<lparr>m_type = ''job.status'', m_topic = [],
             m_payload = status_payload rfc (jr_job_id req) st (jr_message req) now\<rparr>
            (ns_hub (gs_n g))"
proof (cases "parse (jr_job_id req)")
  case None
  then show ?thesis by (simp add: ReportJobStatus_def)
next
  case (Some u)
  show ?thesis
  proof (cases "status_update (jr_status req) now (jr_message req)")
    case None
    with Some show ?thesis by (simp add: ReportJobStatus_def)
  next
    case (Some upd)
    obtain st started ended msg where upd: "upd = (st, started, ended, msg)"
      by (cases upd)
    obtain r s1 where run: "jobs_UpdateStatus now u st started ended msg (gs_store g) = (r, s1)"
      by fastforce
    show ?thesis
      using jobs_UpdateStatus_cases[where now = now and u = u and st = st and started = started
          and ended = ended and msg = msg and s = "gs_store g"]
        Some upd run \<open>parse (jr_job_id req) = Some u\<close>
      by (cases r) (simp_all add: ReportJobStatus_def Let_def)
  qed
qed

text \<open>A report of the status cancelled never succeeds, because the status column refuses the value;
the job keeps the status it had.\<close>

theorem cancelled_report_refused:
  assumes "jr_status req = StCancelled"
  shows "\<exists>e g'. ReportJobStatus parse rfc cfg now req g = (Inl e, g') \<and>
           jobs (gs_store g') = jobs (gs_store g)"
proof -
  have c: "''cancelled'' \<notin> set job_statuses" by (simp add: job_statuses_def)
  show ?thesis
  proof (cases "parse (jr_job_id req)")
    case None
    then show ?thesis by (simp add: ReportJobStatus_def)
  next
    case (Some u)
    obtain r s1 where run: "jobs_UpdateStatus now u ''cancelled'' None (Some now)
        (jr_message req) (gs_store g) = (r, s1)" by fastforce
    then show ?thesis
      using assms Some c jobs_UpdateStatus_cases[where now = now and u = u and st = "''cancelled''"
          and started = None and ended = "Some now" and msg = "jr_message req"
          and s = "gs_store g"]
      by (cases r) (simp_all add: ReportJobStatus_def status_update_def)
  qed
qed

definition demo_server :: "store \<Rightarrow> grpc_server" where
  "demo_server s = \<lparr>gs_n = \<lparr>ns_store = s, ns_hub = NewHub (\<lambda>_. []), ns_out = []\<rparr>,
     gs_mgr = mgr_New, gs_caps = [], gs_tasks = [], gs_metrics = []\<rparr>"

definition demo_job :: "uuid \<Rightarrow> string \<Rightarrow> job" where
  "demo_job u st = \<lparr>ID = u, CreatedAt = 1, UpdatedAt = 1, job_policy_id = ''p1'',
     job_agent_id = ''a1'', job_type = ''backup'', job_status = st, job_started_at = None,
     job_ended_at = None, job_error = []\<rparr>"

theorem cancelled_report_refused_witness:
  "\<exists>e g'. ReportJobStatus Some (\<lambda>_. []) demo_config 5
      \<lparr>jr_job_id = ''j1'', jr_agent_id = ''a1'', jr_status = StCancelled, jr_message = ''stop''\<rparr>
      (demo_server (empty_store\<lparr>jobs := [demo_job ''j1'' ''running'']\<rparr>)) = (Inl e, g') \<and>
      jobs (gs_store g') = [demo_job ''j1'' ''running'']"
  using cancelled_report_refused[of "\<lparr>jr_job_id = ''j1'', jr_agent_id = ''a1'',
      jr_status = StCancelled, jr_message = ''stop''\<rparr>" Some "\<lambda>_. []" demo_config 5
      "demo_server (empty_store\<lparr>jobs := [demo_job ''j1'' ''running'']\<rparr>)"]
  by (simp add: demo_server_def gs_store_def)

text \<open>The status update has no guard: on a working database a report of running, completed or failed
for an existing job is accepted whatever status the job already has, a terminal one included.\<close>

theorem terminal_status_overwritten:
  assumes "faults (gs_store g) = []" "parse (jr_job_id req) = Some (ID j)"
    and "j \<in> set (jobs (gs_store g))"
    and "(jr_status req, st) \<in> {(StRunning, ''running''), (StCompleted, ''succeeded''),
           (StFailed, ''failed'')}"
  shows "\<exists>g' j'. ReportJobStatus parse rfc cfg now req g = (Inr True, g') \<and>
           j' \<in> set (jobs (gs_store g')) \<and> ID j' = ID j \<and> job_status j' = st"
proof -
  obtain a b m where u: "status_update (jr_status req) now (jr_message req) = Some (st, a, b, m)"
    using assms(4) by (auto simp: status_update_def)
  have "has_id (ID j) (jobs (gs_store g))" using assms(3) by (auto simp: has_id_def list_ex_iff)
  moreover have "st \<in> set job_statuses" using assms(4) by (auto simp: job_statuses_def)
  ultimately have run: "jobs_UpdateStatus now (ID j) st a b m (gs_store g) =
     (Inr (), (gs_store g)\<lparr>jobs := update_where (\<lambda>k. ID k = ID j)
        (touch now (set_job_status st a b m)) (jobs (gs_store g))\<rparr>)"
    using assms(1) by (simp add: jobs_UpdateStatus_accepted)
  let ?j = "touch now (set_job_status st a b m) j"
  have "ID ?j = ID j" "job_status ?j = st" by (simp_all add: touch_def set_job_status_def)
  moreover have "?j \<in> set (update_where (\<lambda>k. ID k = ID j)
        (touch now (set_job_status st a b m)) (jobs (gs_store g)))"
    using assms(3) by (auto simp: set_update_where)
  ultimately show ?thesis
    using assms(2) u run by (intro exI[of _ "snd (ReportJobStatus parse rfc cfg now req g)"] exI[of _ ?j])
      (simp add: ReportJobStatus_def Let_def)
qed

theorem terminal_status_overwritten_witness:
  "\<exists>g' j'. ReportJobStatus Some (\<lambda>_. []) demo_config 5
      \<lparr>jr_job_id = ''j1'', jr_agent_id = ''a1'', jr_status = StRunning, jr_message = []\<rparr>
      (demo_server (empty_store\<lparr>jobs := [demo_job ''j1'' ''failed'']\<rparr>)) = (Inr True, g') \<and>
      j' \<in> set (jobs (gs_store g')) \<and> ID j' = ''j1'' \<and> job_status j' = ''running''"
  using terminal_status_overwritten[of "demo_server (empty_store\<lparr>jobs := [demo_job ''j1'' ''failed'']\<rparr>)"
      Some "\<lparr>jr_job_id = ''j1'', jr_agent_id = ''a1'', jr_status = StRunning, jr_message = []\<rparr>"
      "demo_job ''j1'' ''failed''" "''running''" "\<lambda>_. []" demo_config 5]
  by (simp add: demo_server_def gs_store_def empty_store_def demo_job_def)

section \<open>Disconnection\<close>

text \<open>The statement that fails the running jobs, on any database: it fails all of them, or it fails itself.\<close>

lemma jobs_FailRunning_cases:
  "jobs (snd (jobs_FailRunningJobsForAgent now a msg s)) =
     update_where (\<lambda>j. job_agent_id j = a \<and> job_status j = ''running'')
       (touch now (\<lambda>j. j\<lparr>job_status := ''failed'', job_ended_at := Some now, job_error := msg\<rparr>)) (jobs s) \<or>
   True \<in> set (faults s) \<and> jobs (snd (jobs_FailRunningJobsForAgent now a msg s)) = jobs s"
proof (cases "faults s")
  case Nil
  then show ?thesis by (simp add: jobs_FailRunning_accepted)
next
  case (Cons b bs)
  show ?thesis
  proof (cases b)
    case True
    with Cons show ?thesis by (simp add: jobs_FailRunningJobsForAgent_def db_update_def sql_def)
  next
    case False
    with Cons have "snd (jobs_FailRunningJobsForAgent now a msg s) =
        snd (db_update jobs jobs_update job_row_check now (\<lambda>j. job_agent_id j = a \<and> job_status j = ''running'')
          (\<lambda>j. j\<lparr>job_status := ''failed'', job_ended_at := Some now, job_error := msg\<rparr>) (s\<lparr>faults := []\<rparr>)
          ) \<lparr>faults := bs\<rparr>"
      by (simp add: jobs_FailRunningJobsForAgent_def db_update_def sql_def job_row_check_def touch_def
          job_statuses_def Let_def)
    then show ?thesis by (simp add: db_update_jobs_accepted job_statuses_def)
  qed
qed

text \<open>C17: when the stream of an agent closes, every job of the agent that was running is failed, with the disconnection
as its error, and no other job changes; only when a statement of the database fails may all the jobs stay as they are.
In either case the agent is no longer registered.\<close>

theorem StreamJobs_close_no_running:
  "(jobs (gs_store (StreamJobs_close cfg now os g)) = map (\<lambda>j.
       if job_agent_id j = os_agent_id os \<and> job_status j = ''running''
       then j\<lparr>job_status := ''failed'', job_ended_at := Some now, job_error := ''agent disconnected'',
              UpdatedAt := now\<rparr>
       else j) (jobs (gs_store g)) \<or>
    True \<in> set (faults (gs_store g)) \<and> jobs (gs_store (StreamJobs_close cfg now os g)) = jobs (gs_store g)) \<and>
   \<not> mgr_IsConnected (os_raw_id os) (gs_mgr (StreamJobs_close cfg now os g))"
proof -
  define s2 where "s2 = snd (agents_UpdateStatus now (os_agent_id os) ''offline'' now (gs_store g))"
  have j2: "jobs s2 = jobs (gs_store g)"
    unfolding s2_def by (simp add: agents_UpdateStatus_frame[where p = jobs])
  have f2: "set (faults s2) \<subseteq> set (faults (gs_store g))"
    by (auto simp: s2_def agents_UpdateStatus_def db_update_def sql_def split: list.splits if_splits)
  have st: "gs_store (StreamJobs_close cfg now os g) =
      snd (jobs_FailRunningJobsForAgent now (os_agent_id os) ''agent disconnected'' s2)"
    by (simp add: StreamJobs_close_def Let_def s2_def)
  have "mgr_route (mgr_Deregister (os_raw_id os) (gs_mgr g)) (os_raw_id os) = None"
    by (simp add: mgr.route_deregister)
  then have "\<not> mgr_IsConnected (os_raw_id os) (gs_mgr (StreamJobs_close cfg now os g))"
    by (auto simp: StreamJobs_close_def Let_def mgr_IsConnected_route)
  then show ?thesis
    using jobs_FailRunning_cases[of now "os_agent_id os" "''agent disconnected''" s2] f2
    unfolding st j2 by (auto simp: update_where_def touch_def cong: if_cong)
qed

theorem StreamJobs_close_no_running_witness:
  "jobs (gs_store (StreamJobs_close demo_config 9
      \<lparr>os_raw_id = ''a1'', os_agent_id = ''a1'', os_hostname = ''h''\<rparr>
      (demo_server (empty_store\<lparr>jobs := [demo_job ''j1'' ''running'', demo_job ''j2'' ''succeeded'']\<rparr>))))
   = [(demo_job ''j1'' ''failed'')\<lparr>job_ended_at := Some 9, job_error := ''agent disconnected'',
        UpdatedAt := 9\<rparr>, demo_job ''j2'' ''succeeded'']"
  using StreamJobs_close_no_running[of demo_config 9 "\<lparr>os_raw_id = ''a1'', os_agent_id = ''a1'', os_hostname = ''h''\<rparr>"
      "demo_server (empty_store\<lparr>jobs := [demo_job ''j1'' ''running'', demo_job ''j2'' ''succeeded'']\<rparr>)"]
  by (simp add: demo_server_def gs_store_def empty_store_def demo_job_def)

end
