(* ===== verification/ReportProofs.thy ===== *)
theory ReportProofs
  imports GrpcProofs "HOL-Library.Sublist"
begin

text \<open>The results of destinations and the ingestion of logs: which snapshot a report records, and that
the batches of a log stream write what one bulk insertion would.\<close>

section \<open>Destination results\<close>

lemma snapshots_Create_cases:
  "case snapshots_Create now n s of
     (Inl e, s') \<Rightarrow> snapshots s' = snapshots s
   | (Inr n', s') \<Rightarrow> snapshots s' = snapshots s @ [n'] \<and>
       (\<exists>u. n' = stamp_new now ((snapshot_defaults n)\<lparr>ID := u\<rparr>))"
  using snapshots_tbl.create_cases[where chk = snapshot_check and now = now
      and r = "snapshot_defaults n" and s = s]
  by (auto simp: snapshots_Create_def wrapped_def split: prod.splits sum.splits)

definition snapshot_of :: "destination_status_report \<Rightarrow> uuid \<Rightarrow> uuid \<Rightarrow> time \<Rightarrow> job list \<Rightarrow> snapshot \<Rightarrow> bool" where
  "snapshot_of req jobID destID now js x =
     (snap_job_id x = jobID \<and> snap_destination_id x = destID \<and>
      snap_snapshot_id x = dr_snapshot_id req \<and> snap_size_bytes x = dr_size_bytes req \<and>
      snap_at x = now \<and> list_ex (\<lambda>j. ID j = jobID \<and> job_policy_id j = snap_policy_id x) js)"

lemma record_snapshot_rows:
  "\<exists>xs. snapshots (record_snapshot now jobID destID req s) = snapshots s @ xs \<and> length xs \<le> 1 \<and>
        list_all (snapshot_of req jobID destID now (jobs s)) xs"
proof -
  obtain r s1 where get: "jobs_GetByID jobID s = (r, s1)" by fastforce
  then have same: "snapshots s1 = snapshots s"
    using jobs_GetByID_frame[of snapshots jobID s] by simp
  show ?thesis
  proof (cases r)
    case (Inl e)
    with get same show ?thesis by (intro exI[of _ "[]"]) (simp add: record_snapshot_def)
  next
    case (Inr j)
    then have j: "j \<in> set (jobs s)" "ID j = jobID"
      using jobs_tbl.first_Inr[of _ s j s1] get by (auto simp: jobs_GetByID_def)
    let ?n = "\<lparr>ID = nil_uuid, CreatedAt = zero_time, UpdatedAt = zero_time,
             snap_policy_id = job_policy_id j, snap_destination_id = destID, snap_job_id = jobID,
             snap_snapshot_id = dr_snapshot_id req, snap_size_bytes = dr_size_bytes req,
             snap_file_count = 0, snap_tags = ''[]'', snap_at = now\<rparr>"
    obtain q s2 where crt: "snapshots_Create now ?n s1 = (q, s2)" by fastforce
    have fields: "snapshot_of req jobID destID now (jobs s)
        (stamp_new now ((snapshot_defaults ?n)\<lparr>ID := u\<rparr>))" for u
      using j by (auto simp: snapshot_of_def stamp_new_def snapshot_defaults_def list_ex_iff)
    have run: "record_snapshot now jobID destID req s = s2"
      using get Inr crt by (simp add: record_snapshot_def)
    show ?thesis
    proof (cases q)
      case (Inl e)
      with snapshots_Create_cases[where now = now and n = ?n and s = s1] crt same run
      show ?thesis by (intro exI[of _ "[]"]) simp
    next
      case (Inr n')
      with snapshots_Create_cases[where now = now and n = ?n and s = s1] crt same run fields
      show ?thesis by (intro exI[of _ "[n']"]) auto
    qed
  qed
qed

text \<open>A report that reaches the stored row either writes no snapshot or writes it from a store with the jobs
and snapshots it started with.\<close>

lemma ReportDestinationStatus_writes:
  assumes "parse (dr_job_id req) = Some jobID" "parse (dr_destination_id req) = Some destID"
    "ReportDestinationStatus parse now req g = (res, g')"
  shows "snapshots (gs_store g') = snapshots (gs_store g) \<or>
    res = Inr True \<and> dr_status req = ''succeeded'' \<and> dr_snapshot_id req \<noteq> [] \<and>
    (\<exists>s2. snapshots s2 = snapshots (gs_store g) \<and> jobs s2 = jobs (gs_store g) \<and>
       gs_store g' = record_snapshot now jobID destID req s2)"
proof -
  obtain r s1 where ls: "jobs_ListDestinationsByJob jobID (gs_store g) = (r, s1)" by fastforce
  then have s1: "snapshots s1 = snapshots (gs_store g)" "jobs s1 = jobs (gs_store g)"
    using jobs_ListDestinationsByJob_frame[of snapshots jobID "gs_store g"]
      jobs_ListDestinationsByJob_frame[of jobs jobID "gs_store g"] by simp_all
  show ?thesis
  proof (cases r)
    case (Inl e)
    with assms ls s1 show ?thesis by (auto simp: ReportDestinationStatus_def)
  next
    case (Inr ds)
    let ?id = "find_job_destination destID ds"
    let ?started = "case dr_started_at req of None \<Rightarrow> now | Some t \<Rightarrow> t"
    note frame = jobs_UpdateDestinationStatus_frame[where now = now and u = ?id and st = "dr_status req"
        and a = "Some ?started" and b = "Some now" and sn = "dr_snapshot_id req"
        and sz = "dr_size_bytes req" and msg = "dr_error req" and s = s1]
    obtain q s2 where up: "jobs_UpdateDestinationStatus now ?id (dr_status req) (Some ?started)
        (Some now) (dr_snapshot_id req) (dr_size_bytes req) (dr_error req) s1 = (q, s2)"
      by fastforce
    then have s2: "snapshots s2 = snapshots s1" "jobs s2 = jobs s1"
      using frame[where p = snapshots] frame[where p = jobs] by simp_all
    then show ?thesis using assms ls Inr up s1
      by (auto simp: ReportDestinationStatus_def Let_def split: sum.splits if_splits)
  qed
qed

text \<open>C12: a destination report records at most one snapshot, and only when the report is accepted, its
status is succeeded and it names an engine snapshot; the snapshot carries the report's job,
destination, engine id and size, and the policy of that very job.\<close>

theorem ReportDestinationStatus_snapshot:
  "case ReportDestinationStatus parse now req g of (res, g') \<Rightarrow>
     \<exists>xs. snapshots (gs_store g') = snapshots (gs_store g) @ xs \<and> length xs \<le> 1 \<and>
       list_all (\<lambda>x. res = Inr True \<and> dr_status req = ''succeeded'' \<and> dr_snapshot_id req \<noteq> [] \<and>
          (\<exists>jobID destID. parse (dr_job_id req) = Some jobID \<and>
             parse (dr_destination_id req) = Some destID \<and>
             snapshot_of req jobID destID now (jobs (gs_store g)) x)) xs"
proof -
  obtain res g' where run: "ReportDestinationStatus parse now req g = (res, g')" by fastforce
  let ?Q = "\<lambda>xs. snapshots (gs_store g') = snapshots (gs_store g) @ xs \<and> length xs \<le> 1 \<and>
       list_all (\<lambda>x. res = Inr True \<and> dr_status req = ''succeeded'' \<and> dr_snapshot_id req \<noteq> [] \<and>
          (\<exists>jobID destID. parse (dr_job_id req) = Some jobID \<and>
             parse (dr_destination_id req) = Some destID \<and>
             snapshot_of req jobID destID now (jobs (gs_store g)) x)) xs"
  have none: "\<exists>xs. ?Q xs" if "snapshots (gs_store g') = snapshots (gs_store g)"
    using that by (intro exI[of _ "[]"]) simp
  have "\<exists>xs. ?Q xs"
  proof (cases "parse (dr_job_id req) = None \<or> parse (dr_destination_id req) = None")
    case True
    with run show ?thesis by (intro none) (auto simp: ReportDestinationStatus_def split: option.splits)
  next
    case False
    then obtain jobID destID where ids: "parse (dr_job_id req) = Some jobID"
      "parse (dr_destination_id req) = Some destID" by auto
    from ReportDestinationStatus_writes[OF ids run] show ?thesis
    proof (elim disjE conjE exE)
      fix s2
      assume "res = Inr True" "dr_status req = ''succeeded''" "dr_snapshot_id req \<noteq> []"
        "snapshots s2 = snapshots (gs_store g)" "jobs s2 = jobs (gs_store g)"
        "gs_store g' = record_snapshot now jobID destID req s2"
      with ids record_snapshot_rows[of now jobID destID req s2] show ?thesis by simp
    qed (rule none)
  qed
  then show ?thesis using run by simp
qed

section \<open>Logs\<close>

lemma before_create_all_nil:
  "\<forall>r\<in>set rs. ID r = nil_uuid \<Longrightarrow> length rs \<le> length (ids s) \<Longrightarrow>
   before_create_all rs s =
     (Some (map2 (\<lambda>r u. r\<lparr>ID := u\<rparr>) rs (ids s)), s\<lparr>ids := drop (length rs) (ids s)\<rparr>)"
proof (induction rs arbitrary: s)
  case (Cons r rs)
  then obtain u us where i: "ids s = u # us" by (cases "ids s") auto
  with Cons.prems have "before_create r s = (Some (r\<lparr>ID := u\<rparr>), s\<lparr>ids := us\<rparr>)"
    by (simp add: before_create_def)
  moreover have "before_create_all rs (s\<lparr>ids := us\<rparr>) =
     (Some (map2 (\<lambda>r u. r\<lparr>ID := u\<rparr>) rs us), s\<lparr>ids := drop (length rs) us\<rparr>)"
    using Cons.IH[of "s\<lparr>ids := us\<rparr>"] Cons.prems i by simp
  ultimately show ?case using i by simp
qed simp

lemma map_ID_stamped:
  "length rs \<le> length us \<Longrightarrow>
   map ID (map (stamp_new now) (map2 (\<lambda>r u. r\<lparr>ID := u\<rparr>) rs us)) = take (length rs) us"
proof (induction rs arbitrary: us)
  case (Cons r rs)
  then show ?case by (cases us) (auto simp: stamp_new_def)
qed simp

definition log_content :: "job_log \<Rightarrow> uuid \<times> string \<times> string \<times> time" where
  "log_content r = (jl_job_id r, jl_level r, jl_message r, jl_timestamp r)"

lemma log_content_stamped:
  "length rs \<le> length us \<Longrightarrow>
   map log_content (map (stamp_new now) (map2 (\<lambda>r u. r\<lparr>ID := u\<rparr>) rs us)) = map log_content rs"
proof (induction rs arbitrary: us)
  case (Cons r rs)
  then show ?case by (cases us) (auto simp: stamp_new_def log_content_def)
qed simp

text \<open>A store on which the log of a job can be written: no engine error, enough fresh ids, and the
job exists.\<close>

definition log_ready :: "uuid \<Rightarrow> nat \<Rightarrow> store \<Rightarrow> bool" where
  "log_ready u n s = (faults s = [] \<and> n \<le> length (ids s) \<and>
     distinct (map ID (job_logs s) @ ids s) \<and> has_id u (jobs s))"

lemma job_log_check_row:
  assumes "has_id u (jobs s)"
  shows "job_log_check s (stamp_new now ((log_row u e)\<lparr>ID := i\<rparr>)) = None"
  using assms
  by (cases "le_level e")
    (simp_all add: job_log_check_def stamp_new_def log_row_def protoLevelToString_def)

lemma BulkCreateLogs_ready:
  assumes "log_ready u n s" "length es \<le> n" "es \<noteq> []"
  shows "\<exists>rows. job_logs (snd (jobs_BulkCreateLogs now (map (log_row u) es) s)) = job_logs s @ rows \<and>
     map log_content rows = map (log_content \<circ> log_row u) es \<and>
     log_ready u (n - length es) (snd (jobs_BulkCreateLogs now (map (log_row u) es) s))"
proof -
  let ?ls = "map (log_row u) es"
  define raw where "raw = map2 (\<lambda>r u. r\<lparr>ID := u\<rparr>) ?ls (ids s)"
  define new where "new = map (stamp_new now) raw"
  let ?s1 = "s\<lparr>ids := drop (length es) (ids s)\<rparr>"
  have len: "length ?ls \<le> length (ids s)" using assms by (simp add: log_ready_def)
  have bc: "before_create_all ?ls s = (Some raw, ?s1)"
    using before_create_all_nil[of ?ls s] len by (simp add: log_row_def raw_def)
  have ids_new: "map ID new = take (length es) (ids s)"
    unfolding new_def raw_def using map_ID_stamped[of ?ls "ids s" now] len by simp
  have dist: "distinct (map ID (job_logs s) @ ids s)" using assms by (simp add: log_ready_def)
  then have "distinct (map ID (job_logs s) @ map ID new)"
    unfolding ids_new by (auto simp: distinct_take dest: in_set_takeD)
  then have d1: "distinct (map ID (job_logs s @ new))" by simp
  have "set new = (\<lambda>(r, i). stamp_new now (r\<lparr>ID := i\<rparr>)) ` set (zip ?ls (ids s))"
    by (simp add: new_def raw_def image_image case_prod_unfold)
  then have "job_log_check ?s1 r = None" if "r \<in> set new" for r
    using that assms(1) by (auto simp: set_zip log_ready_def intro!: job_log_check_row)
  then have chk: "\<not> list_ex (\<lambda>r. job_log_check ?s1 r \<noteq> None) new"
    by (simp add: list_ex_iff)
  have run: "snd (jobs_BulkCreateLogs now ?ls s) = ?s1\<lparr>job_logs := job_logs s @ new\<rparr>"
    using assms d1 chk
    by (simp add: jobs_BulkCreateLogs_def db_create_all_def bc log_ready_def Let_def
        new_def[symmetric] del: map_append)
  have "set (take (length es) (ids s)) \<inter> set (drop (length es) (ids s)) = {}"
    using dist by (simp add: set_take_disj_set_drop_if_distinct)
  then have "set (map ID new) \<inter> set (drop (length es) (ids s)) = {}" unfolding ids_new .
  moreover have "set (map ID (job_logs s)) \<inter> set (drop (length es) (ids s)) = {}"
    using dist by (auto dest: in_set_dropD)
  ultimately have "distinct (map ID (job_logs s @ new) @ drop (length es) (ids s))"
    using d1 dist unfolding distinct_append[of "map ID (job_logs s @ new)"]
    by (auto simp: distinct_drop)
  then have "log_ready u (n - length es) (?s1\<lparr>job_logs := job_logs s @ new\<rparr>)"
    using assms by (simp add: log_ready_def diff_le_mono)
  moreover have "map log_content new = map (log_content \<circ> log_row u) es"
    unfolding new_def raw_def using log_content_stamped[of ?ls "ids s" now] len by simp
  ultimately show ?thesis
    by (intro exI[of _ new]) (simp add: run)
qed

text \<open>The local state of the loop after it has received \<open>done\<close> entries: the job is known, fewer than
a batch of entries wait.\<close>

definition loop_ok :: "(string \<Rightarrow> uuid option) \<Rightarrow> uuid \<Rightarrow> log_stream \<Rightarrow> log_entry list \<Rightarrow> bool" where
  "loop_ok parse u l es = (ls_flushed l \<le> length (ls_entries l) \<and>
     (if ls_entries l = [] then ls_job l = None \<and>
        (case es of [] \<Rightarrow> True | e # _ \<Rightarrow> parse (le_job_id e) = Some u)
      else ls_job l = Some u))"

definition waiting :: "log_stream \<Rightarrow> log_entry list" where
  "waiting l = drop (ls_flushed l) (ls_entries l)"

lemma flushBatch_ready:
  assumes "ls_job l = Some u" "log_ready u n s" "length (waiting l) \<le> n"
    "ls_flushed l \<le> length (ls_entries l)"
  shows "\<exists>rows. job_logs (snd (flushBatch now l s)) = job_logs s @ rows \<and>
     map log_content rows = map (log_content \<circ> log_row u) (waiting l) \<and>
     log_ready u (n - length (waiting l)) (snd (flushBatch now l s)) \<and>
     fst (flushBatch now l s) = l\<lparr>ls_flushed := length (ls_entries l)\<rparr>"
proof (cases "waiting l = []")
  case True
  then have "ls_flushed l = length (ls_entries l)" using assms(4) by (simp add: waiting_def)
  then have "l\<lparr>ls_flushed := length (ls_entries l)\<rparr> = l" by (metis log_stream.surjective log_stream.update_convs(3))
  with True assms show ?thesis by (simp add: flushBatch_def waiting_def)
next
  case False
  then show ?thesis
    using assms BulkCreateLogs_ready[of u n s "waiting l" now]
    by (simp add: flushBatch_def waiting_def Let_def)
qed

text \<open>One received line: it is kept or written out, and what is written followed by what is still waiting is
what was waiting followed by the line.\<close>

lemma StreamLogs_loop_line:
  assumes "loop_ok parse u l (e # es)" "log_ready u n (gs_store g)" "length (waiting l) + length (e # es) \<le> n"
  shows "\<exists>l2 g2 m rows.
    StreamLogs_loop parse rfc now (Entry e # rs) l g = StreamLogs_loop parse rfc now rs l2 g2 \<and>
    loop_ok parse u l2 es \<and> log_ready u m (gs_store g2) \<and> length (waiting l2) + length es \<le> m \<and>
    ls_entries l2 = ls_entries l @ [e] \<and> job_logs (gs_store g2) = job_logs (gs_store g) @ rows \<and>
    map log_content rows @ map (log_content \<circ> log_row u) (waiting l2)
      = map (log_content \<circ> log_row u) (waiting l @ [e])"
    (is "\<exists>l2 g2 m rows. ?S l2 g2 m rows")
proof -
  have job: "(case ls_job l of Some u \<Rightarrow> Some u | None \<Rightarrow> parse (le_job_id e)) = Some u"
    using assms(1) by (auto simp: loop_ok_def split: if_splits)
  let ?l1 = "l\<lparr>ls_job := Some u, ls_entries := ls_entries l @ [e]\<rparr>"
  let ?g1 = "gs_publish (''job:'' @ le_job_id e) ''job.log'' (log_payload rfc now e) g"
  have w1: "waiting ?l1 = waiting l @ [e]" and fl: "ls_flushed ?l1 \<le> length (ls_entries ?l1)"
    using assms(1) by (simp_all add: waiting_def loop_ok_def)
  show ?thesis
  proof (cases "logFlushBatchSize \<le> length (ls_entries ?l1) - ls_flushed ?l1")
    case True
    have "length (waiting ?l1) \<le> n" using assms(3) w1 by simp
    then obtain rows where f:
      "job_logs (snd (flushBatch now ?l1 (gs_store g))) = job_logs (gs_store g) @ rows"
      "map log_content rows = map (log_content \<circ> log_row u) (waiting ?l1)"
      "log_ready u (n - length (waiting ?l1)) (snd (flushBatch now ?l1 (gs_store g)))"
      "fst (flushBatch now ?l1 (gs_store g)) = ?l1\<lparr>ls_flushed := length (ls_entries ?l1)\<rparr>"
      using flushBatch_ready[of ?l1 u n "gs_store g" now] assms(2) fl by auto
    have "StreamLogs_loop parse rfc now (Entry e # rs) l g = StreamLogs_loop parse rfc now rs
        (fst (flushBatch now ?l1 (gs_store g))) (with_store (snd (flushBatch now ?l1 (gs_store g))) ?g1)"
      using True job by (simp add: Let_def split: prod.split)
    moreover have "waiting (?l1\<lparr>ls_flushed := length (ls_entries ?l1)\<rparr>) = []" by (simp add: waiting_def)
    ultimately have "?S (?l1\<lparr>ls_flushed := length (ls_entries ?l1)\<rparr>)
        (with_store (snd (flushBatch now ?l1 (gs_store g))) ?g1) (n - length (waiting ?l1)) rows"
      using f w1 assms(3) by (simp add: loop_ok_def)
    then show ?thesis by blast
  next
    case False
    then have "StreamLogs_loop parse rfc now (Entry e # rs) l g = StreamLogs_loop parse rfc now rs ?l1 ?g1"
      using job by (simp add: Let_def)
    then have "?S ?l1 ?g1 n []" using fl w1 assms(2,3) by (simp add: loop_ok_def)
    then show ?thesis by blast
  qed
qed

lemma StreamLogs_loop_persists:
  assumes "loop_ok parse u l es" "log_ready u n (gs_store g)" "length (waiting l) + length es \<le> n"
  shows "\<exists>rows g'. StreamLogs_loop parse rfc now (map Entry es @ [Eof]) l g =
             (Some (Inr ((length (ls_entries l) + length es) mod 2 ^ 32)), g') \<and>
           job_logs (gs_store g') = job_logs (gs_store g) @ rows \<and>
           map log_content rows = map (log_content \<circ> log_row u) (waiting l @ es)"
  using assms
proof (induction es arbitrary: l g n)
  case Nil
  show ?case
  proof (cases "ls_job l")
    case None
    with Nil.prems have "ls_entries l = []" by (simp add: loop_ok_def split: if_splits)
    then show ?thesis using None by (simp add: flushBatch_def waiting_def)
  next
    case (Some v)
    with Nil.prems have "ls_job l = Some u" by (simp add: loop_ok_def split: if_splits)
    then obtain rows where "job_logs (snd (flushBatch now l (gs_store g))) = job_logs (gs_store g) @ rows"
      "map log_content rows = map (log_content \<circ> log_row u) (waiting l)"
      "fst (flushBatch now l (gs_store g)) = l\<lparr>ls_flushed := length (ls_entries l)\<rparr>"
      using flushBatch_ready[of l u n "gs_store g" now] Nil.prems by (auto simp: loop_ok_def)
    then show ?thesis by (cases "flushBatch now l (gs_store g)") auto
  qed
next
  case (Cons e es)
  obtain l2 g2 m rows1 where l2:
    "StreamLogs_loop parse rfc now (map Entry (e # es) @ [Eof]) l g =
       StreamLogs_loop parse rfc now (map Entry es @ [Eof]) l2 g2"
    "loop_ok parse u l2 es" "log_ready u m (gs_store g2)" "length (waiting l2) + length es \<le> m"
    "ls_entries l2 = ls_entries l @ [e]" "job_logs (gs_store g2) = job_logs (gs_store g) @ rows1"
    "map log_content rows1 @ map (log_content \<circ> log_row u) (waiting l2)
       = map (log_content \<circ> log_row u) (waiting l @ [e])"
    using StreamLogs_loop_line[OF Cons.prems, of rfc now "map Entry es @ [Eof]"]
    unfolding list.map append_Cons by (elim exE conjE) blast
  obtain rows2 g' where r2:
    "StreamLogs_loop parse rfc now (map Entry es @ [Eof]) l2 g2 =
       (Some (Inr ((length (ls_entries l2) + length es) mod 2 ^ 32)), g')"
    "job_logs (gs_store g') = job_logs (gs_store g2) @ rows2"
    "map log_content rows2 = map (log_content \<circ> log_row u) (waiting l2 @ es)"
    using Cons.IH[OF l2(2-4)] by blast
  have "map log_content (rows1 @ rows2)
      = (map log_content rows1 @ map (log_content \<circ> log_row u) (waiting l2)) @ map (log_content \<circ> log_row u) es"
    using r2(3) by simp
  also have "\<dots> = map (log_content \<circ> log_row u) (waiting l @ e # es)" unfolding l2(7) by simp
  finally show ?case
    using l2(1,5,6) r2(1,2) by (intro exI[of _ "rows1 @ rows2"] exI[of _ g']) simp
qed

text \<open>What the handler receives until the stream ends, and whether the agent ends it.\<close>

fun received :: "recv list \<Rightarrow> log_entry list" where
  "received (Entry e # rs) = e # received rs"
| "received _ = []"

fun closed_by_agent :: "recv list \<Rightarrow> bool" where
  "closed_by_agent (Entry e # rs) = closed_by_agent rs"
| "closed_by_agent (Eof # rs) = True"
| "closed_by_agent _ = False"

lemma StreamLogs_loop_closed:
  "closed_by_agent rs \<Longrightarrow> StreamLogs_loop parse rfc now rs l g = StreamLogs_loop parse rfc now (map Entry (received rs) @ [Eof]) l g"
  by (induction rs arbitrary: l g rule: closed_by_agent.induct)
    (auto simp: Let_def split: option.split prod.split)

text \<open>The batches of a sequence of lines: of \<open>n\<close> lines each, but for the last.\<close>

function (sequential) batches :: "nat \<Rightarrow> 'a list \<Rightarrow> 'a list list" where
  "batches n [] = []"
| "batches 0 (x # xs) = [x # xs]"
| "batches (Suc n) (x # xs) = (x # take n xs) # batches (Suc n) (drop n xs)"
  by pat_completeness auto
termination by (relation "measure (length \<circ> snd)") auto

lemma concat_batches [simp]: "concat (batches n xs) = xs"
  by (induction n xs rule: batches.induct) auto

lemma batches_full: "length xs = n \<Longrightarrow> 0 < n \<Longrightarrow> batches n (xs @ ys) = xs # batches n ys"
  by (cases xs; cases n) auto

lemma batches_short: "length xs \<le> n \<Longrightarrow> xs \<noteq> [] \<Longrightarrow> batches n xs = [xs]"
  by (cases xs; cases n) auto

text \<open>A batch is written as a whole or not at all, whatever the database does.\<close>

lemma before_create_all_content:
  "before_create_all ls s = (Some raw, s1) \<Longrightarrow> map log_content (map (stamp_new now) raw) = map log_content ls"
proof (induction ls arbitrary: s raw)
  case (Cons r ls)
  then obtain r1 s2 rs1 where r: "before_create r s = (Some r1, s2)" "before_create_all ls s2 = (Some rs1, s1)" "raw = r1 # rs1"
    by (auto split: prod.splits option.splits)
  then have "log_content (stamp_new now r1) = log_content r"
    by (auto simp: before_create_def log_content_def stamp_new_def split: if_splits list.splits)
  with Cons.IH[OF r(2)] r(3) show ?case by simp
qed simp

lemma BulkCreateLogs_batch:
  "\<exists>rows. job_logs (snd (jobs_BulkCreateLogs now ls s)) = job_logs s @ rows \<and>
     (rows = [] \<or> map log_content rows = map log_content ls)"
proof (cases "ls = []")
  case False
  obtain o1 s1 where b: "before_create_all ls s = (o1, s1)" by fastforce
  then have s1: "job_logs s1 = job_logs s" using before_create_all_frame[of job_logs ls s] by simp
  show ?thesis
  proof (cases o1)
    case None
    then show ?thesis using b s1 by (simp add: snd_jobs_BulkCreateLogs db_create_all_def)
  next
    case (Some raw)
    let ?ins = "\<lambda>s2. let new = map (stamp_new now) raw in
            if \<not> distinct (map ID (job_logs s2 @ new)) \<or> list_ex (\<lambda>r. job_log_check s2 r \<noteq> None) new
            then (Inl ErrDB, s2) else (Inr new, job_logs_update (\<lambda>old. old @ new) s2)"
    have "case sql ?ins s1 of (q, s2) \<Rightarrow> job_logs s2 = job_logs s1 \<or> job_logs s2 = job_logs s1 @ map (stamp_new now) raw"
      by (rule sql_rule) (simp_all add: Let_def)
    moreover have "map log_content (map (stamp_new now) raw) = map log_content ls"
      using b Some before_create_all_content by blast
    moreover have "snd (jobs_BulkCreateLogs now ls s) = snd (sql ?ins s1)"
      using False b Some by (simp add: snd_jobs_BulkCreateLogs db_create_all_def)
    ultimately show ?thesis
      using s1 by (cases "sql ?ins s1") (auto intro: exI[of _ "[]"])
  qed
qed (simp add: jobs_BulkCreateLogs_def)

text \<open>The job of a stream is that of its first line.\<close>

definition stream_job :: "(string \<Rightarrow> uuid option) \<Rightarrow> recv list \<Rightarrow> uuid option" where
  "stream_job parse rs = (case received rs of [] \<Rightarrow> None | e # _ \<Rightarrow> parse (le_job_id e))"

lemma flushBatch_batch:
  assumes "flushBatch now l s = (l1, s1)" "ls_job l = Some u" "ls_flushed l \<le> length (ls_entries l)"
  shows "\<exists>rows bs. job_logs s1 = job_logs s @ rows \<and> subseq bs (if waiting l = [] then [] else [waiting l]) \<and>
      map log_content rows = map (log_content \<circ> log_row u) (concat bs) \<and>
      ls_entries l1 = ls_entries l \<and> ls_job l1 = Some u \<and> ls_flushed l1 = length (ls_entries l1)"
proof (cases "waiting l = []")
  case True
  then show ?thesis using assms by (intro exI[of _ "[]"]) (auto simp: flushBatch_def waiting_def)
next
  case False
  then have l1: "l1 = l\<lparr>ls_flushed := length (ls_entries l)\<rparr>"
    and s1: "s1 = snd (jobs_BulkCreateLogs now (map (log_row u) (waiting l)) s)"
    using assms by (auto simp: flushBatch_def waiting_def Let_def)
  obtain rows where "job_logs s1 = job_logs s @ rows"
    "rows = [] \<or> map log_content rows = map log_content (map (log_row u) (waiting l))"
    using BulkCreateLogs_batch[of now "map (log_row u) (waiting l)" s] s1 by blast
  then show ?thesis
    using l1 assms(2) False
    by (intro exI[of _ rows] exI[of _ "if rows = [] then [] else [waiting l]"]) auto
qed

lemma StreamLogs_loop_batches:
  assumes "ls_job l = Some u" "ls_flushed l \<le> length (ls_entries l)" "length (waiting l) < logFlushBatchSize"
  shows "\<exists>rows bs. job_logs (gs_store (snd (StreamLogs_loop parse rfc now rs l g))) = job_logs (gs_store g) @ rows \<and>
      subseq bs (batches logFlushBatchSize (waiting l @ received rs)) \<and>
      map log_content rows = map (log_content \<circ> log_row u) (concat bs)"
  using assms
proof (induction rs arbitrary: l g rule: received.induct[case_names line none eof broken])
  case (line e rs)
  let ?l1 = "l\<lparr>ls_job := Some u, ls_entries := ls_entries l @ [e]\<rparr>"
  let ?g1 = "gs_publish (''job:'' @ le_job_id e) ''job.log'' (log_payload rfc now e) g"
  have w: "waiting ?l1 = waiting l @ [e]" and fl: "ls_flushed ?l1 \<le> length (ls_entries ?l1)"
    using line.prems by (simp_all add: waiting_def)
  show ?case
  proof (cases "logFlushBatchSize \<le> length (ls_entries ?l1) - ls_flushed ?l1")
    case True
    then have full: "length (waiting ?l1) = logFlushBatchSize"
      using line.prems unfolding w by (simp add: waiting_def)
    obtain l2 s2 where f: "flushBatch now ?l1 (gs_store ?g1) = (l2, s2)" by fastforce
    obtain rows bs where b: "job_logs s2 = job_logs (gs_store g) @ rows" "subseq bs [waiting ?l1]"
      "map log_content rows = map (log_content \<circ> log_row u) (concat bs)" "ls_job l2 = Some u"
      "ls_flushed l2 = length (ls_entries l2)"
      using flushBatch_batch[OF f, of u] fl full by (auto simp: logFlushBatchSize_def split: if_splits)
    then have "waiting l2 = []" by (simp add: waiting_def)
    with b line.IH[of l2 "with_store s2 ?g1"] obtain rows2 bs2 where
      "job_logs (gs_store (snd (StreamLogs_loop parse rfc now rs l2 (with_store s2 ?g1)))) = job_logs s2 @ rows2"
      "subseq bs2 (batches logFlushBatchSize (received rs))"
      "map log_content rows2 = map (log_content \<circ> log_row u) (concat bs2)"
      by (auto simp: logFlushBatchSize_def)
    moreover have "batches logFlushBatchSize (waiting l @ received (Entry e # rs)) =
        [waiting ?l1] @ batches logFlushBatchSize (received rs)"
      using batches_full[OF full] w by (simp add: logFlushBatchSize_def)
    moreover have "StreamLogs_loop parse rfc now (Entry e # rs) l g = StreamLogs_loop parse rfc now rs l2 (with_store s2 ?g1)"
      using True line.prems f by (simp add: Let_def)
    moreover from b(2) have "subseq (bs @ bs2) ([waiting ?l1] @ xss)" if "subseq bs2 xss" for bs2 xss
      using that by (rule list_emb_append_mono)
    ultimately show ?thesis
      using b by (intro exI[of _ "rows @ rows2"] exI[of _ "bs @ bs2"]) (simp del: StreamLogs_loop.simps)
  next
    case False
    then have "length (waiting ?l1) < logFlushBatchSize" by (simp add: waiting_def)
    with line.IH[of ?l1 ?g1] fl w False line.prems show ?thesis by (simp add: Let_def)
  qed
next
  case none
  then show ?case by (intro exI[of _ "[]"]) simp
next
  case (eof rs)
  obtain l2 s2 where f: "flushBatch now l (gs_store g) = (l2, s2)" by fastforce
  obtain rows bs where "job_logs s2 = job_logs (gs_store g) @ rows"
    "subseq bs (if waiting l = [] then [] else [waiting l])"
    "map log_content rows = map (log_content \<circ> log_row u) (concat bs)"
    using flushBatch_batch[OF f eof.prems(1,2)] by auto
  then show ?case
    using f eof.prems(3) batches_short[of "waiting l" logFlushBatchSize]
    by (intro exI[of _ rows] exI[of _ bs]) (simp split: if_splits)
next
  case (broken m rs)
  then show ?case by (intro exI[of _ "[]"]) simp
qed

text \<open>No other table is touched.\<close>

definition but_logs :: "store \<Rightarrow> store" where
  "but_logs s = s\<lparr>job_logs := [], faults := [], ids := []\<rparr>"

lemma flushBatch_frame: "but_logs (snd (flushBatch now l s)) = but_logs s"
  using jobs_BulkCreateLogs_frame[of but_logs]
  by (simp add: flushBatch_def Let_def but_logs_def engine_free_def split: option.split)

lemma StreamLogs_loop_frame:
  "but_logs (gs_store (snd (StreamLogs_loop parse rfc now rs l g))) = but_logs (gs_store g)"
proof (induction rs arbitrary: l g rule: received.induct[case_names line none eof broken])
  case (line e rs)
  show ?case
  proof (cases "case ls_job l of Some u \<Rightarrow> Some u | None \<Rightarrow> parse (le_job_id e)")
    case (Some u)
    let ?l1 = "l\<lparr>ls_job := Some u, ls_entries := ls_entries l @ [e]\<rparr>"
    let ?g1 = "gs_publish (''job:'' @ le_job_id e) ''job.log'' (log_payload rfc now e) g"
    obtain l2 s2 where f: "flushBatch now ?l1 (gs_store ?g1) = (l2, s2)" by fastforce
    then have "but_logs s2 = but_logs (gs_store g)"
      using flushBatch_frame[of now ?l1 "gs_store ?g1"] by simp
    with line.IH[of l2 "with_store s2 ?g1"] line.IH[of ?l1 ?g1] Some f show ?thesis by (simp add: Let_def)
  qed simp
next
  case (eof rs)
  show ?case using flushBatch_frame[of now l "gs_store g"] by (cases "flushBatch now l (gs_store g)") simp
qed simp_all

text \<open>C6: the log of a job, whatever the agent sends and the database does.  The handler appends rows and changes
no other table; the rows are those of some of the batches of fifty in which the lines arrived, in the
order of arrival, each batch whole and at most once, under the job of the first line.  On a database without errors,
with an unused id for every line and the row of the job, a stream that the agent closes has every line written, and
the answer is the number of lines (as a 32-bit integer).\<close>

theorem StreamLogs_persists_all:
  "case StreamLogs parse rfc now rs g of (answer, g') \<Rightarrow>
     but_logs (gs_store g') = but_logs (gs_store g) \<and>
     (\<exists>rows bs. job_logs (gs_store g') = job_logs (gs_store g) @ rows \<and>
        subseq bs (batches logFlushBatchSize (received rs)) \<and>
        map log_content rows = map (log_content \<circ> log_row (the (stream_job parse rs))) (concat bs) \<and>
        (rows \<noteq> [] \<longrightarrow> stream_job parse rs \<noteq> None) \<and>
        (closed_by_agent rs \<and> (received rs = [] \<or> (\<exists>u. stream_job parse rs = Some u \<and>
            log_ready u (length (received rs)) (gs_store g))) \<longrightarrow>
          concat bs = received rs \<and> answer = Some (Inr (length (received rs) mod 2 ^ 32))))"
proof -
  let ?l = "\<lparr>ls_entries = [], ls_job = None, ls_flushed = 0\<rparr>"
  obtain answer g' where run: "StreamLogs_loop parse rfc now rs ?l g = (answer, g')" by fastforce
  have frame: "but_logs (gs_store g') = but_logs (gs_store g)"
    using StreamLogs_loop_frame[of parse rfc now rs ?l g] run by simp
  show ?thesis
  proof (cases "stream_job parse rs")
    case None
    then have "job_logs (gs_store g') = job_logs (gs_store g)"
      and "closed_by_agent rs \<Longrightarrow> received rs = [] \<Longrightarrow> answer = Some (Inr 0)"
      using run by (cases rs rule: received.cases; auto simp: stream_job_def flushBatch_def)+
    with None run frame show ?thesis by (auto simp: StreamLogs_def intro!: exI[of _ "[]"])
  next
    case (Some u)
    then obtain e rs' where rs: "rs = Entry e # rs'" "parse (le_job_id e) = Some u"
      by (cases rs rule: received.cases) (auto simp: stream_job_def)
    show ?thesis
    proof (cases "closed_by_agent rs \<and> log_ready u (length (received rs)) (gs_store g)")
      case True
      then obtain rows g2 where "StreamLogs_loop parse rfc now (map Entry (received rs) @ [Eof]) ?l g =
          (Some (Inr (length (received rs) mod 2 ^ 32)), g2)"
        "job_logs (gs_store g2) = job_logs (gs_store g) @ rows"
        "map log_content rows = map (log_content \<circ> log_row u) (received rs)"
        using StreamLogs_loop_persists[of parse u ?l "received rs" "length (received rs)" g rfc now] rs
        by (auto simp: loop_ok_def waiting_def)
      with True Some run frame StreamLogs_loop_closed[of rs parse rfc now ?l g] show ?thesis
        by (auto simp: StreamLogs_def intro!: exI[of _ rows] exI[of _ "batches logFlushBatchSize (received rs)"])
    next
      case False
      have "StreamLogs_loop parse rfc now rs (?l\<lparr>ls_job := Some u\<rparr>) g = StreamLogs_loop parse rfc now rs ?l g"
        using rs by simp
      with run StreamLogs_loop_batches[of "?l\<lparr>ls_job := Some u\<rparr>" u parse rfc now rs g]
      obtain rows bs where "job_logs (gs_store g') = job_logs (gs_store g) @ rows"
        "subseq bs (batches logFlushBatchSize (received rs))"
        "map log_content rows = map (log_content \<circ> log_row u) (concat bs)"
        by (auto simp: waiting_def logFlushBatchSize_def)
      with False Some run frame rs show ?thesis
        by (auto simp: StreamLogs_def intro!: exI[of _ rows] exI[of _ bs])
    qed
  qed
qed

definition demo_entry :: log_entry where
  "demo_entry = \<lparr>le_job_id = ''j1'', le_agent_id = ''a1'', le_level = LvDebug,
     le_message = ''hello'', le_timestamp = Some 3\<rparr>"

theorem StreamLogs_persists_all_witness:
  "\<exists>rows g'. StreamLogs Some (\<lambda>_. []) 7 [Entry demo_entry, Eof]
      (demo_server (empty_store\<lparr>jobs := [demo_job ''j1'' ''running''], ids := [''l1'']\<rparr>)) = (Some (Inr 1), g') \<and>
    job_logs (gs_store g') = rows \<and> map log_content rows = [(''j1'', ''info'', ''hello'', 3)]"
proof -
  let ?g = "demo_server (empty_store\<lparr>jobs := [demo_job ''j1'' ''running''], ids := [''l1'']\<rparr>)"
  obtain answer g' where run: "StreamLogs Some (\<lambda>_. []) 7 [Entry demo_entry, Eof] ?g = (answer, g')" by fastforce
  have "stream_job Some [Entry demo_entry, Eof] = Some ''j1''" by (simp add: stream_job_def demo_entry_def)
  moreover have "log_ready ''j1'' (length (received [Entry demo_entry, Eof])) (gs_store ?g)"
    by (simp add: log_ready_def demo_server_def gs_store_def empty_store_def demo_job_def has_id_def)
  moreover have "log_content (log_row ''j1'' demo_entry) = (''j1'', ''info'', ''hello'', 3)" "job_logs (gs_store ?g) = []"
    by (simp_all add: demo_entry_def log_content_def log_row_def protoLevelToString_def demo_server_def gs_store_def
        empty_store_def)
  ultimately show ?thesis
    using StreamLogs_persists_all[where parse = Some and rfc = "\<lambda>_. []" and now = 7 and rs = "[Entry demo_entry, Eof]"
        and g = ?g] run by auto
qed

end
