(* ===== verification/EndToEnd.thy ===== *)
theory EndToEnd
  imports JobReporting ReportProofs
begin

text \<open>Agent and server together: the calls of the agent's connection manager are handed to the handlers of
the gRPC service, in the order in which they are made.\<close>

section \<open>Delivery\<close>

text \<open>The handler of a call.  The lines of a log stream are handed over when it is closed: its handler
keeps no job, no agent and no destination waiting before that.\<close>

definition stream_entries :: "nat \<Rightarrow> rpc list \<Rightarrow> log_entry list" where
  "stream_entries n rs = concat (map (\<lambda>r. case r of RpcLog k e \<Rightarrow> if k = n then [e] else [] | _ \<Rightarrow> []) rs)"

definition server_call ::
  "(string \<Rightarrow> uuid option) \<Rightarrow> (time \<Rightarrow> string) \<Rightarrow> grpc_config \<Rightarrow> time \<Rightarrow> rpc list \<Rightarrow> rpc \<Rightarrow>
   grpc_server \<Rightarrow> grpc_server" where
  "server_call parse rfc cfg now before r g = (case r of
       RpcRegister k req \<Rightarrow> snd (Register parse now req g)
     | RpcHeartbeat k req \<Rightarrow> snd (Heartbeat parse now req g)
     | RpcStreamJobs k agentID \<Rightarrow> snd (StreamJobs_open parse now agentID k g)
     | RpcOpenLogs k n \<Rightarrow> g
     | RpcLog n e \<Rightarrow> g
     | RpcCloseLogs n \<Rightarrow> snd (StreamLogs parse rfc now (map Entry (stream_entries n before) @ [Eof]) g)
     | RpcJobStatus k req \<Rightarrow> snd (ReportJobStatus parse rfc cfg now req g)
     | RpcDestination k req \<Rightarrow> snd (ReportDestinationStatus parse now req g)
     | RpcVolumes k rep \<Rightarrow> (case ReportVolumeList rep g of None \<Rightarrow> g | Some g' \<Rightarrow> g'))"

fun server_calls ::
  "(string \<Rightarrow> uuid option) \<Rightarrow> (time \<Rightarrow> string) \<Rightarrow> grpc_config \<Rightarrow> (rpc list \<Rightarrow> time) \<Rightarrow> rpc list \<Rightarrow> rpc list \<Rightarrow>
   grpc_server \<Rightarrow> grpc_server" where
  "server_calls parse rfc cfg clock before [] g = g"
| "server_calls parse rfc cfg clock before (r # rs) g =
     server_calls parse rfc cfg clock (before @ [r]) rs
       (server_call parse rfc cfg (clock before) before r g)"

lemma server_calls_append:
  "server_calls parse rfc cfg clock before (rs @ qs) g =
   server_calls parse rfc cfg clock (before @ rs) qs (server_calls parse rfc cfg clock before rs g)"
  by (induction rs arbitrary: before g) simp_all

lemma BulkCreateLogs_healthy: "faults s = [] \<Longrightarrow> faults (snd (jobs_BulkCreateLogs now ls s)) = []"
  by (simp add: snd_jobs_BulkCreateLogs db_create_all_healthy)

lemma record_snapshot_healthy:
  assumes "faults s = []" shows "faults (snd (jobs_GetByID u s)) = [] \<and> faults (record_snapshot now u d req s) = []"
proof -
  have get: "faults (snd (jobs_GetByID u s)) = []"
    by (simp add: jobs_GetByID_def db_first_healthy assms)
  obtain r s1 where g: "jobs_GetByID u s = (r, s1)" by fastforce
  with get have "faults s1 = []" by simp
  then have "faults (snd (snapshots_Create now n s1)) = []" for n
    by (simp add: snapshots_Create_def db_create_healthy)
  with get g show ?thesis by (auto simp: record_snapshot_def split: sum.split)
qed

section \<open>The job in the database\<close>

text \<open>What the server knows of a job: the statuses in its rows; the other jobs are those of \<open>js\<close>.\<close>

definition job_known :: "uuid \<Rightarrow> job list \<Rightarrow> string option \<Rightarrow> grpc_server \<Rightarrow> bool" where
  "job_known u js cur g = (faults (gs_store g) = [] \<and> has_id u (jobs (gs_store g)) \<and>
     filter (\<lambda>j. ID j \<noteq> u) (jobs (gs_store g)) = filter (\<lambda>j. ID j \<noteq> u) js \<and>
     (cur = None \<or> list_all (\<lambda>j. ID j = u \<longrightarrow> Some (job_status j) = cur) (jobs (gs_store g))))"

lemma job_known_same:
  "job_known u js cur g \<Longrightarrow> jobs (gs_store g') = jobs (gs_store g) \<Longrightarrow> faults (gs_store g') = [] \<Longrightarrow>
   job_known u js cur g'"
  by (simp add: job_known_def)

lemma flushBatch_keeps:
  "faults s = [] \<Longrightarrow> jobs (snd (flushBatch now l s)) = jobs s \<and> faults (snd (flushBatch now l s)) = []"
  using BulkCreateLogs_healthy[of s] jobs_BulkCreateLogs_frame[of jobs]
  by (simp add: flushBatch_def Let_def split: option.split)

lemma StreamLogs_loop_keeps:
  "faults (gs_store g) = [] \<Longrightarrow>
   jobs (gs_store (snd (StreamLogs_loop parse rfc now rs l g))) = jobs (gs_store g) \<and>
   faults (gs_store (snd (StreamLogs_loop parse rfc now rs l g))) = []"
proof (induction parse rfc now rs l g rule: StreamLogs_loop.induct)
  case (2 parse rfc now rs l g)
  then show ?case using flushBatch_keeps[of "gs_store g" now l] by (auto split: prod.split)
next
  case (4 parse rfc now e rs l g)
  show ?case
  proof (cases "case ls_job l of Some u \<Rightarrow> Some u | None \<Rightarrow> parse (le_job_id e)")
    case None
    with 4 show ?thesis by simp
  next
    case (Some u)
    let ?l1 = "l\<lparr>ls_job := Some u, ls_entries := ls_entries l @ [e]\<rparr>"
    let ?g1 = "gs_publish (''job:'' @ le_job_id e) ''job.log'' (log_payload rfc now e) g"
    obtain l2 s2 where f: "flushBatch now ?l1 (gs_store ?g1) = (l2, s2)" by fastforce
    then have s2: "jobs s2 = jobs (gs_store g)" "faults s2 = []"
      using flushBatch_keeps[of "gs_store ?g1" now ?l1] 4(3) by simp_all
    show ?thesis
    proof (cases "logFlushBatchSize \<le> length (ls_entries ?l1) - ls_flushed ?l1")
      case True
      with 4(1)[OF Some refl refl True f[symmetric]] Some f s2 show ?thesis by (simp add: Let_def)
    next
      case False
      with 4(2)[OF Some refl refl False] Some 4(3) show ?thesis by (simp add: Let_def)
    qed
  qed
qed simp_all

lemma ReportDestinationStatus_keeps:
  assumes "faults (gs_store g) = []"
  shows "jobs (gs_store (snd (ReportDestinationStatus parse now req g))) = jobs (gs_store g) \<and>
         faults (gs_store (snd (ReportDestinationStatus parse now req g))) = []"
proof -
  have snap: "jobs (record_snapshot now u d req s) = jobs s" for u d s
  proof -
    obtain r s1 where "jobs_GetByID u s = (r, s1)" by fastforce
    then show ?thesis
      using jobs_GetByID_frame[of jobs u s] snapshots_Create_frame[of jobs]
      by (auto simp: record_snapshot_def split: sum.split)
  qed
  have up: "jobs (snd (jobs_UpdateDestinationStatus now u st a b sn sz m s)) = jobs s"
    "faults s = [] \<Longrightarrow> faults (snd (jobs_UpdateDestinationStatus now u st a b sn sz m s)) = []"
    for u st a b sn sz m s
    by (simp add: jobs_UpdateDestinationStatus_frame[where p = jobs])
      (simp add: jobs_UpdateDestinationStatus_def db_update_healthy)
  have ls: "jobs_ListDestinationsByJob u (gs_store g) =
     (Inr (map (listDestinationsJoin (gs_store g)) (filter (\<lambda>d. jd_job_id d = u) (job_destinations (gs_store g)))),
      gs_store g)" for u
    using assms by (simp add: jobs_ListDestinationsByJob_def)
  show ?thesis
  proof (cases "parse (dr_job_id req)")
    case None
    with assms show ?thesis by (simp add: ReportDestinationStatus_def)
  next
    case (Some u)
    note u = this
    show ?thesis
    proof (cases "parse (dr_destination_id req)")
      case None
      with u assms show ?thesis by (simp add: ReportDestinationStatus_def)
    next
      case (Some d)
      let ?id = "find_job_destination d (map (listDestinationsJoin (gs_store g))
         (filter (\<lambda>d. jd_job_id d = u) (job_destinations (gs_store g))))"
      let ?started = "case dr_started_at req of None \<Rightarrow> now | Some t \<Rightarrow> t"
      obtain r s2 where r: "jobs_UpdateDestinationStatus now ?id (dr_status req) (Some ?started) (Some now)
          (dr_snapshot_id req) (dr_size_bytes req) (dr_error req) (gs_store g) = (r, s2)" by fastforce
      have s2: "jobs s2 = jobs (gs_store g)" "faults s2 = []"
        using up[where s = "gs_store g"] assms r by (metis snd_conv)+
      with record_snapshot_healthy[OF s2(2)] snap u Some ls r assms show ?thesis
        by (cases r) (simp_all add: ReportDestinationStatus_def Let_def)
    qed
  qed
qed

definition status_call :: "rpc \<Rightarrow> bool" where
  "status_call r = (case r of RpcJobStatus k jr \<Rightarrow> True | _ \<Rightarrow> False)"

definition job_call :: "rpc \<Rightarrow> bool" where
  "job_call r = (case r of RpcOpenLogs k n \<Rightarrow> True | RpcLog n e \<Rightarrow> True | RpcCloseLogs n \<Rightarrow> True
     | RpcDestination k d \<Rightarrow> True | _ \<Rightarrow> False)"

lemma job_call_keeps:
  "job_call r \<Longrightarrow> job_known u js cur g \<Longrightarrow> job_known u js cur (server_call parse rfc cfg now before r g)"
  using ReportDestinationStatus_keeps[of g parse now] StreamLogs_loop_keeps[of g parse rfc now]
  by (cases r) (auto simp: job_call_def server_call_def StreamLogs_def job_known_def)

lemma job_calls_keep:
  "list_all job_call rs \<Longrightarrow> job_known u js cur g \<Longrightarrow>
   job_known u js cur (server_calls parse rfc cfg clock before rs g)"
  by (induction rs arbitrary: before g) (simp_all add: job_call_keeps)

text \<open>What a report of the agent's status leaves in the database.\<close>

definition stored_status :: "string \<Rightarrow> string option \<Rightarrow> string option" where
  "stored_status st cur =
     (if st = ''running'' then Some ''running'' else if st = ''success'' then Some ''succeeded''
      else if st = ''failed'' then Some ''failed'' else cur)"

lemma update_where_others:
  "(\<And>j. ID (f j) = ID j) \<Longrightarrow> filter (\<lambda>j. ID j \<noteq> u) (update_where (\<lambda>j. ID j = u) f js) = filter (\<lambda>j. ID j \<noteq> u) js"
  by (induction js) auto

lemma status_call_stores:
  assumes "job_known u js cur g" "parse (jr_job_id req) = Some u" "jr_status req = statusToProto st"
  shows "job_known u js (stored_status st cur) (snd (ReportJobStatus parse rfc cfg now req g))"
proof (cases "status_update (jr_status req) now (jr_message req)")
  case None
  then have "stored_status st cur = cur" using assms(3)
    by (auto simp: status_update_def statusToProto_def stored_status_def split: if_splits)
  with None assms show ?thesis by (simp add: ReportJobStatus_def)
next
  case (Some x)
  obtain col a b m where x: "x = (col, a, b, m)" by (cases x)
  have col: "stored_status st cur = Some col" "col \<in> set job_statuses"
    using Some x assms(3)
    by (auto simp: status_update_def statusToProto_def stored_status_def job_statuses_def split: if_splits)
  let ?f = "touch now (set_job_status col a b m)"
  have f: "ID (?f j) = ID j" "job_status (?f j) = col" for j
    by (simp_all add: touch_def set_job_status_def)
  have run: "jobs_UpdateStatus now u col a b m (gs_store g) =
     (Inr (), (gs_store g)\<lparr>jobs := update_where (\<lambda>k. ID k = u) ?f (jobs (gs_store g))\<rparr>)"
    using assms(1) col(2) by (simp add: job_known_def jobs_UpdateStatus_accepted)
  have "gs_store (snd (ReportJobStatus parse rfc cfg now req g)) =
      (gs_store g)\<lparr>jobs := update_where (\<lambda>k. ID k = u) ?f (jobs (gs_store g))\<rparr>"
    using assms(2) Some x run by (simp add: ReportJobStatus_def Let_def)
  moreover have "list_all (\<lambda>j. ID j = u \<longrightarrow> job_status j = col) (update_where (\<lambda>k. ID k = u) ?f js')" for js'
    by (induction js') (simp_all add: f)
  moreover have "has_id u (update_where (\<lambda>k. ID k = u) ?f js')" if "has_id u js'" for js'
    using that by (induction js') (auto simp: has_id_def f)
  ultimately show ?thesis
    using assms(1) col(1) by (simp add: job_known_def update_where_others f(1))
qed

section \<open>The outcome of a job\<close>

definition enum_stored :: "job_status_enum \<Rightarrow> string option \<Rightarrow> string option" where
  "enum_stored st cur = (case st of StRunning \<Rightarrow> Some ''running'' | StCompleted \<Rightarrow> Some ''succeeded''
     | StFailed \<Rightarrow> Some ''failed'' | _ \<Rightarrow> cur)"

definition after_call :: "rpc \<Rightarrow> string option \<Rightarrow> string option" where
  "after_call r cur = (case r of RpcJobStatus k jr \<Rightarrow> enum_stored (jr_status jr) cur | _ \<Rightarrow> cur)"

definition report_of :: "string \<Rightarrow> rpc \<Rightarrow> bool" where
  "report_of job r = (case r of
       RpcJobStatus k jr \<Rightarrow> jr_job_id jr = job \<and> (\<exists>st. jr_status jr = statusToProto st)
     | _ \<Rightarrow> job_call r)"

lemma enum_stored_proto: "enum_stored (statusToProto st) cur = stored_status st cur"
  by (simp add: enum_stored_def statusToProto_def stored_status_def)

lemma report_of_untimed: "report_of job (untimed r) = report_of job r" "after_call (untimed r) = after_call r"
  by (cases r; simp add: report_of_def untimed_def job_call_def after_call_def fun_eq_iff)+

lemma report_of_step:
  assumes "report_of job r" "parse job = Some u" "job_known u js cur g"
  shows "job_known u js (after_call r cur) (server_call parse rfc cfg now before r g)"
proof (cases "\<exists>k jr. r = RpcJobStatus k jr")
  case True
  then obtain k jr st where r: "r = RpcJobStatus k jr" "jr_job_id jr = job" "jr_status jr = statusToProto st"
    using assms(1) by (auto simp: report_of_def)
  with status_call_stores[OF assms(3), of parse jr st] assms(2) show ?thesis
    by (simp add: server_call_def after_call_def enum_stored_proto)
next
  case False
  then have "job_call r" "after_call r cur = cur"
    using assms(1) by (cases r; simp add: report_of_def after_call_def)+
  with job_call_keeps[OF _ assms(3)] show ?thesis by simp
qed

lemma report_of_steps:
  "list_all (report_of job) rs \<Longrightarrow> parse job = Some u \<Longrightarrow> job_known u js cur g \<Longrightarrow>
   job_known u js (fold after_call rs cur) (server_calls parse rfc cfg clock before rs g)"
  by (induction rs arbitrary: before g cur) (simp_all add: report_of_step[where job = job and parse = parse])

lemma event_reports: "list_all (report_of job) (event_calls k i job s e)"
  by (cases e) (auto simp: report_of_def job_call_def split: option.split)

lemma event_quiet: "quiet e \<Longrightarrow> fold after_call (event_calls k i job s e) cur = cur"
  by (cases e) (auto simp: after_call_def split: option.split)

lemma trace_reports: "list_all (report_of job) (trace_calls k i job s t)"
  by (induction t) (simp_all add: trace_calls_def event_reports)

lemma trace_quiet: "list_all quiet t \<Longrightarrow> fold after_call (trace_calls k i job s t) cur = cur"
  by (induction t) (simp_all add: trace_calls_def event_quiet)

lemma trace_calls_simps:
  "trace_calls k i job s (e # t) = event_calls k i job s e @ trace_calls k i job s t"
  "trace_calls k i job s (t @ u) = trace_calls k i job s t @ trace_calls k i job s u"
  "trace_calls k i job s [] = []"
  by (simp_all add: trace_calls_def)

lemma job_calls_reports: "list_all (report_of job) (job_calls k i job n opened t)"
  by (auto simp: job_calls_def trace_reports report_of_def[of job "RpcOpenLogs k n"]
      report_of_def[of job "RpcCloseLogs n"] job_call_def)

lemma job_calls_after:
  assumes "job_protocol t"
  shows "\<exists>st m. last t = ReportStatus st m \<and> st \<in> {''success'', ''failed'', ''cancelled''} \<and>
     fold after_call (job_calls k i job n opened t) cur = stored_status st (Some ''running'')"
proof -
  consider m where "t = [SendLog ''error'' m, ReportStatus ''failed'' m]"
    | m body st m' where "t = ReportStatus ''running'' m # body @ [ReportStatus st m']" "list_all quiet body"
        "st \<in> {''success'', ''failed'', ''cancelled''}"
    using assms unfolding job_protocol_def by metis
  then show ?thesis
  proof cases
    case 1
    then show ?thesis
      by (simp add: job_calls_def starts_running_def trace_calls_def after_call_def enum_stored_proto
          stored_status_def)
  next
    case 2
    have o: "after_call (RpcOpenLogs k n) = (\<lambda>c. c)" "after_call (RpcCloseLogs n) = (\<lambda>c. c)"
      "after_call (RpcJobStatus k jr) = enum_stored (jr_status jr)" for jr
      by (simp_all add: after_call_def fun_eq_iff)
    have "fold after_call (job_calls k i job n opened t) cur = stored_status st (Some ''running'')"
      using trace_quiet[OF 2(2)]
      by (simp add: job_calls_def starts_running_def 2(1) trace_calls_simps o enum_stored_proto)
        (simp add: stored_status_def)
    with 2 show ?thesis by simp
  qed
qed

text \<open>C2: agent and server agree on the outcome of a job.  When a job runs over a connection to a server with a
working database, the row of the job ends up succeeded exactly when the agent's last report is a success,
failed when it is a failure, and, the one case in which they disagree, still running when the agent has
reported that the job was cancelled; no other job is touched.\<close>

theorem job_outcome_recorded:
  assumes "faults (gs_store g) = []" "parse (ej_job_id job) = Some u" "has_id u (jobs (gs_store g))"
    and "cn_client c = Some k" "map_of (cn_streams c) (ej_job_id job) = None"
    and "t = execute xe job []"
    and "rs = drop (length (cn_calls c)) (cn_calls (conn_trace env (ej_job_id job) t c))"
    and "g' = server_calls parse rfc cfg clock (cn_calls c) rs g"
  shows "\<exists>st m. last t = ReportStatus st m \<and>
     list_all (\<lambda>j. ID j = u \<longrightarrow> job_status j =
        (if st = ''success'' then ''succeeded'' else if st = ''failed'' then ''failed'' else ''running''))
       (jobs (gs_store g')) \<and>
     has_id u (jobs (gs_store g')) \<and>
     filter (\<lambda>j. ID j \<noteq> u) (jobs (gs_store g')) = filter (\<lambda>j. ID j \<noteq> u) (jobs (gs_store g))"
proof -
  have prot: "job_protocol t" using execute_follows[of xe job "[]"] assms(6) by simp
  let ?opened = "ce_net env (cn_calls c) (RpcOpenLogs k (length (cn_calls c))) = None"
  from protocol_calls[OF assms(4,5) prot refl, of env] obtain xs where xs:
    "conn_trace env (ej_job_id job) t c = c\<lparr>cn_calls := cn_calls c @ xs\<rparr>"
    "map untimed xs = job_calls k (cn_agent_id c) (ej_job_id job) (length (cn_calls c)) ?opened t"
    by (auto simp: extends_def)
  then have rs: "rs = xs" by (simp add: assms(7))
  have "list_all (report_of (ej_job_id job)) (map untimed xs)"
    unfolding xs(2) by (rule job_calls_reports)
  then have all: "list_all (report_of (ej_job_id job)) rs"
    by (simp add: rs list_all_iff report_of_untimed)
  have fold: "fold after_call rs None = fold after_call (map untimed xs) None"
    by (simp add: rs fold_map comp_def report_of_untimed)
  obtain st m where st: "last t = ReportStatus st m" "st \<in> {''success'', ''failed'', ''cancelled''}"
    "fold after_call rs None = stored_status st (Some ''running'')"
    using job_calls_after[OF prot] unfolding fold xs(2) by blast
  have "job_known u (jobs (gs_store g)) None g" using assms(1,3) by (simp add: job_known_def)
  from report_of_steps[where job = "ej_job_id job" and parse = parse, OF all assms(2) this]
  have known: "job_known u (jobs (gs_store g)) (stored_status st (Some ''running'')) g'"
    by (simp add: assms(8) st(3))
  have "stored_status st (Some ''running'') =
     Some (if st = ''success'' then ''succeeded'' else if st = ''failed'' then ''failed'' else ''running'')"
    using st(2) by (auto simp: stored_status_def)
  with known st(1) show ?thesis by (intro exI[of _ st] exI[of _ m]) (simp add: job_known_def)
qed

theorem job_outcome_recorded_witness:
  "\<exists>rs. list_all (\<lambda>j. ID j = ''j1'' \<longrightarrow> job_status j = ''succeeded'') (jobs (gs_store
     (server_calls Some (\<lambda>_. []) demo_config (\<lambda>_. 5) [] rs
        (demo_server (empty_store\<lparr>jobs := [demo_job ''j1'' ''pending'']\<rparr>)))))"
proof -
  let ?job = "demo_executor_job (demo_backup [] [demo_s3])"
  let ?g = "demo_server (empty_store\<lparr>jobs := [demo_job ''j1'' ''pending'']\<rparr>)"
  obtain u m where u: "execute demo_host ?job [] = u @ [ReportStatus ''success'' m]"
    using demo_success by (auto simp: execute_def demo_executor_job_def)
  have "faults (gs_store ?g) = []" "has_id ''j1'' (jobs (gs_store ?g))"
    by (simp_all add: demo_server_def gs_store_def empty_store_def demo_job_def has_id_def)
  moreover have "ej_job_id ?job = ''j1''" by (simp add: demo_executor_job_def)
  moreover have "cn_client demo_conn = Some 0" "cn_streams demo_conn = []" "cn_calls demo_conn = []"
    by (simp_all add: demo_conn_def conn_New_def)
  ultimately show ?thesis
    using job_outcome_recorded[of ?g Some ?job "''j1''" demo_conn 0 _ demo_host _ demo_conn_env _
        "\<lambda>_. []" demo_config "\<lambda>_. 5", OF _ _ _ _ _ refl refl refl] u
    by auto
qed

end
