(* ===== verification/RateLimit.thy ===== *)
theory RateLimit
  imports GoMap
begin

text \<open>The tables of the API that are swept in the background: the fixed-window rate limiter
(\<open>server/internal/api/ratelimit.go\<close>) and the denylist of access tokens
(\<open>server/internal/auth/denylist.go\<close>).  A clock reading is the argument \<open>now\<close>; one pass of a cleanup loop
is an operation of its own, which may happen between any two others.\<close>

section \<open>The rate limiter\<close>

record rate_bucket =
  rb_count :: int
  rb_reset_at :: time

record rate_limiter =
  rl_max :: int
  rl_window :: time
  rl_buckets :: "(string \<times> rate_bucket) list"

definition NewRateLimiter :: "int \<Rightarrow> time \<Rightarrow> rate_limiter" where
  "NewRateLimiter maxRequests window = \<lparr>rl_max = maxRequests, rl_window = window, rl_buckets = []\<rparr>"

definition Allow :: "time \<Rightarrow> string \<Rightarrow> rate_limiter \<Rightarrow> bool \<times> rate_limiter" where
  "Allow now ip rl =
     (let fresh = (True, rl\<lparr>rl_buckets := map_put ip \<lparr>rb_count = 1, rb_reset_at = now + rl_window rl\<rparr>
                              (rl_buckets rl)\<rparr>) in
      case map_of (rl_buckets rl) ip of
        None \<Rightarrow> fresh
      | Some b \<Rightarrow>
          if rb_reset_at b < now then fresh
          else if rl_max rl \<le> rb_count b then (False, rl)
          else (True, rl\<lparr>rl_buckets := map_put ip (b\<lparr>rb_count := rb_count b + 1\<rparr>) (rl_buckets rl)\<rparr>))"

definition limiter_sweep :: "time \<Rightarrow> rate_limiter \<Rightarrow> rate_limiter" where
  "limiter_sweep now rl = rl\<lparr>rl_buckets := map_keep (\<lambda>b. \<not> rb_reset_at b < now) (rl_buckets rl)\<rparr>"

text \<open>The middleware: the status and the \<open>Retry-After\<close> header of a refused request.\<close>

definition RateLimit :: "time \<Rightarrow> string \<Rightarrow> (rate_limiter \<Rightarrow> 'a \<times> rate_limiter) \<Rightarrow> rate_limiter \<Rightarrow>
    ((int \<times> string) + 'a) \<times> rate_limiter" where
  "RateLimit now ip handler rl =
     (case Allow now ip rl of
        (False, rl1) \<Rightarrow> (Inl (429, int_text (rl_window rl div second)), rl1)
      | (True, rl1) \<Rightarrow> (case handler rl1 of (a, rl2) \<Rightarrow> (Inr a, rl2)))"

section \<open>The denylist\<close>

type_synonym denylist = "(string \<times> time) list"

definition NewDenylist :: denylist where "NewDenylist = []"

definition deny_Add :: "string \<Rightarrow> time \<Rightarrow> denylist \<Rightarrow> denylist" where
  "deny_Add jti expiresAt d = map_put jti expiresAt d"

definition IsRevoked :: "time \<Rightarrow> string \<Rightarrow> denylist \<Rightarrow> bool" where
  "IsRevoked now jti d = (case map_of d jti of None \<Rightarrow> False | Some exp \<Rightarrow> now < exp)"

definition deny_sweep :: "time \<Rightarrow> denylist \<Rightarrow> denylist" where
  "deny_sweep now d = map_keep (\<lambda>exp. \<not> exp < now) d"

text \<open>A pass of the cleanup is never seen: what \<open>IsRevoked\<close> answers later is the same.\<close>

lemma IsRevoked_seen: "IsRevoked now jti d = (amap.seen (\<lambda>exp. now < exp) d jti \<noteq> None)"
  by (simp add: IsRevoked_def amap.seen_def split: option.split)

lemma IsRevoked_sweep:
  assumes "map_ok d" "t \<le> now"
  shows "IsRevoked now jti (deny_sweep t d) = IsRevoked now jti d"
proof -
  have "amap.seen (\<lambda>exp. now < exp) (map_keep (\<lambda>exp. \<not> exp < t) d) jti = amap.seen (\<lambda>exp. now < exp) d jti"
    by (rule amap.seen_keep[OF assms(1)]) (use assms(2) in simp)
  then show ?thesis by (simp add: IsRevoked_seen deny_sweep_def)
qed

section \<open>A reference\<close>

text \<open>What a client sees of the limiter is a counter of its own, without any table or cleanup.\<close>

fun fixed_window :: "int \<Rightarrow> time \<Rightarrow> rate_bucket option \<Rightarrow> time list \<Rightarrow> bool list" where
  "fixed_window limit window b [] = []"
| "fixed_window limit window b (now # ts) =
     (let fresh = Some \<lparr>rb_count = 1, rb_reset_at = now + window\<rparr> in
      case b of
        None \<Rightarrow> True # fixed_window limit window fresh ts
      | Some c \<Rightarrow>
          if rb_reset_at c < now then True # fixed_window limit window fresh ts
          else if limit \<le> rb_count c then False # fixed_window limit window b ts
          else True # fixed_window limit window (Some (c\<lparr>rb_count := rb_count c + 1\<rparr>)) ts)"

text \<open>The traffic of the server: requests and passes of the cleanup.\<close>

datatype traffic = Request time string | Sweep time

fun traffic_time :: "traffic \<Rightarrow> time" where
  "traffic_time (Request t ip) = t" | "traffic_time (Sweep t) = t"

fun serve :: "traffic list \<Rightarrow> rate_limiter \<Rightarrow> (time \<times> string \<times> bool) list" where
  "serve [] rl = []"
| "serve (Request now ip # es) rl = (case Allow now ip rl of (ok, rl1) \<Rightarrow> (now, ip, ok) # serve es rl1)"
| "serve (Sweep now # es) rl = serve es (limiter_sweep now rl)"

definition requests_of :: "string \<Rightarrow> traffic list \<Rightarrow> time list" where
  "requests_of ip es = concat (map (\<lambda>e. case e of Request t i \<Rightarrow> if i = ip then [t] else [] | Sweep t \<Rightarrow> []) es)"

definition decisions_of :: "string \<Rightarrow> (time \<times> string \<times> bool) list \<Rightarrow> bool list" where
  "decisions_of ip ds = map (snd \<circ> snd) (filter (\<lambda>(t, i, ok). i = ip) ds)"

text \<open>A bucket the limiter may have dropped is one that the client's counter no longer looks at.\<close>

definition same_bucket :: "time \<Rightarrow> rate_bucket option \<Rightarrow> rate_bucket option \<Rightarrow> bool" where
  "same_bucket now b c = (b = c \<or> b = None \<and> (\<exists>x. c = Some x \<and> rb_reset_at x < now))"

lemma same_bucket_later: "same_bucket t b c \<Longrightarrow> t \<le> now \<Longrightarrow> same_bucket now b c"
  by (auto simp: same_bucket_def)

lemma limiter_simulates:
  assumes "map_ok (rl_buckets rl)" "sorted (map traffic_time es)" "\<forall>e\<in>set es. t \<le> traffic_time e"
    and "same_bucket t (map_of (rl_buckets rl) ip) c"
  shows "decisions_of ip (serve es rl) = fixed_window (rl_max rl) (rl_window rl) c (requests_of ip es)"
  using assms
proof (induction es arbitrary: rl t c)
  case Nil
  then show ?case by (simp add: decisions_of_def requests_of_def)
next
  case (Cons e es)
  have later: "sorted (map traffic_time es)" "\<forall>x\<in>set es. traffic_time e \<le> traffic_time x"
    using Cons.prems(2) by auto
  have sim: "same_bucket (traffic_time e) (map_of (rl_buckets rl) ip) c"
    using Cons.prems(3,4) by (auto intro: same_bucket_later)
  show ?case
  proof (cases e)
    case (Sweep now)
    let ?rl = "limiter_sweep now rl"
    have "same_bucket now (map_of (rl_buckets ?rl) ip) c"
      using sim Cons.prems(1) Sweep
      by (auto simp: limiter_sweep_def amap.get_keep same_bucket_def split: option.splits if_splits)
    moreover have "map_ok (rl_buckets ?rl)" using Cons.prems(1) by (simp add: limiter_sweep_def amap.ok_keep)
    ultimately have "decisions_of ip (serve es ?rl) =
        fixed_window (rl_max ?rl) (rl_window ?rl) c (requests_of ip es)"
      using Cons.IH later Sweep by simp
    then show ?thesis by (simp add: Sweep requests_of_def limiter_sweep_def)
  next
    case (Request now i)
    obtain ok rl1 where a: "Allow now i rl = (ok, rl1)" by fastforce
    have keeps: "map_ok (rl_buckets rl1)" "rl_max rl1 = rl_max rl" "rl_window rl1 = rl_window rl"
      using a Cons.prems(1)
      by (auto simp: Allow_def Let_def amap.ok_put split: option.splits if_splits)
    show ?thesis
    proof (cases "i = ip")
      case False
      then have "map_of (rl_buckets rl1) ip = map_of (rl_buckets rl) ip"
        using a by (auto simp: Allow_def Let_def split: option.splits if_splits)
      with Cons.IH[of rl1 now c] later sim Request keeps a False show ?thesis
        by (simp add: decisions_of_def requests_of_def)
    next
      case True
      define c1 where "c1 = map_of (rl_buckets rl1) ip"
      have "decisions_of ip (serve es rl1) = fixed_window (rl_max rl) (rl_window rl) c1 (requests_of ip es)"
        using Cons.IH[of rl1 now c1] later Request keeps by (simp add: c1_def same_bucket_def)
      moreover have "fixed_window (rl_max rl) (rl_window rl) c (now # ts) =
          ok # fixed_window (rl_max rl) (rl_window rl) c1 ts" for ts
        using a sim Request True
        by (auto simp: Allow_def Let_def same_bucket_def c1_def split: option.splits if_splits)
      ultimately show ?thesis
        using Request True a by (simp add: decisions_of_def requests_of_def del: fixed_window.simps)
    qed
  qed
qed

lemma limiter_decides:
  assumes "sorted (map traffic_time es)"
  shows "decisions_of ip (serve es (NewRateLimiter limit window)) =
     fixed_window limit window None (requests_of ip es)"
proof (cases es)
  case Nil
  then show ?thesis by (simp add: decisions_of_def requests_of_def)
next
  case (Cons e es')
  with assms limiter_simulates[of "NewRateLimiter limit window" es "traffic_time e" ip None] show ?thesis
    by (auto simp: NewRateLimiter_def map_ok_def same_bucket_def)
qed

text \<open>C30: for traffic whose clock does not go back, the answers an address gets are those of a fixed-window counter
of its own: neither the requests of other addresses nor any pass of the cleanup, whenever it happens, changes
one of them.\<close>

theorem limiter_fixed_window:
  assumes "sorted (map traffic_time es)"
  shows "decisions_of ip (serve es (NewRateLimiter limit window)) =
     fixed_window limit window None (requests_of ip es)"
  by (rule limiter_decides[OF assms])

definition demo_traffic :: "traffic list" where
  "demo_traffic = [Request 0 ''a'', Request 1 ''a'', Request 2 ''b'', Request 3 ''a'', Sweep 20, Request 21 ''a'']"

theorem limiter_fixed_window_witness:
  "decisions_of ''a'' (serve demo_traffic (NewRateLimiter 2 10)) = [True, True, False, True]"
  using limiter_fixed_window[of demo_traffic "''a''" 2 10]
  by (simp add: demo_traffic_def requests_of_def Let_def)

section \<open>The bound\<close>

text \<open>The requests that are let through.\<close>

fun let_through :: "time list \<Rightarrow> bool list \<Rightarrow> time list" where
  "let_through (t # ts) (ok # oks) = (if ok then t # let_through ts oks else let_through ts oks)"
| "let_through _ _ = []"

definition within :: "time \<Rightarrow> time \<Rightarrow> time list \<Rightarrow> nat" where
  "within a b ts = count_where (\<lambda>t. a \<le> t \<and> t \<le> b) ts"

text \<open>Requests let through before the end of the current window.\<close>

lemma let_through_window:
  assumes "sorted ts" "b \<le> rb_reset_at c" "0 \<le> window"
  shows "int (within a b (let_through ts (fixed_window limit window (Some c) ts)))
     \<le> max 0 (limit - rb_count c)"
  using assms
proof (induction ts arbitrary: c)
  case Nil
  then show ?case by (simp add: within_def)
next
  case (Cons t ts)
  show ?case
  proof (cases "rb_reset_at c < t")
    case True
    have late: "within a b (let_through us oks) = 0" if "\<forall>u\<in>set us. b < u" for us oks
      using that unfolding within_def
      by (induction us oks rule: let_through.induct) auto
    have "\<forall>u\<in>set (t # ts). b < u" using True Cons.prems by auto
    from late[OF this] show ?thesis by simp
  next
    case False
    show ?thesis
    proof (cases "limit \<le> rb_count c")
      case True
      then have "max 0 (limit - rb_count c) = 0" by simp
      with True False Cons.IH[of c] Cons.prems show ?thesis by (simp add: within_def del: count_where_0)
    next
      case room: False
      with False Cons.IH[of "c\<lparr>rb_count := rb_count c + 1\<rparr>"] Cons.prems show ?thesis
        by (auto simp: within_def)
    qed
  qed
qed

text \<open>What is left of a bucket, and what a client can get from it and from one more.\<close>

definition room :: "int \<Rightarrow> rate_bucket option \<Rightarrow> int" where
  "room limit b = (case b of None \<Rightarrow> 0 | Some c \<Rightarrow> max 0 (limit - rb_count c))"

lemma let_through_two_windows:
  assumes "sorted ts" "\<forall>t\<in>set ts. a \<le> t" "b \<le> a + window" "0 \<le> window"
  shows "int (within a b (let_through ts (fixed_window limit window c ts))) \<le> room limit c + max 1 limit"
  using assms
proof (induction ts arbitrary: c)
  case Nil
  then show ?case by (simp add: within_def room_def split: option.split)
next
  case (Cons t ts)
  let ?fresh = "\<lparr>rb_count = 1, rb_reset_at = t + window\<rparr>"
  have new: "int (within a b (t # let_through ts (fixed_window limit window (Some ?fresh) ts)))
      \<le> room limit c + max 1 limit"
    using let_through_window[of ts b ?fresh window a limit] Cons.prems
    by (auto simp: within_def room_def split: option.split)
  show ?case
  proof (cases c)
    case None
    with new show ?thesis by (simp add: Let_def)
  next
    case (Some x)
    consider "rb_reset_at x < t" | "\<not> rb_reset_at x < t" "limit \<le> rb_count x"
      | "\<not> rb_reset_at x < t" "\<not> limit \<le> rb_count x" by blast
    then show ?thesis
    proof cases
      case 1
      with Some new show ?thesis by (simp add: Let_def)
    next
      case 2
      with Some Cons.IH[of c] Cons.prems show ?thesis by (simp add: Let_def del: count_where_0)
    next
      case 3
      with Some Cons.IH[of "Some (x\<lparr>rb_count := rb_count x + 1\<rparr>)"] Cons.prems show ?thesis
        by (auto simp: Let_def within_def room_def)
    qed
  qed
qed

lemma let_through_bound:
  assumes "sorted ts" "b \<le> a + window" "0 \<le> window" "\<forall>x. c = Some x \<longrightarrow> 1 \<le> rb_count x"
  shows "int (within a b (let_through ts (fixed_window limit window c ts))) \<le> 2 * max 1 limit - 1"
  using assms
proof (induction ts arbitrary: c)
  case Nil
  then show ?case by (simp add: within_def)
next
  case (Cons t ts)
  show ?case
  proof (cases "a \<le> t")
    case True
    then have "\<forall>u\<in>set (t # ts). a \<le> u" using Cons.prems(1) by auto
    moreover have "room limit c \<le> max 1 limit - 1"
      using Cons.prems(4) by (cases c) (auto simp: room_def)
    ultimately show ?thesis
      using let_through_two_windows[of "t # ts" a b window limit c] Cons.prems by linarith
  next
    case False
    let ?fresh = "\<lparr>rb_count = 1, rb_reset_at = t + window\<rparr>"
    obtain ok d where d: "fixed_window limit window c (t # ts) = ok # fixed_window limit window d ts"
      "\<forall>x. d = Some x \<longrightarrow> 1 \<le> rb_count x"
    proof (cases c)
      case None
      then show ?thesis using that[of True "Some ?fresh"] by (simp add: Let_def)
    next
      case (Some x)
      then show ?thesis
        using that[of True "Some ?fresh"] that[of False c] that[of True "Some (x\<lparr>rb_count := rb_count x + 1\<rparr>)"]
          Cons.prems(4)
        by (cases "rb_reset_at x < t"; cases "limit \<le> rb_count x") (auto simp: Let_def)
    qed
    have "within a b (let_through (t # ts) (ok # fixed_window limit window d ts)) =
        within a b (let_through ts (fixed_window limit window d ts))"
      using False by (simp add: within_def)
    with Cons.IH[OF _ Cons.prems(2,3) d(2)] Cons.prems(1) show ?thesis by (simp only: d(1) sorted_simps)
  qed
qed

lemma sorted_requests: "sorted (map traffic_time es) \<Longrightarrow> sorted (requests_of ip es)"
proof (induction es)
  case (Cons e es)
  have "set (requests_of ip es) \<subseteq> set (map traffic_time es)"
    by (force simp: requests_of_def split: traffic.splits if_splits)
  with Cons show ?case by (cases e) (auto simp: requests_of_def)
qed (simp add: requests_of_def)

text \<open>Whatever the traffic, an address gets at most twice the limit less one requests through in any span of time
as long as the window; the limit itself is not a bound for such a span, and at least one request is let
through even when the limit is zero or negative.\<close>

theorem limiter_bound:
  assumes "sorted (map traffic_time es)" "0 \<le> window" "b \<le> a + window"
  shows "int (within a b (let_through (requests_of ip es)
      (decisions_of ip (serve es (NewRateLimiter limit window))))) \<le> 2 * max 1 limit - 1"
  using let_through_bound[where c = None, OF sorted_requests[OF assms(1)] assms(3,2)]
  by (simp add: limiter_decides[OF assms(1)])

definition demo_burst :: "traffic list" where
  "demo_burst = [Request 0 ''a'', Request 10 ''a'', Request 11 ''a'', Request 12 ''a'', Request 13 ''a'']"

theorem limiter_bound_witness:
  "within 10 20 (let_through (requests_of ''a'' demo_burst)
     (decisions_of ''a'' (serve demo_burst (NewRateLimiter 2 10)))) \<le> 3 \<and>
   within 10 20 (let_through (requests_of ''a'' demo_burst)
     (decisions_of ''a'' (serve demo_burst (NewRateLimiter 2 10)))) = 3"
proof -
  have "within 10 20 (let_through (requests_of ''a'' demo_burst)
     (decisions_of ''a'' (serve demo_burst (NewRateLimiter 2 10)))) \<le> 3"
    using limiter_bound[of demo_burst 10 20 10 "''a''" 2] by (simp add: demo_burst_def)
  moreover have "within 10 20 (let_through (requests_of ''a'' demo_burst)
     (decisions_of ''a'' (serve demo_burst (NewRateLimiter 2 10)))) = 3"
    by (simp add: demo_burst_def NewRateLimiter_def Allow_def requests_of_def decisions_of_def within_def Let_def)
  ultimately show ?thesis by simp
qed

end
