(* ===== verification/Auth.thy ===== *)
theory Auth
  imports AccountRepositories RateLimit Json
begin

text \<open>Authentication (\<open>server/internal/auth\<close>): passwords, access and refresh tokens, local and OIDC login.
Cryptography and the JWT and OIDC libraries are parameters: Argon2id, SHA-256, signing and parsing of a token, and
the identity provider.  A random value and every clock reading of an operation are its arguments.  Of an
error that wraps one of the database or a library, only the text of this package is kept.\<close>

section \<open>Errors and configuration\<close>

datatype auth_error =
    ErrInvalidCredentials
  | ErrUserNotFound
  | ErrUserDisabled
  | ErrTokenExpired
  | ErrTokenInvalid
  | ErrRefreshTokenNotFound
  | ErrProviderNotFound
  | ErrOIDCStateMismatch
  | ErrOIDCCodeVerifierMissing
  | ErrTokenRevoked
  | AuthFailure string

definition refreshTokenDuration :: time where "refreshTokenDuration = 7 * 24 * hour"
definition accessTokenDuration :: time where "accessTokenDuration = 15 * minute"
definition argon2KeyLen :: nat where "argon2KeyLen = 32"

text \<open>\<open>jwt.NewNumericDate\<close> keeps whole seconds.\<close>

definition NumericDate :: "time \<Rightarrow> time" where
  "NumericDate t = t - t mod second"

record claims =
  cl_issuer :: string
  cl_subject :: string
  cl_issued_at :: time
  cl_expires_at :: time
  cl_id :: string
  cl_user_id :: string
  cl_email :: string
  cl_role :: string

datatype jwt_error = JwtExpired | JwtOther

text \<open>\<open>ac_parse\<close> is \<open>jwt.ParseWithClaims\<close> with the manager's key function, which admits RSA signatures
only, and its options (the issuer, a required expiry), at a given time.\<close>

record auth_crypto =
  ac_argon2 :: "string \<Rightarrow> string \<Rightarrow> nat \<Rightarrow> string"
  ac_sha256 :: "string \<Rightarrow> string"
  ac_sign :: "claims \<Rightarrow> string option"
  ac_parse :: "string \<Rightarrow> time \<Rightarrow> string \<Rightarrow> jwt_error + claims"
  ac_issuer :: string

section \<open>Passwords\<close>

definition hex_encode :: "string \<Rightarrow> string" where
  "hex_encode s = concat (map (\<lambda>c. let n = of_char c :: nat in [hexdigit (n div 16), hexdigit (n mod 16)]) s)"

fun hex_decode :: "string \<Rightarrow> string option" where
  "hex_decode [] = Some []"
| "hex_decode [a] = None"
| "hex_decode (a # b # r) =
     (case (hexval a, hexval b, hex_decode r) of
        (Some x, Some y, Some s) \<Rightarrow> Some (char_of (16 * x + y) # s)
      | _ \<Rightarrow> None)"

fun splitHash :: "string \<Rightarrow> (string \<times> string) option" where
  "splitHash [] = None"
| "splitHash (c # cs) =
     (if c = CHR '':'' then Some ([], cs)
      else (case splitHash cs of None \<Rightarrow> None | Some (a, b) \<Rightarrow> Some (c # a, b)))"

text \<open>The comparison ors the differences of all bytes together.\<close>

definition constantTimeEqual :: "string \<Rightarrow> string \<Rightarrow> bool" where
  "constantTimeEqual a b =
     (length a = length b \<and>
      fold (\<lambda>(x, y) diff. or diff (xor (of_char x :: nat) (of_char y))) (zip a b) 0 = 0)"

definition HashPassword :: "auth_crypto \<Rightarrow> string \<Rightarrow> string \<Rightarrow> string" where
  "HashPassword ac salt password =
     hex_encode salt @ '':'' @ hex_encode (ac_argon2 ac password salt argon2KeyLen)"

definition verifyPassword :: "auth_crypto \<Rightarrow> string \<Rightarrow> string \<Rightarrow> bool" where
  "verifyPassword ac password stored =
     (case splitHash stored of
        None \<Rightarrow> False
      | Some (saltHex, hashHex) \<Rightarrow>
          (case (hex_decode saltHex, hex_decode hashHex) of
             (Some salt, Some expected) \<Rightarrow>
               constantTimeEqual (ac_argon2 ac password salt (length expected)) expected
           | _ \<Rightarrow> False))"

definition hashRefreshToken :: "auth_crypto \<Rightarrow> string \<Rightarrow> string" where
  "hashRefreshToken ac raw = hex_encode (ac_sha256 ac raw)"

section \<open>Access tokens\<close>

definition access_claims :: "auth_crypto \<Rightarrow> time \<Rightarrow> string \<Rightarrow> string \<Rightarrow> string \<Rightarrow> string \<Rightarrow> claims" where
  "access_claims ac now jti userID email role = \<lparr>
     cl_issuer = ac_issuer ac, cl_subject = userID, cl_issued_at = NumericDate now,
     cl_expires_at = NumericDate (now + accessTokenDuration), cl_id = jti,
     cl_user_id = userID, cl_email = email, cl_role = role\<rparr>"

definition GenerateAccessToken ::
  "auth_crypto \<Rightarrow> time \<Rightarrow> string \<Rightarrow> string \<Rightarrow> string \<Rightarrow> string \<Rightarrow> auth_error + string" where
  "GenerateAccessToken ac now jti userID email role =
     (case ac_sign ac (access_claims ac now jti userID email role) of
        None \<Rightarrow> Inl (AuthFailure ''auth: signing access token'')
      | Some token \<Rightarrow> Inr token)"

definition jwt_ValidateAccessToken :: "auth_crypto \<Rightarrow> time \<Rightarrow> string \<Rightarrow> auth_error + claims" where
  "jwt_ValidateAccessToken ac now token =
     (case ac_parse ac (ac_issuer ac) now token of
        Inl JwtExpired \<Rightarrow> Inl ErrTokenExpired
      | Inl JwtOther \<Rightarrow> Inl ErrTokenInvalid
      | Inr c \<Rightarrow> Inr c)"

section \<open>Token pairs\<close>

text \<open>What one issue reads: a JTI, 32 random bytes (or none, an error), and the clock, once for the access token,
for the expiry of the refresh token, for its row and for the answer.\<close>

record issue_input =
  ii_jti :: string
  ii_random :: "string option"
  ii_now_jwt :: time
  ii_now_refresh :: time
  ii_now_row :: time
  ii_now_pair :: time

record token_pair =
  tp_access :: string
  tp_access_expires :: time
  tp_refresh :: string
  tp_refresh_expires :: time

definition issueTokenPair ::
  "auth_crypto \<Rightarrow> issue_input \<Rightarrow> uuid \<Rightarrow> string \<Rightarrow> string \<Rightarrow> store \<Rightarrow> (auth_error + token_pair) \<times> store" where
  "issueTokenPair ac inp userID email role s =
     (case GenerateAccessToken ac (ii_now_jwt inp) (ii_jti inp) userID email role of
        Inl e \<Rightarrow> (Inl e, s)
      | Inr access \<Rightarrow>
          (case ii_random inp of
             None \<Rightarrow> (Inl (AuthFailure ''auth: generating refresh token''), s)
           | Some bytes \<Rightarrow>
               (let raw = hex_encode bytes; expiresAt = ii_now_refresh inp + refreshTokenDuration in
                case tokens_Create (ii_now_row inp)
                       \<lparr>ID = nil_uuid, CreatedAt = zero_time, UpdatedAt = zero_time, rt_user_id = userID,
                        rt_token_hash = hashRefreshToken ac raw, rt_expires_at = expiresAt,
                        rt_revoked_at = None, rt_user_agent = [], rt_ip_address = []\<rparr> s of
                  (Inl e, s1) \<Rightarrow> (Inl (AuthFailure ''auth: persisting refresh token''), s1)
                | (Inr _, s1) \<Rightarrow>
                    (Inr \<lparr>tp_access = access, tp_access_expires = ii_now_pair inp + accessTokenDuration,
                          tp_refresh = raw, tp_refresh_expires = expiresAt\<rparr>, s1))))"

section \<open>Local login\<close>

text \<open>\<open>now\<close> is the login time, \<open>now2\<close> the time of the row's update.\<close>

definition Login ::
  "auth_crypto \<Rightarrow> issue_input \<Rightarrow> time \<Rightarrow> time \<Rightarrow> string \<Rightarrow> string \<Rightarrow> store \<Rightarrow>
   (auth_error + token_pair) \<times> store" where
  "Login ac inp now now2 email password s =
     (case users_GetByEmail email s of
        (Inl e, s1) \<Rightarrow>
          (Inl (if e = ErrNotFound then ErrInvalidCredentials
                else AuthFailure ''auth: fetching user by email''), s1)
      | (Inr u, s1) \<Rightarrow>
          if \<not> usr_is_active u then (Inl ErrUserDisabled, s1)
          else if \<not> verifyPassword ac password (usr_password u) then (Inl ErrInvalidCredentials, s1)
          else issueTokenPair ac inp (ID u) (usr_email u) (usr_role u)
                 (snd (users_Update now2 (u\<lparr>usr_last_login_at := Some now\<rparr>) s1)))"

definition refreshed_user ::
  "auth_crypto \<Rightarrow> issue_input \<Rightarrow> uuid \<Rightarrow> store \<Rightarrow> (auth_error + token_pair) \<times> store" where
  "refreshed_user ac inp userID s =
     (case users_GetByID userID s of
        (Inl e, s1) \<Rightarrow>
          (Inl (if e = ErrNotFound then ErrUserNotFound
                else AuthFailure ''auth: fetching user for token refresh''), s1)
      | (Inr u, s1) \<Rightarrow>
          if \<not> usr_is_active u then (Inl ErrUserDisabled, s1)
          else issueTokenPair ac inp (ID u) (usr_email u) (usr_role u) s1)"

definition RefreshToken ::
  "auth_crypto \<Rightarrow> issue_input \<Rightarrow> time \<Rightarrow> string \<Rightarrow> store \<Rightarrow> (auth_error + token_pair) \<times> store" where
  "RefreshToken ac inp now raw s =
     (let h = hashRefreshToken ac raw in
      case tokens_GetByHash h s of
        (Inl e, s1) \<Rightarrow>
          (Inl (if e = ErrNotFound then ErrRefreshTokenNotFound
                else AuthFailure ''auth: fetching refresh token''), s1)
      | (Inr stored, s1) \<Rightarrow>
          (case tokens_DeleteByHash h s1 of
             (Inl e, s2) \<Rightarrow> (Inl (AuthFailure ''auth: deleting old refresh token''), s2)
           | (Inr _, s2) \<Rightarrow>
               if rt_expires_at stored < now then (Inl ErrTokenExpired, s2)
               else refreshed_user ac inp (rt_user_id stored) s2))"

definition Logout :: "auth_crypto \<Rightarrow> string \<Rightarrow> store \<Rightarrow> (auth_error + unit) \<times> store" where
  "Logout ac raw s =
     (case tokens_DeleteByHash (hashRefreshToken ac raw) s of
        (Inl e, s1) \<Rightarrow>
          (if e = ErrNotFound then Inr () else Inl (AuthFailure ''auth: revoking refresh token on logout''), s1)
      | (Inr _, s1) \<Rightarrow> (Inr (), s1))"

section \<open>The service\<close>

definition LogoutAllSessions :: "time \<Rightarrow> uuid \<Rightarrow> store \<Rightarrow> (auth_error + unit) \<times> store" where
  "LogoutAllSessions now userID s =
     (case tokens_RevokeAllForUser now userID s of
        (Inl e, s1) \<Rightarrow> (Inl (AuthFailure (''auth: revoking all sessions for user '' @ userID)), s1)
      | (Inr _, s1) \<Rightarrow> (Inr (), s1))"

definition ValidateAccessToken :: "auth_crypto \<Rightarrow> time \<Rightarrow> string \<Rightarrow> denylist \<Rightarrow> auth_error + claims" where
  "ValidateAccessToken ac now token d =
     (case jwt_ValidateAccessToken ac now token of
        Inl e \<Rightarrow> Inl e
      | Inr c \<Rightarrow> if IsRevoked now (cl_id c) d then Inl ErrTokenRevoked else Inr c)"

definition RevokeAccessToken :: "string \<Rightarrow> time \<Rightarrow> denylist \<Rightarrow> denylist" where
  "RevokeAccessToken jti expiresAt d = deny_Add jti expiresAt d"

section \<open>OIDC\<close>

text \<open>The identity provider: discovery of the endpoints of an issuer, the exchange of a code (with the raw ID
token, if any), the verification of an ID token for a client, and the user-info endpoint.\<close>

record oauth_config =
  oc_client_id :: string
  oc_client_secret :: string
  oc_redirect_url :: string
  oc_endpoint :: string
  oc_scopes :: "string list"

record id_claims =
  ic_sub :: string
  ic_email :: string
  ic_name :: string

record identity_provider =
  ip_discover :: "string \<Rightarrow> string option"
  ip_exchange :: "oauth_config \<Rightarrow> string \<Rightarrow> string \<Rightarrow> string option option"
  ip_verify :: "string \<Rightarrow> string \<Rightarrow> string \<Rightarrow> id_claims option"
  ip_userinfo :: "string \<Rightarrow> (string \<times> string) option"
  ip_auth_url :: "oauth_config \<Rightarrow> string \<Rightarrow> string \<Rightarrow> string"

definition splitScopes :: "string \<Rightarrow> string list" where
  "splitScopes s = (if s = [] then [''openid''] else filter (\<lambda>w. w \<noteq> []) (split_on CHR '' '' s))"

definition loadConfig ::
  "identity_provider \<Rightarrow> uuid \<Rightarrow> string \<Rightarrow> store \<Rightarrow> (auth_error + oidc_provider \<times> oauth_config) \<times> store" where
  "loadConfig idp providerID callbackURL s =
     (case oidc_GetByID providerID s of
        (Inl e, s1) \<Rightarrow>
          (Inl (if e = ErrNotFound then ErrProviderNotFound
                else AuthFailure ''auth: loading OIDC provider config''), s1)
      | (Inr cfg, s1) \<Rightarrow>
          (case ip_discover idp (op_issuer cfg) of
             None \<Rightarrow> (Inl (AuthFailure ''auth: OIDC discovery for issuer''), s1)
           | Some endpoint \<Rightarrow>
               (Inr (cfg, \<lparr>oc_client_id = op_client_id cfg, oc_client_secret = op_client_secret cfg,
                           oc_redirect_url = callbackURL, oc_endpoint = endpoint,
                           oc_scopes = splitScopes (op_scopes cfg)\<rparr>), s1)))"

text \<open>The state and the code verifier are the base64 texts of random bytes.\<close>

definition b64_char :: "nat \<Rightarrow> char" where
  "b64_char n = (if n < 26 then char_of (65 + n) else if n < 52 then char_of (71 + n)
     else if n < 62 then char_of (n - 4) else if n = 62 then CHR ''-'' else CHR ''_'')"

fun base64url :: "string \<Rightarrow> string" where
  "base64url [] = []"
| "base64url [a] = (let x = of_char a :: nat in [b64_char (x div 4), b64_char (x mod 4 * 16)])"
| "base64url [a, b] =
     (let x = of_char a :: nat; y = of_char b :: nat in
      [b64_char (x div 4), b64_char (x mod 4 * 16 + y div 16), b64_char (y mod 16 * 4)])"
| "base64url (a # b # c # r) =
     (let x = of_char a :: nat; y = of_char b :: nat; z = of_char c :: nat in
      [b64_char (x div 4), b64_char (x mod 4 * 16 + y div 16), b64_char (y mod 16 * 4 + z div 64),
       b64_char (z mod 64)] @ base64url r)"

definition AuthorizationURL ::
  "identity_provider \<Rightarrow> string option \<Rightarrow> string option \<Rightarrow> uuid \<Rightarrow> string \<Rightarrow> store \<Rightarrow>
   (auth_error + string \<times> string \<times> string) \<times> store" where
  "AuthorizationURL idp rnd_state rnd_verifier providerID callbackURL s =
     (case loadConfig idp providerID callbackURL s of
        (Inl e, s1) \<Rightarrow> (Inl e, s1)
      | (Inr (cfg, oc), s1) \<Rightarrow>
          (case rnd_state of
             None \<Rightarrow> (Inl (AuthFailure ''auth: generating OIDC state''), s1)
           | Some a \<Rightarrow>
               (case rnd_verifier of
                  None \<Rightarrow> (Inl (AuthFailure ''auth: generating PKCE code verifier''), s1)
                | Some b \<Rightarrow>
                    (let state = base64url a; verifier = base64url b in
                     (Inr (ip_auth_url idp oc state verifier, state, verifier), s1)))))"

definition findOrProvisionUser ::
  "time \<Rightarrow> oidc_provider \<Rightarrow> id_claims \<Rightarrow> store \<Rightarrow> (auth_error + user) \<times> store" where
  "findOrProvisionUser now cfg c s =
     (let sync = (\<lambda>u s. (let u' = u\<lparr>usr_email := ic_email c, usr_display_name := ic_name c\<rparr> in
                         (Inr u', snd (users_Update now u' s)))) in
      case users_GetByOIDC (ID cfg) (ic_sub c) s of
        (Inr u, s1) \<Rightarrow> sync u s1
      | (Inl e, s1) \<Rightarrow>
          if e \<noteq> ErrNotFound then (Inl (AuthFailure ''auth: looking up OIDC user''), s1)
          else (case users_GetByEmail (ic_email c) s1 of
                  (Inr u, s2) \<Rightarrow> sync (u\<lparr>usr_oidc_provider := ID cfg, usr_oidc_sub := ic_sub c\<rparr>) s2
                | (Inl e2, s2) \<Rightarrow>
                    if e2 \<noteq> ErrNotFound then (Inl (AuthFailure ''auth: looking up user by email''), s2)
                    else (case users_Create now
                                 \<lparr>ID = nil_uuid, CreatedAt = zero_time, UpdatedAt = zero_time,
                                  usr_email = ic_email c, usr_password = [], usr_display_name = ic_name c,
                                  usr_role = ''user'', usr_is_active = True, usr_oidc_provider = ID cfg,
                                  usr_oidc_sub = ic_sub c, usr_last_login_at = None\<rparr> s2 of
                            (Inl e3, s3) \<Rightarrow> (Inl (AuthFailure ''auth: provisioning OIDC user''), s3)
                          | (Inr u, s3) \<Rightarrow> (Inr u, s3))))"

record callback_request =
  cb_provider_id :: string
  cb_callback_url :: string
  cb_code :: string
  cb_state :: string
  cb_session_state :: string
  cb_code_verifier :: string

text \<open>The claims of the verified ID token, completed by the user-info endpoint, or the reason to refuse them.\<close>

definition complete_claims :: "identity_provider \<Rightarrow> string \<Rightarrow> id_claims \<Rightarrow> auth_error + id_claims" where
  "complete_claims idp issuer c =
     (let c1 = (if ic_email c = [] \<or> ic_name c = []
                then (case ip_userinfo idp issuer of
                        None \<Rightarrow> c
                      | Some (email, name) \<Rightarrow>
                          c\<lparr>ic_email := (if ic_email c = [] then email else ic_email c),
                            ic_name := (if ic_name c = [] then name else ic_name c)\<rparr>)
                else c) in
      if ic_sub c1 = [] then Inl (AuthFailure ''auth: OIDC id_token missing required 'sub' claim'')
      else if ic_email c1 = []
      then Inl (AuthFailure ''auth: identity provider did not return an email address'')
      else Inr (if ic_name c1 = [] then c1\<lparr>ic_name := ic_sub c1\<rparr> else c1))"

definition ExchangeCode ::
  "(string \<Rightarrow> uuid option) \<Rightarrow> auth_crypto \<Rightarrow> identity_provider \<Rightarrow> issue_input \<Rightarrow> time \<Rightarrow> callback_request \<Rightarrow>
   store \<Rightarrow> (auth_error + token_pair) \<times> store" where
  "ExchangeCode parse ac idp inp now req s =
     (if cb_state req \<noteq> cb_session_state req then (Inl ErrOIDCStateMismatch, s)
      else if cb_code_verifier req = [] then (Inl ErrOIDCCodeVerifierMissing, s)
      else (case parse (cb_provider_id req) of
              None \<Rightarrow> (Inl (AuthFailure ''auth: invalid provider ID''), s)
            | Some providerID \<Rightarrow>
     (case loadConfig idp providerID (cb_callback_url req) s of
        (Inl e, s1) \<Rightarrow> (Inl e, s1)
      | (Inr (cfg, oc), s1) \<Rightarrow>
     (case ip_exchange idp oc (cb_code req) (cb_code_verifier req) of
        None \<Rightarrow> (Inl (AuthFailure ''auth: exchanging OIDC code''), s1)
      | Some None \<Rightarrow> (Inl (AuthFailure ''auth: OIDC token response missing id_token''), s1)
      | Some (Some rawID) \<Rightarrow>
     (case ip_discover idp (op_issuer cfg) of
        None \<Rightarrow> (Inl (AuthFailure ''auth: initializing OIDC provider for issuer''), s1)
      | Some _ \<Rightarrow>
     (case ip_verify idp (op_issuer cfg) (op_client_id cfg) rawID of
        None \<Rightarrow> (Inl (AuthFailure ''auth: verifying OIDC id_token''), s1)
      | Some c \<Rightarrow>
     (case complete_claims idp (op_issuer cfg) c of
        Inl e \<Rightarrow> (Inl e, s1)
      | Inr c1 \<Rightarrow>
     (case findOrProvisionUser now cfg c1 s1 of
        (Inl e, s2) \<Rightarrow> (Inl e, s2)
      | (Inr u, s2) \<Rightarrow>
          if \<not> usr_is_active u then (Inl ErrUserDisabled, s2)
          else issueTokenPair ac inp (ID u) (usr_email u) (usr_role u)
                 (snd (users_Update now (u\<lparr>usr_last_login_at := Some now\<rparr>) s2))))))))))"

end
