(* ===== verification/Api.thy ===== *)
theory Api
  imports Auth Notification
begin

text \<open>What the handlers of the REST API share (\<open>server/internal/api\<close>): requests and replies, the response envelope
(\<open>response.go\<close>), the strict decoding of request bodies, the middlewares (\<open>middleware.go\<close>), path and query
parameters (\<open>agents.go\<close>, \<open>jobs.go\<close>) and the audit trail (\<open>audit.go\<close>).

A handler maps a request, the claims the middleware put into its context and the state it works on to a reply and
the new state.  One clock reading serves all statements of a request.  Parsing of UUIDs and rendering of times are
fields of \<open>api_env\<close>.\<close>

section \<open>Requests and replies\<close>

record http_request =
  hr_header :: "string \<Rightarrow> string"
  hr_params :: "string \<Rightarrow> string"
  hr_query :: "string \<Rightarrow> string"
  hr_cookie :: "string \<Rightarrow> string option"
  hr_body :: string
  hr_remote_addr :: string
  hr_host :: string
  hr_tls :: bool

datatype same_site = SameSiteStrict | SameSiteLax

record cookie =
  ck_name :: string
  ck_value :: string
  ck_expires :: time
  ck_max_age :: int
  ck_http_only :: bool
  ck_secure :: bool
  ck_same_site :: same_site
  ck_path :: string

record reply =
  rp_status :: int
  rp_body :: "json option"
  rp_location :: string
  rp_cookies :: "cookie list"

record api_env =
  ae_parse :: "string \<Rightarrow> uuid option"
  ae_rfc :: "time \<Rightarrow> string"
  ae_crypto :: auth_crypto
  ae_secure :: bool

section \<open>The envelope\<close>

definition reply_JSON :: "int \<Rightarrow> json \<Rightarrow> reply" where
  "reply_JSON status payload = \<lparr>rp_status = status, rp_body = Some payload, rp_location = [], rp_cookies = []\<rparr>"

definition Ok :: "json \<Rightarrow> reply" where
  "Ok payload = reply_JSON 200 (JObj [(''data'', payload)])"

definition Created :: "json \<Rightarrow> reply" where
  "Created payload = reply_JSON 201 (JObj [(''data'', payload)])"

definition NoContent :: reply where
  "NoContent = \<lparr>rp_status = 204, rp_body = None, rp_location = [], rp_cookies = []\<rparr>"

definition errJSON :: "int \<Rightarrow> string \<Rightarrow> string \<Rightarrow> reply" where
  "errJSON status msg code = reply_JSON status (JObj [(''error'',
     JObj ((''message'', JStr msg) # (if code = [] then [] else [(''code'', JStr code)])))])"

definition BadRequest :: "string \<Rightarrow> reply" where
  "BadRequest msg = errJSON 400 msg ''bad_request''"

definition Unauthorized :: reply where
  "Unauthorized = errJSON 401 ''authentication required'' ''unauthorized''"

definition Forbidden :: reply where
  "Forbidden = errJSON 403 ''insufficient permissions'' ''forbidden''"

definition ResourceNotFound :: reply where
  "ResourceNotFound = errJSON 404 ''resource not found'' ''not_found''"

definition Conflict :: "string \<Rightarrow> reply" where
  "Conflict msg = errJSON 409 msg ''conflict''"

definition InternalError :: reply where
  "InternalError = errJSON 500 ''an internal error occurred'' ''internal_error''"

definition ServiceUnavailable :: "string \<Rightarrow> reply" where
  "ServiceUnavailable msg = errJSON 503 msg ''service_unavailable''"

lemmas reply_defs = Ok_def Created_def NoContent_def errJSON_def BadRequest_def Unauthorized_def Forbidden_def
  ResourceNotFound_def Conflict_def InternalError_def ServiceUnavailable_def reply_JSON_def

lemma reply_status [simp]:
  "rp_status (Ok j) = 200" "rp_status (Created j) = 201" "rp_status NoContent = 204"
  "rp_status (BadRequest m) = 400" "rp_status Unauthorized = 401" "rp_status Forbidden = 403"
  "rp_status ResourceNotFound = 404" "rp_status (Conflict m) = 409" "rp_status InternalError = 500"
  "rp_status (ServiceUnavailable m) = 503" "rp_status (errJSON n m c) = n"
  by (simp_all add: reply_defs)

definition dash :: string where
  "dash = [CHR 0xE2, CHR 0x80, CHR 0x94]"

text \<open>The answer to an error of \<open>GetByID\<close> or \<open>Delete\<close> that most handlers give.\<close>

definition not_found_or_internal :: "dberr \<Rightarrow> reply" where
  "not_found_or_internal e = (if e = ErrNotFound then ResourceNotFound else InternalError)"

definition requestCallbackURL :: "http_request \<Rightarrow> string" where
  "requestCallbackURL r =
     (let proto = hr_header r ''X-Forwarded-Proto''; fwd = hr_header r ''X-Forwarded-Host'';
          scheme = (if proto \<noteq> [] then trim_space (takeWhile (\<lambda>c. c \<noteq> CHR '','') (trim_space proto))
                    else if hr_tls r then ''https'' else ''http'');
          host = (if fwd \<noteq> [] then fwd else hr_host r) in
      scheme @ ''://'' @ host @ ''/auth/oidc/callback'')"

section \<open>Request bodies\<close>

definition maxBody :: nat where "maxBody = 2 ^ 20"

text \<open>A member whose name is none of the fields is an error.\<close>

definition known_fields :: "string list \<Rightarrow> (string \<times> json) list \<Rightarrow> bool" where
  "known_fields fs kvs = list_all (\<lambda>(k, v). list_ex (\<lambda>f. fold_key k = fold_key f) fs) kvs"

text \<open>\<open>Decode\<close> reads the first value of the body, of which at most \<open>maxBody\<close> bytes are seen.  An object is complete
at its brace; a bare \<open>null\<close> needs one more byte or the end of the body, and leaves the zero request.\<close>

definition decodeJSON :: "string list \<Rightarrow> ((string \<times> json) list \<Rightarrow> 'a option) \<Rightarrow> http_request \<Rightarrow> reply + 'a" where
  "decodeJSON names dec r =
     (let seen = take maxBody (hr_body r);
          bad = Inl (BadRequest ''request body is invalid or contains unrecognised fields'') in
      case json_value (2 * length seen + 2) seen of
        Some (JObj kvs, _) \<Rightarrow>
          if known_fields names kvs then (case dec kvs of None \<Rightarrow> bad | Some a \<Rightarrow> Inr a) else bad
      | Some (JNull, rest) \<Rightarrow>
          if rest = [] \<and> maxBody < length (hr_body r) then bad
          else (case dec [] of None \<Rightarrow> bad | Some a \<Rightarrow> Inr a)
      | _ \<Rightarrow> bad)"

text \<open>A pointer field: \<open>null\<close> clears it, a value sets it.\<close>

definition dec_ptr :: "(json \<Rightarrow> 'a \<Rightarrow> 'a option) \<Rightarrow> 'a \<Rightarrow> json \<Rightarrow> 'a option \<Rightarrow> 'a option option" where
  "dec_ptr dec z v d =
     (if v = JNull then Some None
      else map_option Some (dec v (case d of None \<Rightarrow> z | Some a \<Rightarrow> a)))"

lemma decodeJSON_cases:
  "(\<exists>m. decodeJSON names dec r = Inl (BadRequest m)) \<or> (\<exists>a. decodeJSON names dec r = Inr a)"
  unfolding decodeJSON_def Let_def
  by (auto split: option.split prod.split json.split)

section \<open>Partial updates\<close>

text \<open>Two changes after one another, the first error winning.\<close>

definition then_set :: "('e + 'a) \<Rightarrow> ('a \<Rightarrow> 'e + 'b) \<Rightarrow> 'e + 'b" where
  "then_set x f = (case x of Inl e \<Rightarrow> Inl e | Inr a \<Rightarrow> f a)"

text \<open>A field that is present is written, one that is absent is left.\<close>

definition set_if :: "('v \<Rightarrow> 'a \<Rightarrow> 'a) \<Rightarrow> 'v option \<Rightarrow> 'a \<Rightarrow> 'a" where
  "set_if f x a = (case x of None \<Rightarrow> a | Some v \<Rightarrow> f v a)"

definition set_nonempty :: "string \<Rightarrow> (string \<Rightarrow> 'a \<Rightarrow> 'a) \<Rightarrow> string option \<Rightarrow> 'a \<Rightarrow> reply + 'a" where
  "set_nonempty msg f x a =
     (case x of None \<Rightarrow> Inr a | Some v \<Rightarrow> if v = [] then Inl (BadRequest msg) else Inr (f v a))"

section \<open>Middlewares\<close>

definition split_space :: "string \<Rightarrow> (string \<times> string) option" where
  "split_space h =
     (case dropWhile (\<lambda>c. c \<noteq> CHR '' '') h of
        [] \<Rightarrow> None | _ # rest \<Rightarrow> Some (takeWhile (\<lambda>c. c \<noteq> CHR '' '') h, rest))"

text \<open>The token of an \<open>Authorization\<close> header.\<close>

definition bearer_token :: "string \<Rightarrow> string option" where
  "bearer_token h =
     (case split_space h of
        None \<Rightarrow> None
      | Some (scheme, token) \<Rightarrow> if fold_key scheme = ''bearer'' then Some token else None)"

text \<open>\<open>wr\<close> writes a refusal; the next handler may answer in its own way.\<close>

definition Authenticate ::
  "(string \<Rightarrow> auth_error + claims) \<Rightarrow> (reply \<Rightarrow> 'a) \<Rightarrow> (claims option \<Rightarrow> http_request \<Rightarrow> 's \<Rightarrow> 'a \<times> 's) \<Rightarrow>
   http_request \<Rightarrow> 's \<Rightarrow> 'a \<times> 's" where
  "Authenticate validate wr next r s =
     (let header = hr_header r ''Authorization'' in
      if header = [] then (wr Unauthorized, s)
      else (case bearer_token header of
              None \<Rightarrow> (wr Unauthorized, s)
            | Some token \<Rightarrow>
                (case validate token of
                   Inl e \<Rightarrow> (wr Unauthorized, s)
                 | Inr c \<Rightarrow> next (Some c) r s)))"

definition RequireRole ::
  "string \<Rightarrow> (reply \<Rightarrow> 'a) \<Rightarrow> (claims option \<Rightarrow> http_request \<Rightarrow> 's \<Rightarrow> 'a \<times> 's) \<Rightarrow>
   claims option \<Rightarrow> http_request \<Rightarrow> 's \<Rightarrow> 'a \<times> 's" where
  "RequireRole role wr next c r s =
     (case c of
        None \<Rightarrow> (wr Unauthorized, s)
      | Some cl \<Rightarrow> if cl_role cl \<noteq> role then (wr Forbidden, s) else next c r s)"

definition isAdmin :: "claims option \<Rightarrow> bool" where
  "isAdmin c = (case c of None \<Rightarrow> False | Some cl \<Rightarrow> cl_role cl = ''admin'')"

section \<open>Parameters\<close>

text \<open>The number \<open>strconv.Atoi\<close> returns when its error is ignored: 0 for text that is no number, the nearest
64-bit value for one that is too large.\<close>

definition atoi_value :: "string \<Rightarrow> int" where
  "atoi_value s =
     (let signed = (case s of [] \<Rightarrow> False | c # r \<Rightarrow> c = CHR ''-'' \<or> c = CHR ''+'');
          ds = (if signed then tl s else s);
          i = (if signed \<and> hd s = CHR ''-'' then - int (digits_val ds) else int (digits_val ds)) in
      if ds = [] \<or> \<not> list_all is_digit ds then 0 else max (- (2 ^ 63)) (min (2 ^ 63 - 1) i))"

lemma atoi_value_atoi: "atoi s = Some n \<Longrightarrow> atoi_value s = n"
  by (cases s) (auto simp: atoi_def atoi_value_def parse_int_def int64_ok_def Let_def is_digit_def
      split: list.splits if_splits)

definition parseUUID :: "api_env \<Rightarrow> http_request \<Rightarrow> string \<Rightarrow> reply + uuid" where
  "parseUUID env r param =
     (case ae_parse env (hr_params r param) of
        None \<Rightarrow> Inl (BadRequest (''invalid '' @ param @ '': must be a valid UUID''))
      | Some u \<Rightarrow> Inr u)"

definition paginationOpts :: "http_request \<Rightarrow> list_options" where
  "paginationOpts r =
     (let limit = (case atoi (hr_query r ''limit'') of Some n \<Rightarrow> if 0 < n then n else 20 | None \<Rightarrow> 20);
          offset = (case atoi (hr_query r ''offset'') of Some n \<Rightarrow> if 0 \<le> n then n else 0 | None \<Rightarrow> 0) in
      \<lparr>lo_limit = min limit 100, lo_offset = offset\<rparr>)"

lemma paginationOpts_bounds: "1 \<le> lo_limit (paginationOpts r) \<and> lo_limit (paginationOpts r) \<le> 100"
  by (simp add: paginationOpts_def Let_def split: option.split)

text \<open>An optional time in a response.\<close>

definition time_json :: "api_env \<Rightarrow> time option \<Rightarrow> json" where
  "time_json env t = (case t of None \<Rightarrow> JNull | Some x \<Rightarrow> JStr (ae_rfc env x))"

definition list_json :: "json list \<Rightarrow> nat \<Rightarrow> json" where
  "list_json items n = JObj [(''items'', JArr items), (''total'', jint (int n))]"

section \<open>The audit trail\<close>

text \<open>\<open>json.Marshal\<close> of a map writes its keys in order.\<close>

definition details_text :: "(string \<times> json) list \<Rightarrow> string" where
  "details_text details = json_text (JObj (sort_key fst details))"

definition logAuditDirect ::
  "time \<Rightarrow> http_request \<Rightarrow> uuid \<Rightarrow> string \<Rightarrow> string \<Rightarrow> string \<Rightarrow> string \<Rightarrow> (string \<times> json) list \<Rightarrow> store \<Rightarrow> store" where
  "logAuditDirect now r userID email action resType resID details s =
     snd (audit_Create now \<lparr>aud_id = nil_uuid, aud_created_at = zero_time, aud_user_id = userID,
        aud_user_email = email, aud_action = action, aud_resource_type = resType, aud_resource_id = resID,
        aud_details = details_text details, aud_ip_address = hr_remote_addr r\<rparr> s)"

definition logAudit ::
  "api_env \<Rightarrow> time \<Rightarrow> http_request \<Rightarrow> claims option \<Rightarrow> string \<Rightarrow> string \<Rightarrow> string \<Rightarrow> (string \<times> json) list \<Rightarrow>
   store \<Rightarrow> store" where
  "logAudit env now r c action resType resID details s =
     (case c of
        None \<Rightarrow> s
      | Some cl \<Rightarrow>
          (case ae_parse env (cl_user_id cl) of
             None \<Rightarrow> s
           | Some u \<Rightarrow> logAuditDirect now r u (cl_email cl) action resType resID details s))"

text \<open>The trail is never in the way: no other table is touched, whatever the outcome.\<close>

lemma audit_Create_frame:
  assumes "engine_free p" "\<And>f s. p (audit_logs_update f s) = p s"
  shows "p (snd (audit_Create now e s)) = p s"
  unfolding audit_Create_def
  by (auto simp: engine_free_simps[OF assms(1)] Let_def assms(2) simp del: if_split
      intro!: trans[OF sql_frame[OF assms(1)]] split: list.split prod.split if_split)

lemma logAudit_frame:
  assumes "engine_free p" "\<And>f s. p (audit_logs_update f s) = p s"
  shows "p (logAudit env now r c a t i d s) = p s" "p (logAuditDirect now r u e a t i d s) = p s"
  using audit_Create_frame[OF assms] by (simp_all add: logAudit_def logAuditDirect_def split: option.split)

lemma logAudit_tables [simp]:
  "users (logAudit env now r c a t i d s) = users s"
  "refresh_tokens (logAudit env now r c a t i d s) = refresh_tokens s"
  "oidc_providers (logAudit env now r c a t i d s) = oidc_providers s"
  "agents (logAudit env now r c a t i d s) = agents s"
  "destinations (logAudit env now r c a t i d s) = destinations s"
  "policies (logAudit env now r c a t i d s) = policies s"
  "policy_destinations (logAudit env now r c a t i d s) = policy_destinations s"
  "jobs (logAudit env now r c a t i d s) = jobs s"
  "snapshots (logAudit env now r c a t i d s) = snapshots s"
  "settings (logAudit env now r c a t i d s) = settings s"
  "users (logAuditDirect now r u e a t i d s) = users s"
  "refresh_tokens (logAuditDirect now r u e a t i d s) = refresh_tokens s"
  by (rule logAudit_frame; simp)+

end
