(* ===== verification/ApiPolicies.thy ===== *)
theory ApiPolicies
  imports Api Scheduler
begin

text \<open>The handlers of policies (\<open>policies.go\<close>) and the validation of hook commands (\<open>hook_validation.go\<close>).  The
parser of cron expressions is a parameter: the text of its error, if any.  \<open>cron_ok\<close> and \<open>send_ok\<close> are the
parameters of the scheduler.\<close>

section \<open>Hook commands\<close>

definition hookMaxLen :: nat where "hookMaxLen = 1024"

text \<open>\<open>strings.ToUpper\<close>, as far as its result is made of ASCII: besides the ASCII letters, the dotless i (C4 B1) and
the long s (C5 BF) are the letters whose upper case is ASCII.\<close>

definition upper_char :: "char \<Rightarrow> char" where
  "upper_char c = (let n = (of_char c :: nat) in if 97 \<le> n \<and> n \<le> 122 then char_of (n - 32) else c)"

fun upper_text :: "string \<Rightarrow> string" where
  "upper_text [] = []"
| "upper_text [a] = [upper_char a]"
| "upper_text (a # b # r) =
     (if a = CHR 0xC4 \<and> b = CHR 0xB1 then CHR ''I'' # upper_text r
      else if a = CHR 0xC5 \<and> b = CHR 0xBF then CHR ''S'' # upper_text r
      else upper_char a # upper_text (b # r))"

definition secret_prefixes :: "string list" where
  "secret_prefixes = [''$RESTIC_'', ''${RESTIC_'', ''$RCLONE_'', ''${RCLONE_'', ''$ARKEEP_'', ''${ARKEEP_'']"

definition validateHookCommand :: "string \<Rightarrow> string option" where
  "validateHookCommand cmd =
     (if cmd = [] then None
      else if hookMaxLen < length cmd then Some ''hook command must not exceed 1024 characters''
      else if str_contains ''$('' cmd \<or> str_contains [CHR 0x60] cmd
      then Some ''hook command must not use command substitution ($(...) or backticks)''
      else if str_contains ''..'' cmd then Some ''hook command must not contain path traversal sequences (..)''
      else if list_ex (\<lambda>p. str_contains p (upper_text cmd)) secret_prefixes
      then Some ''hook command must not reference internal environment variables ($RESTIC_*, $RCLONE_*, $ARKEEP_*)''
      else None)"

definition validateSchedule :: "(string \<Rightarrow> string option) \<Rightarrow> string \<Rightarrow> string option" where
  "validateSchedule cron_error schedule =
     (case cron_error schedule of None \<Rightarrow> None | Some e \<Rightarrow> Some (''invalid schedule: '' @ e))"

section \<open>Responses\<close>

definition pd_json :: "policy_destination \<Rightarrow> json" where
  "pd_json pd = JObj [(''id'', JStr (ID pd)), (''destination_id'', JStr (pd_destination_id pd)),
     (''priority'', jint (pd_priority pd))]"

definition policy_json :: "api_env \<Rightarrow> policy \<Rightarrow> policy_destination list \<Rightarrow> string \<Rightarrow> json" where
  "policy_json env p pds agentName = JObj
     [(''id'', JStr (ID p)), (''name'', JStr (pol_name p)), (''agent_id'', JStr (pol_agent_id p)),
      (''agent_name'', JStr agentName), (''schedule'', JStr (pol_schedule p)), (''enabled'', JBool (pol_enabled p)),
      (''sources'', JStr (pol_sources p)), (''retention_daily'', jint (pol_retention_daily p)),
      (''retention_weekly'', jint (pol_retention_weekly p)),
      (''retention_monthly'', jint (pol_retention_monthly p)),
      (''retention_yearly'', jint (pol_retention_yearly p)), (''hook_pre_backup'', JStr (pol_hook_pre p)),
      (''hook_post_backup'', JStr (pol_hook_post p)), (''destinations'', JArr (map pd_json pds)),
      (''last_run_at'', time_json env (pol_last_run_at p)), (''next_run_at'', time_json env (pol_next_run_at p)),
      (''created_at'', JStr (ae_rfc env (CreatedAt p)))]"

definition agent_name :: "uuid \<Rightarrow> store \<Rightarrow> string \<times> store" where
  "agent_name u s =
     (case agents_GetByID u s of (Inl _, s1) \<Rightarrow> ([], s1) | (Inr a, s1) \<Rightarrow> (ag_name a, s1))"

text \<open>The names of the agents of a page, each looked up once; \<open>arrange\<close> is the order in which the map is traversed.\<close>

fun agent_names :: "uuid list \<Rightarrow> store \<Rightarrow> (uuid \<times> string) list \<times> store" where
  "agent_names [] s = ([], s)"
| "agent_names (u # us) s =
     (case agent_name u s of (n, s1) \<Rightarrow> (case agent_names us s1 of (ns, s2) \<Rightarrow> ((u, n) # ns, s2)))"

definition PolicyHandler_List ::
  "api_env \<Rightarrow> (uuid list \<Rightarrow> uuid list) \<Rightarrow> http_request \<Rightarrow> store \<Rightarrow> reply \<times> store" where
  "PolicyHandler_List env arrange r s =
     (case policies_List (paginationOpts r) s of
        (Inl e, s1) \<Rightarrow> (InternalError, s1)
      | (Inr (ps, n), s1) \<Rightarrow>
          (case agent_names (arrange (remdups (map pol_agent_id ps))) s1 of
             (names, s2) \<Rightarrow>
               (Ok (list_json (map (\<lambda>p. policy_json env p []
                      (case map_of names (pol_agent_id p) of None \<Rightarrow> [] | Some x \<Rightarrow> x)) ps) n), s2)))"

definition PolicyHandler_GetByID :: "api_env \<Rightarrow> http_request \<Rightarrow> store \<Rightarrow> reply \<times> store" where
  "PolicyHandler_GetByID env r s =
     (case parseUUID env r ''id'' of
        Inl bad \<Rightarrow> (bad, s)
      | Inr i \<Rightarrow>
          (case policies_GetByIDWithDestinations i s of
             (Inl e, s1) \<Rightarrow> (not_found_or_internal e, s1)
           | (Inr (p, pds), s1) \<Rightarrow>
               (case agent_name (pol_agent_id p) s1 of (n, s2) \<Rightarrow> (Ok (policy_json env p pds n), s2))))"

section \<open>Creation\<close>

record destination_entry =
  de_destination_id :: string
  de_priority :: int

record create_policy_request =
  cp_name :: string
  cp_agent_id :: string
  cp_schedule :: string
  cp_sources :: string
  cp_repo_password :: string
  cp_retention_daily :: int
  cp_retention_weekly :: int
  cp_retention_monthly :: int
  cp_retention_yearly :: int
  cp_hook_pre :: string
  cp_hook_post :: string
  cp_destinations :: "destination_entry list"

definition create_policy_fields :: "string list" where
  "create_policy_fields = [''name'', ''agent_id'', ''schedule'', ''sources'', ''repo_password'', ''retention_daily'',
     ''retention_weekly'', ''retention_monthly'', ''retention_yearly'', ''hook_pre_backup'', ''hook_post_backup'',
     ''destinations'']"

definition dec_destination_entry :: "(string \<times> json) list \<Rightarrow> destination_entry option" where
  "dec_destination_entry kvs =
     (if known_fields [''destination_id'', ''priority''] kvs
      then (case (json_field dec_string ''destination_id'' [] kvs, json_field dec_int ''priority'' 0 kvs) of
              (Some d, Some p) \<Rightarrow> Some \<lparr>de_destination_id = d, de_priority = p\<rparr>
            | _ \<Rightarrow> None)
      else None)"

definition dec_retentions :: "(string \<times> json) list \<Rightarrow> (int \<times> int \<times> int \<times> int) option" where
  "dec_retentions kvs =
     (case (json_field dec_int ''retention_daily'' 0 kvs, json_field dec_int ''retention_weekly'' 0 kvs,
            json_field dec_int ''retention_monthly'' 0 kvs, json_field dec_int ''retention_yearly'' 0 kvs) of
        (Some d, Some w, Some m, Some y) \<Rightarrow> Some (d, w, m, y)
      | _ \<Rightarrow> None)"

definition dec_hooks :: "(string \<times> json) list \<Rightarrow> (string \<times> string) option" where
  "dec_hooks kvs =
     (case (json_field dec_string ''hook_pre_backup'' [] kvs, json_field dec_string ''hook_post_backup'' [] kvs) of
        (Some a, Some b) \<Rightarrow> Some (a, b) | _ \<Rightarrow> None)"

definition dec_create_policy :: "(string \<times> json) list \<Rightarrow> create_policy_request option" where
  "dec_create_policy kvs =
     (case (json_field dec_string ''name'' [] kvs, json_field dec_string ''agent_id'' [] kvs,
            json_field dec_string ''schedule'' [] kvs, json_field dec_string ''sources'' [] kvs,
            json_field dec_string ''repo_password'' [] kvs, dec_retentions kvs, dec_hooks kvs,
            json_field (dec_list (dec_struct dec_destination_entry) \<lparr>de_destination_id = [], de_priority = 0\<rparr>)
              ''destinations'' [] kvs) of
        (Some n, Some a, Some sc, Some so, Some pw, Some (d, w, m, y), Some (pre, post), Some ds) \<Rightarrow>
          Some \<lparr>cp_name = n, cp_agent_id = a, cp_schedule = sc, cp_sources = so, cp_repo_password = pw,
                cp_retention_daily = d, cp_retention_weekly = w, cp_retention_monthly = m,
                cp_retention_yearly = y, cp_hook_pre = pre, cp_hook_post = post, cp_destinations = ds\<rparr>
      | _ \<Rightarrow> None)"

definition hook_error :: "string \<Rightarrow> string \<Rightarrow> string option" where
  "hook_error field cmd = map_option (\<lambda>e. field @ '': '' @ e) (validateHookCommand cmd)"

text \<open>The first error of a list of checks.\<close>

fun first_error :: "string option list \<Rightarrow> string option" where
  "first_error [] = None"
| "first_error (None # es) = first_error es"
| "first_error (Some e # es) = Some e"

definition required :: "string \<Rightarrow> string \<Rightarrow> string option" where
  "required field v = (if v = [] then Some (field @ '' is required'') else None)"

definition validateCreatePolicy :: "(string \<Rightarrow> string option) \<Rightarrow> create_policy_request \<Rightarrow> string option" where
  "validateCreatePolicy cron_error req = first_error
     [required ''name'' (cp_name req), required ''agent_id'' (cp_agent_id req),
      required ''schedule'' (cp_schedule req), required ''sources'' (cp_sources req),
      required ''repo_password'' (cp_repo_password req), validateSchedule cron_error (cp_schedule req),
      hook_error ''hook_pre_backup'' (cp_hook_pre req), hook_error ''hook_post_backup'' (cp_hook_post req)]"

definition or_default :: "int \<Rightarrow> int \<Rightarrow> int" where
  "or_default d n = (if n = 0 then d else n)"

definition requested_policy :: "uuid \<Rightarrow> create_policy_request \<Rightarrow> policy" where
  "requested_policy agentID req = \<lparr>ID = nil_uuid, CreatedAt = zero_time, UpdatedAt = zero_time, DeletedAt = None,
     pol_name = cp_name req, pol_agent_id = agentID, pol_schedule = cp_schedule req, pol_enabled = True,
     pol_sources = cp_sources req, pol_retention_daily = or_default 7 (cp_retention_daily req),
     pol_retention_weekly = or_default 4 (cp_retention_weekly req),
     pol_retention_monthly = or_default 6 (cp_retention_monthly req),
     pol_retention_yearly = or_default 1 (cp_retention_yearly req), pol_repo_password = cp_repo_password req,
     pol_hook_pre = cp_hook_pre req, pol_hook_post = cp_hook_post req,
     pol_last_run_at = None, pol_next_run_at = None\<rparr>"

text \<open>The associations of the new policy; an invalid id is skipped and a database error ignored.\<close>

fun add_destinations :: "api_env \<Rightarrow> time \<Rightarrow> uuid \<Rightarrow> destination_entry list \<Rightarrow> store \<Rightarrow> store" where
  "add_destinations env now policyID [] s = s"
| "add_destinations env now policyID (d # ds) s =
     (case ae_parse env (de_destination_id d) of
        None \<Rightarrow> add_destinations env now policyID ds s
      | Some destID \<Rightarrow>
          add_destinations env now policyID ds
            (snd (policies_AddDestination now \<lparr>ID = nil_uuid, CreatedAt = zero_time, UpdatedAt = zero_time,
               pd_policy_id = policyID, pd_destination_id = destID, pd_priority = de_priority d\<rparr> s)))"

definition PolicyHandler_Create ::
  "api_env \<Rightarrow> (string \<Rightarrow> string option) \<Rightarrow> (string \<Rightarrow> bool) \<Rightarrow> time \<Rightarrow> claims option \<Rightarrow> http_request \<Rightarrow>
   store \<times> scheduler \<Rightarrow> reply \<times> (store \<times> scheduler)" where
  "PolicyHandler_Create env cron_error cron_ok now c r ss =
     (case decodeJSON create_policy_fields dec_create_policy r of
        Inl bad \<Rightarrow> (bad, ss)
      | Inr req \<Rightarrow>
     (case validateCreatePolicy cron_error req of
        Some e \<Rightarrow> (BadRequest e, ss)
      | None \<Rightarrow>
          if (cp_hook_pre req \<noteq> [] \<or> cp_hook_post req \<noteq> []) \<and> \<not> isAdmin c then (Forbidden, ss)
          else
     (case ae_parse env (cp_agent_id req) of
        None \<Rightarrow> (BadRequest ''agent_id must be a valid UUID'', ss)
      | Some agentID \<Rightarrow>
     (case policies_Create now (requested_policy agentID req) (fst ss) of
        (Inl e, s1) \<Rightarrow> (InternalError, (s1, snd ss))
      | (Inr p, s1) \<Rightarrow>
     (case policies_GetByIDWithDestinations (ID p) (add_destinations env now (ID p) (cp_destinations req) s1) of
        (Inl e, s2) \<Rightarrow> (InternalError, (s2, snd ss))
      | (Inr (full, pds), s2) \<Rightarrow>
          (let c2 = (if pol_enabled p then snd (AddPolicy cron_ok full (snd ss)) else snd ss) in
           case agent_name (pol_agent_id p) s2 of
             (n, s3) \<Rightarrow>
               (Created (policy_json env full pds n),
                (logAudit env now r c ''policy.create'' ''policy'' (ID p)
                   [(''name'', JStr (pol_name p)), (''schedule'', JStr (pol_schedule p)),
                    (''enabled'', JBool (pol_enabled p))] s3, c2))))))))"

section \<open>Changes\<close>

record update_policy_request =
  up_name :: "string option"
  up_schedule :: "string option"
  up_enabled :: "bool option"
  up_sources :: "string option"
  up_repo_password :: "string option"
  up_retention_daily :: "int option"
  up_retention_weekly :: "int option"
  up_retention_monthly :: "int option"
  up_retention_yearly :: "int option"
  up_hook_pre :: "string option"
  up_hook_post :: "string option"

definition update_policy_fields :: "string list" where
  "update_policy_fields = [''name'', ''schedule'', ''enabled'', ''sources'', ''repo_password'', ''retention_daily'',
     ''retention_weekly'', ''retention_monthly'', ''retention_yearly'', ''hook_pre_backup'', ''hook_post_backup'']"

definition string_ptr :: "string \<Rightarrow> (string \<times> json) list \<Rightarrow> string option option" where
  "string_ptr k kvs = json_field (dec_ptr dec_string []) k None kvs"

definition int_ptr :: "string \<Rightarrow> (string \<times> json) list \<Rightarrow> int option option" where
  "int_ptr k kvs = json_field (dec_ptr dec_int 0) k None kvs"

definition dec_update_policy :: "(string \<times> json) list \<Rightarrow> update_policy_request option" where
  "dec_update_policy kvs =
     (case (string_ptr ''name'' kvs, string_ptr ''schedule'' kvs,
            json_field (dec_ptr dec_bool False) ''enabled'' None kvs, string_ptr ''sources'' kvs,
            string_ptr ''repo_password'' kvs, int_ptr ''retention_daily'' kvs, int_ptr ''retention_weekly'' kvs,
            int_ptr ''retention_monthly'' kvs, int_ptr ''retention_yearly'' kvs,
            string_ptr ''hook_pre_backup'' kvs, string_ptr ''hook_post_backup'' kvs) of
        (Some n, Some sc, Some e, Some so, Some pw, Some d, Some w, Some m, Some y, Some pre, Some post) \<Rightarrow>
          Some \<lparr>up_name = n, up_schedule = sc, up_enabled = e, up_sources = so, up_repo_password = pw,
                up_retention_daily = d, up_retention_weekly = w, up_retention_monthly = m,
                up_retention_yearly = y, up_hook_pre = pre, up_hook_post = post\<rparr>
      | _ \<Rightarrow> None)"

definition set_schedule :: "(string \<Rightarrow> string option) \<Rightarrow> string option \<Rightarrow> policy \<Rightarrow> reply + policy" where
  "set_schedule cron_error x p =
     (case x of
        None \<Rightarrow> Inr p
      | Some v \<Rightarrow>
          if v = [] then Inl (BadRequest ''schedule cannot be empty'')
          else (case validateSchedule cron_error v of
                  Some e \<Rightarrow> Inl (BadRequest e)
                | None \<Rightarrow> Inr (p\<lparr>pol_schedule := v\<rparr>)))"

text \<open>A hook that is present must be valid, and may differ from the present one for administrators only.\<close>

definition set_hook ::
  "claims option \<Rightarrow> string \<Rightarrow> (policy \<Rightarrow> string) \<Rightarrow> (string \<Rightarrow> policy \<Rightarrow> policy) \<Rightarrow> string option \<Rightarrow> policy \<Rightarrow>
   reply + policy" where
  "set_hook c field get put x p =
     (case x of
        None \<Rightarrow> Inr p
      | Some v \<Rightarrow>
          (case hook_error field v of
             Some e \<Rightarrow> Inl (BadRequest e)
           | None \<Rightarrow> if v \<noteq> get p \<and> \<not> isAdmin c then Inl Forbidden else Inr (put v p)))"

definition set_plain :: "update_policy_request \<Rightarrow> policy \<Rightarrow> policy" where
  "set_plain req p =
     set_if (\<lambda>v p. p\<lparr>pol_retention_yearly := v\<rparr>) (up_retention_yearly req)
     (set_if (\<lambda>v p. p\<lparr>pol_retention_monthly := v\<rparr>) (up_retention_monthly req)
     (set_if (\<lambda>v p. p\<lparr>pol_retention_weekly := v\<rparr>) (up_retention_weekly req)
     (set_if (\<lambda>v p. p\<lparr>pol_retention_daily := v\<rparr>) (up_retention_daily req)
     (set_if (\<lambda>v p. p\<lparr>pol_repo_password := v\<rparr>) (up_repo_password req)
     (set_if (\<lambda>v p. p\<lparr>pol_sources := v\<rparr>) (up_sources req)
     (set_if (\<lambda>v p. p\<lparr>pol_enabled := v\<rparr>) (up_enabled req) p))))))"

definition updated_policy ::
  "(string \<Rightarrow> string option) \<Rightarrow> claims option \<Rightarrow> update_policy_request \<Rightarrow> policy \<Rightarrow> reply + policy" where
  "updated_policy cron_error c req p =
     then_set (set_nonempty ''name cannot be empty'' (\<lambda>v p. p\<lparr>pol_name := v\<rparr>) (up_name req) p) (\<lambda>p1.
     then_set (set_schedule cron_error (up_schedule req) p1) (\<lambda>p2.
     then_set (set_hook c ''hook_pre_backup'' pol_hook_pre (\<lambda>v p. p\<lparr>pol_hook_pre := v\<rparr>) (up_hook_pre req)
                 (set_plain req p2)) (\<lambda>p3.
     set_hook c ''hook_post_backup'' pol_hook_post (\<lambda>v p. p\<lparr>pol_hook_post := v\<rparr>) (up_hook_post req) p3)))"

definition PolicyHandler_Update ::
  "api_env \<Rightarrow> (string \<Rightarrow> string option) \<Rightarrow> (string \<Rightarrow> bool) \<Rightarrow> time \<Rightarrow> claims option \<Rightarrow> http_request \<Rightarrow>
   store \<times> scheduler \<Rightarrow> reply \<times> (store \<times> scheduler)" where
  "PolicyHandler_Update env cron_error cron_ok now c r ss =
     (case parseUUID env r ''id'' of
        Inl bad \<Rightarrow> (bad, ss)
      | Inr i \<Rightarrow>
     (case decodeJSON update_policy_fields dec_update_policy r of
        Inl bad \<Rightarrow> (bad, ss)
      | Inr req \<Rightarrow>
     (case policies_GetByIDWithDestinations i (fst ss) of
        (Inl e, s1) \<Rightarrow> (not_found_or_internal e, (s1, snd ss))
      | (Inr (p, pds), s1) \<Rightarrow>
     (case updated_policy cron_error c req p of
        Inl bad \<Rightarrow> (bad, (s1, snd ss))
      | Inr p1 \<Rightarrow>
     (case policies_Update now p1 s1 of
        (Inl e, s2) \<Rightarrow> (InternalError, (s2, snd ss))
      | (Inr _, s2) \<Rightarrow>
          (Ok (policy_json env p1 pds []),
           (logAudit env now r c ''policy.update'' ''policy'' i
              [(''name'', JStr (pol_name p1)), (''enabled'', JBool (pol_enabled p1))] s2,
            snd (UpdatePolicy cron_ok (p1\<lparr>UpdatedAt := now\<rparr>) (snd ss)))))))))"

definition PolicyHandler_Delete ::
  "api_env \<Rightarrow> time \<Rightarrow> claims option \<Rightarrow> http_request \<Rightarrow> store \<times> scheduler \<Rightarrow> reply \<times> (store \<times> scheduler)" where
  "PolicyHandler_Delete env now c r ss =
     (case parseUUID env r ''id'' of
        Inl bad \<Rightarrow> (bad, ss)
      | Inr i \<Rightarrow>
          (case policies_Delete now i (fst ss) of
             (Inl e, s1) \<Rightarrow> (not_found_or_internal e, (s1, snd ss))
           | (Inr _, s1) \<Rightarrow>
               (NoContent, (logAudit env now r c ''policy.delete'' ''policy'' i [] s1, RemovePolicy i (snd ss)))))"

section \<open>Manual runs\<close>

definition PolicyHandler_Trigger ::
  "api_env \<Rightarrow> (nat \<Rightarrow> assignment \<Rightarrow> bool) \<Rightarrow> time \<Rightarrow> claims option \<Rightarrow> http_request \<Rightarrow> store \<times> manager \<Rightarrow>
   reply \<times> (store \<times> manager)" where
  "PolicyHandler_Trigger env send_ok now c r sm =
     (case parseUUID env r ''id'' of
        Inl bad \<Rightarrow> (bad, sm)
      | Inr i \<Rightarrow>
          (case TriggerNow send_ok now i sm of
             (Inl e, sm1) \<Rightarrow>
               (if e = ErrStore ErrNotFound then ResourceNotFound
                else if e = ErrPolicyDisabled then Conflict ''policy is disabled'' else InternalError, sm1)
           | (Inr j, sm1) \<Rightarrow>
               (Ok (JObj [(''job_id'', JStr (ID j))]),
                (logAudit env now r c ''policy.trigger'' ''policy'' i [(''job_id'', JStr (ID j))] (fst sm1),
                 snd sm1))))"

end
