(* ===== verification/ApiPoliciesProofs.thy ===== *)
theory ApiPoliciesProofs
  imports ApiPolicies Frames
begin

text \<open>Who can make an agent run a command: the hooks of the policies, as the handlers of policies change them.\<close>

section \<open>What a save leaves\<close>

context table
begin

text \<open>A save adds nothing to a table but the row itself or the row completed by the defaults.\<close>

lemma write_subset: "set (rows (snd (sql (write_row rows upd chk P r) s))) \<subseteq> insert r (set (rows s))"
  by (rule sql_rule) (auto simp: write_row_def rows_simps set_update_where split: option.split)

lemma upsert_subset: "set (rows (snd (sql (upsert_row rows upd chk r) s))) \<subseteq> insert r (set (rows s))"
  by (rule sql_rule) (auto simp: upsert_row_def write_row_def rows_simps set_update_where split: option.split)

lemma save_subset:
  "set (rows (snd (db_save rows upd visible defaults chk now r s))) \<subseteq>
     {r\<lparr>UpdatedAt := now\<rparr>, defaults (r\<lparr>UpdatedAt := now\<rparr>)} \<union> set (rows s)"
proof -
  let ?r = "r\<lparr>UpdatedAt := now\<rparr>"
  obtain x s1 where w: "sql (write_row rows upd chk (\<lambda>q. ID q = ID r \<and> visible q) ?r) s = (x, s1)" by fastforce
  have "set (rows s1) \<subseteq> insert ?r (set (rows s))"
    using write_subset[of chk "\<lambda>q. ID q = ID r \<and> visible q" ?r s] w by simp
  with upsert_subset[of chk "defaults ?r" s1] w show ?thesis
    by (cases x) (auto simp: db_save_def Let_def)
qed

end

section \<open>Frames\<close>

lemma policies_others:
  "policies (snd (agent_name u s)) = policies s"
  "policies (snd (policies_AddDestination now d s)) = policies s"
  "policies (snd (policies_GetByIDWithDestinations u s)) = policies s"
proof -
  show "policies (snd (agent_name u s)) = policies s"
    using agents_GetByID_frame[of policies u s]
    by (auto simp: agent_name_def split: prod.splits sum.splits)
  show "policies (snd (policies_AddDestination now d s)) = policies s"
    by (simp add: policies_AddDestination_def db_frames)
  show "policies (snd (policies_GetByIDWithDestinations u s)) = policies s"
    by (rule policies_GetByIDWithDestinations_frame) simp
qed

lemma add_destinations_policies: "policies (add_destinations env now u ds s) = policies s"
  by (induction ds arbitrary: s) (simp_all add: policies_others split: option.split)

section \<open>Hooks\<close>

text \<open>A hook of a row is that of the row of the same policy before, or empty in a policy that is new, or valid and set by
an administrator.\<close>

definition hook_from :: "claims option \<Rightarrow> policy list \<Rightarrow> (policy \<Rightarrow> string) \<Rightarrow> policy \<Rightarrow> bool" where
  "hook_from c old get p =
     ((\<exists>q\<in>set old. ID q = ID p \<and> get q = get p) \<or>
      ID p \<notin> ID ` set old \<and> get p = [] \<or>
      isAdmin c \<and> validateHookCommand (get p) = None)"

definition hooks_guarded :: "claims option \<Rightarrow> policy list \<Rightarrow> policy list \<Rightarrow> bool" where
  "hooks_guarded c old new = (\<forall>p\<in>set new. hook_from c old pol_hook_pre p \<and> hook_from c old pol_hook_post p)"

lemma hooks_guarded_same: "hooks_guarded c ps ps"
  by (auto simp: hooks_guarded_def hook_from_def)

lemma hooks_guarded_subset:
  assumes "set new \<subseteq> insert r (insert r' (set old))"
    "hook_from c old pol_hook_pre r" "hook_from c old pol_hook_post r"
    "hook_from c old pol_hook_pre r'" "hook_from c old pol_hook_post r'"
  shows "hooks_guarded c old new"
  using assms hooks_guarded_same[of c old] by (auto simp: hooks_guarded_def)

lemma hook_from_cong:
  "ID p' = ID p \<Longrightarrow> get p' = get p \<Longrightarrow> hook_from c old get p' = hook_from c old get p"
  by (simp add: hook_from_def)

lemma set_hook_from:
  assumes "set_hook c field get put x p = Inr p1" "\<And>v q. get (put v q) = v" "\<And>v q. ID (put v q) = ID q"
    "hook_from c old get p"
  shows "hook_from c old get p1"
  using assms
  by (auto simp: set_hook_def hook_error_def hook_from_def split: option.splits if_splits)

lemma set_hook_other:
  assumes "set_hook c field get put x p = Inr p1" "\<And>v q. f (put v q) = f q"
  shows "f p1 = f p"
  using assms by (auto simp: set_hook_def split: option.splits if_splits)

lemma set_plain_keeps:
  "ID (set_plain req p) = ID p" "pol_hook_pre (set_plain req p) = pol_hook_pre p"
  "pol_hook_post (set_plain req p) = pol_hook_post p"
  by (simp_all add: set_plain_def set_if_def split: option.split)

lemma updated_policy_hooks:
  assumes "updated_policy cron_error c req p = Inr p1" "p \<in> set old"
  shows "ID p1 = ID p \<and> hook_from c old pol_hook_pre p1 \<and> hook_from c old pol_hook_post p1"
proof -
  obtain a b d where
    a: "set_nonempty ''name cannot be empty'' (\<lambda>v p. p\<lparr>pol_name := v\<rparr>) (up_name req) p = Inr a" and
    b: "set_schedule cron_error (up_schedule req) a = Inr b" and
    d: "set_hook c ''hook_pre_backup'' pol_hook_pre (\<lambda>v p. p\<lparr>pol_hook_pre := v\<rparr>) (up_hook_pre req)
          (set_plain req b) = Inr d" and
    e: "set_hook c ''hook_post_backup'' pol_hook_post (\<lambda>v p. p\<lparr>pol_hook_post := v\<rparr>) (up_hook_post req) d = Inr p1"
    using assms(1) by (auto simp: updated_policy_def then_set_def split: sum.splits)
  have ab: "ID b = ID p" "pol_hook_pre b = pol_hook_pre p" "pol_hook_post b = pol_hook_post p"
    using a b by (auto simp: set_nonempty_def set_schedule_def split: option.splits if_splits)
  have old: "hook_from c old get p" for get using assms(2) by (auto simp: hook_from_def)
  let ?b = "set_plain req b"
  have hb: "hook_from c old pol_hook_pre ?b" "hook_from c old pol_hook_post ?b"
    using old hook_from_cong[of ?b p pol_hook_pre c old] hook_from_cong[of ?b p pol_hook_post c old] ab
    by (simp_all add: set_plain_keeps)
  have hd: "ID d = ID p" "hook_from c old pol_hook_pre d" "hook_from c old pol_hook_post d"
  proof -
    show "ID d = ID p" using set_hook_other[OF d, of ID] ab by (simp add: set_plain_keeps)
    then show "hook_from c old pol_hook_post d"
      using hook_from_cong[of d ?b pol_hook_post] set_hook_other[OF d, of pol_hook_post] hb(2) ab
      by (simp add: set_plain_keeps)
    show "hook_from c old pol_hook_pre d" using set_hook_from[OF d _ _ hb(1)] by simp
  qed
  have "ID p1 = ID d" using set_hook_other[OF e, of ID] by simp
  moreover have "hook_from c old pol_hook_post p1" using set_hook_from[OF e _ _ hd(3)] by simp
  moreover have "hook_from c old pol_hook_pre p1"
    using hook_from_cong[of p1 d pol_hook_pre] set_hook_other[OF e, of pol_hook_pre] hd(2) calculation(1) by simp
  ultimately show ?thesis using hd(1) by simp
qed

lemma policies_Update_hooks:
  assumes "hook_from c old pol_hook_pre p" "hook_from c old pol_hook_post p" "policies s = old"
  shows "hooks_guarded c old (policies (snd (policies_Update now p s)))"
proof -
  let ?r = "p\<lparr>UpdatedAt := now\<rparr>"
  have "set (policies (snd (policies_Update now p s))) \<subseteq> insert ?r (insert (policy_defaults ?r) (set old))"
    using policies_tbl.save_subset[of live policy_defaults policy_check now p s] assms(3)
    by (simp add: policies_Update_def)
  then show ?thesis
    by (rule hooks_guarded_subset) (use assms(1,2) in \<open>simp_all add: policy_defaults_def hook_from_def\<close>)
qed

lemma Update_hooks:
  "hooks_guarded c (policies (fst ss)) (policies (fst (snd (PolicyHandler_Update env cron_error cron_ok now c r ss))))"
proof (cases "parseUUID env r ''id''")
  case (Inl bad)
  then show ?thesis by (simp add: PolicyHandler_Update_def hooks_guarded_same)
next
  case (Inr i)
  note i = Inr
  show ?thesis
  proof (cases "decodeJSON update_policy_fields dec_update_policy r")
    case (Inl bad)
    with i show ?thesis by (simp add: PolicyHandler_Update_def hooks_guarded_same)
  next
    case (Inr req)
    note d = Inr
    obtain x s1 where g: "policies_GetByIDWithDestinations i (fst ss) = (x, s1)" by fastforce
    then have s1: "policies s1 = policies (fst ss)" using policies_others(3)[of i "fst ss"] by simp
    show ?thesis
    proof (cases x)
      case (Inl e)
      with i d g s1 show ?thesis by (simp add: PolicyHandler_Update_def hooks_guarded_same)
    next
      case (Inr pp)
      obtain p pds where pp: "pp = (p, pds)" by (cases pp)
      have p: "p \<in> set (policies (fst ss))"
        using g Inr pp policies_tbl.first_Inr(1)
        by (auto simp: policies_GetByIDWithDestinations_def split: prod.splits sum.splits)
      show ?thesis
      proof (cases "updated_policy cron_error c req p")
        case (Inl bad)
        with i d g s1 Inr pp \<open>x = Inr pp\<close> show ?thesis by (simp add: PolicyHandler_Update_def hooks_guarded_same)
      next
        case (Inr p1)
        have "hooks_guarded c (policies (fst ss)) (policies (snd (policies_Update now p1 s1)))"
          using updated_policy_hooks[OF Inr p] s1 by (intro policies_Update_hooks) simp_all
        moreover obtain y s2 where "policies_Update now p1 s1 = (y, s2)" by fastforce
        ultimately show ?thesis
          using i d g \<open>x = Inr pp\<close> pp Inr by (cases y) (simp_all add: PolicyHandler_Update_def)
      qed
    qed
  qed
qed

lemma policies_Create_hooks:
  assumes "(pol_hook_pre p = [] \<or> isAdmin c \<and> validateHookCommand (pol_hook_pre p) = None)"
    "(pol_hook_post p = [] \<or> isAdmin c \<and> validateHookCommand (pol_hook_post p) = None)"
  shows "hooks_guarded c (policies s) (policies (snd (policies_Create now p s)))"
proof -
  obtain x s1 where r: "db_create policies policies_update policy_check now (policy_defaults p) s = (x, s1)"
    by fastforce
  note c = policies_tbl.create_cases[where chk = policy_check and now = now and r = "policy_defaults p" and s = s,
    unfolded r]
  show ?thesis
  proof (cases x)
    case (Inl e)
    with c r show ?thesis by (simp add: policies_Create_def wrapped_def hooks_guarded_same)
  next
    case (Inr q)
    with c obtain u where q: "policies s1 = policies s @ [q]" "q = stamp_new now ((policy_defaults p)\<lparr>ID := u\<rparr>)"
      by auto
    moreover have "ID q \<notin> ID ` set (policies s)" using c Inr by (auto simp: image_iff)
    ultimately have "hook_from c (policies s) pol_hook_pre q" "hook_from c (policies s) pol_hook_post q"
      using assms q(2) by (simp_all add: hook_from_def policy_defaults_def stamp_new_def)
    then have "hooks_guarded c (policies s) (policies s1)"
      using q(1) by (intro hooks_guarded_subset[where r = q and r' = q]) auto
    with r show ?thesis by (simp add: policies_Create_def)
  qed
qed

lemma first_error_None: "first_error es = None \<longleftrightarrow> (\<forall>e\<in>set es. e = None)"
  by (induction es rule: first_error.induct) auto

lemma Create_hooks:
  "hooks_guarded c (policies (fst ss)) (policies (fst (snd (PolicyHandler_Create env cron_error cron_ok now c r ss))))"
proof (cases "decodeJSON create_policy_fields dec_create_policy r")
  case (Inl bad)
  then show ?thesis by (simp add: PolicyHandler_Create_def hooks_guarded_same)
next
  case (Inr req)
  note d = Inr
  show ?thesis
  proof (cases "validateCreatePolicy cron_error req = None \<and>
      \<not> ((cp_hook_pre req \<noteq> [] \<or> cp_hook_post req \<noteq> []) \<and> \<not> isAdmin c) \<and> ae_parse env (cp_agent_id req) \<noteq> None")
    case False
    with d show ?thesis
      by (auto simp: PolicyHandler_Create_def hooks_guarded_same split: option.split)
  next
    case True
    then obtain a where a: "ae_parse env (cp_agent_id req) = Some a" by blast
    have v: "validateHookCommand (cp_hook_pre req) = None" "validateHookCommand (cp_hook_post req) = None"
      using True by (auto simp: validateCreatePolicy_def first_error_None hook_error_def)
    obtain x s1 where cr: "policies_Create now (requested_policy a req) (fst ss) = (x, s1)" by fastforce
    have g: "hooks_guarded c (policies (fst ss)) (policies s1)"
      using policies_Create_hooks[of "requested_policy a req" c "fst ss" now] v True cr
      by (auto simp: requested_policy_def)
    show ?thesis
    proof (cases x)
      case (Inl e)
      with d True a cr g show ?thesis by (auto simp: PolicyHandler_Create_def)
    next
      case (Inr p)
      note x = Inr
      obtain y s2 where l: "policies_GetByIDWithDestinations (ID p)
          (add_destinations env now (ID p) (cp_destinations req) s1) = (y, s2)" by fastforce
      have s2: "policies s2 = policies s1"
        using policies_others(3)[of "ID p" "add_destinations env now (ID p) (cp_destinations req) s1"] l
        by (simp add: add_destinations_policies)
      show ?thesis
      proof (cases y)
        case (Inl e)
        with d True a cr g x l s2 show ?thesis by (auto simp: PolicyHandler_Create_def)
      next
        case (Inr fp)
        obtain full pds where fp: "fp = (full, pds)" by (cases fp)
        obtain n s3 where n: "agent_name (pol_agent_id p) s2 = (n, s3)" by fastforce
        then have "policies s3 = policies s2" using policies_others(1)[of "pol_agent_id p" s2] by simp
        with d True a cr g x l s2 Inr fp n show ?thesis by (auto simp: PolicyHandler_Create_def Let_def)
      qed
    qed
  qed
qed

text \<open>Only an administrator gives a policy a command to run on an agent, changes such a command or takes it away.
Whatever a request to create or change a policy says, every hook in the table afterwards is that of the same policy
before, or empty in a policy the request created, or a command that passes the hook check and is set by an
administrator.\<close>

theorem hooks_admin_only:
  "hooks_guarded c (policies (fst ss)) (policies (fst (snd (PolicyHandler_Create env cron_error cron_ok now c r ss)))) \<and>
   hooks_guarded c (policies (fst ss)) (policies (fst (snd (PolicyHandler_Update env cron_error cron_ok now c r ss))))"
  by (intro conjI Create_hooks Update_hooks)

end
