(* ===== verification/HookCheck.thy ===== *)
theory HookCheck
  imports ApiPoliciesProofs Executor
begin

text \<open>What the check of hook commands means for the command the agent runs: the server checks the stored text, which
is the JSON of the hook, and the agent decodes that text (\<open>hook_validation.go\<close>, \<open>executor.go\<close>).\<close>

definition escaped_hook :: string where
  "escaped_hook = ''{'' @ [CHR 0x22] @ ''command'' @ [CHR 0x22] @ '':'' @ [CHR 0x22, CHR 0x5C] @ ''u0024(id)''
     @ [CHR 0x22] @ ''}''"

lemma upper_char_dollar: "upper_char c = CHR ''$'' \<Longrightarrow> c = CHR ''$''"
proof -
  assume u: "upper_char c = CHR ''$''"
  show ?thesis
  proof (cases "97 \<le> (of_char c :: nat) \<and> (of_char c :: nat) \<le> 122")
    case True
    with u have "(of_char (char_of ((of_char c :: nat) - 32) :: char) :: nat) = 36"
      by (simp add: upper_char_def)
    moreover have "((of_char c :: nat) - 32) mod 256 = of_char c - 32"
      by (rule mod_less) (use True in linarith)
    ultimately have "(of_char c :: nat) - 32 = 36" by simp
    with True have False by linarith
    then show ?thesis ..
  next
    case False
    with u show ?thesis by (simp add: upper_char_def Let_def split: if_splits)
  qed
qed

lemma upper_char_dollar_iff [simp]: "upper_char c = CHR ''$'' \<longleftrightarrow> c = CHR ''$''" "CHR ''$'' = upper_char c \<longleftrightarrow> c = CHR ''$''"
proof -
  have "upper_char (CHR ''$'') = CHR ''$''" by (simp add: upper_char_def)
  then show "upper_char c = CHR ''$'' \<longleftrightarrow> c = CHR ''$''" "CHR ''$'' = upper_char c \<longleftrightarrow> c = CHR ''$''"
    using upper_char_dollar by metis+
qed

lemma upper_text_dollar: "CHR ''$'' \<in> set (upper_text s) \<Longrightarrow> CHR ''$'' \<in> set s"
  by (induction s rule: upper_text.induct) (auto split: if_splits)

lemma str_contains_set: "str_contains p s \<Longrightarrow> set p \<subseteq> set s"
  by (auto simp: str_contains_iff)

lemma no_dollar_no_secret:
  assumes "CHR ''$'' \<notin> set s"
  shows "\<not> list_ex (\<lambda>p. str_contains p (upper_text s)) secret_prefixes"
proof
  assume "list_ex (\<lambda>p. str_contains p (upper_text s)) secret_prefixes"
  then obtain p where "p \<in> set secret_prefixes" "str_contains p (upper_text s)" by (auto simp: list_ex_iff)
  moreover from this have "CHR ''$'' \<in> set p" by (auto simp: secret_prefixes_def)
  ultimately show False using str_contains_set upper_text_dollar assms by blast
qed

text \<open>How the agent reads it.\<close>

lemma escape_dollar: "json_unicode (''0024'' @ r) = Some (''$'', r)"
proof -
  have "char_of (36 :: nat) = CHR ''$''" by code_simp
  then show ?thesis by (simp add: json_unicode_def hexval_def utf8_def)
qed

lemma escaped_hook_parse: "json_parse escaped_hook = Some (JObj [(''command'', JStr ''$(id)'')])"
proof -
  have str: "json_str ([CHR 0x5C] @ ''u0024(id)'' @ [CHR 0x22] @ r) = Some (''$(id)'', r)" for r
    using escape_dollar[of "''(id)'' @ [CHR 0x22] @ r"] by (simp add: json_escape_def)
  have key: "json_str (''command'' @ [CHR 0x22] @ r) = Some (''command'', r)" for r by simp
  have v: "json_value (Suc (Suc (Suc n))) escaped_hook = Some (JObj [(''command'', JStr ''$(id)'')], [])" for n
    using str[of "''}''"] key[of "'':'' @ [CHR 0x22, CHR 0x5C] @ ''u0024(id)'' @ [CHR 0x22] @ ''}''"]
    by (simp add: escaped_hook_def is_ws_def del: json_str.simps)
  have "2 * length escaped_hook + 2 = Suc (Suc (Suc 47))" by (simp add: escaped_hook_def)
  then show ?thesis unfolding json_parse_def using v[of 47] by simp
qed

text \<open>A command with a substitution passes the check when its dollar sign is written as a JSON escape.\<close>

theorem hook_check_bypassed:
  "validateHookCommand escaped_hook = None \<and>
   (\<exists>h. resolveHook env escaped_hook = Inr h \<and> hk_command h = ''$(id)'') \<and>
   validateHookCommand ''$(id)'' \<noteq> None"
proof -
  have "\<not> hookMaxLen < length escaped_hook" by (simp add: hookMaxLen_def escaped_hook_def)
  moreover have "\<not> str_contains ''$('' escaped_hook" "\<not> str_contains [CHR 0x60] escaped_hook" "\<not> str_contains ''..'' escaped_hook"
    by (simp_all add: escaped_hook_def)
  moreover have "\<not> list_ex (\<lambda>p. str_contains p (upper_text escaped_hook)) secret_prefixes"
    by (rule no_dollar_no_secret) (simp add: escaped_hook_def)
  ultimately have "validateHookCommand escaped_hook = None" unfolding validateHookCommand_def by simp
  moreover have "unmarshal_struct dec_hook escaped_hook =
      Some \<lparr>hk_name = [], hk_command = ''$(id)'', hk_args = [], hk_timeout_secs = 0\<rparr>"
    by (simp add: unmarshal_struct_def escaped_hook_parse dec_hook_def fold_key_def fold_char_def dec_string_def)
  moreover have "validateHookCommand ''$(id)'' \<noteq> None"
    by (simp add: validateHookCommand_def hookMaxLen_def)
  ultimately show ?thesis by (simp add: resolveHook_def)
qed

end
