(* ===== verification/ApiUsers.thy ===== *)
theory ApiUsers
  imports Api
begin

text \<open>The handlers of users (\<open>users.go\<close>), of the first-time setup (\<open>setup.go\<close>) and of the audit log
(\<open>audit.go\<close>).  \<open>salt\<close> is the random salt of \<open>HashPassword\<close>, or none when the random source fails.\<close>

section \<open>Responses\<close>

definition user_json :: "api_env \<Rightarrow> user \<Rightarrow> json" where
  "user_json env u = JObj
     [(''id'', JStr (ID u)), (''email'', JStr (usr_email u)), (''display_name'', JStr (usr_display_name u)),
      (''role'', JStr (usr_role u)), (''is_active'', JBool (usr_is_active u)),
      (''is_oidc'', JBool (usr_oidc_provider u \<noteq> [])),
      (''last_login_at'', time_json env (usr_last_login_at u)),
      (''created_at'', JStr (ae_rfc env (CreatedAt u)))]"

section \<open>Administration\<close>

definition UserHandler_List :: "api_env \<Rightarrow> http_request \<Rightarrow> store \<Rightarrow> reply \<times> store" where
  "UserHandler_List env r s =
     (case users_List (paginationOpts r) s of
        (Inl e, s1) \<Rightarrow> (InternalError, s1)
      | (Inr (us, n), s1) \<Rightarrow> (Ok (list_json (map (user_json env) us) n), s1))"

record create_user_request =
  cu_email :: string
  cu_password :: string
  cu_display_name :: string
  cu_role :: string

definition create_user_fields :: "string list" where
  "create_user_fields = [''email'', ''password'', ''display_name'', ''role'']"

definition dec_create_user :: "(string \<times> json) list \<Rightarrow> create_user_request option" where
  "dec_create_user kvs =
     (case (json_field dec_string ''email'' [] kvs, json_field dec_string ''password'' [] kvs,
            json_field dec_string ''display_name'' [] kvs, json_field dec_string ''role'' [] kvs) of
        (Some e, Some p, Some d, Some ro) \<Rightarrow>
          Some \<lparr>cu_email = e, cu_password = p, cu_display_name = d, cu_role = ro\<rparr>
      | _ \<Rightarrow> None)"

definition role_error :: string where
  "role_error = ''role must be 'admin' or 'user'' @ [CHR 0x27]"

definition new_local_user :: "string \<Rightarrow> string \<Rightarrow> string \<Rightarrow> string \<Rightarrow> bool \<Rightarrow> user" where
  "new_local_user email hashed name role active = \<lparr>ID = nil_uuid, CreatedAt = zero_time, UpdatedAt = zero_time,
     usr_email = email, usr_password = hashed, usr_display_name = name, usr_role = role,
     usr_is_active = active, usr_oidc_provider = [], usr_oidc_sub = [], usr_last_login_at = None\<rparr>"

definition UserHandler_Create ::
  "api_env \<Rightarrow> time \<Rightarrow> string option \<Rightarrow> claims option \<Rightarrow> http_request \<Rightarrow> store \<Rightarrow> reply \<times> store" where
  "UserHandler_Create env now salt c r s =
     (case decodeJSON create_user_fields dec_create_user r of
        Inl bad \<Rightarrow> (bad, s)
      | Inr req \<Rightarrow>
          if cu_email req = [] then (BadRequest ''email is required'', s)
          else if cu_password req = [] then (BadRequest ''password is required'', s)
          else if cu_display_name req = [] then (BadRequest ''display_name is required'', s)
          else if cu_role req \<noteq> ''admin'' \<and> cu_role req \<noteq> ''user'' then (BadRequest role_error, s)
          else (case salt of
                  None \<Rightarrow> (InternalError, s)
                | Some sa \<Rightarrow>
                    (case users_Create now
                            (new_local_user (cu_email req) (HashPassword (ae_crypto env) sa (cu_password req))
                               (cu_display_name req) (cu_role req) True) s of
                       (Inl e, s1) \<Rightarrow>
                         (if e = ErrConflict then Conflict ''a user with this email already exists''
                          else InternalError, s1)
                     | (Inr u, s1) \<Rightarrow>
                         (Created (user_json env u),
                          logAudit env now r c ''user.create'' ''user'' (ID u)
                            [(''email'', JStr (usr_email u)), (''role'', JStr (usr_role u))] s1))))"

definition UserHandler_GetByID :: "api_env \<Rightarrow> http_request \<Rightarrow> store \<Rightarrow> reply \<times> store" where
  "UserHandler_GetByID env r s =
     (case parseUUID env r ''id'' of
        Inl bad \<Rightarrow> (bad, s)
      | Inr i \<Rightarrow>
          (case users_GetByID i s of
             (Inl e, s1) \<Rightarrow> (not_found_or_internal e, s1)
           | (Inr u, s1) \<Rightarrow> (Ok (user_json env u), s1)))"

record update_user_request =
  uu_display_name :: "string option"
  uu_role :: "string option"
  uu_is_active :: "bool option"
  uu_password :: "string option"

definition update_user_fields :: "string list" where
  "update_user_fields = [''display_name'', ''role'', ''is_active'', ''password'']"

definition dec_update_user :: "(string \<times> json) list \<Rightarrow> update_user_request option" where
  "dec_update_user kvs =
     (case (json_field (dec_ptr dec_string []) ''display_name'' None kvs,
            json_field (dec_ptr dec_string []) ''role'' None kvs,
            json_field (dec_ptr dec_bool False) ''is_active'' None kvs,
            json_field (dec_ptr dec_string []) ''password'' None kvs) of
        (Some d, Some ro, Some a, Some p) \<Rightarrow>
          Some \<lparr>uu_display_name = d, uu_role = ro, uu_is_active = a, uu_password = p\<rparr>
      | _ \<Rightarrow> None)"

text \<open>The changes of a field that is present, in the order of the handler.\<close>

definition set_display_name :: "string option \<Rightarrow> user \<Rightarrow> reply + user" where
  "set_display_name d u =
     (case d of
        None \<Rightarrow> Inr u
      | Some n \<Rightarrow> if n = [] then Inl (BadRequest ''display_name cannot be empty'')
                  else Inr (u\<lparr>usr_display_name := n\<rparr>))"

definition set_role :: "string option \<Rightarrow> user \<Rightarrow> reply + user" where
  "set_role ro u =
     (case ro of
        None \<Rightarrow> Inr u
      | Some x \<Rightarrow> if x \<noteq> ''admin'' \<and> x \<noteq> ''user'' then Inl (BadRequest role_error) else Inr (u\<lparr>usr_role := x\<rparr>))"

definition set_active :: "bool option \<Rightarrow> user \<Rightarrow> user" where
  "set_active a u = (case a of None \<Rightarrow> u | Some b \<Rightarrow> u\<lparr>usr_is_active := b\<rparr>)"

definition set_password :: "api_env \<Rightarrow> string option \<Rightarrow> string option \<Rightarrow> user \<Rightarrow> reply + user" where
  "set_password env salt p u =
     (case p of
        None \<Rightarrow> Inr u
      | Some x \<Rightarrow>
          if x = [] then Inl (BadRequest ''password cannot be empty'')
          else (case salt of
                  None \<Rightarrow> Inl InternalError
                | Some sa \<Rightarrow> Inr (u\<lparr>usr_password := HashPassword (ae_crypto env) sa x\<rparr>)))"

definition updated_user ::
  "api_env \<Rightarrow> string option \<Rightarrow> update_user_request \<Rightarrow> user \<Rightarrow> reply + user" where
  "updated_user env salt req u =
     then_set (set_display_name (uu_display_name req) u) (\<lambda>u1.
     then_set (set_role (uu_role req) u1) (\<lambda>u2.
     set_password env salt (uu_password req) (set_active (uu_is_active req) u2)))"

definition UserHandler_Update ::
  "api_env \<Rightarrow> time \<Rightarrow> string option \<Rightarrow> claims option \<Rightarrow> http_request \<Rightarrow> store \<Rightarrow> reply \<times> store" where
  "UserHandler_Update env now salt c r s =
     (case parseUUID env r ''id'' of
        Inl bad \<Rightarrow> (bad, s)
      | Inr i \<Rightarrow>
          (case decodeJSON update_user_fields dec_update_user r of
             Inl bad \<Rightarrow> (bad, s)
           | Inr req \<Rightarrow>
               (case users_GetByID i s of
                  (Inl e, s1) \<Rightarrow> (not_found_or_internal e, s1)
                | (Inr u, s1) \<Rightarrow>
                    (case updated_user env salt req u of
                       Inl bad \<Rightarrow> (bad, s1)
                     | Inr u1 \<Rightarrow>
                         (case users_Update now u1 s1 of
                            (Inl e, s2) \<Rightarrow> (InternalError, s2)
                          | (Inr _, s2) \<Rightarrow>
                              (Ok (user_json env u1),
                               logAudit env now r c ''user.update'' ''user'' i
                                 [(''email'', JStr (usr_email u1)), (''role'', JStr (usr_role u1))] s2))))))"

definition UserHandler_Delete ::
  "api_env \<Rightarrow> time \<Rightarrow> claims option \<Rightarrow> http_request \<Rightarrow> store \<Rightarrow> reply \<times> store" where
  "UserHandler_Delete env now c r s =
     (case parseUUID env r ''id'' of
        Inl bad \<Rightarrow> (bad, s)
      | Inr i \<Rightarrow>
          if c \<noteq> None \<and> cl_user_id (the c) = i then (BadRequest ''cannot delete your own account'', s)
          else (case users_GetByID i s of
             (found, s1) \<Rightarrow>
               (case users_Delete i s1 of
                  (Inl e, s2) \<Rightarrow> (not_found_or_internal e, s2)
                | (Inr _, s2) \<Rightarrow>
                    (NoContent,
                     logAudit env now r c ''user.delete'' ''user'' i
                       [(''email'', JStr (case found of Inl _ \<Rightarrow> [] | Inr u \<Rightarrow> usr_email u))] s2))))"

section \<open>The current user\<close>

definition UserHandler_GetMe :: "api_env \<Rightarrow> claims option \<Rightarrow> store \<Rightarrow> reply \<times> store" where
  "UserHandler_GetMe env c s =
     (case c of
        None \<Rightarrow> (Unauthorized, s)
      | Some cl \<Rightarrow>
          (case ae_parse env (cl_user_id cl) of
             None \<Rightarrow> (InternalError, s)
           | Some i \<Rightarrow>
               (case users_GetByID i s of
                  (Inl e, s1) \<Rightarrow> (not_found_or_internal e, s1)
                | (Inr u, s1) \<Rightarrow> (Ok (user_json env u), s1))))"

record update_me_request =
  um_display_name :: "string option"
  um_password :: "string option"

definition update_me_fields :: "string list" where
  "update_me_fields = [''display_name'', ''password'']"

definition dec_update_me :: "(string \<times> json) list \<Rightarrow> update_me_request option" where
  "dec_update_me kvs =
     (case (json_field (dec_ptr dec_string []) ''display_name'' None kvs,
            json_field (dec_ptr dec_string []) ''password'' None kvs) of
        (Some d, Some p) \<Rightarrow> Some \<lparr>um_display_name = d, um_password = p\<rparr>
      | _ \<Rightarrow> None)"

definition updated_me :: "api_env \<Rightarrow> string option \<Rightarrow> update_me_request \<Rightarrow> user \<Rightarrow> reply + user" where
  "updated_me env salt req u =
     (if um_password req \<noteq> None \<and> usr_oidc_provider u \<noteq> []
      then Inl (BadRequest ''password cannot be changed for OIDC accounts'')
      else then_set (set_display_name (um_display_name req) u) (set_password env salt (um_password req)))"

definition UserHandler_UpdateMe ::
  "api_env \<Rightarrow> time \<Rightarrow> string option \<Rightarrow> claims option \<Rightarrow> http_request \<Rightarrow> store \<Rightarrow> reply \<times> store" where
  "UserHandler_UpdateMe env now salt c r s =
     (case c of
        None \<Rightarrow> (Unauthorized, s)
      | Some cl \<Rightarrow>
          (case decodeJSON update_me_fields dec_update_me r of
             Inl bad \<Rightarrow> (bad, s)
           | Inr req \<Rightarrow>
               (case ae_parse env (cl_user_id cl) of
                  None \<Rightarrow> (InternalError, s)
                | Some i \<Rightarrow>
                    (case users_GetByID i s of
                       (Inl e, s1) \<Rightarrow> (not_found_or_internal e, s1)
                     | (Inr u, s1) \<Rightarrow>
                         (case updated_me env salt req u of
                            Inl bad \<Rightarrow> (bad, s1)
                          | Inr u1 \<Rightarrow>
                              (case users_Update now u1 s1 of
                                 (Inl e, s2) \<Rightarrow> (InternalError, s2)
                               | (Inr _, s2) \<Rightarrow> (Ok (user_json env u1), s2)))))))"

section \<open>Setup\<close>

definition setup_GetStatus :: "store \<Rightarrow> reply \<times> store" where
  "setup_GetStatus s =
     (case users_List \<lparr>lo_limit = 1, lo_offset = 0\<rparr> s of
        (Inl e, s1) \<Rightarrow> (InternalError, s1)
      | (Inr (us, n), s1) \<Rightarrow> (Ok (JObj [(''completed'', JBool (0 < n))]), s1))"

record setup_request =
  su_name :: string
  su_email :: string
  su_password :: string

definition setup_fields :: "string list" where
  "setup_fields = [''name'', ''email'', ''password'']"

definition dec_setup :: "(string \<times> json) list \<Rightarrow> setup_request option" where
  "dec_setup kvs =
     (case (json_field dec_string ''name'' [] kvs, json_field dec_string ''email'' [] kvs,
            json_field dec_string ''password'' [] kvs) of
        (Some n, Some e, Some p) \<Rightarrow> Some \<lparr>su_name = n, su_email = e, su_password = p\<rparr>
      | _ \<Rightarrow> None)"

text \<open>The handler up to its count of the users, and from there on; other requests may come in between.\<close>

definition setup_check :: "http_request \<Rightarrow> store \<Rightarrow> (reply + setup_request) \<times> store" where
  "setup_check r s =
     (case decodeJSON setup_fields dec_setup r of
        Inl bad \<Rightarrow> (Inl bad, s)
      | Inr req \<Rightarrow>
          if su_name req = [] \<or> su_email req = [] \<or> su_password req = []
          then (Inl (BadRequest ''name, email, and password are required''), s)
          else (case users_List \<lparr>lo_limit = 1, lo_offset = 0\<rparr> s of
                  (Inl e, s1) \<Rightarrow> (Inl InternalError, s1)
                | (Inr (us, n), s1) \<Rightarrow>
                    if 0 < n then (Inl (Conflict ''setup already completed''), s1) else (Inr req, s1)))"

definition setup_create :: "api_env \<Rightarrow> time \<Rightarrow> string option \<Rightarrow> setup_request \<Rightarrow> store \<Rightarrow> reply \<times> store" where
  "setup_create env now salt req s =
     (case salt of
        None \<Rightarrow> (InternalError, s)
      | Some sa \<Rightarrow>
          (case users_Create now
                  (new_local_user (su_email req) (HashPassword (ae_crypto env) sa (su_password req))
                     (su_name req) ''admin'' False) s of
             (Inl e, s1) \<Rightarrow> (InternalError, s1)
           | (Inr u, s1) \<Rightarrow> (Created (JObj [(''message'', JStr ''setup completed'')]), s1)))"

definition setup_Complete :: "api_env \<Rightarrow> time \<Rightarrow> string option \<Rightarrow> http_request \<Rightarrow> store \<Rightarrow> reply \<times> store" where
  "setup_Complete env now salt r s =
     (case setup_check r s of
        (Inl bad, s1) \<Rightarrow> (bad, s1)
      | (Inr req, s1) \<Rightarrow> setup_create env now salt req s1)"

section \<open>The audit log\<close>

text \<open>\<open>time.Parse\<close> of a query parameter is a parameter of the handler.  The details of a record are decoded into a map
and written again; the values the handlers log are strings, booleans and numbers, which this leaves as they are.\<close>

definition audit_json :: "api_env \<Rightarrow> audit_log \<Rightarrow> json" where
  "audit_json env e = JObj
     [(''id'', JStr (aud_id e)), (''user_id'', JStr (aud_user_id e)), (''user_email'', JStr (aud_user_email e)),
      (''action'', JStr (aud_action e)), (''resource_type'', JStr (aud_resource_type e)),
      (''resource_id'', JStr (aud_resource_id e)),
      (''details'', (case json_parse (aud_details e) of
                       Some (JObj kvs) \<Rightarrow> JObj (sort_key fst (fold (\<lambda>(k, v). map_put k v) kvs []))
                     | _ \<Rightarrow> JObj [])),
      (''ip_address'', JStr (aud_ip_address e)), (''created_at'', JStr (ae_rfc env (aud_created_at e)))]"

definition query_time :: "(string \<Rightarrow> time option) \<Rightarrow> http_request \<Rightarrow> string \<Rightarrow> reply + time option" where
  "query_time parse_time r k =
     (if hr_query r k = [] then Inr None
      else (case parse_time (hr_query r k) of
              None \<Rightarrow> Inl (BadRequest (''invalid '' @ k @ '' timestamp, expected RFC3339''))
            | Some t \<Rightarrow> Inr (Some t)))"

definition query_user :: "api_env \<Rightarrow> http_request \<Rightarrow> reply + uuid option" where
  "query_user env r =
     (if hr_query r ''user_id'' = [] then Inr None
      else (case ae_parse env (hr_query r ''user_id'') of
              None \<Rightarrow> Inl (BadRequest ''invalid user_id'')
            | Some u \<Rightarrow> Inr (Some u)))"

definition AuditHandler_List ::
  "api_env \<Rightarrow> (string \<Rightarrow> time option) \<Rightarrow> http_request \<Rightarrow> store \<Rightarrow> reply \<times> store" where
  "AuditHandler_List env parse_time r s =
     (case then_set (query_user env r) (\<lambda>u.
           then_set (query_time parse_time r ''from'') (\<lambda>from.
           then_set (query_time parse_time r ''to'') (\<lambda>upto.
             Inr \<lparr>af_user_id = u, af_action = hr_query r ''action'',
                  af_resource_type = hr_query r ''resource_type'', af_from = from, af_to = upto\<rparr>))) of
        Inl bad \<Rightarrow> (bad, s)
      | Inr f \<Rightarrow>
          (case audit_List f (paginationOpts r) s of
             (Inl e, s1) \<Rightarrow> (InternalError, s1)
           | (Inr (es, n), s1) \<Rightarrow> (Ok (list_json (map (audit_json env) es) n), s1)))"

end
