(* ===== verification/ApiAuth.thy ===== *)
theory ApiAuth
  imports Api
begin

text \<open>The handlers of login, logout, refresh and the OIDC flow (\<open>api/auth.go\<close>).  They work on the database and the
denylist of access tokens.  Of a redirect the model keeps the status, the location and the cookies.\<close>

section \<open>Cookies\<close>

definition unix_epoch :: time where "unix_epoch = 62135596800 * second"

definition oidcCookieTTL :: time where "oidcCookieTTL = 10 * minute"

definition refresh_cookie :: "api_env \<Rightarrow> string \<Rightarrow> time \<Rightarrow> int \<Rightarrow> cookie" where
  "refresh_cookie env value expires max_age = \<lparr>ck_name = ''arkeep_refresh_token'', ck_value = value,
     ck_expires = expires, ck_max_age = max_age, ck_http_only = True, ck_secure = ae_secure env,
     ck_same_site = SameSiteStrict, ck_path = ''/api/v1/auth''\<rparr>"

definition oidc_cookie :: "api_env \<Rightarrow> string \<Rightarrow> string \<Rightarrow> time \<Rightarrow> int \<Rightarrow> cookie" where
  "oidc_cookie env name value expires max_age = \<lparr>ck_name = name, ck_value = value,
     ck_expires = expires, ck_max_age = max_age, ck_http_only = True, ck_secure = ae_secure env,
     ck_same_site = SameSiteLax, ck_path = ''/''\<rparr>"

definition with_cookies :: "cookie list \<Rightarrow> reply \<Rightarrow> reply" where
  "with_cookies cs rep = rep\<lparr>rp_cookies := cs @ rp_cookies rep\<rparr>"

definition setRefreshCookie :: "api_env \<Rightarrow> token_pair \<Rightarrow> reply \<Rightarrow> reply" where
  "setRefreshCookie env pair = with_cookies [refresh_cookie env (tp_refresh pair) (tp_refresh_expires pair) 0]"

definition clearRefreshCookie :: "api_env \<Rightarrow> reply \<Rightarrow> reply" where
  "clearRefreshCookie env = with_cookies [refresh_cookie env [] unix_epoch (- 1)]"

definition clearOIDCCookies :: "api_env \<Rightarrow> reply \<Rightarrow> reply" where
  "clearOIDCCookies env = with_cookies (map (\<lambda>n. oidc_cookie env n [] unix_epoch (- 1))
     [''arkeep_oidc_state'', ''arkeep_oidc_verifier'', ''arkeep_oidc_provider''])"

lemma with_cookies_simps [simp]:
  "rp_status (with_cookies cs rep) = rp_status rep" "rp_body (with_cookies cs rep) = rp_body rep"
  "rp_status (setRefreshCookie env pair rep) = rp_status rep"
  "rp_status (clearRefreshCookie env rep) = rp_status rep"
  "rp_status (clearOIDCCookies env rep) = rp_status rep"
  by (simp_all add: with_cookies_def setRefreshCookie_def clearRefreshCookie_def clearOIDCCookies_def)

definition redirect :: "string \<Rightarrow> reply" where
  "redirect url = \<lparr>rp_status = 302, rp_body = None, rp_location = url, rp_cookies = []\<rparr>"

text \<open>\<open>int(time.Until(t).Seconds())\<close>.\<close>

definition seconds_until :: "time \<Rightarrow> time \<Rightarrow> int" where
  "seconds_until now t = (if now \<le> t then (t - now) div second else - ((now - t) div second))"

definition login_json :: "time \<Rightarrow> token_pair \<Rightarrow> json" where
  "login_json now pair = JObj [(''access_token'', JStr (tp_access pair)),
     (''expires_in'', jint (seconds_until now (tp_access_expires pair)))]"

section \<open>Local login\<close>

record login_request =
  lq_email :: string
  lq_password :: string

definition login_fields :: "string list" where
  "login_fields = [''email'', ''password'']"

definition dec_login :: "(string \<times> json) list \<Rightarrow> login_request option" where
  "dec_login kvs =
     (case (json_field dec_string ''email'' [] kvs, json_field dec_string ''password'' [] kvs) of
        (Some e, Some p) \<Rightarrow> Some \<lparr>lq_email = e, lq_password = p\<rparr>
      | _ \<Rightarrow> None)"

definition login_audit ::
  "api_env \<Rightarrow> time \<Rightarrow> http_request \<Rightarrow> string \<Rightarrow> string \<Rightarrow> denylist \<Rightarrow> store \<Rightarrow> store" where
  "login_audit env now r email token d s =
     (case ValidateAccessToken (ae_crypto env) now token d of
        Inl e \<Rightarrow> s
      | Inr c \<Rightarrow>
          (case ae_parse env (cl_user_id c) of
             None \<Rightarrow> s
           | Some u \<Rightarrow> logAuditDirect now r u (cl_email c) ''auth.login'' ''user'' (cl_user_id c)
                         [(''email'', JStr email)] s))"

definition AuthHandler_Login ::
  "api_env \<Rightarrow> time \<Rightarrow> issue_input \<Rightarrow> http_request \<Rightarrow> store \<times> denylist \<Rightarrow> reply \<times> (store \<times> denylist)" where
  "AuthHandler_Login env now inp r sd =
     (case decodeJSON login_fields dec_login r of
        Inl bad \<Rightarrow> (bad, sd)
      | Inr req \<Rightarrow>
          if lq_email req = [] \<or> lq_password req = []
          then (BadRequest ''email and password are required'', sd)
          else (case Login (ae_crypto env) inp now now (lq_email req) (lq_password req) (fst sd) of
                  (Inl e, s1) \<Rightarrow>
                    (if e = ErrInvalidCredentials \<or> e = ErrUserDisabled then Unauthorized else InternalError,
                     (s1, snd sd))
                | (Inr pair, s1) \<Rightarrow>
                    (setRefreshCookie env pair (Ok (login_json now pair)),
                     (login_audit env now r (lq_email req) (tp_access pair) (snd sd) s1, snd sd))))"

definition revoke_current :: "claims option \<Rightarrow> denylist \<Rightarrow> denylist" where
  "revoke_current c d =
     (case c of None \<Rightarrow> d
      | Some cl \<Rightarrow> if cl_id cl \<noteq> [] then RevokeAccessToken (cl_id cl) (cl_expires_at cl) d else d)"

definition AuthHandler_Logout ::
  "api_env \<Rightarrow> time \<Rightarrow> claims option \<Rightarrow> http_request \<Rightarrow> store \<times> denylist \<Rightarrow> reply \<times> (store \<times> denylist)" where
  "AuthHandler_Logout env now c r sd =
     (let d1 = revoke_current c (snd sd) in
      case hr_cookie r ''arkeep_refresh_token'' of
        None \<Rightarrow> (NoContent, (fst sd, d1))
      | Some token \<Rightarrow>
          (let s1 = snd (Logout (ae_crypto env) token (fst sd)) in
           (clearRefreshCookie env NoContent, (logAudit env now r c ''auth.logout'' ''user'' [] [] s1, d1))))"

definition AuthHandler_Refresh ::
  "api_env \<Rightarrow> time \<Rightarrow> issue_input \<Rightarrow> http_request \<Rightarrow> store \<Rightarrow> reply \<times> store" where
  "AuthHandler_Refresh env now inp r s =
     (case hr_cookie r ''arkeep_refresh_token'' of
        None \<Rightarrow> (Unauthorized, s)
      | Some token \<Rightarrow>
          (case RefreshToken (ae_crypto env) inp now token s of
             (Inl e, s1) \<Rightarrow> (clearRefreshCookie env Unauthorized, s1)
           | (Inr pair, s1) \<Rightarrow> (setRefreshCookie env pair (Ok (login_json now pair)), s1)))"

section \<open>OIDC\<close>

definition AuthHandler_ListOIDCProviders :: "store \<Rightarrow> reply \<times> store" where
  "AuthHandler_ListOIDCProviders s =
     (case oidc_ListEnabled s of
        (Inl e, s1) \<Rightarrow> (InternalError, s1)
      | (Inr ps, s1) \<Rightarrow>
          (Ok (JArr (map (\<lambda>p. JObj [(''id'', JStr (ID p)), (''name'', JStr (op_name p))]) ps)), s1))"

definition AuthHandler_OIDCLogin ::
  "api_env \<Rightarrow> identity_provider \<Rightarrow> time \<Rightarrow> string option \<Rightarrow> string option \<Rightarrow> http_request \<Rightarrow> store \<Rightarrow>
   reply \<times> store" where
  "AuthHandler_OIDCLogin env idp now rnd_state rnd_verifier r s =
     (case ae_parse env (hr_query r ''provider_id'') of
        None \<Rightarrow> (BadRequest ''missing or invalid provider_id'', s)
      | Some providerID \<Rightarrow>
          (case AuthorizationURL idp rnd_state rnd_verifier providerID (requestCallbackURL r) s of
             (Inl e, s1) \<Rightarrow>
               (if e = ErrProviderNotFound then BadRequest ''OIDC provider not found'' else InternalError, s1)
           | (Inr (url, state, verifier), s1) \<Rightarrow>
               (with_cookies
                  (map (\<lambda>(n, v). oidc_cookie env n v (now + oidcCookieTTL) 0)
                     [(''arkeep_oidc_state'', state), (''arkeep_oidc_verifier'', verifier),
                      (''arkeep_oidc_provider'', providerID)])
                  (redirect url), s1)))"

definition AuthHandler_OIDCCallback ::
  "api_env \<Rightarrow> identity_provider \<Rightarrow> time \<Rightarrow> issue_input \<Rightarrow> http_request \<Rightarrow> store \<Rightarrow> reply \<times> store" where
  "AuthHandler_OIDCCallback env idp now inp r s =
     (case hr_cookie r ''arkeep_oidc_state'' of
        None \<Rightarrow> (BadRequest ''missing OIDC state cookie'', s)
      | Some session_state \<Rightarrow>
     (case hr_cookie r ''arkeep_oidc_verifier'' of
        None \<Rightarrow> (BadRequest ''missing OIDC verifier cookie'', s)
      | Some verifier \<Rightarrow>
     (case hr_cookie r ''arkeep_oidc_provider'' of
        None \<Rightarrow> (BadRequest ''missing OIDC provider cookie'', s)
      | Some provider \<Rightarrow>
          (let code = hr_query r ''code''; state = hr_query r ''state'' in
           if code = [] \<or> state = []
           then (clearOIDCCookies env (BadRequest ''missing code or state parameter''), s)
           else (case ExchangeCode (ae_parse env) (ae_crypto env) idp inp now
                        \<lparr>cb_provider_id = provider, cb_callback_url = requestCallbackURL r, cb_code = code,
                         cb_state = state, cb_session_state = session_state, cb_code_verifier = verifier\<rparr> s of
                   (Inl e, s1) \<Rightarrow>
                     (clearOIDCCookies env (if e = ErrInvalidCredentials then Unauthorized else InternalError), s1)
                 | (Inr pair, s1) \<Rightarrow>
                     (clearOIDCCookies env (setRefreshCookie env pair
                        (redirect (''/auth/callback?token='' @ tp_access pair @ ''&expires_in='' @
                           int_text (seconds_until now (tp_access_expires pair))))), s1))))))"

end
