(* ===== verification/Certs.thy ===== *)
theory Certs
  imports Files PathTranslate
begin

text \<open>The server's own certificate authority (\<open>grpc/certs.go\<close>): the key pairs it creates at the first start and
loads at every later one, and the client certificates it issues.  Keys and certificates are byte strings; key
generation, signing, X.509 and PEM are the parameter \<open>pki\<close>, files are those of theory \<open>Files\<close>.  Error texts are those of the code without the
wrapped cause.\<close>

section \<open>Certificates\<close>

datatype key_usage = CertSign | CRLSign | DigitalSignature | KeyEncipherment
datatype ext_usage = ServerAuth | ClientAuth

record certificate =
  crt_serial :: int
  crt_cn :: string
  crt_org :: "string list"
  crt_dns :: "string list"
  crt_ips :: "string list"
  crt_not_before :: time
  crt_not_after :: time
  crt_is_ca :: bool
  crt_usage :: "key_usage list"
  crt_ext :: "ext_usage list"

text \<open>\<open>pk_create\<close> signs a template for the key of its subject with the parent and its key; PEM blocks have a
type.\<close>

record pki =
  pk_create :: "certificate \<Rightarrow> certificate \<Rightarrow> string \<Rightarrow> string \<Rightarrow> string option"
  pk_parse :: "string \<Rightarrow> certificate option"
  pk_marshal :: "string \<Rightarrow> string option"
  pk_unmarshal :: "string \<Rightarrow> string option"
  pk_pem :: "string \<Rightarrow> string \<Rightarrow> string"
  pk_unpem :: "string \<Rightarrow> string option"

definition GRPCServerName :: string where "GRPCServerName = ''arkeep-grpc''"

definition certValidity :: time where "certValidity = 10 * 365 * 24 * hour"

record auto_certs =
  ac_ca_cert_file :: string
  ac_ca_cert_pem :: string
  ac_server_cert_file :: string
  ac_server_key_file :: string
  ac_ca_key :: string
  ac_ca_cert :: certificate
  ac_serial :: int

definition ca_template :: "time \<Rightarrow> certificate" where
  "ca_template now = \<lparr>crt_serial = 1, crt_cn = ''Arkeep gRPC CA'', crt_org = [''Arkeep''], crt_dns = [],
     crt_ips = [], crt_not_before = now - 5 * minute, crt_not_after = now + certValidity, crt_is_ca = True,
     crt_usage = [CertSign, CRLSign], crt_ext = []\<rparr>"

definition server_template :: "time \<Rightarrow> certificate" where
  "server_template now = \<lparr>crt_serial = 2, crt_cn = GRPCServerName, crt_org = [''Arkeep''],
     crt_dns = [GRPCServerName], crt_ips = [''127.0.0.1'', ''::1''], crt_not_before = now - 5 * minute,
     crt_not_after = now + certValidity, crt_is_ca = False, crt_usage = [DigitalSignature, KeyEncipherment],
     crt_ext = [ServerAuth]\<rparr>"

definition client_template :: "time \<Rightarrow> int \<Rightarrow> string \<Rightarrow> certificate" where
  "client_template now serial cn = \<lparr>crt_serial = serial, crt_cn = cn, crt_org = [''Arkeep''], crt_dns = [cn],
     crt_ips = [], crt_not_before = now - 5 * minute, crt_not_after = now + certValidity, crt_is_ca = False,
     crt_usage = [DigitalSignature], crt_ext = [ClientAuth]\<rparr>"

definition ecKeyToPEM :: "pki \<Rightarrow> string \<Rightarrow> string option" where
  "ecKeyToPEM pk key = map_option (pk_pem pk ''EC PRIVATE KEY'') (pk_marshal pk key)"

section \<open>Files\<close>

text \<open>\<open>fes\<close> is the behaviour of the file system during the work on a path.  A path is a regular file when it has
contents.\<close>

definition fileExists :: "(string \<Rightarrow> file_env) \<Rightarrow> string \<Rightarrow> files \<Rightarrow> bool" where
  "fileExists fes path fs = (fe_error (fes path) (StatFile path) = None \<and> map_of fs path \<noteq> None)"

definition writeFileAtomic :: "(string \<Rightarrow> file_env) \<Rightarrow> string \<Rightarrow> string \<Rightarrow> files \<Rightarrow> bool \<times> files" where
  "writeFileAtomic fes path data fs =
     (let fe = fes path; fs1 = map_put (fe_temp fe) data fs in
      if fe_error fe (CreateTemp path) \<noteq> None then (False, fs)
      else if fe_error fe WriteTemp \<noteq> None then (False, discard_temp fe (map_put (fe_temp fe) (fe_partial fe) fs))
      else if fe_error fe ChmodTemp \<noteq> None \<or> fe_error fe CloseTemp \<noteq> None \<or> fe_error fe (Rename path) \<noteq> None
      then (False, discard_temp fe fs1)
      else (True, map_put path data (map_del (fe_temp fe) fs1)))"

text \<open>The files are written one after the other, up to the first failure.\<close>

fun write_all :: "(string \<Rightarrow> file_env) \<Rightarrow> (string \<times> string \<times> string) list \<Rightarrow> files \<Rightarrow> (string + unit) \<times> files" where
  "write_all fes [] fs = (Inr (), fs)"
| "write_all fes ((what, path, data) # rest) fs =
     (case writeFileAtomic fes path data fs of
        (False, fs1) \<Rightarrow> (Inl (''grpccerts: failed to write '' @ what), fs1)
      | (True, fs1) \<Rightarrow> write_all fes rest fs1)"

definition read_file :: "(string \<Rightarrow> file_env) \<Rightarrow> string \<Rightarrow> files \<Rightarrow> string option" where
  "read_file fes path fs = (if fe_error (fes path) (ReadFile path) \<noteq> None then None else map_of fs path)"

definition bind_err :: "'a option \<Rightarrow> string \<Rightarrow> ('a \<Rightarrow> string + 'b) \<Rightarrow> string + 'b" where
  "bind_err x msg f = (case x of None \<Rightarrow> Inl msg | Some a \<Rightarrow> f a)"

section \<open>Loading and creating\<close>

text \<open>The serial numbers go on from the Unix time of the start.\<close>

definition unix_seconds :: "time \<Rightarrow> int" where
  "unix_seconds now = now div second - 62135596800"

definition loadCerts ::
  "(string \<Rightarrow> file_env) \<Rightarrow> pki \<Rightarrow> time \<Rightarrow> string \<Rightarrow> string \<Rightarrow> string \<Rightarrow> string \<Rightarrow> files \<Rightarrow> string + auto_certs" where
  "loadCerts fes pk now caCertFile caKeyFile serverCertFile serverKeyFile fs =
     bind_err (read_file fes caCertFile fs) ''grpccerts: failed to read CA cert'' (\<lambda>caCertPEM.
     bind_err (read_file fes caKeyFile fs) ''grpccerts: failed to read CA key'' (\<lambda>caKeyPEM.
     bind_err (pk_unpem pk caCertPEM) ''grpccerts: invalid CA cert PEM'' (\<lambda>certDER.
     bind_err (pk_parse pk certDER) ''grpccerts: failed to parse CA cert'' (\<lambda>caCert.
     bind_err (pk_unpem pk caKeyPEM) ''grpccerts: invalid CA key PEM'' (\<lambda>keyDER.
     bind_err (pk_unmarshal pk keyDER) ''grpccerts: failed to parse CA key'' (\<lambda>caKey.
       Inr \<lparr>ac_ca_cert_file = caCertFile, ac_ca_cert_pem = caCertPEM, ac_server_cert_file = serverCertFile,
            ac_server_key_file = serverKeyFile, ac_ca_key = caKey, ac_ca_cert = caCert,
            ac_serial = unix_seconds now\<rparr>))))))"

text \<open>The key pairs in memory before anything is written: the CA certificate, and the contents of the four files.
\<open>caKey\<close> and \<open>serverKey\<close> are the generated keys.\<close>

definition new_pki :: "pki \<Rightarrow> time \<Rightarrow> string option \<Rightarrow> string option \<Rightarrow>
    string + (string \<times> certificate \<times> string \<times> string \<times> string \<times> string)" where
  "new_pki pk now caKey serverKey =
     bind_err caKey ''grpccerts: failed to generate CA key'' (\<lambda>ck.
     bind_err (pk_create pk (ca_template now) (ca_template now) ck ck)
       ''grpccerts: failed to create CA certificate'' (\<lambda>caDER.
     bind_err (pk_parse pk caDER) ''grpccerts: failed to parse CA certificate'' (\<lambda>caCert.
     bind_err serverKey ''grpccerts: failed to generate server key'' (\<lambda>sk.
     bind_err (pk_create pk (server_template now) caCert sk ck)
       ''grpccerts: failed to create server certificate'' (\<lambda>serverDER.
     bind_err (ecKeyToPEM pk ck) ''grpccerts: failed to encode CA key'' (\<lambda>caKeyPEM.
     bind_err (ecKeyToPEM pk sk) ''grpccerts: failed to encode server key'' (\<lambda>serverKeyPEM.
       Inr (ck, caCert, pk_pem pk ''CERTIFICATE'' caDER, caKeyPEM,
            pk_pem pk ''CERTIFICATE'' serverDER, serverKeyPEM))))))))"

definition EnsureCerts ::
  "(string \<Rightarrow> file_env) \<Rightarrow> pki \<Rightarrow> time \<Rightarrow> string option \<Rightarrow> string option \<Rightarrow> string \<Rightarrow> files \<Rightarrow>
   (string + auto_certs) \<times> files" where
  "EnsureCerts fes pk now caKey serverKey dataDir fs =
     (let dir = filepath_Join dataDir ''grpc''; caCertFile = filepath_Join dir ''ca.crt'';
          caKeyFile = filepath_Join dir ''ca.key''; serverCertFile = filepath_Join dir ''server.crt'';
          serverKeyFile = filepath_Join dir ''server.key'' in
      if fe_error (fes dir) (MakeDirs dir) \<noteq> None then (Inl ''grpccerts: failed to create directory'', fs)
      else if list_all (\<lambda>p. fileExists fes p fs) [caCertFile, caKeyFile, serverCertFile, serverKeyFile]
      then (loadCerts fes pk now caCertFile caKeyFile serverCertFile serverKeyFile fs, fs)
      else (case new_pki pk now caKey serverKey of
              Inl e \<Rightarrow> (Inl e, fs)
            | Inr (ck, caCert, caCertPEM, caKeyPEM, serverCertPEM, serverKeyPEM) \<Rightarrow>
                (case write_all fes [(''CA cert'', caCertFile, caCertPEM), (''CA key'', caKeyFile, caKeyPEM),
                                     (''server cert'', serverCertFile, serverCertPEM),
                                     (''server key'', serverKeyFile, serverKeyPEM)] fs of
                   (Inl e, fs1) \<Rightarrow> (Inl e, fs1)
                 | (Inr _, fs1) \<Rightarrow>
                     (Inr \<lparr>ac_ca_cert_file = caCertFile, ac_ca_cert_pem = caCertPEM,
                           ac_server_cert_file = serverCertFile, ac_server_key_file = serverKeyFile,
                           ac_ca_key = ck, ac_ca_cert = caCert, ac_serial = 2\<rparr>, fs1))))"

section \<open>Issuing\<close>

text \<open>The serial number is used up as soon as the key exists.  The certificate and the key, both PEM.\<close>

definition IssueCertificate ::
  "pki \<Rightarrow> time \<Rightarrow> string option \<Rightarrow> string \<Rightarrow> auto_certs \<Rightarrow> (string + string \<times> string) \<times> auto_certs" where
  "IssueCertificate pk now clientKey cn ac =
     (case clientKey of
        None \<Rightarrow> (Inl ''grpccerts: failed to generate client key'', ac)
      | Some ck \<Rightarrow>
          (let ac1 = ac\<lparr>ac_serial := ac_serial ac + 1\<rparr> in
           (bind_err (pk_create pk (client_template now (ac_serial ac1) cn) (ac_ca_cert ac) ck (ac_ca_key ac))
              ''grpccerts: failed to sign client certificate'' (\<lambda>der.
            bind_err (ecKeyToPEM pk ck) ''x509: failed to marshal'' (\<lambda>keyPEM.
              Inr (pk_pem pk ''CERTIFICATE'' der, keyPEM))), ac1)))"

end
