(* ===== verification/ApiResources.thy ===== *)
theory ApiResources
  imports Api AgentManager Certs
begin

text \<open>The handlers of agents and their enrollment (\<open>agents.go\<close>, \<open>enroll.go\<close>), destinations (\<open>destinations.go\<close>), jobs
(\<open>jobs.go\<close>) and notifications (\<open>notifications.go\<close>), and the topics of a websocket client (\<open>ws.go\<close>).\<close>

section \<open>Agents\<close>

definition agent_json :: "api_env \<Rightarrow> agent \<Rightarrow> json" where
  "agent_json env a = JObj
     [(''id'', JStr (ID a)), (''name'', JStr (ag_name a)), (''hostname'', JStr (ag_hostname a)),
      (''ip_address'', JStr (ag_ip_address a)), (''os'', JStr (ag_os a)), (''arch'', JStr (ag_arch a)),
      (''version'', JStr (ag_version a)), (''status'', JStr (ag_status a)), (''labels'', JStr (ag_labels a)),
      (''docker_available'', JBool (ag_docker_available a)), (''last_seen_at'', time_json env (ag_last_seen_at a)),
      (''created_at'', JStr (ae_rfc env (CreatedAt a)))]"

definition AgentHandler_List :: "api_env \<Rightarrow> http_request \<Rightarrow> store \<Rightarrow> reply \<times> store" where
  "AgentHandler_List env r s =
     (case agents_List (paginationOpts r) s of
        (Inl e, s1) \<Rightarrow> (InternalError, s1)
      | (Inr (as, n), s1) \<Rightarrow> (Ok (list_json (map (agent_json env) as) n), s1))"

definition new_agent :: "string \<Rightarrow> agent" where
  "new_agent name = \<lparr>ID = nil_uuid, CreatedAt = zero_time, UpdatedAt = zero_time, DeletedAt = None,
     ag_name = name, ag_hostname = [], ag_ip_address = [], ag_os = [], ag_arch = [], ag_version = [],
     ag_status = ''offline'', ag_last_seen_at = None, ag_labels = ''{}'', ag_docker_available = False\<rparr>"

definition AgentHandler_Create ::
  "api_env \<Rightarrow> time \<Rightarrow> claims option \<Rightarrow> http_request \<Rightarrow> store \<Rightarrow> reply \<times> store" where
  "AgentHandler_Create env now c r s =
     (case decodeJSON [''name''] (json_field dec_string ''name'' []) r of
        Inl bad \<Rightarrow> (bad, s)
      | Inr name \<Rightarrow>
          if name = [] then (BadRequest ''name is required'', s)
          else (case agents_Create now (new_agent name) s of
                  (Inl e, s1) \<Rightarrow> (InternalError, s1)
                | (Inr a, s1) \<Rightarrow>
                    (Created (agent_json env a),
                     logAudit env now r c ''agent.create'' ''agent'' (ID a) [(''name'', JStr (ag_name a))] s1)))"

definition AgentHandler_GetByID :: "api_env \<Rightarrow> http_request \<Rightarrow> store \<Rightarrow> reply \<times> store" where
  "AgentHandler_GetByID env r s =
     (case parseUUID env r ''id'' of
        Inl bad \<Rightarrow> (bad, s)
      | Inr i \<Rightarrow>
          (case agents_GetByID i s of
             (Inl e, s1) \<Rightarrow> (not_found_or_internal e, s1)
           | (Inr a, s1) \<Rightarrow> (Ok (agent_json env a), s1)))"

definition dec_update_agent :: "(string \<times> json) list \<Rightarrow> (string option \<times> string option) option" where
  "dec_update_agent kvs =
     (case (json_field (dec_ptr dec_string []) ''name'' None kvs,
            json_field (dec_ptr dec_string []) ''labels'' None kvs) of
        (Some n, Some l) \<Rightarrow> Some (n, l) | _ \<Rightarrow> None)"

definition updated_agent :: "string option \<times> string option \<Rightarrow> agent \<Rightarrow> reply + agent" where
  "updated_agent req a =
     then_set (set_nonempty ''name cannot be empty'' (\<lambda>v a. a\<lparr>ag_name := v\<rparr>) (fst req) a)
       (\<lambda>a1. Inr (set_if (\<lambda>v a. a\<lparr>ag_labels := v\<rparr>) (snd req) a1))"

definition AgentHandler_Update ::
  "api_env \<Rightarrow> time \<Rightarrow> claims option \<Rightarrow> http_request \<Rightarrow> store \<Rightarrow> reply \<times> store" where
  "AgentHandler_Update env now c r s =
     (case parseUUID env r ''id'' of
        Inl bad \<Rightarrow> (bad, s)
      | Inr i \<Rightarrow>
     (case decodeJSON [''name'', ''labels''] dec_update_agent r of
        Inl bad \<Rightarrow> (bad, s)
      | Inr req \<Rightarrow>
     (case agents_GetByID i s of
        (Inl e, s1) \<Rightarrow> (not_found_or_internal e, s1)
      | (Inr a, s1) \<Rightarrow>
     (case updated_agent req a of
        Inl bad \<Rightarrow> (bad, s1)
      | Inr a1 \<Rightarrow>
     (case agents_Update now a1 s1 of
        (Inl e, s2) \<Rightarrow> (InternalError, s2)
      | (Inr _, s2) \<Rightarrow>
          (Ok (agent_json env a1),
           logAudit env now r c ''agent.update'' ''agent'' i [(''name'', JStr (ag_name a1))] s2))))))"

definition AgentHandler_Delete ::
  "api_env \<Rightarrow> time \<Rightarrow> claims option \<Rightarrow> http_request \<Rightarrow> store \<Rightarrow> reply \<times> store" where
  "AgentHandler_Delete env now c r s =
     (case parseUUID env r ''id'' of
        Inl bad \<Rightarrow> (bad, s)
      | Inr i \<Rightarrow>
          (case agents_Delete now i s of
             (Inl e, s1) \<Rightarrow> (not_found_or_internal e, s1)
           | (Inr _, s1) \<Rightarrow> (NoContent, logAudit env now r c ''agent.delete'' ''agent'' i [] s1)))"

text \<open>\<open>ListVolumes\<close> sends its question and waits; \<open>Inr\<close> is the wait, with the correlation id it was given.\<close>

definition volume_error :: "mgr_error \<Rightarrow> reply" where
  "volume_error e = (case e of
       AgentNotConnected \<Rightarrow> Conflict ''agent is not connected''
     | VolumeListTimeout \<Rightarrow> errJSON 504 ''agent did not respond in time'' ''timeout''
     | _ \<Rightarrow> InternalError)"

definition AgentHandler_ListVolumes_start ::
  "api_env \<Rightarrow> (nat \<Rightarrow> assignment \<Rightarrow> bool) \<Rightarrow> time \<Rightarrow> string \<Rightarrow> http_request \<Rightarrow> manager \<Rightarrow>
   (reply + string) \<times> manager" where
  "AgentHandler_ListVolumes_start env send_ok now corr r m =
     (case parseUUID env r ''id'' of
        Inl bad \<Rightarrow> (Inl bad, m)
      | Inr i \<Rightarrow>
          if \<not> mgr_IsConnected i m then (Inl (Conflict ''agent is not connected''), m)
          else (case mgr_RequestVolumeList_send send_ok now i corr m of
                  (Inl e, m1) \<Rightarrow> (Inl (volume_error e), m1)
                | (Inr _, m1) \<Rightarrow> (Inr corr, m1)))"

definition AgentHandler_ListVolumes_end :: "wake \<Rightarrow> string \<Rightarrow> manager \<Rightarrow> reply option \<times> manager" where
  "AgentHandler_ListVolumes_end w corr m =
     (case mgr_RequestVolumeList_wake w corr m of
        (None, m1) \<Rightarrow> (None, m1)
      | (Some (Inl e), m1) \<Rightarrow> (Some (volume_error e), m1)
      | (Some (Inr res), m1) \<Rightarrow>
          (Some (if vr_err res \<noteq> [] then errJSON 503 (vr_err res) ''docker_unavailable''
                 else Ok (JArr (map (\<lambda>v. JObj [(''name'', JStr (vi_name v)),
                        (''mountpoint'', JStr (vi_mountpoint v)), (''driver'', JStr (vi_driver v))])
                      (vr_volumes res)))), m1))"

section \<open>Enrollment\<close>

definition clientIP :: "http_request \<Rightarrow> string" where
  "clientIP r = (case split_host (hr_remote_addr r) of None \<Rightarrow> hr_remote_addr r | Some h \<Rightarrow> h)"

definition enrollLimiter :: rate_limiter where
  "enrollLimiter = NewRateLimiter 10 minute"

definition enroll_json :: "string \<Rightarrow> string \<Rightarrow> string \<Rightarrow> json" where
  "enroll_json ca cert key =
     JObj [(''ca_cert'', JStr ca), (''client_cert'', JStr cert), (''client_key'', JStr key)]"

text \<open>\<open>Inl\<close> is an answer in plain text; \<open>cn_uuid\<close> is the random part of the certificate's name and \<open>key\<close> the
generated client key.\<close>

definition EnrollHandler_Enroll ::
  "pki \<Rightarrow> string \<Rightarrow> time \<Rightarrow> string \<Rightarrow> string option \<Rightarrow> http_request \<Rightarrow> rate_limiter \<times> auto_certs \<Rightarrow>
   ((int \<times> string) + json) \<times> (rate_limiter \<times> auto_certs)" where
  "EnrollHandler_Enroll pk secret now cn_uuid key r la =
     (case Allow now (clientIP r) (fst la) of
        (False, rl1) \<Rightarrow> (Inl (429, ''rate limit exceeded '' @ dash @ '' max 10 enrollment requests per minute per IP''), (rl1, snd la))
      | (True, rl1) \<Rightarrow>
          (case decode_struct (json_field dec_string ''agent_secret'' []) (hr_body r) of
             None \<Rightarrow> (Inl (400, ''invalid JSON body''), (rl1, snd la))
           | Some given \<Rightarrow>
               if secret \<noteq> [] \<and> given \<noteq> secret then (Inl (403, ''forbidden''), (rl1, snd la))
               else (case IssueCertificate pk now key (''arkeep-agent-'' @ cn_uuid) (snd la) of
                       (Inl e, ac1) \<Rightarrow> (Inl (500, ''internal server error''), (rl1, ac1))
                     | (Inr (cert, ckey), ac1) \<Rightarrow>
                         (Inr (enroll_json (ac_ca_cert_pem ac1) cert ckey), (rl1, ac1)))))"

section \<open>Destinations\<close>

definition destination_json :: "api_env \<Rightarrow> destination \<Rightarrow> json" where
  "destination_json env d = JObj
     [(''id'', JStr (ID d)), (''name'', JStr (dst_name d)), (''type'', JStr (dst_type d)),
      (''config'', JStr (dst_config d)), (''enabled'', JBool (dst_enabled d)),
      (''created_at'', JStr (ae_rfc env (CreatedAt d))), (''updated_at'', JStr (ae_rfc env (UpdatedAt d)))]"

definition validDestinationTypes :: "string list" where
  "validDestinationTypes = [''local'', ''s3'', ''sftp'', ''rest'', ''rclone'']"

definition DestinationHandler_List :: "api_env \<Rightarrow> http_request \<Rightarrow> store \<Rightarrow> reply \<times> store" where
  "DestinationHandler_List env r s =
     (case destinations_List (paginationOpts r) s of
        (Inl e, s1) \<Rightarrow> (InternalError, s1)
      | (Inr (ds, n), s1) \<Rightarrow> (Ok (list_json (map (destination_json env) ds) n), s1))"

record create_destination_request =
  cd_name :: string
  cd_type :: string
  cd_credentials :: string
  cd_config :: string

definition dec_create_destination :: "(string \<times> json) list \<Rightarrow> create_destination_request option" where
  "dec_create_destination kvs =
     (case (json_field dec_string ''name'' [] kvs, json_field dec_string ''type'' [] kvs,
            json_field dec_string ''credentials'' [] kvs, json_field dec_string ''config'' [] kvs) of
        (Some n, Some t, Some c, Some cf) \<Rightarrow>
          Some \<lparr>cd_name = n, cd_type = t, cd_credentials = c, cd_config = cf\<rparr>
      | _ \<Rightarrow> None)"

definition requested_destination :: "create_destination_request \<Rightarrow> destination" where
  "requested_destination req = \<lparr>ID = nil_uuid, CreatedAt = zero_time, UpdatedAt = zero_time,
     dst_name = cd_name req, dst_type = cd_type req, dst_credentials = cd_credentials req,
     dst_config = (if cd_config req = [] then ''{}'' else cd_config req), dst_enabled = True\<rparr>"

definition DestinationHandler_Create ::
  "api_env \<Rightarrow> time \<Rightarrow> claims option \<Rightarrow> http_request \<Rightarrow> store \<Rightarrow> reply \<times> store" where
  "DestinationHandler_Create env now c r s =
     (case decodeJSON [''name'', ''type'', ''credentials'', ''config''] dec_create_destination r of
        Inl bad \<Rightarrow> (bad, s)
      | Inr req \<Rightarrow>
          if cd_name req = [] then (BadRequest ''name is required'', s)
          else if cd_type req \<notin> set validDestinationTypes
          then (BadRequest ''type must be one of: local, s3, sftp, rest, rclone'', s)
          else (case destinations_Create now (requested_destination req) s of
                  (Inl e, s1) \<Rightarrow> (InternalError, s1)
                | (Inr d, s1) \<Rightarrow>
                    (Created (destination_json env d),
                     logAudit env now r c ''destination.create'' ''destination'' (ID d)
                       [(''name'', JStr (dst_name d)), (''type'', JStr (dst_type d))] s1)))"

definition DestinationHandler_GetByID :: "api_env \<Rightarrow> http_request \<Rightarrow> store \<Rightarrow> reply \<times> store" where
  "DestinationHandler_GetByID env r s =
     (case parseUUID env r ''id'' of
        Inl bad \<Rightarrow> (bad, s)
      | Inr i \<Rightarrow>
          (case destinations_GetByID i s of
             (Inl e, s1) \<Rightarrow> (not_found_or_internal e, s1)
           | (Inr d, s1) \<Rightarrow> (Ok (destination_json env d), s1)))"

record update_destination_request =
  ud_name :: "string option"
  ud_credentials :: "string option"
  ud_config :: "string option"
  ud_enabled :: "bool option"

definition dec_update_destination :: "(string \<times> json) list \<Rightarrow> update_destination_request option" where
  "dec_update_destination kvs =
     (case (json_field (dec_ptr dec_string []) ''name'' None kvs,
            json_field (dec_ptr dec_string []) ''credentials'' None kvs,
            json_field (dec_ptr dec_string []) ''config'' None kvs,
            json_field (dec_ptr dec_bool False) ''enabled'' None kvs) of
        (Some n, Some c, Some cf, Some e) \<Rightarrow>
          Some \<lparr>ud_name = n, ud_credentials = c, ud_config = cf, ud_enabled = e\<rparr>
      | _ \<Rightarrow> None)"

definition updated_destination :: "update_destination_request \<Rightarrow> destination \<Rightarrow> reply + destination" where
  "updated_destination req d =
     then_set (set_nonempty ''name cannot be empty'' (\<lambda>v d. d\<lparr>dst_name := v\<rparr>) (ud_name req) d)
       (\<lambda>d1. Inr (set_if (\<lambda>v d. d\<lparr>dst_enabled := v\<rparr>) (ud_enabled req)
                   (set_if (\<lambda>v d. d\<lparr>dst_config := v\<rparr>) (ud_config req)
                     (set_if (\<lambda>v d. d\<lparr>dst_credentials := v\<rparr>) (ud_credentials req) d1))))"

definition DestinationHandler_Update ::
  "api_env \<Rightarrow> time \<Rightarrow> claims option \<Rightarrow> http_request \<Rightarrow> store \<Rightarrow> reply \<times> store" where
  "DestinationHandler_Update env now c r s =
     (case parseUUID env r ''id'' of
        Inl bad \<Rightarrow> (bad, s)
      | Inr i \<Rightarrow>
     (case decodeJSON [''name'', ''credentials'', ''config'', ''enabled''] dec_update_destination r of
        Inl bad \<Rightarrow> (bad, s)
      | Inr req \<Rightarrow>
     (case destinations_GetByID i s of
        (Inl e, s1) \<Rightarrow> (not_found_or_internal e, s1)
      | (Inr d, s1) \<Rightarrow>
     (case updated_destination req d of
        Inl bad \<Rightarrow> (bad, s1)
      | Inr d1 \<Rightarrow>
     (case destinations_Update now d1 s1 of
        (Inl e, s2) \<Rightarrow> (InternalError, s2)
      | (Inr _, s2) \<Rightarrow>
          (Ok (destination_json env (d1\<lparr>UpdatedAt := now\<rparr>)),
           logAudit env now r c ''destination.update'' ''destination'' i [(''name'', JStr (dst_name d1))] s2))))))"

definition DestinationHandler_Delete ::
  "api_env \<Rightarrow> time \<Rightarrow> claims option \<Rightarrow> http_request \<Rightarrow> store \<Rightarrow> reply \<times> store" where
  "DestinationHandler_Delete env now c r s =
     (case parseUUID env r ''id'' of
        Inl bad \<Rightarrow> (bad, s)
      | Inr i \<Rightarrow>
          (case destinations_Delete i s of
             (Inl e, s1) \<Rightarrow>
               (if e = ErrNotFound then ResourceNotFound
                else Conflict ''destination is still referenced by one or more policies'', s1)
           | (Inr _, s1) \<Rightarrow>
               (NoContent, logAudit env now r c ''destination.delete'' ''destination'' i [] s1)))"

section \<open>Jobs\<close>

definition job_dest_json :: "api_env \<Rightarrow> job_destination_with_name \<Rightarrow> json" where
  "job_dest_json env d = (let jd = jdn_dest d in JObj
     [(''id'', JStr (ID jd)), (''destination_id'', JStr (jd_destination_id jd)),
      (''destination_name'', JStr (jdn_name d)), (''status'', JStr (jd_status jd)),
      (''snapshot_id'', JStr (jd_snapshot_id jd)), (''size_bytes'', jint (jd_size_bytes jd)),
      (''started_at'', time_json env (jd_started_at jd)), (''ended_at'', time_json env (jd_ended_at jd)),
      (''error'', JStr (jd_error jd))])"

text \<open>An empty list of destinations is omitted.\<close>

definition job_json :: "api_env \<Rightarrow> job_with_names \<Rightarrow> job_destination_with_name list \<Rightarrow> json" where
  "job_json env jn ds = (let j = jwn_job jn in JObj
     ([(''id'', JStr (ID j)), (''policy_id'', JStr (job_policy_id j)), (''policy_name'', JStr (jwn_policy_name jn)),
       (''agent_id'', JStr (job_agent_id j)), (''agent_name'', JStr (jwn_agent_name jn)),
       (''type'', JStr (job_type j)), (''status'', JStr (job_status j)), (''error'', JStr (job_error j)),
       (''started_at'', time_json env (job_started_at j)), (''ended_at'', time_json env (job_ended_at j))]
      @ (if ds = [] then [] else [(''destinations'', JArr (map (job_dest_json env) ds))])
      @ [(''created_at'', JStr (ae_rfc env (CreatedAt j)))]))"

definition writeJobList :: "api_env \<Rightarrow> (job_with_names list \<times> nat) dbop \<Rightarrow> store \<Rightarrow> reply \<times> store" where
  "writeJobList env op s =
     (case op s of
        (Inl e, s1) \<Rightarrow> (InternalError, s1)
      | (Inr (js, n), s1) \<Rightarrow> (Ok (list_json (map (\<lambda>j. job_json env j []) js) n), s1))"

definition JobHandler_List :: "api_env \<Rightarrow> http_request \<Rightarrow> store \<Rightarrow> reply \<times> store" where
  "JobHandler_List env r s =
     (if hr_query r ''policy_id'' \<noteq> []
      then (case ae_parse env (hr_query r ''policy_id'') of
              None \<Rightarrow> (BadRequest ''invalid policy_id: must be a valid UUID'', s)
            | Some u \<Rightarrow> writeJobList env (jobs_ListByPolicy u (paginationOpts r)) s)
      else if hr_query r ''agent_id'' \<noteq> []
      then (case ae_parse env (hr_query r ''agent_id'') of
              None \<Rightarrow> (BadRequest ''invalid agent_id: must be a valid UUID'', s)
            | Some u \<Rightarrow> writeJobList env (jobs_ListByAgent u (paginationOpts r)) s)
      else writeJobList env (jobs_List (paginationOpts r)) s)"

definition JobHandler_GetByID :: "api_env \<Rightarrow> http_request \<Rightarrow> store \<Rightarrow> reply \<times> store" where
  "JobHandler_GetByID env r s =
     (case parseUUID env r ''id'' of
        Inl bad \<Rightarrow> (bad, s)
      | Inr i \<Rightarrow>
          (case jobs_GetByIDWithDetails i s of
             (Inl e, s1) \<Rightarrow> (not_found_or_internal e, s1)
           | (Inr (j, ds, logs), s1) \<Rightarrow> (Ok (job_json env j ds), s1)))"

definition JobHandler_GetLogs :: "api_env \<Rightarrow> http_request \<Rightarrow> store \<Rightarrow> reply \<times> store" where
  "JobHandler_GetLogs env r s =
     (case parseUUID env r ''id'' of
        Inl bad \<Rightarrow> (bad, s)
      | Inr i \<Rightarrow>
          (case jobs_GetLogs i s of
             (Inl e, s1) \<Rightarrow> (InternalError, s1)
           | (Inr ls, s1) \<Rightarrow>
               (Ok (JArr (map (\<lambda>l. JObj [(''id'', JStr (ID l)), (''level'', JStr (jl_level l)),
                  (''message'', JStr (jl_message l)), (''timestamp'', JStr (ae_rfc env (jl_timestamp l)))]) ls)),
                s1)))"

definition JobHandler_ListByPolicy :: "api_env \<Rightarrow> http_request \<Rightarrow> store \<Rightarrow> reply \<times> store" where
  "JobHandler_ListByPolicy env r s =
     (case parseUUID env r ''id'' of
        Inl bad \<Rightarrow> (bad, s)
      | Inr i \<Rightarrow> writeJobList env (jobs_ListByPolicy i (paginationOpts r)) s)"

section \<open>Notifications\<close>

definition notif_json :: "api_env \<Rightarrow> notif \<Rightarrow> json" where
  "notif_json env n = JObj
     [(''id'', JStr (ID n)), (''type'', JStr (ntf_type n)), (''title'', JStr (ntf_title n)),
      (''body'', JStr (ntf_body n)), (''payload'', JStr (ntf_payload n)),
      (''read_at'', time_json env (ntf_read_at n)), (''created_at'', JStr (ae_rfc env (CreatedAt n)))]"

definition NotificationHandler_List ::
  "api_env \<Rightarrow> claims option \<Rightarrow> http_request \<Rightarrow> store \<Rightarrow> reply \<times> store" where
  "NotificationHandler_List env c r s =
     (case c of
        None \<Rightarrow> (Unauthorized, s)
      | Some cl \<Rightarrow>
          (case ae_parse env (cl_user_id cl) of
             None \<Rightarrow> (InternalError, s)
           | Some u \<Rightarrow>
               (case notif_ListByUser u (paginationOpts r) s of
                  (Inl e, s1) \<Rightarrow> (InternalError, s1)
                | (Inr (ns, n), s1) \<Rightarrow> (Ok (list_json (map (notif_json env) ns) n), s1))))"

definition NotificationHandler_MarkAsRead ::
  "api_env \<Rightarrow> time \<Rightarrow> claims option \<Rightarrow> http_request \<Rightarrow> store \<Rightarrow> reply \<times> store" where
  "NotificationHandler_MarkAsRead env now c r s =
     (case parseUUID env r ''id'' of
        Inl bad \<Rightarrow> (bad, s)
      | Inr i \<Rightarrow>
     (case c of
        None \<Rightarrow> (Unauthorized, s)
      | Some cl \<Rightarrow>
     (case notif_GetByID i s of
        (Inl e, s1) \<Rightarrow> (not_found_or_internal e, s1)
      | (Inr n, s1) \<Rightarrow>
          if ntf_user_id n \<noteq> cl_user_id cl then (ResourceNotFound, s1)
          else (case notif_MarkAsRead now i s1 of
                  (Inl e, s2) \<Rightarrow> (if e = ErrNotFound then NoContent else InternalError, s2)
                | (Inr _, s2) \<Rightarrow> (NoContent, s2)))))"

definition delivery_json :: "api_env \<Rightarrow> delivery \<Rightarrow> json" where
  "delivery_json env d = JObj
     [(''id'', JStr (ID d)), (''notification_id'', JStr (ndl_notification_id d)), (''type'', JStr (ndl_type d)),
      (''status'', JStr (ndl_status d)), (''attempts'', jint (ndl_attempts d)),
      (''last_error'', JStr (ndl_last_error d)), (''next_retry_at'', time_json env (ndl_next_retry_at d)),
      (''created_at'', JStr (ae_rfc env (CreatedAt d)))]"

definition NotificationHandler_ListDeliveryQueue ::
  "api_env \<Rightarrow> http_request \<Rightarrow> store \<Rightarrow> reply \<times> store" where
  "NotificationHandler_ListDeliveryQueue env r s =
     (let st = (if hr_query r ''status'' = [] then ''exhausted'' else hr_query r ''status'') in
      if st \<notin> {''pending'', ''sent'', ''exhausted''}
      then (BadRequest ''status must be one of: pending, sent, exhausted'', s)
      else (case notif_ListDeliveriesByStatus st (paginationOpts r) s of
              (Inl e, s1) \<Rightarrow> (InternalError, s1)
            | (Inr (ds, n), s1) \<Rightarrow> (Ok (list_json (map (delivery_json env) ds) n), s1)))"

definition NotificationHandler_MarkAllAsRead ::
  "api_env \<Rightarrow> time \<Rightarrow> claims option \<Rightarrow> store \<Rightarrow> reply \<times> store" where
  "NotificationHandler_MarkAllAsRead env now c s =
     (case c of
        None \<Rightarrow> (Unauthorized, s)
      | Some cl \<Rightarrow>
          (case ae_parse env (cl_user_id cl) of
             None \<Rightarrow> (InternalError, s)
           | Some u \<Rightarrow>
               (case notif_MarkAllAsRead now u s of
                  (Inl e, s1) \<Rightarrow> (InternalError, s1)
                | (Inr _, s1) \<Rightarrow> (NoContent, s1))))"

section \<open>Topics\<close>

definition add_query_topic :: "string \<Rightarrow> string list \<Rightarrow> string list" where
  "add_query_topic t topics =
     (let t' = trim_space t in if t' = [] \<or> t' \<in> set topics then topics else topics @ [t'])"

definition resolveTopics :: "http_request \<Rightarrow> claims \<Rightarrow> string list" where
  "resolveTopics r c =
     (let own = add_query_topic (''notifications:'' @ cl_user_id c) []; raw = hr_query r ''topics'' in
      if raw = [] then own else fold add_query_topic (split_on CHR '','' raw) own)"

text \<open>The topics of the client that is registered, or the refusal; the upgrade itself is I/O.\<close>

definition ServeWS :: "(string \<Rightarrow> auth_error + claims) \<Rightarrow> http_request \<Rightarrow> reply + string list" where
  "ServeWS validate r =
     (if hr_query r ''token'' = [] then Inl Unauthorized
      else (case validate (hr_query r ''token'') of
              Inl e \<Rightarrow> Inl Unauthorized
            | Inr c \<Rightarrow> Inr (resolveTopics r c)))"

end
