(* ===== verification/ApiSnapshots.thy ===== *)
theory ApiSnapshots
  imports Api AgentManager DestUtil
begin

text \<open>The handlers of snapshots (\<open>snapshots.go\<close>), with the dispatch of a restore job.\<close>

definition snapshot_json ::
  "api_env \<Rightarrow> snapshot \<Rightarrow> string \<Rightarrow> string \<Rightarrow> json" where
  "snapshot_json env sn policy_name destination_name = JObj
     [(''id'', JStr (ID sn)), (''policy_id'', JStr (snap_policy_id sn)), (''policy_name'', JStr policy_name),
      (''destination_id'', JStr (snap_destination_id sn)), (''destination_name'', JStr destination_name),
      (''job_id'', JStr (snap_job_id sn)), (''restic_snapshot_id'', JStr (snap_snapshot_id sn)),
      (''size_bytes'', jint (snap_size_bytes sn)), (''tags'', JStr (snap_tags sn)),
      (''created_at'', JStr (ae_rfc env (snap_at sn)))]"

definition writeSnapshotList ::
  "api_env \<Rightarrow> (snapshot_with_names list \<times> nat) dbop \<Rightarrow> store \<Rightarrow> reply \<times> store" where
  "writeSnapshotList env op s =
     (case op s of
        (Inl e, s1) \<Rightarrow> (InternalError, s1)
      | (Inr (xs, n), s1) \<Rightarrow>
          (Ok (list_json (map (\<lambda>x. snapshot_json env (swn_snapshot x) (swn_policy_name x)
             (swn_destination_name x)) xs) n), s1))"

definition SnapshotHandler_List :: "api_env \<Rightarrow> http_request \<Rightarrow> store \<Rightarrow> reply \<times> store" where
  "SnapshotHandler_List env r s =
     (if hr_query r ''policy_id'' \<noteq> []
      then (case ae_parse env (hr_query r ''policy_id'') of
              None \<Rightarrow> (BadRequest ''invalid policy_id: must be a valid UUID'', s)
            | Some u \<Rightarrow> writeSnapshotList env (snapshots_ListByPolicy u (paginationOpts r)) s)
      else if hr_query r ''destination_id'' \<noteq> []
      then (case ae_parse env (hr_query r ''destination_id'') of
              None \<Rightarrow> (BadRequest ''invalid destination_id: must be a valid UUID'', s)
            | Some u \<Rightarrow> writeSnapshotList env (snapshots_ListByDestination u (paginationOpts r)) s)
      else writeSnapshotList env (snapshots_List (paginationOpts r)) s)"

definition SnapshotHandler_GetByID :: "api_env \<Rightarrow> http_request \<Rightarrow> store \<Rightarrow> reply \<times> store" where
  "SnapshotHandler_GetByID env r s =
     (case parseUUID env r ''id'' of
        Inl bad \<Rightarrow> (bad, s)
      | Inr i \<Rightarrow>
          (case snapshots_GetByID i s of
             (Inl e, s1) \<Rightarrow> (not_found_or_internal e, s1)
           | (Inr sn, s1) \<Rightarrow> (Ok (snapshot_json env sn [] []), s1)))"

definition SnapshotHandler_Delete ::
  "api_env \<Rightarrow> time \<Rightarrow> claims option \<Rightarrow> http_request \<Rightarrow> store \<Rightarrow> reply \<times> store" where
  "SnapshotHandler_Delete env now c r s =
     (case parseUUID env r ''id'' of
        Inl bad \<Rightarrow> (bad, s)
      | Inr i \<Rightarrow>
          (case snapshots_Delete i s of
             (Inl e, s1) \<Rightarrow> (not_found_or_internal e, s1)
           | (Inr _, s1) \<Rightarrow> (NoContent, logAudit env now r c ''snapshot.delete'' ''snapshot'' i [] s1)))"

section \<open>Restore\<close>

record restore_request =
  rr_agent :: string
  rr_target_path :: string

definition dec_restore_request :: "(string \<times> json) list \<Rightarrow> restore_request option" where
  "dec_restore_request kvs =
     (case (json_field dec_string ''agent_id'' [] kvs, json_field dec_string ''target_path'' [] kvs) of
        (Some a, Some t) \<Rightarrow> Some \<lparr>rr_agent = a, rr_target_path = t\<rparr> | _ \<Rightarrow> None)"

text \<open>The request of a valid body and the agent it names; this body is neither bounded nor checked for unknown fields.\<close>

definition restore_input :: "api_env \<Rightarrow> http_request \<Rightarrow> reply + uuid \<times> string" where
  "restore_input env r =
     (case decode_struct dec_restore_request (hr_body r) of
        None \<Rightarrow> Inl (BadRequest ''invalid request body'')
      | Some req \<Rightarrow>
          if rr_agent req = [] then Inl (BadRequest ''agent_id is required'')
          else if rr_target_path req = [] then Inl (BadRequest ''target_path is required'')
          else (case ae_parse env (rr_agent req) of
                  None \<Rightarrow> Inl (BadRequest ''invalid agent_id: must be a valid UUID'')
                | Some a \<Rightarrow> Inr (a, rr_target_path req)))"

definition restore_dest_json :: "destination \<Rightarrow> json" where
  "restore_dest_json d = JObj
     [(''destination_id'', JStr (ID d)), (''type'', JStr (dst_type d)), (''repo_url'', JStr (BuildRepoURL d)),
      (''env'', jmap (BuildEnv d))]"

definition restore_json :: "snapshot \<Rightarrow> policy \<Rightarrow> string \<Rightarrow> destination \<Rightarrow> json" where
  "restore_json sn p target d = JObj
     [(''restic_snapshot_id'', JStr (snap_snapshot_id sn)), (''repo_password'', JStr (pol_repo_password p)),
      (''target_path'', JStr target), (''destination'', restore_dest_json d)]"

definition restore_job :: "snapshot \<Rightarrow> uuid \<Rightarrow> job" where
  "restore_job sn agentID = \<lparr>ID = nil_uuid, CreatedAt = zero_time, UpdatedAt = zero_time,
     job_policy_id = snap_policy_id sn, job_agent_id = agentID, job_type = ''restore'', job_status = ''pending'',
     job_started_at = None, job_ended_at = None, job_error = []\<rparr>"

definition restore_assignment :: "time \<Rightarrow> job \<Rightarrow> snapshot \<Rightarrow> policy \<Rightarrow> string \<Rightarrow> destination \<Rightarrow> assignment" where
  "restore_assignment now j sn p target d = \<lparr>as_job_id = ID j, as_policy_id = job_policy_id j,
     as_type = KindRestore, as_payload = json_text (restore_json sn p target d), as_scheduled_at = now\<rparr>"

text \<open>An error of the destination's or the policy's lookup.\<close>

definition missing_part :: "string \<Rightarrow> dberr \<Rightarrow> reply" where
  "missing_part what e = (if e = ErrNotFound then BadRequest (what @ '' not found'') else InternalError)"

definition SnapshotHandler_Restore ::
  "api_env \<Rightarrow> (nat \<Rightarrow> assignment \<Rightarrow> bool) \<Rightarrow> time \<Rightarrow> claims option \<Rightarrow> http_request \<Rightarrow> store \<times> manager \<Rightarrow>
   reply \<times> (store \<times> manager)" where
  "SnapshotHandler_Restore env send_ok now c r sm =
     (case parseUUID env r ''id'' of
        Inl bad \<Rightarrow> (bad, sm)
      | Inr snapshotID \<Rightarrow>
     (case restore_input env r of
        Inl bad \<Rightarrow> (bad, sm)
      | Inr (agentID, target) \<Rightarrow>
     (case snapshots_GetByID snapshotID (fst sm) of
        (Inl e, s1) \<Rightarrow> (not_found_or_internal e, (s1, snd sm))
      | (Inr sn, s1) \<Rightarrow>
     (case destinations_GetByID (snap_destination_id sn) s1 of
        (Inl e, s2) \<Rightarrow> (missing_part ''destination'' e, (s2, snd sm))
      | (Inr d, s2) \<Rightarrow>
     (case policies_GetByID (snap_policy_id sn) s2 of
        (Inl e, s3) \<Rightarrow> (missing_part ''policy'' e, (s3, snd sm))
      | (Inr p, s3) \<Rightarrow>
     (case jobs_Create now (restore_job sn agentID) s3 of
        (Inl e, s4) \<Rightarrow> (InternalError, (s4, snd sm))
      | (Inr j, s4) \<Rightarrow>
     (case mgr_Dispatch send_ok agentID (restore_assignment now j sn p target d) (snd sm) of
        (Inl e, m1) \<Rightarrow>
          (ServiceUnavailable (''agent is not connected '' @ dash @ '' ensure the agent is online and try again''),
           (s4, m1))
      | (Inr _, m1) \<Rightarrow>
          (Ok (JObj [(''job_id'', JStr (ID j))]),
           (logAudit env now r c ''snapshot.restore'' ''snapshot'' snapshotID
              [(''snapshot_id'', JStr (snap_snapshot_id sn)),
               (''destination_id'', JStr (snap_destination_id sn)),
               (''target_path'', JStr target), (''agent_id'', JStr agentID)] s4, m1)))))))))"

end
