(* ===== verification/ApiSettings.thy ===== *)
theory ApiSettings
  imports Api
begin

text \<open>The handlers of the settings (\<open>settings.go\<close>): identity providers, and the mail server with its recipients.\<close>

section \<open>Identity providers\<close>

definition oidc_json :: "api_env \<Rightarrow> oidc_provider \<Rightarrow> string \<Rightarrow> json" where
  "oidc_json env p callback = JObj
     [(''id'', JStr (ID p)), (''name'', JStr (op_name p)), (''issuer'', JStr (op_issuer p)),
      (''client_id'', JStr (op_client_id p)), (''callback_url'', JStr callback), (''scopes'', JStr (op_scopes p)),
      (''enabled'', JBool (op_enabled p)), (''created_at'', JStr (ae_rfc env (CreatedAt p))),
      (''updated_at'', JStr (ae_rfc env (UpdatedAt p)))]"

definition SettingsHandler_ListOIDC :: "api_env \<Rightarrow> http_request \<Rightarrow> store \<Rightarrow> reply \<times> store" where
  "SettingsHandler_ListOIDC env r s =
     (case oidc_List s of
        (Inl e, s1) \<Rightarrow> (InternalError, s1)
      | (Inr ps, s1) \<Rightarrow> (Ok (JArr (map (\<lambda>p. oidc_json env p (requestCallbackURL r)) ps)), s1))"

record oidc_request =
  or_name :: string
  or_issuer :: string
  or_client_id :: string
  or_client_secret :: string
  or_scopes :: string
  or_enabled :: bool

definition oidc_fields :: "string list" where
  "oidc_fields = [''name'', ''issuer'', ''client_id'', ''client_secret'', ''scopes'', ''enabled'']"

definition dec_oidc :: "(string \<times> json) list \<Rightarrow> oidc_request option" where
  "dec_oidc kvs =
     (case (json_field dec_string ''name'' [] kvs, json_field dec_string ''issuer'' [] kvs,
            json_field dec_string ''client_id'' [] kvs, json_field dec_string ''client_secret'' [] kvs,
            json_field dec_string ''scopes'' [] kvs, json_field dec_bool ''enabled'' False kvs) of
        (Some n, Some i, Some ci, Some cs, Some sc, Some e) \<Rightarrow>
          Some \<lparr>or_name = n, or_issuer = i, or_client_id = ci, or_client_secret = cs, or_scopes = sc,
                or_enabled = e\<rparr>
      | _ \<Rightarrow> None)"

text \<open>The missing field the request is refused for; the secret is required on creation only.\<close>

definition oidc_missing :: "bool \<Rightarrow> oidc_request \<Rightarrow> string option" where
  "oidc_missing create req =
     (if or_name req = [] then Some ''name is required''
      else if or_issuer req = [] then Some ''issuer is required''
      else if or_client_id req = [] then Some ''client_id is required''
      else if create \<and> or_client_secret req = [] then Some ''client_secret is required''
      else None)"

definition scopes_or_default :: "string \<Rightarrow> string" where
  "scopes_or_default sc = (if sc = [] then ''openid email profile'' else sc)"

definition SettingsHandler_CreateOIDC ::
  "api_env \<Rightarrow> time \<Rightarrow> claims option \<Rightarrow> http_request \<Rightarrow> store \<Rightarrow> reply \<times> store" where
  "SettingsHandler_CreateOIDC env now c r s =
     (case decodeJSON oidc_fields dec_oidc r of
        Inl bad \<Rightarrow> (bad, s)
      | Inr req \<Rightarrow>
     (case oidc_missing True req of
        Some e \<Rightarrow> (BadRequest e, s)
      | None \<Rightarrow>
     (case oidc_Create now
             \<lparr>ID = nil_uuid, CreatedAt = zero_time, UpdatedAt = zero_time, op_name = or_name req,
              op_issuer = or_issuer req, op_client_id = or_client_id req, op_client_secret = or_client_secret req,
              op_scopes = scopes_or_default (or_scopes req), op_enabled = or_enabled req\<rparr> s of
        (Inl e, s1) \<Rightarrow> (InternalError, s1)
      | (Inr p, s1) \<Rightarrow>
          (Created (oidc_json env p (requestCallbackURL r)),
           logAudit env now r c ''settings.oidc.create'' ''settings'' (ID p)
             [(''name'', JStr (op_name p)), (''issuer'', JStr (op_issuer p))] s1))))"

definition SettingsHandler_GetOIDCByID :: "api_env \<Rightarrow> http_request \<Rightarrow> store \<Rightarrow> reply \<times> store" where
  "SettingsHandler_GetOIDCByID env r s =
     (case parseUUID env r ''id'' of
        Inl bad \<Rightarrow> (bad, s)
      | Inr i \<Rightarrow>
          (case oidc_GetByID i s of
             (Inl e, s1) \<Rightarrow> (not_found_or_internal e, s1)
           | (Inr p, s1) \<Rightarrow> (Ok (oidc_json env p (requestCallbackURL r)), s1)))"

definition updated_oidc :: "oidc_request \<Rightarrow> oidc_provider \<Rightarrow> oidc_provider" where
  "updated_oidc req p = p\<lparr>op_name := or_name req, op_issuer := or_issuer req, op_client_id := or_client_id req,
     op_scopes := scopes_or_default (or_scopes req), op_enabled := or_enabled req,
     op_client_secret := (if or_client_secret req = [] then op_client_secret p else or_client_secret req)\<rparr>"

definition SettingsHandler_UpdateOIDC ::
  "api_env \<Rightarrow> time \<Rightarrow> claims option \<Rightarrow> http_request \<Rightarrow> store \<Rightarrow> reply \<times> store" where
  "SettingsHandler_UpdateOIDC env now c r s =
     (case parseUUID env r ''id'' of
        Inl bad \<Rightarrow> (bad, s)
      | Inr i \<Rightarrow>
     (case decodeJSON oidc_fields dec_oidc r of
        Inl bad \<Rightarrow> (bad, s)
      | Inr req \<Rightarrow>
     (case oidc_missing False req of
        Some e \<Rightarrow> (BadRequest e, s)
      | None \<Rightarrow>
     (case oidc_GetByID i s of
        (Inl e, s1) \<Rightarrow> (not_found_or_internal e, s1)
      | (Inr p, s1) \<Rightarrow>
          (let p1 = updated_oidc req p in
           case oidc_Update now p1 s1 of
             (Inl e, s2) \<Rightarrow> (InternalError, s2)
           | (Inr _, s2) \<Rightarrow>
               (Ok (oidc_json env (p1\<lparr>UpdatedAt := now\<rparr>) (requestCallbackURL r)),
                logAudit env now r c ''settings.oidc.update'' ''settings'' i
                  [(''name'', JStr (op_name p1)), (''issuer'', JStr (op_issuer p1))] s2))))))"

definition SettingsHandler_DeleteOIDC ::
  "api_env \<Rightarrow> time \<Rightarrow> claims option \<Rightarrow> http_request \<Rightarrow> store \<Rightarrow> reply \<times> store" where
  "SettingsHandler_DeleteOIDC env now c r s =
     (case parseUUID env r ''id'' of
        Inl bad \<Rightarrow> (bad, s)
      | Inr i \<Rightarrow>
     (case oidc_GetByID i s of
        (found, s1) \<Rightarrow>
     (case oidc_Delete i s1 of
        (Inl e, s2) \<Rightarrow> (not_found_or_internal e, s2)
      | (Inr _, s2) \<Rightarrow>
          (NoContent,
           logAudit env now r c ''settings.oidc.delete'' ''settings'' i
             [(''name'', JStr (case found of Inl _ \<Rightarrow> [] | Inr p \<Rightarrow> op_name p))] s2))))"

section \<open>Mail server\<close>

definition splitRecipients :: "string \<Rightarrow> string list" where
  "splitRecipients raw =
     (if raw = [] then [] else filter (\<lambda>x. x \<noteq> []) (map trim_space (split_on CHR '','' raw)))"

text \<open>A nil slice is written as \<open>null\<close>.\<close>

definition strings_json :: "string list option \<Rightarrow> json" where
  "strings_json xs = (case xs of None \<Rightarrow> JNull | Some ys \<Rightarrow> JArr (map JStr ys))"

definition smtp_json :: "string \<Rightarrow> int \<Rightarrow> string \<Rightarrow> string \<Rightarrow> bool \<Rightarrow> string list option \<Rightarrow> json" where
  "smtp_json host port username sender tls recipients = JObj
     [(''host'', JStr host), (''port'', jint port), (''username'', JStr username), (''password'', JStr ''***''),
      (''from'', JStr sender), (''tls'', JBool tls), (''recipients'', strings_json recipients)]"

definition SettingsHandler_GetSMTP :: "store \<Rightarrow> reply \<times> store" where
  "SettingsHandler_GetSMTP s =
     (case settings_GetMany ''smtp.'' s of
        (Inl e, s1) \<Rightarrow> (InternalError, s1)
      | (Inr xs, s1) \<Rightarrow>
          if xs = [] then (ResourceNotFound, s1)
          else (case settings_GetMany ''notification.'' s1 of
                  (Inl e, s2) \<Rightarrow> (InternalError, s2)
                | (Inr ns, s2) \<Rightarrow>
                    (let idx = settingsIndex xs; raw = settingsIndex ns ''notification.recipients'';
                         port = atoi_value (idx ''smtp.port'');
                         rcpts = splitRecipients raw in
                     (Ok (smtp_json (idx ''smtp.host'') port (idx ''smtp.username'') (idx ''smtp.from'')
                        (idx ''smtp.tls'' = ''true'')
                        (if raw \<noteq> [] \<and> rcpts = [] then None else Some rcpts)), s2))))"

record smtp_request =
  sr_host :: string
  sr_port :: int
  sr_username :: string
  sr_password :: string
  sr_from :: string
  sr_tls :: bool
  sr_recipients :: "string list option"

definition smtp_fields :: "string list" where
  "smtp_fields = [''host'', ''port'', ''username'', ''password'', ''from'', ''tls'', ''recipients'']"

definition dec_smtp :: "(string \<times> json) list \<Rightarrow> smtp_request option" where
  "dec_smtp kvs =
     (case (json_field dec_string ''host'' [] kvs, json_field dec_int ''port'' 0 kvs,
            json_field dec_string ''username'' [] kvs, json_field dec_string ''password'' [] kvs,
            json_field dec_string ''from'' [] kvs, json_field dec_bool ''tls'' False kvs,
            json_field (dec_ptr (dec_list dec_string []) []) ''recipients'' None kvs) of
        (Some h, Some p, Some u, Some pw, Some f, Some t, Some rs) \<Rightarrow>
          Some \<lparr>sr_host = h, sr_port = p, sr_username = u, sr_password = pw, sr_from = f, sr_tls = t,
                sr_recipients = rs\<rparr>
      | _ \<Rightarrow> None)"

definition validateUpsertSMTP :: "smtp_request \<Rightarrow> string option" where
  "validateUpsertSMTP req =
     (if sr_host req = [] then Some ''host is required''
      else if sr_port req < 1 \<or> 65535 < sr_port req then Some ''port must be between 1 and 65535''
      else if sr_from req = [] then Some ''from is required'' else None)"

definition request_recipients :: "smtp_request \<Rightarrow> string list" where
  "request_recipients req = (case sr_recipients req of None \<Rightarrow> [] | Some rs \<Rightarrow> rs)"

text \<open>What is written, in this order: an empty password with an empty user name, a given password otherwise, and the
stored one is kept when none is given.\<close>

definition smtp_pairs :: "smtp_request \<Rightarrow> (string \<times> string) list" where
  "smtp_pairs req =
     [(''smtp.host'', sr_host req), (''smtp.port'', int_text (sr_port req)), (''smtp.username'', sr_username req),
      (''smtp.from'', sr_from req), (''smtp.tls'', if sr_tls req then ''true'' else ''false''),
      (''notification.recipients'', join_with '','' (request_recipients req))]
     @ (if sr_username req = [] then [(''smtp.password'', [])]
        else if sr_password req \<noteq> [] then [(''smtp.password'', sr_password req)] else [])"

fun save_pairs :: "time \<Rightarrow> (string \<times> string) list \<Rightarrow> unit dbop" where
  "save_pairs now [] s = (Inr (), s)"
| "save_pairs now ((k, v) # kvs) s =
     (case settings_Set now k v s of (Inl e, s1) \<Rightarrow> (Inl e, s1) | (Inr _, s1) \<Rightarrow> save_pairs now kvs s1)"

definition SettingsHandler_UpsertSMTP ::
  "api_env \<Rightarrow> time \<Rightarrow> claims option \<Rightarrow> http_request \<Rightarrow> store \<Rightarrow> reply \<times> store" where
  "SettingsHandler_UpsertSMTP env now c r s =
     (case decodeJSON smtp_fields dec_smtp r of
        Inl bad \<Rightarrow> (bad, s)
      | Inr req \<Rightarrow>
     (case validateUpsertSMTP req of
        Some e \<Rightarrow> (BadRequest e, s)
      | None \<Rightarrow>
     (case save_pairs now (smtp_pairs req) s of
        (Inl e, s1) \<Rightarrow> (InternalError, s1)
      | (Inr _, s1) \<Rightarrow>
          (Ok (smtp_json (sr_host req) (sr_port req) (sr_username req) (sr_from req) (sr_tls req)
             (sr_recipients req)),
           logAudit env now r c ''settings.smtp.update'' ''settings'' []
             [(''host'', JStr (sr_host req)), (''port'', jint (sr_port req))] s1))))"

end
