(* ===== verification/ApiStatus.thy ===== *)
theory ApiStatus
  imports Api Scheduler
begin

text \<open>The probes (\<open>api/health.go\<close>) and the version check (\<open>api/version.go\<close>).  The answer of the release service
and the outcome of the database ping are parameters.\<close>

section \<open>Probes\<close>

record health_check =
  hc_status :: string
  hc_latency :: "int option"
  hc_error :: string

text \<open>\<open>ping\<close> is the error of the ping or its duration.\<close>

definition checkDatabase :: "string + time \<Rightarrow> health_check" where
  "checkDatabase ping =
     (case ping of
        Inl e \<Rightarrow> \<lparr>hc_status = ''error'', hc_latency = None, hc_error = e\<rparr>
      | Inr d \<Rightarrow> \<lparr>hc_status = ''ok'', hc_latency = Some (d div 1000000), hc_error = []\<rparr>)"

definition checkScheduler :: "scheduler \<Rightarrow> health_check" where
  "checkScheduler c =
     (if \<not> sch_running c
      then \<lparr>hc_status = ''error'', hc_latency = None, hc_error = ''scheduler is not running''\<rparr>
      else \<lparr>hc_status = ''ok'', hc_latency = None, hc_error = []\<rparr>)"

definition check_json :: "health_check \<Rightarrow> json" where
  "check_json c = JObj ([(''status'', JStr (hc_status c))] @
     (case hc_latency c of None \<Rightarrow> [] | Some ms \<Rightarrow> [(''latency_ms'', jint ms)]) @
     (if hc_error c = [] then [] else [(''error'', JStr (hc_error c))]))"

definition health_Live :: "int \<times> string" where
  "health_Live = (200, ''ok'')"

definition health_Ready :: "string + time \<Rightarrow> scheduler \<Rightarrow> reply" where
  "health_Ready ping c =
     (let d = checkDatabase ping; s = checkScheduler c;
          ok = (hc_status d = ''ok'' \<and> hc_status s = ''ok'') in
      reply_JSON (if ok then 200 else 503) (JObj
        [(''status'', JStr (if ok then ''healthy'' else ''unhealthy'')),
         (''checks'', JObj [(''database'', check_json d), (''scheduler'', check_json s)])]))"

text \<open>Ready means a database that answers and a scheduler that runs.\<close>

lemma health_Ready_status: "rp_status (health_Ready ping c) = 200 \<longleftrightarrow> (\<exists>d. ping = Inr d) \<and> sch_running c"
  by (cases ping) (simp_all add: health_Ready_def Let_def reply_JSON_def checkDatabase_def checkScheduler_def)

section \<open>Versions\<close>

text \<open>\<open>strings.SplitN\<close> for a positive count.\<close>

fun splitN :: "nat \<Rightarrow> char \<Rightarrow> string \<Rightarrow> string list" where
  "splitN 0 d s = []"
| "splitN (Suc 0) d s = [s]"
| "splitN (Suc (Suc n)) d s =
     (case dropWhile (\<lambda>c. c \<noteq> d) s of
        [] \<Rightarrow> [s] | _ # rest \<Rightarrow> takeWhile (\<lambda>c. c \<noteq> d) s # splitN (Suc n) d rest)"

definition trim_prefix :: "string \<Rightarrow> string \<Rightarrow> string" where
  "trim_prefix p s = (if starts_with p s then drop (length p) s else s)"

definition semver_number :: "string \<Rightarrow> int" where
  "semver_number p = atoi_value (hd (splitN 2 CHR ''-'' p))"

definition parseSemverParts :: "string \<Rightarrow> int list" where
  "parseSemverParts v =
     (let ns = map semver_number (splitN 3 CHR ''.'' (trim_prefix ''v'' v)) in
      ns @ replicate (3 - length ns) 0)"

fun compare_parts :: "int list \<Rightarrow> int list \<Rightarrow> int" where
  "compare_parts (a # as) (b # bs) =
     (if a < b then - 1 else if b < a then 1 else compare_parts as bs)"
| "compare_parts _ _ = 0"

definition compareServerVersions :: "string \<Rightarrow> string \<Rightarrow> int" where
  "compareServerVersions a b = compare_parts (parseSemverParts a) (parseSemverParts b)"

section \<open>The latest release\<close>

text \<open>The outcome of the request: an error, or a status and a body.\<close>

datatype release_answer = ReleaseError | ReleaseAnswer int string

record version_handler =
  vh_server :: string
  vh_latest :: string
  vh_at :: time

definition newVersionHandler :: "string \<Rightarrow> version_handler" where
  "newVersionHandler v = \<lparr>vh_server = v, vh_latest = [], vh_at = zero_time\<rparr>"

definition fetchFromGitHub :: "release_answer \<Rightarrow> version_handler \<Rightarrow> string" where
  "fetchFromGitHub ans h =
     (case ans of
        ReleaseError \<Rightarrow> vh_server h
      | ReleaseAnswer status body \<Rightarrow>
          if status \<noteq> 200 then vh_server h
          else (case decode_struct (json_field dec_string ''tag_name'' []) body of
                  None \<Rightarrow> vh_server h
                | Some name \<Rightarrow> (let tag = trim_prefix ''v'' name in if tag = [] then vh_server h else tag)))"

definition getLatest :: "time \<Rightarrow> release_answer \<Rightarrow> version_handler \<Rightarrow> string \<times> version_handler" where
  "getLatest now ans h =
     (if vh_latest h \<noteq> [] \<and> now - vh_at h < hour then (vh_latest h, h)
      else (let latest = fetchFromGitHub ans h in (latest, h\<lparr>vh_latest := latest, vh_at := now\<rparr>)))"

definition version_Get :: "time \<Rightarrow> release_answer \<Rightarrow> version_handler \<Rightarrow> reply \<times> version_handler" where
  "version_Get now ans h =
     (case getLatest now ans h of
        (latest, h1) \<Rightarrow>
          (Ok (JObj [(''server_version'', JStr (vh_server h)), (''latest_version'', JStr latest),
                     (''update_available'', JBool (compareServerVersions (vh_server h) latest < 0))]), h1))"

text \<open>Comparing versions is comparing their three numbers, the first difference deciding.\<close>

lemma parseSemverParts_length [simp]: "length (parseSemverParts v) = 3"
proof -
  have "length (splitN n d s) \<le> n" for n d s
    by (induction n d s rule: splitN.induct) (auto split: list.split)
  then show ?thesis by (simp add: parseSemverParts_def Let_def)
qed

lemma compare_parts_sign:
  "length as = length bs \<Longrightarrow>
   (compare_parts as bs < 0 \<longleftrightarrow> as < bs) \<and> (compare_parts as bs = 0 \<longleftrightarrow> as = bs) \<and>
   (0 < compare_parts as bs \<longleftrightarrow> bs < as)"
  by (induction as bs rule: list_induct2) auto

lemma compareServerVersions_order:
  "compareServerVersions a b < 0 \<longleftrightarrow> parseSemverParts a < parseSemverParts b"
  "compareServerVersions a b = 0 \<longleftrightarrow> parseSemverParts a = parseSemverParts b"
  by (simp_all add: compareServerVersions_def compare_parts_sign)

text \<open>A failed request never announces an update.\<close>

lemma failed_fetch_no_update:
  assumes "ans = ReleaseError \<or> (\<exists>st body. ans = ReleaseAnswer st body \<and> st \<noteq> 200)"
  shows "compareServerVersions (vh_server h) (fetchFromGitHub ans h) = 0"
  using assms by (auto simp: fetchFromGitHub_def compareServerVersions_order)

end
