(* ===== verification/Dashboard.thy ===== *)
theory Dashboard
  imports Api
begin

text \<open>The statistics of the dashboard: the queries of \<open>repositories/dashboard.go\<close> and their handler
\<open>api/dashboards.go\<close>.  The database groups by the day as its own expression gives it and compares times in its own
way (record \<open>dialect\<close>); the days that are looked up are rendered by Go, in UTC.  One clock reading serves the whole
request.\<close>

section \<open>Statistics\<close>

record day_jobs =
  dj_date :: string
  dj_succeeded :: nat
  dj_failed :: nat

record day_size =
  dz_date :: string
  dz_bytes :: int

record dashboard_stats =
  ds_agents :: nat
  ds_agents_online :: nat
  ds_policies :: nat
  ds_policies_active :: nat
  ds_today :: nat
  ds_today_succeeded :: nat
  ds_today_failed :: nat
  ds_snapshots :: nat
  ds_snapshots_size :: int
  ds_job_activity :: "day_jobs list"
  ds_size_activity :: "day_size list"

definition day_length :: time where "day_length = 24 * hour"

text \<open>\<open>Truncate(24 * time.Hour)\<close>.\<close>

definition day_start :: "time \<Rightarrow> time" where "day_start t = t - t mod day_length"

text \<open>The days of the charts, the oldest first, and the start of the first of them.\<close>

definition week_days :: "time \<Rightarrow> time list" where
  "week_days now = map (\<lambda>i. now - (6 - int i) * day_length) [0..<7]"

definition week_start :: "time \<Rightarrow> time" where
  "week_start now = day_start (now - 6 * day_length)"

section \<open>Times in SQL\<close>

text \<open>SQLite holds a time as the text the driver wrote, in the zone the value had: \<open>dl_created\<close> for the column
\<open>created_at\<close> (stamped by GORM in local time), \<open>dl_taken\<close> for \<open>snapshot_at\<close>, and \<open>dl_bound\<close> for a parameter
of a query.  PostgreSQL holds a timestamp, which \<open>dl_to_char\<close> renders as \<open>YYYY-MM-DD\<close>.  \<open>dl_day\<close> is
\<open>t.UTC().Format("2006-01-02")\<close>.\<close>

record dialect =
  dl_postgres :: bool
  dl_created :: "time \<Rightarrow> string"
  dl_taken :: "time \<Rightarrow> string"
  dl_bound :: "time \<Rightarrow> string"
  dl_to_char :: "time \<Rightarrow> string"
  dl_day :: "time \<Rightarrow> string"

text \<open>\<open>col\<close> is the text of the column.\<close>

definition dateColExpr :: "dialect \<Rightarrow> (time \<Rightarrow> string) \<Rightarrow> time \<Rightarrow> string" where
  "dateColExpr d col t = (if dl_postgres d then dl_to_char d t else take 10 (col t))"

text \<open>\<open>col >= ?\<close> and \<open>col < ?\<close>: a comparison of timestamps, or of texts.\<close>

definition sql_since :: "dialect \<Rightarrow> (time \<Rightarrow> string) \<Rightarrow> time \<Rightarrow> time \<Rightarrow> bool" where
  "sql_since d col start t = (if dl_postgres d then start \<le> t else dl_bound d start \<le> col t)"

definition sql_before :: "dialect \<Rightarrow> (time \<Rightarrow> string) \<Rightarrow> time \<Rightarrow> time \<Rightarrow> bool" where
  "sql_before d col bound t = (if dl_postgres d then t < bound else col t < dl_bound d bound)"

section \<open>Grouping\<close>

text \<open>\<open>GROUP BY\<close>: one row per key, with the rows that have it.\<close>

definition group_by :: "('r \<Rightarrow> 'k) \<Rightarrow> 'r list \<Rightarrow> ('k \<times> 'r list) list" where
  "group_by key rs = map (\<lambda>k. (k, filter (\<lambda>r. key r = k) rs)) (remdups (map key rs))"

text \<open>The rows of the two activity queries, ordered by date.\<close>

definition job_rows :: "dialect \<Rightarrow> time \<Rightarrow> job list \<Rightarrow> ((string \<times> string) \<times> nat) list" where
  "job_rows d start js =
     sort_key (fst \<circ> fst) (map (\<lambda>(k, rs). (k, length rs))
       (group_by (\<lambda>j. (dateColExpr d (dl_created d) (CreatedAt j), job_status j))
         (filter (\<lambda>j. sql_since d (dl_created d) start (CreatedAt j) \<and> job_status j \<in> {''succeeded'', ''failed''}) js)))"

definition size_rows :: "dialect \<Rightarrow> time \<Rightarrow> snapshot list \<Rightarrow> (string \<times> int) list" where
  "size_rows d start ns =
     sort_key fst (map (\<lambda>(k, rs). (k, sum_list (map snap_size_bytes rs)))
       (group_by (\<lambda>n. dateColExpr d (dl_taken d) (snap_at n))
         (filter (\<lambda>n. sql_since d (dl_taken d) start (snap_at n)) ns)))"

text \<open>The lookup tables built from the rows; a date that is missing has the zero value.\<close>

definition day_counts :: "(string \<times> (nat \<times> nat)) list \<Rightarrow> string \<Rightarrow> nat \<times> nat" where
  "day_counts m d = (case map_of m d of None \<Rightarrow> (0, 0) | Some c \<Rightarrow> c)"

definition add_job_row ::
  "(string \<times> string) \<times> nat \<Rightarrow> (string \<times> (nat \<times> nat)) list \<Rightarrow> (string \<times> (nat \<times> nat)) list" where
  "add_job_row row m =
     (let d = fst (fst row); c = day_counts m d in
      map_put d (if snd (fst row) = ''succeeded'' then (snd row, snd c) else (fst c, snd row)) m)"

definition job_map :: "((string \<times> string) \<times> nat) list \<Rightarrow> (string \<times> (nat \<times> nat)) list" where
  "job_map rows = fold add_job_row rows []"

definition size_map :: "(string \<times> int) list \<Rightarrow> (string \<times> int) list" where
  "size_map rows = fold (\<lambda>(d, n). map_put d n) rows []"

definition size_of_day :: "(string \<times> int) list \<Rightarrow> string \<Rightarrow> int" where
  "size_of_day m d = (case map_of m d of None \<Rightarrow> 0 | Some n \<Rightarrow> n)"

definition job_activity :: "dialect \<Rightarrow> time \<Rightarrow> ((string \<times> string) \<times> nat) list \<Rightarrow> day_jobs list" where
  "job_activity d now rows =
     map (\<lambda>t. let c = day_counts (job_map rows) (dl_day d t) in
            \<lparr>dj_date = dl_day d t, dj_succeeded = fst c, dj_failed = snd c\<rparr>) (week_days now)"

definition size_activity :: "dialect \<Rightarrow> time \<Rightarrow> (string \<times> int) list \<Rightarrow> day_size list" where
  "size_activity d now rows =
     map (\<lambda>t. \<lparr>dz_date = dl_day d t, dz_bytes = size_of_day (size_map rows) (dl_day d t)\<rparr>) (week_days now)"

section \<open>The queries\<close>

text \<open>The next query runs only when this one succeeded.\<close>

definition then_query :: "'a dbop \<Rightarrow> ('a \<Rightarrow> 'b dbop) \<Rightarrow> 'b dbop" where
  "then_query m f s = (case m s of (Inl e, s1) \<Rightarrow> (Inl ErrDB, s1) | (Inr a, s1) \<Rightarrow> f a s1)"

definition today_count :: "dialect \<Rightarrow> time \<Rightarrow> (job \<Rightarrow> bool) \<Rightarrow> nat dbop" where
  "today_count d now P =
     db_count jobs (\<lambda>j. sql_since d (dl_created d) (day_start now) (CreatedAt j) \<and>
       sql_before d (dl_created d) (day_start now + day_length) (CreatedAt j) \<and> P j)"

definition select_rows :: "(store \<Rightarrow> 'a) \<Rightarrow> 'a dbop" where
  "select_rows q = sql (\<lambda>s. (Inr (q s), s))"

definition GetStats :: "dialect \<Rightarrow> time \<Rightarrow> dashboard_stats dbop" where
  "GetStats d now =
     then_query (db_count agents live) (\<lambda>agents_total.
     then_query (db_count agents (\<lambda>a. live a \<and> ag_status a = ''online'')) (\<lambda>online.
     then_query (db_count policies live) (\<lambda>policies_total.
     then_query (db_count policies (\<lambda>p. live p \<and> pol_enabled p)) (\<lambda>active.
     then_query (today_count d now (\<lambda>_. True)) (\<lambda>today.
     then_query (today_count d now (\<lambda>j. job_status j = ''succeeded'')) (\<lambda>today_ok.
     then_query (today_count d now (\<lambda>j. job_status j = ''failed'')) (\<lambda>today_bad.
     then_query (db_count snapshots (\<lambda>_. True)) (\<lambda>snaps.
     then_query (select_rows (\<lambda>s. sum_list (map snap_size_bytes (snapshots s)))) (\<lambda>size.
     then_query (select_rows (\<lambda>s. job_rows d (week_start now) (jobs s))) (\<lambda>jrows.
     then_query (select_rows (\<lambda>s. size_rows d (week_start now) (snapshots s))) (\<lambda>zrows s.
       (Inr \<lparr>ds_agents = agents_total, ds_agents_online = online, ds_policies = policies_total,
             ds_policies_active = active, ds_today = today, ds_today_succeeded = today_ok,
             ds_today_failed = today_bad, ds_snapshots = snaps, ds_snapshots_size = size,
             ds_job_activity = job_activity d now jrows,
             ds_size_activity = size_activity d now zrows\<rparr>, s))))))))))))"

section \<open>The handler\<close>

definition dashboard_json :: "dashboard_stats \<Rightarrow> json" where
  "dashboard_json d = JObj
     [(''agents_total'', jint (int (ds_agents d))), (''agents_online'', jint (int (ds_agents_online d))),
      (''policies_total'', jint (int (ds_policies d))), (''policies_active'', jint (int (ds_policies_active d))),
      (''jobs_today_total'', jint (int (ds_today d))),
      (''jobs_today_succeeded'', jint (int (ds_today_succeeded d))),
      (''jobs_today_failed'', jint (int (ds_today_failed d))),
      (''snapshots_total'', jint (int (ds_snapshots d))), (''snapshots_total_size'', jint (ds_snapshots_size d)),
      (''job_activity'', JArr (map (\<lambda>a. JObj [(''date'', JStr (dj_date a)),
          (''succeeded'', jint (int (dj_succeeded a))), (''failed'', jint (int (dj_failed a)))])
        (ds_job_activity d))),
      (''size_activity'', JArr (map (\<lambda>a. JObj [(''date'', JStr (dz_date a)), (''size_bytes'', jint (dz_bytes a))])
        (ds_size_activity d)))]"

definition DashboardHandler_Get :: "dialect \<Rightarrow> time \<Rightarrow> store \<Rightarrow> reply \<times> store" where
  "DashboardHandler_Get d now s =
     (case GetStats d now s of
        (Inl e, s1) \<Rightarrow> (InternalError, s1)
      | (Inr st, s1) \<Rightarrow> (Ok (dashboard_json st), s1))"

end
