(* ===== verification/Router.thy ===== *)
theory Router
  imports ApiUsers ApiAuth ApiPolicies ApiResources ApiSnapshots ApiSettings ApiStatus Dashboard
begin

text \<open>The router of the server (\<open>server/internal/api/router.go\<close>): the table of endpoints with the middleware in
front of each, the state the handlers share, and the way of a request from the middlewares to the handler.

Finding the entry of a method and a path is the mux's, and replacing the remote address is the \<open>RealIP\<close>
middleware's; both are third-party and parameters.\<close>

section \<open>State and configuration\<close>

record server_state =
  sv_store :: store
  sv_denylist :: denylist
  sv_scheduler :: scheduler
  sv_manager :: manager
  sv_logins :: rate_limiter
  sv_enrolls :: rate_limiter
  sv_certs :: auto_certs
  sv_version :: version_handler

record server_config =
  sc_env :: api_env
  sc_enroll :: bool
  sc_secret :: string
  sc_pki :: pki
  sc_idp :: identity_provider
  sc_cron_error :: "string \<Rightarrow> string option"
  sc_cron_ok :: "string \<Rightarrow> bool"
  sc_send_ok :: "nat \<Rightarrow> assignment \<Rightarrow> bool"
  sc_parse_time :: "string \<Rightarrow> time option"
  sc_dialect :: dialect
  sc_real_ip :: "(string \<Rightarrow> string) \<Rightarrow> string \<Rightarrow> string"

text \<open>What a request draws from its surroundings: clock, random values, the answers of other services, the order in
which a Go map is traversed.\<close>

record surroundings =
  su_now :: time
  su_issue :: issue_input
  su_salt :: "string option"
  su_random_state :: "string option"
  su_random_verifier :: "string option"
  su_uuid :: string
  su_key :: "string option"
  su_release :: release_answer
  su_ping :: "string + time"
  su_arrange :: "uuid list \<Rightarrow> uuid list"

text \<open>An answer: a reply of the handlers; plain text; a JSON value without the envelope; the refusal of a limiter,
with its \<open>Retry-After\<close>; the page of the metrics library; a connection upgraded for the topics; a handler that waits
for an agent, with the correlation id of its question; the mux's own answer to an unknown method or path.\<close>

datatype answer =
    Reply reply
  | Plain int string
  | RawJSON json
  | TooMany string
  | MetricsPage
  | Upgrade "string list"
  | Waiting string
  | Unrouted

text \<open>The server at its start.\<close>

definition NewRouter_state ::
  "store \<Rightarrow> scheduler \<Rightarrow> manager \<Rightarrow> auto_certs \<Rightarrow> string \<Rightarrow> server_state" where
  "NewRouter_state s c m ac v =
     \<lparr>sv_store = s, sv_denylist = NewDenylist, sv_scheduler = c, sv_manager = m,
      sv_logins = NewRateLimiter 5 minute, sv_enrolls = enrollLimiter, sv_certs = ac,
      sv_version = newVersionHandler v\<rparr>"

section \<open>The table\<close>

text \<open>The metrics page is mounted for every method and every path below its own; one entry stands for it.\<close>

datatype http_method = GET | POST | PATCH | PUT | DELETE

text \<open>Public, behind the limiter of logins, behind \<open>Authenticate\<close>, behind \<open>RequireRole("admin")\<close> as well.\<close>

datatype access = Public | Limited | Session | AdminOnly

datatype endpoint =
    HealthLive | HealthReady | Metrics | OIDCCallback | LoginEP | RefreshEP | OIDCProviders | OIDCLogin
  | SetupStatus | SetupComplete | EnrollEP | WebSocket
  | DashboardEP | Version | LogoutEP | GetMe | UpdateMe
  | AgentsList | AgentCreate | AgentGet | AgentUpdate | AgentDelete | AgentVolumes
  | DestinationsList | DestinationCreate | DestinationGet | DestinationUpdate | DestinationDelete
  | PoliciesList | PolicyCreate | PolicyGet | PolicyUpdate | PolicyDelete | PolicyTrigger | PolicyJobs
  | JobsList | JobGet | JobLogs
  | SnapshotsList | SnapshotGet | SnapshotDelete | SnapshotRestore
  | NotificationsList | NotificationRead | NotificationsReadAll
  | UsersList | UserCreate | UserGet | UserUpdate | UserDelete
  | OIDCList | OIDCCreate | OIDCGet | OIDCUpdate | OIDCDelete
  | SMTPGet | SMTPUpsert | DeliveryQueue | AuditList

record route =
  rt_method :: http_method
  rt_pattern :: string
  rt_access :: access
  rt_endpoint :: endpoint

definition entry :: "access \<Rightarrow> http_method \<Rightarrow> string \<Rightarrow> endpoint \<Rightarrow> route" where
  "entry acc m p e = \<lparr>rt_method = m, rt_pattern = p, rt_access = acc, rt_endpoint = e\<rparr>"

definition api :: "access \<Rightarrow> http_method \<Rightarrow> string \<Rightarrow> endpoint \<Rightarrow> route" where
  "api acc m p e = entry acc m (''/api/v1'' @ p) e"

definition public_routes :: "server_config \<Rightarrow> route list" where
  "public_routes cfg =
     [entry Public GET ''/health/live'' HealthLive,
      entry Public GET ''/health/ready'' HealthReady,
      entry Public GET ''/metrics'' Metrics,
      entry Public GET ''/auth/oidc/callback'' OIDCCallback,
      api Limited POST ''/auth/login'' LoginEP,
      api Limited POST ''/auth/refresh'' RefreshEP,
      api Public GET ''/auth/oidc/providers'' OIDCProviders,
      api Public GET ''/auth/oidc/login'' OIDCLogin,
      api Public GET ''/setup/status'' SetupStatus,
      api Public POST ''/setup/complete'' SetupComplete] @
     (if sc_enroll cfg then [api Public POST ''/agents/enroll'' EnrollEP] else []) @
     [api Public GET ''/ws'' WebSocket]"

definition session_routes :: "route list" where
  "session_routes =
     [api Session GET ''/dashboard'' DashboardEP,
      api Session GET ''/version'' Version,
      api Session POST ''/auth/logout'' LogoutEP,
      api Session GET ''/users/me'' GetMe,
      api Session PATCH ''/users/me'' UpdateMe,
      api Session GET ''/agents'' AgentsList,
      api Session POST ''/agents'' AgentCreate,
      api Session GET ''/agents/{id}'' AgentGet,
      api Session PATCH ''/agents/{id}'' AgentUpdate,
      api AdminOnly DELETE ''/agents/{id}'' AgentDelete,
      api Session GET ''/agents/{id}/volumes'' AgentVolumes,
      api Session GET ''/destinations'' DestinationsList,
      api Session POST ''/destinations'' DestinationCreate,
      api Session GET ''/destinations/{id}'' DestinationGet,
      api Session PATCH ''/destinations/{id}'' DestinationUpdate,
      api Session DELETE ''/destinations/{id}'' DestinationDelete,
      api Session GET ''/policies'' PoliciesList,
      api Session POST ''/policies'' PolicyCreate,
      api Session GET ''/policies/{id}'' PolicyGet,
      api Session PATCH ''/policies/{id}'' PolicyUpdate,
      api AdminOnly DELETE ''/policies/{id}'' PolicyDelete,
      api AdminOnly POST ''/policies/{id}/trigger'' PolicyTrigger,
      api Session GET ''/policies/{id}/jobs'' PolicyJobs,
      api Session GET ''/jobs'' JobsList,
      api Session GET ''/jobs/{id}'' JobGet,
      api Session GET ''/jobs/{id}/logs'' JobLogs,
      api Session GET ''/snapshots'' SnapshotsList,
      api Session GET ''/snapshots/{id}'' SnapshotGet,
      api AdminOnly DELETE ''/snapshots/{id}'' SnapshotDelete,
      api AdminOnly POST ''/snapshots/{id}/restore'' SnapshotRestore,
      api Session GET ''/notifications'' NotificationsList,
      api Session PATCH ''/notifications/{id}/read'' NotificationRead,
      api Session PATCH ''/notifications/read-all'' NotificationsReadAll]"

definition admin_routes :: "route list" where
  "admin_routes =
     [api AdminOnly GET ''/users'' UsersList,
      api AdminOnly POST ''/users'' UserCreate,
      api AdminOnly GET ''/users/{id}'' UserGet,
      api AdminOnly PATCH ''/users/{id}'' UserUpdate,
      api AdminOnly DELETE ''/users/{id}'' UserDelete,
      api AdminOnly GET ''/settings/oidc'' OIDCList,
      api AdminOnly POST ''/settings/oidc'' OIDCCreate,
      api AdminOnly GET ''/settings/oidc/{id}'' OIDCGet,
      api AdminOnly PUT ''/settings/oidc/{id}'' OIDCUpdate,
      api AdminOnly DELETE ''/settings/oidc/{id}'' OIDCDelete,
      api AdminOnly GET ''/settings/smtp'' SMTPGet,
      api AdminOnly PUT ''/settings/smtp'' SMTPUpsert,
      api AdminOnly GET ''/notifications/queue'' DeliveryQueue,
      api AdminOnly GET ''/audit'' AuditList]"

definition router_routes :: "server_config \<Rightarrow> route list" where
  "router_routes cfg = public_routes cfg @ session_routes @ admin_routes"

section \<open>Handlers on the shared state\<close>

definition on_store :: "(store \<Rightarrow> reply \<times> store) \<Rightarrow> server_state \<Rightarrow> answer \<times> server_state" where
  "on_store h st = (case h (sv_store st) of (rp, s1) \<Rightarrow> (Reply rp, st\<lparr>sv_store := s1\<rparr>))"

definition on_denylist :: "(store \<times> denylist \<Rightarrow> reply \<times> (store \<times> denylist)) \<Rightarrow> server_state \<Rightarrow> answer \<times> server_state" where
  "on_denylist h st =
     (case h (sv_store st, sv_denylist st) of
        (rp, (s1, d1)) \<Rightarrow> (Reply rp, st\<lparr>sv_store := s1, sv_denylist := d1\<rparr>))"

definition on_scheduler :: "(store \<times> scheduler \<Rightarrow> reply \<times> (store \<times> scheduler)) \<Rightarrow> server_state \<Rightarrow> answer \<times> server_state" where
  "on_scheduler h st =
     (case h (sv_store st, sv_scheduler st) of
        (rp, (s1, c1)) \<Rightarrow> (Reply rp, st\<lparr>sv_store := s1, sv_scheduler := c1\<rparr>))"

definition on_manager :: "(store \<times> manager \<Rightarrow> reply \<times> (store \<times> manager)) \<Rightarrow> server_state \<Rightarrow> answer \<times> server_state" where
  "on_manager h st =
     (case h (sv_store st, sv_manager st) of
        (rp, (s1, m1)) \<Rightarrow> (Reply rp, st\<lparr>sv_store := s1, sv_manager := m1\<rparr>))"

definition validate_token :: "server_config \<Rightarrow> surroundings \<Rightarrow> server_state \<Rightarrow> string \<Rightarrow> auth_error + claims" where
  "validate_token cfg su st token = ValidateAccessToken (ae_crypto (sc_env cfg)) (su_now su) token (sv_denylist st)"

definition enroll_endpoint ::
  "server_config \<Rightarrow> surroundings \<Rightarrow> http_request \<Rightarrow> server_state \<Rightarrow> answer \<times> server_state" where
  "enroll_endpoint cfg su r st =
     (case EnrollHandler_Enroll (sc_pki cfg) (sc_secret cfg) (su_now su) (su_uuid su) (su_key su) r
             (sv_enrolls st, sv_certs st) of
        (out, (rl1, ac1)) \<Rightarrow>
          ((case out of Inl (code, text) \<Rightarrow> Plain code text | Inr j \<Rightarrow> RawJSON j),
           st\<lparr>sv_enrolls := rl1, sv_certs := ac1\<rparr>))"

definition volumes_endpoint ::
  "server_config \<Rightarrow> surroundings \<Rightarrow> http_request \<Rightarrow> server_state \<Rightarrow> answer \<times> server_state" where
  "volumes_endpoint cfg su r st =
     (case AgentHandler_ListVolumes_start (sc_env cfg) (sc_send_ok cfg) (su_now su) (su_uuid su) r (sv_manager st) of
        (out, m1) \<Rightarrow>
          ((case out of Inl rp \<Rightarrow> Reply rp | Inr corr \<Rightarrow> Waiting corr), st\<lparr>sv_manager := m1\<rparr>))"

definition version_endpoint :: "surroundings \<Rightarrow> server_state \<Rightarrow> answer \<times> server_state" where
  "version_endpoint su st =
     (case version_Get (su_now su) (su_release su) (sv_version st) of
        (rp, h1) \<Rightarrow> (Reply rp, st\<lparr>sv_version := h1\<rparr>))"

definition websocket_endpoint ::
  "server_config \<Rightarrow> surroundings \<Rightarrow> http_request \<Rightarrow> server_state \<Rightarrow> answer \<times> server_state" where
  "websocket_endpoint cfg su r st =
     ((case ServeWS (validate_token cfg su st) r of Inl rp \<Rightarrow> Reply rp | Inr topics \<Rightarrow> Upgrade topics), st)"

definition endpoint_handler ::
  "server_config \<Rightarrow> surroundings \<Rightarrow> endpoint \<Rightarrow> claims option \<Rightarrow> http_request \<Rightarrow> server_state \<Rightarrow>
   answer \<times> server_state" where
  "endpoint_handler cfg su ep c r =
     (let env = sc_env cfg; now = su_now su; salt = su_salt su; inp = su_issue su; idp = sc_idp cfg in
      case ep of
        HealthLive \<Rightarrow> Pair (Plain (fst health_Live) (snd health_Live))
      | HealthReady \<Rightarrow> (\<lambda>st. (Reply (health_Ready (su_ping su) (sv_scheduler st)), st))
      | Metrics \<Rightarrow> Pair MetricsPage
      | OIDCCallback \<Rightarrow> on_store (AuthHandler_OIDCCallback env idp now inp r)
      | LoginEP \<Rightarrow> on_denylist (AuthHandler_Login env now inp r)
      | RefreshEP \<Rightarrow> on_store (AuthHandler_Refresh env now inp r)
      | OIDCProviders \<Rightarrow> on_store AuthHandler_ListOIDCProviders
      | OIDCLogin \<Rightarrow> on_store (AuthHandler_OIDCLogin env idp now (su_random_state su) (su_random_verifier su) r)
      | SetupStatus \<Rightarrow> on_store setup_GetStatus
      | SetupComplete \<Rightarrow> on_store (setup_Complete env now salt r)
      | EnrollEP \<Rightarrow> enroll_endpoint cfg su r
      | WebSocket \<Rightarrow> websocket_endpoint cfg su r
      | DashboardEP \<Rightarrow> on_store (DashboardHandler_Get (sc_dialect cfg) now)
      | Version \<Rightarrow> version_endpoint su
      | LogoutEP \<Rightarrow> on_denylist (AuthHandler_Logout env now c r)
      | GetMe \<Rightarrow> on_store (UserHandler_GetMe env c)
      | UpdateMe \<Rightarrow> on_store (UserHandler_UpdateMe env now salt c r)
      | AgentsList \<Rightarrow> on_store (AgentHandler_List env r)
      | AgentCreate \<Rightarrow> on_store (AgentHandler_Create env now c r)
      | AgentGet \<Rightarrow> on_store (AgentHandler_GetByID env r)
      | AgentUpdate \<Rightarrow> on_store (AgentHandler_Update env now c r)
      | AgentDelete \<Rightarrow> on_store (AgentHandler_Delete env now c r)
      | AgentVolumes \<Rightarrow> volumes_endpoint cfg su r
      | DestinationsList \<Rightarrow> on_store (DestinationHandler_List env r)
      | DestinationCreate \<Rightarrow> on_store (DestinationHandler_Create env now c r)
      | DestinationGet \<Rightarrow> on_store (DestinationHandler_GetByID env r)
      | DestinationUpdate \<Rightarrow> on_store (DestinationHandler_Update env now c r)
      | DestinationDelete \<Rightarrow> on_store (DestinationHandler_Delete env now c r)
      | PoliciesList \<Rightarrow> on_store (PolicyHandler_List env (su_arrange su) r)
      | PolicyCreate \<Rightarrow> on_scheduler (PolicyHandler_Create env (sc_cron_error cfg) (sc_cron_ok cfg) now c r)
      | PolicyGet \<Rightarrow> on_store (PolicyHandler_GetByID env r)
      | PolicyUpdate \<Rightarrow> on_scheduler (PolicyHandler_Update env (sc_cron_error cfg) (sc_cron_ok cfg) now c r)
      | PolicyDelete \<Rightarrow> on_scheduler (PolicyHandler_Delete env now c r)
      | PolicyTrigger \<Rightarrow> on_manager (PolicyHandler_Trigger env (sc_send_ok cfg) now c r)
      | PolicyJobs \<Rightarrow> on_store (JobHandler_ListByPolicy env r)
      | JobsList \<Rightarrow> on_store (JobHandler_List env r)
      | JobGet \<Rightarrow> on_store (JobHandler_GetByID env r)
      | JobLogs \<Rightarrow> on_store (JobHandler_GetLogs env r)
      | SnapshotsList \<Rightarrow> on_store (SnapshotHandler_List env r)
      | SnapshotGet \<Rightarrow> on_store (SnapshotHandler_GetByID env r)
      | SnapshotDelete \<Rightarrow> on_store (SnapshotHandler_Delete env now c r)
      | SnapshotRestore \<Rightarrow> on_manager (SnapshotHandler_Restore env (sc_send_ok cfg) now c r)
      | NotificationsList \<Rightarrow> on_store (NotificationHandler_List env c r)
      | NotificationRead \<Rightarrow> on_store (NotificationHandler_MarkAsRead env now c r)
      | NotificationsReadAll \<Rightarrow> on_store (NotificationHandler_MarkAllAsRead env now c)
      | UsersList \<Rightarrow> on_store (UserHandler_List env r)
      | UserCreate \<Rightarrow> on_store (UserHandler_Create env now salt c r)
      | UserGet \<Rightarrow> on_store (UserHandler_GetByID env r)
      | UserUpdate \<Rightarrow> on_store (UserHandler_Update env now salt c r)
      | UserDelete \<Rightarrow> on_store (UserHandler_Delete env now c r)
      | OIDCList \<Rightarrow> on_store (SettingsHandler_ListOIDC env r)
      | OIDCCreate \<Rightarrow> on_store (SettingsHandler_CreateOIDC env now c r)
      | OIDCGet \<Rightarrow> on_store (SettingsHandler_GetOIDCByID env r)
      | OIDCUpdate \<Rightarrow> on_store (SettingsHandler_UpdateOIDC env now c r)
      | OIDCDelete \<Rightarrow> on_store (SettingsHandler_DeleteOIDC env now c r)
      | SMTPGet \<Rightarrow> on_store SettingsHandler_GetSMTP
      | SMTPUpsert \<Rightarrow> on_store (SettingsHandler_UpsertSMTP env now c r)
      | DeliveryQueue \<Rightarrow> on_store (NotificationHandler_ListDeliveryQueue env r)
      | AuditList \<Rightarrow> on_store (AuditHandler_List env (sc_parse_time cfg) r))"

section \<open>A request\<close>

definition guarded ::
  "server_config \<Rightarrow> surroundings \<Rightarrow> access \<Rightarrow>
   (claims option \<Rightarrow> http_request \<Rightarrow> server_state \<Rightarrow> answer \<times> server_state) \<Rightarrow>
   http_request \<Rightarrow> server_state \<Rightarrow> answer \<times> server_state" where
  "guarded cfg su acc h r st =
     (case acc of
        Public \<Rightarrow> h None r st
      | Limited \<Rightarrow>
          (case RateLimit (su_now su) (clientIP r)
                  (\<lambda>rl. case h None r (st\<lparr>sv_logins := rl\<rparr>) of (a, st1) \<Rightarrow> ((a, st1), sv_logins st1)) (sv_logins st) of
             (Inl (code, retry), rl) \<Rightarrow> (TooMany retry, st\<lparr>sv_logins := rl\<rparr>)
           | (Inr (a, st1), rl) \<Rightarrow> (a, st1\<lparr>sv_logins := rl\<rparr>))
      | Session \<Rightarrow> Authenticate (validate_token cfg su st) Reply h r st
      | AdminOnly \<Rightarrow> Authenticate (validate_token cfg su st) Reply (RequireRole ''admin'' Reply h) r st)"

text \<open>The headers that every answer carries.\<close>

definition SecurityHeaders :: "(string \<times> string) list" where
  "SecurityHeaders =
     [(''X-Content-Type-Options'', ''nosniff''), (''X-Frame-Options'', ''DENY''),
      (''Referrer-Policy'', ''strict-origin-when-cross-origin''),
      (''Permissions-Policy'', ''camera=(), microphone=(), geolocation=()'')]"

type_synonym mux = "route list \<Rightarrow> http_method \<Rightarrow> string \<Rightarrow> (route \<times> (string \<Rightarrow> string)) option"

definition real_ip :: "server_config \<Rightarrow> http_request \<Rightarrow> http_request" where
  "real_ip cfg r = r\<lparr>hr_remote_addr := sc_real_ip cfg (hr_header r) (hr_remote_addr r)\<rparr>"

definition serve_request ::
  "server_config \<Rightarrow> mux \<Rightarrow> surroundings \<Rightarrow> http_method \<Rightarrow> string \<Rightarrow> http_request \<Rightarrow> server_state \<Rightarrow>
   ((string \<times> string) list \<times> answer) \<times> server_state" where
  "serve_request cfg mx su m path r st =
     (case mx (router_routes cfg) m path of
        None \<Rightarrow> ((SecurityHeaders, Unrouted), st)
      | Some (rt, params) \<Rightarrow>
          (case guarded cfg su (rt_access rt) (endpoint_handler cfg su (rt_endpoint rt))
                  ((real_ip cfg r)\<lparr>hr_params := params\<rparr>) st of
             (a, st1) \<Rightarrow> ((SecurityHeaders, a), st1)))"

end
