(* ===== verification/Views.thy ===== *)
theory Views
  imports Frames ApiUsers ApiAuth ApiPolicies ApiResources ApiSnapshots ApiSettings Dashboard
begin

text \<open>What the handlers of the API leave alone.  A view is a part of the database; the locale \<open>read_view\<close>
says that the database engine's own state is not in it, \<open>audited_view\<close> that the audit trail is not either,
\<open>public_view\<close> that neither users nor sessions are, \<open>resource_view\<close> that it is none of the tables an ordinary user
may write, and \<open>member_view\<close> is both.  The handlers of the public and of the authenticated endpoints are proved to keep every such
view, and the tables that only administrators change are views.\<close>

section \<open>Reading\<close>

locale read_view =
  fixes p :: "store \<Rightarrow> 'p"
  assumes engine: "engine_free p"
begin

text \<open>Rules that follow the structure of a handler, for a state that is the database, or has it as its first part.\<close>

lemma state_case:
  "p (snd v) = z \<Longrightarrow> (\<And>x t. p t = z \<Longrightarrow> p (snd (F x t)) = z) \<Longrightarrow> p (snd (case v of (x, t) \<Rightarrow> F x t)) = z"
  "p (snd v) = z \<Longrightarrow> (\<And>x t. p t = z \<Longrightarrow> p (fst (snd (G x t))) = z) \<Longrightarrow>
     p (fst (snd (case v of (x, t) \<Rightarrow> G x t))) = z"
  "p (fst (snd w)) = z \<Longrightarrow> (\<And>x t. p (fst t) = z \<Longrightarrow> p (fst (snd (H x t))) = z) \<Longrightarrow>
     p (fst (snd (case w of (x, t) \<Rightarrow> H x t))) = z"
  by (auto split: prod.split)

lemma pair_case:
  "(\<And>a b. p (snd (F a b)) = z) \<Longrightarrow> p (snd (case y of (a, b) \<Rightarrow> F a b)) = z"
  "(\<And>a b. p (fst (snd (G a b))) = z) \<Longrightarrow> p (fst (snd (case y of (a, b) \<Rightarrow> G a b))) = z"
  by (auto split: prod.split)

lemma sum_case:
  "(\<And>e. p (snd (A e)) = z) \<Longrightarrow> (\<And>a. p (snd (B a)) = z) \<Longrightarrow> p (snd (case x of Inl e \<Rightarrow> A e | Inr a \<Rightarrow> B a)) = z"
  "(\<And>e. p (fst (snd (C e))) = z) \<Longrightarrow> (\<And>a. p (fst (snd (D a))) = z) \<Longrightarrow>
     p (fst (snd (case x of Inl e \<Rightarrow> C e | Inr a \<Rightarrow> D a))) = z"
  by (auto split: sum.split)

lemma option_case:
  "p (snd A) = z \<Longrightarrow> (\<And>a. p (snd (B a)) = z) \<Longrightarrow> p (snd (case x of None \<Rightarrow> A | Some a \<Rightarrow> B a)) = z"
  "p (fst (snd C)) = z \<Longrightarrow> (\<And>a. p (fst (snd (D a))) = z) \<Longrightarrow>
     p (fst (snd (case x of None \<Rightarrow> C | Some a \<Rightarrow> D a))) = z"
  by (auto split: option.split)

lemma if_case:
  "p (snd A) = z \<Longrightarrow> p (snd B) = z \<Longrightarrow> p (snd (if b then A else B)) = z"
  "p (fst (snd C)) = z \<Longrightarrow> p (fst (snd D)) = z \<Longrightarrow> p (fst (snd (if b then C else D))) = z"
  by auto

lemma let_case:
  "p (snd (f v)) = z \<Longrightarrow> p (snd (let x = v in f x)) = z"
  "p (fst (snd (g v))) = z \<Longrightarrow> p (fst (snd (let x = v in g x))) = z"
  by auto

lemmas flow = state_case pair_case sum_case option_case if_case let_case

lemma sql_select: "p (snd (sql (\<lambda>s. (Inr (q s), s)) s)) = p s"
  by (rule sql_frame[OF engine]) simp

lemma db_delete_view:
  assumes "\<And>f s. p (upd f s) = p s" "\<And>rs s. p (cascade rs s) = p s"
  shows "p (snd (db_delete rows upd restrict cascade P s)) = p s"
  unfolding db_delete_def by (rule sql_frame[OF engine]) (auto simp: Let_def assms)

lemma no_cascade_view: "p (no_cascade rs s) = p s"
  by (simp add: no_cascade_def)

lemma selects [simp]:
  "p (snd (db_first rows P s)) = p s" "p (snd (db_find any Q g s)) = p s" "p (snd (db_count any Q s)) = p s"
  by (intro db_first_frame[OF engine] db_find_frame[OF engine] db_count_frame[OF engine])+

lemma page_view [simp]: "p (snd (page_of any P order opts s)) = p s"
  unfolding page_of_def by (intro flow | simp)+

lemma reads [simp]:
  "p (snd (users_GetByID i s)) = p s" "p (snd (users_GetByEmail e s)) = p s" "p (snd (users_GetByOIDC a b s)) = p s"
  "p (snd (users_List opts s)) = p s" "p (snd (tokens_GetByHash h s)) = p s" "p (snd (oidc_GetByID i s)) = p s"
  "p (snd (oidc_List s)) = p s" "p (snd (oidc_ListEnabled s)) = p s"
  "p (snd (notif_GetByID i s)) = p s" "p (snd (notif_ListByUser u opts s)) = p s"
  "p (snd (notif_ListDeliveriesByStatus st opts s)) = p s" "p (snd (settings_GetMany pre s)) = p s"
  "p (snd (audit_List fl opts s)) = p s" "p (snd (agents_GetByID i s)) = p s" "p (snd (agents_List opts s)) = p s"
  "p (snd (destinations_GetByID i s)) = p s" "p (snd (destinations_List opts s)) = p s"
  "p (snd (policies_GetByID i s)) = p s" "p (snd (policies_List opts s)) = p s"
  "p (snd (snapshots_GetByID i s)) = p s" "p (snd (jobs_GetByID i s)) = p s"
  by (simp_all add: users_GetByID_def users_GetByEmail_def users_GetByOIDC_def users_List_def tokens_GetByHash_def
      oidc_GetByID_def oidc_List_def oidc_ListEnabled_def notif_GetByID_def notif_ListByUser_def
      notif_ListDeliveriesByStatus_def settings_GetMany_def audit_List_def agents_GetByID_def agents_List_def
      destinations_GetByID_def destinations_List_def policies_GetByID_def policies_List_def snapshots_GetByID_def
      jobs_GetByID_def)

lemma joined_reads [simp]:
  "p (snd (policies_GetByIDWithDestinations i s)) = p s" "p (snd (snapshots_listing P opts s)) = p s"
  "p (snd (jobs_listing Q opts s)) = p s" "p (snd (jobs_GetByIDWithDetails i s)) = p s"
  "p (snd (jobs_GetLogs i s)) = p s" "p (snd (jobs_ListDestinationsByJob i s)) = p s"
proof -
  show "p (snd (snapshots_listing P opts s)) = p s"
    unfolding snapshots_listing_def by (intro flow | simp add: sql_select)+
qed (simp_all add: policies_GetByIDWithDestinations_frame[OF engine] jobs_listing_frame[OF engine]
    jobs_GetByIDWithDetails_frame[OF engine] jobs_GetLogs_frame[OF engine] jobs_ListDestinationsByJob_frame[OF engine])

lemma listings [simp]:
  "p (snd (jobs_List opts s)) = p s" "p (snd (jobs_ListByPolicy u opts s)) = p s" "p (snd (jobs_ListByAgent u opts s)) = p s"
  "p (snd (snapshots_List opts s)) = p s" "p (snd (snapshots_ListByPolicy u opts s)) = p s"
  "p (snd (snapshots_ListByDestination u opts s)) = p s"
  by (simp_all add: jobs_List_def jobs_ListByPolicy_def jobs_ListByAgent_def snapshots_List_def
      snapshots_ListByPolicy_def snapshots_ListByDestination_def)

lemma writeJobList_view: "p (snd (op s)) = z \<Longrightarrow> p (snd (writeJobList env op s)) = z"
  by (auto simp: writeJobList_def split: prod.split sum.split)

lemma writeSnapshotList_view: "p (snd (op s)) = z \<Longrightarrow> p (snd (writeSnapshotList env op s)) = z"
  by (auto simp: writeSnapshotList_def split: prod.split sum.split)

text \<open>The handlers that only read.\<close>

lemma then_query_view:
  "p (snd (m s)) = p s \<Longrightarrow> (\<And>a t. p (snd (f a t)) = p t) \<Longrightarrow> p (snd (then_query m f s)) = p s"
  unfolding then_query_def by (intro flow | simp)+

lemma GetStats_view [simp]: "p (snd (GetStats d now s)) = p s"
  unfolding GetStats_def
  by (intro then_query_view | simp add: today_count_def select_rows_def sql_select)+

lemma DashboardHandler_Get_view [simp]: "p (snd (DashboardHandler_Get d now s)) = p s"
  unfolding DashboardHandler_Get_def by (intro flow | simp)+

lemma UserHandler_List_view [simp]: "p (snd (UserHandler_List env r s)) = p s"
  unfolding UserHandler_List_def by (intro flow | simp)+

lemma UserHandler_GetByID_view [simp]: "p (snd (UserHandler_GetByID env r s)) = p s"
  unfolding UserHandler_GetByID_def by (intro flow | simp)+

lemma UserHandler_GetMe_view [simp]: "p (snd (UserHandler_GetMe env c s)) = p s"
  unfolding UserHandler_GetMe_def by (intro flow | simp)+

lemma AuditHandler_List_view [simp]: "p (snd (AuditHandler_List env pt r s)) = p s"
  unfolding AuditHandler_List_def by (intro flow | simp)+

lemma AgentHandler_List_view [simp]: "p (snd (AgentHandler_List env r s)) = p s"
  unfolding AgentHandler_List_def by (intro flow | simp)+

lemma AgentHandler_GetByID_view [simp]: "p (snd (AgentHandler_GetByID env r s)) = p s"
  unfolding AgentHandler_GetByID_def by (intro flow | simp)+

lemma DestinationHandler_List_view [simp]: "p (snd (DestinationHandler_List env r s)) = p s"
  unfolding DestinationHandler_List_def by (intro flow | simp)+

lemma DestinationHandler_GetByID_view [simp]: "p (snd (DestinationHandler_GetByID env r s)) = p s"
  unfolding DestinationHandler_GetByID_def by (intro flow | simp)+

lemma agent_name_view [simp]: "p (snd (agent_name u s)) = p s"
  unfolding agent_name_def by (intro flow | simp)+

lemma PolicyHandler_GetByID_view [simp]: "p (snd (PolicyHandler_GetByID env r s)) = p s"
  unfolding PolicyHandler_GetByID_def by (intro flow | simp)+

lemma JobHandler_List_view [simp]: "p (snd (JobHandler_List env r s)) = p s"
  unfolding JobHandler_List_def by (intro flow writeJobList_view | simp)+

lemma JobHandler_GetByID_view [simp]: "p (snd (JobHandler_GetByID env r s)) = p s"
  unfolding JobHandler_GetByID_def by (intro flow | simp)+

lemma JobHandler_GetLogs_view [simp]: "p (snd (JobHandler_GetLogs env r s)) = p s"
  unfolding JobHandler_GetLogs_def by (intro flow | simp)+

lemma JobHandler_ListByPolicy_view [simp]: "p (snd (JobHandler_ListByPolicy env r s)) = p s"
  unfolding JobHandler_ListByPolicy_def by (intro flow writeJobList_view | simp)+

lemma SnapshotHandler_List_view [simp]: "p (snd (SnapshotHandler_List env r s)) = p s"
  unfolding SnapshotHandler_List_def by (intro flow writeSnapshotList_view | simp)+

lemma SnapshotHandler_GetByID_view [simp]: "p (snd (SnapshotHandler_GetByID env r s)) = p s"
  unfolding SnapshotHandler_GetByID_def by (intro flow | simp)+

lemma NotificationHandler_List_view [simp]: "p (snd (NotificationHandler_List env c r s)) = p s"
  unfolding NotificationHandler_List_def by (intro flow | simp)+

lemma NotificationHandler_ListDeliveryQueue_view [simp]: "p (snd (NotificationHandler_ListDeliveryQueue env r s)) = p s"
  unfolding NotificationHandler_ListDeliveryQueue_def by (intro flow | simp)+

lemma loadConfig_view [simp]: "p (snd (loadConfig idp pid cb s)) = p s"
  unfolding loadConfig_def by (intro flow | simp)+

lemma AuthorizationURL_view [simp]: "p (snd (AuthorizationURL idp ra rb pid cb s)) = p s"
  unfolding AuthorizationURL_def by (intro flow | simp)+

lemma AuthHandler_ListOIDCProviders_view [simp]: "p (snd (AuthHandler_ListOIDCProviders s)) = p s"
  unfolding AuthHandler_ListOIDCProviders_def by (intro flow | simp)+

lemma AuthHandler_OIDCLogin_view [simp]: "p (snd (AuthHandler_OIDCLogin env idp now ra rb r s)) = p s"
  unfolding AuthHandler_OIDCLogin_def by (intro flow | simp)+

lemma setup_GetStatus_view [simp]: "p (snd (setup_GetStatus s)) = p s"
  unfolding setup_GetStatus_def by (intro flow | simp)+

lemma setup_check_view [simp]: "p (snd (setup_check r s)) = p s"
  unfolding setup_check_def by (intro flow | simp)+

lemma agent_names_view [simp]: "p (snd (agent_names us s)) = p s"
proof (induction us arbitrary: s)
  case (Cons u us)
  show ?case unfolding agent_names.simps by (intro flow | simp add: Cons)+
qed simp

lemma PolicyHandler_List_view [simp]: "p (snd (PolicyHandler_List env arr r s)) = p s"
  unfolding PolicyHandler_List_def by (intro flow | simp)+

end

section \<open>The audit trail\<close>

locale audited_view = read_view p for p :: "store \<Rightarrow> 'p" +
  assumes view_audit: "p (audit_logs_update fa s) = p s"
begin

lemma audit_writes [simp]:
  "p (logAudit env now r c a ty i d s) = p s" "p (logAuditDirect now r v e a ty i d s) = p s"
  by (rule logAudit_frame[OF engine], rule view_audit)+

end

section \<open>Users and sessions\<close>

locale public_view = audited_view p for p :: "store \<Rightarrow> 'p" +
  assumes view_users: "p (users_update fu s) = p s"
    and view_tokens: "p (refresh_tokens_update ft s) = p s"
begin

lemma table_writes:
  "p (snd (db_create users users_update uc now u s)) = p s" "p (snd (db_save users users_update uv ud uc now u s)) = p s"
  "p (snd (db_create refresh_tokens refresh_tokens_update tc now t s)) = p s"
  "p (snd (db_delete refresh_tokens refresh_tokens_update tr no_cascade Q s)) = p s"
  by (rule db_create_frame[OF engine] db_save_frame[OF engine] db_delete_view, (rule view_users view_tokens no_cascade_view)+)+

lemma account_writes [simp]:
  "p (snd (users_Create now u s)) = p s" "p (snd (users_Update now u s)) = p s"
  "p (snd (tokens_Create now t s)) = p s" "p (snd (tokens_DeleteByHash h s)) = p s"
proof -
  show "p (snd (users_Create now u s)) = p s"
    unfolding users_Create_def by (intro flow | simp add: table_writes)+
qed (simp_all add: users_Update_def tokens_Create_def tokens_DeleteByHash_def table_writes)

text \<open>The service and the handlers of the public endpoints.\<close>

lemma issueTokenPair_view [simp]: "p (snd (issueTokenPair ac inp u email role s)) = p s"
  unfolding issueTokenPair_def by (intro flow | simp)+

lemma Login_view [simp]: "p (snd (Login ac inp now now2 email pw s)) = p s"
  unfolding Login_def by (intro flow | simp)+

lemma refreshed_user_view [simp]: "p (snd (refreshed_user ac inp u s)) = p s"
  unfolding refreshed_user_def by (intro flow | simp)+

lemma RefreshToken_view [simp]: "p (snd (RefreshToken ac inp now raw s)) = p s"
  unfolding RefreshToken_def by (intro flow | simp)+

lemma Logout_view [simp]: "p (snd (Logout ac raw s)) = p s"
  unfolding Logout_def by (intro flow | simp)+

lemma findOrProvisionUser_view [simp]: "p (snd (findOrProvisionUser now cfg c s)) = p s"
  unfolding findOrProvisionUser_def by (intro flow | simp add: Let_def)+

lemma ExchangeCode_view [simp]: "p (snd (ExchangeCode parse ac idp inp now req s)) = p s"
  unfolding ExchangeCode_def by (intro flow | simp)+

lemma login_audit_view [simp]: "p (login_audit env now r email token d s) = p s"
  by (simp add: login_audit_def split: sum.split option.split)

lemma AuthHandler_Login_view [simp]: "p (fst (snd (AuthHandler_Login env now inp r x))) = p (fst x)"
  unfolding AuthHandler_Login_def by (intro flow | simp)+

lemma AuthHandler_Logout_view [simp]: "p (fst (snd (AuthHandler_Logout env now c r x))) = p (fst x)"
  unfolding AuthHandler_Logout_def by (intro flow | simp)+

lemma AuthHandler_Refresh_view [simp]: "p (snd (AuthHandler_Refresh env now inp r s)) = p s"
  unfolding AuthHandler_Refresh_def by (intro flow | simp)+

lemma AuthHandler_OIDCCallback_view [simp]: "p (snd (AuthHandler_OIDCCallback env idp now inp r s)) = p s"
  unfolding AuthHandler_OIDCCallback_def by (intro flow | simp)+

lemma setup_create_view [simp]: "p (snd (setup_create env now salt req s)) = p s"
  unfolding setup_create_def by (intro flow | simp)+

lemma setup_Complete_view [simp]: "p (snd (setup_Complete env now salt r s)) = p s"
  unfolding setup_Complete_def by (intro flow | simp)+

lemma UserHandler_UpdateMe_view [simp]: "p (snd (UserHandler_UpdateMe env now salt c r s)) = p s"
  unfolding UserHandler_UpdateMe_def by (intro flow | simp)+

end

section \<open>Resources\<close>

locale resource_view = audited_view p for p :: "store \<Rightarrow> 'p" +
  assumes view_agents: "p (agents_update fg s) = p s"
    and view_destinations: "p (destinations_update fd s) = p s"
    and view_policies: "p (policies_update fp s) = p s"
    and view_policy_destinations: "p (policy_destinations_update fq s) = p s"
    and view_notifications: "p (notifications_update fn s) = p s"
begin

lemma resource_writes [simp]:
  "p (snd (agents_Create now a s)) = p s" "p (snd (agents_Update now a s)) = p s"
  "p (snd (destinations_Create now d s)) = p s" "p (snd (destinations_Update now d s)) = p s"
  "p (snd (destinations_Delete u s)) = p s"
  "p (snd (policies_Create now pol s)) = p s" "p (snd (policies_Update now pol s)) = p s"
  "p (snd (policies_AddDestination now pd s)) = p s"
  "p (snd (notif_MarkAsRead now u s)) = p s" "p (snd (notif_MarkAllAsRead now u s)) = p s"
  unfolding agents_Create_def agents_Update_def destinations_Create_def destinations_Update_def
    destinations_Delete_def policies_Create_def policies_Update_def policies_AddDestination_def
    notif_MarkAsRead_def notif_MarkAllAsRead_def snd_wrapped snd_rows_affected snd_ignoring_rows
  by (rule db_create_frame[OF engine] db_save_frame[OF engine] db_update_frame[OF engine] db_delete_view,
      (rule view_agents view_destinations view_policies view_policy_destinations view_notifications no_cascade_view)+)+

lemma add_destinations_view [simp]: "p (add_destinations env now u ds s) = p s"
  by (induction ds arbitrary: s) (simp_all split: option.split)

lemma AgentHandler_Create_view [simp]: "p (snd (AgentHandler_Create env now c r s)) = p s"
  unfolding AgentHandler_Create_def by (intro flow | simp)+

lemma AgentHandler_Update_view [simp]: "p (snd (AgentHandler_Update env now c r s)) = p s"
  unfolding AgentHandler_Update_def by (intro flow | simp)+

lemma DestinationHandler_Create_view [simp]: "p (snd (DestinationHandler_Create env now c r s)) = p s"
  unfolding DestinationHandler_Create_def by (intro flow | simp)+

lemma DestinationHandler_Update_view [simp]: "p (snd (DestinationHandler_Update env now c r s)) = p s"
  unfolding DestinationHandler_Update_def by (intro flow | simp)+

lemma DestinationHandler_Delete_view [simp]: "p (snd (DestinationHandler_Delete env now c r s)) = p s"
  unfolding DestinationHandler_Delete_def by (intro flow | simp)+

lemma NotificationHandler_MarkAsRead_view [simp]: "p (snd (NotificationHandler_MarkAsRead env now c r s)) = p s"
  unfolding NotificationHandler_MarkAsRead_def by (intro flow | simp)+

lemma NotificationHandler_MarkAllAsRead_view [simp]: "p (snd (NotificationHandler_MarkAllAsRead env now c s)) = p s"
  unfolding NotificationHandler_MarkAllAsRead_def by (intro flow | simp)+

lemma PolicyHandler_Create_view [simp]: "p (fst (snd (PolicyHandler_Create env ce ok now c r x))) = p (fst x)"
  unfolding PolicyHandler_Create_def by (intro flow | simp)+

lemma PolicyHandler_Update_view [simp]: "p (fst (snd (PolicyHandler_Update env ce ok now c r x))) = p (fst x)"
  unfolding PolicyHandler_Update_def by (intro flow | simp)+

end

locale member_view = public_view p + resource_view p for p :: "store \<Rightarrow> 'p"

section \<open>The views of the model\<close>

text \<open>An ordinary user changes no settings, identity providers, jobs, snapshots or deliveries; a request without a
session does not even change agents, destinations, policies or notifications.\<close>

interpretation settings_view: member_view settings by unfold_locales simp_all

interpretation provider_view: member_view oidc_providers by unfold_locales simp_all

interpretation job_view: member_view jobs by unfold_locales simp_all

interpretation job_destination_view: member_view job_destinations by unfold_locales simp_all

interpretation job_log_view: member_view job_logs by unfold_locales simp_all

interpretation snapshot_view: member_view snapshots by unfold_locales simp_all

interpretation delivery_view: member_view deliveries by unfold_locales simp_all

interpretation account_view: resource_view users by unfold_locales simp_all

interpretation agent_view: public_view agents by unfold_locales simp_all

interpretation destination_view: public_view destinations by unfold_locales simp_all

interpretation policy_view: public_view policies by unfold_locales simp_all

interpretation policy_destination_view: public_view policy_destinations by unfold_locales simp_all

interpretation notification_view: public_view notifications by unfold_locales simp_all

end
