(* ===== verification/AuthProofs.thy ===== *)
theory AuthProofs
  imports Auth Frames JsonRoundtrip
begin

text \<open>What authentication guarantees: a password is accepted exactly when its hash is the stored one, refresh
tokens rotate, and a revoked access token stays revoked.\<close>

section \<open>Passwords\<close>

lemma nibbles: "(n::nat) < 256 \<Longrightarrow> n div 16 < 16 \<and> n mod 16 < 16"
  by simp

lemma hex_decode_encode: "hex_decode (hex_encode s) = Some s"
proof (induction s)
  case (Cons c s)
  have n: "(of_char c :: nat) < 256" by (rule of_char_less)
  with Cons nibbles[OF n] show ?case
    by (simp add: hex_encode_def Let_def hexval_hexdigit)
qed (simp add: hex_encode_def)

lemma hexdigit_no_colon: "k < 16 \<Longrightarrow> hexdigit k \<noteq> CHR '':''"
proof
  assume k: "k < 16" "hexdigit k = CHR '':''"
  then have "hexval (CHR '':'') = Some k" using hexval_hexdigit[OF k(1)] by simp
  moreover have "hexval (CHR '':'') = None" by code_simp
  ultimately show False by simp
qed

lemma hex_no_colon: "CHR '':'' \<notin> set (hex_encode s)"
proof (induction s)
  case (Cons c s)
  have "(of_char c :: nat) < 256" by (rule of_char_less)
  from nibbles[OF this] hexdigit_no_colon
  have "CHR '':'' \<notin> set [hexdigit (of_char c div 16), hexdigit (of_char c mod 16)]"
    by (metis empty_iff empty_set set_ConsD)
  with Cons show ?case by (simp add: hex_encode_def Let_def)
qed (simp add: hex_encode_def)

lemma splitHash_at: "CHR '':'' \<notin> set a \<Longrightarrow> splitHash (a @ CHR '':'' # b) = Some (a, b)"
  by (induction a) auto

lemma fold_or_zero:
  "fold (\<lambda>(x, y) diff. or diff (xor (of_char x :: nat) (of_char y))) ps (d :: nat) = 0 \<longleftrightarrow>
   d = 0 \<and> list_all (\<lambda>(x, y). x = y) ps"
proof (induction ps arbitrary: d)
  case (Cons p ps)
  obtain x y where p: "p = (x, y)" by (cases p)
  have "(xor (of_char x :: nat) (of_char y) = 0) = (x = y)"
    unfolding char_eq_code[of x y] by (auto simp: bit_eq_iff bit_xor_iff)
  then show ?case using Cons[of "or d (xor (of_char x) (of_char y))"] p by (auto simp: or_eq_0_iff)
qed simp

lemma constantTimeEqual_eq: "constantTimeEqual a b \<longleftrightarrow> a = b"
proof -
  have "list_all (\<lambda>(x, y). x = y) (zip a b) \<longleftrightarrow> a = b" if "length a = length b"
    using that by (induction a b rule: list_induct2) auto
  then show ?thesis by (auto simp: constantTimeEqual_def fold_or_zero)
qed

text \<open>The stored form of a password lets exactly those passwords in that hash to the same value under the stored
salt; the comparison in constant time is equality, and the text form of salt and hash is read back exactly.\<close>

theorem password_check:
  assumes "\<And>p s n. length (ac_argon2 ac p s n) = n"
  shows "verifyPassword ac q (HashPassword ac salt p) \<longleftrightarrow>
     ac_argon2 ac q salt argon2KeyLen = ac_argon2 ac p salt argon2KeyLen"
proof -
  have "splitHash (HashPassword ac salt p) =
      Some (hex_encode salt, hex_encode (ac_argon2 ac p salt argon2KeyLen))"
    using splitHash_at[OF hex_no_colon] by (simp add: HashPassword_def)
  then show ?thesis
    by (simp add: verifyPassword_def hex_decode_encode constantTimeEqual_eq assms)
qed

section \<open>Rotation of refresh tokens\<close>

lemma tokens_GetByHash_ok:
  "faults s = [] \<Longrightarrow> tokens_GetByHash h s =
     ((case sort_key ID (filter (\<lambda>t. rt_token_hash t = h) (refresh_tokens s)) of
         [] \<Rightarrow> Inl ErrNotFound | t # _ \<Rightarrow> Inr t), s)"
  by (simp add: tokens_GetByHash_def db_first_def split: list.split)

lemma tokens_DeleteByHash_ok:
  "faults s = [] \<Longrightarrow> tokens_DeleteByHash h s =
     (Inr (), s\<lparr>refresh_tokens := delete_where (\<lambda>t. rt_token_hash t = h) (refresh_tokens s)\<rparr>)"
  by (simp add: tokens_DeleteByHash_def ignoring_rows_def db_delete_def no_restrict_def no_cascade_def Let_def
      list_ex_iff)

text \<open>What issuing a pair does to the sessions: it adds one for the user, or none.\<close>

lemma issueTokenPair_tokens:
  "case issueTokenPair ac inp u email role s of
     (Inl e, s') \<Rightarrow> refresh_tokens s' = refresh_tokens s
   | (Inr pair, s') \<Rightarrow> \<exists>t. refresh_tokens s' = refresh_tokens s @ [t] \<and> rt_user_id t = u \<and>
       rt_token_hash t = hashRefreshToken ac (tp_refresh pair) \<and> rt_expires_at t = tp_refresh_expires pair"
proof -
  let ?t = "\<lambda>raw. \<lparr>ID = nil_uuid, CreatedAt = zero_time, UpdatedAt = zero_time, rt_user_id = u,
     rt_token_hash = hashRefreshToken ac raw, rt_expires_at = ii_now_refresh inp + refreshTokenDuration,
     rt_revoked_at = None, rt_user_agent = [], rt_ip_address = []\<rparr>"
  have c: "case tokens_Create now (?t raw) s of
     (Inl e, s') \<Rightarrow> refresh_tokens s' = refresh_tokens s
   | (Inr t, s') \<Rightarrow> refresh_tokens s' = refresh_tokens s @ [t] \<and> rt_user_id t = u \<and>
       rt_token_hash t = hashRefreshToken ac raw \<and> rt_expires_at t = ii_now_refresh inp + refreshTokenDuration"
    for now raw
    using refresh_tokens_tbl.create_cases[where chk = token_check and now = now and r = "?t raw" and s = s]
    by (auto simp: tokens_Create_def wrapped_def stamp_new_def split: prod.splits sum.splits)
  show ?thesis
  proof (cases "GenerateAccessToken ac (ii_now_jwt inp) (ii_jti inp) u email role")
    case (Inl e)
    then show ?thesis by (simp add: issueTokenPair_def)
  next
    case (Inr access)
    note acc = Inr
    show ?thesis
    proof (cases "ii_random inp")
      case None
      with acc show ?thesis by (simp add: issueTokenPair_def)
    next
      case (Some bytes)
      obtain r s1 where r: "tokens_Create (ii_now_row inp) (?t (hex_encode bytes)) s = (r, s1)" by fastforce
      with c[where now = "ii_now_row inp" and raw = "hex_encode bytes"] acc Some show ?thesis
        by (cases r) (simp_all add: issueTokenPair_def Let_def)
    qed
  qed
qed

lemma issueTokenPair_error:
  "fst (issueTokenPair ac inp u email role s) = Inl e \<Longrightarrow>
   e \<noteq> AuthFailure ''auth: fetching refresh token'' \<and> e \<noteq> AuthFailure ''auth: deleting old refresh token''"
  by (auto simp: issueTokenPair_def GenerateAccessToken_def Let_def split: option.splits prod.splits sum.splits)

lemma refreshed_user_cases:
  "case refreshed_user ac inp u s of
     (Inl e, s') \<Rightarrow> refresh_tokens s' = refresh_tokens s \<and>
       e \<noteq> AuthFailure ''auth: fetching refresh token'' \<and> e \<noteq> AuthFailure ''auth: deleting old refresh token''
   | (Inr pair, s') \<Rightarrow> \<exists>t. refresh_tokens s' = refresh_tokens s @ [t] \<and> rt_user_id t = u \<and>
       rt_token_hash t = hashRefreshToken ac (tp_refresh pair) \<and> rt_expires_at t = tp_refresh_expires pair"
proof -
  obtain x s1 where g: "users_GetByID u s = (x, s1)" by fastforce
  then have s1: "refresh_tokens s1 = refresh_tokens s"
    using db_first_frame[of refresh_tokens users "\<lambda>x. ID x = u" s] by (simp add: users_GetByID_def)
  show ?thesis
  proof (cases x)
    case (Inl e)
    with g s1 show ?thesis by (simp add: refreshed_user_def)
  next
    case (Inr y)
    with g have "ID y = u" using users_tbl.first_Inr(2)[of _ s y s1] by (auto simp: users_GetByID_def)
    with g s1 Inr issueTokenPair_tokens[where ac = ac and inp = inp and u = u and email = "usr_email y" and
        role = "usr_role y" and s = s1]
      issueTokenPair_error[where ac = ac and inp = inp and u = u and email = "usr_email y" and
        role = "usr_role y" and s = s1]
    show ?thesis by (auto simp: refreshed_user_def split: sum.splits prod.splits)
  qed
qed

lemma tokens_DeleteByHash_cases:
  "case tokens_DeleteByHash h s of
     (Inl e, s') \<Rightarrow> refresh_tokens s' = refresh_tokens s
   | (Inr _, s') \<Rightarrow> refresh_tokens s' = delete_where (\<lambda>t. rt_token_hash t = h) (refresh_tokens s)"
proof -
  have "case db_delete refresh_tokens refresh_tokens_update no_restrict no_cascade (\<lambda>t. rt_token_hash t = h) s of
     (Inl e, s') \<Rightarrow> refresh_tokens s' = refresh_tokens s
   | (Inr _, s') \<Rightarrow> refresh_tokens s' = delete_where (\<lambda>t. rt_token_hash t = h) (refresh_tokens s)"
    unfolding db_delete_def by (rule sql_rule) (simp_all add: no_restrict_def no_cascade_def Let_def list_ex_iff)
  then show ?thesis
    by (auto simp: tokens_DeleteByHash_def ignoring_rows_def split: sum.splits prod.splits)
qed

lemma delete_where_same: "\<forall>x\<in>set xs. \<not> P x \<Longrightarrow> delete_where P xs = xs"
  by (simp add: delete_where_def filter_id_conv)

text \<open>The lookup on any database: the error tells whether it failed or found nothing.\<close>

lemma tokens_GetByHash_cases:
  "case tokens_GetByHash h s of
     (Inl e, s') \<Rightarrow> refresh_tokens s' = refresh_tokens s \<and>
       (e = ErrNotFound \<longrightarrow> (\<forall>t\<in>set (refresh_tokens s). rt_token_hash t \<noteq> h))
   | (Inr t, s') \<Rightarrow> refresh_tokens s' = refresh_tokens s \<and> t \<in> set (refresh_tokens s) \<and> rt_token_hash t = h"
proof -
  have mem: "t \<in> set xs \<and> P t" if "sort_key ID (filter P xs) = t # ts" for t ts P and xs :: "refresh_token list"
  proof -
    have "t \<in> set (sort_key ID (filter P xs))" unfolding that by simp
    then show ?thesis by simp
  qed
  have none: "\<forall>t\<in>set xs. \<not> P t" if "sort_key ID (filter P xs) = []" for P and xs :: "refresh_token list"
  proof -
    have "filter P xs = []" using that by (metis set_empty set_sort)
    then show ?thesis by (simp add: filter_empty_conv)
  qed
  show ?thesis
    unfolding tokens_GetByHash_def db_first_def
    by (rule sql_rule) (auto split: list.split dest: mem none)
qed

text \<open>C29: refresh tokens rotate, whatever the database does.  When the answer is a new pair, the sessions of the
presented token are gone and exactly one session has been added, for the user of one of them, whose time had not
run out; and the same token presented again gets no pair, whatever else the second attempt meets, unless the new token
has the very same hash.  When the answer is an error, the sessions of the presented token are gone too and
nothing is added, except when the lookup or the deletion itself is what failed: then no session has changed.\<close>

theorem refresh_rotates:
  assumes "RefreshToken ac inp now raw s = (res, s')"
    and "\<And>pair. res = Inr pair \<Longrightarrow> hashRefreshToken ac (tp_refresh pair) \<noteq> hashRefreshToken ac raw"
  shows "case res of
     Inr pair \<Rightarrow>
       (\<exists>t old. refresh_tokens s' =
            delete_where (\<lambda>t. rt_token_hash t = hashRefreshToken ac raw) (refresh_tokens s) @ [t] \<and>
          old \<in> set (refresh_tokens s) \<and> rt_token_hash old = hashRefreshToken ac raw \<and> now \<le> rt_expires_at old \<and>
          rt_user_id t = rt_user_id old \<and> rt_token_hash t = hashRefreshToken ac (tp_refresh pair)) \<and>
       (\<exists>e. fst (RefreshToken ac inp2 now2 raw s') = Inl e)
   | Inl e \<Rightarrow> refresh_tokens s' =
       (if e = AuthFailure ''auth: fetching refresh token'' \<or> e = AuthFailure ''auth: deleting old refresh token''
        then refresh_tokens s
        else delete_where (\<lambda>t. rt_token_hash t = hashRefreshToken ac raw) (refresh_tokens s))"
proof -
  let ?h = "hashRefreshToken ac raw"
  obtain x s1 where g: "tokens_GetByHash ?h s = (x, s1)" by fastforce
  note gc = tokens_GetByHash_cases[where h = ?h and s = s, unfolded g]
  show ?thesis
  proof (cases x)
    case (Inl e)
    with g gc assms(1) show ?thesis
      by (cases "e = ErrNotFound") (auto simp: RefreshToken_def delete_where_same)
  next
    case (Inr old)
    obtain y s2 where d: "tokens_DeleteByHash ?h s1 = (y, s2)" by fastforce
    note dc = tokens_DeleteByHash_cases[where h = ?h and s = s1, unfolded d]
    show ?thesis
    proof (cases "(\<exists>e. y = Inl e) \<or> rt_expires_at old < now")
      case True
      with g gc Inr d dc assms(1) show ?thesis
        by (cases y) (auto simp: RefreshToken_def)
    next
      case False
      then have r: "refreshed_user ac inp (rt_user_id old) s2 = (res, s')"
        and s2: "refresh_tokens s2 = delete_where (\<lambda>t. rt_token_hash t = ?h) (refresh_tokens s)"
        using g gc Inr d dc assms(1) by (cases y; simp add: RefreshToken_def)+
      note c = refreshed_user_cases[where ac = ac and inp = inp and u = "rt_user_id old" and s = s2, unfolded r]
      show ?thesis
      proof (cases res)
        case (Inl e)
        with c s2 show ?thesis by simp
      next
        case (Inr pair)
        with c s2 have "\<forall>t\<in>set (refresh_tokens s'). rt_token_hash t \<noteq> ?h"
          using assms(2)[OF Inr] by auto
        then have "\<exists>e. fst (RefreshToken ac inp2 now2 raw s') = Inl e"
          using tokens_GetByHash_cases[where h = ?h and s = s']
          by (auto simp: RefreshToken_def split: prod.splits sum.splits)
        with Inr c s2 gc \<open>x = Inr old\<close> False show ?thesis by fastforce
      qed
    qed
  qed
qed

definition demo_claims :: claims where
  "demo_claims = \<lparr>cl_issuer = ''arkeep'', cl_subject = ''u1'', cl_issued_at = 0,
     cl_expires_at = 900 * second, cl_id = ''jti1'', cl_user_id = ''u1'', cl_email = ''a@b'', cl_role = ''user''\<rparr>"

definition demo_crypto :: auth_crypto where
  "demo_crypto = \<lparr>ac_argon2 = (\<lambda>p s n. take n (p @ s @ replicate n CHR ''x'')), ac_sha256 = (\<lambda>x. x),
     ac_sign = (\<lambda>c. Some ''token''),
     ac_parse = (\<lambda>i now t. if now < 900 * second then Inr demo_claims else Inl JwtExpired),
     ac_issuer = ''arkeep''\<rparr>"

theorem password_check_witness:
  "verifyPassword demo_crypto ''pw'' (HashPassword demo_crypto ''salt'' ''pw'') \<and>
   \<not> verifyPassword demo_crypto ''pv'' (HashPassword demo_crypto ''salt'' ''pw'')"
proof -
  have "length (ac_argon2 demo_crypto p s n) = n" for p s n by (simp add: demo_crypto_def)
  from password_check[OF this] show ?thesis by (simp add: demo_crypto_def argon2KeyLen_def)
qed

definition demo_user :: user where
  "demo_user = \<lparr>ID = ''u1'', CreatedAt = 1, UpdatedAt = 1, usr_email = ''a@b'', usr_password = [],
     usr_display_name = ''A'', usr_role = ''user'', usr_is_active = True, usr_oidc_provider = [],
     usr_oidc_sub = [], usr_last_login_at = None\<rparr>"

definition demo_token :: refresh_token where
  "demo_token = \<lparr>ID = ''t1'', CreatedAt = 1, UpdatedAt = 1, rt_user_id = ''u1'',
     rt_token_hash = hashRefreshToken demo_crypto ''old'', rt_expires_at = 100, rt_revoked_at = None,
     rt_user_agent = [], rt_ip_address = []\<rparr>"

definition demo_input :: issue_input where
  "demo_input = \<lparr>ii_jti = ''jti1'', ii_random = Some ''new'', ii_now_jwt = 5, ii_now_refresh = 5,
     ii_now_row = 5, ii_now_pair = 5\<rparr>"

definition demo_session_store :: store where
  "demo_session_store = empty_store\<lparr>users := [demo_user], refresh_tokens := [demo_token], ids := [''t2'']\<rparr>"

lemma hash_inj: "hashRefreshToken demo_crypto a = hashRefreshToken demo_crypto b \<longleftrightarrow> a = b"
  using hex_decode_encode by (auto simp: hashRefreshToken_def demo_crypto_def) (metis option.inject)

lemma demo_sign: "ac_sign demo_crypto c = Some ''token''"
  by (simp add: demo_crypto_def)

lemma hex_demo: "hex_encode ''new'' = ''6e6577''"
  by code_simp

lemma demo_refresh:
  "fst (RefreshToken demo_crypto demo_input 50 ''old'' demo_session_store) =
   Inr \<lparr>tp_access = ''token'', tp_access_expires = 5 + accessTokenDuration, tp_refresh = ''6e6577'',
      tp_refresh_expires = 5 + refreshTokenDuration\<rparr>"
proof -
  have "nil_uuid \<noteq> ''t1''" by (simp add: nil_uuid_def)
  then show ?thesis
    by (simp add: RefreshToken_def tokens_GetByHash_ok tokens_DeleteByHash_ok demo_session_store_def
        empty_store_def refreshed_user_def users_GetByID_def db_first_def Let_def issueTokenPair_def
        GenerateAccessToken_def tokens_Create_def wrapped_def db_create_def before_create_def insert_row_def
        token_check_def has_id_def demo_token_def demo_user_def demo_input_def stamp_new_def hex_demo demo_sign)
qed

theorem refresh_rotates_witness:
  "\<exists>pair t. fst (RefreshToken demo_crypto demo_input 50 ''old'' demo_session_store) = Inr pair \<and>
     refresh_tokens (snd (RefreshToken demo_crypto demo_input 50 ''old'' demo_session_store)) = [t] \<and>
     rt_user_id t = ''u1'' \<and>
     (\<exists>e. fst (RefreshToken demo_crypto demo_input 60 ''old''
        (snd (RefreshToken demo_crypto demo_input 50 ''old'' demo_session_store))) = Inl e)"
proof -
  obtain res s' where r: "RefreshToken demo_crypto demo_input 50 ''old'' demo_session_store = (res, s')"
    by fastforce
  obtain pair where res: "res = Inr pair" using demo_refresh r by simp
  have "hashRefreshToken demo_crypto (tp_refresh pair) \<noteq> hashRefreshToken demo_crypto ''old''"
    if "res = Inr pair" for pair
    using that demo_refresh r by (auto simp: hash_inj)
  from refresh_rotates[OF r this, where ?inp2.0 = demo_input and ?now2.0 = 60] show ?thesis
    using r res by (auto simp: demo_session_store_def empty_store_def demo_token_def delete_where_def)
qed

section \<open>Revoked access tokens\<close>

text \<open>What happens to the denylist between two uses of a token: tokens are added and the cleanup passes.\<close>

datatype deny_op = DenyAdd string time | DenySweep time

fun deny_run :: "deny_op \<Rightarrow> denylist \<Rightarrow> denylist" where
  "deny_run (DenyAdd jti exp) d = RevokeAccessToken jti exp d"
| "deny_run (DenySweep t) d = deny_sweep t d"

definition deny_fine :: "claims \<Rightarrow> time \<Rightarrow> deny_op \<Rightarrow> bool" where
  "deny_fine c now x = (case x of DenyAdd j e \<Rightarrow> j = cl_id c \<longrightarrow> e = cl_expires_at c | DenySweep t \<Rightarrow> t \<le> now)"

definition still_denied :: "claims \<Rightarrow> time \<Rightarrow> denylist \<Rightarrow> bool" where
  "still_denied c now d = (map_ok d \<and> (map_of d (cl_id c) = Some (cl_expires_at c) \<or>
     map_of d (cl_id c) = None \<and> cl_expires_at c < now))"

lemma still_denied_run: "still_denied c now d \<Longrightarrow> deny_fine c now x \<Longrightarrow> still_denied c now (deny_run x d)"
  by (cases x)
    (auto simp: still_denied_def deny_fine_def RevokeAccessToken_def deny_Add_def deny_sweep_def amap.ok_put
      amap.ok_keep amap.get_keep split: option.split)

lemma still_denied_fold:
  "still_denied c now d \<Longrightarrow> list_all (deny_fine c now) xs \<Longrightarrow> still_denied c now (fold deny_run xs d)"
  by (induction xs arbitrary: d) (simp_all add: still_denied_run)

text \<open>An access token that has been revoked (as on logout, until its own expiry) is never accepted again: not
after any number of later revocations, and not after any pass of the cleanup at a time before the check.  Of the
JWT library this uses that it accepts the token only with its own claims and only before they expire.\<close>

theorem revoked_token_refused:
  assumes "\<And>t c'. ac_parse ac (ac_issuer ac) t token = Inr c' \<Longrightarrow> c' = c \<and> t < cl_expires_at c"
    and "map_ok d" "list_all (deny_fine c now) xs"
  shows "\<exists>e. ValidateAccessToken ac now token
     (fold deny_run xs (RevokeAccessToken (cl_id c) (cl_expires_at c) d)) = Inl e"
proof (cases "ac_parse ac (ac_issuer ac) now token")
  case (Inl e)
  then show ?thesis
    by (cases e) (simp_all add: ValidateAccessToken_def jwt_ValidateAccessToken_def)
next
  case (Inr c')
  let ?d = "fold deny_run xs (RevokeAccessToken (cl_id c) (cl_expires_at c) d)"
  have "still_denied c now (RevokeAccessToken (cl_id c) (cl_expires_at c) d)"
    using assms(2) by (simp add: still_denied_def RevokeAccessToken_def deny_Add_def amap.ok_put)
  then have "still_denied c now ?d" by (rule still_denied_fold) (rule assms(3))
  with assms(1)[OF Inr] have "IsRevoked now (cl_id c) ?d"
    by (auto simp: still_denied_def IsRevoked_def)
  with Inr assms(1)[OF Inr] show ?thesis
    by (simp add: ValidateAccessToken_def jwt_ValidateAccessToken_def)
qed

theorem revoked_token_refused_witness:
  "ValidateAccessToken demo_crypto 30 ''token'' [] = Inr demo_claims \<and>
   (\<exists>e. ValidateAccessToken demo_crypto 30 ''token''
      (fold deny_run [DenyAdd ''jti2'' 7, DenySweep 20] (RevokeAccessToken ''jti1'' (900 * second) [])) = Inl e)"
proof -
  have "c' = demo_claims \<and> t < cl_expires_at demo_claims"
    if "ac_parse demo_crypto (ac_issuer demo_crypto) t ''token'' = Inr c'" for t c'
    using that by (auto simp: demo_crypto_def demo_claims_def split: if_splits)
  from revoked_token_refused[of demo_crypto "''token''" demo_claims "[]" 30 "[DenyAdd ''jti2'' 7, DenySweep 20]",
      OF this]
  show ?thesis
    by (simp add: deny_fine_def demo_claims_def map_ok_def)
      (simp add: ValidateAccessToken_def jwt_ValidateAccessToken_def IsRevoked_def demo_crypto_def
        demo_claims_def second_def)
qed

section \<open>Revoked sessions\<close>

text \<open>Revoking the sessions of a user does not end them: a refresh token whose row is marked as revoked is
exchanged for a new pair like any other.\<close>

theorem revocation_ignored:
  "fst (RefreshToken demo_crypto demo_input 50 ''old'' (snd (LogoutAllSessions 40 ''u1'' demo_session_store))) =
     Inr \<lparr>tp_access = ''token'', tp_access_expires = 5 + accessTokenDuration, tp_refresh = ''6e6577'',
        tp_refresh_expires = 5 + refreshTokenDuration\<rparr>"
proof -
  have "nil_uuid \<noteq> ''t1''" by (simp add: nil_uuid_def)
  then show ?thesis
    by (simp add: LogoutAllSessions_def tokens_RevokeAllForUser_def ignoring_rows_def db_update_def no_check_def
        touch_def RefreshToken_def tokens_GetByHash_ok tokens_DeleteByHash_ok demo_session_store_def
        empty_store_def refreshed_user_def users_GetByID_def db_first_def Let_def issueTokenPair_def
        GenerateAccessToken_def tokens_Create_def wrapped_def db_create_def before_create_def insert_row_def
        token_check_def has_id_def demo_token_def demo_user_def demo_input_def stamp_new_def hex_demo demo_sign)
qed

end
