(* ===== verification/RouterProofs.thy ===== *)
theory RouterProofs
  imports Router Views AuthProofs
begin

text \<open>What the router lets through: which part of the state a request may change, given the claims its token carries.\<close>

section \<open>The claims of a request\<close>

definition session_claims :: "server_config \<Rightarrow> surroundings \<Rightarrow> http_request \<Rightarrow> server_state \<Rightarrow> claims option" where
  "session_claims cfg su r st =
     (case bearer_token (hr_header r ''Authorization'') of
        None \<Rightarrow> None
      | Some t \<Rightarrow> (case validate_token cfg su st t of Inl e \<Rightarrow> None | Inr c \<Rightarrow> Some c))"

lemma bearer_token_empty [simp]: "bearer_token [] = None"
  by (simp add: bearer_token_def split_space_def)

lemma Authenticate_claims:
  "Authenticate (validate_token cfg su st) wr next r s =
     (case session_claims cfg su r st of None \<Rightarrow> (wr Unauthorized, s) | Some c \<Rightarrow> next (Some c) r s)"
  by (auto simp: Authenticate_def session_claims_def Let_def split: option.split sum.split)

lemma session_claims_request [simp]:
  "session_claims cfg su (r\<lparr>hr_params := ps\<rparr>) st = session_claims cfg su r st"
  "session_claims cfg su (real_ip cfg r) st = session_claims cfg su r st"
  by (simp_all add: session_claims_def real_ip_def)

text \<open>Who a route lets in: what the claims of the request are worth to its middleware.\<close>

definition lets_in :: "access \<Rightarrow> claims option \<Rightarrow> bool" where
  "lets_in acc c =
     (case acc of Public \<Rightarrow> True | Limited \<Rightarrow> True | Session \<Rightarrow> c \<noteq> None | AdminOnly \<Rightarrow> isAdmin c)"

definition refusal :: "claims option \<Rightarrow> answer" where
  "refusal c = Reply (if c = None then Unauthorized else Forbidden)"

lemma guarded_refuses:
  assumes "\<not> lets_in acc (session_claims cfg su r st)"
  shows "guarded cfg su acc h r st = (refusal (session_claims cfg su r st), st)"
  using assms
  by (auto simp: guarded_def lets_in_def refusal_def Authenticate_claims RequireRole_def isAdmin_def
      split: access.splits option.splits)

text \<open>A view of the state that no limiter is part of.\<close>

lemma guarded_keeps:
  assumes limiter: "\<And>t rl. q (t\<lparr>sv_logins := rl\<rparr>) = q t"
    and handler: "\<And>c t. q (snd (h c r t)) = q t"
  shows "q (snd (guarded cfg su acc h r st)) = q st"
proof (cases acc)
  case Limited
  obtain ok rl where a: "Allow (su_now su) (clientIP r) (sv_logins st) = (ok, rl)" by fastforce
  obtain x t where h: "h None r (st\<lparr>sv_logins := rl\<rparr>) = (x, t)" by fastforce
  have "q t = q st" using handler[of None "st\<lparr>sv_logins := rl\<rparr>"] limiter[where t = st] h by simp
  with Limited a h limiter show ?thesis
    by (cases ok) (simp_all add: guarded_def RateLimit_def)
qed (auto simp: guarded_def Authenticate_claims RequireRole_def handler split: option.split)

section \<open>Handlers on views\<close>

definition open_endpoints :: "endpoint list" where
  "open_endpoints = [HealthLive, HealthReady, Metrics, OIDCCallback, LoginEP, RefreshEP, OIDCProviders, OIDCLogin,
     SetupStatus, SetupComplete, EnrollEP, WebSocket]"

definition member_endpoints :: "endpoint list" where
  "member_endpoints = [DashboardEP, Version, LogoutEP, GetMe, UpdateMe, AgentsList, AgentCreate, AgentGet, AgentUpdate,
     AgentVolumes, DestinationsList, DestinationCreate, DestinationGet, DestinationUpdate, DestinationDelete,
     PoliciesList, PolicyCreate, PolicyGet, PolicyUpdate, PolicyJobs, JobsList, JobGet, JobLogs, SnapshotsList,
     SnapshotGet, NotificationsList, NotificationRead, NotificationsReadAll]"

lemma route_endpoint:
  assumes "rt \<in> set (router_routes cfg)"
  shows "rt_access rt \<in> {Public, Limited} \<Longrightarrow> rt_endpoint rt \<in> set open_endpoints"
    and "rt_access rt \<noteq> AdminOnly \<Longrightarrow> rt_endpoint rt \<in> set (open_endpoints @ member_endpoints)"
proof -
  have "list_all (\<lambda>rt. (rt_access rt \<in> {Public, Limited} \<longrightarrow> rt_endpoint rt \<in> set open_endpoints) \<and>
      (rt_access rt \<noteq> AdminOnly \<longrightarrow> rt_endpoint rt \<in> set (open_endpoints @ member_endpoints))) (router_routes cfg)"
    by (simp add: router_routes_def public_routes_def session_routes_def admin_routes_def api_def entry_def
        open_endpoints_def member_endpoints_def)
  with assms show "rt_access rt \<in> {Public, Limited} \<Longrightarrow> rt_endpoint rt \<in> set open_endpoints"
    and "rt_access rt \<noteq> AdminOnly \<Longrightarrow> rt_endpoint rt \<in> set (open_endpoints @ member_endpoints)"
    by (auto simp: list_all_iff)
qed

lemmas on_state = on_store_def on_denylist_def on_scheduler_def on_manager_def enroll_endpoint_def
  volumes_endpoint_def version_endpoint_def websocket_endpoint_def

lemma on_state_view:
  "(\<And>s. p (snd (h s)) = p s) \<Longrightarrow> p (sv_store (snd (on_store h st))) = p (sv_store st)"
  "(\<And>x. p (fst (snd (g x))) = p (fst x)) \<Longrightarrow> p (sv_store (snd (on_denylist g st))) = p (sv_store st)"
  "(\<And>x. p (fst (snd (hs x))) = p (fst x)) \<Longrightarrow> p (sv_store (snd (on_scheduler hs st))) = p (sv_store st)"
  by (simp_all add: on_state case_prod_beta)

lemma elsewhere [simp]:
  "sv_store (snd (enroll_endpoint cfg su r st)) = sv_store st"
  "sv_store (snd (volumes_endpoint cfg su r st)) = sv_store st"
  "sv_store (snd (version_endpoint su st)) = sv_store st"
  "sv_store (snd (websocket_endpoint cfg su r st)) = sv_store st"
  by (simp_all add: on_state case_prod_beta)

context public_view
begin

lemma open_endpoint_view:
  "ep \<in> set open_endpoints \<Longrightarrow> p (sv_store (snd (endpoint_handler cfg su ep c r st))) = p (sv_store st)"
  by (auto simp: open_endpoints_def endpoint_handler_def Let_def intro!: on_state_view)

end

context member_view
begin

lemma member_endpoint_view:
  assumes "ep \<in> set (open_endpoints @ member_endpoints)"
  shows "p (sv_store (snd (endpoint_handler cfg su ep c r st))) = p (sv_store st)"
proof (cases "ep \<in> set open_endpoints")
  case False
  with assms have "ep \<in> set member_endpoints" by simp
  then show ?thesis
    by (auto simp: member_endpoints_def endpoint_handler_def Let_def intro!: on_state_view)
qed (rule open_endpoint_view)

end

text \<open>The scheduler and the connections are no business of a request without a session.\<close>

lemma open_endpoint_rest:
  "ep \<in> set open_endpoints \<Longrightarrow>
   (sv_scheduler (snd (endpoint_handler cfg su ep c r st)), sv_manager (snd (endpoint_handler cfg su ep c r st))) =
     (sv_scheduler st, sv_manager st)"
  by (auto simp: open_endpoints_def endpoint_handler_def Let_def on_state case_prod_beta)

section \<open>The request as a whole\<close>

lemma served:
  assumes "mx (router_routes cfg) m path = Some (rt, ps)"
  shows "snd (serve_request cfg mx su m path r st) =
      snd (guarded cfg su (rt_access rt) (endpoint_handler cfg su (rt_endpoint rt)) ((real_ip cfg r)\<lparr>hr_params := ps\<rparr>) st)"
    and "snd (fst (serve_request cfg mx su m path r st)) =
      fst (guarded cfg su (rt_access rt) (endpoint_handler cfg su (rt_endpoint rt)) ((real_ip cfg r)\<lparr>hr_params := ps\<rparr>) st)"
  using assms by (simp_all add: serve_request_def case_prod_beta)

text \<open>The mux answers with an entry of its table.\<close>

definition routes_listed :: "mux \<Rightarrow> bool" where
  "routes_listed mx = (\<forall>rs m path rt ps. mx rs m path = Some (rt, ps) \<longrightarrow> rt \<in> set rs)"

text \<open>A route that lets the request in keeps a view when every route of its access does.\<close>

lemma served_keeps:
  assumes mux: "routes_listed mx"
    and limiter: "\<And>t rl. q (t\<lparr>sv_logins := rl\<rparr>) = q t"
    and handlers: "\<And>rt c r t. rt \<in> set (router_routes cfg) \<Longrightarrow>
        lets_in (rt_access rt) (session_claims cfg su r0 st) \<Longrightarrow> q (snd (endpoint_handler cfg su (rt_endpoint rt) c r t)) = q t"
  shows "q (snd (serve_request cfg mx su m path r0 st)) = q st"
proof (cases "mx (router_routes cfg) m path")
  case (Some hit)
  obtain rt ps where hit: "hit = (rt, ps)" by fastforce
  with Some mux have rt: "rt \<in> set (router_routes cfg)" unfolding routes_listed_def by blast
  show ?thesis
  proof (cases "lets_in (rt_access rt) (session_claims cfg su r0 st)")
    case True
    with Some hit rt handlers limiter show ?thesis by (simp add: served guarded_keeps)
  next
    case False
    with Some hit show ?thesis by (simp add: served guarded_refuses)
  qed
qed (simp add: serve_request_def)

lemma open_routes_only: "lets_in acc None \<Longrightarrow> acc \<in> {Public, Limited}"
  by (cases acc) (simp_all add: lets_in_def isAdmin_def)

lemma let_in_endpoint:
  assumes "rt \<in> set (router_routes cfg)" "lets_in (rt_access rt) c"
  shows "\<not> isAdmin c \<Longrightarrow> rt_endpoint rt \<in> set (open_endpoints @ member_endpoints)"
    and "c = None \<Longrightarrow> rt_endpoint rt \<in> set open_endpoints"
proof -
  show "rt_endpoint rt \<in> set (open_endpoints @ member_endpoints)" if "\<not> isAdmin c"
    using assms that by (intro route_endpoint(2)) (auto simp: lets_in_def)
  show "rt_endpoint rt \<in> set open_endpoints" if "c = None"
    using assms that open_routes_only by (intro route_endpoint(1)) auto
qed

context member_view
begin

lemma member_request_view:
  assumes "routes_listed mx" "\<not> isAdmin (session_claims cfg su r st)"
  shows "p (sv_store (snd (serve_request cfg mx su m path r st))) = p (sv_store st)"
proof (rule served_keeps[where q = "\<lambda>t. p (sv_store t)", OF assms(1)])
  show "p (sv_store (snd (endpoint_handler cfg su (rt_endpoint rt) c r' t))) = p (sv_store t)"
    if "rt \<in> set (router_routes cfg)" "lets_in (rt_access rt) (session_claims cfg su r st)" for rt c r' t
    by (rule member_endpoint_view[OF let_in_endpoint(1)[OF that assms(2)]])
qed simp

end

context public_view
begin

lemma open_request_view:
  assumes "routes_listed mx" "session_claims cfg su r st = None"
  shows "p (sv_store (snd (serve_request cfg mx su m path r st))) = p (sv_store st)"
proof (rule served_keeps[where q = "\<lambda>t. p (sv_store t)", OF assms(1)])
  show "p (sv_store (snd (endpoint_handler cfg su (rt_endpoint rt) c r' t))) = p (sv_store t)"
    if "rt \<in> set (router_routes cfg)" "lets_in (rt_access rt) (session_claims cfg su r st)" for rt c r' t
    by (rule open_endpoint_view[OF let_in_endpoint(2)[OF that assms(2)]])
qed simp

end

lemma open_request_rest:
  assumes "routes_listed mx" "session_claims cfg su r st = None"
  shows "(sv_scheduler (snd (serve_request cfg mx su m path r st)), sv_manager (snd (serve_request cfg mx su m path r st))) =
    (sv_scheduler st, sv_manager st)"
proof (rule served_keeps[where q = "\<lambda>t. (sv_scheduler t, sv_manager t)", OF assms(1)])
  show "(sv_scheduler (snd (endpoint_handler cfg su (rt_endpoint rt) c r' t)),
      sv_manager (snd (endpoint_handler cfg su (rt_endpoint rt) c r' t))) = (sv_scheduler t, sv_manager t)"
    if "rt \<in> set (router_routes cfg)" "lets_in (rt_access rt) (session_claims cfg su r st)" for rt c r' t
    by (rule open_endpoint_rest[OF let_in_endpoint(2)[OF that assms(2)]])
qed simp

lemma confined_request:
  assumes "routes_listed mx" "\<not> isAdmin (session_claims cfg su r st)"
    and "serve_request cfg mx su m path r st = ((hs, a), st')"
  shows "settings (sv_store st') = settings (sv_store st) \<and> oidc_providers (sv_store st') = oidc_providers (sv_store st) \<and>
      jobs (sv_store st') = jobs (sv_store st) \<and> job_destinations (sv_store st') = job_destinations (sv_store st) \<and>
      job_logs (sv_store st') = job_logs (sv_store st) \<and> snapshots (sv_store st') = snapshots (sv_store st) \<and>
      deliveries (sv_store st') = deliveries (sv_store st)"
    and "session_claims cfg su r st = None \<Longrightarrow>
      agents (sv_store st') = agents (sv_store st) \<and> destinations (sv_store st') = destinations (sv_store st) \<and>
      policies (sv_store st') = policies (sv_store st) \<and>
      policy_destinations (sv_store st') = policy_destinations (sv_store st) \<and>
      notifications (sv_store st') = notifications (sv_store st) \<and>
      sv_scheduler st' = sv_scheduler st \<and> sv_manager st' = sv_manager st"
    and "mx (router_routes cfg) m path = Some (rt, ps) \<Longrightarrow> rt_access rt = AdminOnly \<Longrightarrow>
      a = refusal (session_claims cfg su r st) \<and> st' = st"
proof -
  have st': "st' = snd (serve_request cfg mx su m path r st)" and a: "a = snd (fst (serve_request cfg mx su m path r st))"
    using assms(3) by simp_all
  note member = assms(1,2)
  show "settings (sv_store st') = settings (sv_store st) \<and> oidc_providers (sv_store st') = oidc_providers (sv_store st) \<and>
      jobs (sv_store st') = jobs (sv_store st) \<and> job_destinations (sv_store st') = job_destinations (sv_store st) \<and>
      job_logs (sv_store st') = job_logs (sv_store st) \<and> snapshots (sv_store st') = snapshots (sv_store st) \<and>
      deliveries (sv_store st') = deliveries (sv_store st)"
    unfolding st' settings_view.member_request_view[OF member] provider_view.member_request_view[OF member]
      job_view.member_request_view[OF member] job_destination_view.member_request_view[OF member]
      job_log_view.member_request_view[OF member] snapshot_view.member_request_view[OF member]
      delivery_view.member_request_view[OF member] by simp
  show "agents (sv_store st') = agents (sv_store st) \<and> destinations (sv_store st') = destinations (sv_store st) \<and>
      policies (sv_store st') = policies (sv_store st) \<and>
      policy_destinations (sv_store st') = policy_destinations (sv_store st) \<and>
      notifications (sv_store st') = notifications (sv_store st) \<and>
      sv_scheduler st' = sv_scheduler st \<and> sv_manager st' = sv_manager st" if none: "session_claims cfg su r st = None"
    using open_request_rest[OF assms(1) none, of m path]
    unfolding st' agent_view.open_request_view[OF assms(1) none] destination_view.open_request_view[OF assms(1) none]
      policy_view.open_request_view[OF assms(1) none] policy_destination_view.open_request_view[OF assms(1) none]
      notification_view.open_request_view[OF assms(1) none] by simp
  show "a = refusal (session_claims cfg su r st) \<and> st' = st"
    if "mx (router_routes cfg) m path = Some (rt, ps)" "rt_access rt = AdminOnly"
  proof -
    have "\<not> lets_in (rt_access rt) (session_claims cfg su ((real_ip cfg r)\<lparr>hr_params := ps\<rparr>) st)"
      using that(2) assms(2) by (simp add: lets_in_def)
    from guarded_refuses[OF this] show ?thesis unfolding st' a using that(1) by (simp add: served)
  qed
qed

text \<open>C3: the router keeps what needs an administrator from everyone else.  A request whose token is missing, invalid,
revoked or not an administrator's leaves the settings, the identity providers, jobs, snapshots and queued deliveries
as they are, whatever the method, path and body; without a valid token it changes no agent, destination, policy or
notification either, and neither the scheduler nor the connections; and an admin-only route answers it with a refusal
and touches nothing.\<close>

theorem requests_confined:
  assumes "routes_listed mx" "\<not> isAdmin (session_claims cfg su r st)"
    and "serve_request cfg mx su m path r st = ((hs, a), st')"
  shows "(settings (sv_store st') = settings (sv_store st) \<and> oidc_providers (sv_store st') = oidc_providers (sv_store st) \<and>
      jobs (sv_store st') = jobs (sv_store st) \<and> job_destinations (sv_store st') = job_destinations (sv_store st) \<and>
      job_logs (sv_store st') = job_logs (sv_store st) \<and> snapshots (sv_store st') = snapshots (sv_store st) \<and>
      deliveries (sv_store st') = deliveries (sv_store st)) \<and>
    (session_claims cfg su r st = None \<longrightarrow>
      agents (sv_store st') = agents (sv_store st) \<and> destinations (sv_store st') = destinations (sv_store st) \<and>
      policies (sv_store st') = policies (sv_store st) \<and>
      policy_destinations (sv_store st') = policy_destinations (sv_store st) \<and>
      notifications (sv_store st') = notifications (sv_store st) \<and>
      sv_scheduler st' = sv_scheduler st \<and> sv_manager st' = sv_manager st) \<and>
    (\<forall>rt ps. mx (router_routes cfg) m path = Some (rt, ps) \<and> rt_access rt = AdminOnly \<longrightarrow>
      a = refusal (session_claims cfg su r st) \<and> st' = st)"
  using confined_request(1)[OF assms] confined_request(2)[OF assms] confined_request(3)[OF assms] by blast

section \<open>A mux and a client\<close>

definition exact_mux :: mux where
  "exact_mux rs m path =
     map_option (\<lambda>rt. (rt, \<lambda>_. [])) (find (\<lambda>rt. rt_method rt = m \<and> rt_pattern rt = path) rs)"

lemma exact_mux_listed: "routes_listed exact_mux"
  by (auto simp: routes_listed_def exact_mux_def find_Some_iff)

definition demo_config :: "server_config \<Rightarrow> server_config" where
  "demo_config cfg = cfg\<lparr>sc_env := (sc_env cfg)\<lparr>ae_crypto := demo_crypto\<rparr>\<rparr>"

definition demo_bearer :: "http_request \<Rightarrow> http_request" where
  "demo_bearer r = r\<lparr>hr_header := \<lambda>k. ''bearer token''\<rparr>"

lemma demo_session:
  "session_claims (demo_config cfg) (su\<lparr>su_now := 30\<rparr>) (demo_bearer r) (st\<lparr>sv_denylist := []\<rparr>) = Some demo_claims"
  by (simp add: session_claims_def demo_config_def demo_bearer_def bearer_token_def split_space_def fold_key_def
      fold_char_def validate_token_def ValidateAccessToken_def jwt_ValidateAccessToken_def IsRevoked_def demo_crypto_def
      second_def)

theorem requests_confined_witness:
  "\<forall>cfg su r st.
     serve_request (demo_config cfg) exact_mux (su\<lparr>su_now := 30\<rparr>) DELETE ''/api/v1/snapshots/{id}'' (demo_bearer r)
        (st\<lparr>sv_denylist := []\<rparr>) = ((SecurityHeaders, Reply Forbidden), st\<lparr>sv_denylist := []\<rparr>) \<and>
     settings (sv_store (snd (serve_request (demo_config cfg) exact_mux (su\<lparr>su_now := 30\<rparr>) POST ''/api/v1/agents''
        (demo_bearer r) (st\<lparr>sv_denylist := []\<rparr>)))) = settings (sv_store st) \<and>
     sv_manager (snd (serve_request cfg exact_mux su POST ''/api/v1/agents'' (r\<lparr>hr_header := \<lambda>k. []\<rparr>) st)) = sv_manager st"
proof (intro allI conjI)
  fix cfg :: server_config and su :: surroundings and r :: http_request and st :: server_state
  let ?cfg = "demo_config cfg" and ?su = "su\<lparr>su_now := 30\<rparr>" and ?r = "demo_bearer r" and ?st = "st\<lparr>sv_denylist := []\<rparr>"
  have user: "\<not> isAdmin (session_claims ?cfg ?su ?r ?st)"
    unfolding demo_session by (simp add: isAdmin_def demo_claims_def)
  note confined = requests_confined[OF exact_mux_listed user]
  obtain hs a st' where s: "serve_request ?cfg exact_mux ?su DELETE ''/api/v1/snapshots/{id}'' ?r ?st = ((hs, a), st')"
    by (metis surj_pair)
  have "exact_mux (router_routes ?cfg) DELETE ''/api/v1/snapshots/{id}'' =
      Some (api AdminOnly DELETE ''/snapshots/{id}'' SnapshotDelete, \<lambda>_. [])"
    by (simp add: exact_mux_def router_routes_def public_routes_def session_routes_def api_def entry_def)
  from confined[OF s] this s show "serve_request ?cfg exact_mux ?su DELETE ''/api/v1/snapshots/{id}'' ?r ?st =
      ((SecurityHeaders, Reply Forbidden), ?st)"
    by (auto simp: demo_session refusal_def api_def entry_def serve_request_def split: option.splits prod.splits)
  obtain hs a st' where s: "serve_request ?cfg exact_mux ?su POST ''/api/v1/agents'' ?r ?st = ((hs, a), st')"
    by (metis surj_pair)
  from confined[OF s] s show "settings (sv_store (snd (serve_request ?cfg exact_mux ?su POST ''/api/v1/agents'' ?r ?st))) =
      settings (sv_store st)" by simp
  let ?r = "r\<lparr>hr_header := \<lambda>k. []\<rparr>"
  have none: "session_claims cfg su ?r st = None" by (simp add: session_claims_def)
  obtain hs a st' where s: "serve_request cfg exact_mux su POST ''/api/v1/agents'' ?r st = ((hs, a), st')"
    by (metis surj_pair)
  from requests_confined[OF exact_mux_listed _ s] none s
  show "sv_manager (snd (serve_request cfg exact_mux su POST ''/api/v1/agents'' ?r st)) = sv_manager st"
    by (simp add: isAdmin_def)
qed

end
