(* ===== verification/Sessions.thy ===== *)
theory Sessions
  imports RouterProofs
begin

text \<open>The end of a session, over the whole traffic of the server.\<close>

section \<open>Traffic\<close>

text \<open>Requests, and passes of the cleanup of the denylist and of the limiters.\<close>

datatype server_event =
    Http surroundings http_method string http_request
  | SweepDenylist time
  | SweepLimiters time

fun server_step :: "server_config \<Rightarrow> mux \<Rightarrow> server_event \<Rightarrow> server_state \<Rightarrow> server_state" where
  "server_step cfg mx (Http su m path r) st = snd (serve_request cfg mx su m path r st)"
| "server_step cfg mx (SweepDenylist t) st = st\<lparr>sv_denylist := deny_sweep t (sv_denylist st)\<rparr>"
| "server_step cfg mx (SweepLimiters t) st =
     st\<lparr>sv_logins := limiter_sweep t (sv_logins st), sv_enrolls := limiter_sweep t (sv_enrolls st)\<rparr>"

definition run_server :: "server_config \<Rightarrow> mux \<Rightarrow> server_event list \<Rightarrow> server_state \<Rightarrow> server_state" where
  "run_server cfg mx es st = fold (server_step cfg mx) es st"

section \<open>The denylist\<close>

lemma Login_denylist: "snd (snd (AuthHandler_Login env now inp r sd)) = snd sd"
  by (auto simp: AuthHandler_Login_def split: sum.split prod.split)

lemma Logout_denylist: "snd (snd (AuthHandler_Logout env now c r sd)) = revoke_current c (snd sd)"
  by (auto simp: AuthHandler_Logout_def Let_def split: option.split)

lemma endpoint_denylist:
  "sv_denylist (snd (endpoint_handler cfg su ep c r st)) =
     (if ep = LogoutEP then revoke_current c (sv_denylist st) else sv_denylist st)"
  by (cases ep) (simp_all add: endpoint_handler_def Let_def on_state case_prod_beta Login_denylist Logout_denylist)

text \<open>A token: the parser accepts it with its own claims until they expire, it has an id, and no other accepted token
with that id expires at another time.\<close>

definition token_of :: "auth_crypto \<Rightarrow> string \<Rightarrow> claims \<Rightarrow> bool" where
  "token_of ac token c =
     ((\<forall>t c'. ac_parse ac (ac_issuer ac) t token = Inr c' \<longrightarrow> c' = c \<and> t < cl_expires_at c) \<and> cl_id c \<noteq> [] \<and>
      (\<forall>t token' c'. ac_parse ac (ac_issuer ac) t token' = Inr c' \<and> cl_id c' = cl_id c \<longrightarrow>
         cl_expires_at c' = cl_expires_at c))"

lemma validated_claims:
  "ValidateAccessToken ac now token d = Inr c \<Longrightarrow> ac_parse ac (ac_issuer ac) now token = Inr c"
  by (auto simp: ValidateAccessToken_def jwt_ValidateAccessToken_def split: sum.splits jwt_error.splits if_splits)

lemma session_claims_parsed:
  "session_claims cfg su r st = Some c \<Longrightarrow>
   \<exists>token. ac_parse (ae_crypto (sc_env cfg)) (ac_issuer (ae_crypto (sc_env cfg))) (su_now su) token = Inr c"
  by (auto simp: session_claims_def validate_token_def dest: validated_claims split: option.splits sum.splits)

lemma revoke_current_denied:
  assumes "token_of ac token c" "still_denied c now d"
    and "\<And>cl. c' = Some cl \<Longrightarrow> \<exists>t token'. ac_parse ac (ac_issuer ac) t token' = Inr cl"
  shows "still_denied c now (revoke_current c' d)"
proof (cases c')
  case (Some cl)
  with assms(1,3) have "deny_fine c now (DenyAdd (cl_id cl) (cl_expires_at cl))"
    by (auto simp: deny_fine_def token_of_def)
  from still_denied_run[OF assms(2) this] Some assms(2) show ?thesis by (simp add: revoke_current_def)
qed (simp add: revoke_current_def assms(2))

lemma denied_refused:
  assumes "token_of ac token c" "still_denied c now d"
  shows "\<exists>e. ValidateAccessToken ac now token d = Inl e"
proof (cases "ac_parse ac (ac_issuer ac) now token")
  case (Inl e)
  then show ?thesis by (cases e) (simp_all add: ValidateAccessToken_def jwt_ValidateAccessToken_def)
next
  case (Inr c')
  with assms(1) have "c' = c" "now < cl_expires_at c" unfolding token_of_def by blast+
  with assms(2) Inr show ?thesis
    by (auto simp: ValidateAccessToken_def jwt_ValidateAccessToken_def still_denied_def IsRevoked_def)
qed

section \<open>Every request keeps a denied token denied\<close>

lemma guarded_invariant:
  assumes "I st" "\<And>t rl. I t \<Longrightarrow> I (t\<lparr>sv_logins := rl\<rparr>)"
    and "\<And>c t. I t \<Longrightarrow> (\<And>cl. c = Some cl \<Longrightarrow> session_claims cfg su r st = Some cl) \<Longrightarrow> I (snd (h c r t))"
  shows "I (snd (guarded cfg su acc h r st))"
proof (cases acc)
  case Limited
  obtain ok rl where a: "Allow (su_now su) (clientIP r) (sv_logins st) = (ok, rl)" by fastforce
  obtain x t where h: "h None r (st\<lparr>sv_logins := rl\<rparr>) = (x, t)" by fastforce
  have kept: "I (st\<lparr>sv_logins := rl\<rparr>)" for rl by (rule assms(2)[OF assms(1)])
  have "I (snd (h None r (st\<lparr>sv_logins := rl\<rparr>)))" by (rule assms(3)[OF kept]) simp
  then have "I t" unfolding h by simp
  with kept Limited a h show ?thesis by (cases ok) (simp_all add: guarded_def RateLimit_def)
next
  case Public
  with assms(1) assms(3)[of st None] show ?thesis by (simp add: guarded_def)
next
  case Session
  with assms(1) assms(3)[of st "session_claims cfg su r st"] show ?thesis
    by (cases "session_claims cfg su r st") (simp_all add: guarded_def Authenticate_claims)
next
  case AdminOnly
  with assms(1) assms(3)[of st "session_claims cfg su r st"] show ?thesis
    by (cases "session_claims cfg su r st") (simp_all add: guarded_def Authenticate_claims RequireRole_def)
qed

lemma server_step_denied:
  assumes "token_of (ae_crypto (sc_env cfg)) token c" "still_denied c now (sv_denylist st)"
    and "\<And>t. e = SweepDenylist t \<Longrightarrow> t \<le> now"
  shows "still_denied c now (sv_denylist (server_step cfg mx e st))"
proof (cases e)
  case (Http su m path r)
  let ?I = "\<lambda>t. still_denied c now (sv_denylist t)"
  show ?thesis
  proof (cases "mx (router_routes cfg) m path")
    case (Some hit)
    obtain rt ps where hit: "hit = (rt, ps)" by fastforce
    have "?I (snd (guarded cfg su (rt_access rt) (endpoint_handler cfg su (rt_endpoint rt))
        ((real_ip cfg r)\<lparr>hr_params := ps\<rparr>) st))"
    proof (rule guarded_invariant)
      show "?I (snd (endpoint_handler cfg su (rt_endpoint rt) c' ((real_ip cfg r)\<lparr>hr_params := ps\<rparr>) t))"
        if "?I t" "\<And>cl. c' = Some cl \<Longrightarrow> session_claims cfg su ((real_ip cfg r)\<lparr>hr_params := ps\<rparr>) st = Some cl" for c' t
      proof -
        have "still_denied c now (revoke_current c' (sv_denylist t))"
          using that(2) session_claims_parsed[of cfg su r st]
          by (intro revoke_current_denied[OF assms(1) that(1)]) auto
        with that(1) show ?thesis by (simp add: endpoint_denylist)
      qed
    qed (use assms(2) in simp_all)
    with Http Some hit show ?thesis by (simp add: served)
  qed (use Http assms(2) in \<open>simp add: serve_request_def\<close>)
next
  case (SweepDenylist t)
  with still_denied_run[OF assms(2), of "DenySweep t"] assms(3) show ?thesis by (simp add: deny_fine_def)
qed (use assms(2) in simp)

lemma run_server_denied:
  assumes "token_of (ae_crypto (sc_env cfg)) token c" "still_denied c now (sv_denylist st)"
    and "\<forall>t. SweepDenylist t \<in> set es \<longrightarrow> t \<le> now"
  shows "still_denied c now (sv_denylist (run_server cfg mx es st))"
  using assms(2,3) unfolding run_server_def
proof (induction es arbitrary: st)
  case (Cons e es)
  then have "still_denied c now (sv_denylist (server_step cfg mx e st))"
    by (intro server_step_denied[OF assms(1)]) auto
  with Cons show ?case by simp
qed simp

section \<open>Logout\<close>

lemma endpoint_access:
  "rt \<in> set (router_routes cfg) \<Longrightarrow> rt_endpoint rt = LogoutEP \<Longrightarrow> rt_access rt = Session"
  by (auto simp: router_routes_def public_routes_def session_routes_def admin_routes_def api_def entry_def
      split: if_splits)

lemma Logout_store:
  assumes "faults s = []"
  shows "\<forall>t \<in> set (refresh_tokens (snd (Logout ac raw s))). rt_token_hash t \<noteq> hashRefreshToken ac raw"
  using assms by (auto simp: Logout_def tokens_DeleteByHash_def ignoring_rows_def db_delete_def sql_def Let_def
      no_restrict_def no_cascade_def list_ex_iff split: sum.split prod.split)

lemma after_logout:
  assumes "routes_listed mx" "token_of (ae_crypto (sc_env cfg)) token c" "map_ok (sv_denylist st)"
    and "mx (router_routes cfg) m path = Some (rt, ps)" "rt_endpoint rt = LogoutEP"
    and "session_claims cfg su r st = Some c"
    and "\<forall>t. SweepDenylist t \<in> set es \<longrightarrow> t \<le> su_now su2"
    and "st2 = run_server cfg mx (Http su m path r # es) st"
  shows "bearer_token (hr_header r2 ''Authorization'') = Some token \<Longrightarrow>
      mx (router_routes cfg) m2 path2 = Some (rt2, ps2) \<Longrightarrow> rt_access rt2 \<in> {Session, AdminOnly} \<Longrightarrow>
      serve_request cfg mx su2 m2 path2 r2 st2 = ((SecurityHeaders, Reply Unauthorized), st2)"
    and "hr_query r2 ''token'' = token \<Longrightarrow> ServeWS (validate_token cfg su2 st2) r2 = Inl Unauthorized"
    and "hr_cookie r ''arkeep_refresh_token'' = Some raw \<Longrightarrow> faults (sv_store st) = [] \<Longrightarrow>
      \<forall>t \<in> set (refresh_tokens (sv_store (snd (serve_request cfg mx su m path r st)))).
        rt_token_hash t \<noteq> hashRefreshToken (ae_crypto (sc_env cfg)) raw"
proof -
  let ?st1 = "snd (serve_request cfg mx su m path r st)" and ?r = "(real_ip cfg r)\<lparr>hr_params := ps\<rparr>"
  have "rt_access rt = Session" using assms(1,4,5) endpoint_access unfolding routes_listed_def by blast
  with assms(4-6) have st1: "?st1 = snd (on_denylist (AuthHandler_Logout (sc_env cfg) (su_now su) (Some c) ?r) st)"
    by (simp add: served guarded_def Authenticate_claims endpoint_handler_def Let_def)
  have "sv_denylist ?st1 = revoke_current (Some c) (sv_denylist st)"
    unfolding st1 by (simp add: on_state case_prod_beta Logout_denylist)
  then have "still_denied c (su_now su2) (sv_denylist ?st1)"
    using assms(2,3)
    by (simp add: revoke_current_def token_of_def still_denied_def RevokeAccessToken_def deny_Add_def amap.ok_put)
  from run_server_denied[OF assms(2) this assms(7)] have "still_denied c (su_now su2) (sv_denylist st2)"
    by (simp add: assms(8) run_server_def)
  from denied_refused[OF assms(2) this]
  have denied: "\<exists>e. validate_token cfg su2 st2 token = Inl e" by (simp add: validate_token_def)
  then show "hr_query r2 ''token'' = token \<Longrightarrow> ServeWS (validate_token cfg su2 st2) r2 = Inl Unauthorized"
    by (auto simp: ServeWS_def)
  show "serve_request cfg mx su2 m2 path2 r2 st2 = ((SecurityHeaders, Reply Unauthorized), st2)"
    if "bearer_token (hr_header r2 ''Authorization'') = Some token" "mx (router_routes cfg) m2 path2 = Some (rt2, ps2)"
      "rt_access rt2 \<in> {Session, AdminOnly}"
  proof -
    from denied that(1) have none: "session_claims cfg su2 r2 st2 = None" by (auto simp: session_claims_def)
    with that(3) have "\<not> lets_in (rt_access rt2) (session_claims cfg su2 ((real_ip cfg r2)\<lparr>hr_params := ps2\<rparr>) st2)"
      by (auto simp: lets_in_def isAdmin_def)
    from guarded_refuses[OF this] that(2) none show ?thesis
      by (simp add: serve_request_def refusal_def)
  qed
  show "\<forall>t \<in> set (refresh_tokens (sv_store ?st1)). rt_token_hash t \<noteq> hashRefreshToken (ae_crypto (sc_env cfg)) raw"
    if "hr_cookie r ''arkeep_refresh_token'' = Some raw" "faults (sv_store st) = []"
    using that Logout_store[OF that(2), of "ae_crypto (sc_env cfg)" raw]
    unfolding st1 by (simp add: on_state case_prod_beta AuthHandler_Logout_def Let_def real_ip_def)
qed

text \<open>C7: logging out is final.  After a logout that was let in, and whatever the server serves and sweeps afterwards, the
access token of the request is worth nothing any more: every route that needs a session answers 401 and changes
nothing, and no websocket is opened with it.  When no statement of the database fails during the
logout, the refresh token of the request's cookie is gone from the table.  Of
the JWT library this uses that it accepts the token only with its own claims, before they expire, and that ids are not
shared by tokens with different expiries.\<close>

theorem logout_final:
  assumes "routes_listed mx" "token_of (ae_crypto (sc_env cfg)) token c" "map_ok (sv_denylist st)"
    and "mx (router_routes cfg) m path = Some (rt, ps)" "rt_endpoint rt = LogoutEP"
    and "session_claims cfg su r st = Some c"
    and "\<forall>t. SweepDenylist t \<in> set es \<longrightarrow> t \<le> su_now su2"
    and "st2 = run_server cfg mx (Http su m path r # es) st"
  shows "(\<forall>r2 m2 path2 rt2 ps2. bearer_token (hr_header r2 ''Authorization'') = Some token \<and>
        mx (router_routes cfg) m2 path2 = Some (rt2, ps2) \<and> rt_access rt2 \<in> {Session, AdminOnly} \<longrightarrow>
        serve_request cfg mx su2 m2 path2 r2 st2 = ((SecurityHeaders, Reply Unauthorized), st2)) \<and>
    (\<forall>r2. hr_query r2 ''token'' = token \<longrightarrow> ServeWS (validate_token cfg su2 st2) r2 = Inl Unauthorized) \<and>
    (\<forall>raw. hr_cookie r ''arkeep_refresh_token'' = Some raw \<and> faults (sv_store st) = [] \<longrightarrow>
      (\<forall>t \<in> set (refresh_tokens (sv_store (snd (serve_request cfg mx su m path r st)))).
        rt_token_hash t \<noteq> hashRefreshToken (ae_crypto (sc_env cfg)) raw))"
proof (intro conjI allI impI; (elim conjE)?)
  note after = after_logout[OF assms]
  show "serve_request cfg mx su2 m2 path2 r2 st2 = ((SecurityHeaders, Reply Unauthorized), st2)"
    if "bearer_token (hr_header r2 ''Authorization'') = Some token" "mx (router_routes cfg) m2 path2 = Some (rt2, ps2)"
      "rt_access rt2 \<in> {Session, AdminOnly}" for r2 m2 path2 rt2 ps2
    by (rule after(1)[OF that])
  show "ServeWS (validate_token cfg su2 st2) r2 = Inl Unauthorized" if "hr_query r2 ''token'' = token" for r2
    by (rule after(2)[OF that])
  show "\<forall>t \<in> set (refresh_tokens (sv_store (snd (serve_request cfg mx su m path r st)))).
      rt_token_hash t \<noteq> hashRefreshToken (ae_crypto (sc_env cfg)) raw"
    if "hr_cookie r ''arkeep_refresh_token'' = Some raw" "faults (sv_store st) = []" for raw
    by (rule after(3)[OF that])
qed

definition demo_logout :: "http_request \<Rightarrow> http_request" where
  "demo_logout r = (demo_bearer r)\<lparr>hr_cookie := \<lambda>_. Some ''old''\<rparr>"

lemma demo_token_of: "token_of demo_crypto ''token'' demo_claims"
  by (auto simp: token_of_def demo_crypto_def demo_claims_def split: if_splits)

theorem logout_final_witness:
  "\<forall>cfg su su2 r r2 c m ac v. let st = NewRouter_state demo_session_store c m ac v in
     serve_request (demo_config cfg) exact_mux (su2\<lparr>su_now := 60\<rparr>) GET ''/api/v1/jobs'' (demo_bearer r2)
       (run_server (demo_config cfg) exact_mux
         [Http (su\<lparr>su_now := 30\<rparr>) POST ''/api/v1/auth/logout'' (demo_logout r), SweepDenylist 50] st) =
     ((SecurityHeaders, Reply Unauthorized),
      run_server (demo_config cfg) exact_mux
         [Http (su\<lparr>su_now := 30\<rparr>) POST ''/api/v1/auth/logout'' (demo_logout r), SweepDenylist 50] st)"
proof (intro allI)
  fix cfg :: server_config and su su2 :: surroundings and r r2 :: http_request and c m ac v
  let ?cfg = "demo_config cfg" and ?su = "su\<lparr>su_now := 30\<rparr>" and ?st = "NewRouter_state demo_session_store c m ac v"
  have token: "token_of (ae_crypto (sc_env ?cfg)) ''token'' demo_claims" by (simp add: demo_config_def demo_token_of)
  have st: "?st = ?st\<lparr>sv_denylist := []\<rparr>" by (simp add: NewRouter_state_def NewDenylist_def)
  have session: "session_claims ?cfg ?su (demo_logout r) ?st = Some demo_claims"
    using demo_session[of cfg su r ?st] st by (simp add: session_claims_def demo_logout_def)
  have ok: "map_ok (sv_denylist ?st)" by (simp add: NewRouter_state_def NewDenylist_def map_ok_def)
  have logout: "exact_mux (router_routes ?cfg) POST ''/api/v1/auth/logout'' =
      Some (api Session POST ''/auth/logout'' LogoutEP, \<lambda>_. [])"
    and jobs: "exact_mux (router_routes ?cfg) GET ''/api/v1/jobs'' = Some (api Session GET ''/jobs'' JobsList, \<lambda>_. [])"
    by (simp_all add: exact_mux_def router_routes_def public_routes_def session_routes_def api_def entry_def)
  have bearer: "bearer_token (hr_header (demo_bearer r2) ''Authorization'') = Some ''token''"
    by (simp add: demo_bearer_def bearer_token_def split_space_def fold_key_def fold_char_def)
  have "serve_request ?cfg exact_mux (su2\<lparr>su_now := 60\<rparr>) GET ''/api/v1/jobs'' (demo_bearer r2)
      (run_server ?cfg exact_mux [Http ?su POST ''/api/v1/auth/logout'' (demo_logout r), SweepDenylist 50] ?st) =
     ((SecurityHeaders, Reply Unauthorized),
      run_server ?cfg exact_mux [Http ?su POST ''/api/v1/auth/logout'' (demo_logout r), SweepDenylist 50] ?st)"
    using logout_final[OF exact_mux_listed token ok logout _ session _ refl,
        where es = "[SweepDenylist 50]" and ?su2.0 = "su2\<lparr>su_now := 60\<rparr>"] bearer jobs
    by (simp add: api_def entry_def)
  then show "let st = ?st in serve_request ?cfg exact_mux (su2\<lparr>su_now := 60\<rparr>) GET ''/api/v1/jobs'' (demo_bearer r2)
       (run_server ?cfg exact_mux [Http ?su POST ''/api/v1/auth/logout'' (demo_logout r), SweepDenylist 50] st) =
     ((SecurityHeaders, Reply Unauthorized),
      run_server ?cfg exact_mux [Http ?su POST ''/api/v1/auth/logout'' (demo_logout r), SweepDenylist 50] st)"
    by simp
qed

end
