(* ===== verification/ApiUsersProofs.thy ===== *)
theory ApiUsersProofs
  imports ApiUsers Frames
begin

text \<open>What the handlers of users guarantee: accounts keep distinct ids, distinct emails and one of the two roles;
nobody changes more than the own name and password without being an administrator; and the public setup route
creates an account only while there is none.\<close>

section \<open>Accounts\<close>

definition accounts_ok :: "store \<Rightarrow> bool" where
  "accounts_ok s = (distinct (map ID (users s)) \<and> distinct (map usr_email (users s)) \<and>
     list_all (\<lambda>u. usr_role u \<in> {''admin'', ''user''}) (users s))"

lemma accounts_ok_users: "users s' = users s \<Longrightarrow> accounts_ok s' = accounts_ok s"
  by (simp add: accounts_ok_def)

lemma user_check_None:
  "user_check s u = None \<longleftrightarrow> usr_role u \<in> {''admin'', ''user''} \<and>
     (\<forall>v\<in>set (users s). usr_email v = usr_email u \<longrightarrow> ID v = ID u)"
  by (auto simp: user_check_def list_ex_iff)

lemma user_check_store: "users s' = users s \<Longrightarrow> user_check s' u = user_check s u"
  by (simp add: user_check_def)

text \<open>An insertion that succeeds has passed the check of the table.\<close>

lemma user_insert_checked:
  "case sql (insert_row users users_update user_check r) s of
     (Inl e, s') \<Rightarrow> users s' = users s
   | (Inr r', s') \<Rightarrow> r' = r \<and> users s' = users s @ [r] \<and> ID r \<notin> ID ` set (users s) \<and> user_check s r = None"
  by (rule sql_rule) (auto simp: insert_row_def user_check_def split: option.split if_splits)

lemma users_Create_cases:
  "case users_Create now u s of
     (Inl e, s') \<Rightarrow> users s' = users s
   | (Inr v, s') \<Rightarrow> users s' = users s @ [v] \<and> ID v \<notin> ID ` set (users s) \<and> user_check s v = None \<and>
       (\<exists>i. v = stamp_new now ((user_defaults u)\<lparr>ID := i\<rparr>))"
proof -
  let ?u = "user_defaults u"
  have ins: "case sql (insert_row users users_update user_check r) t of
     (Inl e, s') \<Rightarrow> users s' = users s
   | (Inr r', s') \<Rightarrow> r' = r \<and> users s' = users s @ [r] \<and> ID r \<notin> ID ` set (users s) \<and> user_check s r = None"
    if "users t = users s" for r t
    using user_insert_checked[where r = r and s = t] that user_check_store[OF that]
    by (auto split: prod.splits sum.splits)
  obtain r s1 where b: "before_create ?u s = (r, s1)" by fastforce
  have b1: "users s1 = users s" "\<And>x. r = Some x \<Longrightarrow> \<exists>i. x = ?u\<lparr>ID := i\<rparr>"
  proof -
    show "users s1 = users s"
      using before_create_frame[of users ?u s] b by simp
    show "\<exists>i. x = ?u\<lparr>ID := i\<rparr>" if "r = Some x" for x
      using b that by (auto simp: before_create_def split: if_splits list.splits intro: exI[of _ "ID ?u"])
  qed
  show ?thesis
  proof (cases r)
    case None
    with b b1 show ?thesis by (simp add: users_Create_def db_create_def)
  next
    case (Some x)
    with b1(2) obtain i where i: "x = ?u\<lparr>ID := i\<rparr>" by blast
    show ?thesis
      using ins[OF b1(1), of "stamp_new now x"] b Some i
      by (auto simp: users_Create_def db_create_def split: prod.splits sum.splits)
  qed
qed

lemma accounts_ok_append:
  assumes "accounts_ok s" "users s' = users s @ [v]" "ID v \<notin> ID ` set (users s)" "user_check s v = None"
  shows "accounts_ok s'"
proof -
  have "usr_email v \<notin> usr_email ` set (users s)"
  proof
    assume "usr_email v \<in> usr_email ` set (users s)"
    then obtain w where w: "w \<in> set (users s)" "usr_email w = usr_email v" by (metis imageE)
    with assms(4) have "ID w = ID v" by (simp add: user_check_None)
    with w(1) assms(3) show False by (metis imageI)
  qed
  with assms show ?thesis by (simp add: accounts_ok_def user_check_None)
qed

lemma users_Create_accounts:
  assumes "accounts_ok s"
  shows "accounts_ok (snd (users_Create now u s))"
proof -
  obtain x s' where r: "users_Create now u s = (x, s')" by fastforce
  note c = users_Create_cases[where now = now and u = u and s = s, unfolded r]
  show ?thesis
  proof (cases x)
    case (Inl e)
    with c r assms accounts_ok_users[of s' s] show ?thesis by simp
  next
    case (Inr v)
    with c r accounts_ok_append[OF assms, of s' v] show ?thesis by simp
  qed
qed

text \<open>An update writes the row with this id, or nothing; only when there is no such row it inserts it.\<close>

lemma write_user:
  "case sql (write_row users users_update user_check (\<lambda>q. ID q = ID r \<and> True) r) s of
     (Inl e, s') \<Rightarrow> users s' = users s
   | (Inr n, s') \<Rightarrow> users s' = update_where (\<lambda>q. ID q = ID r) (\<lambda>_. r) (users s) \<and>
       n = count_where (\<lambda>q. ID q = ID r) (users s) \<and>
       (0 < n \<longrightarrow> user_check s r = None)"
  by (rule sql_rule) (auto simp: write_row_def user_check_def list_ex_iff split: option.split if_splits)

lemma users_Update_cases:
  "case users_Update now u s of
     (Inl e, s') \<Rightarrow> users s' = users s
   | (Inr _, s') \<Rightarrow>
       (if ID u \<in> ID ` set (users s)
        then users s' = update_where (\<lambda>q. ID q = ID u) (\<lambda>_. u\<lparr>UpdatedAt := now\<rparr>) (users s) \<and>
          user_check s (u\<lparr>UpdatedAt := now\<rparr>) = None
        else \<exists>v. users s' = users s @ [v] \<and> ID v = ID u \<and> usr_role v \<in> {usr_role u, ''user''} \<and> user_check s v = None)"
proof -
  let ?r = "u\<lparr>UpdatedAt := now\<rparr>"
  obtain x s1 where w: "sql (write_row users users_update user_check (\<lambda>q. ID q = ID ?r \<and> True) ?r) s = (x, s1)"
    by fastforce
  note c = write_user[where r = ?r and s = s, unfolded w]
  show ?thesis
  proof (cases x)
    case (Inl e)
    with c w show ?thesis by (simp add: users_Update_def rows_affected_def db_save_def Let_def)
  next
    case (Inr n)
    show ?thesis
    proof (cases "0 < n")
      case True
      with Inr c have "\<exists>q\<in>set (users s). ID q = ID u" by simp
      then have "ID u \<in> ID ` set (users s)" by (metis imageI)
      with True Inr c w show ?thesis
        by (simp add: users_Update_def rows_affected_def db_save_def Let_def) blast
    next
      case False
      with Inr c have "\<forall>q\<in>set (users s). ID q \<noteq> ID u" by simp
      then have none: "ID u \<notin> ID ` set (users s)" by (metis imageE)
      have "update_where (\<lambda>q. ID q = ID u) (\<lambda>_. ?r) (users s) = users s"
        by (rule update_where_none) (metis imageI none)
      then have u1: "users s1 = users s" using Inr c by simp
      have up: "case sql (upsert_row users users_update user_check v) s1 of
          (Inl e, s') \<Rightarrow> users s' = users s
        | (Inr n, s') \<Rightarrow> 0 < n \<and> users s' = users s @ [v] \<and> user_check s v = None"
        if "ID v = ID u" for v
      proof -
        have no: "\<not> list_ex (\<lambda>q. ID q = ID v) (users s)" using none that by (auto simp: list_ex_iff image_iff)
        show ?thesis
          by (rule sql_rule)
            (use u1 no in \<open>auto simp: upsert_row_def user_check_def split: option.split if_splits\<close>)
      qed
      have id: "ID (user_defaults ?r) = ID u" "usr_role (user_defaults ?r) \<in> {usr_role u, ''user''}"
        by (simp_all add: user_defaults_def)
      from False Inr w none id up[OF id(1)] show ?thesis
        by (auto simp: users_Update_def rows_affected_def db_save_def Let_def split: prod.splits sum.splits)
    qed
  qed
qed

lemma list_all_update: "list_all P xs \<Longrightarrow> P r \<Longrightarrow> list_all P (update_where Q (\<lambda>_. r) xs)"
  by (induction xs) auto

lemma update_accounts:
  assumes "accounts_ok s" "users s' = update_where (\<lambda>q. ID q = ID r) (\<lambda>_. r) (users s)"
    "user_check s r = None"
  shows "accounts_ok s'"
proof -
  have "distinct (map ID (users s'))"
    using assms(1,2) by (simp add: accounts_ok_def update_where_def o_def if_distrib cong: if_cong)
  moreover have "distinct (map usr_email (users s'))"
  proof -
    have "distinct (map usr_email (update_where (\<lambda>q. ID q = ID r) (\<lambda>_. r) us))"
      if "distinct (map ID us)" "distinct (map usr_email us)"
        "\<forall>v\<in>set us. usr_email v = usr_email r \<longrightarrow> ID v = ID r" for us
      using that
    proof (induction us)
      case (Cons v us)
      have e: "usr_email ` set (update_where (\<lambda>q. ID q = ID r) (\<lambda>_. r) us) \<subseteq>
          insert (usr_email r) (usr_email ` set us)"
        by (auto simp: set_update_where)
      show ?case
      proof (cases "ID v = ID r")
        case True
        then have "\<forall>w\<in>set us. ID w \<noteq> ID r" using Cons.prems(1) by (metis distinct.simps(2) image_eqI list.set_map list.simps(9))
        moreover from this have "update_where (\<lambda>q. ID q = ID r) (\<lambda>_. r) us = us"
          by (intro update_where_none) auto
        moreover from calculation(1) have "usr_email r \<notin> set (map usr_email us)"
          using Cons.prems(3) by (metis image_iff list.set_intros(2) list.set_map)
        ultimately show ?thesis using Cons.prems(2) True by simp
      next
        case False
        then have "usr_email v \<noteq> usr_email r" using Cons.prems(3) by auto
        with False Cons e show ?thesis by auto
      qed
    qed simp
    moreover have "\<forall>v\<in>set (users s). usr_email v = usr_email r \<longrightarrow> ID v = ID r"
      using assms(3) by (simp add: user_check_None)
    ultimately show ?thesis using assms(1,2) by (simp add: accounts_ok_def)
  qed
  moreover have "list_all (\<lambda>u. usr_role u \<in> {''admin'', ''user''}) (users s')"
  proof -
    have "usr_role r \<in> {''admin'', ''user''}" using assms(3) by (simp only: user_check_None)
    then show ?thesis using assms(1) unfolding accounts_ok_def assms(2) by (intro list_all_update) simp_all
  qed
  ultimately show ?thesis by (simp add: accounts_ok_def)
qed

lemma users_Update_accounts: "accounts_ok s \<Longrightarrow> accounts_ok (snd (users_Update now u s))"
proof -
  assume ok: "accounts_ok s"
  obtain x s' where u: "users_Update now u s = (x, s')" by fastforce
  note c = users_Update_cases[where now = now and u = u and s = s, unfolded u]
  show ?thesis
  proof (cases x)
    case (Inl e)
    with c u ok show ?thesis by (simp add: accounts_ok_def)
  next
    case (Inr y)
    show ?thesis
    proof (cases "ID u \<in> ID ` set (users s)")
      case True
      with c Inr u show ?thesis
        using update_accounts[OF ok, of s' "u\<lparr>UpdatedAt := now\<rparr>"] by simp
    next
      case False
      with c Inr obtain v where "users s' = users s @ [v]" "ID v = ID u" "user_check s v = None" by auto
      with False u show ?thesis using accounts_ok_append[OF ok] by (metis snd_conv)
    qed
  qed
qed

lemma users_Delete_cases:
  "users (snd (users_Delete i s)) = users s \<or>
   users (snd (users_Delete i s)) = delete_where (\<lambda>u. ID u = i) (users s)"
proof -
  have c: "users (user_cascade gone t) = users t" for gone t by (simp add: user_cascade_def Let_def)
  show ?thesis
    unfolding users_Delete_def db_delete_def snd_rows_affected
    by (rule sql_rule) (auto simp: c Let_def no_restrict_def list_ex_iff)
qed

lemma users_Delete_accounts: "accounts_ok s \<Longrightarrow> accounts_ok (snd (users_Delete i s))"
  using users_Delete_cases[of i s]
  by (auto simp: accounts_ok_def delete_where_def distinct_map_filter list_all_iff)

section \<open>Frames\<close>

lemma users_GetByID_users: "users (snd (users_GetByID i s)) = users s"
  by (simp add: users_GetByID_def users_tbl.first_rows)

lemma users_GetByID_Inr: "users_GetByID i s = (Inr u, s') \<Longrightarrow> u \<in> set (users s) \<and> ID u = i \<and> users s' = users s"
  using users_tbl.first_Inr[of "\<lambda>u. ID u = i" s u s'] users_GetByID_users[of i s]
  by (simp add: users_GetByID_def)

lemma users_lookup_users:
  "users (snd (users_GetByEmail e s)) = users s" "users (snd (users_GetByOIDC p x s)) = users s"
  by (simp_all add: users_GetByEmail_def users_GetByOIDC_def users_tbl.first_rows)

lemma tokens_users:
  "users (snd (tokens_Create now t s)) = users s"
  "users (snd (tokens_GetByHash h s)) = users s"
  "users (snd (tokens_RevokeAllForUser now u s)) = users s"
  by (simp_all add: tokens_Create_def tokens_GetByHash_def tokens_RevokeAllForUser_def db_frames)

lemma tokens_DeleteByHash_users: "users (snd (tokens_DeleteByHash h s)) = users s"
  unfolding tokens_DeleteByHash_def snd_ignoring_rows db_delete_def
  by (rule sql_frame) (simp_all add: no_restrict_def no_cascade_def Let_def)

lemma issueTokenPair_users: "users (snd (issueTokenPair ac inp u e ro s)) = users s"
  using tokens_users(1)
  by (auto simp: issueTokenPair_def Let_def split: sum.split option.split prod.split) (metis snd_conv)+

lemma users_List_cases:
  "users (snd (users_List opts s)) = users s \<and>
   (case fst (users_List opts s) of Inl e \<Rightarrow> True | Inr (us, n) \<Rightarrow> n = length (users s))"
proof -
  obtain x s1 where c: "db_count users (\<lambda>_. True) s = (x, s1)" by fastforce
  have "users (snd (db_count users (\<lambda>_. True) s)) = users s" by (simp add: db_frames)
  moreover have "case fst (db_count users (\<lambda>_. True) s) of Inl e \<Rightarrow> True | Inr n \<Rightarrow> n = length (users s)"
    unfolding db_count_def by (rule sql_rule) (simp_all add: count_where_def)
  ultimately have c': "users s1 = users s" "\<And>n. x = Inr n \<Longrightarrow> n = length (users s)" by (auto simp: c)
  have f: "users (snd (db_find users (\<lambda>_. True) g s1)) = users s" for g by (simp add: db_frames c')
  show ?thesis
  proof (cases x)
    case (Inl e)
    with c c' show ?thesis by (simp add: users_List_def page_of_def)
  next
    case (Inr n)
    obtain y s2 where "db_find users (\<lambda>_. True)
        (sql_page (lo_limit opts) (lo_offset opts) \<circ> sort_key CreatedAt) s1 = (y, s2)" by fastforce
    moreover from this f have "users s2 = users s" by (metis snd_conv)
    ultimately show ?thesis using c c' Inr by (cases y) (simp_all add: users_List_def page_of_def)
  qed
qed

lemma updated_me_cases:
  "updated_me env salt req u = Inr v \<Longrightarrow>
   \<exists>n p. v = u\<lparr>usr_display_name := n, usr_password := p\<rparr> \<and>
     (usr_oidc_provider u = [] \<or> p = usr_password u)"
  by (rule exI[of _ "usr_display_name v"], rule exI[of _ "usr_password v"])
    (auto simp: updated_me_def then_set_def set_display_name_def set_password_def
      split: if_splits sum.splits option.splits)

section \<open>Invariants of the accounts\<close>

text \<open>A property of the table of users that survives the creation of an ordinary account and the rewriting of a row
that may be written (\<open>W\<close>), as every row that was read may, whatever its new name, email, password and identity.  What
the logins do to the accounts keeps it.\<close>

locale account_invariant =
  fixes I :: "store \<Rightarrow> bool" and W :: "user \<Rightarrow> bool"
  assumes only_users: "users s' = users s \<Longrightarrow> I s' = I s"
    and created: "I s \<Longrightarrow> usr_role u = ''user'' \<Longrightarrow> I (snd (users_Create now u s))"
    and updated: "I s \<Longrightarrow> W u \<Longrightarrow> I (snd (users_Update now u s))"
    and readable: "I s \<Longrightarrow> u \<in> set (users s) \<Longrightarrow> W u"
    and renamed: "W u \<Longrightarrow> ID v = ID u \<Longrightarrow> usr_role v = usr_role u \<Longrightarrow> W v"
begin

lemma via:
  "I (snd m) \<Longrightarrow> (\<And>x t. m = (x, t) \<Longrightarrow> I t \<Longrightarrow> I (snd (F x t))) \<Longrightarrow> I (snd (case m of (x, t) \<Rightarrow> F x t))"
  by (cases m) simp

lemma either:
  "(\<And>e. x = Inl e \<Longrightarrow> I (snd (A e))) \<Longrightarrow> (\<And>a. x = Inr a \<Longrightarrow> I (snd (B a))) \<Longrightarrow>
   I (snd (case x of Inl e \<Rightarrow> A e | Inr a \<Rightarrow> B a))"
  by (cases x) simp_all

lemma kept: "users (snd m) = users s \<Longrightarrow> I s \<Longrightarrow> I (snd m)"
  using only_users by metis

lemma lookups:
  "I s \<Longrightarrow> I (snd (users_GetByID i s))" "I s \<Longrightarrow> I (snd (users_GetByEmail e s))" "I s \<Longrightarrow> I (snd (users_GetByOIDC p x s))"
  by (rule kept[OF users_GetByID_users] kept[OF users_lookup_users(1)] kept[OF users_lookup_users(2)], assumption)+

lemma found:
  "users_GetByID i s = (Inr u, t) \<Longrightarrow> I s \<Longrightarrow> W u" "users_GetByEmail e s = (Inr u, t) \<Longrightarrow> I s \<Longrightarrow> W u"
  "users_GetByOIDC p x s = (Inr u, t) \<Longrightarrow> I s \<Longrightarrow> W u"
  by (auto simp: users_GetByID_def users_GetByEmail_def users_GetByOIDC_def dest: users_tbl.first_Inr(1) intro: readable)

lemma rewritten:
  "W u \<Longrightarrow> W (u\<lparr>usr_last_login_at := l\<rparr>)" "W u \<Longrightarrow> W (u\<lparr>usr_display_name := n\<rparr>)"
  "W u \<Longrightarrow> W (u\<lparr>usr_display_name := n, usr_password := pw\<rparr>)"
  "W u \<Longrightarrow> W (u\<lparr>usr_email := e, usr_display_name := n\<rparr>)"
  "W u \<Longrightarrow> W (u\<lparr>usr_oidc_provider := i, usr_oidc_sub := su\<rparr>)"
  by (rule renamed; simp)+

lemma issue: "I s \<Longrightarrow> I (snd (issueTokenPair ac inp u e ro s))"
  by (rule kept[OF issueTokenPair_users])

lemma Login_keeps: "I s \<Longrightarrow> I (snd (Login ac inp now now2 e pw s))"
  unfolding Login_def by (auto intro!: via either lookups issue updated rewritten(1) dest: found(2))

lemma findOrProvisionUser_keeps:
  assumes "I s"
  shows "I (snd (findOrProvisionUser now cfg c s)) \<and>
    (\<forall>u t. findOrProvisionUser now cfg c s = (Inr u, t) \<longrightarrow> W u)"
proof -
  have sync: "I (snd (users_Update now (u\<lparr>usr_email := ic_email c, usr_display_name := ic_name c\<rparr>) t)) \<and>
      W (u\<lparr>usr_email := ic_email c, usr_display_name := ic_name c\<rparr>)" if "I t" "W u" for t u
    using that updated rewritten(4) by blast
  have create: "I (snd (users_Create now u t)) \<and> (\<forall>v t'. users_Create now u t = (Inr v, t') \<longrightarrow> W v)"
    if "I t" "usr_role u = ''user''" for t u
  proof -
    have "I (snd (users_Create now u t))" by (rule created[OF that])
    moreover have "W v" if "users_Create now u t = (Inr v, t')" for v t'
      using users_Create_cases[where now = now and u = u and s = t] calculation readable[of t' v] that by simp
    ultimately show ?thesis by blast
  qed
  show ?thesis
  proof (cases "users_GetByOIDC (ID cfg) (ic_sub c) s")
    case (Pair x s1)
    with lookups(3)[OF assms, of "ID cfg" "ic_sub c"] have s1: "I s1" by simp
    show ?thesis
    proof (cases x)
      case (Inr u)
      with Pair sync[OF s1, of u] found(3)[OF _ assms, of "ID cfg" "ic_sub c" u s1] show ?thesis
        by (simp add: findOrProvisionUser_def Let_def)
    next
      case (Inl e)
      obtain y s2 where g: "users_GetByEmail (ic_email c) s1 = (y, s2)" by fastforce
      with lookups(2)[OF s1, of "ic_email c"] have s2: "I s2" by simp
      show ?thesis
      proof (cases y)
        case (Inr u)
        with found(2)[OF _ s1] g have "W u" by simp
        then have "W (u\<lparr>usr_oidc_provider := ID cfg, usr_oidc_sub := ic_sub c\<rparr>)" by (rule rewritten(5))
        from sync[OF s2 this] Pair Inl g Inr s1 show ?thesis by (simp add: findOrProvisionUser_def Let_def)
      next
        case (Inl e2)
        let ?new = "\<lparr>ID = nil_uuid, CreatedAt = zero_time, UpdatedAt = zero_time, usr_email = ic_email c,
            usr_password = [], usr_display_name = ic_name c, usr_role = ''user'', usr_is_active = True,
            usr_oidc_provider = ID cfg, usr_oidc_sub = ic_sub c, usr_last_login_at = None\<rparr>"
        obtain z s3 where n: "users_Create now ?new s2 = (z, s3)" by fastforce
        have "I s3 \<and> (\<forall>v. z = Inr v \<longrightarrow> W v)" using create[OF s2, of ?new] n by simp
        with Inl Pair \<open>x = Inl e\<close> g s1 s2 n show ?thesis
          by (cases z) (simp_all add: findOrProvisionUser_def Let_def)
      qed
    qed
  qed
qed

lemma ExchangeCode_keeps:
  assumes "I s"
  shows "I (snd (ExchangeCode parse ac idp inp now req s))"
proof -
  have load: "I (snd (loadConfig idp p cb s))" for p cb
  proof -
    have "users (snd (oidc_GetByID p s)) = users s" by (simp add: oidc_GetByID_def db_frames)
    then have "users (snd (loadConfig idp p cb s)) = users s"
      by (auto simp: loadConfig_def split: sum.split option.split prod.split)
    then show ?thesis using assms by (rule kept)
  qed
  have prov: "I t \<Longrightarrow> I (snd (findOrProvisionUser now cfg c t))"
    "findOrProvisionUser now cfg c t = (Inr u, t') \<Longrightarrow> I t \<Longrightarrow> W u" for cfg c t u t'
    using findOrProvisionUser_keeps[of t now cfg c] by auto
  show ?thesis
    unfolding ExchangeCode_def
    by (auto intro!: via either load issue updated prov(1) rewritten(1) intro: assms split: option.split) (rule prov(2))
qed

lemma UpdateMe_keeps: "I s \<Longrightarrow> I (snd (UserHandler_UpdateMe env now salt c r s))"
  unfolding UserHandler_UpdateMe_def
  by (auto intro!: via either lookups updated rewritten(2,3) dest: found(1) dest!: updated_me_cases split: option.split)

end

section \<open>The accounts stay well typed\<close>

interpretation typed: account_invariant accounts_ok "\<lambda>_. True"
  by unfold_locales (rule accounts_ok_users users_Create_accounts users_Update_accounts TrueI; assumption?)+

text \<open>A table of users that is as it was, or the outcome of an update of it.\<close>

lemma accounts_via:
  "m = (x, s1) \<Longrightarrow> accounts_ok (snd m) \<Longrightarrow> accounts_ok s1"
  by simp

lemma GetByID_accounts: "accounts_ok s \<Longrightarrow> accounts_ok (snd (users_GetByID i s))"
  using users_GetByID_users accounts_ok_users by metis

lemma logAudit_accounts: "accounts_ok s \<Longrightarrow> accounts_ok (logAudit env now r c a t i d s)"
  using accounts_ok_users logAudit_tables(1) by metis

lemma issueTokenPair_accounts: "accounts_ok s \<Longrightarrow> accounts_ok (snd (issueTokenPair ac inp u e ro s))"
  using accounts_ok_users issueTokenPair_users by metis

lemmas accounts_rules = users_Create_accounts users_Update_accounts users_Delete_accounts GetByID_accounts
  logAudit_accounts issueTokenPair_accounts

lemma UserHandler_Create_accounts: "accounts_ok s \<Longrightarrow> accounts_ok (snd (UserHandler_Create env now salt c r s))"
  by (auto simp: UserHandler_Create_def intro!: logAudit_accounts split: sum.split option.split prod.split
      dest!: accounts_via intro: users_Create_accounts)

lemma UserHandler_Update_accounts: "accounts_ok s \<Longrightarrow> accounts_ok (snd (UserHandler_Update env now salt c r s))"
  using GetByID_accounts users_Update_accounts
  by (auto simp: UserHandler_Update_def intro!: logAudit_accounts split: sum.split prod.split) (metis snd_conv)+

lemma UserHandler_Delete_accounts: "accounts_ok s \<Longrightarrow> accounts_ok (snd (UserHandler_Delete env now c r s))"
  using GetByID_accounts users_Delete_accounts
  by (auto simp: UserHandler_Delete_def intro!: logAudit_accounts split: sum.split prod.split) (metis snd_conv)+

lemma setup_check_users: "users (snd (setup_check r s)) = users s"
  using users_List_cases[of "\<lparr>lo_limit = 1, lo_offset = 0\<rparr>" s]
  by (auto simp: setup_check_def split: sum.split prod.split)

lemma setup_create_accounts: "accounts_ok s \<Longrightarrow> accounts_ok (snd (setup_create env now salt req s))"
  using users_Create_accounts
  by (auto simp: setup_create_def split: sum.split option.split prod.split) (metis snd_conv)+

text \<open>Everything that writes the table of users, in any order, with anything else the server does in between.\<close>

inductive account_step :: "store \<Rightarrow> store \<Rightarrow> bool" where
  "account_step s (snd (UserHandler_Create env now salt c r s))"
| "account_step s (snd (UserHandler_Update env now salt c r s))"
| "account_step s (snd (UserHandler_Delete env now c r s))"
| "account_step s (snd (UserHandler_UpdateMe env now salt c r s))"
| "account_step s (snd (setup_check r s))"
| "account_step s (snd (setup_create env now salt req s))"
| "account_step s (snd (Login ac inp now now2 email password s))"
| "account_step s (snd (ExchangeCode parse ac idp inp now cb s))"
| "users s' = users s \<Longrightarrow> account_step s s'"

lemma account_step_ok: "account_step s s' \<Longrightarrow> accounts_ok s \<Longrightarrow> accounts_ok s'"
proof (induction rule: account_step.induct)
  case (5 s r)
  then show ?case using setup_check_users accounts_ok_users by metis
next
  case (9 s' s)
  then show ?case using accounts_ok_users by metis
qed (simp_all add: UserHandler_Create_accounts UserHandler_Update_accounts UserHandler_Delete_accounts
    typed.UpdateMe_keeps setup_create_accounts typed.Login_keeps typed.ExchangeCode_keeps)

text \<open>The table of users is well typed at all times.  From an empty database, whatever requests arrive, in whatever
order and interleaving and whatever database errors hit them, ids are distinct, no two accounts share an email, and
every account is an administrator or a user.\<close>

theorem accounts_typed:
  assumes "account_step\<^sup>*\<^sup>* empty_store s"
  shows "distinct (map ID (users s)) \<and> distinct (map usr_email (users s)) \<and>
    (\<forall>u\<in>set (users s). usr_role u = ''admin'' \<or> usr_role u = ''user'')"
proof -
  have "accounts_ok empty_store" by (simp add: accounts_ok_def empty_store_def)
  with assms have "accounts_ok s"
    by (induction rule: rtranclp_induct) (simp_all add: account_step_ok)
  then show ?thesis by (simp add: accounts_ok_def list_all_iff)
qed

section \<open>Requests about accounts\<close>

lemma updated_me_ID: "updated_me env salt req u = Inr v \<Longrightarrow> ID v = ID u"
  by (auto simp: updated_me_def then_set_def set_display_name_def set_password_def
      split: if_splits sum.splits option.splits)

lemma decodeJSON_bad: "decodeJSON names dec r = Inl rep \<Longrightarrow> rp_status rep = 400"
  using decodeJSON_cases[of names dec r] by auto

text \<open>What an administrator may ask for: a new account, and a change of one.\<close>

definition valid_new_account :: "create_user_request \<Rightarrow> bool" where
  "valid_new_account req = (cu_email req \<noteq> [] \<and> cu_password req \<noteq> [] \<and> cu_display_name req \<noteq> [] \<and>
     cu_role req \<in> {''admin'', ''user''})"

definition valid_account_change :: "update_user_request \<Rightarrow> bool" where
  "valid_account_change req = (uu_display_name req \<noteq> Some [] \<and> uu_password req \<noteq> Some [] \<and>
     uu_role req \<in> {None, Some ''admin'', Some ''user''})"

text \<open>The account afterwards: a field that is absent keeps its value.\<close>

definition changed_account :: "api_env \<Rightarrow> string option \<Rightarrow> update_user_request \<Rightarrow> user \<Rightarrow> user" where
  "changed_account env salt req u = u\<lparr>
     usr_display_name := (case uu_display_name req of None \<Rightarrow> usr_display_name u | Some n \<Rightarrow> n),
     usr_role := (case uu_role req of None \<Rightarrow> usr_role u | Some ro \<Rightarrow> ro),
     usr_is_active := (case uu_is_active req of None \<Rightarrow> usr_is_active u | Some a \<Rightarrow> a),
     usr_password := (case uu_password req of None \<Rightarrow> usr_password u
                      | Some p \<Rightarrow> HashPassword (ae_crypto env) (the salt) p)\<rparr>"

lemma updated_user_cases:
  "case updated_user env salt req u of
     Inl rep \<Rightarrow> rp_status rep = (if valid_account_change req then 500 else 400)
   | Inr v \<Rightarrow> valid_account_change req \<and> (uu_password req = None \<or> salt \<noteq> None) \<and> v = changed_account env salt req u"
  by (cases "uu_display_name req"; cases "uu_role req"; cases "uu_is_active req"; cases "uu_password req"; cases salt)
    (auto simp: updated_user_def then_set_def set_display_name_def set_role_def set_active_def set_password_def
      valid_account_change_def changed_account_def)

lemma Create_checked:
  "let (rep, s') = UserHandler_Create env now salt c r s in
   (rp_status rep = 201 \<and>
    (\<exists>req sa u. decodeJSON create_user_fields dec_create_user r = Inr req \<and> valid_new_account req \<and>
       salt = Some sa \<and> users s' = users s @ [u] \<and> ID u \<notin> ID ` set (users s) \<and>
       usr_email u = cu_email req \<and> usr_display_name u = cu_display_name req \<and> usr_role u = cu_role req \<and>
       usr_is_active u \<and> usr_password u = HashPassword (ae_crypto env) sa (cu_password req))) \<or>
   (rp_status rep \<in> {409, 500} \<and> users s' = users s \<and>
    (\<exists>req. decodeJSON create_user_fields dec_create_user r = Inr req \<and> valid_new_account req)) \<or>
   (rp_status rep = 400 \<and> s' = s \<and>
    (\<nexists>req. decodeJSON create_user_fields dec_create_user r = Inr req \<and> valid_new_account req))"
proof (cases "decodeJSON create_user_fields dec_create_user r")
  case (Inl bad)
  with decodeJSON_bad[OF Inl] show ?thesis by (simp add: UserHandler_Create_def)
next
  case (Inr req)
  note d = Inr
  show ?thesis
  proof (cases "valid_new_account req")
    case False
    with d show ?thesis by (auto simp: UserHandler_Create_def valid_new_account_def)
  next
    case True
    show ?thesis
    proof (cases salt)
      case None
      with d True show ?thesis by (auto simp: UserHandler_Create_def valid_new_account_def)
    next
      case (Some sa)
      let ?u = "new_local_user (cu_email req) (HashPassword (ae_crypto env) sa (cu_password req))
        (cu_display_name req) (cu_role req) True"
      obtain x s1 where cr: "users_Create now ?u s = (x, s1)" by fastforce
      note cc = users_Create_cases[where now = now and u = ?u and s = s, unfolded cr]
      have v: "cu_email req \<noteq> []" "cu_password req \<noteq> []" "cu_display_name req \<noteq> []"
        "cu_role req = ''admin'' \<or> cu_role req = ''user''"
        using True by (auto simp: valid_new_account_def)
      show ?thesis
      proof (cases x)
        case (Inl e)
        with d v True Some cr cc show ?thesis by (auto simp: UserHandler_Create_def)
      next
        case (Inr w)
        with cc v have w: "users s1 = users s @ [w]" "ID w \<notin> ID ` set (users s)" "usr_email w = cu_email req"
          "usr_display_name w = cu_display_name req" "usr_role w = cu_role req" "usr_is_active w"
          "usr_password w = HashPassword (ae_crypto env) sa (cu_password req)"
          by (auto simp: stamp_new_def user_defaults_def new_local_user_def)
        have "UserHandler_Create env now salt c r s = (Created (user_json env w),
            logAudit env now r c ''user.create'' ''user'' (ID w)
              [(''email'', JStr (usr_email w)), (''role'', JStr (usr_role w))] s1)"
          using d v Some cr Inr by (auto simp: UserHandler_Create_def)
        with w d True Some show ?thesis by simp
      qed
    qed
  qed
qed

lemma Update_checked:
  "let (rep, s') = UserHandler_Update env now salt c r s in
   (rp_status rep = 200 \<and>
    (\<exists>i req u. parseUUID env r ''id'' = Inr i \<and> decodeJSON update_user_fields dec_update_user r = Inr req \<and>
       valid_account_change req \<and> u \<in> set (users s) \<and> ID u = i \<and>
       users s' = update_where (\<lambda>q. ID q = i) (\<lambda>_. (changed_account env salt req u)\<lparr>UpdatedAt := now\<rparr>) (users s))) \<or>
   (rp_status rep \<in> {404, 500} \<and> users s' = users s \<and>
    (\<exists>i req. parseUUID env r ''id'' = Inr i \<and> decodeJSON update_user_fields dec_update_user r = Inr req \<and>
       ((\<exists>e. fst (users_GetByID i s) = Inl e) \<or> valid_account_change req))) \<or>
   (rp_status rep = 400 \<and> users s' = users s \<and>
    (\<nexists>i req. parseUUID env r ''id'' = Inr i \<and> decodeJSON update_user_fields dec_update_user r = Inr req \<and>
       valid_account_change req))"
proof (cases "parseUUID env r ''id''")
  case (Inl bad)
  then have "rp_status bad = 400" by (auto simp: parseUUID_def split: option.splits)
  with Inl show ?thesis by (simp add: UserHandler_Update_def)
next
  case (Inr i)
  note i = Inr
  show ?thesis
  proof (cases "decodeJSON update_user_fields dec_update_user r")
    case (Inl bad)
    with i decodeJSON_bad[OF Inl] show ?thesis by (simp add: UserHandler_Update_def)
  next
    case (Inr req)
    note d = Inr
    obtain x s1 where g: "users_GetByID i s = (x, s1)" by fastforce
    then have u1: "users s1 = users s" using users_GetByID_users[of i s] by simp
    show ?thesis
    proof (cases x)
      case (Inl e)
      with i d g u1 show ?thesis by (auto simp: UserHandler_Update_def not_found_or_internal_def)
    next
      case (Inr u)
      with g have u: "u \<in> set (users s)" "ID u = i" using users_GetByID_Inr by blast+
      note x = Inr
      note up = updated_user_cases[where env = env and salt = salt and req = req and u = u]
      show ?thesis
      proof (cases "updated_user env salt req u")
        case (Inl bad)
        with up i d g x u1 show ?thesis by (auto simp: UserHandler_Update_def)
      next
        case (Inr v)
        note v = Inr
        with up have ok: "valid_account_change req" "v = changed_account env salt req u" by simp_all
        then have idv: "ID v = i" using u(2) by (simp add: changed_account_def)
        obtain y s2 where w: "users_Update now v s1 = (y, s2)" by fastforce
        note wc = users_Update_cases[where now = now and u = v and s = s1, unfolded w]
        show ?thesis
        proof (cases y)
          case (Inl e)
          with i d g x v w wc u1 ok show ?thesis by (auto simp: UserHandler_Update_def)
        next
          case (Inr z)
          have "ID v \<in> ID ` set (users s1)" using u idv u1 by (metis imageI)
          with wc Inr u1 idv have "users s2 = update_where (\<lambda>q. ID q = i) (\<lambda>_. v\<lparr>UpdatedAt := now\<rparr>) (users s)"
            by simp
          with i d g x v w Inr ok u show ?thesis by (auto simp: UserHandler_Update_def)
        qed
      qed
    qed
  qed
qed

text \<open>C27: An administrator's requests about accounts are checked before the database is asked.  A request for a new account
is refused with 400, and nothing whatever is done, exactly when it cannot be read, lacks the email, the password
or the name, or asks for a role other than admin and user; otherwise it is answered with 201 and one new active account
holds the requested data and the hash of the password, or with 409 or 500 and no account changes.  A request to change an
account is answered with 200 exactly when the row of that account now has the requested values and no other row
changed; what cannot be read or is not valid, and is not stopped by the lookup of the account, is answered
with 400 and no account changes.\<close>

theorem account_requests_checked:
  "(let (rep, s') = UserHandler_Create env now salt c r s in
    (rp_status rep = 201 \<and>
     (\<exists>req sa u. decodeJSON create_user_fields dec_create_user r = Inr req \<and> valid_new_account req \<and>
        salt = Some sa \<and> users s' = users s @ [u] \<and> ID u \<notin> ID ` set (users s) \<and>
        usr_email u = cu_email req \<and> usr_display_name u = cu_display_name req \<and> usr_role u = cu_role req \<and>
        usr_is_active u \<and> usr_password u = HashPassword (ae_crypto env) sa (cu_password req))) \<or>
    (rp_status rep \<in> {409, 500} \<and> users s' = users s \<and>
     (\<exists>req. decodeJSON create_user_fields dec_create_user r = Inr req \<and> valid_new_account req)) \<or>
    (rp_status rep = 400 \<and> s' = s \<and>
     (\<nexists>req. decodeJSON create_user_fields dec_create_user r = Inr req \<and> valid_new_account req))) \<and>
   (let (rep, s') = UserHandler_Update env now salt c r s in
    (rp_status rep = 200 \<and>
     (\<exists>i req u. parseUUID env r ''id'' = Inr i \<and> decodeJSON update_user_fields dec_update_user r = Inr req \<and>
        valid_account_change req \<and> u \<in> set (users s) \<and> ID u = i \<and>
        users s' = update_where (\<lambda>q. ID q = i) (\<lambda>_. (changed_account env salt req u)\<lparr>UpdatedAt := now\<rparr>) (users s))) \<or>
    (rp_status rep \<in> {404, 500} \<and> users s' = users s \<and>
     (\<exists>i req. parseUUID env r ''id'' = Inr i \<and> decodeJSON update_user_fields dec_update_user r = Inr req \<and>
        ((\<exists>e. fst (users_GetByID i s) = Inl e) \<or> valid_account_change req))) \<or>
    (rp_status rep = 400 \<and> users s' = users s \<and>
     (\<nexists>i req. parseUUID env r ''id'' = Inr i \<and> decodeJSON update_user_fields dec_update_user r = Inr req \<and>
        valid_account_change req)))"
  by (intro conjI Create_checked Update_checked)

section \<open>The own account\<close>

lemma UpdateMe_saves:
  assumes "c = Some cl" "decodeJSON update_me_fields dec_update_me r = Inr req"
    "ae_parse env (cl_user_id cl) = Some i" "users_GetByID i s = (Inr u, s1)" "updated_me env salt req u = Inr v"
  shows "case UserHandler_UpdateMe env now salt c r s of (rep, s') \<Rightarrow>
    (rp_status rep = 500 \<and> users s' = users s) \<or>
    (rp_status rep = 200 \<and> users s' = update_where (\<lambda>q. ID q = i) (\<lambda>_. v\<lparr>UpdatedAt := now\<rparr>) (users s))"
proof -
  have u: "u \<in> set (users s)" "ID u = i" using users_GetByID_Inr assms(4) by blast+
  have u1: "users s1 = users s" using users_GetByID_users[of i s] assms(4) by simp
  have idv: "ID v = i" using u(2) updated_me_ID[OF assms(5)] by simp
  obtain y s2 where w: "users_Update now v s1 = (y, s2)" by fastforce
  note wc = users_Update_cases[where now = now and u = v and s = s1, unfolded w]
  show ?thesis
  proof (cases y)
    case (Inl e)
    with assms u1 w wc show ?thesis by (simp add: UserHandler_UpdateMe_def)
  next
    case (Inr z)
    have "ID v \<in> ID ` set (users s1)" using u idv u1 by (metis imageI)
    with wc Inr u1 idv have "users s2 = update_where (\<lambda>q. ID q = i) (\<lambda>_. v\<lparr>UpdatedAt := now\<rparr>) (users s)"
      by simp
    moreover have "UserHandler_UpdateMe env now salt c r s = (Ok (user_json env v), s2)"
      using assms w Inr by (simp add: UserHandler_UpdateMe_def)
    ultimately show ?thesis by simp
  qed
qed

text \<open>The change of the own account that a request asks for, and when it is allowed.\<close>

definition valid_own_change :: "update_me_request \<Rightarrow> user \<Rightarrow> bool" where
  "valid_own_change req u = (um_display_name req \<noteq> Some [] \<and> um_password req \<noteq> Some [] \<and>
     (um_password req = None \<or> usr_oidc_provider u = []))"

definition own_change :: "api_env \<Rightarrow> string option \<Rightarrow> update_me_request \<Rightarrow> user \<Rightarrow> user" where
  "own_change env salt req u = u\<lparr>
     usr_display_name := (case um_display_name req of None \<Rightarrow> usr_display_name u | Some n \<Rightarrow> n),
     usr_password := (case um_password req of None \<Rightarrow> usr_password u
                      | Some p \<Rightarrow> HashPassword (ae_crypto env) (the salt) p)\<rparr>"

lemma updated_me_change:
  "case updated_me env salt req u of
     Inl rep \<Rightarrow> rp_status rep = (if valid_own_change req u then 500 else 400)
   | Inr v \<Rightarrow> valid_own_change req u \<and> (um_password req = None \<or> salt \<noteq> None) \<and> v = own_change env salt req u"
  by (cases "um_display_name req"; cases "um_password req"; cases salt)
    (auto simp: updated_me_def then_set_def set_display_name_def set_password_def valid_own_change_def own_change_def)

lemma UpdateMe_found:
  assumes "c = Some cl" "decodeJSON update_me_fields dec_update_me r = Inr req"
    "ae_parse env (cl_user_id cl) = Some i" "users_GetByID i s = (Inr u, s1)"
  shows "let (rep, s') = UserHandler_UpdateMe env now salt c r s in
    if \<not> valid_own_change req u then rp_status rep = 400 \<and> users s' = users s
    else rp_status rep = 500 \<and> users s' = users s \<or>
      rp_status rep = 200 \<and>
        users s' = update_where (\<lambda>q. ID q = i) (\<lambda>_. (own_change env salt req u)\<lparr>UpdatedAt := now\<rparr>) (users s)"
proof (cases "updated_me env salt req u")
  case (Inl bad)
  moreover have "users s1 = users s" using users_GetByID_users[of i s] assms(4) by simp
  moreover have "rp_status bad = (if valid_own_change req u then 500 else 400)"
    using updated_me_change[where env = env and salt = salt and req = req and u = u] Inl by simp
  ultimately show ?thesis using assms by (simp add: UserHandler_UpdateMe_def)
next
  case (Inr v)
  have "v = own_change env salt req u" "valid_own_change req u"
    using updated_me_change[where env = env and salt = salt and req = req and u = u] Inr by simp_all
  then show ?thesis using UpdateMe_saves[OF assms Inr, of now] by (auto simp: Let_def)
qed

text \<open>C40: the own account.  A user can change no account but the own one, and of that only the display name and the
password, as the request asks: role, email and status stay.  Nobody changes a password that an identity provider
manages, and neither is made empty.  The answer is 200 exactly when the row has been written; otherwise no account
changes, and a request that cannot be read or asks for what is not allowed is answered with 400, unless the account
is not found first.  This holds for any request and any database.\<close>

theorem UpdateMe_own:
  "let (rep, s') = UserHandler_UpdateMe env now salt c r s in
   (rp_status rep = 200 \<and>
    (\<exists>cl req u. c = Some cl \<and> decodeJSON update_me_fields dec_update_me r = Inr req \<and>
      u \<in> set (users s) \<and> ae_parse env (cl_user_id cl) = Some (ID u) \<and> valid_own_change req u \<and>
      users s' = update_where (\<lambda>q. ID q = ID u) (\<lambda>_. (own_change env salt req u)\<lparr>UpdatedAt := now\<rparr>) (users s))) \<or>
   (rp_status rep = 400 \<and> users s' = users s \<and>
    ((\<exists>bad. decodeJSON update_me_fields dec_update_me r = Inl bad) \<or>
     (\<exists>req u. decodeJSON update_me_fields dec_update_me r = Inr req \<and> u \<in> set (users s) \<and> \<not> valid_own_change req u))) \<or>
   (rp_status rep = 401 \<and> users s' = users s \<and> c = None) \<or>
   (rp_status rep \<in> {404, 500} \<and> users s' = users s \<and>
    (\<exists>cl req. c = Some cl \<and> decodeJSON update_me_fields dec_update_me r = Inr req \<and>
      (case ae_parse env (cl_user_id cl) of
         None \<Rightarrow> True
       | Some i \<Rightarrow> (case fst (users_GetByID i s) of Inl e \<Rightarrow> True | Inr u \<Rightarrow> valid_own_change req u))))"
proof (cases c)
  case None
  then show ?thesis by (simp add: UserHandler_UpdateMe_def)
next
  case (Some cl)
  note c = Some
  show ?thesis
  proof (cases "decodeJSON update_me_fields dec_update_me r")
    case (Inl bad)
    with c decodeJSON_bad[OF Inl] show ?thesis by (simp add: UserHandler_UpdateMe_def)
  next
    case (Inr req)
    note d = Inr
    show ?thesis
    proof (cases "ae_parse env (cl_user_id cl)")
      case None
      with c d show ?thesis by (simp add: UserHandler_UpdateMe_def)
    next
      case (Some i)
      note pi = Some
      obtain x s1 where g: "users_GetByID i s = (x, s1)" by fastforce
      then have u1: "users s1 = users s" using users_GetByID_users[of i s] by simp
      show ?thesis
      proof (cases x)
        case (Inl e)
        with c d pi g u1 show ?thesis by (simp add: UserHandler_UpdateMe_def not_found_or_internal_def)
      next
        case (Inr u)
        with g have u: "u \<in> set (users s)" "ID u = i" and g': "users_GetByID i s = (Inr u, s1)"
          using users_GetByID_Inr by blast+
        obtain rep s' where run: "UserHandler_UpdateMe env now salt c r s = (rep, s')" by fastforce
        show ?thesis
          using UpdateMe_found[OF c d pi g', where salt = salt and now = now] c d pi u g' unfolding run Let_def prod.case
          by (auto split: if_splits)
      qed
    qed
  qed
qed

section \<open>Setup\<close>

text \<open>A request to complete the setup either leaves the accounts as they are (and is not answered with 201), or the
table was empty and afterwards holds one active administrator with the requested email and name.\<close>

theorem setup_only_first:
  "let (rep, s') = setup_Complete env now salt r s in
   (rp_status rep \<noteq> 201 \<and> users s' = users s) \<or>
   (rp_status rep = 201 \<and> users s = [] \<and>
    (\<exists>req u sa. decodeJSON setup_fields dec_setup r = Inr req \<and> salt = Some sa \<and> users s' = [u] \<and>
      usr_email u = su_email req \<and> usr_display_name u = su_name req \<and> usr_role u = ''admin'' \<and>
      usr_is_active u \<and> usr_password u = HashPassword (ae_crypto env) sa (su_password req)))"
proof -
  obtain x s1 where ck: "setup_check r s = (x, s1)" by fastforce
  have u1: "users s1 = users s" using setup_check_users[of r s] ck by simp
  show ?thesis
  proof (cases x)
    case (Inl bad)
    then have "rp_status bad \<noteq> 201"
      using ck decodeJSON_bad[of setup_fields dec_setup r]
      by (auto simp: setup_check_def split: sum.splits if_splits prod.splits)
    with Inl ck u1 show ?thesis by (simp add: setup_Complete_def)
  next
    case (Inr req)
    then have dec: "decodeJSON setup_fields dec_setup r = Inr req" and none: "users s = []"
      using ck users_List_cases[of "\<lparr>lo_limit = 1, lo_offset = 0\<rparr>" s]
      by (auto simp: setup_check_def split: sum.splits if_splits prod.splits)
    show ?thesis
    proof (cases salt)
      case None
      with Inr ck u1 show ?thesis by (simp add: setup_Complete_def setup_create_def)
    next
      case (Some sa)
      let ?u = "new_local_user (su_email req) (HashPassword (ae_crypto env) sa (su_password req)) (su_name req)
        ''admin'' False"
      obtain y s2 where cr: "users_Create now ?u s1 = (y, s2)" by fastforce
      note cc = users_Create_cases[where now = now and u = ?u and s = s1, unfolded cr]
      show ?thesis
      proof (cases y)
        case (Inl e)
        with Inr ck u1 Some cr cc show ?thesis by (simp add: setup_Complete_def setup_create_def)
      next
        case (Inr v)
        with cc u1 none have "users s2 = [v]"
          "usr_email v = su_email req \<and> usr_display_name v = su_name req \<and> usr_role v = ''admin'' \<and>
           usr_is_active v \<and> usr_password v = HashPassword (ae_crypto env) sa (su_password req)"
          by (auto simp: stamp_new_def user_defaults_def new_local_user_def)
        with Inr \<open>x = Inr req\<close> ck Some cr none dec show ?thesis
          by (simp add: setup_Complete_def setup_create_def)
      qed
    qed
  qed
qed

section \<open>Witnesses\<close>

definition accounts_env :: api_env where
  "accounts_env = \<lparr>ae_parse = (\<lambda>x. if x = [] then None else Some x), ae_rfc = (\<lambda>t. int_text t),
     ae_crypto = \<lparr>ac_argon2 = (\<lambda>p s n. p @ s), ac_sha256 = id, ac_sign = (\<lambda>c. None),
       ac_parse = (\<lambda>i now t. Inl JwtOther), ac_issuer = ''arkeep''\<rparr>,
     ae_secure = True\<rparr>"

definition demo_setup :: setup_request where
  "demo_setup = \<lparr>su_name = ''Ada'', su_email = ''a@b'', su_password = ''pw''\<rparr>"

definition demo_accounts :: store where
  "demo_accounts = snd (setup_create accounts_env 5 (Some ''s'') demo_setup (empty_store\<lparr>ids := [''u1'']\<rparr>))"

lemma demo_accounts_users:
  "map ID (users demo_accounts) = [''u1''] \<and> map usr_role (users demo_accounts) = [''admin'']"
  by (simp add: demo_accounts_def setup_create_def users_Create_def db_create_def before_create_def insert_row_def
      user_check_def new_local_user_def user_defaults_def stamp_new_def demo_setup_def empty_store_def)

theorem accounts_typed_witness:
  "length (users demo_accounts) = 1 \<and> distinct (map usr_email (users demo_accounts))"
proof -
  have "account_step empty_store (empty_store\<lparr>ids := [''u1'']\<rparr>)" by (rule account_step.intros(9)) simp
  moreover have "account_step (empty_store\<lparr>ids := [''u1'']\<rparr>) demo_accounts"
    unfolding demo_accounts_def by (rule account_step.intros(6))
  ultimately have "account_step\<^sup>*\<^sup>* empty_store demo_accounts" by simp
  from accounts_typed[OF this] demo_accounts_users show ?thesis by (metis length_map list.size(3,4) One_nat_def add.commute plus_1_eq_Suc)
qed

end
