(* ===== verification/Privileges.thy ===== *)
theory Privileges
  imports Sessions ApiUsersProofs
begin

text \<open>Nobody becomes an administrator without one.\<close>

section \<open>The invariant\<close>

text \<open>There are accounts, and the administrators among them are among \<open>A\<close>.\<close>

definition admins_within :: "uuid set \<Rightarrow> store \<Rightarrow> bool" where
  "admins_within A s = (users s \<noteq> [] \<and> (\<forall>u\<in>set (users s). usr_role u = ''admin'' \<longrightarrow> ID u \<in> A))"

lemma admins_within_Create:
  assumes "admins_within A s" "usr_role u = ''user''"
  shows "admins_within A (snd (users_Create now u s))"
  using users_Create_cases[where now = now and u = u and s = s] assms
  by (auto simp: admins_within_def user_defaults_def stamp_new_def split: prod.splits sum.splits)

lemma admins_within_Update:
  assumes "admins_within A s" "usr_role u = ''admin'' \<longrightarrow> ID u \<in> A"
  shows "admins_within A (snd (users_Update now u s))"
proof -
  obtain x s' where r: "users_Update now u s = (x, s')" by fastforce
  note c = users_Update_cases[where now = now and u = u and s = s, unfolded r]
  show ?thesis
  proof (cases x)
    case (Inl e)
    with c r assms show ?thesis by (simp add: admins_within_def)
  next
    case (Inr y)
    with c have "users s' \<noteq> [] \<and> (\<forall>v\<in>set (users s'). v \<in> set (users s) \<or> v = u\<lparr>UpdatedAt := now\<rparr> \<or>
        ID v = ID u \<and> usr_role v \<in> {usr_role u, ''user''})"
      using assms(1) by (auto simp: admins_within_def update_where_def split: if_splits)
    with assms r show ?thesis by (auto simp: admins_within_def)
  qed
qed

interpretation admins: account_invariant "admins_within A" "\<lambda>u. usr_role u = ''admin'' \<longrightarrow> ID u \<in> A" for A
proof unfold_locales
  show "admins_within A s' = admins_within A s" if "users s' = users s" for s s'
    using that by (simp add: admins_within_def)
qed (simp_all add: admins_within_Create admins_within_Update, simp_all add: admins_within_def)

section \<open>The handlers of accounts\<close>

lemma setup_Complete_later:
  assumes "users s \<noteq> []"
  shows "users (snd (setup_Complete env now salt r s)) = users s"
proof -
  obtain x t where c: "setup_check r s = (x, t)" by fastforce
  then have "users t = users s" using setup_check_users by (metis snd_conv)
  moreover have "case x of Inl bad \<Rightarrow> True | Inr req \<Rightarrow> False"
    using c users_List_cases[of "\<lparr>lo_limit = 1, lo_offset = 0\<rparr>" s] assms
    by (auto simp: setup_check_def split: sum.splits prod.splits if_splits)
  ultimately show ?thesis using c by (auto simp: setup_Complete_def split: sum.splits)
qed

lemma RefreshToken_users: "users (snd (RefreshToken ac inp now raw s)) = users s"
proof -
  have "users (snd (refreshed_user ac inp u t)) = users t" for u t
    unfolding refreshed_user_def by (intro account_view.flow | simp add: issueTokenPair_users)+
  then show ?thesis
    unfolding RefreshToken_def by (intro account_view.flow | simp add: tokens_DeleteByHash_users)+
qed

lemma Logout_users: "users (snd (Logout ac raw s)) = users s"
  using tokens_DeleteByHash_users[of "hashRefreshToken ac raw" s]
  by (auto simp: Logout_def split: prod.split sum.split)

lemma login_audit_users: "users (login_audit env now r email token d s) = users s"
  by (simp add: login_audit_def split: sum.split option.split)

lemma AuthHandler_admins:
  "admins_within A s \<Longrightarrow> admins_within A (snd (AuthHandler_Refresh env now inp r s))"
  "admins_within A s \<Longrightarrow> admins_within A (snd (AuthHandler_OIDCCallback env idp now inp r s))"
  "admins_within A (fst x) \<Longrightarrow> admins_within A (fst (snd (AuthHandler_Login env now inp r x)))"
  "admins_within A (fst x) \<Longrightarrow> admins_within A (fst (snd (AuthHandler_Logout env now c r x)))"
  "admins_within A s \<Longrightarrow> admins_within A (snd (setup_Complete env now salt r s))"
proof -
  show "admins_within A (snd (AuthHandler_Refresh env now inp r s))" if "admins_within A s"
    using admins.kept[OF RefreshToken_users that, of "ae_crypto env" inp now] that
    by (auto simp: AuthHandler_Refresh_def split: option.split prod.split sum.split) (metis snd_conv)+
  show "admins_within A (snd (AuthHandler_OIDCCallback env idp now inp r s))" if "admins_within A s"
    unfolding AuthHandler_OIDCCallback_def
    using that by (auto simp: Let_def intro!: admins.via admins.either admins.ExchangeCode_keeps split: option.split)
  show "admins_within A (fst (snd (AuthHandler_Login env now inp r x)))" if "admins_within A (fst x)"
    using that admins.Login_keeps[OF that] admins.only_users[OF login_audit_users]
    by (auto simp: AuthHandler_Login_def split: sum.split prod.split) (metis snd_conv)+
  show "admins_within A (fst (snd (AuthHandler_Logout env now c r x)))" if "admins_within A (fst x)"
    using that admins.only_users[OF Logout_users] admins.only_users[OF logAudit_tables(1)]
    by (auto simp: AuthHandler_Logout_def Let_def split: option.split)
  show "admins_within A (snd (setup_Complete env now salt r s))" if "admins_within A s"
    by (rule admins.kept[OF setup_Complete_later that]) (use that in \<open>simp add: admins_within_def\<close>)
qed

section \<open>Every request\<close>

lemma on_state_admins:
  "(\<And>s. admins_within A s \<Longrightarrow> admins_within A (snd (h s))) \<Longrightarrow> admins_within A (sv_store st) \<Longrightarrow>
     admins_within A (sv_store (snd (on_store h st)))"
  "(\<And>x. admins_within A (fst x) \<Longrightarrow> admins_within A (fst (snd (g x)))) \<Longrightarrow> admins_within A (sv_store st) \<Longrightarrow>
     admins_within A (sv_store (snd (on_denylist g st)))"
  by (simp_all add: on_state case_prod_beta)

lemma endpoint_admins:
  assumes "ep \<in> set (open_endpoints @ member_endpoints)" "admins_within A (sv_store st)"
  shows "admins_within A (sv_store (snd (endpoint_handler cfg su ep c r st)))"
proof (cases "ep \<in> {OIDCCallback, LoginEP, RefreshEP, SetupComplete, LogoutEP, UpdateMe}")
  case True
  with assms(2) show ?thesis
    by (auto simp: endpoint_handler_def Let_def intro!: on_state_admins AuthHandler_admins admins.UpdateMe_keeps)
next
  case False
  with assms(1) have "users (sv_store (snd (endpoint_handler cfg su ep c r st))) = users (sv_store st)"
    by (auto simp: open_endpoints_def member_endpoints_def endpoint_handler_def Let_def
        intro!: on_state_view[where p = users])
  with assms(2) show ?thesis by (simp add: admins_within_def)
qed

text \<open>Traffic without administrators: requests whose claims are not an administrator's when they arrive, and the
passes of the cleanups.\<close>

inductive unprivileged :: "server_config \<Rightarrow> mux \<Rightarrow> server_state \<Rightarrow> server_state \<Rightarrow> bool" for cfg mx where
  request: "\<not> isAdmin (session_claims cfg su r st) \<Longrightarrow> unprivileged cfg mx st (server_step cfg mx (Http su m path r) st)"
| denylist: "unprivileged cfg mx st (server_step cfg mx (SweepDenylist t) st)"
| limiters: "unprivileged cfg mx st (server_step cfg mx (SweepLimiters t) st)"

lemma unprivileged_admins:
  assumes "routes_listed mx" "unprivileged cfg mx st st'" "admins_within A (sv_store st)"
  shows "admins_within A (sv_store st')"
  using assms(2)
proof cases
  case (request su r m path)
  let ?q = "\<lambda>t. admins_within A (sv_store t)"
  show ?thesis
  proof (cases "mx (router_routes cfg) m path")
    case (Some hit)
    obtain rt ps where hit: "hit = (rt, ps)" by fastforce
    let ?r = "(real_ip cfg r)\<lparr>hr_params := ps\<rparr>"
    have rt: "rt \<in> set (router_routes cfg)" using assms(1) Some hit unfolding routes_listed_def by blast
    have "?q (snd (guarded cfg su (rt_access rt) (endpoint_handler cfg su (rt_endpoint rt)) ?r st))"
    proof (cases "lets_in (rt_access rt) (session_claims cfg su ?r st)")
      case True
      then have "rt_endpoint rt \<in> set (open_endpoints @ member_endpoints)"
        by (rule let_in_endpoint(1)[OF rt]) (use request(2) in simp)
      then show ?thesis
        by (intro guarded_invariant[where I = ?q]) (use assms(3) endpoint_admins in simp_all)
    next
      case False
      with assms(3) show ?thesis by (simp add: guarded_refuses)
    qed
    with request(1) Some hit show ?thesis by (simp add: served)
  qed (use request(1) assms(3) in \<open>simp add: serve_request_def\<close>)
qed (use assms(3) in simp_all)

text \<open>C5: nobody becomes an administrator without one.  Once there are accounts, whatever requests arrive whose token is
not an administrator's (logins, identity providers' callbacks, profile changes and another setup among them), in any
order and with any database errors, no account that was not an administrator's is one afterwards.\<close>

theorem no_escalation:
  assumes "routes_listed mx" "(unprivileged cfg mx)\<^sup>*\<^sup>* st st'" "users (sv_store st) \<noteq> []"
  shows "{ID u | u. u \<in> set (users (sv_store st')) \<and> usr_role u = ''admin''} \<subseteq>
    {ID u | u. u \<in> set (users (sv_store st)) \<and> usr_role u = ''admin''}"
proof -
  let ?A = "{ID u | u. u \<in> set (users (sv_store st)) \<and> usr_role u = ''admin''}"
  have "admins_within ?A (sv_store st)" using assms(3) by (auto simp: admins_within_def)
  with assms(2) have "admins_within ?A (sv_store st')"
    by (induction rule: rtranclp_induct) (auto intro: unprivileged_admins[OF assms(1)])
  then show ?thesis by (auto simp: admins_within_def)
qed

text \<open>The profile change of an ordinary user.\<close>

theorem no_escalation_witness:
  "\<forall>cfg su r c m ac v. let st = NewRouter_state demo_session_store c m ac v in
     {ID u | u. u \<in> set (users (sv_store (server_step (demo_config cfg) exact_mux
        (Http (su\<lparr>su_now := 30\<rparr>) PATCH ''/api/v1/users/me'' (demo_bearer r)) st))) \<and> usr_role u = ''admin''} = {}"
proof (intro allI)
  fix cfg :: server_config and su :: surroundings and r :: http_request and c m ac v
  let ?cfg = "demo_config cfg" and ?su = "su\<lparr>su_now := 30\<rparr>" and ?st = "NewRouter_state demo_session_store c m ac v"
  let ?e = "Http ?su PATCH ''/api/v1/users/me'' (demo_bearer r)"
  have "?st = ?st\<lparr>sv_denylist := []\<rparr>" by (simp add: NewRouter_state_def NewDenylist_def)
  then have "session_claims ?cfg ?su (demo_bearer r) ?st = Some demo_claims" using demo_session by metis
  then have "unprivileged ?cfg exact_mux ?st (server_step ?cfg exact_mux ?e ?st)"
    by (intro unprivileged.request) (simp add: isAdmin_def demo_claims_def)
  from no_escalation[OF exact_mux_listed r_into_rtranclp[of "unprivileged ?cfg exact_mux", OF this]]
  show "let st = ?st in {ID u | u. u \<in> set (users (sv_store (server_step ?cfg exact_mux ?e st))) \<and> usr_role u = ''admin''} = {}"
    by (simp add: NewRouter_state_def demo_session_store_def demo_user_def empty_store_def del: server_step.simps)
qed

end
