(* ===== verification/NotificationProofs.thy ===== *)
theory NotificationProofs
  imports Notification Frames "HOL-Library.Sublist"
begin

text \<open>What the notification service writes: the rows \<open>notify\<close> adds, the delivery queue and its
retrier.\<close>

section \<open>Reads\<close>

lemma find_unchanged: "faults s = [] \<Longrightarrow> snd (db_find rows P g s) = s"
  by (simp add: db_find_def)

lemma configuredRecipients_unchanged: "faults s = [] \<Longrightarrow> snd (configuredRecipients s) = s"
  by (simp add: configuredRecipients_def settings_GetMany_def db_find_def)

lemma loadSMTPConfig_unchanged: "faults s = [] \<Longrightarrow> snd (loadSMTPConfig s) = s"
  by (simp add: loadSMTPConfig_def settings_GetMany_def db_find_def)

lemma loadWebhookConfig_unchanged: "faults s = [] \<Longrightarrow> snd (loadWebhookConfig s) = s"
  by (simp add: loadWebhookConfig_def settings_GetMany_def db_find_def Let_def)

lemma email_Send_unchanged:
  "faults (ns_store n) = [] \<Longrightarrow> ns_store (snd (email_Send env now to subj body n)) = ns_store n"
  using loadSMTPConfig_unchanged[of "ns_store n"]
  by (auto simp: email_Send_def split: prod.split sum.split)

lemma webhook_Send_unchanged:
  "faults (ns_store n) = [] \<Longrightarrow>
   ns_store (snd (webhook_Send env now typ title body payload n)) = ns_store n"
  using loadWebhookConfig_unchanged[of "ns_store n"]
  by (auto simp: webhook_Send_def Let_def split: prod.split sum.split http_answer.split)

lemma configuredRecipients_frame: "engine_free p \<Longrightarrow> p (snd (configuredRecipients s)) = p s"
  using db_find_frame[of p settings "\<lambda>x. starts_with ''notification.'' (set_key x)" "\<lambda>x. x" s]
  by (auto simp: configuredRecipients_def settings_GetMany_def id_def split: prod.split sum.split)

lemma loadSMTPConfig_frame: "engine_free p \<Longrightarrow> p (snd (loadSMTPConfig s)) = p s"
  using db_find_frame[of p settings "\<lambda>x. starts_with ''smtp.'' (set_key x)" "\<lambda>x. x" s]
  by (auto simp: loadSMTPConfig_def settings_GetMany_def id_def split: prod.split sum.split)

lemma loadWebhookConfig_frame: "engine_free p \<Longrightarrow> p (snd (loadWebhookConfig s)) = p s"
  using db_find_frame[of p settings "\<lambda>x. starts_with ''webhook.'' (set_key x)" "\<lambda>x. x" s]
  by (auto simp: loadWebhookConfig_def settings_GetMany_def id_def Let_def
      split: prod.split sum.split)

lemma email_Send_frame:
  "engine_free p \<Longrightarrow> p (ns_store (snd (email_Send env now to subj body n))) = p (ns_store n)"
  using loadSMTPConfig_frame[of p "ns_store n"]
  by (auto simp: email_Send_def split: prod.split sum.split)

lemma webhook_Send_frame:
  "engine_free p \<Longrightarrow>
   p (ns_store (snd (webhook_Send env now typ title body payload n))) = p (ns_store n)"
  using loadWebhookConfig_frame[of p "ns_store n"]
  by (auto simp: webhook_Send_def Let_def split: prod.split sum.split http_answer.split)

section \<open>Notifications of an event\<close>

lemma notif_Create_cases:
  "case notif_Create now x s of
     (Inl e, s') \<Rightarrow> notifications s' = notifications s
   | (Inr x', s') \<Rightarrow> notifications s' = notifications s @ [x'] \<and>
       (\<exists>u. x' = stamp_new now ((notif_defaults x)\<lparr>ID := u\<rparr>))"
  using notifications_tbl.create_cases[where chk = notif_check and now = now and r = "notif_defaults x"
      and s = s]
  by (auto simp: notif_Create_def wrapped_def split: prod.splits sum.splits)

text \<open>What a row says of the event it reports.\<close>

definition reports :: "event \<Rightarrow> notif \<Rightarrow> bool" where
  "reports ev x = (ntf_type x = ev_type ev \<and> ntf_title x = ev_title ev \<and> ntf_body x = ev_body ev \<and>
     ntf_payload x = json_text (jmap (ev_payload ev)) \<and> ntf_read_at x = None)"

lemma json_text_jmap_nonempty [simp]: "json_text (jmap m) \<noteq> []"
  by (simp add: jmap_def)

lemma reports_new:
  "reports ev (stamp_new now ((notif_defaults (new_notif ev u))\<lparr>ID := i\<rparr>)) \<and>
   ntf_user_id (stamp_new now ((notif_defaults (new_notif ev u))\<lparr>ID := i\<rparr>)) = u"
  by (simp add: reports_def stamp_new_def notif_defaults_def new_notif_def)

definition active_admin :: "user \<Rightarrow> bool" where
  "active_admin u = (usr_role u = ''admin'' \<and> usr_is_active u)"

lemma notify_users_rows:
  "case notify_users env now ev us n of
     (xs, n') \<Rightarrow> notifications (ns_store n') = notifications (ns_store n) @ map fst xs \<and>
       list_all (reports ev) (map fst xs) \<and>
       subseq (map (ntf_user_id \<circ> fst) xs) (map ID (filter active_admin us)) \<and>
       subseq (map snd xs) (map usr_email (filter active_admin us))"
proof (induction us arbitrary: n)
  case (Cons u us)
  show ?case
  proof (cases "active_admin u")
    case False
    then show ?thesis using Cons[where n = n] by (auto simp: active_admin_def)
  next
    case True
    obtain r s1 where c: "notif_Create now (new_notif ev (ID u)) (ns_store n) = (r, s1)" by fastforce
    show ?thesis
    proof (cases r)
      case (Inl e)
      with c notif_Create_cases[where now = now and x = "new_notif ev (ID u)" and s = "ns_store n"]
      have "notifications s1 = notifications (ns_store n)" by simp
      with True Inl c Cons[where n = "n\<lparr>ns_store := s1\<rparr>"] show ?thesis
        by (auto simp: active_admin_def intro: list_emb.intros)
    next
      case (Inr x)
      let ?n1 = "n\<lparr>ns_store := s1,
        ns_hub := Publish (''notifications:'' @ ID u) (notif_message env ev x) (ns_hub n)\<rparr>"
      have "notifications s1 = notifications (ns_store n) @ [x]"
        "\<exists>i. x = stamp_new now ((notif_defaults (new_notif ev (ID u)))\<lparr>ID := i\<rparr>)"
        using c Inr notif_Create_cases[where now = now and x = "new_notif ev (ID u)" and s = "ns_store n"] by simp_all
      then have new: "notifications (ns_store ?n1) = notifications (ns_store n) @ [x]"
        "reports ev x" "ntf_user_id x = ID u"
        using reports_new by auto
      obtain ys n2 where rec: "notify_users env now ev us ?n1 = (ys, n2)" by fastforce
      with Cons[where n = ?n1] new True Inr c show ?thesis
        by (auto simp: active_admin_def)
    qed
  qed
qed simp

section \<open>The delivery queue\<close>

lemma CreateDelivery_cases:
  "case notif_CreateDelivery now d s of
     (Inl e, s') \<Rightarrow> deliveries s' = deliveries s
   | (Inr d', s') \<Rightarrow> deliveries s' = deliveries s @ [d'] \<and> ID d' \<notin> set (map ID (deliveries s)) \<and>
       (\<exists>u. d' = stamp_new now ((delivery_defaults d)\<lparr>ID := u\<rparr>))"
  using deliveries_tbl.create_cases[where chk = delivery_check and now = now
      and r = "delivery_defaults d" and s = s]
  by (auto simp: notif_CreateDelivery_def wrapped_def split: prod.splits sum.splits)

text \<open>\<open>Save\<close> of a row already in the queue rewrites it; the store is otherwise left alone.\<close>

lemma UpdateDelivery_cases:
  assumes "ID d \<in> set (map ID (deliveries s))"
  shows "deliveries (snd (notif_UpdateDelivery now d s)) = deliveries s \<or>
    deliveries (snd (notif_UpdateDelivery now d s)) =
      update_where (\<lambda>q. ID q = ID d) (\<lambda>_. d\<lparr>UpdatedAt := now\<rparr>) (deliveries s)"
proof -
  let ?d = "d\<lparr>UpdatedAt := now\<rparr>"
  have hit: "\<exists>q\<in>set (deliveries s). ID q = ID d" using assms by auto
  have w: "case sql (write_row deliveries deliveries_update delivery_check (\<lambda>q. ID q = ID d \<and> True) ?d) s of
      (Inl e, s') \<Rightarrow> deliveries s' = deliveries s
    | (Inr k, s') \<Rightarrow> 0 < k \<and> deliveries s' = update_where (\<lambda>q. ID q = ID d) (\<lambda>_. ?d) (deliveries s)"
    by (rule sql_rule) (use hit in \<open>auto simp: write_row_def split: option.split if_splits\<close>)
  then show ?thesis
    by (auto simp: notif_UpdateDelivery_def db_save_def split: prod.splits sum.splits)
qed

lemma UpdateDelivery_working:
  assumes "faults s = []" "\<exists>q\<in>set (deliveries s). ID q = ID d"
    and "delivery_check s (d\<lparr>UpdatedAt := now\<rparr>) = None"
  shows "snd (notif_UpdateDelivery now d s) =
     deliveries_update (update_where (\<lambda>q. ID q = ID d) (\<lambda>_. d\<lparr>UpdatedAt := now\<rparr>)) s"
  using assms by (auto simp: notif_UpdateDelivery_def db_save_def write_row_def Let_def)


text \<open>The optimistic first attempt leaves at most one new row, and no other trace in the queue.\<close>

definition queued :: "uuid \<Rightarrow> string \<Rightarrow> delivery \<Rightarrow> bool" where
  "queued i typ d = (ndl_notification_id d = i \<and> ndl_type d = typ \<and> ndl_attempts d = 0 \<and>
     ndl_next_retry_at d = None \<and> ndl_status d \<in> {''pending'', ''sent''})"

lemma enqueueAndSend_rows:
  assumes "\<And>m. deliveries (ns_store (snd (send m))) = deliveries (ns_store m)"
  shows "\<exists>ds. deliveries (ns_store (enqueueAndSend now i typ send n)) = deliveries (ns_store n) @ ds \<and>
           length ds \<le> 1 \<and> list_all (queued i typ) ds"
proof -
  obtain r s1 where c: "notif_CreateDelivery now (new_delivery i typ) (ns_store n) = (r, s1)"
    by fastforce
  show ?thesis
  proof (cases r)
    case (Inl e)
    with c CreateDelivery_cases[where now = now and d = "new_delivery i typ" and s = "ns_store n"]
    have "deliveries s1 = deliveries (ns_store n)" by simp
    with c Inl show ?thesis by (intro exI[of _ "[]"]) (simp add: enqueueAndSend_def)
  next
    case (Inr d)
    with c CreateDelivery_cases[where now = now and d = "new_delivery i typ" and s = "ns_store n"]
    have d: "deliveries s1 = deliveries (ns_store n) @ [d]" "ID d \<notin> ID ` set (deliveries (ns_store n))"
      "\<exists>u. d = stamp_new now ((delivery_defaults (new_delivery i typ))\<lparr>ID := u\<rparr>)" by simp_all
    obtain q n1 where s: "send (n\<lparr>ns_store := s1\<rparr>) = (q, n1)" by fastforce
    then have n1: "deliveries (ns_store n1) = deliveries (ns_store n) @ [d]"
      using assms[of "n\<lparr>ns_store := s1\<rparr>"] d(1) by simp
    have upd: "\<exists>d'. deliveries (snd (notif_UpdateDelivery now x (ns_store n1))) =
        deliveries (ns_store n) @ [d'] \<and> d' \<in> {d, x\<lparr>UpdatedAt := now\<rparr>}" if "ID x = ID d" for x
    proof -
      have "update_where (\<lambda>q. ID q = ID d) (\<lambda>_. x\<lparr>UpdatedAt := now\<rparr>) (deliveries (ns_store n)) =
          deliveries (ns_store n)"
        by (rule update_where_none) (use d(2) in \<open>metis imageI\<close>)
      then show ?thesis
        using UpdateDelivery_cases[where d = x and s = "ns_store n1" and now = now] n1 that by auto
    qed
    have q: "queued i typ d" "\<And>e. queued i typ (d\<lparr>ndl_last_error := e, UpdatedAt := now\<rparr>)"
      "queued i typ (d\<lparr>ndl_status := ''sent'', UpdatedAt := now\<rparr>)"
      using d(3) by (auto simp: queued_def stamp_new_def delivery_defaults_def new_delivery_def)
    show ?thesis
    proof (cases q)
      case (Inl e)
      with upd[of "d\<lparr>ndl_last_error := truncateError e\<rparr>"] s c Inr q show ?thesis
        by (auto simp: enqueueAndSend_def)
    next
      case (Inr _)
      with upd[of "d\<lparr>ndl_status := ''sent''\<rparr>"] s c \<open>r = _\<close> q show ?thesis
        by (auto simp: enqueueAndSend_def)
    qed
  qed
qed

lemma notif_CreateDelivery_frame:
  "engine_free p \<Longrightarrow> (\<And>f s. p (deliveries_update f s) = p s) \<Longrightarrow>
   p (snd (notif_CreateDelivery now d s)) = p s"
  unfolding notif_CreateDelivery_def snd_wrapped by (rule db_create_frame)

lemma notif_UpdateDelivery_frame:
  "engine_free p \<Longrightarrow> (\<And>f s. p (deliveries_update f s) = p s) \<Longrightarrow>
   p (snd (notif_UpdateDelivery now d s)) = p s"
  unfolding notif_UpdateDelivery_def snd_ignoring_rows by (rule db_save_frame)

lemma notif_Create_frame:
  "engine_free p \<Longrightarrow> (\<And>f s. p (notifications_update f s) = p s) \<Longrightarrow>
   p (snd (notif_Create now x s)) = p s"
  unfolding notif_Create_def snd_wrapped by (rule db_create_frame)

lemma enqueueAndSend_frame:
  assumes "engine_free p" "\<And>f s. p (deliveries_update f s) = p s"
    and "\<And>m. p (ns_store (snd (send m))) = p (ns_store m)"
  shows "p (ns_store (enqueueAndSend now i typ send n)) = p (ns_store n)"
proof -
  have c: "p (snd (notif_CreateDelivery now d s)) = p s" for d s
    by (rule notif_CreateDelivery_frame) (fact assms)+
  have u: "p (snd (notif_UpdateDelivery now d s)) = p s" for d s
    by (rule notif_UpdateDelivery_frame) (fact assms)+
  obtain r s1 where cr: "notif_CreateDelivery now (new_delivery i typ) (ns_store n) = (r, s1)"
    by fastforce
  then have s1: "p s1 = p (ns_store n)"
    using c[of "new_delivery i typ" "ns_store n"] by simp
  obtain q n1 where se: "send (n\<lparr>ns_store := s1\<rparr>) = (q, n1)" by fastforce
  then have n1: "p (ns_store n1) = p (ns_store n)" using assms(3)[of "n\<lparr>ns_store := s1\<rparr>"] s1 by simp
  show ?thesis
  proof (cases r)
    case (Inl e)
    with cr s1 show ?thesis by (simp add: enqueueAndSend_def)
  next
    case (Inr d)
    with cr se n1 show ?thesis by (cases q) (simp_all add: enqueueAndSend_def u)
  qed
qed

lemma users_List_frame:
  assumes "engine_free p" shows "p (snd (users_List opts s)) = p s"
proof -
  obtain r s1 where c: "db_count users (\<lambda>_. True) s = (r, s1)" by fastforce
  then have "p s1 = p s" using db_count_frame[OF assms, of users "\<lambda>_. True" s] by simp
  then show ?thesis
    using c db_find_frame[OF assms, of users "\<lambda>_. True"
        "sql_page (lo_limit opts) (lo_offset opts) \<circ> sort_key CreatedAt" s1]
    by (auto simp: users_List_def page_of_def split: prod.splits sum.splits)
qed

lemma users_List_rows:
  "case users_List opts s of
     (Inl e, s') \<Rightarrow> notifications s' = notifications s \<and> deliveries s' = deliveries s
   | (Inr (us, k), s') \<Rightarrow> notifications s' = notifications s \<and> deliveries s' = deliveries s \<and>
       us = sql_page (lo_limit opts) (lo_offset opts) (sort_key CreatedAt (users s))"
proof -
  obtain r s1 where c: "db_count users (\<lambda>_. True) s = (r, s1)" by fastforce
  have "case db_count users (\<lambda>_. True) s of (r, s1) \<Rightarrow> notifications s1 = notifications s \<and>
      deliveries s1 = deliveries s \<and> users s1 = users s"
    unfolding db_count_def by (rule sql_rule) simp_all
  then have s1: "notifications s1 = notifications s" "deliveries s1 = deliveries s" "users s1 = users s"
    by (simp_all add: c)
  have "case db_find users (\<lambda>_. True) (sql_page (lo_limit opts) (lo_offset opts) \<circ> sort_key CreatedAt) s1 of
      (q, s2) \<Rightarrow> notifications s2 = notifications s1 \<and> deliveries s2 = deliveries s1 \<and>
       (case q of Inl e \<Rightarrow> True | Inr us \<Rightarrow>
          us = sql_page (lo_limit opts) (lo_offset opts) (sort_key CreatedAt (users s1)))"
    unfolding db_find_def by (rule sql_rule) simp_all
  with s1 c show ?thesis
    by (auto simp: users_List_def page_of_def split: prod.splits sum.splits)
qed

lemma notify_users_frame:
  assumes "engine_free p" "\<And>f s. p (notifications_update f s) = p s"
  shows "p (ns_store (snd (notify_users env now ev us n))) = p (ns_store n)"
proof (induction us arbitrary: n)
  case (Cons u us)
  have c: "p (snd (notif_Create now x s)) = p s" for x s
    by (rule notif_Create_frame) (fact assms)+
  obtain r s1 where cr: "notif_Create now (new_notif ev (ID u)) (ns_store n) = (r, s1)" by fastforce
  then have s1: "p s1 = p (ns_store n)" using c[of "new_notif ev (ID u)" "ns_store n"] by simp
  show ?case
  proof (cases r)
    case (Inl e)
    with Cons[of n] Cons[of "n\<lparr>ns_store := s1\<rparr>"] s1 cr show ?thesis by simp
  next
    case (Inr x)
    let ?n = "n\<lparr>ns_store := s1, ns_hub := Publish (''notifications:'' @ ID u) (notif_message env ev x) (ns_hub n)\<rparr>"
    obtain xs n1 where rec: "notify_users env now ev us ?n = (xs, n1)" by fastforce
    then have "p (ns_store n1) = p (ns_store n)" using Cons[of ?n] s1 by simp
    with Cons[of n] rec Inr cr show ?thesis by simp
  qed
qed simp

lemma notify_users_deliveries:
  "deliveries (ns_store (snd (notify_users env now ev us n))) = deliveries (ns_store n)"
  by (rule notify_users_frame) simp_all

text \<open>On a database without errors, with an unused id for every row, no administrator is left out.\<close>

definition notif_ready :: "nat \<Rightarrow> store \<Rightarrow> bool" where
  "notif_ready k s = (faults s = [] \<and> k \<le> length (ids s) \<and> distinct (map ID (notifications s) @ ids s))"

lemma notif_Create_ready:
  assumes "notif_ready (Suc k) s" "has_id u (users s)"
  shows "\<exists>x s'. notif_Create now (new_notif ev u) s = (Inr x, s') \<and> ntf_user_id x = u \<and> users s' = users s \<and>
    notif_ready k s'"
proof -
  obtain i us where ids: "ids s = i # us" using assms(1) by (cases "ids s") (auto simp: notif_ready_def)
  let ?x = "stamp_new now ((notif_defaults (new_notif ev u))\<lparr>ID := i\<rparr>)"
  have "ID (notif_defaults (new_notif ev u)) = nil_uuid" by (simp add: notif_defaults_def new_notif_def)
  moreover have x: "ID ?x = i" "ntf_user_id ?x = u" by (simp_all add: stamp_new_def notif_defaults_def new_notif_def)
  moreover have "i \<notin> ID ` set (notifications s)" using assms(1) ids by (auto simp: notif_ready_def)
  ultimately have "notif_Create now (new_notif ev u) s =
      (Inr ?x, s\<lparr>ids := us, notifications := notifications s @ [?x]\<rparr>)"
    using assms ids
    by (simp add: notif_Create_def wrapped_def db_create_def before_create_def insert_row_def notif_check_def
        notif_ready_def)
  moreover have "notif_ready k (s\<lparr>ids := us, notifications := notifications s @ [?x]\<rparr>)"
    using assms(1) ids x by (auto simp: notif_ready_def)
  ultimately show ?thesis
    using x by (intro exI[of _ ?x] exI[of _ "s\<lparr>ids := us, notifications := notifications s @ [?x]\<rparr>"]) simp
qed

lemma notify_users_all:
  "notif_ready (length (filter active_admin us)) (ns_store n) \<Longrightarrow> \<forall>u\<in>set us. has_id (ID u) (users (ns_store n)) \<Longrightarrow>
   map (ntf_user_id \<circ> fst) (fst (notify_users env now ev us n)) = map ID (filter active_admin us)"
proof (induction us arbitrary: n)
  case (Cons u us)
  show ?case
  proof (cases "active_admin u")
    case False
    then show ?thesis using Cons by (auto simp: active_admin_def)
  next
    case True
    with Cons.prems obtain x s1 where c: "notif_Create now (new_notif ev (ID u)) (ns_store n) = (Inr x, s1)"
      "ntf_user_id x = ID u" "users s1 = users (ns_store n)" "notif_ready (length (filter active_admin us)) s1"
      using notif_Create_ready[of "length (filter active_admin us)" "ns_store n" "ID u" now ev] by auto
    let ?n = "n\<lparr>ns_store := s1, ns_hub := Publish (''notifications:'' @ ID u) (notif_message env ev x) (ns_hub n)\<rparr>"
    obtain ys n2 where rec: "notify_users env now ev us ?n = (ys, n2)" by fastforce
    moreover have "usr_role u = ''admin''" "usr_is_active u" using True by (simp_all add: active_admin_def)
    ultimately show ?thesis using Cons.IH[of ?n] Cons.prems(2) c True by simp
  qed
qed simp

text \<open>The rows of one event: those of the administrators, and the two deliveries of the first.\<close>

definition recipients_of :: "store \<Rightarrow> uuid list" where
  "recipients_of s = map ID (filter active_admin (sql_page 100 0 (sort_key CreatedAt (users s))))"

text \<open>Everything in the database but those two tables and the bookkeeping of the engine.\<close>

definition other_tables :: "store \<Rightarrow> store" where
  "other_tables s = s\<lparr>notifications := [], deliveries := [], faults := [], ids := []\<rparr>"

lemma other_tables_free [simp]:
  "engine_free other_tables" "other_tables (notifications_update f s) = other_tables s"
  "other_tables (deliveries_update g s) = other_tables s"
  by (simp_all add: engine_free_def other_tables_def)

lemma notify_others: "other_tables (ns_store (snd (notify env now ev n))) = other_tables (ns_store n)"
proof -
  obtain r s1 where l: "users_List \<lparr>lo_limit = 100, lo_offset = 0\<rparr> (ns_store n) = (r, s1)" by fastforce
  then have s1: "other_tables s1 = other_tables (ns_store n)"
    using users_List_frame[of other_tables "\<lparr>lo_limit = 100, lo_offset = 0\<rparr>" "ns_store n"] by simp
  have two: "other_tables (ns_store (enqueueAndSend now i ''webhook'' (webhook_Send env now a b c pl)
      (enqueueAndSend now i ''email'' (email_Send env now tos b c) m))) = other_tables (ns_store m)" for i a b c pl tos m
    by (simp add: enqueueAndSend_frame webhook_Send_frame email_Send_frame)
  have rcp: "other_tables (snd (configuredRecipients s)) = other_tables s" for s
    by (rule configuredRecipients_frame) simp
  have us: "other_tables (ns_store (snd (notify_users env now ev us m))) = other_tables (ns_store m)" for us m
    by (rule notify_users_frame) simp_all
  show ?thesis
  proof (cases r)
    case (Inl e)
    with l s1 show ?thesis by (simp add: notify_def)
  next
    case (Inr p)
    obtain xs n1 where u: "notify_users env now ev (fst p) (n\<lparr>ns_store := s1\<rparr>) = (xs, n1)" by fastforce
    obtain cf s2 where cf: "configuredRecipients (ns_store n1) = (cf, s2)" by fastforce
    have "other_tables (ns_store n1) = other_tables (ns_store n)" "other_tables s2 = other_tables (ns_store n1)"
      using us[of "fst p" "n\<lparr>ns_store := s1\<rparr>"] rcp[of "ns_store n1"] u cf s1 by simp_all
    with l Inr u cf two show ?thesis
      by (cases p; cases xs) (auto simp: notify_def Let_def)
  qed
qed

text \<open>The two deliveries of an event, one after the other, each add at most one row of their own kind.\<close>

lemma notify_deliveries:
  fixes env now ev tos pl i n s2
  assumes "notifications s2 = notifications (ns_store n)" "deliveries s2 = deliveries (ns_store n)"
  defines "mail \<equiv> email_Send env now tos (ev_title ev) (ev_body ev)"
    and "hook \<equiv> webhook_Send env now (ev_type ev) (ev_title ev) (ev_body ev) pl"
  defines "n2 \<equiv> enqueueAndSend now i ''email'' mail (n\<lparr>ns_store := s2\<rparr>)"
  defines "n3 \<equiv> enqueueAndSend now i ''webhook'' hook n2"
  shows "notifications (ns_store n3) = notifications (ns_store n)"
    and "\<exists>es ws. deliveries (ns_store n3) = deliveries (ns_store n) @ es @ ws \<and>
      length es \<le> 1 \<and> length ws \<le> 1 \<and>
      list_all (queued i ''email'') es \<and> list_all (queued i ''webhook'') ws"
proof -
  obtain es where es: "deliveries (ns_store n2) = deliveries (ns_store n) @ es" "length es \<le> 1"
    "list_all (queued i ''email'') es"
    using enqueueAndSend_rows[of mail now i "''email''" "n\<lparr>ns_store := s2\<rparr>"]
    by (auto simp: email_Send_frame assms n2_def)
  obtain ws where ws: "deliveries (ns_store n3) = deliveries (ns_store n2) @ ws" "length ws \<le> 1"
    "list_all (queued i ''webhook'') ws"
    using enqueueAndSend_rows[of hook now i "''webhook''" n2]
    by (auto simp: webhook_Send_frame hook_def n3_def)
  show "\<exists>es ws. deliveries (ns_store n3) = deliveries (ns_store n) @ es @ ws \<and>
      length es \<le> 1 \<and> length ws \<le> 1 \<and>
      list_all (queued i ''email'') es \<and> list_all (queued i ''webhook'') ws"
    using es ws by (intro exI[of _ es] exI[of _ ws]) simp
  show "notifications (ns_store n3) = notifications (ns_store n)"
    by (simp add: enqueueAndSend_frame webhook_Send_frame email_Send_frame assms)
qed

text \<open>What the loop over the users persists, and what the two channels add.\<close>

lemma notify_persists:
  assumes "users_List \<lparr>lo_limit = 100, lo_offset = 0\<rparr> (ns_store n) = (Inr (us, k), s1)"
    and "notify_users env now ev us (n\<lparr>ns_store := s1\<rparr>) = (xs, n1)"
  shows "notifications (ns_store n1) = notifications (ns_store n) @ map fst xs" "list_all (reports ev) (map fst xs)"
    and "subseq (map ntf_user_id (map fst xs)) (recipients_of (ns_store n))"
    and "deliveries (ns_store n1) = deliveries (ns_store n)"
    and "notif_ready (length (recipients_of (ns_store n))) (ns_store n) \<Longrightarrow>
      map ntf_user_id (map fst xs) = recipients_of (ns_store n)"
proof -
  let ?n = "n\<lparr>ns_store := s1\<rparr>"
  have us: "us = sql_page 100 0 (sort_key CreatedAt (users (ns_store n)))"
    "notifications s1 = notifications (ns_store n)" "deliveries s1 = deliveries (ns_store n)"
    using users_List_rows[where opts = "\<lparr>lo_limit = 100, lo_offset = 0\<rparr>" and s = "ns_store n"] assms(1) by simp_all
  show "notifications (ns_store n1) = notifications (ns_store n) @ map fst xs" "list_all (reports ev) (map fst xs)"
    "subseq (map ntf_user_id (map fst xs)) (recipients_of (ns_store n))"
    "deliveries (ns_store n1) = deliveries (ns_store n)"
    using notify_users_rows[where env = env and now = now and ev = ev and us = us and n = ?n]
      notify_users_deliveries[where env = env and now = now and ev = ev and us = us and n = ?n] assms(2) us
    by (simp_all add: recipients_of_def)
  show "map ntf_user_id (map fst xs) = recipients_of (ns_store n)"
    if "notif_ready (length (recipients_of (ns_store n))) (ns_store n)"
  proof -
    have "s1 = ns_store n"
      using assms(1) that by (auto simp: notif_ready_def users_List_def page_of_def db_count_def db_find_def)
    moreover have "\<forall>u\<in>set us. has_id (ID u) (users (ns_store n))"
      using sql_page_subset[of 100 0 "sort_key CreatedAt (users (ns_store n))"]
      by (auto simp: us(1) has_id_def list_ex_iff)
    ultimately show ?thesis
      using notify_users_all[of us ?n env now ev] that assms(2) by (simp add: recipients_of_def us(1))
  qed
qed

lemma notify_sends:
  assumes "users_List \<lparr>lo_limit = 100, lo_offset = 0\<rparr> (ns_store n) = (Inr (us, k), s1)"
    and "notify_users env now ev us (n\<lparr>ns_store := s1\<rparr>) = (x # xs, n1)"
  shows "notifications (ns_store (snd (notify env now ev n))) = notifications (ns_store n1)"
    and "\<exists>es ws. deliveries (ns_store (snd (notify env now ev n))) = deliveries (ns_store n1) @ es @ ws \<and>
      length es \<le> 1 \<and> length ws \<le> 1 \<and>
      list_all (queued (ID (fst x)) ''email'') es \<and> list_all (queued (ID (fst x)) ''webhook'') ws"
proof -
  obtain cf s2 where cf: "configuredRecipients (ns_store n1) = (cf, s2)" by fastforce
  have s2: "notifications s2 = notifications (ns_store n1)" "deliveries s2 = deliveries (ns_store n1)"
    using configuredRecipients_frame[of notifications "ns_store n1"]
      configuredRecipients_frame[of deliveries "ns_store n1"] cf by simp_all
  obtain tos where tos: "tos = (if cf = [] then map snd (x # xs) else cf)" by simp
  let ?n3 = "enqueueAndSend now (ID (fst x)) ''webhook''
      (webhook_Send env now (ev_type ev) (ev_title ev) (ev_body ev) (map (\<lambda>(k, v). (k, JStr v)) (ev_payload ev)))
      (enqueueAndSend now (ID (fst x)) ''email'' (email_Send env now tos (ev_title ev) (ev_body ev))
        (n1\<lparr>ns_store := s2\<rparr>))"
  have run: "snd (notify env now ev n) = ?n3"
    using assms cf by (cases x) (simp add: notify_def Let_def tos)
  show "notifications (ns_store (snd (notify env now ev n))) = notifications (ns_store n1)"
    unfolding run by (rule notify_deliveries(1)[OF s2])
  show "\<exists>es ws. deliveries (ns_store (snd (notify env now ev n))) = deliveries (ns_store n1) @ es @ ws \<and>
      length es \<le> 1 \<and> length ws \<le> 1 \<and>
      list_all (queued (ID (fst x)) ''email'') es \<and> list_all (queued (ID (fst x)) ''webhook'') ws"
    unfolding run by (rule notify_deliveries(2)[OF s2])
qed

text \<open>C32: what an event writes, whatever the database and the network do.  It adds notifications of that event only,
at most one for each active administrator among the hundred oldest users and in their order (exactly one for each of
these when the database has no error and an unused id for every row); it adds at most one email and one webhook
delivery, which refer to the first of those notifications and are pending or sent with no retry counted; and
no other row of the database changes.\<close>

theorem notify_rows:
  "\<exists>xs es ws.
     notifications (ns_store (snd (notify env now ev n))) = notifications (ns_store n) @ xs \<and>
     list_all (reports ev) xs \<and>
     (if notif_ready (length (recipients_of (ns_store n))) (ns_store n)
      then map ntf_user_id xs = recipients_of (ns_store n)
      else subseq (map ntf_user_id xs) (recipients_of (ns_store n))) \<and>
     deliveries (ns_store (snd (notify env now ev n))) = deliveries (ns_store n) @ es @ ws \<and>
     length es \<le> 1 \<and> length ws \<le> 1 \<and>
     list_all (\<lambda>d. xs \<noteq> [] \<and> queued (ID (hd xs)) ''email'' d) es \<and>
     list_all (\<lambda>d. xs \<noteq> [] \<and> queued (ID (hd xs)) ''webhook'' d) ws \<and>
     other_tables (ns_store (snd (notify env now ev n))) = other_tables (ns_store n)"
proof -
  obtain r s1 where l: "users_List \<lparr>lo_limit = 100, lo_offset = 0\<rparr> (ns_store n) = (r, s1)" by fastforce
  show ?thesis
  proof (cases r)
    case (Inl e)
    then have run: "snd (notify env now ev n) = n\<lparr>ns_store := s1\<rparr>" using l by (simp add: notify_def)
    have "\<not> notif_ready (length (recipients_of (ns_store n))) (ns_store n)"
      using l Inl by (auto simp: notif_ready_def users_List_def page_of_def db_count_def db_find_def)
    then show ?thesis
      using users_List_rows[where opts = "\<lparr>lo_limit = 100, lo_offset = 0\<rparr>" and s = "ns_store n"] l Inl
        notify_others[of env now ev n] unfolding run by (intro exI[of _ "[]"]) simp
  next
    case (Inr p)
    obtain us k where p: "p = (us, k)" by fastforce
    obtain xs n1 where u: "notify_users env now ev us (n\<lparr>ns_store := s1\<rparr>) = (xs, n1)" by fastforce
    note xs = notify_persists[OF l[unfolded Inr p] u]
    show ?thesis
    proof (cases xs)
      case Nil
      then have run: "snd (notify env now ev n) = n1" using l Inr p u by (simp add: notify_def)
      show ?thesis
        using xs Nil notify_others[of env now ev n] unfolding run by (intro exI[of _ "[]"]) auto
    next
      case (Cons x ys)
      note sends = notify_sends[OF l[unfolded Inr p] u[unfolded Cons]]
      obtain es ws where d: "deliveries (ns_store (snd (notify env now ev n))) = deliveries (ns_store n1) @ es @ ws"
        "length es \<le> 1" "length ws \<le> 1" "list_all (queued (ID (fst x)) ''email'') es"
        "list_all (queued (ID (fst x)) ''webhook'') ws"
        using sends(2) by blast
      show ?thesis
        using xs d Cons sends(1) notify_others[of env now ev n]
        by - (rule exI[of _ "map fst xs"], rule exI[of _ es], rule exI[of _ ws], simp)
    qed
  qed
qed

section \<open>The retrier\<close>

text \<open>What one retry makes of a row: one attempt more, and then sent, or given up after the third
attempt, or put off by thirty minutes.\<close>

definition retried :: "time \<Rightarrow> delivery \<Rightarrow> delivery \<Rightarrow> bool" where
  "retried now d d' =
     (ID d' = ID d \<and> ndl_type d' = ndl_type d \<and> ndl_notification_id d' = ndl_notification_id d \<and>
      ndl_attempts d' = ndl_attempts d + 1 \<and>
      (ndl_status d' = ''sent'' \<or>
       ndl_status d' = ''exhausted'' \<and> 3 \<le> ndl_attempts d' \<or>
       ndl_status d' = ndl_status d \<and> ndl_attempts d' < 3 \<and>
         ndl_next_retry_at d' = Some (now + 30 * minute)))"

lemma retry_outcome_retried:
  "0 \<le> ndl_attempts d \<Longrightarrow> retried now d ((retry_outcome now r d)\<lparr>UpdatedAt := t\<rparr>)"
  by (cases r) (auto simp: retried_def retry_outcome_def retryBackoff_def maxRetryAttempts_def Let_def)

text \<open>The row after an attempt whose channel answered \<open>answer\<close>: one attempt more; sent when there was no error;
otherwise the error is kept, and the row is given up if that was the third attempt and put off by the backoff of its new
number of attempts if it was not.\<close>

definition after_attempt :: "time \<Rightarrow> string + unit \<Rightarrow> delivery \<Rightarrow> delivery" where
  "after_attempt now answer d = (let n = ndl_attempts d + 1 in
     case answer of
       Inr _ \<Rightarrow> d\<lparr>UpdatedAt := now, ndl_attempts := n, ndl_status := ''sent'', ndl_last_error := []\<rparr>
     | Inl e \<Rightarrow>
         if 3 \<le> n
         then d\<lparr>UpdatedAt := now, ndl_attempts := n, ndl_status := ''exhausted'', ndl_last_error := take 500 e\<rparr>
         else d\<lparr>UpdatedAt := now, ndl_attempts := n, ndl_last_error := take 500 e,
                ndl_next_retry_at := Some (retryBackoff now n)\<rparr>)"

lemma retry_outcome_after: "(retry_outcome now answer d)\<lparr>UpdatedAt := now\<rparr> = after_attempt now answer d"
  by (cases answer) (simp_all add: retry_outcome_def after_attempt_def maxRetryAttempts_def truncateError_def Let_def)

text \<open>A retry of \<open>d\<close> as the state \<open>n\<close> has it: its notification is sent again over its channel.\<close>

definition retried_by :: "notif_env \<Rightarrow> time \<Rightarrow> nstate \<Rightarrow> delivery \<Rightarrow> delivery \<Rightarrow> bool" where
  "retried_by env now n d d' = (\<exists>x answer. x \<in> set (notifications (ns_store n)) \<and> ID x = ndl_notification_id d \<and>
     fst (retry_send env now d x n) = Some answer \<and> d' = after_attempt now answer d)"

text \<open>The answer depends on the settings only, which a round does not change.\<close>

lemma retry_send_settings:
  assumes "faults (ns_store n) = []" "faults (ns_store m) = []" "settings (ns_store m) = settings (ns_store n)"
  shows "fst (retry_send env now d x m) = fst (retry_send env now d x n)"
proof -
  have get: "settings_GetMany p (ns_store m) =
      (Inr (filter (\<lambda>x. starts_with p (set_key x)) (settings (ns_store n))), ns_store m)"
    "settings_GetMany p (ns_store n) =
      (Inr (filter (\<lambda>x. starts_with p (set_key x)) (settings (ns_store n))), ns_store n)" for p
    using assms by (simp_all add: settings_GetMany_def db_find_def)
  have mail: "fst (email_Send env now rs t b m) = fst (email_Send env now rs t b n)" for rs t b
    by (simp add: email_Send_def loadSMTPConfig_def get case_prod_unfold split: sum.split)
  have hook: "fst (webhook_Send env now ty t b p m) = fst (webhook_Send env now ty t b p n)" for ty t b p
    by (simp add: webhook_Send_def loadWebhookConfig_def get Let_def split: http_answer.split)
  have rcp: "fst (configuredRecipients (ns_store m)) = fst (configuredRecipients (ns_store n))"
    "snd (configuredRecipients (ns_store m)) = ns_store m" "snd (configuredRecipients (ns_store n)) = ns_store n"
    by (simp_all add: configuredRecipients_def get)
  have same: "k\<lparr>ns_store := ns_store k\<rparr> = k" for k :: nstate by simp
  show ?thesis
    using mail hook rcp same by (simp add: retry_send_def case_prod_unfold Let_def)
qed

lemma retried_by_cong:
  assumes "faults (ns_store n) = []" "faults (ns_store m) = []" "settings (ns_store m) = settings (ns_store n)"
    "notifications (ns_store m) = notifications (ns_store n)"
  shows "retried_by env now m = retried_by env now n"
  using retry_send_settings[OF assms(1-3)] assms(4) by (simp add: retried_by_def fun_eq_iff)

lemma retried_by_retried:
  assumes "retried_by env now n d d'" "0 \<le> ndl_attempts d"
  shows "retried now d d'"
proof -
  obtain answer where "d' = after_attempt now answer d" using assms(1) by (auto simp: retried_by_def)
  then show ?thesis using retry_outcome_retried[OF assms(2), where now = now and r = answer and t = now] by (simp add: retry_outcome_after)
qed

text \<open>A queue on which every statement of the retrier succeeds.\<close>

definition delivery_sound :: "store \<Rightarrow> delivery \<Rightarrow> bool" where
  "delivery_sound s d =
     (ndl_type d \<in> {''email'', ''webhook''} \<and> ndl_status d \<in> {''pending'', ''sent'', ''exhausted''} \<and>
      0 \<le> ndl_attempts d \<and> has_id (ndl_notification_id d) (notifications s))"

definition queue_sound :: "store \<Rightarrow> bool" where
  "queue_sound s = (faults s = [] \<and> distinct (map ID (deliveries s)) \<and>
     list_all (delivery_sound s) (deliveries s))"

lemma first_exists:
  assumes "faults s = []" "has_id u (rows s)"
  shows "\<exists>x. db_first rows (\<lambda>r. ID r = u) s = (Inr x, s)"
proof -
  have "filter (\<lambda>r. ID r = u) (rows s) \<noteq> []"
    using assms(2) by (auto simp: has_id_def list_ex_iff filter_empty_conv)
  then have "sort_key ID (filter (\<lambda>r. ID r = u) (rows s)) \<noteq> []"
    by (metis set_empty2 set_sort)
  with assms(1) show ?thesis by (auto simp: db_first_def split: list.split)
qed

lemma retry_send_sound:
  assumes "faults (ns_store n) = []" "ndl_type d \<in> {''email'', ''webhook''}"
  shows "\<exists>r n'. retry_send env now d x n = (Some r, n') \<and> ns_store n' = ns_store n"
proof (cases "ndl_type d = ''email''")
  case True
  obtain rcp s1 where c: "configuredRecipients (ns_store n) = (rcp, s1)" by fastforce
  then have s1: "s1 = ns_store n" using configuredRecipients_unchanged[OF assms(1)] by simp
  obtain r n1 where e: "email_Send env now rcp (ntf_title x) (ntf_body x) n = (r, n1)" by fastforce
  then have "ns_store n1 = ns_store n"
    using email_Send_unchanged[OF assms(1), of env now rcp] by (metis snd_conv)
  with True c s1 e show ?thesis by (simp add: retry_send_def)
next
  case False
  let ?p = "case json_parse (ntf_payload x) of
     Some (JObj kvs) \<Rightarrow> foldl (\<lambda>m (k, v). map_put k v m) [] kvs | _ \<Rightarrow> []"
  obtain r n1 where e: "webhook_Send env now (ntf_type x) (ntf_title x) (ntf_body x) ?p n = (r, n1)"
    by fastforce
  then have "ns_store n1 = ns_store n"
    using webhook_Send_unchanged[OF assms(1), of env now] by (metis snd_conv)
  with False assms(2) e show ?thesis by (simp add: retry_send_def Let_def)
qed

lemma retryDelivery_sound:
  assumes "queue_sound (ns_store n)" "d \<in> set (deliveries (ns_store n))"
  shows "\<exists>d'. retried_by env now n d d' \<and> retried now d d' \<and> delivery_sound (ns_store n) d' \<and>
     ns_store (retryDelivery env now d n) =
       deliveries_update (update_where (\<lambda>q. ID q = ID d) (\<lambda>_. d')) (ns_store n)"
proof -
  let ?s = "ns_store n"
  have q: "faults ?s = []" "delivery_sound ?s d"
    using assms by (auto simp: queue_sound_def list_all_iff)
  obtain x where x: "notif_GetByID (ndl_notification_id d) ?s = (Inr x, ?s)"
    using first_exists[OF q(1)] q(2) by (auto simp: notif_GetByID_def delivery_sound_def)
  obtain r n' where r: "retry_send env now d x (n\<lparr>ns_store := ?s\<rparr>) = (Some r, n')" "ns_store n' = ?s"
    using retry_send_sound[of "n\<lparr>ns_store := ?s\<rparr>" d env now x] q by (auto simp: delivery_sound_def)
  let ?d = "retry_outcome now r d"
  have "x \<in> set (notifications ?s)" "ID x = ndl_notification_id d"
    using notifications_tbl.first_Inr[of "\<lambda>q. ID q = ndl_notification_id d" ?s x ?s] x by (simp_all add: notif_GetByID_def)
  then have sent: "retried_by env now n d (?d\<lparr>UpdatedAt := now\<rparr>)"
    using r(1) by (auto simp: retried_by_def retry_outcome_after)
  have rd: "retried now d (?d\<lparr>UpdatedAt := now\<rparr>)"
    by (rule retry_outcome_retried) (use q(2) in \<open>simp add: delivery_sound_def\<close>)
  have ds: "delivery_sound ?s (?d\<lparr>UpdatedAt := now\<rparr>)"
    using q(2) rd by (auto simp: delivery_sound_def retried_def)
  then have "delivery_check ?s (?d\<lparr>UpdatedAt := now\<rparr>) = None"
    by (auto simp: delivery_check_def delivery_sound_def)
  moreover have id: "ID ?d = ID d" using rd by (simp add: retried_def)
  ultimately have "snd (notif_UpdateDelivery now ?d ?s) =
      deliveries_update (update_where (\<lambda>q. ID q = ID d) (\<lambda>_. ?d\<lparr>UpdatedAt := now\<rparr>)) ?s"
    using UpdateDelivery_working[OF q(1), of ?d now] assms(2) by auto
  with x r rd ds sent show ?thesis by (intro exI[of _ "?d\<lparr>UpdatedAt := now\<rparr>"]) (simp add: retryDelivery_def)
qed

lemma queue_sound_update:
  assumes "queue_sound s" "d \<in> set (deliveries s)" "ID d' = ID d" "delivery_sound s d'"
  shows "queue_sound (deliveries_update (update_where (\<lambda>q. ID q = ID d) (\<lambda>_. d')) s)"
proof -
  have "map ID (update_where (\<lambda>q. ID q = ID d) (\<lambda>_. d') (deliveries s)) = map ID (deliveries s)"
    by (simp add: update_where_def assms(3))
  then show ?thesis
    using assms by (auto simp: queue_sound_def delivery_sound_def list_all_iff set_update_where)
qed

lemma update_unique:
  assumes "distinct (map ID xs)" "d \<in> set xs"
  shows "list_all2 (\<lambda>x y. y = (if x = d then d' else x) \<and> x \<in> set xs) xs
           (update_where (\<lambda>q. ID q = ID d) (\<lambda>_. d') xs)"
proof -
  have "ID x = ID d \<longleftrightarrow> x = d" if "x \<in> set xs" for x
    using assms that by (metis distinct_map inj_onD)
  then show ?thesis
    by (simp add: update_where_def list.rel_map list.rel_refl_strong)
qed

lemma fold_retryDelivery:
  assumes "queue_sound (ns_store n)" "distinct (map ID ds)"
    and "set ds \<subseteq> set (deliveries (ns_store n))"
  shows "queue_sound (ns_store (fold (retryDelivery env now) ds n)) \<and>
    list_all2 (\<lambda>d d'. if d \<in> set ds then retried_by env now n d d' else d' = d)
      (deliveries (ns_store n)) (deliveries (ns_store (fold (retryDelivery env now) ds n)))"
  using assms
proof (induction ds arbitrary: n)
  case Nil
  then show ?case by (simp add: list.rel_refl)
next
  case (Cons d ds)
  let ?old = "deliveries (ns_store n)" and ?n1 = "retryDelivery env now d n"
  have d: "d \<in> set ?old" and ids: "distinct (map ID ?old)"
    using Cons.prems by (auto simp: queue_sound_def)
  obtain d' where d': "retried now d d'" "delivery_sound (ns_store n) d'" "retried_by env now n d d'"
    "ns_store ?n1 = deliveries_update (update_where (\<lambda>q. ID q = ID d) (\<lambda>_. d')) (ns_store n)"
    using retryDelivery_sound[OF Cons.prems(1) d, where env = env and now = now] by blast
  have id: "ID d' = ID d" using d'(1) by (simp add: retried_def)
  have fresh: "ID x \<noteq> ID d" if "x \<in> set ds" for x
    using Cons.prems(2) imageI[OF that, of ID] by auto
  then have sub: "set ds \<subseteq> set (deliveries (ns_store ?n1))"
    using Cons.prems(3) by (auto simp: d'(4) set_update_where)
  have "queue_sound (ns_store ?n1)"
    unfolding d'(4) by (rule queue_sound_update[OF Cons.prems(1) d id d'(2)])
  moreover have same: "retried_by env now ?n1 = retried_by env now n"
    by (rule retried_by_cong) (use Cons.prems(1) in \<open>simp_all add: d'(4) queue_sound_def\<close>)
  ultimately have IH: "queue_sound (ns_store (fold (retryDelivery env now) ds ?n1))"
    "list_all2 (\<lambda>d d'. if d \<in> set ds then retried_by env now n d d' else d' = d)
      (deliveries (ns_store ?n1)) (deliveries (ns_store (fold (retryDelivery env now) ds ?n1)))"
    using Cons.IH[OF _ _ sub, unfolded same] Cons.prems(2) by simp_all
  have "d' \<notin> set ds" using fresh id by auto
  have dd: "d \<notin> set ds" using fresh by auto
  have "list_all2 (\<lambda>x y. if x \<in> set (d # ds) then retried_by env now n x y else y = x)
      ?old (deliveries (ns_store (fold (retryDelivery env now) ds ?n1)))"
    by (rule list_all2_trans[OF _ update_unique[OF ids d, of d'] IH(2)[unfolded d'(4), simplified]])
      (use \<open>d' \<notin> set ds\<close> dd d'(3) in \<open>auto split: if_splits\<close>)
  with IH(1) show ?case by simp
qed

text \<open>The rows one round of the retrier takes: the first hundred that are due, oldest first.\<close>

definition round_of :: "time \<Rightarrow> store \<Rightarrow> delivery list" where
  "round_of now s = sql_page 100 0 (sort_key CreatedAt (filter (delivery_due now) (deliveries s)))"

lemma processDeliveries_exact:
  assumes "queue_sound (ns_store n)"
  shows "queue_sound (ns_store (processDeliveries env now n)) \<and>
    list_all2 (\<lambda>d d'. if d \<in> set (round_of now (ns_store n)) then retried_by env now n d d' else d' = d)
     (deliveries (ns_store n)) (deliveries (ns_store (processDeliveries env now n)))"
proof -
  let ?s = "ns_store n"
  have q: "notif_ListPendingDeliveries now 100 ?s = (Inr (round_of now ?s), ?s)"
    using assms by (simp add: notif_ListPendingDeliveries_def round_of_def db_find_def queue_sound_def)
  have "distinct (map ID (sort_key CreatedAt (filter (delivery_due now) (deliveries ?s))))"
    using assms by (simp add: queue_sound_def distinct_map inj_on_def)
  then have "distinct (map ID (round_of now ?s))"
    by (simp add: round_of_def sql_page_def take_map[symmetric] distinct_take)
  moreover have "set (round_of now ?s) \<subseteq> set (deliveries ?s)"
    using sql_page_subset[of 100 0 "sort_key CreatedAt (filter (delivery_due now) (deliveries ?s))"]
    by (auto simp: round_of_def)
  ultimately show ?thesis
    using fold_retryDelivery[where n = n and ds = "round_of now ?s" and env = env and now = now] assms q
    by (simp add: processDeliveries_def)
qed

lemma processDeliveries_sound:
  assumes "queue_sound (ns_store n)"
  shows "queue_sound (ns_store (processDeliveries env now n)) \<and>
    list_all2 (\<lambda>d d'. if d \<in> set (round_of now (ns_store n)) then retried now d d' else d' = d)
     (deliveries (ns_store n)) (deliveries (ns_store (processDeliveries env now n)))"
proof -
  have "0 \<le> ndl_attempts d" if "d \<in> set (deliveries (ns_store n))" for d
    using assms that by (auto simp: queue_sound_def delivery_sound_def list_all_iff)
  then show ?thesis
    using processDeliveries_exact[OF assms, of env now]
    by (auto elim!: list.rel_mono_strong intro: retried_by_retried)
qed

text \<open>C31: one round of the retrier, on a queue whose rows are well formed and a database without errors.  Of the
rows that are due it takes the first hundred, oldest first; each of these is sent again once over its own channel and
written back with one attempt more: as sent when the channel reported no error, otherwise with the error, as exhausted
if that was the third attempt and put off by \<open>retryBackoff\<close> if it was not.  Every other row stays as it is, and the
queue stays well formed.\<close>

theorem processDeliveries_round:
  assumes "queue_sound (ns_store n)"
  shows "list_all2 (\<lambda>d d'. if d \<in> set (round_of now (ns_store n)) then retried_by env now n d d' else d' = d)
     (deliveries (ns_store n)) (deliveries (ns_store (processDeliveries env now n))) \<and>
    queue_sound (ns_store (processDeliveries env now n))"
  using processDeliveries_exact[OF assms] by simp

text \<open>The attempts are counted before the backoff is chosen, so the five minutes of the documented schedule are never
used: every row that is put off is put off by thirty minutes.\<close>

lemma first_interval_unused:
  assumes "retried_by env now n d d'" "0 \<le> ndl_attempts d" "ndl_status d' \<noteq> ''sent''" "ndl_attempts d' < 3"
  shows "ndl_next_retry_at d' = Some (now + 30 * minute)"
  using retried_by_retried[OF assms(1,2)] assms(3,4) by (auto simp: retried_def)

text \<open>A queue with one due row of each kind, and a network on which everything fails.\<close>

definition demo_env :: notif_env where
  "demo_env = \<lparr>ne_smtp = (\<lambda>_. Some ''refused''), ne_starttls = False,
     ne_http = (\<lambda>_ _ _. HttpStatus 503), ne_hmac = (\<lambda>_ _. []), ne_rfc3339 = (\<lambda>_. []),
     ne_rfc1123 = (\<lambda>_. []), ne_dberr = ''db''\<rparr>"

definition demo_delivery :: "uuid \<Rightarrow> string \<Rightarrow> delivery" where
  "demo_delivery u typ = \<lparr>ID = u, CreatedAt = 1, UpdatedAt = 1, ndl_notification_id = ''n1'',
     ndl_type = typ, ndl_status = ''pending'', ndl_attempts = 1, ndl_last_error = ''x'',
     ndl_next_retry_at = Some 4\<rparr>"

definition demo_notif :: notif where
  "demo_notif = \<lparr>ID = ''n1'', CreatedAt = 1, UpdatedAt = 1, ntf_user_id = ''u1'',
     ntf_type = ''job_failure'', ntf_title = ''t'', ntf_body = ''b'', ntf_read_at = None,
     ntf_payload = ''{}''\<rparr>"

definition demo_queue :: nstate where
  "demo_queue = \<lparr>ns_store = empty_store\<lparr>notifications := [demo_notif],
       deliveries := [demo_delivery ''d1'' ''webhook'', demo_delivery ''d2'' ''email'']\<rparr>,
     ns_hub = NewHub (\<lambda>_. []), ns_out = []\<rparr>"

lemma demo_queue_sound: "queue_sound (ns_store demo_queue)"
  by (simp add: queue_sound_def delivery_sound_def demo_queue_def empty_store_def demo_delivery_def
      demo_notif_def has_id_def)

theorem processDeliveries_round_witness:
  "list_all2 (\<lambda>d d'. if d \<in> set (round_of 5 (ns_store demo_queue)) then retried_by demo_env 5 demo_queue d d' else d' = d)
     (deliveries (ns_store demo_queue))
     (deliveries (ns_store (processDeliveries demo_env 5 demo_queue))) \<and>
   round_of 5 (ns_store demo_queue) = deliveries (ns_store demo_queue)"
  using processDeliveries_round[OF demo_queue_sound, of 5 demo_env]
  by (simp add: round_of_def sql_page_def delivery_due_def demo_queue_def demo_delivery_def empty_store_def)

text \<open>An email delivery that is retried while no recipients are configured is marked as sent although
nothing is put on the network: the retrier, unlike the first attempt, does not fall back to the
administrators.\<close>

theorem retry_email_without_recipients:
  assumes "queue_sound (ns_store n)" "d \<in> set (deliveries (ns_store n))"
    and "ndl_type d = ''email''" "fst (configuredRecipients (ns_store n)) = []"
  shows "ns_out (retryDelivery env now d n) = ns_out n \<and>
    (\<exists>d'\<in>set (deliveries (ns_store (retryDelivery env now d n))).
       ID d' = ID d \<and> ndl_status d' = ''sent'')"
proof -
  let ?s = "ns_store n"
  let ?d = "retry_outcome now (Inr ()) d"
  have q: "faults ?s = []" "delivery_sound ?s d"
    using assms by (auto simp: queue_sound_def list_all_iff)
  obtain x where x: "notif_GetByID (ndl_notification_id d) ?s = (Inr x, ?s)"
    using first_exists[OF q(1)] q(2) by (auto simp: notif_GetByID_def delivery_sound_def)
  have "configuredRecipients ?s = ([], ?s)"
    using assms(4) configuredRecipients_unchanged[OF q(1)] by (metis prod.collapse)
  then have r: "retry_send env now d x n = (Some (Inr ()), n)"
    using assms(3) by (simp add: retry_send_def email_Send_def)
  have "delivery_check ?s (?d\<lparr>UpdatedAt := now\<rparr>) = None"
    using q(2) by (simp add: delivery_check_def delivery_sound_def retry_outcome_def Let_def)
  then have upd: "snd (notif_UpdateDelivery now ?d ?s) =
      deliveries_update (update_where (\<lambda>q. ID q = ID d) (\<lambda>_. ?d\<lparr>UpdatedAt := now\<rparr>)) ?s"
    using UpdateDelivery_working[OF q(1), of ?d now] assms(2) by (auto simp: retry_outcome_def Let_def)
  have "?d\<lparr>UpdatedAt := now\<rparr> \<in> set (update_where (\<lambda>q. ID q = ID d) (\<lambda>_. ?d\<lparr>UpdatedAt := now\<rparr>) (deliveries ?s))"
    using assms(2) by (auto simp: set_update_where)
  then show ?thesis
    using x r upd
    by (auto simp: retryDelivery_def retry_outcome_def Let_def intro!: bexI[of _ "?d\<lparr>UpdatedAt := now\<rparr>"])
qed

theorem retry_email_without_recipients_witness:
  "\<exists>d'\<in>set (deliveries (ns_store (retryDelivery demo_env 5 (demo_delivery ''d2'' ''email'') demo_queue))).
     ID d' = ID (demo_delivery ''d2'' ''email'') \<and> ndl_status d' = ''sent''"
proof -
  have "fst (configuredRecipients (ns_store demo_queue)) = []"
    by (simp add: configuredRecipients_def settings_GetMany_def db_find_def demo_queue_def empty_store_def)
  moreover have "demo_delivery ''d2'' ''email'' \<in> set (deliveries (ns_store demo_queue))"
    by (simp add: demo_queue_def)
  ultimately show ?thesis
    using retry_email_without_recipients[OF demo_queue_sound, of "demo_delivery ''d2'' ''email''" demo_env 5]
    by (simp add: demo_delivery_def)
qed

end
