(* ===== verification/Settling.thy ===== *)
theory Settling
  imports NotificationProofs "HOL-Library.Sublist"
begin

text \<open>The retrier comes to an end with every delivery: the queue drains.\<close>

section \<open>What is left to do\<close>

text \<open>The attempts a pending delivery may still take.\<close>

definition attempts_left :: "delivery \<Rightarrow> nat" where
  "attempts_left d = (if ndl_status d = ''pending'' then Suc (nat (2 - ndl_attempts d)) else 0)"

definition pending_rows :: "store \<Rightarrow> delivery list" where
  "pending_rows s = filter (\<lambda>d. ndl_status d = ''pending'') (deliveries s)"

definition work_left :: "store \<Rightarrow> nat" where
  "work_left s = sum_list (map attempts_left (deliveries s))"

definition all_due :: "time \<Rightarrow> store \<Rightarrow> bool" where
  "all_due t s = list_all (\<lambda>d. ndl_status d = ''pending'' \<longrightarrow> delivery_due t d) (deliveries s)"

lemma retried_left: "retried now d d' \<Longrightarrow> attempts_left d' \<le> attempts_left d - 1"
  by (auto simp: retried_def attempts_left_def)

lemma retried_due:
  "retried now d d' \<Longrightarrow> now + 30 * minute \<le> t \<Longrightarrow> ndl_status d' = ''pending'' \<Longrightarrow> delivery_due t d'"
  by (auto simp: retried_def delivery_due_def)

lemma settled_iff: "attempts_left d = 0 \<longleftrightarrow> ndl_status d \<noteq> ''pending''"
  by (simp add: attempts_left_def)

section \<open>One round\<close>

lemma work_of_round:
  assumes "list_all2 (\<lambda>d d'. if d \<in> R then retried now d d' else d' = d) ds ds'"
    and "list_all (\<lambda>d. d \<in> R \<longrightarrow> ndl_status d = ''pending'') ds"
  shows "sum_list (map attempts_left ds') + length (filter (\<lambda>d. d \<in> R) ds) \<le> sum_list (map attempts_left ds) \<and>
    length (filter (\<lambda>d. ndl_status d = ''pending'') ds') \<le> length (filter (\<lambda>d. ndl_status d = ''pending'') ds)"
  using assms
proof (induction rule: list_all2_induct)
  case (Cons d ds d' ds')
  have "attempts_left d' + (if d \<in> R then 1 else 0) \<le> attempts_left d"
    using Cons retried_left[of now d d'] by (auto simp: attempts_left_def split: if_splits)
  moreover have "ndl_status d' = ''pending'' \<Longrightarrow> ndl_status d = ''pending''"
    using Cons by (auto split: if_splits)
  moreover have "sum_list (map attempts_left ds') + length (filter (\<lambda>d. d \<in> R) ds) \<le> sum_list (map attempts_left ds) \<and>
      length (filter (\<lambda>d. ndl_status d = ''pending'') ds') \<le> length (filter (\<lambda>d. ndl_status d = ''pending'') ds)"
    using Cons by simp
  ultimately show ?case by auto
qed simp

lemma list_all2_image: "list_all2 S xs ys \<Longrightarrow> (\<And>x y. x \<in> set xs \<Longrightarrow> S x y \<Longrightarrow> Q y) \<Longrightarrow> list_all Q ys"
  by (induction rule: list_all2_induct) auto

lemma round_members: "set (round_of t s) \<subseteq> set (deliveries s)" "d \<in> set (round_of t s) \<Longrightarrow> delivery_due t d"
  using sql_page_subset[of 100 0 "sort_key CreatedAt (filter (delivery_due t) (deliveries s))"]
  by (auto simp: round_of_def)

lemma due_pending: "delivery_due t d \<Longrightarrow> ndl_status d = ''pending''"
  by (simp add: delivery_due_def)

lemma round_size:
  assumes "distinct (map ID (deliveries s))"
  shows "length (filter (\<lambda>d. d \<in> set (round_of t s)) (deliveries s)) =
    min 100 (length (filter (delivery_due t) (deliveries s)))"
proof -
  have d: "distinct (deliveries s)" using assms by (simp add: distinct_map)
  then have "distinct (round_of t s)" by (simp add: round_of_def sql_page_def)
  then have "card (set (round_of t s)) = length (round_of t s)" by (rule distinct_card)
  moreover have "length (filter (\<lambda>d. d \<in> set (round_of t s)) (deliveries s)) = card (set (round_of t s) \<inter> set (deliveries s))"
    using distinct_length_filter[OF d, of "\<lambda>d. d \<in> set (round_of t s)"] by simp
  moreover have "set (round_of t s) \<inter> set (deliveries s) = set (round_of t s)"
    using round_members(1) by blast
  ultimately show ?thesis by (simp add: round_of_def sql_page_def)
qed

lemma all_due_later: "all_due t s \<Longrightarrow> t \<le> u \<Longrightarrow> all_due u s"
  by (auto simp: all_due_def list_all_iff delivery_due_def split: option.splits)

text \<open>A round takes something off the work as soon as one row is due, and leaves the rest due in half an hour.\<close>

lemma processDeliveries_progress:
  fixes env :: notif_env and t :: time and n :: nstate
  assumes "queue_sound (ns_store n)" "all_due b (ns_store n)"
  defines "n' \<equiv> processDeliveries env t n"
  shows "queue_sound (ns_store n')" "all_due (max b (t + 30 * minute)) (ns_store n')"
    and "work_left (ns_store n') + min 100 (length (filter (delivery_due t) (deliveries (ns_store n)))) \<le> work_left (ns_store n)"
proof -
  let ?ds = "deliveries (ns_store n)" and ?R = "set (round_of t (ns_store n))" and ?b = "max b (t + 30 * minute)"
  have all: "queue_sound (ns_store n')"
    "list_all2 (\<lambda>d d'. if d \<in> ?R then retried t d d' else d' = d) ?ds (deliveries (ns_store n'))"
    using processDeliveries_sound[OF assms(1), of env t] by (simp_all add: n'_def)
  then show "queue_sound (ns_store n')" by simp
  have ids: "distinct (map ID ?ds)" using assms(1) by (simp add: queue_sound_def)
  have pend: "list_all (\<lambda>d. d \<in> ?R \<longrightarrow> ndl_status d = ''pending'') ?ds"
    using round_members(2) due_pending unfolding list_all_iff by blast
  show "work_left (ns_store n') + min 100 (length (filter (delivery_due t) ?ds)) \<le> work_left (ns_store n)"
    using work_of_round[OF all(2) pend] round_size[OF ids] by (simp add: work_left_def)
  have late: "ndl_status d = ''pending'' \<longrightarrow> delivery_due ?b d" if "d \<in> set ?ds" for d
    using all_due_later[OF assms(2), of ?b] that by (simp add: all_due_def list_all_iff)
  show "all_due ?b (ns_store n')" unfolding all_due_def
  proof (rule list_all2_image[OF all(2)])
    show "ndl_status d' = ''pending'' \<longrightarrow> delivery_due ?b d'"
      if "d \<in> set ?ds" "if d \<in> ?R then retried t d d' else d' = d" for d d'
      using that late[OF that(1)] retried_due[of t d d' ?b] by (auto split: if_splits)
  qed
qed

text \<open>A round that finds nothing due changes no row.\<close>

lemma idle_round:
  assumes "queue_sound (ns_store n)" "filter (delivery_due t) (deliveries (ns_store n)) = []"
  shows "deliveries (ns_store (processDeliveries env t n)) = deliveries (ns_store n)"
proof -
  have "round_of t (ns_store n) = []" using assms(2) by (simp add: round_of_def sql_page_def)
  with processDeliveries_sound[OF assms(1), of env t] show ?thesis
    by (simp add: list_all2_eq[symmetric] list.rel_eq eq_commute[of _ "_ :: delivery"])
qed

section \<open>Rounds\<close>

text \<open>The retrier at the times of its ticker.\<close>

definition retrier :: "notif_env \<Rightarrow> time list \<Rightarrow> nstate \<Rightarrow> nstate" where
  "retrier env ts n = fold (processDeliveries env) ts n"

text \<open>Times half an hour apart or more, none before \<open>t\<close>.\<close>

fun spaced :: "time \<Rightarrow> time list \<Rightarrow> bool" where
  "spaced t [] = True"
| "spaced t (u # us) = (t \<le> u \<and> spaced (u + 30 * minute) us)"

lemma spaced_earlier: "spaced t us \<Longrightarrow> t' \<le> t \<Longrightarrow> spaced t' us"
  by (cases us) auto

lemma minute_pos: "0 < (30 * minute :: time)"
  by (simp add: minute_def second_def)

lemma idle_is_early:
  assumes "all_due b s" "work_left s \<noteq> 0" "filter (delivery_due u) (deliveries s) = []"
  shows "u < b"
proof (rule ccontr)
  assume "\<not> u < b"
  then have "all_due u s" using assms(1) all_due_later by simp
  with assms(3) have "\<forall>d\<in>set (deliveries s). ndl_status d \<noteq> ''pending''"
    by (auto simp: all_due_def list_all_iff filter_empty_conv)
  with assms(2) show False by (simp add: work_left_def attempts_left_def)
qed

lemma spaced_after_head:
  assumes "sorted (u # us)" "subseq (c # cs) (u # us)" "spaced b (c # cs)"
  shows "spaced (max b (u + 30 * minute)) cs"
proof -
  have "subseq [c] (c # cs)" by simp
  then have "subseq [c] (u # us)" using assms(2) by (rule subseq_order.order_trans)
  then have "c \<in> set (u # us)" by (simp only: subseq_singleton_left)
  then have "u \<le> c" using assms(1) by auto
  with assms(3) show ?thesis using spaced_earlier[of "c + 30 * minute" cs] minute_pos by simp
qed

lemma retrier_settles:
  assumes "queue_sound (ns_store n)" "all_due b (ns_store n)" "sorted ts" "subseq cs ts" "spaced b cs"
    and "work_left (ns_store n) \<le> length cs"
  shows "work_left (ns_store (retrier env ts n)) = 0"
  using assms
proof (induction ts arbitrary: n b cs)
  case (Cons u us)
  let ?n = "processDeliveries env u n" and ?due = "filter (delivery_due u) (deliveries (ns_store n))"
  note p = processDeliveries_progress[OF Cons.prems(1,2), where env = env and t = u]
  have sorted: "sorted us" using Cons.prems(3) by simp
  have "work_left (ns_store (retrier env us ?n)) = 0"
  proof (cases "?due = []")
    case True
    note same = idle_round[OF Cons.prems(1) True, of env]
    show ?thesis
    proof (cases "work_left (ns_store n) = 0")
      case True
      then show ?thesis
        using same Cons.IH[OF p(1,2) sorted, of "[]"] by (simp add: work_left_def)
    next
      case False
      then obtain c cs' where cs: "cs = c # cs'" using Cons.prems(6) by (cases cs) auto
      have "u < b" using idle_is_early[OF Cons.prems(2) False True] .
      with Cons.prems(4,5) cs have "subseq cs us" by auto
      moreover have "all_due b (ns_store ?n)" using Cons.prems(2) same by (simp add: all_due_def)
      moreover have "work_left (ns_store ?n) \<le> length cs" using Cons.prems(6) same by (simp add: work_left_def)
      ultimately show ?thesis using Cons.IH[OF p(1) _ sorted] Cons.prems(5) by blast
    qed
  next
    case False
    then have less: "work_left (ns_store ?n) < work_left (ns_store n)" using p(3) by (cases ?due) auto
    then obtain c cs' where cs: "cs = c # cs'" using Cons.prems(6) by (cases cs) auto
    have "subseq cs' us"
      using Cons.prems(4) unfolding cs by (auto dest: subseq_Cons' split: if_splits)
    moreover have "spaced (max b (u + 30 * minute)) cs'"
      using spaced_after_head Cons.prems(3-5) unfolding cs by blast
    moreover have "work_left (ns_store ?n) \<le> length cs'" using less Cons.prems(6) cs by simp
    ultimately show ?thesis by (rule Cons.IH[OF p(1,2) sorted])
  qed
  then show ?case by (simp add: retrier_def)
next
  case Nil
  then have "cs = []" by (cases cs) auto
  with Nil show ?case by (simp add: retrier_def)
qed

lemma retrier_rows:
  assumes "queue_sound (ns_store n)"
  shows "queue_sound (ns_store (retrier env ts n)) \<and>
    map ID (deliveries (ns_store (retrier env ts n))) = map ID (deliveries (ns_store n))"
  using assms
proof (induction ts arbitrary: n)
  case (Cons u us)
  note r = processDeliveries_sound[OF Cons.prems, of env u]
  have "map ID (deliveries (ns_store n)) = map ID (deliveries (ns_store (processDeliveries env u n)))"
    using r by (auto simp: list_all2_conv_all_nth retried_def intro!: nth_equalityI split: if_splits)
  with Cons.IH[of "processDeliveries env u n"] r show ?case by (simp add: retrier_def)
qed (simp add: retrier_def)

lemma work_left_bound:
  assumes "queue_sound s" shows "work_left s \<le> 3 * length (pending_rows s)"
proof -
  have "list_all (\<lambda>d. 0 \<le> ndl_attempts d) ds \<Longrightarrow>
      sum_list (map attempts_left ds) \<le> 3 * length (filter (\<lambda>d. ndl_status d = ''pending'') ds)" for ds
    by (induction ds) (auto simp: attempts_left_def)
  then show ?thesis
    using assms by (simp add: work_left_def pending_rows_def queue_sound_def delivery_sound_def list_all_iff)
qed

text \<open>C11: every delivery is settled.  On a working database, whatever the network answers, each row of the queue ends up
sent or given up: it is enough that the retrier's rounds, at whatever times they come, include as many rounds half an hour
or more apart as there are attempts left, at most three per pending row.  No row is lost or added.\<close>

theorem deliveries_settle:
  assumes "queue_sound (ns_store n)" "all_due t (ns_store n)" "sorted ts" "subseq us ts" "spaced t us"
    and "3 * length (pending_rows (ns_store n)) \<le> length us"
  shows "list_all (\<lambda>d. ndl_status d = ''sent'' \<or> ndl_status d = ''exhausted'') (deliveries (ns_store (retrier env ts n))) \<and>
    map ID (deliveries (ns_store (retrier env ts n))) = map ID (deliveries (ns_store n))"
proof -
  have "work_left (ns_store n) \<le> length us"
    using work_left_bound[OF assms(1)] assms(6) by simp
  then have "work_left (ns_store (retrier env ts n)) = 0" by (rule retrier_settles[OF assms(1-5)])
  then have "list_all (\<lambda>d. ndl_status d \<noteq> ''pending'') (deliveries (ns_store (retrier env ts n)))"
    by (simp add: work_left_def list_all_iff settled_iff)
  then show ?thesis
    using retrier_rows[OF assms(1), of env ts]
    by (auto simp: queue_sound_def delivery_sound_def list_all_iff)
qed

text \<open>Two rows, a network that fails always, and a tick every ten minutes.\<close>

definition demo_ticks :: "time list" where
  "demo_ticks = map (\<lambda>i. 5 + int i * (10 * minute)) [0..<16]"

definition demo_half_hours :: "time list" where
  "demo_half_hours = map (\<lambda>i. 5 + int i * (30 * minute)) [0..<6]"

theorem deliveries_settle_witness:
  "list_all (\<lambda>d. ndl_status d = ''sent'' \<or> ndl_status d = ''exhausted'')
     (deliveries (ns_store (retrier demo_env demo_ticks demo_queue))) \<and>
   length (deliveries (ns_store (retrier demo_env demo_ticks demo_queue))) = 2"
proof -
  have "all_due 5 (ns_store demo_queue)"
    by (simp add: all_due_def delivery_due_def demo_queue_def demo_delivery_def)
  moreover have "spaced 5 demo_half_hours" "sorted demo_ticks" "subseq demo_half_hours demo_ticks"
    by (simp_all add: demo_half_hours_def demo_ticks_def minute_def second_def upt_rec)
  moreover have "length (pending_rows (ns_store demo_queue)) = 2" "length demo_half_hours = 6"
    by (simp_all add: pending_rows_def demo_queue_def demo_delivery_def demo_half_hours_def)
  ultimately have "list_all (\<lambda>d. ndl_status d = ''sent'' \<or> ndl_status d = ''exhausted'')
        (deliveries (ns_store (retrier demo_env demo_ticks demo_queue))) \<and>
      map ID (deliveries (ns_store (retrier demo_env demo_ticks demo_queue))) = map ID (deliveries (ns_store demo_queue))"
    using deliveries_settle[OF demo_queue_sound, of 5 demo_ticks demo_half_hours demo_env] by simp
  moreover have "map ID (deliveries (ns_store demo_queue)) = [''d1'', ''d2'']"
    by (simp add: demo_queue_def demo_delivery_def)
  ultimately show ?thesis by (auto simp: map_eq_Cons_conv)
qed

end
