(* ===== verification/JsonFuel.thy ===== *)
theory JsonFuel
  imports Api
begin

text \<open>The JSON scanner comes to an end on every text: the fuel it is given is never what stops it.\<close>

section \<open>Every value takes a character\<close>

lemma skip_ws_length: "length (skip_ws s) \<le> length s"
  by (induction s rule: skip_ws.induct) auto

lemma json_str_length: "json_str s = Some (t, r) \<Longrightarrow> length r < length s"
proof (induction s arbitrary: t r rule: json_str.induct)
  case (2 c cs)
  consider "c = CHR 0x22" | e u where "c = CHR 0x5C" "json_escape cs = Some (e, u)" | "c \<noteq> CHR 0x22" "c \<noteq> CHR 0x5C"
    using "2.prems" by (auto split: if_splits option.splits)
  then show ?case
  proof cases
    case (2 e u)
    with "2.prems" obtain t' where "json_str u = Some (t', r)" by (auto split: option.splits)
    with "2.IH"(1)[of "(e, u)" e u] 2 have "length r < length u" by simp
    with json_escape_length[OF 2(2)] show ?thesis by simp
  qed (use 2 in \<open>auto split: if_splits option.splits\<close>)
qed simp

lemma num_ok_Nil [simp]: "\<not> num_ok []"
  by (simp add: num_ok_def)

lemma json_num_length: "json_num s = Some (v, r) \<Longrightarrow> length r < length s"
  by (cases s) (auto simp: json_num_def Let_def length_dropWhile_le le_imp_less_Suc split: if_splits)

lemma starts_with_length: "starts_with w s \<Longrightarrow> length w \<le> length s"
  by (induction w s rule: starts_with.induct) auto

lemma json_lit_length: "json_lit w v s = Some (x, r) \<Longrightarrow> w \<noteq> [] \<Longrightarrow> length r < length s"
  using starts_with_length[of w s] by (cases w) (auto simp: json_lit_def split: if_splits)

lemmas shrinks = skip_ws_length json_str_length json_num_length json_lit_length

lemma skip_ws_Cons: "skip_ws s = c # cs \<Longrightarrow> length cs < length s"
  using skip_ws_length[of s] by simp

lemma scanner_length:
  "json_value n s = Some (v, r) \<Longrightarrow> length r < length s"
  "json_array n s = Some (vs, r) \<Longrightarrow> length r < length s"
  "json_object n s = Some (kvs, r) \<Longrightarrow> length r < length s"
proof (induction n s and n s and n s arbitrary: v r and vs r and kvs r
    rule: json_value_json_array_json_object.induct)
  case (2 n s)
  then show ?case
    by (fastforce split: list.splits if_splits option.splits
        dest: skip_ws_Cons json_str_length json_lit_length json_num_length)
next
  case (4 n s)
  then show ?case by (fastforce split: list.splits if_splits option.splits dest: skip_ws_Cons)
next
  case (6 n s)
  then show ?case by (fastforce split: list.splits if_splits option.splits dest: skip_ws_Cons json_str_length)
qed simp_all

section \<open>More fuel changes nothing\<close>

lemma scanner_step:
  "(2 * length s + 1 \<le> n \<longrightarrow> json_value (Suc n) s = json_value n s) \<and>
   (2 * length s + 2 \<le> n \<longrightarrow> json_array (Suc n) s = json_array n s) \<and>
   (2 * length s + 2 \<le> n \<longrightarrow> json_object (Suc n) s = json_object n s)"
proof (induction n arbitrary: s)
  case (Suc n)
  have val: "json_value (Suc n) t = json_value n t" if "2 * length t + 1 \<le> n" for t using Suc that by blast
  have arr: "json_array (Suc n) t = json_array n t" if "2 * length t + 2 \<le> n" for t using Suc that by blast
  have obj: "json_object (Suc n) t = json_object n t" if "2 * length t + 2 \<le> n" for t using Suc that by blast
  have "json_value (Suc (Suc n)) s = json_value (Suc n) s" if "2 * length s + 1 \<le> Suc n"
  proof -
    have "json_array (Suc n) ds = json_array n ds" "json_object (Suc n) ds = json_object n ds"
      if "skip_ws s = c # cs" "skip_ws cs = ds" for c cs ds
      using \<open>2 * length s + 1 \<le> Suc n\<close> skip_ws_Cons[OF that(1)] skip_ws_length[of cs] that(2)
      by (auto intro!: arr obj simp del: json_array.simps json_object.simps)
    then show ?thesis
      unfolding json_value.simps(2)[of "Suc n" s] json_value.simps(2)[of n s] by (auto simp del: json_array.simps json_object.simps split: list.split)
  qed
  moreover have "json_array (Suc (Suc n)) s = json_array (Suc n) s" if enough: "2 * length s + 2 \<le> Suc n"
  proof -
    have "json_array (Suc n) cs = json_array n cs" if "json_value n s = Some (v, r)" "skip_ws r = c # cs" for v r c cs
      using enough scanner_length(1)[OF that(1)] skip_ws_Cons[OF that(2)] by (intro arr) simp
    moreover have "json_value (Suc n) s = json_value n s" using enough by (intro val) simp
    ultimately show ?thesis
      unfolding json_array.simps(2)[of "Suc n" s] json_array.simps(2)[of n s]
      by (auto simp del: json_array.simps json_value.simps split: list.split option.split)
  qed
  moreover have "json_object (Suc (Suc n)) s = json_object (Suc n) s" if enough: "2 * length s + 2 \<le> Suc n"
  proof -
    have after_key: "length cs + 2 \<le> length s" if "skip_ws s = q # qs" "json_str qs = Some (k, r)" "skip_ws r = c # cs" for q qs k r c cs
      using skip_ws_Cons[OF that(1)] json_str_length[OF that(2)] skip_ws_Cons[OF that(3)] by simp
    then have v: "json_value (Suc n) cs = json_value n cs"
      if "skip_ws s = q # qs" "json_str qs = Some (k, r)" "skip_ws r = c # cs" for q qs k r c cs
      using that enough by (intro val) fastforce
    have o: "json_object (Suc n) es = json_object n es"
      if "skip_ws s = q # qs" "json_str qs = Some (k, r)" "skip_ws r = c # cs"
        "json_value n cs = Some (w, r2)" "skip_ws r2 = e # es" for q qs k r c cs w r2 e es
      using after_key[OF that(1-3)] scanner_length(1)[OF that(4)] skip_ws_Cons[OF that(5)] enough
      by (intro obj) simp
    show ?thesis
      unfolding json_object.simps(2)[of "Suc n" s] json_object.simps(2)[of n s]
      by (auto simp: v o simp del: json_object.simps json_value.simps split: list.split option.split)
  qed
  ultimately show ?case by blast
qed simp

text \<open>The scanner of JSON terminates on every text.  The fuel with which a request body, a stored setting or an answer
of another process is read is enough for every byte string, however deeply nested or malformed: with any more fuel
the outcome, a value or an error, is the same.\<close>

theorem scanner_terminates:
  "json_value (2 * length s + 2 + k) s = json_value (2 * length s + 2) s"
proof (induction k)
  case (Suc k)
  have "json_value (Suc (2 * length s + 2 + k)) s = json_value (2 * length s + 2 + k) s"
    using scanner_step[of s "2 * length s + 2 + k"] by simp
  with Suc show ?case by simp
qed simp

end
