(* ===== verification/Encryption.thy ===== *)
theory Encryption
  imports Prelude
begin

text \<open>The transparent encryption of sensitive columns (\<open>db/encrypt.go\<close>).  AES-256-GCM is a parameter: sealing and
opening under a key and a nonce; the 12 bytes of its nonce and the standard base64 encoding are modelled.  A byte is
a \<open>char\<close>.\<close>

section \<open>Standard base64\<close>

definition b64_alphabet :: string where
  "b64_alphabet = ''ABCDEFGHIJKLMNOPQRSTUVWXYZabcdefghijklmnopqrstuvwxyz0123456789+/''"

definition b64_digit :: "nat \<Rightarrow> char" where
  "b64_digit n = b64_alphabet ! n"

definition b64_index :: "char \<Rightarrow> nat option" where
  "b64_index c =
     (let i = length (takeWhile (\<lambda>d. d \<noteq> c) b64_alphabet) in if i < length b64_alphabet then Some i else None)"

definition byte :: "char \<Rightarrow> nat" where "byte c = of_char c"

fun EncodeToString :: "string \<Rightarrow> string" where
  "EncodeToString [] = []"
| "EncodeToString [a] = [b64_digit (byte a div 4), b64_digit (byte a mod 4 * 16), CHR ''='', CHR ''='']"
| "EncodeToString [a, b] =
     [b64_digit (byte a div 4), b64_digit (byte a mod 4 * 16 + byte b div 16),
      b64_digit (byte b mod 16 * 4), CHR ''='']"
| "EncodeToString (a # b # c # rest) =
     b64_digit (byte a div 4) # b64_digit (byte a mod 4 * 16 + byte b div 16) #
     b64_digit (byte b mod 16 * 4 + byte c div 64) # b64_digit (byte c mod 64) # EncodeToString rest"

text \<open>The last group may be padded; the bits that padding leaves over are not looked at.\<close>

fun decode_groups :: "string \<Rightarrow> string option" where
  "decode_groups [] = Some []"
| "decode_groups (a # b # c # d # rest) =
     (case (b64_index a, b64_index b) of
        (Some i, Some j) \<Rightarrow>
          if c = CHR ''='' then (if d = CHR ''='' \<and> rest = [] then Some [char_of (i * 4 + j div 16)] else None)
          else (case b64_index c of
                  None \<Rightarrow> None
                | Some k \<Rightarrow>
                    if d = CHR ''=''
                    then (if rest = [] then Some [char_of (i * 4 + j div 16), char_of (j mod 16 * 16 + k div 4)]
                          else None)
                    else (case (b64_index d, decode_groups rest) of
                            (Some l, Some bs) \<Rightarrow>
                              Some (char_of (i * 4 + j div 16) # char_of (j mod 16 * 16 + k div 4) #
                                    char_of (k mod 4 * 64 + l) # bs)
                          | _ \<Rightarrow> None))
      | _ \<Rightarrow> None)"
| "decode_groups _ = None"

text \<open>Line breaks are skipped.\<close>

definition DecodeString :: "string \<Rightarrow> string option" where
  "DecodeString s = decode_groups (filter (\<lambda>c. c \<noteq> CHR 0x0A \<and> c \<noteq> CHR 0x0D) s)"

section \<open>Encrypted columns\<close>

record gcm =
  gcm_seal :: "string \<Rightarrow> string \<Rightarrow> string \<Rightarrow> string"
  gcm_open :: "string \<Rightarrow> string \<Rightarrow> string \<Rightarrow> string option"

definition nonceSize :: nat where "nonceSize = 12"

datatype enc_error = KeyLength nat | NoKey | NonceError | NotText | BadBase64 | TooShort | DecryptError

text \<open>The key of the process: \<open>None\<close> until \<open>InitEncryption\<close> succeeds.\<close>

definition InitEncryption :: "string \<Rightarrow> string option \<Rightarrow> (enc_error + unit) \<times> string option" where
  "InitEncryption key k =
     (if length key \<noteq> 32 then (Inl (KeyLength (length key)), k) else (Inr (), Some key))"

text \<open>\<open>nonce\<close> is what the random source delivered, \<open>None\<close> when it failed.\<close>

definition encrypted_Value :: "gcm \<Rightarrow> string option \<Rightarrow> string option \<Rightarrow> string \<Rightarrow> enc_error + string" where
  "encrypted_Value g key nonce e =
     (if e = [] then Inr []
      else (case key of
              None \<Rightarrow> Inl NoKey
            | Some k \<Rightarrow>
                (case nonce of
                   None \<Rightarrow> Inl NonceError
                 | Some n \<Rightarrow> Inr (EncodeToString (n @ gcm_seal g k n e)))))"

text \<open>What the driver hands over.\<close>

datatype column_value = ColumnNull | ColumnText string | ColumnOther

definition encrypted_Scan :: "gcm \<Rightarrow> string option \<Rightarrow> column_value \<Rightarrow> enc_error + string" where
  "encrypted_Scan g key v =
     (case v of
        ColumnNull \<Rightarrow> Inr []
      | ColumnOther \<Rightarrow> Inl NotText
      | ColumnText s \<Rightarrow>
          if s = [] then Inr []
          else (case key of
                  None \<Rightarrow> Inl NoKey
                | Some k \<Rightarrow>
                    (case DecodeString s of
                       None \<Rightarrow> Inl BadBase64
                     | Some bytes \<Rightarrow>
                         if length bytes < nonceSize then Inl TooShort
                         else (case gcm_open g k (take nonceSize bytes) (drop nonceSize bytes) of
                                 None \<Rightarrow> Inl DecryptError
                               | Some p \<Rightarrow> Inr p))))"

section \<open>Decoding what was encoded\<close>

lemma byte_less [simp]: "byte c < 256"
  by (simp add: byte_def)

lemma char_of_byte [simp]: "char_of (byte c) = c"
  by (simp add: byte_def)

lemma b64_digits: "list_all (\<lambda>n. b64_index (b64_digit n) = Some n \<and> b64_digit n \<noteq> CHR ''='' \<and>
    b64_digit n \<noteq> CHR 0x0A \<and> b64_digit n \<noteq> CHR 0x0D) [0..<64]"
  by code_simp

lemma b64_digit_facts [simp]:
  assumes "n < 64"
  shows "b64_index (b64_digit n) = Some n" "b64_digit n \<noteq> CHR ''=''"
    "b64_digit n \<noteq> CHR 0x0A" "b64_digit n \<noteq> CHR 0x0D"
  using b64_digits assms by (simp_all add: list_all_iff)

lemma b64_ranges [simp]:
  "byte a div 4 < 64" "byte a mod 4 * 16 < 64" "byte a mod 4 * 16 + byte b div 16 < 64"
  "byte b mod 16 * 4 < 64" "byte b mod 16 * 4 + byte c div 64 < 64" "byte c mod 64 < 64"
  using byte_less[of a] byte_less[of b] byte_less[of c] by linarith+

lemma b64_first: "byte a div 4 * 4 + (byte a mod 4 * 16 + byte b div 16) div 16 = byte a"
  using byte_less[of b] by (simp add: div_mult_mod_eq less_mult_imp_div_less)

lemma b64_second: "(byte a mod 4 * 16 + byte b div 16) mod 16 * 16 + (byte b mod 16 * 4 + byte c div 64) div 4 = byte b"
  using byte_less[of b] byte_less[of c] by (simp add: less_mult_imp_div_less)

lemma b64_third: "(byte b mod 16 * 4 + byte c div 64) mod 4 * 64 + byte c mod 64 = byte c"
  using byte_less[of c] by (simp add: less_mult_imp_div_less)

lemma decode_groups_encode: "decode_groups (EncodeToString bs) = Some bs"
proof (induction bs rule: EncodeToString.induct)
  case (2 a)
  show ?case using byte_less[of a] by (simp add: less_mult_imp_div_less)
next
  case (3 a b)
  show ?case using b64_first[of a b] byte_less[of b] by (simp add: less_mult_imp_div_less)
next
  case (4 a b c rest)
  then show ?case using b64_first[of a b] b64_second[of a b c] b64_third[of b c] by simp
qed simp

lemma encode_no_breaks: "c \<in> set (EncodeToString bs) \<Longrightarrow> c \<noteq> CHR 0x0A \<and> c \<noteq> CHR 0x0D"
  by (induction bs rule: EncodeToString.induct) auto

theorem DecodeString_EncodeToString: "DecodeString (EncodeToString bs) = Some bs"
proof -
  have "filter (\<lambda>c. c \<noteq> CHR 0x0A \<and> c \<noteq> CHR 0x0D) (EncodeToString bs) = EncodeToString bs"
    by (rule filter_True) (use encode_no_breaks in blast)
  then show ?thesis by (simp add: DecodeString_def decode_groups_encode)
qed

lemma EncodeToString_Nil: "EncodeToString bs = [] \<longleftrightarrow> bs = []"
  by (cases bs rule: EncodeToString.cases) simp_all

text \<open>C34: a value written to an encrypted column is read back, whatever the key, the nonce and the value: writing
succeeds once the key is set and the random source delivers, and reading what was written with the same key gives the
value.  The cipher is only relied on to open what it sealed under the same key and nonce.\<close>

theorem encrypted_column_roundtrip:
  assumes "\<And>k n p. gcm_open g k n (gcm_seal g k n p) = Some p"
    and "snd (InitEncryption key k0) = Some key" "length nonce = nonceSize"
  shows "\<exists>stored. encrypted_Value g (Some key) (Some nonce) e = Inr stored \<and>
    encrypted_Scan g (Some key) (ColumnText stored) = Inr e \<and> (stored = [] \<longleftrightarrow> e = [])"
proof (cases "e = []")
  case False
  have "nonce @ gcm_seal g key nonce e \<noteq> []" using assms(3) by (auto simp: nonceSize_def)
  with False assms show ?thesis
    by (simp add: encrypted_Value_def encrypted_Scan_def EncodeToString_Nil DecodeString_EncodeToString)
qed (simp add: encrypted_Value_def encrypted_Scan_def)

text \<open>A cipher that opens what it sealed.\<close>

definition demo_gcm :: gcm where
  "demo_gcm = \<lparr>gcm_seal = (\<lambda>k n p. rev p @ take 4 k), gcm_open = (\<lambda>k n c.
     if 4 \<le> length k \<and> 4 \<le> length c \<and> drop (length c - 4) c = take 4 k then Some (rev (take (length c - 4) c))
     else if length k < 4 then Some (rev (take (length c - length k) c)) else None)\<rparr>"

theorem encrypted_column_roundtrip_witness:
  "\<exists>stored. encrypted_Value demo_gcm (Some (replicate 32 CHR ''k'')) (Some (replicate 12 CHR ''n'')) ''secret'' = Inr stored \<and>
     encrypted_Scan demo_gcm (Some (replicate 32 CHR ''k'')) (ColumnText stored) = Inr ''secret'' \<and> stored \<noteq> []"
proof -
  have law: "gcm_open demo_gcm k n (gcm_seal demo_gcm k n p) = Some p" for k n p
    by (simp add: demo_gcm_def min_def)
  have "\<exists>stored. encrypted_Value demo_gcm (Some (replicate 32 CHR ''k'')) (Some (replicate 12 CHR ''n'')) ''secret'' = Inr stored \<and>
      encrypted_Scan demo_gcm (Some (replicate 32 CHR ''k'')) (ColumnText stored) = Inr ''secret'' \<and>
      (stored = [] \<longleftrightarrow> ''secret'' = [])"
    by (rule encrypted_column_roundtrip[where ?k0.0 = None])
      (simp_all add: law InitEncryption_def nonceSize_def)
  then show ?thesis by simp
qed

end
