(* ===== verification/DashboardProofs.thy ===== *)
theory DashboardProofs
  imports Dashboard Frames
begin

text \<open>The dashboard against a direct reading of the tables: the activity of a day is the number of rows of that
day.\<close>

section \<open>Grouped rows as maps\<close>

lemma distinct_sort_key_fst: "distinct (map fst xs) \<Longrightarrow> distinct (map fst (sort_key f xs))"
  by (simp add: distinct_map)

lemma map_of_sort_key: "distinct (map fst xs) \<Longrightarrow> map_of (sort_key f xs) = map_of xs"
  by (subst map_of_inject_set) (simp_all add: distinct_sort_key_fst)

lemma map_of_group:
  "map_of (map (\<lambda>(k, rs). (k, g rs)) (group_by key xs)) k =
     (if k \<in> key ` set xs then Some (g (filter (\<lambda>r. key r = k) xs)) else None)"
  by (auto simp: group_by_def map_of_map_restrict restrict_map_def comp_def)

lemma distinct_group: "distinct (map fst (map (\<lambda>(k, rs). (k, g rs)) (group_by key xs)))"
  by (simp add: group_by_def comp_def)

lemma map_of_grouped:
  "map_of (sort_key f (map (\<lambda>(k, rs). (k, g rs)) (group_by key xs))) k =
     (if k \<in> key ` set xs then Some (g (filter (\<lambda>r. key r = k) xs)) else None)"
  unfolding map_of_sort_key[OF distinct_group] by (rule map_of_group)

text \<open>A lookup with the zero value as its default sees the aggregate of the empty list for a missing key.\<close>

lemma grouped_default:
  assumes "g [] = z"
  shows "(case map_of (sort_key f (map (\<lambda>(k, rs). (k, g rs)) (group_by key xs))) k of None \<Rightarrow> z | Some n \<Rightarrow> n) =
    g (filter (\<lambda>r. key r = k) xs)"
proof (cases "k \<in> key ` set xs")
  case False
  then have "filter (\<lambda>r. key r = k) xs = []" by (auto simp: filter_empty_conv)
  with False assms show ?thesis by (simp add: map_of_grouped)
qed (simp add: map_of_grouped)

lemma size_map_lookup:
  "distinct (map fst rows) \<Longrightarrow> map_of (fold (\<lambda>(d, n). map_put d n) rows m) d =
     (case map_of rows d of None \<Rightarrow> map_of m d | Some n \<Rightarrow> Some n)"
proof (induction rows arbitrary: m)
  case (Cons r rows)
  obtain e n where "r = (e, n)" by (cases r)
  moreover have "map_of rows e = None" if "r = (e, n)"
    using that Cons.prems by (auto simp: map_of_eq_None_iff)
  ultimately show ?case using Cons by (auto split: option.split)
qed simp

lemma day_counts_put: "day_counts (map_put e c m) d = (if d = e then c else day_counts m d)"
  by (simp add: day_counts_def)

lemma day_counts_Nil [simp]: "day_counts [] d = (0, 0)"
  by (simp add: day_counts_def)

lemma job_map_lookup:
  assumes "distinct (map fst rows)" "\<forall>r\<in>set rows. snd (fst r) \<in> {''succeeded'', ''failed''}"
  shows "day_counts (fold add_job_row rows m) d =
    (case map_of rows (d, ''succeeded'') of None \<Rightarrow> fst (day_counts m d) | Some n \<Rightarrow> n,
     case map_of rows (d, ''failed'') of None \<Rightarrow> snd (day_counts m d) | Some n \<Rightarrow> n)"
  using assms
proof (induction rows arbitrary: m)
  case (Cons r rows)
  obtain e st n where r: "r = ((e, st), n)" by (metis surj_pair)
  have "map_of rows (e, st) = None" using Cons.prems(1) r by (auto simp: map_of_eq_None_iff)
  moreover have "st = ''succeeded'' \<or> st = ''failed''" using Cons.prems(2) r by simp
  ultimately show ?case
    using Cons r by (auto simp: add_job_row_def Let_def day_counts_put split: option.split)
qed simp

section \<open>Days\<close>

definition same_day :: "time \<Rightarrow> time \<Rightarrow> bool" where
  "same_day a b = (a div day_length = b div day_length)"

lemma day_length_pos: "0 < day_length"
  by (simp add: day_length_def hour_def minute_def second_def)

lemma day_start_alt: "day_start t = day_length * (t div day_length)"
  by (simp add: day_start_def minus_mod_eq_mult_div)

lemma same_day_bounds: "same_day a t \<longleftrightarrow> day_start t \<le> a \<and> a < day_start t + day_length"
proof
  assume "same_day a t"
  then have "a = day_start t + a mod day_length"
    by (simp add: same_day_def day_start_alt) (metis mult_div_mod_eq)
  with day_length_pos show "day_start t \<le> a \<and> a < day_start t + day_length"
    by (metis add_left_mono add_strict_left_mono add.right_neutral pos_mod_bound pos_mod_sign)
next
  assume "day_start t \<le> a \<and> a < day_start t + day_length"
  then have "a div day_length = t div day_length"
    by (intro int_div_pos_eq[where r = "a - day_start t"]) (auto simp: day_start_alt)
  then show "same_day a t" by (simp add: same_day_def)
qed

lemma same_day_shift: "same_day a (now - k * day_length) \<longleftrightarrow> same_day (a + k * day_length) now"
proof -
  have "(now - k * day_length) div day_length = now div day_length - k"
    using day_length_pos div_mult_self1[of day_length now "- k"] by (simp add: algebra_simps)
  moreover have "(a + k * day_length) div day_length = a div day_length + k"
    using day_length_pos by simp
  ultimately show ?thesis by (auto simp: same_day_def)
qed

lemma day_start_back: "day_start (now - k * day_length) = day_start now - k * day_length"
  using mod_mult_self1[of now "- k" day_length] by (simp add: day_start_def)

text \<open>A row of one of the seven days is recent enough for the query.\<close>

lemma week_recent:
  assumes "t \<in> set (week_days now)" "same_day a t"
  shows "week_start now \<le> a"
proof -
  obtain i :: nat where "t = now - (6 - int i) * day_length" using assms(1) by (auto simp: week_days_def)
  then obtain k where k: "t = now - k * day_length" "k \<le> 6" using that[of "6 - int i"] by simp
  have "day_start t = day_start now - k * day_length" by (simp add: k(1) day_start_back)
  moreover have "week_start now = day_start now - 6 * day_length" by (simp add: week_start_def day_start_back)
  moreover have "k * day_length \<le> 6 * day_length" using k(2) day_length_pos by simp
  moreover have "day_start t \<le> a" using assms(2) by (simp add: same_day_bounds)
  ultimately show ?thesis by linarith
qed

section \<open>The statistics\<close>

text \<open>The reference: the rows the chart of the week shows for a day are those the database counts as recent enough and
whose day, as the database writes it, is the text of that day in UTC.\<close>

definition in_chart :: "dialect \<Rightarrow> (time \<Rightarrow> string) \<Rightarrow> time \<Rightarrow> time \<Rightarrow> time \<Rightarrow> bool" where
  "in_chart d col now day t = (sql_since d col (week_start now) t \<and> dateColExpr d col t = dl_day d day)"

definition in_today :: "dialect \<Rightarrow> time \<Rightarrow> time \<Rightarrow> bool" where
  "in_today d now t = (sql_since d (dl_created d) (day_start now) t \<and>
     sql_before d (dl_created d) (day_start now + day_length) t)"

definition jobs_charted :: "dialect \<Rightarrow> time \<Rightarrow> string \<Rightarrow> time \<Rightarrow> store \<Rightarrow> nat" where
  "jobs_charted d now st day s =
     count_where (\<lambda>j. job_status j = st \<and> in_chart d (dl_created d) now day (CreatedAt j)) (jobs s)"

definition bytes_charted :: "dialect \<Rightarrow> time \<Rightarrow> time \<Rightarrow> store \<Rightarrow> int" where
  "bytes_charted d now day s =
     sum_list (map snap_size_bytes (filter (\<lambda>n. in_chart d (dl_taken d) now day (snap_at n)) (snapshots s)))"

definition dashboard_of :: "dialect \<Rightarrow> time \<Rightarrow> store \<Rightarrow> dashboard_stats" where
  "dashboard_of d now s =
    \<lparr>ds_agents = count_where live (agents s),
     ds_agents_online = count_where (\<lambda>a. live a \<and> ag_status a = ''online'') (agents s),
     ds_policies = count_where live (policies s),
     ds_policies_active = count_where (\<lambda>p. live p \<and> pol_enabled p) (policies s),
     ds_today = count_where (\<lambda>j. in_today d now (CreatedAt j)) (jobs s),
     ds_today_succeeded = count_where (\<lambda>j. in_today d now (CreatedAt j) \<and> job_status j = ''succeeded'') (jobs s),
     ds_today_failed = count_where (\<lambda>j. in_today d now (CreatedAt j) \<and> job_status j = ''failed'') (jobs s),
     ds_snapshots = length (snapshots s),
     ds_snapshots_size = sum_list (map snap_size_bytes (snapshots s)),
     ds_job_activity = map (\<lambda>t. \<lparr>dj_date = dl_day d t, dj_succeeded = jobs_charted d now ''succeeded'' t s,
       dj_failed = jobs_charted d now ''failed'' t s\<rparr>) (week_days now),
     ds_size_activity = map (\<lambda>t. \<lparr>dz_date = dl_day d t, dz_bytes = bytes_charted d now t s\<rparr>) (week_days now)\<rparr>"

lemma day_counts_jobs:
  "day_counts (job_map (job_rows d (week_start now) (jobs s))) (dl_day d t) =
    (jobs_charted d now ''succeeded'' t s, jobs_charted d now ''failed'' t s)"
proof -
  let ?xs = "filter (\<lambda>j. sql_since d (dl_created d) (week_start now) (CreatedAt j) \<and>
    job_status j \<in> {''succeeded'', ''failed''}) (jobs s)"
  let ?key = "\<lambda>j. (dateColExpr d (dl_created d) (CreatedAt j), job_status j)"
  let ?rows = "job_rows d (week_start now) (jobs s)"
  have "distinct (map fst ?rows)" unfolding job_rows_def by (intro distinct_sort_key_fst distinct_group)
  moreover have "\<forall>r\<in>set ?rows. snd (fst r) \<in> {''succeeded'', ''failed''}"
    by (auto simp: job_rows_def group_by_def)
  moreover have "(case map_of ?rows (dl_day d t, st) of None \<Rightarrow> 0 | Some n \<Rightarrow> n) = jobs_charted d now st t s"
    if "st \<in> {''succeeded'', ''failed''}" for st
  proof -
    have "(case map_of ?rows (dl_day d t, st) of None \<Rightarrow> 0 | Some n \<Rightarrow> n) =
        length (filter (\<lambda>j. ?key j = (dl_day d t, st)) ?xs)"
      unfolding job_rows_def by (rule grouped_default) simp
    also have "\<dots> = jobs_charted d now st t s"
      using that unfolding jobs_charted_def in_chart_def count_where_def filter_filter
      by (intro arg_cong[where f = length] filter_cong) auto
    finally show ?thesis .
  qed
  ultimately show ?thesis
    using job_map_lookup[of ?rows "[]" "dl_day d t"] by (simp add: job_map_def cong: option.case_cong)
qed

lemma size_of_day_bytes:
  "size_of_day (size_map (size_rows d (week_start now) (snapshots s))) (dl_day d t) = bytes_charted d now t s"
proof -
  let ?xs = "filter (\<lambda>n. sql_since d (dl_taken d) (week_start now) (snap_at n)) (snapshots s)"
  let ?rows = "size_rows d (week_start now) (snapshots s)"
  have "distinct (map fst ?rows)" unfolding size_rows_def by (intro distinct_sort_key_fst distinct_group)
  then have "size_of_day (size_map ?rows) (dl_day d t) =
      (case map_of ?rows (dl_day d t) of None \<Rightarrow> 0 | Some n \<Rightarrow> n)"
    by (simp add: size_of_day_def size_map_def size_map_lookup split: option.split)
  also have "\<dots> = sum_list (map snap_size_bytes
      (filter (\<lambda>n. dateColExpr d (dl_taken d) (snap_at n) = dl_day d t) ?xs))"
    unfolding size_rows_def by (rule grouped_default) simp
  also have "\<dots> = bytes_charted d now t s"
    unfolding bytes_charted_def in_chart_def filter_filter by (simp add: conj_commute)
  finally show ?thesis .
qed

text \<open>A query that reads, on the tables of \<open>s\<close>: it gives the value \<open>v\<close> and changes no table, or the database
fails.\<close>

definition reads_as :: "store \<Rightarrow> 'a dbop \<Rightarrow> 'a \<Rightarrow> bool" where
  "reads_as s m v = (\<forall>bs. case m (s\<lparr>faults := bs\<rparr>) of
     (Inl e, s') \<Rightarrow> True \<in> set bs \<and> (\<exists>cs. s' = s\<lparr>faults := cs\<rparr>)
   | (Inr a, s') \<Rightarrow> a = v \<and> (\<exists>cs. s' = s\<lparr>faults := cs\<rparr> \<and> set cs \<subseteq> set bs))"

lemma reads_sql:
  assumes "\<And>bs. g (s\<lparr>faults := bs\<rparr>) = g s"
  shows "reads_as s (sql (\<lambda>s. (Inr (g s), s))) (g s)"
  unfolding reads_as_def
proof
  fix bs
  show "case sql (\<lambda>s. (Inr (g s), s)) (s\<lparr>faults := bs\<rparr>) of
     (Inl e, s') \<Rightarrow> True \<in> set bs \<and> (\<exists>cs. s' = s\<lparr>faults := cs\<rparr>)
   | (Inr a, s') \<Rightarrow> a = g s \<and> (\<exists>cs. s' = s\<lparr>faults := cs\<rparr> \<and> set cs \<subseteq> set bs)"
    by (cases bs) (auto simp: sql_def assms)
qed

lemma reads_count: "(\<And>bs. rows (s\<lparr>faults := bs\<rparr>) = rows s) \<Longrightarrow> reads_as s (db_count rows P) (count_where P (rows s))"
  unfolding db_count_def by (rule reads_sql) simp

lemma reads_select: "(\<And>bs. g (s\<lparr>faults := bs\<rparr>) = g s) \<Longrightarrow> reads_as s (select_rows g) (g s)"
  unfolding select_rows_def by (rule reads_sql)

lemma reads_then:
  assumes "reads_as s m v" "reads_as s (f v) w"
  shows "reads_as s (then_query m f) w"
  unfolding reads_as_def
proof
  fix bs
  obtain x s1 where m: "m (s\<lparr>faults := bs\<rparr>) = (x, s1)" by fastforce
  note a = assms(1)[unfolded reads_as_def, THEN spec[of _ bs], unfolded m]
  show "case then_query m f (s\<lparr>faults := bs\<rparr>) of
     (Inl e, s') \<Rightarrow> True \<in> set bs \<and> (\<exists>cs. s' = s\<lparr>faults := cs\<rparr>)
   | (Inr b, s') \<Rightarrow> b = w \<and> (\<exists>cs. s' = s\<lparr>faults := cs\<rparr> \<and> set cs \<subseteq> set bs)"
  proof (cases x)
    case (Inl e)
    with a m show ?thesis by (simp add: then_query_def)
  next
    case (Inr u)
    with a obtain cs where s1: "u = v" "s1 = s\<lparr>faults := cs\<rparr>" "set cs \<subseteq> set bs" by auto
    obtain y s2 where "f v (s\<lparr>faults := cs\<rparr>) = (y, s2)" by fastforce
    with assms(2)[unfolded reads_as_def, THEN spec[of _ cs]] s1 m Inr show ?thesis
      by (cases y) (auto simp: then_query_def)
  qed
qed

lemma reads_return: "v = w \<Longrightarrow> reads_as s (\<lambda>s. (Inr v, s)) w"
  by (auto simp: reads_as_def)

lemma GetStats_reads: "reads_as s (GetStats d now) (dashboard_of d now s)"
  unfolding GetStats_def today_count_def
  by (rule reads_then reads_count reads_select reads_return | simp)+
    (simp add: dashboard_of_def in_today_def job_activity_def size_activity_def day_counts_jobs size_of_day_bytes
      Let_def count_where_def conj_assoc)

text \<open>C33: the dashboard is what a direct reading of the tables gives, whatever faults the database has.  When the
statistics are answered, they are the counts and sums over the tables and, for each of the last seven days, the number
of jobs that succeeded and failed and the size of the snapshots among the rows whose day, as the database writes it,
is the UTC text of that day: the grouping, the ordering and the lookup tables lose nothing and mix nothing up.  They fail
only when a statement of the database fails, and no table is changed.\<close>

theorem dashboard_activity:
  "case GetStats d now s of
     (Inl e, s') \<Rightarrow> True \<in> set (faults s) \<and> (\<exists>bs. s' = s\<lparr>faults := bs\<rparr>)
   | (Inr st, s') \<Rightarrow> st = dashboard_of d now s \<and> (\<exists>bs. s' = s\<lparr>faults := bs\<rparr>)"
  using GetStats_reads[of s d now, unfolded reads_as_def, THEN spec[of _ "faults s"]]
  by (auto split: sum.splits prod.splits)

section \<open>Days in UTC\<close>

text \<open>When the database writes the days in UTC and compares times as times, the chart shows the calendar days in UTC,
and its last day agrees with the counts of today.\<close>

definition jobs_of_day :: "string \<Rightarrow> time \<Rightarrow> store \<Rightarrow> nat" where
  "jobs_of_day st t s = count_where (\<lambda>j. job_status j = st \<and> same_day (CreatedAt j) t) (jobs s)"

lemma dashboard_utc_days:
  assumes "\<And>a b. dateColExpr d (dl_created d) a = dl_day d b \<longleftrightarrow> same_day a b"
    and "\<And>a b. sql_since d (dl_created d) a b \<longleftrightarrow> a \<le> b" "\<And>a b. sql_before d (dl_created d) a b \<longleftrightarrow> b < a"
  shows "t \<in> set (week_days now) \<Longrightarrow> jobs_charted d now st t s = jobs_of_day st t s"
    and "ds_today_succeeded (dashboard_of d now s) = dj_succeeded (last (ds_job_activity (dashboard_of d now s)))"
    and "ds_today_failed (dashboard_of d now s) = dj_failed (last (ds_job_activity (dashboard_of d now s)))"
proof -
  have charted: "jobs_charted d now st t s = jobs_of_day st t s" if "t \<in> set (week_days now)" for st t
    using week_recent[OF that] unfolding jobs_charted_def jobs_of_day_def in_chart_def assms count_where_def
    by (intro arg_cong[where f = length] filter_cong) auto
  then show "t \<in> set (week_days now) \<Longrightarrow> jobs_charted d now st t s = jobs_of_day st t s" .
  have today: "in_today d now a = same_day a now" for a
    by (simp add: in_today_def assms(2,3) same_day_bounds)
  have "last (week_days now) = now" "week_days now \<noteq> []" "now \<in> set (week_days now)"
    by (simp_all add: week_days_def upt_rec)
  then show "ds_today_succeeded (dashboard_of d now s) = dj_succeeded (last (ds_job_activity (dashboard_of d now s)))"
    "ds_today_failed (dashboard_of d now s) = dj_failed (last (ds_job_activity (dashboard_of d now s)))"
    by (simp_all add: dashboard_of_def last_map charted today jobs_of_day_def conj_commute)
qed

text \<open>On SQLite the rows carry the day of the zone they were written in.  With a clock two hours east of UTC a job of
the last hour of a UTC day stands under the next day.\<close>

definition day_text :: "time \<Rightarrow> string" where
  "day_text t = replicate (nat (t div day_length)) CHR ''x''"

definition east :: dialect where
  "east = \<lparr>dl_postgres = False, dl_created = (\<lambda>t. day_text (t + 2 * hour)), dl_taken = day_text, dl_bound = day_text,
     dl_to_char = day_text, dl_day = day_text\<rparr>"

definition late_job :: store where
  "late_job = empty_store\<lparr>jobs := [\<lparr>ID = ''j'', CreatedAt = 7 * day_length + 23 * hour, UpdatedAt = 0,
     job_policy_id = ''p'', job_agent_id = ''a'', job_type = ''backup'', job_status = ''succeeded'',
     job_started_at = None, job_ended_at = None, job_error = []\<rparr>]\<rparr>"

lemma local_day_shown:
  "jobs_of_day ''succeeded'' (7 * day_length) late_job = 1 \<and>
   jobs_charted east (8 * day_length) ''succeeded'' (7 * day_length) late_job = 0 \<and>
   jobs_charted east (8 * day_length) ''succeeded'' (8 * day_length) late_job = 1"
  by code_simp

end
