(* ===== verification/CertsProofs.thy ===== *)
theory CertsProofs
  imports Certs
begin

text \<open>The authority outlives restarts, and its serial numbers are unique as long as a run of the server issues no
more certificates than it lasts seconds.\<close>

section \<open>Restarts\<close>

lemma writeFileAtomic_done:
  assumes "writeFileAtomic fes p d fs = (True, fs1)"
  shows "map_of fs1 p = Some d" "q \<noteq> p \<Longrightarrow> q \<noteq> fe_temp (fes p) \<Longrightarrow> map_of fs1 q = map_of fs q"
  using assms by (auto simp: writeFileAtomic_def Let_def split: if_splits)

lemma write_all_other:
  "write_all fes ws fs = (Inr (), fs') \<Longrightarrow> \<forall>(w, p, d)\<in>set ws. q \<noteq> p \<and> q \<noteq> fe_temp (fes p) \<Longrightarrow>
   map_of fs' q = map_of fs q"
proof (induction ws arbitrary: fs)
  case (Cons a ws)
  obtain w p d where a: "a = (w, p, d)" by (cases a)
  then obtain fs1 where fs1: "writeFileAtomic fes p d fs = (True, fs1)" "write_all fes ws fs1 = (Inr (), fs')"
    using Cons.prems(1) by (auto split: prod.splits bool.splits)
  then show ?case using Cons.IH[OF fs1(2)] Cons.prems(2) a writeFileAtomic_done(2)[OF fs1(1)] by auto
qed simp

lemma write_all_done:
  "write_all fes ws fs = (Inr (), fs') \<Longrightarrow> distinct (map (fst \<circ> snd) ws) \<Longrightarrow>
   \<forall>p\<in>set (map (fst \<circ> snd) ws). \<forall>q\<in>set (map (fst \<circ> snd) ws). fe_temp (fes p) \<noteq> q \<Longrightarrow>
   (w, p, d) \<in> set ws \<Longrightarrow> map_of fs' p = Some d"
proof (induction ws arbitrary: fs)
  case (Cons a ws)
  obtain v q e where a: "a = (v, q, e)" by (cases a)
  then obtain fs1 where fs1: "writeFileAtomic fes q e fs = (True, fs1)" "write_all fes ws fs1 = (Inr (), fs')"
    using Cons.prems(1) by (auto split: prod.splits bool.splits)
  show ?case
  proof (cases "(w, p, d) = a")
    case True
    have "\<forall>(w, p', d)\<in>set ws. q \<noteq> p' \<and> q \<noteq> fe_temp (fes p')" using Cons.prems(2,3) a by force
    with True show ?thesis using write_all_other[OF fs1(2), of q] writeFileAtomic_done(1)[OF fs1(1)] a by simp
  next
    case False
    with Cons.prems show ?thesis by (intro Cons.IH[OF fs1(2)]) auto
  qed
qed simp

lemma bind_err_Inr: "bind_err x m f = Inr b \<longleftrightarrow> (\<exists>a. x = Some a \<and> f a = Inr b)"
  by (simp add: bind_err_def split: option.split)

definition pki_files :: "string \<Rightarrow> string list" where
  "pki_files dataDir = map (filepath_Join (filepath_Join dataDir ''grpc''))
     [''ca.crt'', ''ca.key'', ''server.crt'', ''server.key'']"

lemma pki_files_distinct: "distinct (pki_files dataDir)"
  by (simp add: pki_files_def Join_plain_inj plain_def path_sep_def)

text \<open>Once the key pairs were created or loaded, a later start on the files that were left gives the same
authority, whatever keys would be generated: the same CA key and certificate, which the agents enrolled before keep
trusting, nothing written, and only the next serial number taken from the clock.  The laws are those of PEM and of
marshalling a key; every file operation works, and temporary files have names of their own.\<close>

theorem pki_survives_restart:
  assumes "\<And>t b. pk_unpem pk (pk_pem pk t b) = Some b" "\<And>k b. pk_marshal pk k = Some b \<Longrightarrow> pk_unmarshal pk b = Some k"
    and "\<And>p op. fe_error (fes p) op = None"
    and "\<forall>p\<in>set (pki_files dataDir). fe_temp (fes p) \<notin> set (pki_files dataDir)"
    and "EnsureCerts fes pk now ck sk dataDir fs = (Inr ac, fs')"
  shows "EnsureCerts fes pk later ck' sk' dataDir fs' = (Inr (ac\<lparr>ac_serial := unix_seconds later\<rparr>), fs')"
proof (cases "list_all (\<lambda>p. fileExists fes p fs) (pki_files dataDir)")
  case True
  then have "fs' = fs" using assms(3,5) by (simp add: EnsureCerts_def Let_def pki_files_def)
  then show ?thesis using True assms(3,5)
    by (auto simp: EnsureCerts_def Let_def pki_files_def loadCerts_def bind_err_Inr)
next
  case False
  let ?d = "filepath_Join dataDir ''grpc''"
  obtain k c cp kp scp skp where new: "new_pki pk now ck sk = Inr (k, c, cp, kp, scp, skp)"
    and w: "write_all fes [(''CA cert'', filepath_Join ?d ''ca.crt'', cp), (''CA key'', filepath_Join ?d ''ca.key'', kp),
        (''server cert'', filepath_Join ?d ''server.crt'', scp), (''server key'', filepath_Join ?d ''server.key'', skp)] fs
        = (Inr (), fs')" (is "write_all _ ?ws _ = _")
    and ac: "ac = \<lparr>ac_ca_cert_file = filepath_Join ?d ''ca.crt'', ac_ca_cert_pem = cp,
        ac_server_cert_file = filepath_Join ?d ''server.crt'', ac_server_key_file = filepath_Join ?d ''server.key'',
        ac_ca_key = k, ac_ca_cert = c, ac_serial = 2\<rparr>"
    using False assms(3,5)
    by (auto simp: EnsureCerts_def Let_def pki_files_def split: sum.splits prod.splits unit.splits)
  have ps: "map (fst \<circ> snd) ?ws = pki_files dataDir" by (simp add: pki_files_def)
  have files: "map_of fs' p = Some d" if "(v, p, d) \<in> set ?ws" for v p d
    using write_all_done[OF w _ _ that] ps pki_files_distinct[of dataDir] assms(4) by metis
  have "map_of fs' (filepath_Join ?d ''ca.crt'') = Some cp" "map_of fs' (filepath_Join ?d ''ca.key'') = Some kp"
    "map_of fs' (filepath_Join ?d ''server.crt'') = Some scp" "map_of fs' (filepath_Join ?d ''server.key'') = Some skp"
    using files[where v = "''CA cert''"] files[where v = "''CA key''"] files[where v = "''server cert''"]
      files[where v = "''server key''"] by simp_all
  moreover obtain der where "pk_unpem pk cp = Some der" "pk_parse pk der = Some c"
    using new assms(1) by (auto simp: new_pki_def bind_err_Inr)
  moreover obtain kder where "pk_unpem pk kp = Some kder" "pk_unmarshal pk kder = Some k"
    using new assms(1,2) by (auto simp: new_pki_def bind_err_Inr ecKeyToPEM_def)
  ultimately show ?thesis
    using assms(3) ac by (simp add: EnsureCerts_def Let_def fileExists_def loadCerts_def read_file_def bind_err_def)
qed

section \<open>Serial numbers\<close>

text \<open>The requests of one run of the server, and the certificates issued for them.\<close>

fun issued :: "pki \<Rightarrow> (time \<times> string option \<times> string) list \<Rightarrow> auto_certs \<Rightarrow> string list" where
  "issued pk [] ac = []"
| "issued pk ((now, key, cn) # rs) ac =
     (case IssueCertificate pk now key cn ac of
        (Inl e, ac1) \<Rightarrow> issued pk rs ac1 | (Inr (cert, k), ac1) \<Rightarrow> cert # issued pk rs ac1)"

definition certificate_serial :: "pki \<Rightarrow> string \<Rightarrow> int option" where
  "certificate_serial pk pem = (case pk_unpem pk pem of
     None \<Rightarrow> None | Some der \<Rightarrow> map_option crt_serial (pk_parse pk der))"

text \<open>What is relied on: a PEM block can be read, and a certificate that was signed can be parsed and has the serial
number of its template.\<close>

definition pki_signs :: "pki \<Rightarrow> bool" where
  "pki_signs pk = ((\<forall>ty b. pk_unpem pk (pk_pem pk ty b) = Some b) \<and>
     (\<forall>t parent subject signer der. pk_create pk t parent subject signer = Some der \<longrightarrow>
        map_option crt_serial (pk_parse pk der) = Some (crt_serial t)))"

lemma crt_serial_client [simp]: "crt_serial (client_template now n cn) = n"
  by (simp add: client_template_def)

lemma issue_serial:
  "pki_signs pk \<Longrightarrow> IssueCertificate pk now key cn ac = (Inr (cert, k), ac1) \<Longrightarrow> certificate_serial pk cert = Some (ac_serial ac + 1)"
  by (auto simp: IssueCertificate_def Let_def bind_err_Inr certificate_serial_def pki_signs_def
      split: option.splits) (metis crt_serial_client)

lemma issue_counts:
  "ac_serial ac \<le> ac_serial (snd (IssueCertificate pk now key cn ac)) \<and>
   ac_serial (snd (IssueCertificate pk now key cn ac)) \<le> ac_serial ac + 1 \<and>
   (\<forall>c. fst (IssueCertificate pk now key cn ac) = Inr c \<longrightarrow>
      ac_serial (snd (IssueCertificate pk now key cn ac)) = ac_serial ac + 1)"
  by (simp add: IssueCertificate_def Let_def split: option.split)

lemma issued_range:
  "pki_signs pk \<Longrightarrow> c \<in> set (issued pk rs ac) \<Longrightarrow>
   \<exists>n. certificate_serial pk c = Some n \<and> ac_serial ac < n \<and> n \<le> ac_serial ac + int (length rs)"
proof (induction rs arbitrary: ac)
  case (Cons r rs)
  obtain now key cn where r: "r = (now, key, cn)" by (cases r)
  obtain res ac1 where i: "IssueCertificate pk now key cn ac = (res, ac1)" by fastforce
  note b = issue_counts[where ac = ac and pk = pk and now = now and key = key and cn = cn, unfolded i]
  show ?case
  proof (cases res)
    case (Inl e)
    with Cons.IH[OF Cons.prems(1), of ac1] Cons.prems r i b show ?thesis by force
  next
    case (Inr p)
    obtain cert k where p: "p = (cert, k)" by (cases p)
    from issue_serial[OF Cons.prems(1), where now = now and key = key and cn = cn and ac = ac and cert = cert and k = k and ?ac1.0 = ac1] i Inr p
    have "certificate_serial pk cert = Some (ac_serial ac + 1)" by simp
    with Cons.IH[OF Cons.prems(1), of ac1] Cons.prems r i b Inr p show ?thesis by force
  qed
qed simp

lemma issued_distinct: "pki_signs pk \<Longrightarrow> distinct (map (certificate_serial pk) (issued pk rs ac))"
proof (induction rs arbitrary: ac)
  case (Cons r rs)
  obtain now key cn where r: "r = (now, key, cn)" by (cases r)
  obtain res ac1 where i: "IssueCertificate pk now key cn ac = (res, ac1)" by fastforce
  note b = issue_counts[where ac = ac and pk = pk and now = now and key = key and cn = cn, unfolded i]
  show ?case
  proof (cases res)
    case (Inl e)
    with Cons.IH[OF Cons.prems, of ac1] r i show ?thesis by simp
  next
    case (Inr p)
    obtain cert k where p: "p = (cert, k)" by (cases p)
    from issue_serial[OF Cons.prems(1), where now = now and key = key and cn = cn and ac = ac and cert = cert and k = k and ?ac1.0 = ac1] i Inr p
    have c: "certificate_serial pk cert = Some (ac_serial ac + 1)" by simp
    have "ac_serial ac1 = ac_serial ac + 1" using b Inr by simp
    then have "certificate_serial pk x \<noteq> certificate_serial pk cert" if "x \<in> set (issued pk rs ac1)" for x
      using issued_range[OF Cons.prems that] c by auto
    then show ?thesis using Cons.IH[OF Cons.prems, of ac1] r i Inr p by (force simp: image_iff)
  qed
qed simp

text \<open>The life of an authority: the server is started again and again on the same directory, each time with its own
keys to generate if need be, and issues certificates until it is stopped.\<close>

record server_life =
  sl_start :: time
  sl_ca_key :: "string option"
  sl_server_key :: "string option"
  sl_requests :: "(time \<times> string option \<times> string) list"

fun lives ::
  "(string \<Rightarrow> file_env) \<Rightarrow> pki \<Rightarrow> string \<Rightarrow> server_life list \<Rightarrow> files \<Rightarrow> string list" where
  "lives fes pk dataDir [] fs = []"
| "lives fes pk dataDir (l # ls) fs =
     (case EnsureCerts fes pk (sl_start l) (sl_ca_key l) (sl_server_key l) dataDir fs of
        (Inl e, fs1) \<Rightarrow> lives fes pk dataDir ls fs1
      | (Inr ac, fs1) \<Rightarrow> issued pk (sl_requests l) ac @ lives fes pk dataDir ls fs1)"

text \<open>The clock leaves a second for every certificate that was asked for since the start before.\<close>

definition clock_ahead :: "server_life \<Rightarrow> server_life \<Rightarrow> bool" where
  "clock_ahead l m = (unix_seconds (sl_start l) + int (length (sl_requests l)) \<le> unix_seconds (sl_start m))"

text \<open>What a start leaves: the files of a complete authority stay and its numbers go on from the clock; otherwise a new
authority begins at 2 and is complete, or nothing is there.\<close>

definition complete :: "(string \<Rightarrow> file_env) \<Rightarrow> string \<Rightarrow> files \<Rightarrow> bool" where
  "complete fes dataDir fs = list_all (\<lambda>p. fileExists fes p fs) (pki_files dataDir)"

lemma EnsureCerts_complete:
  assumes "complete fes dataDir fs" "EnsureCerts fes pk now ck sk dataDir fs = (x, fs')"
  shows "fs' = fs \<and> (\<forall>ac. x = Inr ac \<longrightarrow> ac_serial ac = unix_seconds now)"
  using assms
  by (auto simp: EnsureCerts_def Let_def complete_def pki_files_def loadCerts_def bind_err_Inr split: if_splits)

lemma write_all_works:
  "(\<And>p op. fe_error (fes p) op = None) \<Longrightarrow> fst (write_all fes ws fs) = Inr ()"
proof (induction ws arbitrary: fs)
  case (Cons a ws)
  obtain w p d where a: "a = (w, p, d)" by (cases a)
  obtain ok fs1 where fs1: "writeFileAtomic fes p d fs = (ok, fs1)" by fastforce
  have ok by (rule ccontr) (use fs1 Cons.prems in \<open>auto simp: writeFileAtomic_def Let_def split: if_splits\<close>)
  with fs1 a Cons show ?case by simp
qed simp

lemma EnsureCerts_incomplete:
  assumes "\<not> complete fes dataDir fs" "EnsureCerts fes pk now ck sk dataDir fs = (x, fs')"
    and "\<And>p op. fe_error (fes p) op = None"
    and "\<forall>p\<in>set (pki_files dataDir). fe_temp (fes p) \<notin> set (pki_files dataDir)"
  shows "(case x of Inl e \<Rightarrow> fs' = fs | Inr ac \<Rightarrow> complete fes dataDir fs' \<and> ac_serial ac = 2)"
proof (cases "new_pki pk now ck sk")
  case (Inl e)
  with assms show ?thesis by (auto simp: EnsureCerts_def Let_def complete_def pki_files_def)
next
  case (Inr n)
  let ?d = "filepath_Join dataDir ''grpc''"
  obtain k c cp kp scp skp where n: "n = (k, c, cp, kp, scp, skp)" by (cases n)
  let ?ws = "[(''CA cert'', filepath_Join ?d ''ca.crt'', cp), (''CA key'', filepath_Join ?d ''ca.key'', kp),
        (''server cert'', filepath_Join ?d ''server.crt'', scp), (''server key'', filepath_Join ?d ''server.key'', skp)]"
  obtain fs1 where w: "write_all fes ?ws fs = (Inr (), fs1)"
    using write_all_works[where fes = fes and ws = ?ws and fs = fs, OF assms(3)] by (cases "write_all fes ?ws fs") simp
  have ps: "map (fst \<circ> snd) ?ws = pki_files dataDir" by (simp add: pki_files_def)
  have "map_of fs1 p \<noteq> None" if "p \<in> set (pki_files dataDir)" for p
  proof -
    have "p \<in> (fst \<circ> snd) ` set ?ws" using that unfolding ps[symmetric] set_map .
    then obtain a where "a \<in> set ?ws" "p = (fst \<circ> snd) a" by (rule imageE) blast
    then have m: "(fst a, p, snd (snd a)) \<in> set ?ws" by (simp only: o_apply prod.collapse)
    have "distinct (map (fst \<circ> snd) ?ws)"
      "\<forall>p\<in>set (map (fst \<circ> snd) ?ws). \<forall>q\<in>set (map (fst \<circ> snd) ?ws). fe_temp (fes p) \<noteq> q"
      unfolding ps using pki_files_distinct assms(4) by metis+
    from write_all_done[OF w this m] show ?thesis by simp
  qed
  then have "complete fes dataDir fs1" using assms(3) by (auto simp: complete_def fileExists_def list_all_iff)
  with assms w Inr n show ?thesis by (auto simp: EnsureCerts_def Let_def complete_def pki_files_def)
qed

text \<open>Everything issued from some start on has a number above the number that start begins with.\<close>

lemma lives_above:
  assumes "pki_signs pk" "\<And>p op. fe_error (fes p) op = None"
    and "\<forall>p\<in>set (pki_files dataDir). fe_temp (fes p) \<notin> set (pki_files dataDir)"
  shows "c \<in> set (lives fes pk dataDir ls fs) \<Longrightarrow> \<forall>l\<in>set ls. n \<le> unix_seconds (sl_start l) \<Longrightarrow>
    complete fes dataDir fs \<or> n \<le> 2 \<Longrightarrow> \<exists>k. certificate_serial pk c = Some k \<and> n < k"
proof (induction ls arbitrary: fs)
  case (Cons l ls)
  obtain x fs1 where e: "EnsureCerts fes pk (sl_start l) (sl_ca_key l) (sl_server_key l) dataDir fs = (x, fs1)"
    by fastforce
  have next_ok: "complete fes dataDir fs1 \<or> n \<le> 2"
    using EnsureCerts_complete[OF _ e] EnsureCerts_incomplete[OF _ e assms(2,3)] Cons.prems(3)
    by (cases x) auto
  show ?case
  proof (cases "\<exists>ac. x = Inr ac \<and> c \<in> set (issued pk (sl_requests l) ac)")
    case True
    then obtain ac where ac: "x = Inr ac" "c \<in> set (issued pk (sl_requests l) ac)" by blast
    then have "n \<le> ac_serial ac"
      using EnsureCerts_complete[OF _ e] EnsureCerts_incomplete[OF _ e assms(2,3)] Cons.prems(2,3)
      by (cases "complete fes dataDir fs") auto
    with issued_range[OF assms(1) ac(2)] show ?thesis by auto
  next
    case False
    with Cons.prems e have "c \<in> set (lives fes pk dataDir ls fs1)" by (cases x) auto
    with Cons.IH[of fs1] Cons.prems(2) next_ok show ?thesis by simp
  qed
qed simp

lemma lives_distinct:
  assumes "pki_signs pk" "\<And>p op. fe_error (fes p) op = None"
    and "\<forall>p\<in>set (pki_files dataDir). fe_temp (fes p) \<notin> set (pki_files dataDir)"
  shows "sorted_wrt clock_ahead ls \<Longrightarrow> \<forall>l\<in>set ls. 2 \<le> unix_seconds (sl_start l) \<Longrightarrow>
    distinct (map (certificate_serial pk) (lives fes pk dataDir ls fs))"
proof (induction ls arbitrary: fs)
  case (Cons l ls)
  obtain x fs1 where e: "EnsureCerts fes pk (sl_start l) (sl_ca_key l) (sl_server_key l) dataDir fs = (x, fs1)"
    by fastforce
  have rest: "distinct (map (certificate_serial pk) (lives fes pk dataDir ls fs1))" using Cons by simp
  show ?case
  proof (cases x)
    case (Inl m)
    with e rest show ?thesis by simp
  next
    case (Inr ac)
    have whole: "complete fes dataDir fs1" and serial: "ac_serial ac \<le> unix_seconds (sl_start l)"
      using EnsureCerts_complete[OF _ e] EnsureCerts_incomplete[OF _ e assms(2,3)] Inr Cons.prems(2)
      by (cases "complete fes dataDir fs"; simp)+
    let ?n = "ac_serial ac + int (length (sl_requests l))"
    have later: "\<forall>m\<in>set ls. ?n \<le> unix_seconds (sl_start m)"
      using Cons.prems(1) serial by (auto simp: clock_ahead_def)
    have "certificate_serial pk c \<noteq> certificate_serial pk d"
      if "c \<in> set (issued pk (sl_requests l) ac)" "d \<in> set (lives fes pk dataDir ls fs1)" for c d
      using issued_range[OF assms(1) that(1)] lives_above[OF assms that(2) later] whole by auto
    with e Inr rest issued_distinct[OF assms(1), of "sl_requests l" ac] show ?thesis
      by (fastforce simp: image_iff)
  qed
qed simp

text \<open>C26: the serial numbers of the client certificates are unique over the whole life of an authority, from the
start that creates it on through every later one, and they are none of the numbers 1 and 2 of the authority's own
certificate and the server's: provided files can be read and written, the clock is past the second second of 1970, and
each start finds it at least as many seconds after the start before as certificates were asked for in
between.  Of X.509 and PEM this uses only that a signed certificate is read back with its number.\<close>

theorem serials_unique:
  assumes "pki_signs pk" "\<And>p op. fe_error (fes p) op = None"
    and "\<forall>p\<in>set (pki_files dataDir). fe_temp (fes p) \<notin> set (pki_files dataDir)"
    and "sorted_wrt clock_ahead ls" "\<forall>l\<in>set ls. 2 \<le> unix_seconds (sl_start l)"
  shows "distinct (map (certificate_serial pk) (lives fes pk dataDir ls fs)) \<and>
    (\<forall>c\<in>set (lives fes pk dataDir ls fs). \<exists>n>2. certificate_serial pk c = Some n)"
  using lives_distinct[OF assms] lives_above[OF assms(1-3) _ assms(5), of _ fs] by blast

text \<open>Two starts within the same second that each issue a certificate give both the same number.\<close>

lemma serial_collision:
  assumes "pki_signs pk" "ac_serial a = ac_serial b"
    "IssueCertificate pk now k cn a = (Inr (c, x), a1)" "IssueCertificate pk now' k' cn' b = (Inr (c', x'), b1)"
  shows "certificate_serial pk c = certificate_serial pk c'"
  using issue_serial[OF assms(1,3)] issue_serial[OF assms(1,4)] assms(2) by simp

section \<open>A concrete authority\<close>

text \<open>A certificate is a text as long as its serial number.\<close>

definition demo_certificate :: "string \<Rightarrow> certificate" where
  "demo_certificate der = (if der = ''CA'' then ca_template 0
     else client_template 0 (int (length der)) ''arkeep-agent-x'')"

definition demo_pki :: pki where
  "demo_pki = \<lparr>pk_create = (\<lambda>t parent subject signer.
       if crt_serial t = 1 then Some ''CA''
       else if 2 \<le> crt_serial t then Some (replicate (nat (crt_serial t)) CHR ''x'')
       else None),
     pk_parse = (\<lambda>der. Some (demo_certificate der)), pk_marshal = Some, pk_unmarshal = Some,
     pk_pem = (\<lambda>ty b. b), pk_unpem = Some\<rparr>"

lemma demo_pki_signs: "pki_signs demo_pki"
proof -
  have "replicate n CHR ''x'' \<noteq> ''CA''" for n by (cases n) auto
  then show ?thesis
    by (auto simp: pki_signs_def demo_pki_def demo_certificate_def ca_template_def client_template_def)
qed

definition demo_authority :: "int \<Rightarrow> auto_certs" where
  "demo_authority n = \<lparr>ac_ca_cert_file = [], ac_ca_cert_pem = [], ac_server_cert_file = [],
     ac_server_key_file = [], ac_ca_key = ''k'', ac_ca_cert = ca_template 0, ac_serial = n\<rparr>"

text \<open>The witness of the restart: files that already hold an authority.\<close>

definition demo_pki_files :: files where
  "demo_pki_files = map (\<lambda>p. (p, ''CA'')) (pki_files ''/d'')"

definition demo_file_env :: file_env where
  "demo_file_env = \<lparr>fe_error = (\<lambda>_. None), fe_temp = [], fe_partial = [], fe_json_error = (\<lambda>_. [])\<rparr>"

text \<open>Two lives of a server in the first seconds of 1970, the first of which creates the authority.\<close>

definition demo_lives :: "server_life list" where
  "demo_lives =
     [\<lparr>sl_start = 62135596805 * second, sl_ca_key = Some ''k'', sl_server_key = Some ''l'',
       sl_requests = replicate 2 (0, Some ''m'', ''arkeep-agent-x'')\<rparr>,
      \<lparr>sl_start = 62135596809 * second, sl_ca_key = Some ''o'', sl_server_key = Some ''p'',
       sl_requests = [(0, Some ''m'', ''arkeep-agent-y'')]\<rparr>]"

theorem serials_unique_witness:
  "distinct (map (certificate_serial demo_pki) (lives (\<lambda>_. demo_file_env) demo_pki ''/d'' demo_lives [])) \<and>
   map (certificate_serial demo_pki) (lives (\<lambda>_. demo_file_env) demo_pki ''/d'' demo_lives []) = [Some 3, Some 4, Some 10]"
proof -
  have "fe_error demo_file_env op = None" for op by (simp add: demo_file_env_def)
  moreover have "\<forall>p\<in>set (pki_files ''/d''). fe_temp demo_file_env \<notin> set (pki_files ''/d'')" by code_simp
  moreover have "sorted_wrt clock_ahead demo_lives" "\<forall>l\<in>set demo_lives. 2 \<le> unix_seconds (sl_start l)"
    by (simp_all add: demo_lives_def clock_ahead_def unix_seconds_def second_def)
  moreover have "map (certificate_serial demo_pki) (lives (\<lambda>_. demo_file_env) demo_pki ''/d'' demo_lives []) =
      [Some 3, Some 4, Some 10]" by code_simp
  ultimately show ?thesis
    using serials_unique[OF demo_pki_signs, of "\<lambda>_. demo_file_env" "''/d''" demo_lives "[]"] by blast
qed

theorem pki_survives_restart_witness:
  "\<exists>ac. EnsureCerts (\<lambda>_. demo_file_env) demo_pki 0 None None ''/d'' demo_pki_files = (Inr ac, demo_pki_files) \<and>
     EnsureCerts (\<lambda>_. demo_file_env) demo_pki 7 (Some ''k'') (Some ''l'') ''/d'' demo_pki_files =
       (Inr (ac\<lparr>ac_serial := unix_seconds 7\<rparr>), demo_pki_files)"
proof -
  let ?fes = "\<lambda>_ :: string. demo_file_env"
  have found: "map_of demo_pki_files p = Some ''CA''" if "p \<in> set (pki_files ''/d'')" for p
    using that by (auto simp: demo_pki_files_def map_of_map_restrict comp_def)
  have nonempty: "[] \<notin> set (pki_files ''/d'')" by code_simp
  obtain ac where first: "EnsureCerts ?fes demo_pki 0 None None ''/d'' demo_pki_files = (Inr ac, demo_pki_files)"
    using found
    by (simp add: EnsureCerts_def Let_def fileExists_def demo_file_env_def loadCerts_def read_file_def bind_err_def
        demo_pki_def pki_files_def)
  have "EnsureCerts ?fes demo_pki 7 (Some ''k'') (Some ''l'') ''/d'' demo_pki_files =
      (Inr (ac\<lparr>ac_serial := unix_seconds 7\<rparr>), demo_pki_files)"
    by (rule pki_survives_restart[OF _ _ _ _ first])
      (use nonempty in \<open>simp_all add: demo_pki_def demo_file_env_def\<close>)
  with first show ?thesis by blast
qed

end
