(* ===== verification/EnrollProofs.thy ===== *)
theory EnrollProofs
  imports ApiResources Connection CertsProofs JsonRoundtrip
begin

text \<open>Enrollment from end to end: the agent's \<open>Enroll\<close> against the server's handler.\<close>

section \<open>The exchange\<close>

text \<open>The answer the agent sees when its request body reaches the handler.  \<open>Encode\<close> ends the body with a line
break; the text of a status line is \<open>status\<close>.\<close>

definition enroll_exchange ::
  "(int \<Rightarrow> string) \<Rightarrow> pki \<Rightarrow> string \<Rightarrow> time \<Rightarrow> string \<Rightarrow> string option \<Rightarrow> http_request \<Rightarrow> rate_limiter \<times> auto_certs \<Rightarrow>
   string \<Rightarrow> string \<Rightarrow> string + Connection.http_answer" where
  "enroll_exchange status pk secret now cn_uuid key r la url body =
     Inr (case fst (EnrollHandler_Enroll pk secret now cn_uuid key (r\<lparr>hr_body := body\<rparr>) la) of
            Inl (code, text) \<Rightarrow> \<lparr>ha_code = code, ha_status = status code, ha_body = Inr (text @ [CHR 0x0A])\<rparr>
          | Inr j \<Rightarrow> \<lparr>ha_code = 200, ha_status = status 200, ha_body = Inr (json_text j @ [CHR 0x0A])\<rparr>)"

lemma decode_struct_text:
  assumes "json_wf (JObj kvs)" "num_stop rest"
  shows "decode_struct dec (json_text (JObj kvs) @ rest) = dec kvs"
proof -
  have "json_value (2 * length (json_text (JObj kvs) @ rest) + 2) (json_text (JObj kvs) @ rest) = Some (JObj kvs, rest)"
    by (rule json_read_written(1)[OF assms]) (simp del: json_text.simps)
  then show ?thesis by (simp add: decode_struct_def del: json_text.simps)
qed

lemma clientIP_body [simp]: "clientIP (r\<lparr>hr_body := b\<rparr>) = clientIP r"
  by (simp add: clientIP_def cong: option.case_cong)

lemma agent_body_decodes:
  "decode_struct (json_field dec_string ''agent_secret'' []) (json_text (JObj [(''agent_secret'', JStr secret)])) = Some secret"
  using decode_struct_text[of "[(''agent_secret'', JStr secret)]" "[]" "json_field dec_string ''agent_secret'' []"]
  by (simp add: dec_string_def fold_key_def fold_char_def del: json_text.simps)

lemma server_body_decodes:
  "decode_certs fe (Inr (json_text (enroll_json ca cert key) @ [CHR 0x0A])) = Inr (ca, cert, key)"
  using decode_struct_text[of "[(''ca_cert'', JStr ca), (''client_cert'', JStr cert), (''client_key'', JStr key)]"
      "[CHR 0x0A]" dec_certs]
  by (simp add: enroll_json_def decode_certs_def dec_certs_def num_stop_def num_char_def is_digit_def dec_string_def
      fold_key_def fold_char_def del: json_text.simps)

lemma store_certs_working:
  assumes "\<And>op. fe_error fe op = None"
  shows "\<exists>fs'. store_certs fe (ca, cert, key) (cfg, fs) =
      (Inr (), (cfg\<lparr>cc_tls_ca := filepath_Join (cc_state_dir cfg) ''grpc-ca.crt'',
          cc_client_cert := filepath_Join (cc_state_dir cfg) ''grpc-client.crt'',
          cc_client_key := filepath_Join (cc_state_dir cfg) ''grpc-client.key''\<rparr>, fs')) \<and>
    map_of fs' (filepath_Join (cc_state_dir cfg) ''grpc-ca.crt'') = Some ca \<and>
    map_of fs' (filepath_Join (cc_state_dir cfg) ''grpc-client.crt'') = Some cert \<and>
    map_of fs' (filepath_Join (cc_state_dir cfg) ''grpc-client.key'') = Some key"
  using assms by (simp add: store_certs_def write_file_def Let_def Join_plain_inj plain_def path_sep_def)

lemma store_certs_stored:
  assumes "store_certs fe (ca, cert, key) (cfg, fs) = (Inr u, (cfg', fs'))"
  shows "cfg' = cfg\<lparr>cc_tls_ca := filepath_Join (cc_state_dir cfg) ''grpc-ca.crt'',
          cc_client_cert := filepath_Join (cc_state_dir cfg) ''grpc-client.crt'',
          cc_client_key := filepath_Join (cc_state_dir cfg) ''grpc-client.key''\<rparr>"
    and "map_of fs' (cc_tls_ca cfg') = Some ca" "map_of fs' (cc_client_cert cfg') = Some cert"
      "map_of fs' (cc_client_key cfg') = Some key"
  using assms
  by (auto simp: store_certs_def write_file_def Let_def Join_plain_inj plain_def path_sep_def split: option.splits)

lemma store_certs_failed:
  "store_certs fe (ca, cert, key) (cfg, fs) = (Inl e, (cfg', fs')) \<Longrightarrow> cfg' = cfg \<and> (\<exists>op. fe_error fe op \<noteq> None)"
  by (auto simp: store_certs_def write_file_def Let_def split: option.splits)

text \<open>The agent's side when the handler issues a certificate, and when it refuses.\<close>

definition agent_request :: "conn_config \<Rightarrow> http_request \<Rightarrow> http_request" where
  "agent_request cfg r = r\<lparr>hr_body := json_text (JObj [(''agent_secret'', JStr (cc_secret cfg))])\<rparr>"

lemma Enroll_answered:
  assumes "cc_http_addr cfg \<noteq> []"
    and "fst (EnrollHandler_Enroll pk secret now cn key (agent_request cfg r) la) = res"
    and "\<forall>m. res \<noteq> Inl (200, m)"
  shows "Enroll fe (enroll_exchange status pk secret now cn key r la) (cfg, fs) =
     (case res of
        Inl (code, m) \<Rightarrow> (Inl (''enroll: server returned '' @ status code), (cfg, fs))
      | Inr j \<Rightarrow> (case decode_certs fe (Inr (json_text j @ [CHR 0x0A])) of
          Inl e \<Rightarrow> (Inl (''enroll: failed to decode response: '' @ e), (cfg, fs))
        | Inr certs \<Rightarrow> (case fe_error fe (MakeDirs (cc_state_dir cfg)) of
            Some e \<Rightarrow> (Inl (''enroll: failed to create state dir: '' @ e), (cfg, fs))
          | None \<Rightarrow> store_certs fe certs (cfg, fs))))"
  using assms
  by (cases res) (auto simp: Enroll_def Let_def enroll_exchange_def agent_request_def simp del: json_text.simps)

lemma EnrollHandler_answers:
  assumes "Allow now (clientIP r) (fst la) = (ok, rl1)"
    and "IssueCertificate pk now key (''arkeep-agent-'' @ cn) (snd la) = (outcome, ac1)"
  shows "EnrollHandler_Enroll pk secret now cn key (agent_request cfg r) la =
    (if \<not> ok then (Inl (429, ''rate limit exceeded '' @ dash @ '' max 10 enrollment requests per minute per IP''), (rl1, snd la))
     else if secret \<noteq> [] \<and> cc_secret cfg \<noteq> secret then (Inl (403, ''forbidden''), (rl1, snd la))
     else (case outcome of
             Inl e \<Rightarrow> (Inl (500, ''internal server error''), (rl1, ac1))
           | Inr (cert, ckey) \<Rightarrow> (Inr (enroll_json (ac_ca_cert_pem (snd la)) cert ckey), (rl1, ac1))))"
proof -
  have pem: "ac_ca_cert_pem ac1 = ac_ca_cert_pem (snd la)" if "outcome = Inr x" for x
    using assms(2) that by (auto simp: IssueCertificate_def Let_def bind_err_def split: option.splits)
  have "hr_body (agent_request cfg r) = json_text (JObj [(''agent_secret'', JStr (cc_secret cfg))])"
    "clientIP (agent_request cfg r) = clientIP r"
    by (simp_all add: agent_request_def del: json_text.simps)
  then show ?thesis
    using assms pem
    by (cases ok; cases outcome) (auto simp: EnrollHandler_Enroll_def agent_body_decodes simp del: json_text.simps)
qed

text \<open>C13: enrollment from end to end, whatever the limiter, the authority and the file system do.  An agent whose
enrollment succeeds knew the secret (or there is none), was let in by the limiter, and ends up with the authority's
certificate and exactly the certificate and key issued to it in its files, and its configuration names them.  An
enrollment that fails leaves the configuration as it was, and it fails only without an address, with another secret,
by the limiter, by the authority or by the file system; with another secret the files stay as they are, and no
serial number is used up.\<close>

theorem enrollment_end_to_end:
  "case Enroll fe (enroll_exchange status pk secret now cn key r (rl, ac)) (cfg, fs) of
     (Inr _, (cfg', fs')) \<Rightarrow> (secret = [] \<or> cc_secret cfg = secret) \<and> fst (Allow now (clientIP r) rl) \<and>
        (\<exists>cert ckey ac1. IssueCertificate pk now key (''arkeep-agent-'' @ cn) ac = (Inr (cert, ckey), ac1) \<and>
          map_of fs' (cc_tls_ca cfg') = Some (ac_ca_cert_pem ac) \<and>
          map_of fs' (cc_client_cert cfg') = Some cert \<and> map_of fs' (cc_client_key cfg') = Some ckey)
   | (Inl e, (cfg', fs')) \<Rightarrow> cfg' = cfg \<and>
        (cc_http_addr cfg = [] \<or> secret \<noteq> [] \<and> cc_secret cfg \<noteq> secret \<or> \<not> fst (Allow now (clientIP r) rl) \<or>
         (\<exists>m. fst (IssueCertificate pk now key (''arkeep-agent-'' @ cn) ac) = Inl m) \<or>
         (\<exists>op. fe_error fe op \<noteq> None)) \<and>
        (if secret \<noteq> [] \<and> cc_secret cfg \<noteq> secret
         then fs' = fs \<and> snd (snd (EnrollHandler_Enroll pk secret now cn key
           (agent_request cfg r) (rl, ac))) = ac
         else True)"
proof -
  obtain ok rl1 where allow: "Allow now (clientIP r) (fst (rl, ac)) = (ok, rl1)" by fastforce
  obtain outcome ac1 where issue: "IssueCertificate pk now key (''arkeep-agent-'' @ cn) (snd (rl, ac)) = (outcome, ac1)"
    by fastforce
  note answers = EnrollHandler_answers[OF allow issue, of secret cfg]
  obtain res cfg' fs' where run: "Enroll fe (enroll_exchange status pk secret now cn key r (rl, ac)) (cfg, fs) =
      (res, (cfg', fs'))" by (metis surj_pair)
  show ?thesis
  proof (cases "cc_http_addr cfg = [] \<or> \<not> ok \<or> secret \<noteq> [] \<and> cc_secret cfg \<noteq> secret \<or> (\<exists>m. outcome = Inl m)")
    case True
    then have "(\<exists>m. res = Inl m) \<and> cfg' = cfg \<and> fs' = fs"
      using run Enroll_answered[where fe = fe and status = status and fs = fs, OF _ answers[THEN arg_cong[of _ _ fst]]]
      by (cases "cc_http_addr cfg = []") (auto simp: Enroll_def split: if_splits)
    with True answers allow issue show ?thesis unfolding run by auto
  next
    case False
    then obtain cert ckey where i: "outcome = Inr (cert, ckey)" by (cases outcome) auto
    have run': "(res, (cfg', fs')) = (case fe_error fe (MakeDirs (cc_state_dir cfg)) of
        Some e \<Rightarrow> (Inl (''enroll: failed to create state dir: '' @ e), (cfg, fs))
      | None \<Rightarrow> store_certs fe (ac_ca_cert_pem ac, cert, ckey) (cfg, fs))"
      using False i run Enroll_answered[where fe = fe and status = status and fs = fs, OF _ answers[THEN arg_cong[of _ _ fst]]]
      by (auto simp: server_body_decodes)
    show ?thesis
      using run' False allow issue i store_certs_stored store_certs_failed unfolding run
      by (cases res) (auto split: option.splits)
  qed
qed

definition demo_agent_config :: conn_config where
  "demo_agent_config = \<lparr>cc_secret = ''s3cret'', cc_state_dir = ''/var'', cc_version = [], cc_docker = False,
     cc_tls_ca = [], cc_client_cert = [], cc_client_key = [], cc_http_addr = ''http://h'', cc_insecure = False\<rparr>"

definition demo_post :: http_request where
  "demo_post = \<lparr>hr_header = (\<lambda>_. []), hr_params = (\<lambda>_. []), hr_query = (\<lambda>_. []), hr_cookie = (\<lambda>_. None),
     hr_body = [], hr_remote_addr = ''10.0.0.1:99'', hr_host = [], hr_tls = False\<rparr>"

theorem enrollment_end_to_end_witness:
  "\<exists>cert cfg' fs'. Enroll demo_file_env (enroll_exchange (\<lambda>_. []) demo_pki ''s3cret'' 0 ''x'' (Some ''k'') demo_post
       (enrollLimiter, demo_authority 2)) (demo_agent_config, []) = (Inr (), (cfg', fs')) \<and>
     map_of fs' (cc_client_cert cfg') = Some cert \<and> certificate_serial demo_pki cert = Some 3"
proof -
  let ?E = "Enroll demo_file_env (enroll_exchange (\<lambda>_. []) demo_pki ''s3cret'' 0 ''x'' (Some ''k'') demo_post
    (enrollLimiter, demo_authority 2)) (demo_agent_config, [])"
  obtain cert ckey ac1 where i: "IssueCertificate demo_pki 0 (Some ''k'') (''arkeep-agent-'' @ ''x'') (demo_authority 2) =
      (Inr (cert, ckey), ac1)"
    by (simp add: IssueCertificate_def demo_pki_def demo_authority_def bind_err_def ecKeyToPEM_def
        client_template_def ca_template_def)
  have serial: "certificate_serial demo_pki cert = Some 3"
    using issue_serial[OF demo_pki_signs i] by (simp add: demo_authority_def)
  have working: "fe_error demo_file_env op = None" for op by (simp add: demo_file_env_def)
  have addr: "cc_http_addr demo_agent_config \<noteq> []" by (simp add: demo_agent_config_def)
  have allowed: "fst (Allow 0 (clientIP demo_post) enrollLimiter)"
    by (simp add: Allow_def enrollLimiter_def NewRateLimiter_def Let_def)
  obtain res cfg' fs' where e: "?E = (res, (cfg', fs'))" by (metis surj_pair)
  note end_to_end = enrollment_end_to_end[where fs = "[]" and status = "\<lambda>_. []" and secret = "''s3cret''" and
      fe = demo_file_env and pk = demo_pki and now = 0 and cn = "''x''" and key = "Some ''k''" and r = demo_post and
      rl = enrollLimiter and ac = "demo_authority 2" and cfg = demo_agent_config, unfolded e]
  have secret: "cc_secret demo_agent_config = ''s3cret''" by (simp add: demo_agent_config_def)
  show ?thesis
  proof (cases res)
    case (Inl m)
    with end_to_end working addr allowed i secret show ?thesis by simp
  next
    case (Inr u)
    with end_to_end e i serial show ?thesis by auto
  qed
qed

end
