(* ===== verification/RestoreProofs.thy ===== *)
theory RestoreProofs
  imports ApiSnapshots PayloadRoundtrip
begin

text \<open>From the API to the agent: what a restore request creates, sends, and what the executor reads out of it.\<close>

section \<open>The payload\<close>

lemma restore_wf: "json_wf (restore_json sn p target d)"
  by (simp add: restore_json_def restore_dest_json_def jmap_wf)

definition restored_payload :: "snapshot \<Rightarrow> policy \<Rightarrow> string \<Rightarrow> destination \<Rightarrow> restorePayload" where
  "restored_payload sn p target d = \<lparr>rs_snapshot_id = snap_snapshot_id sn, rs_repo_password = pol_repo_password p,
     rs_target_path = target, rs_destination = zero_dest\<lparr>dp_destination_id := ID d, dp_type := dst_type d,
        dp_repo_url := BuildRepoURL d, dp_env := sort_key fst (BuildEnv d)\<rparr>\<rparr>"

lemma dec_restore_dest:
  "dec_dest (restore_dest_json d) zero_dest = Some (rs_destination (restored_payload sn p target d))"
  by (simp add: dec_dest_def restore_dest_json_def dec_dest_from_def zero_dest_def restored_payload_def
      field_simps_json dec_map_jmap BuildEnv_keys)

lemma restore_decodes:
  "unmarshal_struct dec_restore (json_text (restore_json sn p target d)) = Some (restored_payload sn p target d)"
proof -
  have "unmarshal_struct dec_restore (json_text (restore_json sn p target d)) =
      dec_restore [(''restic_snapshot_id'', JStr (snap_snapshot_id sn)),
        (''repo_password'', JStr (pol_repo_password p)), (''target_path'', JStr target),
        (''destination'', restore_dest_json d)]"
    using json_parse_text[OF restore_wf, of sn p target d]
    by (simp add: unmarshal_struct_def restore_json_def del: json_text.simps)
  also have "\<dots> = Some (restored_payload sn p target d)"
    using dec_restore_dest[of d sn p target]
    by (simp add: dec_restore_def field_simps_json restored_payload_def)
  finally show ?thesis .
qed

section \<open>The request\<close>

lemma mgr_Dispatch_sent:
  "case mgr_Dispatch send_ok a x m of
     (Inl e, m') \<Rightarrow> m' = m
   | (Inr _, m') \<Rightarrow> \<exists>ag. map_of (mgr_agents m) a = Some ag \<and> mgr_sent m' = mgr_sent m @ [(ca_stream ag, x)]"
  by (auto simp: mgr_Dispatch_def mgr_send_def split: option.split)

lemma jobs_Create_cases:
  "case jobs_Create now j s of
     (Inl e, s') \<Rightarrow> jobs s' = jobs s
   | (Inr v, s') \<Rightarrow> jobs s' = jobs s @ [v] \<and> (\<exists>i. v = stamp_new now ((job_defaults j)\<lparr>ID := i\<rparr>))"
  using jobs_tbl.create_cases[where chk = job_check and now = now and r = "job_defaults j" and s = s]
  by (auto simp: jobs_Create_def wrapped_def split: prod.splits sum.splits)

text \<open>What is found for a request: its agent and target, and the rows it refers to.\<close>

definition restore_found :: "api_env \<Rightarrow> http_request \<Rightarrow> store \<Rightarrow> uuid \<Rightarrow> string \<Rightarrow> snapshot \<Rightarrow> destination \<Rightarrow> policy \<Rightarrow> bool" where
  "restore_found env r s a target sn d p =
     (parseUUID env r ''id'' = Inr (ID sn) \<and> restore_input env r = Inr (a, target) \<and> sn \<in> set (snapshots s) \<and>
      d \<in> set (destinations s) \<and> ID d = snap_destination_id sn \<and> p \<in> set (policies s) \<and> live p \<and>
      ID p = snap_policy_id sn)"

text \<open>The lookups of the handler, in its order.\<close>

definition restore_lookup ::
  "snapshot \<Rightarrow> store \<Rightarrow> (reply + destination \<times> policy) \<times> store" where
  "restore_lookup sn s =
     (case destinations_GetByID (snap_destination_id sn) s of
        (Inl e, s2) \<Rightarrow> (Inl (missing_part ''destination'' e), s2)
      | (Inr d, s2) \<Rightarrow>
          (case policies_GetByID (snap_policy_id sn) s2 of
             (Inl e, s3) \<Rightarrow> (Inl (missing_part ''policy'' e), s3)
           | (Inr p, s3) \<Rightarrow> (Inr (d, p), s3)))"

lemma restore_lookup_cases:
  "case restore_lookup sn s of
     (Inl rep, s') \<Rightarrow> rp_status rep \<noteq> 200 \<and> jobs s' = jobs s
   | (Inr (d, p), s') \<Rightarrow> jobs s' = jobs s \<and> d \<in> set (destinations s) \<and> ID d = snap_destination_id sn \<and>
       p \<in> set (policies s) \<and> live p \<and> ID p = snap_policy_id sn"
proof -
  obtain x s2 where g: "destinations_GetByID (snap_destination_id sn) s = (x, s2)" by fastforce
  have f: "jobs s2 = jobs s" "policies s2 = policies s"
    using destinations_GetByID_frame[of jobs "snap_destination_id sn" s]
      destinations_GetByID_frame[of policies "snap_destination_id sn" s] g by simp_all
  obtain y s3 where h: "policies_GetByID (snap_policy_id sn) s2 = (y, s3)" by fastforce
  have f3: "jobs s3 = jobs s2"
    using db_first_frame[of jobs policies "\<lambda>p. ID p = snap_policy_id sn \<and> live p" s2] h
    by (simp add: policies_GetByID_def)
  have d: "d \<in> set (destinations s) \<and> ID d = snap_destination_id sn" if "x = Inr d" for d
    using destinations_tbl.first_Inr[of "\<lambda>d. ID d = snap_destination_id sn" s d s2] g that
    by (simp add: destinations_GetByID_def)
  have p: "p \<in> set (policies s) \<and> live p \<and> ID p = snap_policy_id sn" if "y = Inr p" for p
    using policies_tbl.first_Inr[of "\<lambda>p. ID p = snap_policy_id sn \<and> live p" s2 p s3] h that f
    by (simp add: policies_GetByID_def)
  show ?thesis
    using g h f f3 d p
    by (cases x; cases y) (auto simp: restore_lookup_def missing_part_def)
qed

lemma Restore_run:
  assumes "parseUUID env r ''id'' = Inr i" "restore_input env r = Inr (a, target)"
    "snapshots_GetByID i s = (Inr sn, s1)" "restore_lookup sn s1 = (Inr (d, p), s3)"
  shows "SnapshotHandler_Restore env send_ok now c r (s, m) =
     (case jobs_Create now (restore_job sn a) s3 of
        (Inl e, s4) \<Rightarrow> (InternalError, (s4, m))
      | (Inr j, s4) \<Rightarrow>
     (case mgr_Dispatch send_ok a (restore_assignment now j sn p target d) m of
        (Inl e, m1) \<Rightarrow>
          (ServiceUnavailable (''agent is not connected '' @ dash @ '' ensure the agent is online and try again''),
           (s4, m1))
      | (Inr _, m1) \<Rightarrow>
          (Ok (JObj [(''job_id'', JStr (ID j))]),
           (logAudit env now r c ''snapshot.restore'' ''snapshot'' i
              [(''snapshot_id'', JStr (snap_snapshot_id sn)),
               (''destination_id'', JStr (snap_destination_id sn)),
               (''target_path'', JStr target), (''agent_id'', JStr a)] s4, m1))))"
  using assms
  by (auto simp: SnapshotHandler_Restore_def restore_lookup_def split: prod.splits sum.splits)

lemma Restore_stop:
  assumes "parseUUID env r ''id'' = Inr i" "restore_input env r = Inr (a, target)"
    "snapshots_GetByID i s = (Inr sn, s1)" "restore_lookup sn s1 = (Inl rep, s3)"
  shows "SnapshotHandler_Restore env send_ok now c r (s, m) = (rep, (s3, m))"
  using assms
  by (auto simp: SnapshotHandler_Restore_def restore_lookup_def split: prod.splits sum.splits)

lemma restore_bad: "restore_input env r = Inl rep \<Longrightarrow> rp_status rep \<noteq> 200"
  by (auto simp: restore_input_def split: option.splits if_splits)

lemma Restore_found:
  assumes "parseUUID env r ''id'' = Inr i" "restore_input env r = Inr (a, target)"
    "snapshots_GetByID i s = (Inr sn, s1)" "restore_lookup sn s1 = (Inr (d, p), s3)"
  shows "restore_found env r s a target sn d p" "jobs s3 = jobs s"
proof -
  have f: "jobs s1 = jobs s" "destinations s1 = destinations s" "policies s1 = policies s"
    using db_first_frame[of jobs snapshots "\<lambda>n. ID n = i" s]
      db_first_frame[of destinations snapshots "\<lambda>n. ID n = i" s]
      db_first_frame[of policies snapshots "\<lambda>n. ID n = i" s] assms(3) by (simp_all add: snapshots_GetByID_def)
  have sn: "sn \<in> set (snapshots s)" "ID sn = i"
    using snapshots_tbl.first_Inr[of "\<lambda>n. ID n = i" s sn s1] assms(3) by (simp_all add: snapshots_GetByID_def)
  note lc = restore_lookup_cases[where sn = sn and s = s1, unfolded assms(4)]
  show "restore_found env r s a target sn d p" "jobs s3 = jobs s"
    using lc f sn assms(1,2) by (simp_all add: restore_found_def)
qed

text \<open>What follows once everything is found: the job is created, and its assignment is sent.\<close>

lemma Restore_sends:
  assumes "parseUUID env r ''id'' = Inr i" "restore_input env r = Inr (a, target)"
    "snapshots_GetByID i s = (Inr sn, s1)" "restore_lookup sn s1 = (Inr (d, p), s3)"
  shows "case SnapshotHandler_Restore env send_ok now c r (s, m) of (rep, (s', m')) \<Rightarrow>
    (rp_status rep \<noteq> 200 \<and> mgr_sent m' = mgr_sent m) \<or>
    (rp_status rep = 200 \<and>
     (\<exists>j ag x. jobs s' = jobs s @ [j] \<and> job_agent_id j = a \<and> job_policy_id j = ID p \<and>
       job_type j = ''restore'' \<and> job_status j = ''pending'' \<and>
       map_of (mgr_agents m) a = Some ag \<and> mgr_sent m' = mgr_sent m @ [(ca_stream ag, x)] \<and>
       as_type x = KindRestore \<and> as_job_id x = ID j \<and>
       unmarshal_struct dec_restore (as_payload x) = Some (restored_payload sn p target d)))"
proof -
  note run = Restore_run[OF assms, where send_ok = send_ok and now = now and c = c and m = m]
  note found = Restore_found[OF assms]
  obtain z s4 where cr: "jobs_Create now (restore_job sn a) s3 = (z, s4)" by fastforce
  note cc = jobs_Create_cases[where now = now and j = "restore_job sn a" and s = s3, unfolded cr]
  show ?thesis
  proof (cases z)
    case (Inl e)
    with run cr show ?thesis by simp
  next
    case (Inr j)
    note z = Inr
    with cc found(2) obtain k where j: "jobs s4 = jobs s @ [j]"
      "j = stamp_new now ((job_defaults (restore_job sn a))\<lparr>ID := k\<rparr>)" by auto
    let ?x = "restore_assignment now j sn p target d"
    have job: "job_agent_id j = a" "job_policy_id j = ID p" "job_type j = ''restore''"
      "job_status j = ''pending''"
      using found(1) by (simp_all add: j(2) stamp_new_def job_defaults_def restore_job_def restore_found_def)
    have pay: "as_type ?x = KindRestore" "as_job_id ?x = ID j"
      "unmarshal_struct dec_restore (as_payload ?x) = Some (restored_payload sn p target d)"
      using restore_decodes by (simp_all add: restore_assignment_def)
    obtain w m1 where dd: "mgr_Dispatch send_ok a ?x m = (w, m1)" by fastforce
    note dc = mgr_Dispatch_sent[where send_ok = send_ok and a = a and x = ?x and m = m, unfolded dd]
    show ?thesis
    proof (cases w)
      case (Inl e)
      with run cr z dd dc show ?thesis by simp
    next
      case (Inr u)
      with dc obtain ag where "map_of (mgr_agents m) a = Some ag"
        "mgr_sent m1 = mgr_sent m @ [(ca_stream ag, ?x)]" by auto
      then show ?thesis using run cr z dd Inr j(1) job pay by auto
    qed
  qed
qed

text \<open>A restore request that is answered with 200 has created one pending restore job for the requested agent,
and sent exactly one message, on that agent's stream: the assignment of that job, whose payload the agent decodes to
the snapshot's id, the password of the snapshot's own policy, the requested path and the snapshot's own destination.
Any other answer has sent nothing.\<close>

theorem restore_dispatched:
  "let (rep, (s', m')) = SnapshotHandler_Restore env send_ok now c r (s, m) in
   (rp_status rep \<noteq> 200 \<and> mgr_sent m' = mgr_sent m) \<or>
   (rp_status rep = 200 \<and>
    (\<exists>a target sn d p j ag x. restore_found env r s a target sn d p \<and>
      jobs s' = jobs s @ [j] \<and> job_agent_id j = a \<and> job_policy_id j = ID p \<and>
      job_type j = ''restore'' \<and> job_status j = ''pending'' \<and>
      map_of (mgr_agents m) a = Some ag \<and> mgr_sent m' = mgr_sent m @ [(ca_stream ag, x)] \<and>
      as_type x = KindRestore \<and> as_job_id x = ID j \<and>
      unmarshal_struct dec_restore (as_payload x) = Some (restored_payload sn p target d)))"
proof (cases "parseUUID env r ''id''")
  case (Inl bad)
  then have "rp_status bad \<noteq> 200" by (auto simp: parseUUID_def split: option.splits)
  with Inl show ?thesis by (simp add: SnapshotHandler_Restore_def)
next
  case (Inr i)
  note id = Inr
  show ?thesis
  proof (cases "restore_input env r")
    case (Inl bad)
    with id restore_bad[OF Inl] show ?thesis by (simp add: SnapshotHandler_Restore_def)
  next
    case (Inr at)
    then obtain a target where inp: "restore_input env r = Inr (a, target)" by (cases at) auto
    obtain x s1 where g: "snapshots_GetByID i s = (x, s1)" by fastforce
    show ?thesis
    proof (cases x)
      case (Inl e)
      with id inp g show ?thesis by (simp add: SnapshotHandler_Restore_def not_found_or_internal_def)
    next
      case (Inr sn)
      with g have g: "snapshots_GetByID i s = (Inr sn, s1)" by simp
      obtain y s3 where l: "restore_lookup sn s1 = (y, s3)" by fastforce
      show ?thesis
      proof (cases y)
        case (Inl rep)
        with restore_lookup_cases[where sn = sn and s = s1] Restore_stop[OF id inp g] l show ?thesis by simp
      next
        case (Inr dp)
        obtain d p where "dp = (d, p)" by (cases dp)
        with l Inr have l: "restore_lookup sn s1 = (Inr (d, p), s3)" by simp
        show ?thesis
          using Restore_sends[OF id inp g l, where send_ok = send_ok and now = now and c = c and m = m] Restore_found(1)[OF id inp g l]
          unfolding Let_def by (auto split: prod.splits) (blast | metis)+
      qed
    qed
  qed
qed

end
