(* ===== verification/ApiSettingsProofs.thy ===== *)
theory ApiSettingsProofs
  imports ApiSettings
begin

text \<open>What an administrator saves as the mail server is what the notification service reads.\<close>

section \<open>The table of settings\<close>

lemma settingsIndex_append:
  "settingsIndex (xs @ [x]) k = (if set_key x = k then set_value x else settingsIndex xs k)"
  by (simp add: settingsIndex_def)

lemma settingsIndex_Nil: "settingsIndex [] k = []"
  by (simp add: settingsIndex_def)

lemma settingsIndex_filter:
  assumes "\<And>x. set_key x = k \<Longrightarrow> P x"
  shows "settingsIndex (filter P xs) k = settingsIndex xs k"
  using assms by (induction xs rule: rev_induct) (auto simp: settingsIndex_append settingsIndex_Nil)

lemma settingsIndex_update:
  assumes "set_key x = k"
  shows "settingsIndex (update_where (\<lambda>y. set_key y = k) (\<lambda>_. x) xs) k' =
     (if k' = k \<and> (\<exists>y\<in>set xs. set_key y = k) then set_value x else settingsIndex xs k')"
  using assms by (induction xs rule: rev_induct) (auto simp: settingsIndex_append settingsIndex_Nil)

lemma keys_update:
  "set_key x = k \<Longrightarrow> set_key ` set (update_where (\<lambda>y. set_key y = k) (\<lambda>_. x) xs) = set_key ` set xs"
  by (induction xs) auto

lemma settings_Set_healthy:
  assumes "faults s = []"
  shows "fst (settings_Set now k v s) = Inr ()" "faults (snd (settings_Set now k v s)) = []"
    "settingsIndex (settings (snd (settings_Set now k v s))) k' =
       (if k' = k then v else settingsIndex (settings s) k')"
    "set_key ` set (settings (snd (settings_Set now k v s))) = insert k (set_key ` set (settings s))"
proof -
  let ?x = "\<lparr>set_key = k, set_value = v, set_updated_at = now\<rparr>"
  have run: "settings_Set now k v s =
     (if \<exists>y\<in>set (settings s). set_key y = k
      then (Inr (), s\<lparr>settings := update_where (\<lambda>y. set_key y = k) (\<lambda>_. ?x) (settings s)\<rparr>)
      else (Inr (), s\<lparr>settings := settings s @ [?x]\<rparr>))"
    using assms update_where_none[of "settings s" "\<lambda>y. set_key y = k" "\<lambda>_. ?x"]
    by (auto simp: settings_Set_def Let_def)
  show "fst (settings_Set now k v s) = Inr ()" "faults (snd (settings_Set now k v s)) = []"
    using assms by (simp_all add: run)
  show "settingsIndex (settings (snd (settings_Set now k v s))) k' =
       (if k' = k then v else settingsIndex (settings s) k')"
    using settingsIndex_update[of ?x k "settings s" k'] by (auto simp: run settingsIndex_append)
  show "set_key ` set (settings (snd (settings_Set now k v s))) = insert k (set_key ` set (settings s))"
    using keys_update[of ?x k "settings s"] by (auto simp: run)
qed

text \<open>The last value written wins.\<close>

fun last_value :: "(string \<times> string) list \<Rightarrow> (string \<Rightarrow> string) \<Rightarrow> string \<Rightarrow> string" where
  "last_value [] d k = d k"
| "last_value ((k', v) # kvs) d k = last_value kvs (d(k' := v)) k"

lemma save_pairs_healthy:
  assumes "faults s = []"
  shows "\<exists>s'. save_pairs now kvs s = (Inr (), s') \<and> faults s' = [] \<and>
     (\<forall>k. settingsIndex (settings s') k = last_value kvs (settingsIndex (settings s)) k) \<and>
     set_key ` set (settings s') = fst ` set kvs \<union> set_key ` set (settings s)"
  using assms
proof (induction kvs arbitrary: s)
  case Nil
  then show ?case by auto
next
  case (Cons kv kvs)
  obtain k v where kv: "kv = (k, v)" by (cases kv)
  obtain u s1 where r: "settings_Set now k v s = (u, s1)" by fastforce
  note h = settings_Set_healthy[OF Cons.prems, where now = now and k = k and v = v, unfolded r, simplified]
  have idx: "settingsIndex (settings s1) = (settingsIndex (settings s))(k := v)" using h(3) by auto
  obtain s' where s': "save_pairs now kvs s1 = (Inr (), s')" "faults s' = []"
    "\<forall>k. settingsIndex (settings s') k = last_value kvs (settingsIndex (settings s1)) k"
    "set_key ` set (settings s') = fst ` set kvs \<union> set_key ` set (settings s1)"
    using Cons.IH[OF h(2)] by blast
  have keys: "set_key ` set (settings s') = fst ` set (kv # kvs) \<union> set_key ` set (settings s)"
    using s'(4) h(4) kv by auto
  have "save_pairs now (kv # kvs) s = (Inr (), s')" using kv r h(1) s'(1) by simp
  moreover have "\<forall>k'. settingsIndex (settings s') k' = last_value (kv # kvs) (settingsIndex (settings s)) k'"
    using s'(3) idx kv by simp
  ultimately show ?case using s'(2) keys by blast
qed

section \<open>Numbers and lists\<close>

lemma atoi_int_text: "int64_ok n \<Longrightarrow> 0 < n \<Longrightarrow> atoi (int_text n) = Some n"
proof -
  assume n: "int64_ok n" "0 < n"
  have p: "parse_int (int_text n) = Some n" using dec_int_jint[OF n(1), of 0] by (simp add: dec_int_def jint_def)
  have "list_all is_digit (int_text n)" using n(2) nat_text_digits by (simp add: int_text_def)
  moreover have "\<not> is_digit (CHR ''+'')" by (simp add: is_digit_def)
  ultimately show ?thesis using p by (cases "int_text n") (auto simp: atoi_def parse_int_def)
qed

section \<open>What the notification service reads\<close>

text \<open>Addresses that survive being joined with commas.\<close>

definition clean_recipients :: "string list \<Rightarrow> bool" where
  "clean_recipients rs = list_all (\<lambda>r. r \<noteq> [] \<and> trim_space r = r \<and> CHR '','' \<notin> set r) rs"

lemma GetMany_healthy:
  "faults s = [] \<Longrightarrow> settings_GetMany p s = (Inr (filter (\<lambda>x. starts_with p (set_key x)) (settings s)), s)"
  by (simp add: settings_GetMany_def db_find_def)

lemma GetMany_index:
  "starts_with p k \<Longrightarrow> settingsIndex (filter (\<lambda>x. starts_with p (set_key x)) xs) k = settingsIndex xs k"
  by (rule settingsIndex_filter) simp

lemma audit_Create_healthy: "faults s = [] \<Longrightarrow> faults (snd (audit_Create now e s)) = []"
  by (auto simp: audit_Create_def Let_def split: list.split)

lemma logAudit_healthy: "faults s = [] \<Longrightarrow> faults (logAudit env now r c a t i d s) = []"
  by (simp add: logAudit_def logAuditDirect_def audit_Create_healthy split: option.split)

lemma found_prefix:
  assumes "k \<in> set_key ` set xs" "starts_with p k"
  shows "filter (\<lambda>x. starts_with p (set_key x)) xs \<noteq> []"
proof -
  obtain x where "x \<in> set xs" "set_key x = k" using assms(1) by (metis imageE)
  with assms(2) have "x \<in> set (filter (\<lambda>x. starts_with p (set_key x)) xs)" by simp
  then show ?thesis by (metis empty_iff empty_set)
qed

lemma loadSMTP_healthy:
  assumes "faults s = []" "''smtp.host'' \<in> set_key ` set (settings s)"
  shows "fst (loadSMTPConfig s) = smtp_config_of (settingsIndex
     (filter (\<lambda>x. starts_with ''smtp.'' (set_key x)) (settings s)))"
proof -
  have "filter (\<lambda>x. starts_with ''smtp.'' (set_key x)) (settings s) \<noteq> []"
    by (rule found_prefix[OF assms(2)]) simp
  with assms(1) show ?thesis by (simp add: loadSMTPConfig_def GetMany_healthy)
qed

definition saved_config :: "smtp_request \<Rightarrow> string \<Rightarrow> smtp_config" where
  "saved_config req old_password = \<lparr>sc_host = sr_host req, sc_port = sr_port req, sc_username = sr_username req,
     sc_password = (if sr_username req = [] then [] else if sr_password req = [] then old_password
                    else sr_password req),
     sc_from = sr_from req, sc_tls = sr_tls req\<rparr>"

lemma recipients_read:
  assumes "faults s = []" "''notification.recipients'' \<in> set_key ` set (settings s)"
    "settingsIndex (settings s) ''notification.recipients'' = join_with '','' rs" "clean_recipients rs"
  shows "fst (configuredRecipients s) = rs"
proof -
  have ne: "filter (\<lambda>x. starts_with ''notification.'' (set_key x)) (settings s) \<noteq> []"
    by (rule found_prefix[OF assms(2)]) simp
  have idx: "settingsIndex (filter (\<lambda>x. starts_with ''notification.'' (set_key x)) (settings s))
      ''notification.recipients'' = join_with '','' rs"
    using assms(3) GetMany_index[of "''notification.''" "''notification.recipients''" "settings s"] by simp
  have run: "fst (configuredRecipients s) =
      (if join_with '','' rs = [] then []
       else filter (\<lambda>r. r \<noteq> []) (map trim_space (split_on CHR '','' (join_with '','' rs))))"
    using assms(1) ne idx by (simp add: configuredRecipients_def GetMany_healthy Let_def)
  show ?thesis
  proof (cases rs)
    case Nil
    then show ?thesis by (simp add: run)
  next
    case (Cons r rest)
    have "split_on CHR '','' (join_with '','' rs) = rs"
      by (rule split_join_with) (use assms(4) Cons in \<open>auto simp: clean_recipients_def list_all_iff\<close>)
    moreover have "map trim_space rs = rs" "filter (\<lambda>r. r \<noteq> []) rs = rs"
      using assms(4) by (auto simp: clean_recipients_def list_all_iff intro: map_idI)
    moreover have "join_with '','' rs \<noteq> []"
      using assms(4) Cons by (cases rest) (auto simp: clean_recipients_def)
    ultimately show ?thesis by (simp add: run)
  qed
qed

lemma smtp_values:
  "last_value (smtp_pairs req) d ''smtp.host'' = sr_host req"
  "last_value (smtp_pairs req) d ''smtp.port'' = int_text (sr_port req)"
  "last_value (smtp_pairs req) d ''smtp.username'' = sr_username req"
  "last_value (smtp_pairs req) d ''smtp.from'' = sr_from req"
  "last_value (smtp_pairs req) d ''smtp.tls'' = (if sr_tls req then ''true'' else ''false'')"
  "last_value (smtp_pairs req) d ''notification.recipients'' = join_with '','' (request_recipients req)"
  "last_value (smtp_pairs req) d ''smtp.password'' =
     (if sr_username req = [] then [] else if sr_password req = [] then d ''smtp.password'' else sr_password req)"
  by (simp_all add: smtp_pairs_def)

text \<open>What an administrator saves is what the notification service uses.  On a working database a valid request is
answered with 200, and from then on the service loads exactly the requested mail server: with no password when there
is no user name, the given one when there is one, and the stored one otherwise; and it mails to exactly the given
recipients.\<close>

theorem smtp_settings_roundtrip:
  assumes "faults s = []" "decodeJSON smtp_fields dec_smtp r = Inr req" "validateUpsertSMTP req = None"
    "SettingsHandler_UpsertSMTP env now c r s = (rep, s')"
  shows "rp_status rep = 200 \<and>
    fst (loadSMTPConfig s') = Inr (saved_config req (settingsIndex (settings s) ''smtp.password'')) \<and>
    (clean_recipients (request_recipients req) \<longrightarrow> fst (configuredRecipients s') = request_recipients req)"
proof -
  obtain s1 where s1: "save_pairs now (smtp_pairs req) s = (Inr (), s1)" "faults s1 = []"
    "\<forall>k. settingsIndex (settings s1) k = last_value (smtp_pairs req) (settingsIndex (settings s)) k"
    "set_key ` set (settings s1) = fst ` set (smtp_pairs req) \<union> set_key ` set (settings s)"
    using save_pairs_healthy[OF assms(1)] by blast
  have run: "rp_status rep = 200" "settings s' = settings s1" "faults s' = []"
    using assms(2,3,4) s1(1,2)
    by (auto simp: SettingsHandler_UpsertSMTP_def logAudit_healthy)
  have keys: "''smtp.host'' \<in> set_key ` set (settings s')" "''notification.recipients'' \<in> set_key ` set (settings s')"
    using s1(4) run(2) by (simp_all add: smtp_pairs_def)
  have idx: "settingsIndex (filter (\<lambda>x. starts_with ''smtp.'' (set_key x)) (settings s')) k =
      last_value (smtp_pairs req) (settingsIndex (settings s)) k" if "starts_with ''smtp.'' k" for k
    using that s1(3) run(2) GetMany_index by simp
  have v: "sr_host req \<noteq> []" "1 \<le> sr_port req" "sr_port req \<le> 65535" "sr_from req \<noteq> []"
    using assms(3) by (auto simp: validateUpsertSMTP_def split: if_splits)
  then have port: "atoi (int_text (sr_port req)) = Some (sr_port req)" "int_text (sr_port req) \<noteq> []"
    using atoi_int_text[of "sr_port req"] by (auto simp: int64_ok_def atoi_def)
  have "fst (loadSMTPConfig s') = Inr (saved_config req (settingsIndex (settings s) ''smtp.password''))"
    unfolding loadSMTP_healthy[OF run(3) keys(1)] smtp_config_of_def
    using v port by (simp add: idx smtp_values saved_config_def)
  moreover have "clean_recipients (request_recipients req) \<longrightarrow> fst (configuredRecipients s') = request_recipients req"
    using recipients_read[OF run(3) keys(2)] s1(3) run(2) by (simp add: smtp_values)
  ultimately show ?thesis using run(1) by simp
qed

definition demo_smtp :: smtp_request where
  "demo_smtp = \<lparr>sr_host = ''mx'', sr_port = 25, sr_username = [], sr_password = [], sr_from = ''a@b'',
     sr_tls = False, sr_recipients = Some [''c@d'', ''e@f'']\<rparr>"

definition smtp_body :: "smtp_request \<Rightarrow> json" where
  "smtp_body req = JObj [(''host'', JStr (sr_host req)), (''port'', jint (sr_port req)),
     (''from'', JStr (sr_from req)), (''recipients'', JArr (map JStr (request_recipients req)))]"

definition demo_request :: "string \<Rightarrow> http_request" where
  "demo_request body = \<lparr>hr_header = (\<lambda>_. []), hr_params = (\<lambda>_. []), hr_query = (\<lambda>_. []), hr_cookie = (\<lambda>_. None),
     hr_body = body, hr_remote_addr = [], hr_host = [], hr_tls = False\<rparr>"

lemma decodeJSON_text:
  assumes "json_wf (JObj kvs)" "hr_body r = json_text (JObj kvs)" "length (json_text (JObj kvs)) \<le> maxBody"
    "known_fields names kvs" "dec kvs = Some a"
  shows "decodeJSON names dec r = Inr a"
proof -
  have "json_parse (json_text (JObj kvs)) = Some (JObj kvs)" by (rule json_parse_text[OF assms(1)])
  then obtain rest where "json_value (2 * length (json_text (JObj kvs)) + 2) (json_text (JObj kvs)) = Some (JObj kvs, rest)"
    unfolding json_parse_def by (auto simp del: json_text.simps split: option.splits if_splits)
  moreover have "take maxBody (hr_body r) = json_text (JObj kvs)" using assms(2,3) by simp
  ultimately show ?thesis using assms(4,5) unfolding decodeJSON_def Let_def by simp
qed

lemma demo_decode: "decodeJSON smtp_fields dec_smtp (demo_request (json_text (smtp_body demo_smtp))) = Inr demo_smtp"
proof -
  let ?kvs = "[(''host'', JStr ''mx''), (''port'', jint 25), (''from'', JStr ''a@b''),
     (''recipients'', JArr [JStr ''c@d'', JStr ''e@f''])]"
  have body: "smtp_body demo_smtp = JObj ?kvs" by (simp add: smtp_body_def demo_smtp_def request_recipients_def)
  have "length (json_text (JObj ?kvs)) \<le> maxBody"
    by (simp add: maxBody_def json_quote_def json_esc_def jint_def int_text_def nat_text.simps)
  moreover have "json_wf (JObj ?kvs)" by (simp add: jint_wf)
  moreover have "known_fields smtp_fields ?kvs" by (simp add: known_fields_def smtp_fields_def fold_key_def fold_char_def)
  moreover have "dec_smtp ?kvs = Some demo_smtp"
    by (simp add: dec_smtp_def fold_key_def fold_char_def dec_string_def dec_int_jint int64_ok_def dec_ptr_def
        dec_list_def demo_smtp_def)
  ultimately show ?thesis by (intro decodeJSON_text[where kvs = ?kvs]) (simp_all add: demo_request_def body del: json_text.simps)
qed

theorem smtp_settings_roundtrip_witness:
  "\<forall>env. fst (loadSMTPConfig (snd (SettingsHandler_UpsertSMTP env 5 None
      (demo_request (json_text (smtp_body demo_smtp))) empty_store))) =
     Inr \<lparr>sc_host = ''mx'', sc_port = 25, sc_username = [], sc_password = [], sc_from = ''a@b'', sc_tls = False\<rparr> \<and>
   fst (configuredRecipients (snd (SettingsHandler_UpsertSMTP env 5 None
      (demo_request (json_text (smtp_body demo_smtp))) empty_store))) = [''c@d'', ''e@f'']"
  (is "\<forall>env. ?P env")
proof (rule allI)
  fix env
  obtain rep s' where run: "SettingsHandler_UpsertSMTP env 5 None (demo_request (json_text (smtp_body demo_smtp)))
      empty_store = (rep, s')" by fastforce
  have "faults empty_store = []" by (simp add: empty_store_def)
  moreover have "validateUpsertSMTP demo_smtp = None" by (simp add: validateUpsertSMTP_def demo_smtp_def)
  moreover have "clean_recipients (request_recipients demo_smtp)"
    by (simp add: clean_recipients_def request_recipients_def demo_smtp_def trim_space_def is_space_def)
  ultimately show "?P env"
    using smtp_settings_roundtrip[OF _ demo_decode _ run] run
    by (simp add: saved_config_def request_recipients_def demo_smtp_def)
qed

end
