(* ===== verification/Extractor.thy ===== *)
theory Extractor
  imports Files Executor
begin

text \<open>The extraction of the embedded binaries (\<open>agent/internal/restic/extractor.go\<close>).  The embedded file system and
the platform are parameters; paths are those of Unix.\<close>

section \<open>Extraction\<close>

record platform =
  pf_os :: string
  pf_arch :: string

record embedded =
  em_open :: "string \<Rightarrow> string + string"
  em_stat :: "string \<Rightarrow> string option"

definition embeddedPath :: "platform \<Rightarrow> string \<Rightarrow> string + string" where
  "embeddedPath pf name =
     (if pf_os pf \<notin> {''linux'', ''darwin'', ''windows''}
      then Inl (''restic: unsupported OS '' @ go_quote (pf_os pf))
      else if pf_arch pf \<notin> {''amd64'', ''arm64''}
      then Inl (''restic: unsupported architecture '' @ go_quote (pf_arch pf))
      else (let filename = name @ ''_'' @ pf_os pf @ ''_'' @ pf_arch pf in
            Inr (filepath_Join ''bin'' (if pf_os pf = ''windows'' then filename @ ''.exe'' else filename))))"

definition binaryName :: "platform \<Rightarrow> string \<Rightarrow> string" where
  "binaryName pf name = (if pf_os pf = ''windows'' then name @ ''.exe'' else name)"

text \<open>The outcome of \<open>os.Chmod\<close>, which is not called on Windows.\<close>

definition setExecutable :: "platform \<Rightarrow> file_env \<Rightarrow> string option" where
  "setExecutable pf fe = (if pf_os pf = ''windows'' then None else fe_error fe ChmodTemp)"

text \<open>From the state directory to the rename.\<close>

definition write_binary ::
  "platform \<Rightarrow> file_env \<Rightarrow> string \<Rightarrow> string \<Rightarrow> string \<Rightarrow> string \<Rightarrow> files \<Rightarrow> (string + string) \<times> files" where
  "write_binary pf fe stateDir name destPath data fs =
     (let tmp = fe_temp fe; fs1 = map_put tmp data fs in
      case fe_error fe (MakeDirs stateDir) of
        Some e \<Rightarrow> (Inl (''restic: failed to create state dir '' @ go_quote stateDir @ '': '' @ e), fs)
      | None \<Rightarrow>
     (case fe_error fe (CreateTemp stateDir) of
        Some e \<Rightarrow> (Inl (''restic: failed to create temp file for '' @ name @ '': '' @ e), fs)
      | None \<Rightarrow>
     (case fe_error fe WriteTemp of
        Some e \<Rightarrow> (Inl (''restic: failed to write '' @ name @ '' binary: '' @ e),
                   discard_temp fe (map_put tmp (fe_partial fe) fs))
      | None \<Rightarrow>
     (case fe_error fe CloseTemp of
        Some e \<Rightarrow> (Inl (''restic: failed to close temp file for '' @ name @ '': '' @ e), discard_temp fe fs1)
      | None \<Rightarrow>
     (case setExecutable pf fe of
        Some e \<Rightarrow> (Inl (''restic: failed to set executable permission on '' @ name @ '': '' @ e), discard_temp fe fs1)
      | None \<Rightarrow>
     (case fe_error fe (Rename destPath) of
        Some e \<Rightarrow> (Inl (''restic: failed to move '' @ name @ '' binary to '' @ go_quote destPath @ '': '' @ e),
                   discard_temp fe fs1)
      | None \<Rightarrow> (Inr destPath, map_put destPath data (map_del tmp fs1))))))))"

definition extract_binary ::
  "platform \<Rightarrow> embedded \<Rightarrow> file_env \<Rightarrow> string \<Rightarrow> string \<Rightarrow> files \<Rightarrow> (string + string) \<times> files" where
  "extract_binary pf em fe stateDir name fs =
     (case embeddedPath pf name of
        Inl e \<Rightarrow> (Inl e, fs)
      | Inr srcPath \<Rightarrow>
          (let destPath = filepath_Join stateDir (binaryName pf name) in
           case em_open em srcPath of
             Inl e \<Rightarrow> (Inl (''restic: embedded binary not found at '' @ go_quote srcPath @ '': '' @ e), fs)
           | Inr data \<Rightarrow>
          (case em_stat em srcPath of
             Some e \<Rightarrow> (Inl (''restic: failed to stat embedded binary '' @ go_quote srcPath @ '': '' @ e), fs)
           | None \<Rightarrow>
               if data = []
               then (Inl (''restic: embedded '' @ name @ '' binary is a placeholder '' @ em_dash
                       @ '' run '' @ [CHR 0x60] @ ''task deps:download'' @ [CHR 0x60]), fs)
               else if fe_error fe (StatFile destPath) = None \<and>
                       map_option length (map_of fs destPath) = Some (length data)
               then (Inr destPath, fs)
               else write_binary pf fe stateDir name destPath data fs)))"

definition ResticPath :: "platform \<Rightarrow> embedded \<Rightarrow> file_env \<Rightarrow> string \<Rightarrow> files \<Rightarrow> (string + string) \<times> files" where
  "ResticPath pf em fe stateDir = extract_binary pf em fe stateDir ''restic''"

definition RclonePath :: "platform \<Rightarrow> embedded \<Rightarrow> file_env \<Rightarrow> string \<Rightarrow> files \<Rightarrow> (string + string) \<times> files" where
  "RclonePath pf em fe stateDir = extract_binary pf em fe stateDir ''rclone''"

section \<open>The binary is whole or untouched\<close>

lemma write_binary_cases:
  assumes "destPath \<noteq> fe_temp fe"
  shows "case write_binary pf fe stateDir name destPath data fs of
     (Inr p, fs') \<Rightarrow> p = destPath \<and> map_of fs' destPath = Some data \<and>
       (\<forall>q. q \<noteq> destPath \<longrightarrow> q \<noteq> fe_temp fe \<longrightarrow> map_of fs' q = map_of fs q)
   | (Inl e, fs') \<Rightarrow> (\<forall>q. q \<noteq> fe_temp fe \<longrightarrow> map_of fs' q = map_of fs q)"
  using assms by (auto simp: write_binary_def Let_def discard_temp_other split: option.split)

text \<open>The embedded binary of a name: none where the platform is not supported, the binary is missing or it is a
placeholder.\<close>

definition embedded_data :: "platform \<Rightarrow> embedded \<Rightarrow> string \<Rightarrow> string option" where
  "embedded_data pf em name =
     (case embeddedPath pf name of
        Inl e \<Rightarrow> None
      | Inr src \<Rightarrow> (case em_open em src of
          Inl e \<Rightarrow> None
        | Inr data \<Rightarrow> if em_stat em src = None \<and> data \<noteq> [] then Some data else None))"

lemma extract_binary_none:
  "embedded_data pf em name = None \<Longrightarrow> \<exists>e. extract_binary pf em fe stateDir name fs = (Inl e, fs)"
  by (auto simp: embedded_data_def extract_binary_def Let_def split: sum.splits option.splits if_splits)

lemma extract_binary_some:
  "embedded_data pf em name = Some data \<Longrightarrow>
   extract_binary pf em fe stateDir name fs =
     (let destPath = filepath_Join stateDir (binaryName pf name) in
      if fe_error fe (StatFile destPath) = None \<and> map_option length (map_of fs destPath) = Some (length data)
      then (Inr destPath, fs)
      else write_binary pf fe stateDir name destPath data fs)"
proof -
  assume "embedded_data pf em name = Some data"
  then obtain src where "embeddedPath pf name = Inr src" "em_open em src = Inr data" "em_stat em src = None" "data \<noteq> []"
    by (auto simp: embedded_data_def split: sum.splits option.splits if_splits)
  then show ?thesis by (simp add: extract_binary_def Let_def)
qed

lemma write_binary_other:
  "q \<noteq> destPath \<Longrightarrow> q \<noteq> fe_temp fe \<Longrightarrow>
   map_of (snd (write_binary pf fe stateDir name destPath data fs)) q = map_of fs q"
  by (simp add: write_binary_def Let_def discard_temp_other split: option.split)

lemma extract_binary_other:
  assumes "q \<noteq> filepath_Join stateDir (binaryName pf name)" and "q \<noteq> fe_temp fe"
  shows "map_of (snd (extract_binary pf em fe stateDir name fs)) q = map_of fs q"
proof (cases "embedded_data pf em name")
  case None
  with extract_binary_none[of pf em name fe stateDir fs] show ?thesis by auto
next
  case (Some data)
  with assms show ?thesis by (simp add: extract_binary_some Let_def write_binary_other)
qed

text \<open>After an extraction that succeeded the path is the one asked for, and it holds the embedded
binary, or what was there before if that had its size.  A failed extraction changes no file but its own temporary one, so
a binary is never half written.  A second extraction finds its work done and writes nothing.\<close>

theorem extract_whole:
  assumes "filepath_Join stateDir (binaryName pf name) \<noteq> fe_temp fe"
    and "extract_binary pf em fe stateDir name fs = (res, fs')"
  shows "(\<forall>q. q \<noteq> filepath_Join stateDir (binaryName pf name) \<longrightarrow> q \<noteq> fe_temp fe \<longrightarrow> map_of fs' q = map_of fs q) \<and>
    (case res of
       Inl e \<Rightarrow> map_of fs' (filepath_Join stateDir (binaryName pf name)) = map_of fs (filepath_Join stateDir (binaryName pf name))
     | Inr p \<Rightarrow> p = filepath_Join stateDir (binaryName pf name) \<and>
         (\<exists>data. embedded_data pf em name = Some data \<and>
            (map_of fs' p = Some data \<or> fs' = fs \<and> map_option length (map_of fs p) = Some (length data))) \<and>
         ((\<forall>path. fe_error fe2 (StatFile path) = None) \<longrightarrow> extract_binary pf em fe2 stateDir name fs' = (Inr p, fs')))"
proof (cases "embedded_data pf em name")
  case None
  with extract_binary_none[of pf em name fe stateDir fs] assms(2) show ?thesis by auto
next
  case (Some data)
  let ?dest = "filepath_Join stateDir (binaryName pf name)"
  show ?thesis
  proof (cases "fe_error fe (StatFile ?dest) = None \<and> map_option length (map_of fs ?dest) = Some (length data)")
    case True
    with assms(2) Some show ?thesis by (auto simp: extract_binary_some Let_def)
  next
    case False
    with assms(2) Some have "write_binary pf fe stateDir name ?dest data fs = (res, fs')"
      by (simp only: extract_binary_some[OF Some] Let_def if_False)
    then have "case (res, fs') of
       (Inr p, fs') \<Rightarrow> p = ?dest \<and> map_of fs' ?dest = Some data \<and>
         (\<forall>q. q \<noteq> ?dest \<longrightarrow> q \<noteq> fe_temp fe \<longrightarrow> map_of fs' q = map_of fs q)
     | (Inl e, fs') \<Rightarrow> (\<forall>q. q \<noteq> fe_temp fe \<longrightarrow> map_of fs' q = map_of fs q)"
      using write_binary_cases[OF assms(1), where pf = pf and stateDir = stateDir and name = name and data = data and fs = fs] by simp
    with Some assms(1) show ?thesis
      by (cases res) (simp_all add: extract_binary_some Let_def)
  qed
qed

end
