(* ===== verification/Discovery.thy ===== *)
theory Discovery
  imports Extractor Connection
begin

text \<open>The discovery of Docker volumes (\<open>agent/internal/docker/discovery.go\<close>).  The Docker SDK is the
parameter \<open>docker_api\<close>: what the daemon answers, which may differ from one moment of a job to the next.  A
run-time panic of the code is the value \<open>None\<close>.\<close>

section \<open>Volumes\<close>

record volume =
  vol_name :: string
  vol_mountpoint :: string
  vol_driver :: string
  vol_labels :: "(string \<times> string) list"

datatype docker_error = NotFound | DockerError string

datatype mount_type = MountVolume | MountOther string

record mount_point =
  mt_type :: mount_type
  mt_name :: string
  mt_source :: string

record container =
  ct_id :: string
  ct_names :: "string list"
  ct_mounts :: "mount_point list"

record docker_api =
  da_ping :: "string option"
  da_list :: "string option \<Rightarrow> string + volume list"
  da_inspect :: "trace \<Rightarrow> string \<Rightarrow> docker_error + volume"
  da_containers :: "trace \<Rightarrow> string + container list"

definition ErrDockerUnavailable :: string where "ErrDockerUnavailable = ''docker: daemon unavailable''"
definition ErrVolumeNotFound :: string where "ErrVolumeNotFound = ''docker: volume not found''"

definition unavailable :: "string \<Rightarrow> string" where
  "unavailable e = ErrDockerUnavailable @ '': '' @ e"

section \<open>The client\<close>

definition hostURI :: "platform \<Rightarrow> string \<Rightarrow> string" where
  "hostURI pf path =
     (if str_contains ''://'' path then path
      else if pf_os pf = ''windows'' then ''npipe://'' @ path
      else ''unix://'' @ path)"

text \<open>The SDK connects to the host it is given, or to its own default.\<close>

definition docker_NewClient ::
  "platform \<Rightarrow> (string option \<Rightarrow> string + docker_api) \<Rightarrow> string \<Rightarrow> string + docker_api" where
  "docker_NewClient pf sdk socketPath =
     (let host = (if socketPath \<noteq> [] then Some (hostURI pf socketPath)
                  else if pf_os pf = ''windows'' then Some ''npipe:////./pipe/docker_engine''
                  else None) in
      case sdk host of Inl e \<Rightarrow> Inl (unavailable e) | Inr api \<Rightarrow> Inr api)"

definition Ping :: "docker_api \<Rightarrow> string option" where
  "Ping api = map_option unavailable (da_ping api)"

definition ListVolumes :: "docker_api \<Rightarrow> string \<Rightarrow> string + volume list" where
  "ListVolumes api labelFilter =
     (case da_list api (if labelFilter \<noteq> [] then Some labelFilter else None) of
        Inl e \<Rightarrow> Inl (unavailable e)
      | Inr vs \<Rightarrow> Inr vs)"

definition InspectVolume :: "docker_api \<Rightarrow> trace \<Rightarrow> string \<Rightarrow> string + volume" where
  "InspectVolume api t name =
     (case da_inspect api t name of
        Inl NotFound \<Rightarrow> Inl ErrVolumeNotFound
      | Inl (DockerError e) \<Rightarrow> Inl (unavailable e)
      | Inr v \<Rightarrow> Inr v)"

text \<open>The names of a running container: an identifier of fewer than twelve bytes would panic, whatever the names.\<close>

definition container_name :: "container \<Rightarrow> string option" where
  "container_name ctr =
     (if length (ct_id ctr) < 12 then None
      else (case ct_names ctr of
              [] \<Rightarrow> Some (take 12 (ct_id ctr))
            | n # _ \<Rightarrow> Some (if starts_with ''/'' n then drop 1 n else n)))"

text \<open>The path of a mount, if it is a named volume whose path is known or can be found.\<close>

definition mount_path :: "docker_api \<Rightarrow> trace \<Rightarrow> mount_point \<Rightarrow> string option" where
  "mount_path api t m =
     (if mt_type m \<noteq> MountVolume then None
      else (let src = (if mt_source m = [] \<and> mt_name m \<noteq> []
                       then (case InspectVolume api t (mt_name m) of Inl _ \<Rightarrow> [] | Inr v \<Rightarrow> vol_mountpoint v)
                       else mt_source m) in
            if src \<noteq> [] then Some src else None))"

fun running_volumes :: "docker_api \<Rightarrow> trace \<Rightarrow> container list \<Rightarrow> (string \<times> string list) list option" where
  "running_volumes api t [] = Some []"
| "running_volumes api t (ctr # ctrs) =
     (case container_name ctr of
        None \<Rightarrow> None
      | Some name \<Rightarrow>
          (let paths = List.map_filter (mount_path api t) (ct_mounts ctr) in
           map_option (\<lambda>rest. if paths \<noteq> [] then (name, paths) # rest else rest) (running_volumes api t ctrs)))"

definition ListRunningContainerVolumes ::
  "docker_api \<Rightarrow> trace \<Rightarrow> (string + (string \<times> string list) list) option" where
  "ListRunningContainerVolumes api t =
     (case da_containers api t of
        Inl e \<Rightarrow> Some (Inl (unavailable e))
      | Inr ctrs \<Rightarrow> map_option Inr (running_volumes api t ctrs))"

section \<open>The client of the executor and of the connection\<close>

text \<open>The executor's view of the client, where no container has a short identifier (Docker's have 64 digits).\<close>

definition executor_client :: "docker_api \<Rightarrow> docker \<Rightarrow> bool" where
  "executor_client api d \<longleftrightarrow>
     dk_inspect d = (\<lambda>t v. map_sum id vol_mountpoint (InspectVolume api t v)) \<and>
     (\<forall>t. ListRunningContainerVolumes api t = Some (dk_running d t))"

text \<open>What the connection manager reports of the volumes.\<close>

definition reported_volumes :: "docker_api \<Rightarrow> string + volume_info list" where
  "reported_volumes api =
     map_sum id (map (\<lambda>v. \<lparr>vi_name = vol_name v, vi_mountpoint = vol_mountpoint v, vi_driver = vol_driver v\<rparr>))
       (ListVolumes api [])"

end
