(* ===== verification/AgentStart.thy ===== *)
theory AgentStart
  imports Discovery
begin

text \<open>The start of the agent (\<open>agent/cmd/agent/main.go\<close>): its flags and environment, the detection of Docker,
the binaries of the wrapper, the credentials an earlier enrollment left in the state directory, and the
configuration of the connection manager with its enrollment at the start.  The parsing of the command line and the
agent's own log are left out.\<close>

section \<open>Configuration\<close>

record agent_flags =
  af_server_addr :: string
  af_server_http_addr :: string
  af_secret :: string
  af_state_dir :: string
  af_docker_socket :: string
  af_log_level :: string
  af_tls_ca :: string
  af_insecure :: bool
  af_host_root :: string

text \<open>\<open>os.Getenv\<close> yields the empty string for a variable that is not set.\<close>

definition envOrDefault :: "(string \<Rightarrow> string) \<Rightarrow> string \<Rightarrow> string \<Rightarrow> string" where
  "envOrDefault getenv key defaultVal = (if getenv key \<noteq> [] then getenv key else defaultVal)"

definition defaultStateDir :: "string option \<Rightarrow> string" where
  "defaultStateDir home = (case home of Some dir \<Rightarrow> dir @ ''/.arkeep'' | None \<Rightarrow> ''.arkeep'')"

text \<open>The flags when the command line sets none of them.\<close>

definition agent_flag_defaults :: "(string \<Rightarrow> string) \<Rightarrow> string option \<Rightarrow> agent_flags" where
  "agent_flag_defaults getenv home =
     \<lparr>af_server_addr = envOrDefault getenv ''ARKEEP_SERVER_ADDR'' ''localhost:9090'',
      af_server_http_addr = envOrDefault getenv ''ARKEEP_SERVER_HTTP_ADDR'' [],
      af_secret = envOrDefault getenv ''ARKEEP_AGENT_SECRET'' [],
      af_state_dir = envOrDefault getenv ''ARKEEP_STATE_DIR'' (defaultStateDir home),
      af_docker_socket = envOrDefault getenv ''ARKEEP_DOCKER_SOCKET'' [],
      af_log_level = envOrDefault getenv ''ARKEEP_LOG_LEVEL'' ''info'',
      af_tls_ca = envOrDefault getenv ''ARKEEP_GRPC_TLS_CA'' [],
      af_insecure = (envOrDefault getenv ''ARKEEP_GRPC_INSECURE'' ''false'' = ''true''),
      af_host_root = envOrDefault getenv ''ARKEEP_DOCKER_HOST_ROOT'' []\<rparr>"

definition isRunningInDocker :: "file_env \<Rightarrow> files \<Rightarrow> bool" where
  "isRunningInDocker fe fs =
     (fe_error fe (StatFile ''/.dockerenv'') = None \<and> map_of fs ''/.dockerenv'' \<noteq> None \<or>
      (case (fe_error fe (ReadFile ''/proc/self/cgroup''), map_of fs ''/proc/self/cgroup'') of
         (None, Some data) \<Rightarrow> str_contains ''docker'' data \<or> str_contains ''containerd'' data
       | _ \<Rightarrow> False))"

definition agent_fileExists :: "file_env \<Rightarrow> string \<Rightarrow> files \<Rightarrow> bool" where
  "agent_fileExists fe path fs = (fe_error fe (StatFile path) = None \<and> map_of fs path \<noteq> None)"

definition joinHostPort :: "string \<Rightarrow> string \<Rightarrow> string" where
  "joinHostPort host port =
     (if CHR '':'' \<in> set host then ''['' @ host @ '']:'' @ port else host @ '':'' @ port)"

definition deriveHTTPAddr :: "string \<Rightarrow> string" where
  "deriveHTTPAddr grpcAddr =
     (case split_host grpcAddr of
        None \<Rightarrow> ''http://'' @ grpcAddr @ '':8080''
      | Some host \<Rightarrow> ''http://'' @ joinHostPort host ''8080'')"

section \<open>The parts\<close>

definition hooks_DefaultTimeout :: time where "hooks_DefaultTimeout = 5 * minute"

definition NewRunner :: "time \<Rightarrow> time" where
  "NewRunner timeout = (if timeout = 0 then hooks_DefaultTimeout else timeout)"

text \<open>The wrapper with its extracted binaries; the process environment and the reading of floats come from the
host.\<close>

definition NewWrapper ::
  "platform \<Rightarrow> embedded \<Rightarrow> (string \<Rightarrow> file_env) \<Rightarrow> string \<Rightarrow> (string \<times> string) list \<Rightarrow>
   (string \<Rightarrow> string option) \<Rightarrow> files \<Rightarrow> (string + wrapper) \<times> files" where
  "NewWrapper pf em fes stateDir environ float fs =
     (case ResticPath pf em (fes ''restic'') stateDir fs of
        (Inl e, fs1) \<Rightarrow> (Inl (''restic: failed to prepare restic binary: '' @ e), fs1)
      | (Inr resticBin, fs1) \<Rightarrow>
          (case RclonePath pf em (fes ''rclone'') stateDir fs1 of
             (Inl e, fs2) \<Rightarrow> (Inl (''restic: failed to prepare rclone binary: '' @ e), fs2)
           | (Inr rcloneBin, fs2) \<Rightarrow>
               (Inr \<lparr>wr_restic_bin = resticBin, wr_rclone_bin = rcloneBin, wr_environ = environ, wr_float = float\<rparr>,
                fs2)))"

text \<open>Docker is optional: a client that cannot be created or whose daemon does not answer is dropped.\<close>

definition start_docker :: "platform \<Rightarrow> (string option \<Rightarrow> string + docker_api) \<Rightarrow> string \<Rightarrow> docker_api option" where
  "start_docker pf sdk socket =
     (case docker_NewClient pf sdk socket of
        Inl _ \<Rightarrow> None
      | Inr api \<Rightarrow> if Ping api = None then Some api else None)"

text \<open>The credentials of an earlier enrollment: the client certificate, its key, and the CA the flags leave open.\<close>

definition state_credentials :: "file_env \<Rightarrow> string \<Rightarrow> string \<Rightarrow> files \<Rightarrow> string \<times> string \<times> string" where
  "state_credentials fe stateDir tlsCA fs =
     (let clientCertFile = filepath_Join stateDir ''grpc-client.crt'';
          clientKeyFile = filepath_Join stateDir ''grpc-client.key'';
          stateCAFile = filepath_Join stateDir ''grpc-ca.crt'' in
      if agent_fileExists fe clientCertFile fs \<and> agent_fileExists fe clientKeyFile fs \<and>
         agent_fileExists fe stateCAFile fs
      then (clientCertFile, clientKeyFile, if tlsCA = [] then stateCAFile else tlsCA)
      else ([], [], tlsCA))"

section \<open>The start\<close>

record agent_host =
  ah_platform :: platform
  ah_embedded :: embedded
  ah_files :: file_env
  ah_extract :: "string \<Rightarrow> file_env"
  ah_sdk :: "string option \<Rightarrow> string + docker_api"
  ah_environ :: "(string \<times> string) list"
  ah_float :: "string \<Rightarrow> string option"

record agent_started =
  ag_conn :: conn_config
  ag_server_addr :: string
  ag_wrapper :: wrapper
  ag_docker :: "docker_api option"
  ag_host_root :: string
  ag_hook_timeout :: time

text \<open>The configuration of the connection manager, on the files the extraction leaves.\<close>

definition agent_conn :: "agent_host \<Rightarrow> string \<Rightarrow> agent_flags \<Rightarrow> bool \<Rightarrow> files \<Rightarrow> conn_config" where
  "agent_conn h version cfg available fs =
     (let (certFile, keyFile, tlsCA) = state_credentials (ah_files h) (af_state_dir cfg) (af_tls_ca cfg) fs in
      \<lparr>cc_secret = af_secret cfg, cc_state_dir = af_state_dir cfg, cc_version = version,
       cc_docker = available, cc_tls_ca = tlsCA, cc_client_cert = certFile, cc_client_key = keyFile,
       cc_http_addr = (if af_server_http_addr cfg = [] then deriveHTTPAddr (af_server_addr cfg)
                       else af_server_http_addr cfg),
       cc_insecure = af_insecure cfg\<rparr>)"

text \<open>\<open>run\<close> up to the start of the executor and the connection manager.\<close>

definition agent_run ::
  "agent_host \<Rightarrow> string \<Rightarrow> agent_flags \<Rightarrow> files \<Rightarrow> (string + agent_started) \<times> files" where
  "agent_run h version cfg fs =
     (case NewWrapper (ah_platform h) (ah_embedded h) (ah_extract h) (af_state_dir cfg) (ah_environ h)
             (ah_float h) fs of
        (Inl e, fs1) \<Rightarrow> (Inl (''failed to prepare restic/rclone binaries: '' @ e), fs1)
      | (Inr wrapper, fs1) \<Rightarrow>
          (let api = start_docker (ah_platform h) (ah_sdk h) (af_docker_socket cfg) in
           (Inr \<lparr>ag_conn = agent_conn h version cfg (api \<noteq> None) fs1,
                 ag_server_addr = af_server_addr cfg, ag_wrapper = wrapper, ag_docker = api,
                 ag_host_root = (if af_host_root cfg = [] \<and> isRunningInDocker (ah_files h) fs then ''/hostfs''
                                 else af_host_root cfg),
                 ag_hook_timeout = NewRunner 0\<rparr>, fs1)))"

text \<open>The executor the agent runs its jobs with, on a host that answers \<open>env\<close>.\<close>

definition agent_executor :: "agent_started \<Rightarrow> docker option \<Rightarrow> exec_env \<Rightarrow> exec_env" where
  "agent_executor st client env =
     env\<lparr>xe_wrapper := ag_wrapper st, xe_docker := client, xe_hook_timeout := ag_hook_timeout st,
         xe_host_root := ag_host_root st\<rparr>"

text \<open>The enrollment at the start of the connection manager's \<open>Run\<close>, which goes on after a failure.\<close>

definition Run_enroll ::
  "file_env \<Rightarrow> (string \<Rightarrow> string \<Rightarrow> string + http_answer) \<Rightarrow> conn_config \<times> files \<Rightarrow> conn_config \<times> files" where
  "Run_enroll fe post cf =
     (if \<not> cc_insecure (fst cf) \<and> cc_client_cert (fst cf) = [] then snd (Enroll fe post cf) else cf)"

end
