(* ===== verification/AgentStartProofs.thy ===== *)
theory AgentStartProofs
  imports AgentStart EnrollProofs
begin

text \<open>What the start of an agent finds of an earlier one: the credentials of its enrollment.\<close>

section \<open>A restart keeps the enrollment\<close>

definition cert_files :: "string \<Rightarrow> string set" where
  "cert_files dir = filepath_Join dir ` {''grpc-client.crt'', ''grpc-client.key'', ''grpc-ca.crt''}"

lemma cert_files_nonempty: "[] \<notin> cert_files dir"
proof -
  obtain pre where "\<forall>x. plain x \<and> path_sep \<notin> set x \<longrightarrow> filepath_Join dir x = pre @ x" using Join_plain by blast
  then show ?thesis by (simp add: cert_files_def plain_def path_sep_def)
qed

lemma NewWrapper_other:
  assumes "q \<noteq> filepath_Join stateDir (binaryName pf ''restic'')"
    and "q \<noteq> filepath_Join stateDir (binaryName pf ''rclone'')"
    and "q \<notin> fe_temp ` range fes"
  shows "map_of (snd (NewWrapper pf em fes stateDir environ float fs)) q = map_of fs q"
proof -
  have r: "map_of (snd (extract_binary pf em (fes ''restic'') stateDir ''restic'' fs0)) q = map_of fs0 q" for fs0
    using assms by (intro extract_binary_other) auto
  have c: "map_of (snd (extract_binary pf em (fes ''rclone'') stateDir ''rclone'' fs0)) q = map_of fs0 q" for fs0
    using assms by (intro extract_binary_other) auto
  show ?thesis
    using r[of fs] c[of "snd (extract_binary pf em (fes ''restic'') stateDir ''restic'' fs)"]
    by (auto simp: NewWrapper_def ResticPath_def RclonePath_def split: prod.split sum.split)
qed

lemma cert_not_binary:
  "q \<in> cert_files dir \<Longrightarrow> q \<noteq> filepath_Join dir (binaryName pf ''restic'')"
  "q \<in> cert_files dir \<Longrightarrow> q \<noteq> filepath_Join dir (binaryName pf ''rclone'')"
  by (auto simp: cert_files_def binaryName_def Join_plain_inj plain_def path_sep_def)

lemma NewWrapper_certs:
  assumes "q \<in> cert_files dir" and "fe_temp ` range fes \<inter> cert_files dir = {}"
  shows "map_of (snd (NewWrapper pf em fes dir environ float fs)) q = map_of fs q"
  using assms by (intro NewWrapper_other) (auto simp: cert_not_binary)

text \<open>What a successful enrollment leaves.\<close>

lemma Enroll_files:
  assumes "Enroll fe post (cfg, fs) = (Inr (), (cfg', fs'))"
  shows "cfg' = cfg\<lparr>cc_tls_ca := filepath_Join (cc_state_dir cfg) ''grpc-ca.crt'',
                    cc_client_cert := filepath_Join (cc_state_dir cfg) ''grpc-client.crt'',
                    cc_client_key := filepath_Join (cc_state_dir cfg) ''grpc-client.key''\<rparr>"
    and "\<forall>q \<in> cert_files (cc_state_dir cfg). map_of fs' q \<noteq> None"
proof -
  obtain certs where "store_certs fe certs (cfg, fs) = (Inr (), (cfg', fs'))"
    using assms by (auto simp: Enroll_def Let_def split: if_splits sum.splits option.splits)
  then have "cfg' = cfg\<lparr>cc_tls_ca := filepath_Join (cc_state_dir cfg) ''grpc-ca.crt'',
                    cc_client_cert := filepath_Join (cc_state_dir cfg) ''grpc-client.crt'',
                    cc_client_key := filepath_Join (cc_state_dir cfg) ''grpc-client.key''\<rparr> \<and>
     (\<forall>q \<in> cert_files (cc_state_dir cfg). map_of fs' q \<noteq> None)"
    by (auto simp: store_certs_def write_file_def Let_def cert_files_def Join_plain_inj plain_def path_sep_def
        split: prod.splits option.splits)
  then show "cfg' = cfg\<lparr>cc_tls_ca := filepath_Join (cc_state_dir cfg) ''grpc-ca.crt'',
                    cc_client_cert := filepath_Join (cc_state_dir cfg) ''grpc-client.crt'',
                    cc_client_key := filepath_Join (cc_state_dir cfg) ''grpc-client.key''\<rparr>"
    and "\<forall>q \<in> cert_files (cc_state_dir cfg). map_of fs' q \<noteq> None" by blast+
qed

lemma agent_run_files:
  assumes "agent_run h version flags fs = (Inr st, fs')"
    and "fe_temp ` range (ah_extract h) \<inter> cert_files (af_state_dir flags) = {}"
    and "q \<in> cert_files (af_state_dir flags)"
  shows "map_of fs' q = map_of fs q"
  using assms(1) NewWrapper_certs[OF assms(3,2), of "ah_platform h" "ah_embedded h" "ah_environ h" "ah_float h" fs]
  by (auto simp: agent_run_def Let_def split: prod.splits sum.splits)

lemma agent_run_conn:
  "agent_run h version flags fs = (Inr st, fs') \<Longrightarrow>
   ag_conn st = agent_conn h version flags (ag_docker st \<noteq> None) fs'"
  by (auto simp: agent_run_def Let_def split: prod.splits sum.splits)

text \<open>C14: After an enrollment that succeeded, and no CA among the flags, the next start of the agent with the same flags
ends with the configuration the enrollment left (Docker may have come or gone), does not enroll again, and leaves the
three files as they are.\<close>

theorem restart_enrolled:
  assumes "agent_run h version flags fs = (Inr st, fs1)"
    and "Enroll fe post (ag_conn st, fs1) = (Inr (), (cfg, fs2))"
    and "agent_run h2 version flags fs2 = (Inr st2, fs3)"
    and "\<And>q. q \<in> cert_files (af_state_dir flags) \<Longrightarrow> fe_error (ah_files h2) (StatFile q) = None"
    and "fe_temp ` range (ah_extract h2) \<inter> cert_files (af_state_dir flags) = {}"
    and "af_tls_ca flags = []"
  shows "ag_conn st2 = cfg\<lparr>cc_docker := (ag_docker st2 \<noteq> None)\<rparr> \<and>
    Run_enroll fe2 post2 (ag_conn st2, fs3) = (ag_conn st2, fs3) \<and>
    (\<forall>q \<in> cert_files (af_state_dir flags). map_of fs3 q = map_of fs2 q)"
proof -
  let ?d = "af_state_dir flags"
  obtain c k ca where old: "state_credentials (ah_files h) ?d [] fs1 = (c, k, ca)"
    by (cases "state_credentials (ah_files h) ?d [] fs1")
  then have st: "cc_state_dir (ag_conn st) = ?d"
    using agent_run_conn[OF assms(1)] assms(6) by (simp add: agent_conn_def)
  note e = Enroll_files[OF assms(2), unfolded st]
  have keep: "\<forall>q \<in> cert_files ?d. map_of fs3 q = map_of fs2 q"
    using agent_run_files[OF assms(3,5)] by blast
  have "agent_fileExists (ah_files h2) q fs3" if "q \<in> cert_files ?d" for q
    using e(2) keep assms(4)[OF that] that by (auto simp: agent_fileExists_def)
  then have creds: "state_credentials (ah_files h2) ?d [] fs3 =
      (filepath_Join ?d ''grpc-client.crt'', filepath_Join ?d ''grpc-client.key'', filepath_Join ?d ''grpc-ca.crt'')"
    by (simp add: state_credentials_def Let_def cert_files_def)
  from old have conn: "ag_conn st2 = cfg\<lparr>cc_docker := (ag_docker st2 \<noteq> None)\<rparr>"
    using agent_run_conn[OF assms(1)] agent_run_conn[OF assms(3)] e(1) creds assms(6)
    by (simp add: agent_conn_def)
  moreover have "filepath_Join ?d ''grpc-client.crt'' \<noteq> []"
    using cert_files_nonempty[of ?d] by (auto simp: cert_files_def)
  ultimately have "Run_enroll fe2 post2 (ag_conn st2, fs3) = (ag_conn st2, fs3)"
    using e(1) by (simp add: Run_enroll_def)
  with conn keep show ?thesis by blast
qed

text \<open>Any answer with status 200 and a well-formed body enrolls an agent whose files can be written.\<close>

lemma Enroll_working:
  assumes "\<And>op. fe_error fe op = None" "cc_http_addr cfg \<noteq> []"
    and "\<And>url body. post url body =
      Inr \<lparr>ha_code = 200, ha_status = [], ha_body = Inr (json_text (enroll_json ca cert key) @ [CHR 0x0A])\<rparr>"
  shows "\<exists>cfg' fs'. Enroll fe post (cfg, fs) = (Inr (), (cfg', fs'))"
proof -
  obtain fs' where "store_certs fe (ca, cert, key) (cfg, fs) =
      (Inr (), (cfg\<lparr>cc_tls_ca := filepath_Join (cc_state_dir cfg) ''grpc-ca.crt'',
          cc_client_cert := filepath_Join (cc_state_dir cfg) ''grpc-client.crt'',
          cc_client_key := filepath_Join (cc_state_dir cfg) ''grpc-client.key''\<rparr>, fs'))"
    using store_certs_working[OF assms(1)] by blast
  with assms show ?thesis by (simp add: Enroll_def Let_def server_body_decodes del: json_text.simps)
qed

lemma extract_binary_working:
  assumes "\<And>op. fe_error fe op = None" "embedded_data pf em name = Some data"
  shows "\<exists>fs'. extract_binary pf em fe stateDir name fs = (Inr (filepath_Join stateDir (binaryName pf name)), fs')"
  using assms(1) by (simp add: extract_binary_some[OF assms(2)] Let_def write_binary_def setExecutable_def)

lemma agent_run_working:
  assumes "\<And>name op. fe_error (ah_extract h name) op = None"
    and "embedded_data (ah_platform h) (ah_embedded h) ''restic'' = Some restic"
    and "embedded_data (ah_platform h) (ah_embedded h) ''rclone'' = Some rclone"
  shows "\<exists>st fs'. agent_run h version flags fs = (Inr st, fs')"
proof -
  obtain fs1 where 1: "extract_binary (ah_platform h) (ah_embedded h) (ah_extract h ''restic'') (af_state_dir flags) ''restic'' fs =
      (Inr (filepath_Join (af_state_dir flags) (binaryName (ah_platform h) ''restic'')), fs1)"
    using extract_binary_working[OF assms(1,2)] by blast
  obtain fs2 where "extract_binary (ah_platform h) (ah_embedded h) (ah_extract h ''rclone'') (af_state_dir flags) ''rclone'' fs1 =
      (Inr (filepath_Join (af_state_dir flags) (binaryName (ah_platform h) ''rclone'')), fs2)"
    using extract_binary_working[OF assms(1,3)] by blast
  with 1 show ?thesis by (simp add: agent_run_def NewWrapper_def ResticPath_def RclonePath_def Let_def)
qed

definition demo_agent_host :: agent_host where
  "demo_agent_host = \<lparr>ah_platform = \<lparr>pf_os = ''linux'', pf_arch = ''amd64''\<rparr>,
     ah_embedded = \<lparr>em_open = (\<lambda>_. Inr ''elf''), em_stat = (\<lambda>_. None)\<rparr>, ah_files = demo_file_env,
     ah_extract = (\<lambda>_. demo_file_env), ah_sdk = (\<lambda>_. Inl ''no socket''), ah_environ = [], ah_float = (\<lambda>_. None)\<rparr>"

definition demo_agent_flags :: agent_flags where
  "demo_agent_flags = agent_flag_defaults (\<lambda>_. []) (Some ''/root'')"

definition demo_answer :: http_answer where
  "demo_answer = \<lparr>ha_code = 200, ha_status = [],
     ha_body = Inr (json_text (enroll_json ''ca'' ''crt'' ''key'') @ [CHR 0x0A])\<rparr>"

lemma demo_agent_data:
  "embedded_data (ah_platform demo_agent_host) (ah_embedded demo_agent_host) name = Some ''elf''"
  by (simp add: demo_agent_host_def embedded_data_def embeddedPath_def Let_def)

theorem restart_enrolled_witness:
  "\<exists>st fs1 cfg fs2 st2 fs3. agent_run demo_agent_host ''1.0'' demo_agent_flags [] = (Inr st, fs1) \<and>
     Enroll demo_file_env (\<lambda>_ _. Inr demo_answer) (ag_conn st, fs1) = (Inr (), (cfg, fs2)) \<and>
     agent_run demo_agent_host ''1.0'' demo_agent_flags fs2 = (Inr st2, fs3) \<and>
     ag_conn st2 = cfg\<lparr>cc_docker := (ag_docker st2 \<noteq> None)\<rparr> \<and>
     Run_enroll demo_file_env (\<lambda>_ _. Inl ''down'') (ag_conn st2, fs3) = (ag_conn st2, fs3)"
proof -
  have ok: "fe_error (ah_extract demo_agent_host name) op = None" for name op
    by (simp add: demo_agent_host_def demo_file_env_def)
  have run: "\<exists>st fs'. agent_run demo_agent_host ''1.0'' demo_agent_flags fs = (Inr st, fs')" for fs
    by (rule agent_run_working[OF ok demo_agent_data demo_agent_data])
  obtain st fs1 where 1: "agent_run demo_agent_host ''1.0'' demo_agent_flags [] = (Inr st, fs1)" using run by blast
  have "cc_http_addr (ag_conn st) \<noteq> []"
    using agent_run_conn[OF 1] by (auto simp: agent_conn_def deriveHTTPAddr_def split: prod.splits option.splits)
  then obtain cfg fs2 where 2: "Enroll demo_file_env (\<lambda>_ _. Inr demo_answer) (ag_conn st, fs1) = (Inr (), (cfg, fs2))"
    using Enroll_working[of demo_file_env "ag_conn st" "\<lambda>_ _. Inr demo_answer" "''ca''" "''crt''" "''key''" fs1]
    by (auto simp: demo_file_env_def demo_answer_def simp del: json_text.simps)
  obtain st2 fs3 where 3: "agent_run demo_agent_host ''1.0'' demo_agent_flags fs2 = (Inr st2, fs3)" using run by blast
  have stat: "\<And>q. fe_error (ah_files demo_agent_host) (StatFile q) = None"
    by (simp add: demo_agent_host_def demo_file_env_def)
  have temp: "fe_temp ` range (ah_extract demo_agent_host) \<inter> cert_files (af_state_dir demo_agent_flags) = {}"
    by (simp add: demo_agent_host_def demo_file_env_def cert_files_nonempty)
  have ca: "af_tls_ca demo_agent_flags = []"
    by (simp add: demo_agent_flags_def agent_flag_defaults_def envOrDefault_def)
  show ?thesis using 1 2 3 restart_enrolled[OF 1 2 3 stat temp ca] by blast
qed

section \<open>A failed enrollment that leaves its files\<close>

text \<open>Writing the key fails, and what is left of the file makes the next start take the agent as enrolled.\<close>

lemma failed_enrollment_counts:
  assumes "\<And>path. path \<noteq> keyFile \<Longrightarrow> fe_error fe (WriteFile path) = None" "fe_error fe (WriteFile keyFile) = Some e"
    and "keyFile = filepath_Join (cc_state_dir cfg) ''grpc-client.key''"
    and "\<And>path. fe_error fe2 (StatFile path) = None"
  shows "\<exists>m fs'. store_certs fe (ca, cert, key) (cfg, fs) = (Inl m, (cfg, fs')) \<and>
     state_credentials fe2 (cc_state_dir cfg) tlsCA fs' =
       (filepath_Join (cc_state_dir cfg) ''grpc-client.crt'', keyFile,
        if tlsCA = [] then filepath_Join (cc_state_dir cfg) ''grpc-ca.crt'' else tlsCA)"
proof -
  let ?j = "filepath_Join (cc_state_dir cfg)"
  have ne: "?j ''grpc-ca.crt'' \<noteq> keyFile" "?j ''grpc-client.crt'' \<noteq> keyFile"
    "?j ''grpc-ca.crt'' \<noteq> ?j ''grpc-client.crt''"
    by (simp_all add: assms(3) Join_plain_inj plain_def path_sep_def)
  then show ?thesis using assms(1)[OF ne(1)] assms(1)[OF ne(2)] assms(2,4)
    by (simp add: store_certs_def write_file_def Let_def state_credentials_def agent_fileExists_def
        assms(3)[symmetric])
qed

end
