(* ===== verification/DiscoveryProofs.thy ===== *)
theory DiscoveryProofs
  imports Discovery ExecutorOutcomes
begin

text \<open>What the discovery of volumes means for an in-place restore.\<close>

section \<open>Running containers keep their volumes\<close>

definition mounted_paths :: "docker_api \<Rightarrow> trace \<Rightarrow> container list \<Rightarrow> string set" where
  "mounted_paths api t ctrs =
     {p. \<exists>ctr \<in> set ctrs. \<exists>m \<in> set (ct_mounts ctr). mt_type m = MountVolume \<and> p \<noteq> [] \<and>
        (mt_source m = p \<or>
         mt_source m = [] \<and> mt_name m \<noteq> [] \<and>
           (\<exists>v. da_inspect api t (mt_name m) = Inr v \<and> vol_mountpoint v = p))}"

lemma mount_path_iff:
  "mount_path api t m = Some p \<longleftrightarrow> mt_type m = MountVolume \<and> p \<noteq> [] \<and>
     (mt_source m = p \<or> mt_source m = [] \<and> mt_name m \<noteq> [] \<and>
        (\<exists>v. da_inspect api t (mt_name m) = Inr v \<and> vol_mountpoint v = p))"
  by (auto simp: mount_path_def InspectVolume_def Let_def split: sum.splits docker_error.splits)

lemma set_map_filter: "set (List.map_filter f xs) = {y. \<exists>x \<in> set xs. f x = Some y}"
  by (force simp: List.map_filter_def)

lemma running_volumes_paths:
  "running_volumes api t ctrs = Some cs \<Longrightarrow>
   snd ` set (container_paths cs) = {p. \<exists>ctr \<in> set ctrs. \<exists>m \<in> set (ct_mounts ctr). mount_path api t m = Some p}"
proof (induction ctrs arbitrary: cs)
  case Nil
  then show ?case by (simp add: container_paths_def)
next
  case (Cons ctr ctrs)
  then obtain name rest where r: "running_volumes api t ctrs = Some rest" "container_name ctr = Some name"
    by (auto simp: Let_def split: option.splits)
  let ?ps = "List.map_filter (mount_path api t) (ct_mounts ctr)"
  have "cs = (if ?ps \<noteq> [] then (name, ?ps) # rest else rest)"
    using Cons.prems r by (simp add: Let_def)
  then have "snd ` set (container_paths cs) = set ?ps \<union> snd ` set (container_paths rest)"
    by (simp add: container_paths_def image_Un image_image)
  then show ?case by (auto simp: Cons.IH[OF r(1)] set_map_filter)
qed

lemma running_volumes_mounted:
  "running_volumes api t ctrs = Some cs \<Longrightarrow> snd ` set (container_paths cs) = mounted_paths api t ctrs"
  by (simp add: running_volumes_paths mounted_paths_def mount_path_iff)

text \<open>C37: An in-place restore on a host whose Docker root can be written leaves out exactly the volumes mounted into the
containers that run, as far as the daemon tells their paths.\<close>

theorem inplace_excludes:
  assumes "executor_client api d" and "xe_docker env = Some d"
    and "xe_stat env t docker_vol_root" and "xe_create_temp env t docker_vol_root"
    and "da_containers api t = Inr ctrs"
  shows "set (fst (buildInPlaceExcludes env t)) = mounted_paths api t ctrs"
proof -
  have "Some (dk_running d t) = map_option Inr (running_volumes api t ctrs)"
    using assms(1,5) by (metis (no_types, lifting) ListRunningContainerVolumes_def executor_client_def sum.simps(6))
  then obtain cs where "running_volumes api t ctrs = Some cs" "dk_running d t = Inr cs"
    by (cases "running_volumes api t ctrs") auto
  with assms(2-4) show ?thesis
    by (simp add: buildInPlaceExcludes_def running_volumes_mounted[symmetric])
qed

text \<open>A volume whose inspection fails is not left out, although its container runs.\<close>

lemma uninspected_volume_restored:
  assumes "executor_client api d" and "xe_docker env = Some d"
    and "xe_stat env t docker_vol_root" and "xe_create_temp env t docker_vol_root"
    and "da_containers api t = Inr [ctr]"
    and "ct_mounts ctr = [\<lparr>mt_type = MountVolume, mt_name = v, mt_source = []\<rparr>]"
    and "da_inspect api t v = Inl err"
  shows "buildInPlaceExcludes env t = ([], t)"
proof -
  have "ListRunningContainerVolumes api t = Some (dk_running d t)" using assms(1) by (simp add: executor_client_def)
  moreover have "List.map_filter (mount_path api t) (ct_mounts ctr) = []"
    using assms(6,7) by (cases err) (simp_all add: List.map_filter_def mount_path_def InspectVolume_def)
  ultimately have "dk_running d t = Inr []"
    using assms(5) by (simp add: ListRunningContainerVolumes_def split: option.splits)
  with assms(2-4) show ?thesis by (simp add: buildInPlaceExcludes_def container_paths_def)
qed

definition demo_docker :: docker_api where
  "demo_docker = \<lparr>da_ping = None, da_list = (\<lambda>_. Inr []), da_inspect = (\<lambda>_ _. Inl NotFound),
     da_containers = (\<lambda>_. Inr [\<lparr>ct_id = replicate 64 CHR ''a'', ct_names = [''/db''],
        ct_mounts = [\<lparr>mt_type = MountVolume, mt_name = ''data'', mt_source = ''/vol/data''\<rparr>,
                     \<lparr>mt_type = MountOther ''bind'', mt_name = [], mt_source = ''/etc''\<rparr>]\<rparr>])\<rparr>"

theorem inplace_excludes_witness:
  "\<exists>d. executor_client demo_docker d \<and>
     set (fst (buildInPlaceExcludes
       (demo_host\<lparr>xe_docker := Some d, xe_stat := \<lambda>_ _. True, xe_create_temp := \<lambda>_ _. True\<rparr>) [])) = {''/vol/data''}"
proof -
  let ?d = "\<lparr>dk_inspect = (\<lambda>t v. map_sum id vol_mountpoint (InspectVolume demo_docker t v)),
    dk_running = (\<lambda>_. Inr [(''db'', [''/vol/data''])])\<rparr>"
  have client: "executor_client demo_docker ?d"
    by (simp add: executor_client_def ListRunningContainerVolumes_def demo_docker_def container_name_def
        mount_path_def List.map_filter_def Let_def)
  have "set (fst (buildInPlaceExcludes
      (demo_host\<lparr>xe_docker := Some ?d, xe_stat := \<lambda>_ _. True, xe_create_temp := \<lambda>_ _. True\<rparr>) [])) =
      mounted_paths demo_docker [] (case da_containers demo_docker [] of Inr cs \<Rightarrow> cs | Inl _ \<Rightarrow> [])"
    by (rule inplace_excludes[OF client]) (simp_all add: demo_docker_def)
  also have "\<dots> = {''/vol/data''}" by (auto simp: mounted_paths_def demo_docker_def)
  finally show ?thesis using client by blast
qed

end
