(* ===== verification/ServerStart.thy ===== *)
theory ServerStart
  imports AgentStart Router Encryption
begin

text \<open>The start of the server (\<open>server/cmd/server/main.go\<close>) with what it calls: the key pair of the access
tokens (\<open>auth/jwt.go\<close>), the opening of the database (\<open>db/db.go\<close>), the authority's TLS configuration
(\<open>grpc/certs.go\<close>) and the choice of the gRPC transport (\<open>grpc/server.go\<close>).  Hashing, X.509, PEM, RSA, the
database drivers, the migration library and the TLS library are parameters.\<close>

section \<open>Flags\<close>

record server_flags =
  sf_http_addr :: string
  sf_grpc_addr :: string
  sf_tls_cert :: string
  sf_tls_key :: string
  sf_db_driver :: string
  sf_db_dsn :: string
  sf_secret_key :: string
  sf_log_level :: string
  sf_data_dir :: string
  sf_agent_secret :: string
  sf_secure_cookies :: bool
  sf_telemetry :: bool
  sf_insecure :: bool

definition server_defaults :: "(string \<Rightarrow> string) \<Rightarrow> server_flags" where
  "server_defaults getenv =
     \<lparr>sf_http_addr = envOrDefault getenv ''ARKEEP_HTTP_ADDR'' '':8080'',
      sf_grpc_addr = envOrDefault getenv ''ARKEEP_GRPC_ADDR'' '':9090'',
      sf_tls_cert = envOrDefault getenv ''ARKEEP_GRPC_TLS_CERT'' [],
      sf_tls_key = envOrDefault getenv ''ARKEEP_GRPC_TLS_KEY'' [],
      sf_db_driver = envOrDefault getenv ''ARKEEP_DB_DRIVER'' ''sqlite'',
      sf_db_dsn = envOrDefault getenv ''ARKEEP_DB_DSN'' ''./arkeep.db'',
      sf_secret_key = envOrDefault getenv ''ARKEEP_SECRET_KEY'' [],
      sf_log_level = envOrDefault getenv ''ARKEEP_LOG_LEVEL'' ''info'',
      sf_data_dir = envOrDefault getenv ''ARKEEP_DATA_DIR'' ''./data'',
      sf_agent_secret = envOrDefault getenv ''ARKEEP_AGENT_SECRET'' [],
      sf_secure_cookies = (envOrDefault getenv ''ARKEEP_SECURE_COOKIES'' ''false'' = ''true''),
      sf_telemetry = (envOrDefault getenv ''ARKEEP_TELEMETRY'' ''true'' \<noteq> ''false''),
      sf_insecure = (envOrDefault getenv ''ARKEEP_GRPC_INSECURE'' ''false'' = ''true'')\<rparr>"

section \<open>The key pair of the access tokens\<close>

datatype parsed_key = RSAKey string | OtherKey

record key_library =
  kl_pem :: "string \<Rightarrow> (string \<times> string) option"
  kl_to_pem :: "string \<Rightarrow> string \<Rightarrow> string"
  kl_pkcs1 :: "string \<Rightarrow> string + string"
  kl_pkcs8 :: "string \<Rightarrow> string + parsed_key"
  kl_pkix :: "string \<Rightarrow> string + parsed_key"
  kl_marshal_pkix :: "string \<Rightarrow> string + string"
  kl_public :: "string \<Rightarrow> string"

record jwt_manager =
  jwt_private :: string
  jwt_public :: string
  jwt_issuer :: string

definition private_key :: "key_library \<Rightarrow> string \<times> string \<Rightarrow> string + string" where
  "private_key kl block =
     (let (typ, bytes) = block in
      if typ = ''RSA PRIVATE KEY''
      then (case kl_pkcs1 kl bytes of
              Inl e \<Rightarrow> Inl (''auth: parsing PKCS#1 private key: '' @ e) | Inr k \<Rightarrow> Inr k)
      else if typ = ''PRIVATE KEY''
      then (case kl_pkcs8 kl bytes of
              Inl e \<Rightarrow> Inl (''auth: parsing PKCS#8 private key: '' @ e)
            | Inr (RSAKey k) \<Rightarrow> Inr k
            | Inr OtherKey \<Rightarrow> Inl ''auth: PKCS#8 key is not an RSA key'')
      else Inl (''auth: unsupported private key PEM type: '' @ typ))"

definition newJWTManagerFromPEM :: "key_library \<Rightarrow> string \<Rightarrow> string \<Rightarrow> string \<Rightarrow> string + jwt_manager" where
  "newJWTManagerFromPEM kl privatePEM publicPEM issuer =
     (case kl_pem kl privatePEM of
        None \<Rightarrow> Inl ''auth: failed to decode private key PEM block''
      | Some block \<Rightarrow>
     (case private_key kl block of
        Inl e \<Rightarrow> Inl e
      | Inr private \<Rightarrow>
     (case kl_pem kl publicPEM of
        None \<Rightarrow> Inl ''auth: failed to decode public key PEM block''
      | Some (_, bytes) \<Rightarrow>
     (case kl_pkix kl bytes of
        Inl e \<Rightarrow> Inl (''auth: parsing public key: '' @ e)
      | Inr OtherKey \<Rightarrow> Inl ''auth: public key is not an RSA key''
      | Inr (RSAKey public) \<Rightarrow>
          Inr \<lparr>jwt_private = private, jwt_public = public, jwt_issuer = issuer\<rparr>))))"

text \<open>Reading a file, with the error Unix gives for a missing one.\<close>

definition os_ReadFile :: "(string \<Rightarrow> file_env) \<Rightarrow> string \<Rightarrow> files \<Rightarrow> string + string" where
  "os_ReadFile fes path fs =
     (case fe_error (fes path) (ReadFile path) of
        Some e \<Rightarrow> Inl e
      | None \<Rightarrow> (case map_of fs path of
                   None \<Rightarrow> Inl (''open '' @ path @ '': no such file or directory'') | Some t \<Rightarrow> Inr t))"

definition NewJWTManagerFromFiles ::
  "key_library \<Rightarrow> (string \<Rightarrow> file_env) \<Rightarrow> string \<Rightarrow> string \<Rightarrow> string \<Rightarrow> files \<Rightarrow> string + jwt_manager" where
  "NewJWTManagerFromFiles kl fes privateKeyPath publicKeyPath issuer fs =
     (case os_ReadFile fes privateKeyPath fs of
        Inl e \<Rightarrow> Inl (''auth: reading private key file: '' @ e)
      | Inr priv \<Rightarrow>
     (case os_ReadFile fes publicKeyPath fs of
        Inl e \<Rightarrow> Inl (''auth: reading public key file: '' @ e)
      | Inr pub \<Rightarrow> newJWTManagerFromPEM kl priv pub issuer))"

text \<open>\<open>generated\<close> is the outcome of generating a key.\<close>

definition NewJWTManagerGenerated :: "key_library \<Rightarrow> string + string \<Rightarrow> string \<Rightarrow> string + jwt_manager" where
  "NewJWTManagerGenerated kl generated issuer =
     (case generated of
        Inl e \<Rightarrow> Inl (''auth: generating RSA key pair: '' @ e)
      | Inr k \<Rightarrow> Inr \<lparr>jwt_private = k, jwt_public = kl_public kl k, jwt_issuer = issuer\<rparr>)"

definition PublicKeyPEM :: "key_library \<Rightarrow> jwt_manager \<Rightarrow> string + string" where
  "PublicKeyPEM kl m =
     (case kl_marshal_pkix kl (jwt_public m) of
        Inl e \<Rightarrow> Inl (''auth: marshaling public key: '' @ e)
      | Inr der \<Rightarrow> Inr (kl_to_pem kl ''PUBLIC KEY'' der))"

text \<open>Only a private key file that does not exist makes the server use keys of its own.\<close>

definition buildJWTManager ::
  "key_library \<Rightarrow> (string \<Rightarrow> file_env) \<Rightarrow> string + string \<Rightarrow> string \<Rightarrow> files \<Rightarrow> string + jwt_manager" where
  "buildJWTManager kl fes generated dataDir fs =
     (let privPath = filepath_Join dataDir ''jwt_private.pem''; pubPath = filepath_Join dataDir ''jwt_public.pem'' in
      case fe_error (fes privPath) (StatFile privPath) of
        Some e \<Rightarrow> Inl (''JWT key file inaccessible ('' @ privPath @ ''): '' @ e)
      | None \<Rightarrow>
          if map_of fs privPath \<noteq> None
          then NewJWTManagerFromFiles kl fes privPath pubPath ''arkeep-server'' fs
          else NewJWTManagerGenerated kl generated ''arkeep-server'')"

text \<open>Signing and checking with the keys of a manager: \<open>sign\<close> and \<open>parse\<close> are the JWT library.\<close>

definition manager_crypto ::
  "(string \<Rightarrow> claims \<Rightarrow> string option) \<Rightarrow> (string \<Rightarrow> string \<Rightarrow> time \<Rightarrow> string \<Rightarrow> jwt_error + claims) \<Rightarrow>
   jwt_manager \<Rightarrow> auth_crypto \<Rightarrow> auth_crypto" where
  "manager_crypto sign parse m ac =
     ac\<lparr>ac_sign := sign (jwt_private m), ac_parse := parse (jwt_public m), ac_issuer := jwt_issuer m\<rparr>"

section \<open>The database\<close>

datatype gorm_level = GormSilent | GormError | GormWarn | GormInfo

definition gormLogLevel :: "string \<Rightarrow> gorm_level" where
  "gormLogLevel level =
     (if level = ''debug'' then GormInfo else if level = ''info'' then GormWarn else GormError)"

record db_handle =
  dh_driver :: string
  dh_max_open :: nat
  dh_max_idle :: nat
  dh_lifetime :: time
  dh_level :: gorm_level

text \<open>The drivers and the migration library: errors, or none.  \<open>NoChange\<close> is \<open>migrate.ErrNoChange\<close>.\<close>

datatype up_result = Applied | NoChange | UpFailed string

record db_library =
  dl_sql_open :: "string \<Rightarrow> string option"
  dl_gorm_sqlite :: "string option"
  dl_gorm_postgres :: "string \<Rightarrow> string option"
  dl_postgres_sql :: "string option"
  dl_source :: "string option"
  dl_driver :: "string \<Rightarrow> string option"
  dl_migrator :: "string \<Rightarrow> string option"
  dl_up :: "up_result"

definition runMigrations :: "db_library \<Rightarrow> string \<Rightarrow> string option" where
  "runMigrations dl driver =
     (case dl_source dl of
        Some e \<Rightarrow> Some (''failed to create migration source: '' @ e)
      | None \<Rightarrow>
     (case dl_driver dl driver of
        Some e \<Rightarrow> Some (''failed to create '' @ driver @ '' migrate driver: '' @ e)
      | None \<Rightarrow>
     (case dl_migrator dl driver of
        Some e \<Rightarrow> Some (''failed to create migrator: '' @ e)
      | None \<Rightarrow>
     (case dl_up dl of
        UpFailed e \<Rightarrow> Some (''failed to apply migrations: '' @ e)
      | _ \<Rightarrow> None))))"

text \<open>With at most one open connection the library keeps at most one idle one; a lifetime of zero is none.\<close>

definition open_db :: "db_library \<Rightarrow> string \<Rightarrow> string \<Rightarrow> gorm_level \<Rightarrow> string + db_handle" where
  "open_db dl driver dsn level =
     (if driver = ''sqlite'' \<or> driver = []
      then (case dl_sql_open dl dsn of
              Some e \<Rightarrow> Inl (''db: failed to open sqlite: '' @ e)
            | None \<Rightarrow>
                (case dl_gorm_sqlite dl of
                   Some e \<Rightarrow> Inl (''db: failed to initialize gorm with sqlite: '' @ e)
                 | None \<Rightarrow> Inr \<lparr>dh_driver = ''sqlite'', dh_max_open = 1, dh_max_idle = 1, dh_lifetime = 0,
                                dh_level = level\<rparr>))
      else if driver = ''postgres''
      then (case dl_gorm_postgres dl dsn of
              Some e \<Rightarrow> Inl (''db: failed to open postgres: '' @ e)
            | None \<Rightarrow>
                (case dl_postgres_sql dl of
                   Some e \<Rightarrow> Inl (''db: failed to get sql.DB: '' @ e)
                 | None \<Rightarrow> Inr \<lparr>dh_driver = ''postgres'', dh_max_open = 25, dh_max_idle = 5,
                                dh_lifetime = 30 * minute, dh_level = level\<rparr>))
      else Inl (''db: unsupported driver '' @ go_quote driver @ '', use \"sqlite\" or \"postgres\"''))"

definition db_New :: "db_library \<Rightarrow> string \<Rightarrow> string \<Rightarrow> gorm_level \<Rightarrow> string + db_handle" where
  "db_New dl driver dsn level =
     (case open_db dl driver dsn level of
        Inl e \<Rightarrow> Inl e
      | Inr h \<Rightarrow> (case runMigrations dl (dh_driver h) of
                    Some e \<Rightarrow> Inl (''db: migrations failed: '' @ e) | None \<Rightarrow> Inr h))"

section \<open>The gRPC transport\<close>

datatype client_auth = RequireAndVerifyClientCert

record tls_config =
  tl_cert :: string
  tl_key :: string
  tl_client_auth :: client_auth
  tl_client_ca :: certificate
  tl_min_version :: nat

text \<open>\<open>keypair\<close> is the loading of a certificate with its key: an error, or none.\<close>

definition TLSConfig :: "(string \<Rightarrow> string \<Rightarrow> string option) \<Rightarrow> auto_certs \<Rightarrow> string + tls_config" where
  "TLSConfig keypair ac =
     (case keypair (ac_server_cert_file ac) (ac_server_key_file ac) of
        Some e \<Rightarrow> Inl (''grpccerts: failed to load server key pair: '' @ e)
      | None \<Rightarrow> Inr \<lparr>tl_cert = ac_server_cert_file ac, tl_key = ac_server_key_file ac,
                      tl_client_auth = RequireAndVerifyClientCert, tl_client_ca = ac_ca_cert ac,
                      tl_min_version = 0x0303\<rparr>)"

datatype server_transport =
    ServerPlaintext
  | ServerTLS string string
  | ServerMutualTLS tls_config

definition maxMsgSize :: nat where "maxMsgSize = 16 * 1024 * 1024"

text \<open>\<open>Serve\<close> up to the start of the gRPC library's server: the transport, in this order of preference.\<close>

definition Serve_transport ::
  "(string \<Rightarrow> string \<Rightarrow> string option) \<Rightarrow> auto_certs option \<Rightarrow> string \<Rightarrow> string \<Rightarrow> string + server_transport" where
  "Serve_transport keypair autoCerts tlsCertFile tlsKeyFile =
     (case autoCerts of
        Some ac \<Rightarrow>
          (case TLSConfig keypair ac of
             Inl e \<Rightarrow> Inl (''grpc: failed to build mTLS config: '' @ e)
           | Inr cfg \<Rightarrow> Inr (ServerMutualTLS cfg))
      | None \<Rightarrow>
          if tlsCertFile \<noteq> [] \<and> tlsKeyFile \<noteq> []
          then (case keypair tlsCertFile tlsKeyFile of
                  Some e \<Rightarrow> Inl (''grpc: failed to load TLS credentials: '' @ e)
                | None \<Rightarrow> Inr (ServerTLS tlsCertFile tlsKeyFile))
          else Inr ServerPlaintext)"

section \<open>The start\<close>

record server_host =
  sh_now :: time
  sh_files :: "string \<Rightarrow> file_env"
  sh_pki :: pki
  sh_keys :: key_library
  sh_rsa :: "string + string"
  sh_ca_key :: "string option"
  sh_server_key :: "string option"
  sh_sha256 :: "string \<Rightarrow> string"
  sh_db :: db_library
  sh_sched_error :: "string option"
  sh_cron_ok :: "string \<Rightarrow> bool"
  sh_keypair :: "string \<Rightarrow> string \<Rightarrow> string option"

record server_started =
  ss_key :: "string option"
  ss_db :: db_handle
  ss_jwt :: jwt_manager
  ss_certs :: "auto_certs option"
  ss_store :: store
  ss_scheduler :: scheduler
  ss_manager :: manager
  ss_grpc :: grpc_config
  ss_transport :: "string + server_transport"

text \<open>The error texts of the database, which reach the text of a failed start only.\<close>

definition dberr_text :: "dberr \<Rightarrow> string" where
  "dberr_text e = (case e of ErrNotFound \<Rightarrow> ''record not found'' | ErrConflict \<Rightarrow> ''conflict'' | ErrDB \<Rightarrow> ''database error'')"

text \<open>The authority is created unless an external certificate or plaintext is configured.\<close>

definition start_certs ::
  "server_host \<Rightarrow> server_flags \<Rightarrow> files \<Rightarrow> (string + auto_certs option) \<times> files" where
  "start_certs h cfg fs =
     (if sf_tls_cert cfg = [] \<and> \<not> sf_insecure cfg
      then (case EnsureCerts (sh_files h) (sh_pki h) (sh_now h) (sh_ca_key h) (sh_server_key h)
                   (sf_data_dir cfg) fs of
              (Inl e, fs1) \<Rightarrow> (Inl (''failed to initialize gRPC PKI: '' @ e), fs1)
            | (Inr ac, fs1) \<Rightarrow> (Inr (Some ac), fs1))
      else (Inr None, fs))"

text \<open>\<open>scheduler.New\<close> and \<open>Start\<close>.\<close>

definition start_scheduler :: "server_host \<Rightarrow> store \<Rightarrow> (string + scheduler) \<times> store" where
  "start_scheduler h s =
     (case sh_sched_error h of
        Some e \<Rightarrow> (Inl (''failed to create scheduler: failed to create gocron scheduler: '' @ e), s)
      | None \<Rightarrow>
          (case Start (sh_cron_ok h) s \<lparr>sch_cron = [], sch_running = False\<rparr> of
             (Inl e, s1, _) \<Rightarrow> (Inl (''failed to start scheduler: '' @ dberr_text e), s1)
           | (Inr _, s1, c) \<Rightarrow> (Inr c, s1)))"

definition start_server_grpc :: "server_flags \<Rightarrow> auto_certs option \<Rightarrow> grpc_config" where
  "start_server_grpc cfg autoCerts =
     \<lparr>gc_secret = sf_agent_secret cfg, gc_auto_certs = (autoCerts \<noteq> None), gc_notifications = True,
      gc_metrics = True\<rparr>"

text \<open>\<open>run\<close> up to the start of its goroutines, on the rows the database holds.  The gRPC server starts in a goroutine
of its own: an error of its transport is logged and shuts the process down.\<close>

definition server_run ::
  "server_host \<Rightarrow> server_flags \<Rightarrow> store \<Rightarrow> files \<Rightarrow> (string + server_started) \<times> store \<times> files" where
  "server_run h cfg s fs =
     (if sf_secret_key cfg = []
      then (Inl (''secret key is required '' @ em_dash @ '' set --secret-key or ARKEEP_SECRET_KEY''), s, fs)
      else (case InitEncryption (sh_sha256 h (sf_secret_key cfg)) None of
        (Inl _, _) \<Rightarrow> (Inl ''failed to initialize encryption'', s, fs)
      | (Inr _, key) \<Rightarrow>
     (case db_New (sh_db h) (sf_db_driver cfg) (sf_db_dsn cfg) (gormLogLevel (sf_log_level cfg)) of
        Inl e \<Rightarrow> (Inl (''failed to connect to database: '' @ e), s, fs)
      | Inr db \<Rightarrow>
     (case buildJWTManager (sh_keys h) (sh_files h) (sh_rsa h) (sf_data_dir cfg) fs of
        Inl e \<Rightarrow> (Inl (''failed to initialize JWT manager: '' @ e), s, fs)
      | Inr jwt \<Rightarrow>
     (case start_certs h cfg fs of
        (Inl e, fs1) \<Rightarrow> (Inl e, s, fs1)
      | (Inr certs, fs1) \<Rightarrow>
     (case start_scheduler h s of
        (Inl e, s1) \<Rightarrow> (Inl e, s1, fs1)
      | (Inr c, s1) \<Rightarrow>
          (Inr \<lparr>ss_key = key, ss_db = db, ss_jwt = jwt, ss_certs = certs, ss_store = s1, ss_scheduler = c,
                ss_manager = mgr_New, ss_grpc = start_server_grpc cfg certs,
                ss_transport = Serve_transport (sh_keypair h) certs (sf_tls_cert cfg) (sf_tls_key cfg)\<rparr>,
           s1, fs1)))))))"

section \<open>Who reaches a handler\<close>

text \<open>A peer of the gRPC port: whether its client certificate passes the check against a CA, and its metadata.  A call
reaches a handler when the handshake admits the peer and the interceptor its metadata.\<close>

definition handshake :: "server_transport \<Rightarrow> (certificate \<Rightarrow> bool) \<Rightarrow> bool" where
  "handshake tr verifies = (case tr of ServerMutualTLS cfg \<Rightarrow> verifies (tl_client_ca cfg) | _ \<Rightarrow> True)"

definition call_admitted ::
  "server_started \<Rightarrow> (certificate \<Rightarrow> bool) \<Rightarrow> (string \<times> string list) list option \<Rightarrow> bool" where
  "call_admitted st verifies md =
     (case ss_transport st of
        Inl _ \<Rightarrow> False
      | Inr tr \<Rightarrow> handshake tr verifies \<and> validateToken (ss_grpc st) md = None)"

end
