(* ===== verification/ServerStartProofs.thy ===== *)
theory ServerStartProofs
  imports ServerStart CertsProofs
begin

text \<open>What a started server guarantees: an encryption key of full length, a transport that follows from its flags,
no call without a credential when a secret is configured, and tokens that outlive a restart with key files.\<close>

section \<open>The start\<close>

lemma server_run_started:
  assumes "server_run h cfg s fs = (Inr st, s', fs')"
  shows "sf_secret_key cfg \<noteq> []" "ss_key st = Some (sh_sha256 h (sf_secret_key cfg))"
    "length (sh_sha256 h (sf_secret_key cfg)) = 32"
    "ss_transport st = Serve_transport (sh_keypair h) (ss_certs st) (sf_tls_cert cfg) (sf_tls_key cfg)"
    "ss_grpc st = start_server_grpc cfg (ss_certs st)"
    "ss_certs st \<noteq> None \<longleftrightarrow> sf_tls_cert cfg = [] \<and> \<not> sf_insecure cfg"
    "buildJWTManager (sh_keys h) (sh_files h) (sh_rsa h) (sf_data_dir cfg) fs = Inr (ss_jwt st)"
proof -
  let ?key = "sh_sha256 h (sf_secret_key cfg)"
  from assms have sk: "sf_secret_key cfg \<noteq> []" and len: "length ?key = 32"
    by (auto simp: server_run_def InitEncryption_def split: if_splits)
  then have "InitEncryption ?key None = (Inr (), Some ?key)" by (simp add: InitEncryption_def)
  with assms sk obtain db jwt certs fs1 c s1 where
    j: "buildJWTManager (sh_keys h) (sh_files h) (sh_rsa h) (sf_data_dir cfg) fs = Inr jwt"
    and c: "start_certs h cfg fs = (Inr certs, fs1)"
    and st: "st = \<lparr>ss_key = Some ?key, ss_db = db, ss_jwt = jwt, ss_certs = certs, ss_store = s1, ss_scheduler = c,
        ss_manager = mgr_New, ss_grpc = start_server_grpc cfg certs,
        ss_transport = Serve_transport (sh_keypair h) certs (sf_tls_cert cfg) (sf_tls_key cfg)\<rparr>"
    by (auto simp: server_run_def split: sum.splits prod.splits)
  have "certs \<noteq> None \<longleftrightarrow> sf_tls_cert cfg = [] \<and> \<not> sf_insecure cfg"
    using c by (auto simp: start_certs_def split: if_splits sum.splits prod.splits)
  with sk len j st show "sf_secret_key cfg \<noteq> []" "ss_key st = Some ?key" "length ?key = 32"
    "ss_transport st = Serve_transport (sh_keypair h) (ss_certs st) (sf_tls_cert cfg) (sf_tls_key cfg)"
    "ss_grpc st = start_server_grpc cfg (ss_certs st)"
    "ss_certs st \<noteq> None \<longleftrightarrow> sf_tls_cert cfg = [] \<and> \<not> sf_insecure cfg"
    "buildJWTManager (sh_keys h) (sh_files h) (sh_rsa h) (sf_data_dir cfg) fs = Inr (ss_jwt st)"
    by simp_all
qed

lemma plaintext_iff:
  "Serve_transport keypair certs tlsCert tlsKey = Inr ServerPlaintext \<longleftrightarrow>
   certs = None \<and> (tlsCert = [] \<or> tlsKey = [])"
  by (auto simp: Serve_transport_def split: option.split sum.split)

lemma validateToken_secret:
  "gc_secret cfg \<noteq> [] \<Longrightarrow> \<not> gc_auto_certs cfg \<Longrightarrow> validateToken cfg md = None \<Longrightarrow>
   \<exists>kvs vs. md = Some kvs \<and> map_of kvs ''agent-secret'' = Some (gc_secret cfg # vs)"
  by (auto simp: validateToken_def split: option.splits list.splits if_splits)

text \<open>C15: A server that started encrypts with the 32 bytes of the hash of its secret key.  Its gRPC port is in plaintext
exactly when plaintext was asked for without an external certificate, or an external certificate was configured without
its key.  With an agent secret, a call reaches a handler only from a peer that shows the secret or, when the
authority is the server's own, a certificate of that authority.\<close>

theorem server_started_guarded:
  assumes "server_run h cfg s fs = (Inr st, s', fs')"
  shows "ss_key st = Some (sh_sha256 h (sf_secret_key cfg)) \<and> length (the (ss_key st)) = 32 \<and>
    (ss_transport st = Inr ServerPlaintext \<longleftrightarrow>
       (if sf_tls_cert cfg = [] then sf_insecure cfg else sf_tls_key cfg = [])) \<and>
    (sf_agent_secret cfg \<noteq> [] \<longrightarrow> call_admitted st verifies md \<longrightarrow>
       (\<exists>ac. ss_certs st = Some ac \<and> verifies (ac_ca_cert ac)) \<or>
       (\<exists>kvs vs. md = Some kvs \<and> map_of kvs ''agent-secret'' = Some (sf_agent_secret cfg # vs)))"
proof -
  note run = server_run_started[OF assms]
  have plain: "ss_transport st = Inr ServerPlaintext \<longleftrightarrow>
      (if sf_tls_cert cfg = [] then sf_insecure cfg else sf_tls_key cfg = [])"
    using run(4,6) by (auto simp: plaintext_iff)
  have "(\<exists>ac. ss_certs st = Some ac \<and> verifies (ac_ca_cert ac)) \<or>
      (\<exists>kvs vs. md = Some kvs \<and> map_of kvs ''agent-secret'' = Some (sf_agent_secret cfg # vs))"
    if secret: "sf_agent_secret cfg \<noteq> []" and adm: "call_admitted st verifies md"
  proof (cases "ss_certs st")
    case None
    then show ?thesis
      using validateToken_secret[of "ss_grpc st" md] secret adm run(5)
      by (auto simp: call_admitted_def start_server_grpc_def split: sum.splits)
  next
    case (Some ac)
    then show ?thesis
      using adm run(4) by (auto simp: call_admitted_def Serve_transport_def TLSConfig_def handshake_def
          split: sum.splits option.splits)
  qed
  with run plain show ?thesis by simp
qed

section \<open>Restarts\<close>

text \<open>With a private key file, a later start on the same key files has the same keys, so the tokens issued before stay
valid; and a key file that cannot be looked at stops the start instead of replacing the keys.\<close>

lemma keys_survive_restart:
  assumes "server_run h cfg s fs = (Inr st, s', fs')" and "server_run h2 cfg s2 fs2 = (Inr st2, s2', fs2')"
    and "sh_keys h2 = sh_keys h" and "map_of fs (filepath_Join (sf_data_dir cfg) ''jwt_private.pem'') \<noteq> None"
    and "\<And>name. map_of fs2 (filepath_Join (sf_data_dir cfg) name) = map_of fs (filepath_Join (sf_data_dir cfg) name)"
  shows "jwt_ValidateAccessToken (manager_crypto sign parse (ss_jwt st2) ac) now token =
    jwt_ValidateAccessToken (manager_crypto sign parse (ss_jwt st) ac) now token"
proof -
  have "ss_jwt st2 = ss_jwt st"
    using server_run_started(7)[OF assms(1)] server_run_started(7)[OF assms(2)] assms(3-5)
    by (auto simp: buildJWTManager_def Let_def NewJWTManagerFromFiles_def os_ReadFile_def split: option.splits)
  then show ?thesis by simp
qed

lemma inaccessible_key_stops:
  "fe_error (sh_files h (filepath_Join (sf_data_dir cfg) ''jwt_private.pem''))
     (StatFile (filepath_Join (sf_data_dir cfg) ''jwt_private.pem'')) = Some e \<Longrightarrow>
   fst (server_run h cfg s fs) \<noteq> Inr st"
  using server_run_started(7)[of h cfg s fs st "fst (snd (server_run h cfg s fs))" "snd (snd (server_run h cfg s fs))"]
  by (cases "server_run h cfg s fs") (auto simp: buildJWTManager_def Let_def)

section \<open>A start\<close>

definition demo_server_host :: server_host where
  "demo_server_host = \<lparr>sh_now = 0, sh_files = (\<lambda>_. demo_file_env), sh_pki = demo_pki,
     sh_keys = \<lparr>kl_pem = (\<lambda>_. None), kl_to_pem = (\<lambda>_ b. b), kl_pkcs1 = (\<lambda>_. Inl []), kl_pkcs8 = (\<lambda>_. Inl []),
        kl_pkix = (\<lambda>_. Inl []), kl_marshal_pkix = (\<lambda>_. Inl []), kl_public = (\<lambda>k. k)\<rparr>,
     sh_rsa = Inr ''rsa'', sh_ca_key = Some ''ca'', sh_server_key = Some ''srv'',
     sh_sha256 = (\<lambda>_. replicate 32 CHR ''h''),
     sh_db = \<lparr>dl_sql_open = (\<lambda>_. None), dl_gorm_sqlite = None, dl_gorm_postgres = (\<lambda>_. None),
        dl_postgres_sql = None, dl_source = None, dl_driver = (\<lambda>_. None), dl_migrator = (\<lambda>_. None), dl_up = NoChange\<rparr>,
     sh_sched_error = None, sh_cron_ok = (\<lambda>_. True), sh_keypair = (\<lambda>_ _. None)\<rparr>"

definition demo_server_flags :: server_flags where
  "demo_server_flags = (server_defaults (\<lambda>_. []))\<lparr>sf_secret_key := ''master'', sf_agent_secret := ''s3cret'',
     sf_tls_cert := ''c.pem'', sf_tls_key := ''k.pem''\<rparr>"

theorem server_started_guarded_witness:
  "\<exists>st s' fs'. server_run demo_server_host demo_server_flags empty_store [] = (Inr st, s', fs') \<and>
     ss_transport st \<noteq> Inr ServerPlaintext \<and> \<not> call_admitted st (\<lambda>_. True) (Some [(''agent-secret'', [''no''])])"
proof -
  have start: "\<exists>st s' fs'. server_run demo_server_host demo_server_flags empty_store [] = (Inr st, s', fs')"
    by (simp add: server_run_def demo_server_flags_def demo_server_host_def server_defaults_def envOrDefault_def
        InitEncryption_def db_New_def open_db_def runMigrations_def buildJWTManager_def Let_def demo_file_env_def
        NewJWTManagerGenerated_def start_certs_def start_scheduler_def Start_def policies_ListEnabled_def
        db_find_def empty_store_def)
  then obtain st s' fs' where run: "server_run demo_server_host demo_server_flags empty_store [] = (Inr st, s', fs')"
    by blast
  note g = server_started_guarded[OF run, of "\<lambda>_. True" "Some [(''agent-secret'', [''no''])]"]
  have f: "sf_tls_cert demo_server_flags = ''c.pem''" "sf_tls_key demo_server_flags = ''k.pem''"
    "sf_agent_secret demo_server_flags = ''s3cret''" by (simp_all add: demo_server_flags_def)
  then have "ss_certs st = None" using server_run_started(6)[OF run] by simp
  with g run f show ?thesis by auto
qed

end
