(* ===== verification/Telemetry.thy ===== *)
theory Telemetry
  imports AuthProofs AgentStart "HOL-Library.Word"
begin

text \<open>The anonymous usage statistics (\<open>server/internal/telemetry/telemetry.go\<close>): the identifier of the
instance, which is created once, and the pings.  Sending over HTTP is left out but for the request.\<close>

unbundle bit_operations_syntax

section \<open>The identifier\<close>

text \<open>\<open>b\<close> are the sixteen bytes of the random source.\<close>

definition uuid_bytes :: "8 word list \<Rightarrow> 8 word list" where
  "uuid_bytes b = b[6 := (b ! 6 AND 0x0f) OR 0x40, 8 := (b ! 8 AND 0x3f) OR 0x80]"

definition byte_char :: "8 word \<Rightarrow> char" where
  "byte_char w = char_of (unat w)"

definition hex_bytes :: "8 word list \<Rightarrow> string" where
  "hex_bytes b = hex_encode (map byte_char b)"

definition uuid_text :: "8 word list \<Rightarrow> string" where
  "uuid_text b =
     hex_bytes (take 4 b) @ ''-'' @ hex_bytes (take 2 (drop 4 b)) @ ''-'' @ hex_bytes (take 2 (drop 6 b)) @ ''-''
       @ hex_bytes (take 2 (drop 8 b)) @ ''-'' @ hex_bytes (take 6 (drop 10 b))"

definition newUUID :: "string + 8 word list \<Rightarrow> string + string" where
  "newUUID random = (case random of Inl e \<Rightarrow> Inl e | Inr b \<Rightarrow> Inr (uuid_text (uuid_bytes b)))"

definition filepath_Dir :: "string \<Rightarrow> string" where
  "filepath_Dir p = filepath_Clean (rev (dropWhile (\<lambda>c. c \<noteq> path_sep) (rev p)))"

text \<open>The identifier, and whether it is new.\<close>

definition loadOrCreateID ::
  "file_env \<Rightarrow> string + 8 word list \<Rightarrow> string \<Rightarrow> files \<Rightarrow> (string + string \<times> bool) \<times> files" where
  "loadOrCreateID fe random path fs =
     (case fe_error fe (ReadFile path) of
        Some e \<Rightarrow> (Inl e, fs)
      | None \<Rightarrow>
          (let known = (case map_of fs path of None \<Rightarrow> [] | Some data \<Rightarrow> trim_space data) in
           if known \<noteq> [] then (Inr (known, False), fs)
           else (case newUUID random of
                   Inl e \<Rightarrow> (Inl (''generate uuid: '' @ e), fs)
                 | Inr i \<Rightarrow>
                     (case fe_error fe (MakeDirs (filepath_Dir path)) of
                        Some e \<Rightarrow> (Inl (''create data dir: '' @ e), fs)
                      | None \<Rightarrow>
                          (case write_file fe path i fs of
                             (Inl e, fs1) \<Rightarrow> (Inl (''write instance id: '' @ e), fs1)
                           | (Inr _, fs1) \<Rightarrow> (Inr (i, True), fs1))))))"

section \<open>The reporter\<close>

definition idFileName :: string where "idFileName = ''telemetry_id''"
definition pingURL :: string where "pingURL = ''https://telemetry.arkeep.io/ping''"
definition pingInterval :: time where "pingInterval = 24 * hour"

record reporter =
  tr_version :: string
  tr_instance :: string

definition telemetry_New ::
  "file_env \<Rightarrow> string + 8 word list \<Rightarrow> string \<Rightarrow> string \<Rightarrow> files \<Rightarrow> (string + reporter \<times> bool) \<times> files" where
  "telemetry_New fe random version dataDir fs =
     (case loadOrCreateID fe random (filepath_Join dataDir idFileName) fs of
        (Inl e, fs1) \<Rightarrow> (Inl (''telemetry: instance id: '' @ e), fs1)
      | (Inr (i, firstRun), fs1) \<Rightarrow> (Inr (\<lparr>tr_version = version, tr_instance = i\<rparr>, firstRun), fs1))"

text \<open>The request of a ping: the URL and the body, from the counts of the statistics provider.\<close>

definition ping_request :: "reporter \<Rightarrow> string \<Rightarrow> store \<Rightarrow> (string \<times> string) \<times> store" where
  "ping_request r os s =
     (let (agents, s1) = agents_TotalCount s; (active, s2) = policies_ActiveCount s1 in
      ((pingURL, json_text (JObj [(''instance_id'', JStr (tr_instance r)), (''version'', JStr (tr_version r)),
          (''agents_count'', jint (int agents)), (''policies_count'', jint (int active)), (''os'', JStr os)])), s2))"

text \<open>The loop of \<open>Start\<close>: one ping at once and one for every tick, on the database as it is then.\<close>

definition telemetry_Start :: "reporter \<Rightarrow> string \<Rightarrow> store \<Rightarrow> store list \<Rightarrow> (string \<times> string) list" where
  "telemetry_Start r os s ticks = map (\<lambda>s. fst (ping_request r os s)) (s # ticks)"

section \<open>The identifier is stable\<close>

lemma hex_bytes_append: "hex_bytes (a @ b) = hex_bytes a @ hex_bytes b"
  by (simp add: hex_bytes_def hex_encode_def)

lemma hex_bytes_length [simp]: "length (hex_bytes b) = 2 * length b"
  by (induction b) (simp_all add: hex_bytes_def hex_encode_def Let_def)

lemma dropWhile_snoc: "\<not> P c \<Longrightarrow> dropWhile P (xs @ [c]) = dropWhile P xs @ [c]"
  by (induction xs) simp_all

lemma trim_space_idem: "trim_space (trim_space s) = trim_space s"
proof (cases "dropWhile is_space s")
  case Nil
  have "trim_space s = []" unfolding trim_space_def Nil by simp
  moreover have "trim_space [] = []" by (simp add: trim_space_def)
  ultimately show ?thesis by simp
next
  case (Cons c t)
  then have c: "\<not> is_space c" using hd_dropWhile[of is_space s] by simp
  then have "trim_space s = c # rev (dropWhile is_space (rev t))"
    by (simp add: trim_space_def Cons dropWhile_snoc)
  with c show ?thesis by (simp add: trim_space_def dropWhile_snoc dropWhile_idem)
qed

lemma hex_bytes_simps [simp]:
  "hex_bytes [] = []"
  "hex_bytes (w # b) = hexdigit (unat w div 16) # hexdigit (unat w mod 16) # hex_bytes b"
proof -
  have "unat w < 256" using unsigned_less[of w] by simp
  then show "hex_bytes (w # b) = hexdigit (unat w div 16) # hexdigit (unat w mod 16) # hex_bytes b"
    by (simp add: hex_bytes_def hex_encode_def Let_def byte_char_def)
qed (simp add: hex_bytes_def hex_encode_def)

lemma hexdigit_not_space: "n < 16 \<Longrightarrow> \<not> is_space (hexdigit n)"
  by (auto simp: is_space_def hexdigit_def Let_def)

lemma hex_bytes_no_space: "c \<in> set (hex_bytes b) \<Longrightarrow> \<not> is_space c"
proof (induction b)
  case (Cons w b)
  have "unat w < 256" using unsigned_less[of w] by simp
  with Cons show ?case by (auto simp: hexdigit_not_space)
qed simp

lemma dropWhile_none: "(\<And>c. c \<in> set s \<Longrightarrow> \<not> P c) \<Longrightarrow> dropWhile P s = s"
  by (cases s) simp_all

lemma trim_space_none:
  assumes "\<And>c. c \<in> set s \<Longrightarrow> \<not> is_space c"
  shows "trim_space s = s"
proof -
  have "dropWhile is_space s = s" "dropWhile is_space (rev s) = rev s" using assms by (auto intro: dropWhile_none)
  then show ?thesis by (simp add: trim_space_def)
qed

lemma uuid_text_trim [simp]: "trim_space (uuid_text b) = uuid_text b"
  by (rule trim_space_none) (auto simp: uuid_text_def is_space_def[of "CHR ''-''"] dest: hex_bytes_no_space)

lemma uuid_text_nonempty [simp]: "uuid_text b \<noteq> []"
  by (simp add: uuid_text_def)

text \<open>The marks of a random UUID: 36 characters, dashes at four places, the version 4 and the variant.\<close>

lemma byte_high:
  "unat (((w :: 8 word) AND 0x0f) OR 0x40) div 16 = 4"
  "unat ((w AND 0x3f) OR 0x80) div 16 \<in> {8, 9, 10, 11}"
proof -
  have "\<forall>n \<in> set [0..<256]. unat (((word_of_nat n :: 8 word) AND 0x0f) OR 0x40) div 16 = 4 \<and>
      unat (((word_of_nat n :: 8 word) AND 0x3f) OR 0x80) div 16 \<in> {8, 9, 10, 11}"
    by code_simp
  moreover have "unat w \<in> set [0..<256]" using unsigned_less[of w] by simp
  moreover have "word_of_nat (unat w) = w" by simp
  ultimately show "unat ((w AND 0x0f) OR 0x40) div 16 = 4" "unat ((w AND 0x3f) OR 0x80) div 16 \<in> {8, 9, 10, 11}"
    by metis+
qed

definition uuid_v4 :: "string \<Rightarrow> bool" where
  "uuid_v4 i \<longleftrightarrow> length i = 36 \<and> (\<forall>k \<in> {8, 13, 18, 23}. i ! k = CHR ''-'') \<and>
     i ! 14 = CHR ''4'' \<and> i ! 19 \<in> {CHR ''8'', CHR ''9'', CHR ''a'', CHR ''b''}"

lemma uuid_text_v4:
  assumes "length b = 16"
  shows "uuid_v4 (uuid_text (uuid_bytes b))"
proof -
  from assms obtain b0 b1 b2 b3 b4 b5 b6 b7 b8 b9 b10 b11 b12 b13 b14 b15 where
    b: "b = [b0, b1, b2, b3, b4, b5, b6, b7, b8, b9, b10, b11, b12, b13, b14, b15]"
    by (auto simp: numeral_eq_Suc length_Suc_conv)
  have "hexdigit 4 = CHR ''4''" "hexdigit 8 = CHR ''8''" "hexdigit 9 = CHR ''9''" "hexdigit 10 = CHR ''a''"
    "hexdigit 11 = CHR ''b''" by code_simp+
  then have h: "hexdigit (unat ((b6 AND 0x0f) OR 0x40) div 16) = CHR ''4''"
    "hexdigit (unat ((b8 AND 0x3f) OR 0x80) div 16) \<in> {CHR ''8'', CHR ''9'', CHR ''a'', CHR ''b''}"
    using byte_high[of b6] byte_high(2)[of b8] by auto
  have "uuid_bytes b = [b0, b1, b2, b3, b4, b5, (b6 AND 0x0f) OR 0x40, b7, (b8 AND 0x3f) OR 0x80, b9, b10, b11, b12,
      b13, b14, b15]" by (simp add: uuid_bytes_def b)
  with h show ?thesis by (simp add: uuid_v4_def uuid_text_def)
qed

text \<open>The first start creates a random UUID of version 4; it and every later start, whatever its random source yields,
report the same identifier, and only the first one that it is new.\<close>

theorem instance_id_stable:
  assumes "loadOrCreateID fe (Inr b) path fs = (Inr (i, created), fs')" "length b = 16"
    and "fe_error fe2 (ReadFile path) = None"
  shows "loadOrCreateID fe2 random path fs' = (Inr (i, False), fs') \<and> (created \<longrightarrow> uuid_v4 i) \<and>
    (\<forall>q. q \<noteq> path \<longrightarrow> map_of fs' q = map_of fs q)"
proof -
  let ?known = "case map_of fs path of None \<Rightarrow> [] | Some data \<Rightarrow> trim_space data"
  show ?thesis
  proof (cases "?known = []")
    case True
    with assms(1) have "i = uuid_text (uuid_bytes b)" "fs' = map_put path i fs"
      by (auto simp: loadOrCreateID_def Let_def newUUID_def write_file_def split: option.splits if_splits)
    with assms(2,3) uuid_text_v4 show ?thesis by (simp add: loadOrCreateID_def Let_def)
  next
    case False
    with assms show ?thesis by (auto simp: loadOrCreateID_def Let_def trim_space_idem split: option.splits if_splits)
  qed
qed

end
