(* ===== verification/StaticGui.thy ===== *)
theory StaticGui
  imports PathTranslate
begin

text \<open>The web interface (\<open>server/internal/api/gui.go\<close>): which of its embedded files answers a request.  The file
system is a parameter that knows files and directories by their path; \<open>path.Clean\<close> is the
\<open>filepath_Clean\<close> of the Unix paths.\<close>

section \<open>Answers\<close>

datatype asset_kind = AssetFile | AssetDirectory

type_synonym gui_assets = "string \<Rightarrow> asset_kind option"

datatype gui_answer =
    IndexPage
  | ServeAsset string
  | NotFoundPage

text \<open>\<open>path.Ext\<close>: the last element from its last dot on.\<close>

definition path_Ext :: "string \<Rightarrow> string" where
  "path_Ext p =
     (let name = rev (takeWhile (\<lambda>c. c \<noteq> path_sep) (rev p)) in
      if CHR ''.'' \<in> set name then CHR ''.'' # rev (takeWhile (\<lambda>c. c \<noteq> CHR ''.'') (rev name)) else [])"

definition gui_path :: "string \<Rightarrow> string" where
  "gui_path url = (let p = filepath_Clean url in if starts_with ''/'' p then drop 1 p else p)"

definition gui_handler :: "gui_assets \<Rightarrow> string \<Rightarrow> gui_answer" where
  "gui_handler assets url =
     (let reqPath = gui_path url in
      if reqPath = ''.'' \<or> reqPath = [] then IndexPage
      else if assets reqPath \<noteq> None then ServeAsset reqPath
      else if path_Ext reqPath \<noteq> [] then NotFoundPage
      else IndexPage)"

text \<open>Without assets the interface is not mounted.\<close>

definition MountGUI :: "gui_assets option \<Rightarrow> string \<Rightarrow> string \<Rightarrow> gui_answer option" where
  "MountGUI assets verb url =
     (case assets of
        None \<Rightarrow> None
      | Some a \<Rightarrow> if verb = ''GET'' \<or> verb = ''HEAD'' then Some (gui_handler a url) else None)"

section \<open>Requests stay inside the assets\<close>

definition no_up :: "string list \<Rightarrow> bool" where
  "no_up es = list_all (\<lambda>e. plain e \<and> path_sep \<notin> set e) es"

lemma clean_step_no_up:
  "no_up out \<Longrightarrow> path_sep \<notin> set e \<Longrightarrow> no_up (clean_step True e out)"
  by (auto simp: no_up_def clean_step_def plain_def list_all_iff dest: in_set_butlastD)

lemma clean_parts_no_up:
  "list_all (\<lambda>e. path_sep \<notin> set e) es \<Longrightarrow> no_up out \<Longrightarrow> no_up (fold (clean_step True) es out)"
  by (induction es arbitrary: out) (simp_all add: clean_step_no_up)

lemma gui_path_rooted:
  assumes "path_rooted url"
  shows "\<exists>es. no_up es \<and> gui_path url = join_with ''/'' es"
proof -
  let ?es = "clean_parts True (split_on path_sep url)"
  have "url \<noteq> []" using assms by (auto simp: path_rooted_def)
  with assms have "filepath_Clean url = path_sep # join_with ''/'' ?es" by (simp add: filepath_Clean_def Let_def)
  then have "gui_path url = join_with ''/'' ?es" by (simp add: gui_path_def path_sep_def)
  moreover have "no_up ?es"
    unfolding clean_parts_def by (rule clean_parts_no_up)
      (auto simp: no_up_def list_all_iff dest: split_on_parts)
  ultimately show ?thesis by blast
qed

text \<open>Whatever path is requested, an asset that is served exists under a path with plain elements only, no way up and
not from the root; a path with no asset gives the entry page if its last element has no extension, and is not found
otherwise.\<close>

theorem gui_confined:
  assumes "path_rooted url"
  shows "case gui_handler assets url of
      ServeAsset p \<Rightarrow> assets p \<noteq> None \<and> p = gui_path url \<and> (\<exists>es. es \<noteq> [] \<and> no_up es \<and> p = join_with ''/'' es)
    | NotFoundPage \<Rightarrow> assets (gui_path url) = None \<and> path_Ext (gui_path url) \<noteq> []
    | IndexPage \<Rightarrow> gui_path url = [] \<or> assets (gui_path url) = None \<and> path_Ext (gui_path url) = []"
proof -
  obtain es where es: "no_up es" "gui_path url = join_with ''/'' es" using gui_path_rooted[OF assms] by blast
  have "gui_path url \<noteq> ''.''"
  proof
    assume "gui_path url = ''.''"
    moreover from this es have "es \<noteq> []" by auto
    ultimately have "es = [''.'']"
      using es split_join_with[of es path_sep] by (auto simp: no_up_def list_all_iff path_sep_def)
    with es show False by (simp add: no_up_def plain_def)
  qed
  moreover have "es \<noteq> []" if "gui_path url \<noteq> []" using that es by auto
  ultimately show ?thesis using es by (auto simp: gui_handler_def Let_def)
qed

end
