(* ===== verification/Observability.thy ===== *)
theory Observability
  imports ServerStart
begin

text \<open>What the program reports of itself: the Prometheus counters of the server
(\<open>server/internal/metrics/metrics.go\<close>), the adapter of the database's log (\<open>server/internal/db/logger.go\<close>) and
the host metrics of an agent (\<open>agent/internal/metrics/metrics.go\<close>).  The Prometheus, zap and gopsutil libraries are
left out: a counter vector is a map from labels to numbers, a histogram the list of its observations.\<close>

section \<open>Counters\<close>

record metrics =
  mx_jobs :: "((string \<times> string) \<times> nat) list"
  mx_durations :: "(string \<times> time) list"
  mx_requests :: "((string \<times> string \<times> string) \<times> nat) list"
  mx_latencies :: "((string \<times> string) \<times> time) list"

definition metrics_New :: metrics where
  "metrics_New = \<lparr>mx_jobs = [], mx_durations = [], mx_requests = [], mx_latencies = []\<rparr>"

definition counter :: "('k \<times> nat) list \<Rightarrow> 'k \<Rightarrow> nat" where
  "counter m k = (case map_of m k of None \<Rightarrow> 0 | Some n \<Rightarrow> n)"

definition count_one :: "'k \<Rightarrow> ('k \<times> nat) list \<Rightarrow> ('k \<times> nat) list" where
  "count_one k m = map_put k (counter m k + 1) m"

definition RegisterAgentsGauge :: "manager \<Rightarrow> nat" where
  "RegisterAgentsGauge m = mgr_ConnectedAgentsCount m"

definition RecordJob :: "string \<Rightarrow> string \<Rightarrow> time \<Rightarrow> time \<Rightarrow> metrics \<Rightarrow> metrics" where
  "RecordJob status jobType startedAt endedAt m =
     (let m1 = m\<lparr>mx_jobs := count_one (status, jobType) (mx_jobs m)\<rparr> in
      if startedAt \<noteq> zero_time \<and> endedAt \<noteq> zero_time \<and> startedAt < endedAt
      then m1\<lparr>mx_durations := mx_durations m1 @ [(jobType, endedAt - startedAt)]\<rparr>
      else m1)"

text \<open>The status a response is recorded with: that of the last \<open>WriteHeader\<close>, or 200.\<close>

definition recorded_status :: "int list \<Rightarrow> int" where
  "recorded_status codes = (if codes = [] then 200 else last codes)"

text \<open>A request: its method, its path and the pattern of its route, the headers its handler writes, and its time.\<close>

record served =
  sd_method :: string
  sd_path :: string
  sd_pattern :: "string option"
  sd_codes :: "int list"
  sd_start :: time
  sd_end :: time

definition route_label :: "served \<Rightarrow> string" where
  "route_label r = (case sd_pattern r of None \<Rightarrow> sd_path r | Some p \<Rightarrow> if p = [] then sd_path r else p)"

definition HTTPMiddleware :: "served \<Rightarrow> metrics \<Rightarrow> metrics" where
  "HTTPMiddleware r m =
     (let route = route_label r in
      m\<lparr>mx_requests := count_one (sd_method r, route, int_text (recorded_status (sd_codes r))) (mx_requests m),
        mx_latencies := mx_latencies m @ [((sd_method r, route), sd_end r - sd_start r)]\<rparr>)"

text \<open>The metrics of the jobs a gRPC server has recorded.\<close>

definition server_metrics :: "grpc_server \<Rightarrow> metrics" where
  "server_metrics g =
     fold (\<lambda>j. RecordJob (jm_status j) (jm_type j) (jm_started j) (jm_ended j)) (gs_metrics g) metrics_New"

section \<open>The log of the database\<close>

text \<open>GORM's levels, and its zero.\<close>

definition gorm_number :: "gorm_level \<Rightarrow> int" where
  "gorm_number l = (case l of GormSilent \<Rightarrow> 1 | GormError \<Rightarrow> 2 | GormWarn \<Rightarrow> 3 | GormInfo \<Rightarrow> 4)"

record gorm_logger =
  gl_level :: int
  gl_slow :: time
  gl_ignore_not_found :: bool

definition newZapGORMLogger :: "int \<Rightarrow> gorm_logger" where
  "newZapGORMLogger level =
     \<lparr>gl_level = (if level = 0 then gorm_number GormWarn else level), gl_slow = 200 * (second div 1000),
      gl_ignore_not_found = True\<rparr>"

definition LogMode :: "int \<Rightarrow> gorm_logger \<Rightarrow> gorm_logger" where
  "LogMode level l = l\<lparr>gl_level := level\<rparr>"

datatype log_line = LogDebug string | LogInfo string | LogWarn string | LogError string

definition gorm_Info :: "string \<Rightarrow> gorm_logger \<Rightarrow> log_line list" where
  "gorm_Info msg l = (if gorm_number GormInfo \<le> gl_level l then [LogInfo msg] else [])"

definition gorm_Warn :: "string \<Rightarrow> gorm_logger \<Rightarrow> log_line list" where
  "gorm_Warn msg l = (if gorm_number GormWarn \<le> gl_level l then [LogWarn msg] else [])"

definition gorm_Error :: "string \<Rightarrow> gorm_logger \<Rightarrow> log_line list" where
  "gorm_Error msg l = (if gorm_number GormError \<le> gl_level l then [LogError msg] else [])"

text \<open>A statement: how long it took, and its error.\<close>

definition gorm_Trace :: "time \<Rightarrow> dberr option \<Rightarrow> gorm_logger \<Rightarrow> log_line list" where
  "gorm_Trace elapsed err l =
     (if gl_level l \<le> gorm_number GormSilent then []
      else if err \<noteq> None \<and> (\<not> gl_ignore_not_found l \<or> err \<noteq> Some ErrNotFound) then [LogError ''gorm query error'']
      else if 0 < gl_slow l \<and> gl_slow l < elapsed then [LogWarn ''gorm slow query'']
      else if gorm_number GormInfo \<le> gl_level l then [LogDebug ''gorm query'']
      else [])"

section \<open>The metrics of a host\<close>

text \<open>The readings are texts, as the messages carry them; \<open>float32\<close> is the conversion to the message's type, and a
reading that fails is the zero.\<close>

record host_readings =
  hs_cpu :: "string + string list"
  hs_mem :: "string + string"
  hs_disk :: "string \<Rightarrow> string + string"

definition cpuPercent :: "(string \<Rightarrow> string) \<Rightarrow> host_readings \<Rightarrow> string" where
  "cpuPercent float32 h = (case hs_cpu h of Inr (p # _) \<Rightarrow> float32 p | _ \<Rightarrow> ''0'')"

definition memPercent :: "(string \<Rightarrow> string) \<Rightarrow> host_readings \<Rightarrow> string" where
  "memPercent float32 h = (case hs_mem h of Inr p \<Rightarrow> float32 p | Inl _ \<Rightarrow> ''0'')"

definition diskPercent :: "platform \<Rightarrow> (string \<Rightarrow> string) \<Rightarrow> host_readings \<Rightarrow> string" where
  "diskPercent pf float32 h =
     (case hs_disk h (if pf_os pf = ''windows'' then ''C:'' @ [CHR 0x5C] else ''/'') of
        Inr p \<Rightarrow> float32 p | Inl _ \<Rightarrow> ''0'')"

definition Collect_metrics :: "platform \<Rightarrow> (string \<Rightarrow> string) \<Rightarrow> host_readings \<Rightarrow> system_metrics" where
  "Collect_metrics pf float32 h =
     \<lparr>sm_cpu = cpuPercent float32 h, sm_mem = memPercent float32 h, sm_disk = diskPercent pf float32 h\<rparr>"

section \<open>Counting\<close>

lemma counter_count_one: "counter (count_one k m) k' = counter m k' + (if k = k' then 1 else 0)"
  by (simp add: counter_def count_one_def)

lemma counter_fold_jobs:
  "counter (mx_jobs (fold (\<lambda>j. RecordJob (jm_status j) (jm_type j) (jm_started j) (jm_ended j)) js m)) (st, ty) =
   counter (mx_jobs m) (st, ty) + length (filter (\<lambda>j. jm_status j = st \<and> jm_type j = ty) js)"
  by (induction js arbitrary: m) (auto simp: RecordJob_def Let_def counter_count_one)

text \<open>The job counter of a status and a type is the number of jobs the server recorded with them.\<close>

lemma server_metrics_count:
  "counter (mx_jobs (server_metrics g)) (st, ty) =
   length (filter (\<lambda>j. jm_status j = st \<and> jm_type j = ty) (gs_metrics g))"
  by (simp add: server_metrics_def counter_fold_jobs) (simp add: metrics_New_def counter_def)

text \<open>Durations are positive.\<close>

lemma server_metrics_durations:
  "(ty, d) \<in> set (mx_durations (server_metrics g)) \<Longrightarrow> 0 < d"
proof -
  have "(ty, d) \<in> set (mx_durations (fold (\<lambda>j. RecordJob (jm_status j) (jm_type j) (jm_started j) (jm_ended j)) js m)) \<Longrightarrow>
      \<forall>(t, e) \<in> set (mx_durations m). 0 < e \<Longrightarrow> 0 < d" for js m
    by (induction js arbitrary: m) (auto simp: RecordJob_def Let_def split: if_splits)
  from this[of "gs_metrics g" metrics_New]
  show "(ty, d) \<in> set (mx_durations (server_metrics g)) \<Longrightarrow> 0 < d"
    by (simp add: server_metrics_def metrics_New_def)
qed

text \<open>A missing row is never reported as an error of the database, any other error is unless the log is silent.\<close>

lemma gorm_Trace_errors:
  "LogError m \<in> set (gorm_Trace elapsed err (newZapGORMLogger level)) \<longleftrightarrow>
   m = ''gorm query error'' \<and> err \<noteq> None \<and> err \<noteq> Some ErrNotFound \<and> (level = 0 \<or> 1 < level)"
  by (auto simp: gorm_Trace_def newZapGORMLogger_def gorm_number_def)

end
