(* ===== verification/OidcProvider.thy ===== *)
theory OidcProvider
  imports AuthProofs
begin

text \<open>The session operations of the provider for identity providers (\<open>server/internal/auth/oidc.go\<close>).  The
service uses those of the local provider instead.\<close>

section \<open>Sessions of the provider\<close>

definition oidc_RefreshToken ::
  "auth_crypto \<Rightarrow> issue_input \<Rightarrow> string \<Rightarrow> store \<Rightarrow> (auth_error + token_pair) \<times> store" where
  "oidc_RefreshToken ac inp raw s =
     (let h = hashRefreshToken ac raw in
      case tokens_GetByHash h s of
        (Inl e, s1) \<Rightarrow>
          (Inl (if e = ErrNotFound then ErrRefreshTokenNotFound
                else AuthFailure ''auth: fetching refresh token''), s1)
      | (Inr stored, s1) \<Rightarrow>
          (case tokens_DeleteByHash h s1 of
             (Inl e, s2) \<Rightarrow> (Inl (AuthFailure ''auth: deleting old refresh token''), s2)
           | (Inr _, s2) \<Rightarrow> refreshed_user ac inp (rt_user_id stored) s2))"

definition oidc_Logout :: "auth_crypto \<Rightarrow> string \<Rightarrow> store \<Rightarrow> (auth_error + unit) \<times> store" where
  "oidc_Logout ac raw s =
     (case tokens_DeleteByHash (hashRefreshToken ac raw) s of
        (Inl e, s1) \<Rightarrow>
          (if e = ErrNotFound then Inr () else Inl (AuthFailure ''auth: revoking refresh token on logout''), s1)
      | (Inr _, s1) \<Rightarrow> (Inr (), s1))"

section \<open>The two refreshes differ\<close>

lemma oidc_Logout_local: "oidc_Logout = Logout"
  by (intro ext) (simp add: oidc_Logout_def Logout_def)

text \<open>The provider's refresh is the local one for a token that has not expired.\<close>

lemma oidc_refresh_fresh:
  assumes "\<And>t s1. tokens_GetByHash (hashRefreshToken ac raw) s = (Inr t, s1) \<Longrightarrow> now \<le> rt_expires_at t"
  shows "oidc_RefreshToken ac inp raw s = RefreshToken ac inp now raw s"
  using assms by (fastforce simp: oidc_RefreshToken_def RefreshToken_def Let_def split: sum.split prod.split)

text \<open>It has no clock, so it accepts a token at any time after its expiry, which the local one refuses.\<close>

lemma oidc_refresh_ignores_expiry:
  assumes "tokens_GetByHash (hashRefreshToken ac raw) s = (Inr t, s1)"
    and "tokens_DeleteByHash (hashRefreshToken ac raw) s1 = (Inr u, s2)" and "rt_expires_at t < now"
  shows "RefreshToken ac inp now raw s = (Inl ErrTokenExpired, s2)"
    and "oidc_RefreshToken ac inp raw s = refreshed_user ac inp (rt_user_id t) s2"
  using assms by (simp_all add: oidc_RefreshToken_def RefreshToken_def Let_def)

end
