(* ===== verification/BuildDeps.thy ===== *)
theory BuildDeps
  imports Extractor
begin

text \<open>The build script that fetches the binaries the agent embeds (\<open>agent/scripts/download_deps.go\<close>), and what the
extractor finds of them at run time.  HTTP, bzip2 and zip are the parameter \<open>downloads\<close>; what the script prints is
left out.\<close>

section \<open>The script\<close>

definition resticVersion :: string where "resticVersion = ''0.18.1''"
definition rcloneVersion :: string where "rcloneVersion = ''1.73.5''"
definition binDir :: string where "binDir = ''internal/restic/bin''"

definition releasePlatforms :: "platform list" where
  "releasePlatforms = map (\<lambda>(os, arch). \<lparr>pf_os = os, pf_arch = arch\<rparr>)
     [(''linux'', ''amd64''), (''linux'', ''arm64''), (''darwin'', ''amd64''), (''darwin'', ''arm64''), (''windows'', ''amd64'')]"

text \<open>\<open>dw_get\<close> answers with the status code and line and the body or the error of reading it; \<open>dw_zip\<close> lists the names
of an archive with their contents.\<close>

record downloads =
  dw_get :: "string \<Rightarrow> string + int \<times> string \<times> (string + string)"
  dw_bunzip2 :: "string \<Rightarrow> string + string"
  dw_zip :: "string \<Rightarrow> string + (string \<times> (string + string)) list"

definition fetch :: "downloads \<Rightarrow> string \<Rightarrow> string + string" where
  "fetch dw url =
     (case dw_get dw url of
        Inl e \<Rightarrow> Inl (''GET '' @ url @ '': '' @ e)
      | Inr (code, status, body) \<Rightarrow>
          if code \<noteq> 200 then Inl (''GET '' @ url @ '': unexpected status '' @ status)
          else (case body of Inl e \<Rightarrow> Inl (''read body: '' @ e) | Inr data \<Rightarrow> Inr data))"

definition zip_names :: "(string \<times> (string + string)) list \<Rightarrow> string" where
  "zip_names fs = join_with '', '' (map fst fs)"

definition extractFromZip :: "downloads \<Rightarrow> string \<Rightarrow> string \<Rightarrow> string + string" where
  "extractFromZip dw data target =
     (case dw_zip dw data of
        Inl e \<Rightarrow> Inl e
      | Inr fs \<Rightarrow> (case find (\<lambda>f. fst f = target) fs of
                     Some f \<Rightarrow> snd f
                   | None \<Rightarrow> Inl (''file '' @ go_quote target @ '' not found in zip; available: '' @ zip_names fs)))"

text \<open>Names are compared without regard to case, as ASCII.\<close>

definition extractFromZipBySuffix :: "downloads \<Rightarrow> string \<Rightarrow> string \<Rightarrow> string + string" where
  "extractFromZipBySuffix dw data suffix =
     (case dw_zip dw data of
        Inl e \<Rightarrow> Inl e
      | Inr fs \<Rightarrow> (case find (\<lambda>f. ends_with (map fold_char suffix) (map fold_char (fst f))) fs of
                     Some f \<Rightarrow> snd f
                   | None \<Rightarrow> Inl (''no file ending with '' @ go_quote (map fold_char suffix) @ '' found in zip; available: ''
                               @ zip_names fs)))"

definition exeExtFor :: "string \<Rightarrow> string" where
  "exeExtFor goos = (if goos = ''windows'' then ''.exe'' else [])"

definition normalizeOS :: "string \<Rightarrow> string" where
  "normalizeOS goos = (if goos = ''darwin'' then ''darwin'' else if goos = ''windows'' then ''windows'' else ''linux'')"

definition rclonePlatform :: "string \<Rightarrow> string" where
  "rclonePlatform goos = (if goos = ''darwin'' then ''osx'' else if goos = ''windows'' then ''windows'' else ''linux'')"

definition writeExecutable :: "file_env \<Rightarrow> string \<Rightarrow> string \<Rightarrow> files \<Rightarrow> (string + unit) \<times> files" where
  "writeExecutable fe path data fs =
     (case write_file fe path data fs of
        (Inl e, fs1) \<Rightarrow> (Inl (''write '' @ path @ '': '' @ e), fs1)
      | (Inr _, fs1) \<Rightarrow> (Inr (), fs1))"

definition restic_url :: "string" where
  "restic_url = ''https://github.com/restic/restic/releases/download/v'' @ resticVersion @ ''/''"

definition downloadResticBz2 :: "downloads \<Rightarrow> string \<Rightarrow> string \<Rightarrow> string + string" where
  "downloadResticBz2 dw resticOS goarch =
     (case fetch dw (restic_url @ ''restic_'' @ resticVersion @ ''_'' @ resticOS @ ''_'' @ goarch @ ''.bz2'') of
        Inl e \<Rightarrow> Inl e
      | Inr data \<Rightarrow> (case dw_bunzip2 dw data of Inl e \<Rightarrow> Inl (''decompress bzip2: '' @ e) | Inr d \<Rightarrow> Inr d))"

definition downloadResticZip :: "downloads \<Rightarrow> string \<Rightarrow> string \<Rightarrow> string + string" where
  "downloadResticZip dw resticOS goarch =
     (case fetch dw (restic_url @ ''restic_'' @ resticVersion @ ''_'' @ resticOS @ ''_'' @ goarch @ ''.zip'') of
        Inl e \<Rightarrow> Inl e
      | Inr data \<Rightarrow> (case extractFromZipBySuffix dw data ''.exe'' of
                      Inl e \<Rightarrow> Inl (''extract from zip: '' @ e) | Inr d \<Rightarrow> Inr d))"

text \<open>The contents a download yields, and the file it goes to.\<close>

definition rclone_data :: "downloads \<Rightarrow> string \<Rightarrow> string \<Rightarrow> string + string" where
  "rclone_data dw goos goarch =
     (let archiveName = ''rclone-v'' @ rcloneVersion @ ''-'' @ rclonePlatform goos @ ''-'' @ goarch in
      case fetch dw (''https://downloads.rclone.org/v'' @ rcloneVersion @ ''/'' @ archiveName @ ''.zip'') of
        Inl e \<Rightarrow> Inl e
      | Inr data \<Rightarrow> (case extractFromZip dw data (archiveName @ ''/rclone'' @ exeExtFor goos) of
                      Inl e \<Rightarrow> Inl (''extract from zip: '' @ e) | Inr d \<Rightarrow> Inr d))"

definition restic_data :: "downloads \<Rightarrow> string \<Rightarrow> string \<Rightarrow> string + string" where
  "restic_data dw goos goarch =
     (if goos = ''windows'' then downloadResticZip dw (normalizeOS goos) goarch
      else downloadResticBz2 dw (normalizeOS goos) goarch)"

definition restic_out :: "platform \<Rightarrow> string" where
  "restic_out p = filepath_Join binDir (''restic_'' @ normalizeOS (pf_os p) @ ''_'' @ pf_arch p @ exeExtFor (pf_os p))"

definition rclone_out :: "platform \<Rightarrow> string" where
  "rclone_out p = filepath_Join binDir (''rclone_'' @ pf_os p @ ''_'' @ pf_arch p @ exeExtFor (pf_os p))"

text \<open>A file that is there is not fetched again.\<close>

definition fetch_into ::
  "file_env \<Rightarrow> string \<Rightarrow> string + string \<Rightarrow> files \<Rightarrow> (string + unit) \<times> files" where
  "fetch_into fe out content fs =
     (if fe_error fe (StatFile out) = None \<and> map_of fs out \<noteq> None then (Inr (), fs)
      else (case content of Inl e \<Rightarrow> (Inl e, fs) | Inr data \<Rightarrow> writeExecutable fe out data fs))"

definition downloadRestic :: "downloads \<Rightarrow> file_env \<Rightarrow> platform \<Rightarrow> files \<Rightarrow> (string + unit) \<times> files" where
  "downloadRestic dw fe p fs = fetch_into fe (restic_out p) (restic_data dw (pf_os p) (pf_arch p)) fs"

definition downloadRclone :: "downloads \<Rightarrow> file_env \<Rightarrow> platform \<Rightarrow> files \<Rightarrow> (string + unit) \<times> files" where
  "downloadRclone dw fe p fs = fetch_into fe (rclone_out p) (rclone_data dw (pf_os p) (pf_arch p)) fs"

fun download_all :: "downloads \<Rightarrow> file_env \<Rightarrow> platform list \<Rightarrow> files \<Rightarrow> (string + unit) \<times> files" where
  "download_all dw fe [] fs = (Inr (), fs)"
| "download_all dw fe (p # ps) fs =
     (case downloadRestic dw fe p fs of
        (Inl e, fs1) \<Rightarrow> (Inl (''restic '' @ pf_os p @ ''/'' @ pf_arch p @ '': '' @ e), fs1)
      | (Inr _, fs1) \<Rightarrow>
          (case downloadRclone dw fe p fs1 of
             (Inl e, fs2) \<Rightarrow> (Inl (''rclone '' @ pf_os p @ ''/'' @ pf_arch p @ '': '' @ e), fs2)
           | (Inr _, fs2) \<Rightarrow> download_all dw fe ps fs2))"

definition download_deps ::
  "downloads \<Rightarrow> file_env \<Rightarrow> string list \<Rightarrow> platform \<Rightarrow> files \<Rightarrow> (string + unit) \<times> files" where
  "download_deps dw fe args host fs =
     (case fe_error fe (MakeDirs binDir) of
        Some e \<Rightarrow> (Inl (''create bin dir: '' @ e), fs)
      | None \<Rightarrow> download_all dw fe (if ''--all-platforms'' \<in> set args then releasePlatforms else [host]) fs)"

section \<open>What is built is what is extracted\<close>

text \<open>The files the compiler embeds for a platform (\<open>embed_<os>_<arch>.go\<close>).\<close>

definition embedded_from :: "files \<Rightarrow> embedded" where
  "embedded_from fs = \<lparr>em_open = (\<lambda>p. case map_of fs (''internal/restic/'' @ p) of
       None \<Rightarrow> Inl ''file does not exist'' | Some d \<Rightarrow> Inr d), em_stat = (\<lambda>_. None)\<rparr>"

definition dep_out :: "platform \<Rightarrow> string \<Rightarrow> string" where
  "dep_out p name = (if name = ''restic'' then restic_out p else rclone_out p)"

definition dep_data :: "downloads \<Rightarrow> platform \<Rightarrow> string \<Rightarrow> string + string" where
  "dep_data dw p name =
     (if name = ''restic'' then restic_data dw (pf_os p) (pf_arch p) else rclone_data dw (pf_os p) (pf_arch p))"

text \<open>For every release platform the script writes the file the extractor asks for, and no two share one.\<close>

lemma release_paths:
  "list_all (\<lambda>p. list_all (\<lambda>name. map_sum id (\<lambda>q. ''internal/restic/'' @ q) (embeddedPath p name) = Inr (dep_out p name))
     [''restic'', ''rclone'']) releasePlatforms"
  by code_simp

lemma dep_out_inj:
  assumes "p \<in> set releasePlatforms" "q \<in> set releasePlatforms" "m \<in> {''restic'', ''rclone''}" "n \<in> {''restic'', ''rclone''}"
  shows "dep_out p m = dep_out q n \<longleftrightarrow> p = q \<and> m = n"
proof -
  have "distinct (map (\<lambda>(p, n). dep_out p n) (List.product releasePlatforms [''restic'', ''rclone'']))" by code_simp
  then have "inj_on (\<lambda>(p, n). dep_out p n) (set (List.product releasePlatforms [''restic'', ''rclone'']))"
    by (rule distinct_map[THEN iffD1, THEN conjunct2])
  from inj_onD[OF this, of "(p, m)" "(q, n)"] assms show ?thesis by auto
qed

text \<open>What the files of the script hold: what was there before, or what was fetched.\<close>

definition deps_from :: "downloads \<Rightarrow> files \<Rightarrow> files \<Rightarrow> bool" where
  "deps_from dw fs0 fs \<longleftrightarrow> (\<forall>p \<in> set releasePlatforms. \<forall>n \<in> {''restic'', ''rclone''}. \<forall>d.
     map_of fs (dep_out p n) = Some d \<longrightarrow> map_of fs0 (dep_out p n) = Some d \<or> dep_data dw p n = Inr d)"

definition extends_files :: "files \<Rightarrow> files \<Rightarrow> bool" where
  "extends_files fs fs' \<longleftrightarrow> (\<forall>q. map_of fs q \<noteq> None \<longrightarrow> map_of fs' q = map_of fs q)"

lemma extends_files_trans: "extends_files a b \<Longrightarrow> extends_files b c \<Longrightarrow> extends_files a c"
  by (simp add: extends_files_def)

lemma fetch_step:
  assumes "\<And>q. fe_error fe (StatFile q) = None" and "fetch_into fe (dep_out p n) (dep_data dw p n) fs = (Inr (), fs')"
    and "deps_from dw fs0 fs" and "p \<in> set releasePlatforms" and "n \<in> {''restic'', ''rclone''}"
  shows "deps_from dw fs0 fs' \<and> extends_files fs fs' \<and> map_of fs' (dep_out p n) \<noteq> None"
proof (cases "map_of fs (dep_out p n)")
  case None
  with assms(1,2) obtain d where d: "dep_data dw p n = Inr d" "fs' = map_put (dep_out p n) d fs"
    by (auto simp: fetch_into_def writeExecutable_def write_file_def split: sum.splits option.splits)
  have "deps_from dw fs0 fs'"
    using assms(3) d dep_out_inj[OF _ assms(4) _ assms(5)] unfolding deps_from_def by auto
  with None d show ?thesis by (auto simp: extends_files_def)
next
  case (Some d)
  with assms show ?thesis by (simp add: fetch_into_def extends_files_def)
qed

lemma download_one:
  "downloadRestic dw fe p fs = fetch_into fe (dep_out p ''restic'') (dep_data dw p ''restic'') fs"
  "downloadRclone dw fe p fs = fetch_into fe (dep_out p ''rclone'') (dep_data dw p ''rclone'') fs"
  by (simp_all add: downloadRestic_def downloadRclone_def dep_out_def dep_data_def)

lemma download_all_files:
  assumes "\<And>q. fe_error fe (StatFile q) = None" and "set ps \<subseteq> set releasePlatforms"
    and "download_all dw fe ps fs = (Inr (), fs')" and "deps_from dw fs0 fs"
  shows "deps_from dw fs0 fs' \<and> extends_files fs fs' \<and>
    (\<forall>p \<in> set ps. \<forall>n \<in> {''restic'', ''rclone''}. map_of fs' (dep_out p n) \<noteq> None)"
  using assms(2-4)
proof (induction ps arbitrary: fs)
  case (Cons p ps)
  obtain fs1 fs2 where 1: "downloadRestic dw fe p fs = (Inr (), fs1)" and 2: "downloadRclone dw fe p fs1 = (Inr (), fs2)"
    and 3: "download_all dw fe ps fs2 = (Inr (), fs')"
    using Cons.prems(2) by (auto split: prod.splits sum.splits)
  have p: "p \<in> set releasePlatforms" using Cons.prems(1) by simp
  note a = fetch_step[OF assms(1) 1[unfolded download_one] Cons.prems(3) p]
  then have b: "deps_from dw fs0 fs2 \<and> extends_files fs1 fs2 \<and> map_of fs2 (dep_out p ''rclone'') \<noteq> None"
    by (intro fetch_step[OF assms(1) 2[unfolded download_one] _ p]) auto
  then have c: "deps_from dw fs0 fs' \<and> extends_files fs2 fs' \<and>
      (\<forall>p \<in> set ps. \<forall>n \<in> {''restic'', ''rclone''}. map_of fs' (dep_out p n) \<noteq> None)"
    using Cons.IH[OF _ 3] Cons.prems(1) by simp
  with a b have "map_of fs' (dep_out p ''restic'') \<noteq> None" "map_of fs' (dep_out p ''rclone'') \<noteq> None"
    unfolding extends_files_def by auto
  moreover from a b c have "extends_files fs fs'" using extends_files_trans by blast
  ultimately show ?case using c by simp
qed (simp add: extends_files_def)

text \<open>C38: from the build to the run: when the script succeeds, the agent built from its files finds the binaries of its
platform under the names it asks for, each with the contents that were downloaded, unless the file was there before the
script ran, which then is what the agent embeds, whatever it holds.\<close>

theorem build_feeds_extractor:
  assumes "download_deps dw fe args host fs = (Inr (), fs')" and "\<And>q. fe_error fe (StatFile q) = None"
    and "host \<in> set releasePlatforms" and "name \<in> {''restic'', ''rclone''}"
    and "p = host \<or> ''--all-platforms'' \<in> set args \<and> p \<in> set releasePlatforms"
  shows "\<exists>data. map_of fs' (dep_out p name) = Some data \<and>
    (case map_of fs (dep_out p name) of None \<Rightarrow> dep_data dw p name = Inr data | Some old \<Rightarrow> data = old) \<and>
    (data \<noteq> [] \<longrightarrow> embedded_data p (embedded_from fs') name = Some data)"
proof -
  define ps where "ps = (if ''--all-platforms'' \<in> set args then releasePlatforms else [host])"
  have run: "download_all dw fe ps fs = (Inr (), fs')"
    using assms(1) by (auto simp: download_deps_def ps_def split: option.splits)
  have p: "p \<in> set releasePlatforms" and ps: "set ps \<subseteq> set releasePlatforms"
    using assms(3,5) by (auto simp: ps_def)
  have "p \<in> set ps \<or> p = host \<and> ''--all-platforms'' \<in> set args" using assms(5) by (auto simp: ps_def)
  then have "p \<in> set ps" using p by (auto simp: ps_def)
  moreover have "deps_from dw fs fs" by (simp add: deps_from_def)
  ultimately obtain data where d: "map_of fs' (dep_out p name) = Some data"
    and origin: "deps_from dw fs fs'" and ext: "extends_files fs fs'"
    using download_all_files[OF assms(2) ps run] assms(4) by blast
  have "case map_of fs (dep_out p name) of None \<Rightarrow> dep_data dw p name = Inr data | Some old \<Rightarrow> data = old"
    using d origin ext p assms(4) by (auto simp: deps_from_def extends_files_def split: option.split)
  moreover have "embedded_data p (embedded_from fs') name = Some data" if "data \<noteq> []"
  proof -
    have "map_sum id (\<lambda>q. ''internal/restic/'' @ q) (embeddedPath p name) = Inr (dep_out p name)"
      using release_paths p assms(4) by (auto simp: list_all_iff)
    then obtain q where "embeddedPath p name = Inr q" "''internal/restic/'' @ q = dep_out p name"
      by (cases "embeddedPath p name") auto
    with d that show ?thesis by (simp add: embedded_data_def embedded_from_def)
  qed
  ultimately show ?thesis using d by blast
qed

definition demo_downloads :: downloads where
  "demo_downloads = \<lparr>dw_get = (\<lambda>url. Inr (200, ''200 OK'', Inr url)), dw_bunzip2 = (\<lambda>d. Inr ''restic''),
     dw_zip = (\<lambda>d. Inr [(''rclone-v1.73.5-linux-amd64/rclone'', Inr ''rclone'')])\<rparr>"

definition demo_build_env :: file_env where
  "demo_build_env = \<lparr>fe_error = (\<lambda>_. None), fe_temp = [], fe_partial = [], fe_json_error = (\<lambda>_. [])\<rparr>"

theorem build_feeds_extractor_witness:
  "\<exists>fs'. download_deps demo_downloads demo_build_env [] \<lparr>pf_os = ''linux'', pf_arch = ''amd64''\<rparr> [] = (Inr (), fs') \<and>
     embedded_data \<lparr>pf_os = ''linux'', pf_arch = ''amd64''\<rparr> (embedded_from fs') ''rclone'' = Some ''rclone''"
proof -
  let ?h = "\<lparr>pf_os = ''linux'', pf_arch = ''amd64''\<rparr>"
  have data: "dep_data demo_downloads ?h ''restic'' = Inr ''restic''" "dep_data demo_downloads ?h ''rclone'' = Inr ''rclone''"
    by code_simp+
  have ne: "dep_out ?h ''restic'' \<noteq> dep_out ?h ''rclone''" by code_simp
  obtain fs' where run: "download_deps demo_downloads demo_build_env [] ?h [] = (Inr (), fs')"
    by (simp add: download_deps_def download_one data ne ne[symmetric] fetch_into_def writeExecutable_def write_file_def demo_build_env_def)
  have stat: "\<And>q. fe_error demo_build_env (StatFile q) = None" by (simp add: demo_build_env_def)
  have host: "?h \<in> set releasePlatforms" by (simp add: releasePlatforms_def)
  from build_feeds_extractor[OF run stat host, of "''rclone''" ?h] data run show ?thesis by auto
qed

text \<open>A write that fails leaves a file, which the next run of the script takes for the binary.\<close>

lemma truncated_download_kept:
  assumes "\<And>q. fe_error fe2 (StatFile q) = None" and "map_of fs out = None"
    and "fe_error fe (WriteFile out) = Some e" and "content = Inr data"
  shows "\<exists>m fs'. fetch_into fe out content fs = (Inl m, fs') \<and> map_of fs' out = Some (fe_partial fe) \<and>
    fetch_into fe2 out content2 fs' = (Inr (), fs')"
  using assms by (simp add: fetch_into_def writeExecutable_def write_file_def)

end
