(* ===== verification/Spec2Isabelle.thy ===== *)
theory Spec2Isabelle
  imports HubInvariant EndToEnd HookCheck Privileges Settling JsonFuel Encryption DashboardProofs EnrollProofs
    RestoreProofs ApiSettingsProofs AgentStartProofs DiscoveryProofs ServerStartProofs Telemetry StaticGui
    Observability OidcProvider BuildDeps
begin

text \<open>
\<^bold>\<open>Arkeep\<close>: a verification development of the backup manager, its server (\<open>server/\<close>) and its agent (\<open>agent/\<close>), both
written in Go.

\<^bold>\<open>The program.\<close>  The server keeps users, agents, destinations, policies, jobs and snapshots in a SQL database and serves
a REST API to a web interface.  A scheduler turns policies into jobs and hands each job, as an assignment with a JSON
payload, to the agent that is connected over gRPC.  The agent queues the job, runs restic for every destination of the
payload, and reports status, destination results and log lines back over gRPC; the server writes them into the
database, publishes them to the browsers over a websocket hub, and notifies the administrators of the outcome by row,
mail and webhook.  Agents enroll over HTTP: they present a shared secret and get a client certificate of the server's own
authority, which they use for mutual TLS afterwards.

\<^bold>\<open>How a state is read.\<close>  Every component is a group of definitions in the order of its source file; a Go struct is a
\<^verbatim>\<open>record\<close>, an enumeration a \<^verbatim>\<open>datatype\<close>, a method a function that takes the state and returns it updated, an error the
left side of a sum.  The database is one \<^verbatim>\<open>store\<close> with a table (a list of rows) per model; a repository operation is a
function on it whose faults and generated ids are part of the state, so that theorems quantify over database errors.
Clocks, random bytes, the network, processes and other outside answers are arguments.  Strings are byte strings;
times are instants, compared as such; the dashboard, whose SQL takes days out of stored times, has a parameter \<open>dialect\<close>
for how a database writes and compares them.  Go's integers are \<^verbatim>\<open>int\<close> where the program cannot leave their width,
\<^verbatim>\<open>wrap64\<close> and \<^verbatim>\<open>mod 2 ^ 32\<close> mark the places where it can, and the bytes of an identifier are \<^verbatim>\<open>8 word\<close>.

\<^bold>\<open>Foundations.\<close>
  \<^item> \<open>Prelude\<close>, \<open>GoMap\<close>: strings as in package \<open>strings\<close>, decimal text, Go maps (locale \<open>go_map\<close>).
  \<^item> \<open>Json\<close>, \<open>JsonRoundtrip\<close>, \<open>JsonFuel\<close>: the part of \<open>encoding/json\<close> the program relies on; what is written is read back,
    and the scanner always ends.
  \<^item> \<open>Models\<close>, \<open>Store\<close>, \<open>Frames\<close>: rows, SQL statements with the constraints of the migrations, and what each operation
    leaves alone (locale \<open>table\<close>, interpreted for all thirteen tables).
  \<^item> \<open>Files\<close>, \<open>PathTranslate\<close>: files with their failures, Unix paths and the translation of host paths.

\<^bold>\<open>The server.\<close>
  \<^item> \<open>JobRepository\<close>, \<open>ResourceRepositories\<close>, \<open>AccountRepositories\<close>, \<open>Dashboard\<close>: \<open>repositories/*.go\<close>.
  \<^item> \<open>AgentManager\<close> (locale \<open>registry\<close>), \<open>Scheduler\<close>, \<open>DestUtil\<close>: connected agents, cron table and runs, repository URLs.
  \<^item> \<open>Hub\<close>, \<open>HubInvariant\<close> (locale \<open>broker\<close>): \<open>websocket/*.go\<close> as a step relation.
  \<^item> \<open>Notification\<close>, \<open>Settling\<close>: \<open>notification/*.go\<close>, senders and retrier.
  \<^item> \<open>Proto\<close>, \<open>GrpcServer\<close>: messages and handlers of the gRPC service.
  \<^item> \<open>Auth\<close>, \<open>OidcProvider\<close>, \<open>RateLimit\<close>, \<open>Encryption\<close>, \<open>Certs\<close>: \<open>auth/*.go\<close>, \<open>api/ratelimit.go\<close>, \<open>db/encrypt.go\<close>,
    \<open>grpc/certs.go\<close>.
  \<^item> \<open>Api\<close>, \<open>ApiAuth\<close>, \<open>ApiUsers\<close>, \<open>ApiPolicies\<close>, \<open>ApiResources\<close>, \<open>ApiSnapshots\<close>, \<open>ApiSettings\<close>, \<open>ApiStatus\<close>, \<open>StaticGui\<close>: the
    handlers of \<open>api/*.go\<close>; \<open>Router\<close>: the table of routes, the middlewares and the state they share.
  \<^item> \<open>ServerStart\<close>, \<open>Telemetry\<close>, \<open>Observability\<close>: \<open>cmd/server/main.go\<close> with the opening of the database, the JWT keys and
    the gRPC transport; usage statistics; counters and logs.

\<^bold>\<open>The agent.\<close>
  \<^item> \<open>Restic\<close>, \<open>Executor\<close>: the wrapper around restic, the job handlers, hooks and the queue.  What an agent does is a
    trace of events; what the host answers is a function of the trace so far.
  \<^item> \<open>Connection\<close>: identity file, enrollment, transport, streams, reports, reconnection.
  \<^item> \<open>Extractor\<close>, \<open>BuildDeps\<close>, \<open>Discovery\<close>, \<open>AgentStart\<close>: embedded binaries and the script that fetches them for the build,
    Docker volumes, and \<open>cmd/agent/main.go\<close>.

\<^bold>\<open>What is shown.\<close>
  \<^item> Jobs (\<open>SchedulerProofs\<close>, \<open>PayloadRoundtrip\<close>, \<open>ExecutorProofs\<close>, \<open>ExecutorOutcomes\<close>, \<open>ResticProofs\<close>, \<open>JobReporting\<close>, \<open>GrpcProofs\<close>,
    \<open>ReportProofs\<close>, \<open>EndToEnd\<close>, \<open>RestoreProofs\<close>, \<open>DiscoveryProofs\<close>): a run creates and sends exactly one job; the agent decodes
    what the server encoded; every job ends with exactly one report; the row of the job says what the agent's last
    report said; results and snapshots are stored once, log lines in whole batches, in order, at most once (all of them on a
    working database); a restore runs one command, and leaves out the
    volumes of running containers.
  \<^item> Access (\<open>AuthProofs\<close>, \<open>RouterProofs\<close>, \<open>Views\<close>, \<open>ApiUsersProofs\<close>, \<open>ApiPoliciesProofs\<close>, \<open>HookCheck\<close>, \<open>Privileges\<close>, \<open>Sessions\<close>): which
    tables a request without a valid or an administrator's token can change (one locale per kind of access, interpreted
    for every table), that no sequence of such requests makes an administrator, that hooks are an administrator's, what
    requests about accounts change, that refresh tokens rotate on any database, and that a logout is final.
  \<^item> Agents (\<open>ConnectionProofs\<close>, \<open>CertsProofs\<close>, \<open>EnrollProofs\<close>, \<open>AgentStartProofs\<close>, \<open>ServerStartProofs\<close>, \<open>BuildDeps\<close>): the identity file is
    written atomically, serial numbers are unique over all restarts of the server, enrollment from end to end leaves the issued
    files or changes no configuration, and it outlives a restart, a started
    server admits no call without a credential, and the binaries of the build are those the agent extracts.
  \<^item> Messages (\<open>HubInvariant\<close>, \<open>NotificationProofs\<close>, \<open>Settling\<close>, \<open>ApiSettingsProofs\<close>, \<open>DashboardProofs\<close>): the hub is safe in every
    reachable state, an event adds the administrators' notifications and their deliveries and touches nothing else, on a working
    database every delivery is settled in the end, and the dashboard is what a direct reading of the tables gives.

\<^bold>\<open>Bounds and fuel.\<close>  The JSON scanner recurses on nested values and takes twice the length of the text plus two as fuel;
\<open>JsonFuel\<close> shows that no text needs more.  All other loops are recursions on lists: the messages of a stream, the rows of a
query, the lines of a process, the ticks of a timer.  A loop of a goroutine is either a fold over what it receives or
a step relation; liveness is stated over its rounds.

\<^bold>\<open>Parameters.\<close>  Third-party code is an argument wherever it is used, and a theorem that relies on it names the law it
needs: the cron parser, AES-GCM, Argon2, SHA-256, JWT signing and parsing, identity providers, X.509 and PEM, the TLS and
Docker libraries, SMTP and HTTP servers, gocron, the database drivers, the chi router's matching of paths, restic and
rclone.  Unix is assumed for paths; on Windows only the choice of shells, pipes and file names is modelled.

\<^bold>\<open>Not modelled.\<close>  The Vue interface (another language); generated protobuf code; command line parsing; log output; ping, deadlines and framing of websockets; the
interleaving of statements of concurrent requests (each handler is one step; the comments at the definitions and the
recorded findings say where that matters); graceful shutdown.
\<close>

end
